(* ===== verification/PyValue.thy ===== *)
theory PyValue
  imports Complex_Main "HOL-Library.AList" "HOL-Library.Char_ord" "HOL-Library.List_Lexorder"
    "HOL-Library.Product_Lexorder"
begin

text \<open>
  The prelude of the development: the Python values the platform stores and exchanges
  (JSON values with insertion-ordered dictionaries), the pieces of Python's string and
  equality semantics the code relies on, and the generic lemmas about association lists
  that every component uses.

  A Python \<open>str\<close> is a HOL \<open>string\<close>, so code points are limited to one byte; a
  \<open>dict\<close> with string keys is an association list in insertion order, where assignment
  (\<open>AList.update\<close>) replaces in place or appends, as CPython does; a float is its exact
  rational value or one of the three special values.  Values are immutable in HOL, so the
  defensive \<open>deepcopy\<close> calls of the code are the identity.
\<close>

section \<open>JSON values\<close>

datatype pyfloat = Finite rat | PosInf | NegInf | NaN

datatype json =
    JNull
  | JBool bool
  | JInt int
  | JFloat pyfloat
  | JStr string
  | JList "json list"
  | JObj "(string \<times> json) list"

type_synonym dict = "(string \<times> json) list"

named_theorems dict_simps "rewriting of dictionary reads over writes"

subsection \<open>Dictionary reads and writes\<close>

text \<open>\<open>d.get(k)\<close>, with \<open>None\<close> for a missing key.\<close>

definition dget :: "dict \<Rightarrow> string \<Rightarrow> json" where
  "dget d k = (case map_of d k of None \<Rightarrow> JNull | Some v \<Rightarrow> v)"

text \<open>\<open>d.get(k, default)\<close>.\<close>

definition dget_or :: "dict \<Rightarrow> string \<Rightarrow> json \<Rightarrow> json" where
  "dget_or d k x = (case map_of d k of None \<Rightarrow> x | Some v \<Rightarrow> v)"

definition dkeys :: "(string \<times> 'v) list \<Rightarrow> string list" where
  "dkeys d = map fst d"

definition dhas :: "(string \<times> 'v) list \<Rightarrow> string \<Rightarrow> bool" where
  "dhas d k \<longleftrightarrow> k \<in> fst ` set d"

abbreviation dput :: "string \<Rightarrow> 'v \<Rightarrow> (string \<times> 'v) list \<Rightarrow> (string \<times> 'v) list" where
  "dput \<equiv> AList.update"

abbreviation dpop :: "string \<Rightarrow> (string \<times> 'v) list \<Rightarrow> (string \<times> 'v) list" where
  "dpop \<equiv> AList.delete"

text \<open>\<open>d.update(changes)\<close> and \<open>d.setdefault(k, v)\<close>.\<close>

fun dupdate :: "(string \<times> 'v) list \<Rightarrow> (string \<times> 'v) list \<Rightarrow> (string \<times> 'v) list" where
  "dupdate d [] = d"
| "dupdate d ((k, v) # cs) = dupdate (dput k v d) cs"

definition dsetdefault :: "string \<Rightarrow> 'v \<Rightarrow> (string \<times> 'v) list \<Rightarrow> (string \<times> 'v) list" where
  "dsetdefault k v d = (if dhas d k then d else dput k v d)"

text \<open>\<open>value.get("f")\<close> on a value that may not be a mapping, guarded by \<open>isinstance\<close>.\<close>

fun is_mapping :: "json \<Rightarrow> bool" where
  "is_mapping (JObj d) = True"
| "is_mapping v = False"

fun as_dict :: "json \<Rightarrow> dict" where
  "as_dict (JObj d) = d"
| "as_dict v = []"

fun is_list :: "json \<Rightarrow> bool" where
  "is_list (JList xs) = True"
| "is_list v = False"

fun as_list :: "json \<Rightarrow> json list" where
  "as_list (JList xs) = xs"
| "as_list v = []"

fun is_str :: "json \<Rightarrow> bool" where
  "is_str (JStr s) = True"
| "is_str v = False"

fun as_str :: "json \<Rightarrow> string" where
  "as_str (JStr s) = s"
| "as_str v = []"

definition mget :: "json \<Rightarrow> string \<Rightarrow> json" where
  "mget v k = dget (as_dict v) k"

text \<open>\<open>isinstance(v, str) and v\<close>: a non-empty string.\<close>

definition nonempty_str :: "json \<Rightarrow> bool" where
  "nonempty_str v \<longleftrightarrow> is_str v \<and> as_str v \<noteq> []"

text \<open>\<open>isinstance(v, int) and not isinstance(v, bool)\<close>.\<close>

fun is_int :: "json \<Rightarrow> bool" where
  "is_int (JInt i) = True"
| "is_int v = False"

fun as_int :: "json \<Rightarrow> int" where
  "as_int (JInt i) = i"
| "as_int v = 0"

text \<open>Python truth of a value.\<close>

fun truthy :: "json \<Rightarrow> bool" where
  "truthy JNull = False"
| "truthy (JBool b) = b"
| "truthy (JInt i) = (i \<noteq> 0)"
| "truthy (JFloat f) = (f \<noteq> Finite 0)"
| "truthy (JStr s) = (s \<noteq> [])"
| "truthy (JList xs) = (xs \<noteq> [])"
| "truthy (JObj d) = (d \<noteq> [])"

text \<open>Values that can be members of a set or keys of a dict.\<close>

fun hashable :: "json \<Rightarrow> bool" where
  "hashable (JList xs) = False"
| "hashable (JObj d) = False"
| "hashable v = True"

text \<open>\<open>v in {s1, s2, ...}\<close> for a hashable value and a set of strings.\<close>

definition in_strs :: "json \<Rightarrow> string list \<Rightarrow> bool" where
  "in_strs v ss \<longleftrightarrow> is_str v \<and> as_str v \<in> set ss"

lemma in_strs_JStr [simp]: "in_strs (JStr s) ss \<longleftrightarrow> s \<in> set ss"
  by (simp add: in_strs_def)

lemma nonempty_str_JStr [simp]: "nonempty_str (JStr s) \<longleftrightarrow> s \<noteq> []"
  by (simp add: nonempty_str_def)

lemma nonempty_strE: "nonempty_str v \<Longrightarrow> (\<And>s. v = JStr s \<Longrightarrow> s \<noteq> [] \<Longrightarrow> P) \<Longrightarrow> P"
  by (cases v) (auto simp: nonempty_str_def)

lemma is_mapping_iff: "is_mapping v \<longleftrightarrow> (\<exists>d. v = JObj d)"
  by (cases v) auto

subsection \<open>Python equality\<close>

fun num_value :: "json \<Rightarrow> pyfloat option" where
  "num_value (JBool b) = Some (Finite (if b then 1 else 0))"
| "num_value (JInt i) = Some (Finite (of_int i))"
| "num_value (JFloat f) = Some f"
| "num_value v = None"

text \<open>
  \<open>==\<close>: numbers (booleans included) compare by value and NaN equals nothing; lists
  compare element by element; dictionaries compare as maps, whatever their order.
\<close>

lemma json_size_entry [termination_simp]:
  "(k, v) \<in> set d \<Longrightarrow> size (v :: json) < Suc (size_list (size_prod (\<lambda>_. 0) size) d)"
  by (induction d) auto

fun py_eq :: "json \<Rightarrow> json \<Rightarrow> bool" where
  "py_eq JNull w = (w = JNull)"
| "py_eq (JStr s) w = (w = JStr s)"
| "py_eq (JList xs) w = (case w of JList ys \<Rightarrow> list_all2 py_eq xs ys | _ \<Rightarrow> False)"
| "py_eq (JObj d) w = (case w of JObj e \<Rightarrow>
      length d = length e \<and>
      list_all (\<lambda>(k, v). case map_of e k of None \<Rightarrow> False | Some v' \<Rightarrow> py_eq v v') d
    | _ \<Rightarrow> False)"
| "py_eq v w = (case (num_value v, num_value w) of
      (Some a, Some b) \<Rightarrow> a = b \<and> a \<noteq> NaN
    | _ \<Rightarrow> False)"


lemma py_eq_JStr [simp]: "py_eq v (JStr s) \<longleftrightarrow> v = JStr s"
  by (cases v) auto

section \<open>Strings\<close>

subsection \<open>Whitespace\<close>

text \<open>\<open>str.isspace\<close> on one-byte code points, and \<open>str.strip()\<close>.\<close>

definition py_space :: "char \<Rightarrow> bool" where
  "py_space c \<longleftrightarrow> of_char c \<in> {9, 10, 11, 12, 13, 28, 29, 30, 31, 32, 133, 160 :: nat}"

definition py_lstrip :: "string \<Rightarrow> string" where
  "py_lstrip s = dropWhile py_space s"

definition py_strip :: "string \<Rightarrow> string" where
  "py_strip s = rev (py_lstrip (rev (py_lstrip s)))"

lemma py_strip_Nil [simp]: "py_strip [] = []"
  by (simp add: py_strip_def py_lstrip_def)

lemma py_strip_eq_Nil_iff: "py_strip s = [] \<longleftrightarrow> (\<forall>c \<in> set s. py_space c)"
proof -
  have "py_strip s = [] \<longleftrightarrow> (\<forall>c \<in> set (dropWhile py_space s). py_space c)"
    by (simp add: py_strip_def py_lstrip_def)
  also have "\<dots> \<longleftrightarrow> dropWhile py_space s = []"
  proof
    assume all: "\<forall>c \<in> set (dropWhile py_space s). py_space c"
    show "dropWhile py_space s = []"
    proof (rule ccontr)
      assume "dropWhile py_space s \<noteq> []"
      then have "\<not> py_space (hd (dropWhile py_space s))" by (rule hd_dropWhile)
      with all \<open>dropWhile py_space s \<noteq> []\<close> show False by (meson hd_in_set)
    qed
  qed (metis empty_iff empty_set)
  finally show ?thesis by (simp only: dropWhile_eq_Nil_conv)
qed

subsection \<open>Decimal numerals\<close>

definition dec_digit :: "nat \<Rightarrow> char" where
  "dec_digit n = ''0123456789'' ! n"

function dec_pos :: "int \<Rightarrow> string" where
  "dec_pos i =
     (if i < 10 then [dec_digit (nat i)]
      else dec_pos (i div 10) @ [dec_digit (nat (i mod 10))])"
  by pat_completeness auto
termination
  by (relation "measure nat") auto

declare dec_pos.simps [simp del]

definition dec_int :: "int \<Rightarrow> string" where
  "dec_int i = (if i < 0 then ''-'' @ dec_pos (- i) else dec_pos i)"

definition dec_nat :: "nat \<Rightarrow> string" where
  "dec_nat n = dec_pos (int n)"

lemma dec_pos_nonempty [simp]: "dec_pos n \<noteq> []"
  by (subst dec_pos.simps) simp

subsection \<open>Floating-point text\<close>

text \<open>
  \<open>repr\<close> of a finite float: the fewest significant digits that read back as the same
  double, the closest of them on a tie in length.  \<open>round_double\<close> is rounding to the
  nearest IEEE double, ties to even, on the magnitudes between the subnormals and
  overflow.
\<close>

function digit_count :: "int \<Rightarrow> int \<Rightarrow> int" where
  "digit_count b i = (if i \<le> 0 \<or> b \<le> 1 then 0 else 1 + digit_count b (i div b))"
  by pat_completeness auto
termination
  by (relation "measure (\<lambda>(b, i). nat i)") (auto simp: int_div_less_self)

declare digit_count.simps [simp del]

definition floor_log :: "int \<Rightarrow> rat \<Rightarrow> int" where
  \<comment> \<open>the \<open>e\<close> with \<open>b ^ e \<le> r < b ^ (e + 1)\<close>, for positive \<open>r\<close>\<close>
  "floor_log b r =
     (let (p, q) = quotient_of r;
          e = digit_count b p - digit_count b q
      in if of_int b powi e \<le> r
         then (if of_int b powi (e + 1) \<le> r then e + 1 else e) else e - 1)"

definition round_half_even :: "rat \<Rightarrow> int" where
  "round_half_even r =
     (let f = \<lfloor>r\<rfloor>; d = r - of_int f
      in if d < 1 / 2 then f else if d > 1 / 2 then f + 1 else if even f then f else f + 1)"

definition round_double :: "rat \<Rightarrow> rat" where
  "round_double r =
     (if r = 0 then 0
      else let e = max (floor_log 2 \<bar>r\<bar> - 52) (-1074)
           in of_int (round_half_even (r / 2 powi e)) * 2 powi e)"

definition shortest_digits :: "rat \<Rightarrow> int \<times> int" where
  \<comment> \<open>significand and decimal exponent of the shortest text of a positive double\<close>
  "shortest_digits r =
     (let e = floor_log 10 r;
          scale = (\<lambda>n. 10 powi (e - int n + 1));
          cands = (\<lambda>n. filter (\<lambda>m. round_double (of_int m * scale n) = r)
                        [\<lfloor>r / scale n\<rfloor>, \<lfloor>r / scale n\<rfloor> + 1]);
          closest = (\<lambda>n ms. foldl (\<lambda>m m'. if \<bar>of_int m' * scale n - r\<bar> < \<bar>of_int m * scale n - r\<bar>
                                 then m' else m) (hd ms) (tl ms))
      in case find (\<lambda>n. cands n \<noteq> []) [1..<18] of
           None \<Rightarrow> (\<lfloor>r / scale 17\<rfloor>, e - 16)
         | Some n \<Rightarrow> (let m = closest n (cands n)
                      in if m = 10 ^ n then (1, e + 1) else (m, e - int n + 1)))"

definition positive_float_repr :: "rat \<Rightarrow> string" where
  "positive_float_repr r =
     (let (m, k) = shortest_digits r;
          ds = dec_pos m;
          point = int (length ds) + k
      in if -4 < point \<and> point \<le> 16 then
           (if point \<le> 0 then ''0.'' @ replicate (nat (- point)) CHR ''0'' @ ds
            else if point < int (length ds)
                 then take (nat point) ds @ ''.'' @ drop (nat point) ds
                 else ds @ replicate (nat point - length ds) CHR ''0'' @ ''.0'')
         else (let ex = point - 1;
                   es = dec_pos \<bar>ex\<bar>;
                   frac = (if tl ds = [] then [] else ''.'' @ tl ds)
               in [hd ds] @ frac @ ''e'' @ (if ex < 0 then ''-'' else ''+'')
                  @ (if length es < 2 then ''0'' else []) @ es))"

fun float_repr :: "pyfloat \<Rightarrow> string" where
  "float_repr PosInf = ''inf''"
| "float_repr NegInf = ''-inf''"
| "float_repr NaN = ''nan''"
| "float_repr (Finite r) =
     (if r = 0 then ''0.0''
      else if r < 0 then ''-'' @ positive_float_repr (- r) else positive_float_repr r)"

subsection \<open>repr and str\<close>

definition hex_digit :: "nat \<Rightarrow> char" where
  "hex_digit n = ''0123456789abcdef'' ! n"

definition escape_char :: "char \<Rightarrow> char \<Rightarrow> string" where
  "escape_char quote c =
     (let n = of_char c :: nat
      in if c = quote \<or> n = 92 then [CHR 0x5C, c]
         else if n = 10 then [CHR 0x5C, CHR ''n'']
         else if n = 13 then [CHR 0x5C, CHR ''r'']
         else if n = 9 then [CHR 0x5C, CHR ''t'']
         else if n < 32 \<or> (127 \<le> n \<and> n \<le> 160) \<or> n = 173
              then [CHR 0x5C, CHR ''x'', hex_digit (n div 16), hex_digit (n mod 16)]
         else [c])"

definition repr_str :: "string \<Rightarrow> string" where
  "repr_str s =
     (let q = (if CHR 0x27 \<in> set s \<and> CHR 0x22 \<notin> set s then CHR 0x22 else CHR 0x27)
      in [q] @ concat (map (escape_char q) s) @ [q])"

fun commas :: "string list \<Rightarrow> string" where
  "commas [] = []"
| "commas [x] = x"
| "commas (x # y # zs) = x @ '', '' @ commas (y # zs)"

fun py_repr :: "json \<Rightarrow> string" where
  "py_repr JNull = ''None''"
| "py_repr (JBool b) = (if b then ''True'' else ''False'')"
| "py_repr (JInt i) = dec_int i"
| "py_repr (JFloat f) = float_repr f"
| "py_repr (JStr s) = repr_str s"
| "py_repr (JList xs) = ''['' @ commas (map py_repr xs) @ '']''"
| "py_repr (JObj d) = ''{'' @ commas (map (\<lambda>(k, v). repr_str k @ '': '' @ py_repr v) d) @ ''}''"

text \<open>\<open>str(v)\<close>.\<close>

fun py_str :: "json \<Rightarrow> string" where
  "py_str (JStr s) = s"
| "py_str v = py_repr v"

definition repr_strs :: "string list \<Rightarrow> string" where
  "repr_strs ss = py_repr (JList (map JStr ss))"

section \<open>Canonical order\<close>

text \<open>
  \<open>json.dumps(..., sort_keys=True)\<close> followed by \<open>json.loads\<close>: the same value with the
  entries of every dictionary sorted by key.
\<close>

fun canon :: "json \<Rightarrow> json" where
  "canon (JList xs) = JList (map canon xs)"
| "canon (JObj d) = JObj (sort_key fst (map (\<lambda>(k, v). (k, canon v)) d))"
| "canon v = v"

definition canon_dict :: "dict \<Rightarrow> dict" where
  "canon_dict d = sort_key fst (map (\<lambda>(k, v). (k, canon v)) d)"

lemma canon_JObj: "canon (JObj d) = JObj (canon_dict d)"
  by (simp add: canon_dict_def)

section \<open>Lemmas on dictionaries\<close>

lemma dhas_iff: "dhas d k \<longleftrightarrow> map_of d k \<noteq> None"
  by (metis dhas_def map_of_eq_None_iff)

lemma map_of_dput [dict_simps]: "map_of (dput k v d) k' = (if k' = k then Some v else map_of d k')"
  by (simp add: update_conv')

lemma map_of_dpop [dict_simps]: "map_of (dpop k d) k' = (if k' = k then None else map_of d k')"
  by (simp add: delete_conv')

lemma map_of_dsetdefault [dict_simps]:
  "map_of (dsetdefault k v d) k' = (if k' = k \<and> map_of d k = None then Some v else map_of d k')"
  by (auto simp: dsetdefault_def dhas_iff map_of_dput)

lemma dget_dput [dict_simps]: "dget (dput k v d) k' = (if k' = k then v else dget d k')"
  by (simp add: dget_def map_of_dput)

lemma dget_dpop [dict_simps]: "dget (dpop k d) k' = (if k' = k then JNull else dget d k')"
  by (simp add: dget_def map_of_dpop)

lemma dget_Nil [dict_simps]: "dget [] k = JNull"
  by (simp add: dget_def)

lemma dget_Cons [dict_simps]: "dget ((k, v) # d) k' = (if k' = k then v else dget d k')"
  by (simp add: dget_def)

lemma dget_Some: "map_of d k = Some v \<Longrightarrow> dget d k = v"
  by (simp add: dget_def)

lemma map_of_dupdate:
  "map_of (dupdate d cs) k = (if k \<in> fst ` set cs then map_of (rev cs) k else map_of d k)"
proof (induction cs arbitrary: d)
  case (Cons c cs)
  obtain k' v where c: "c = (k', v)" by (cases c)
  show ?case
  proof (cases "k \<in> fst ` set cs")
    case True
    then have "map_of (rev cs) k \<noteq> None" by (simp add: map_of_eq_None_iff)
    with True show ?thesis by (auto simp: Cons.IH c map_add_def split: option.splits)
  next
    case False
    then have "map_of (rev cs) k = None" by (simp add: map_of_eq_None_iff)
    with False show ?thesis by (auto simp: Cons.IH c map_of_dput map_add_def)
  qed
qed simp

lemma map_of_dupdate_other: "k \<notin> fst ` set cs \<Longrightarrow> map_of (dupdate d cs) k = map_of d k"
  by (simp add: map_of_dupdate)

lemma dget_dupdate_other: "k \<notin> fst ` set cs \<Longrightarrow> dget (dupdate d cs) k = dget d k"
  by (simp add: dget_def map_of_dupdate_other)

lemma distinct_dput [simp]: "distinct (map fst (dput k v d)) = distinct (map fst d)"
  by (auto simp: distinct_update update_keys)

lemma keys_dput [dict_simps]: "fst ` set (dput k v d) = insert k (fst ` set d)"
  using dom_map_of_conv_image_fst [of "dput k v d"] dom_map_of_conv_image_fst [of d]
  by (auto simp: update_conv')

lemma keys_dpop [dict_simps]: "fst ` set (dpop k d) = fst ` set d - {k}"
  using dom_map_of_conv_image_fst [of "dpop k d"] dom_map_of_conv_image_fst [of d]
  by (auto simp: delete_conv')

lemma map_dput_present:
  "k \<in> fst ` set d \<Longrightarrow> map fst (dput k v d) = map fst d"
  by (simp add: update_keys)

lemma map_dput_absent:
  "k \<notin> fst ` set d \<Longrightarrow> dput k v d = d @ [(k, v)]"
  by (induction d) auto

lemma dput_same: "map_of d k = Some v \<Longrightarrow> dput k v d = d"
  by (induction d) auto

section \<open>Lemmas on canonical order\<close>


lemma map_of_filter_key: "map_of xs k = map_of (filter (\<lambda>p. fst p = k) xs) k"
  by (induction xs) auto

lemma map_of_sort_key: "map_of (sort_key fst xs) k = map_of xs k"
proof -
  have "map_of (sort_key fst xs) k = map_of (filter (\<lambda>p. fst p = k) (sort_key fst xs)) k"
    by (rule map_of_filter_key)
  also have "\<dots> = map_of (filter (\<lambda>p. fst p = k) xs) k"
    by (simp add: sort_key_stable)
  also have "\<dots> = map_of xs k" by (rule map_of_filter_key [symmetric])
  finally show ?thesis .
qed

lemma insort_key_map_fst:
  "insort_key fst (k, f v) (map (\<lambda>(k, v). (k, f v)) xs)
     = map (\<lambda>(k, v). (k, f v)) (insort_key fst (k, v) xs)"
  by (induction xs) auto

lemma sort_key_map_fst:
  "sort_key fst (map (\<lambda>(k, v). (k, f v)) xs) = map (\<lambda>(k, v). (k, f v)) (sort_key fst xs)"
proof (induction xs)
  case (Cons p xs)
  obtain k v where "p = (k, v)" by (cases p)
  with Cons show ?case by (simp add: insort_key_map_fst)
qed simp

lemma canon_idem: "canon (canon v) = canon v"
proof (induction v rule: canon.induct)
  case (2 d)
  let ?g = "\<lambda>(k, v). (k :: string, canon v)"
  have twice: "map ?g (map ?g d) = map ?g d"
    using 2 by auto
  have again: "sort_key fst (sort_key fst xs) = sort_key fst xs" for xs :: dict
    by (rule sort_key_id_if_sorted) simp
  have "map ?g (sort_key fst (map ?g d)) = sort_key fst (map ?g d)"
    using twice by (simp only: sort_key_map_fst [symmetric])
  then show ?case by (simp only: canon.simps again)
qed simp_all

lemma canon_dict_idem: "canon_dict (canon_dict d) = canon_dict d"
  using canon_idem [of "JObj d"] by (simp only: canon_JObj json.inject)

lemma map_of_canon_dict: "map_of (canon_dict d) k = map_option canon (map_of d k)"
  unfolding canon_dict_def by (simp only: map_of_sort_key) (simp add: map_of_map)

lemma keys_canon_dict: "fst ` set (canon_dict d) = fst ` set d"
  by (force simp: canon_dict_def)

lemma canon_eq_JStr [simp]: "canon v = JStr s \<longleftrightarrow> v = JStr s"
  by (cases v) auto

lemma dget_canon_dict: "dget (canon_dict d) k = canon (dget d k)"
  by (simp add: dget_def map_of_canon_dict split: option.split)

declare canon.simps(2) [simp del] canon_JObj [simp]

lemma py_eq_field:
  assumes "py_eq (JObj d) (JObj e)" "dget d k = JStr a"
  shows "dget e k = JStr a"
proof -
  from assms(2) have "map_of d k = Some (JStr a)" by (auto simp: dget_def split: option.splits)
  then have "(k, JStr a) \<in> set d" by (rule map_of_SomeD)
  with assms(1) show ?thesis by (fastforce simp: list_all_iff dget_def split: option.splits)
qed

end
