(* ===== verification/PyEffect.thy ===== *)
theory PyEffect
  imports PyValue
begin

text \<open>
  Exceptions and effects.  A raise is a value: \<open>exn + 'a\<close> for a function without
  state, and \<open>('s, 'a) eff\<close> for a method that reads and writes an object's state, where
  the state reached at a raise is kept (Python does not undo mutations).  An exception
  carries its class, its message and the payload its constructor stores (\<open>details\<close>,
  \<open>diagnostic\<close> or \<open>code\<close>).

  \<open>keeps R m\<close> says that an operation only moves the state along \<open>R\<close>; the locale
  \<open>step_rel\<close> lifts it through the combinators for every reflexive and transitive \<open>R\<close>.
\<close>

section \<open>Exceptions\<close>

datatype exn_class =
    ValueError | TypeError | KeyError | PermissionError | OSError | NotImplementedError
  | RuntimeStoreError | RuntimeObjectNotFoundError | RuntimeObjectAlreadyExistsError
  | ImmutableRuntimeObjectError | StatusConflictError
  | ObservabilityContractError
  | InvalidTaskTransitionError | TaskRetryNotAllowedError | InvalidTaskReferenceError
  | TaskDagResolutionError | InvalidWorkflowGraphError | MissingTaskResourceError
  | MissingDependencyNodeError | DuplicateTaskIdentityError | CyclicTaskDependencyError
  | WorkflowResolutionError | InvalidNormalizedEventError | InvalidTriggerConfigurationError
  | AmbiguousWorkflowMatchError
  | InvalidWorkflowExecutionInputError
  | ApprovalError | ApprovalAuthorizationError
  | InvalidSchedulerInputError
  | CapabilityPolicyContractError | CapabilityPolicyIdentityConflictError
  | ResourceLoaderError | ResourceFileNotFoundError | ResourceParseError
  | ResourceValidationError | DuplicateResourceError | DuplicateWorkspaceError
  | MissingResourceReferenceError | FloatingResourceVersionError
  | ExecutionBudgetError | ExecutionBudgetContractError | ExecutionBudgetExceeded
  | OtherException string

text \<open>The classes of the modules no other one catches are named; their bases are in a table.\<close>

definition other_bases :: "string \<Rightarrow> exn_class list" where
  "other_bases name = (case map_of
     [(''StrictProviderSchemaError'', [ValueError]),
      (''EvaluationSuiteError'', [ValueError]),
      (''ExperimentError'', [ValueError]),
      (''PatchEvaluationContractError'', [ValueError]),
      (''LocalizedPatchError'', [ValueError]),
      (''GitHubEventValidationError'', [ValueError]),
      (''SchemaEvaluationContractError'', [ValueError]),
      (''PublicationPolicyContractError'', [ValueError]),
      (''PublicationPolicyIdentityConflictError'', [OtherException ''PublicationPolicyContractError'', ValueError]),
      (''CoordinatorStateError'', [OtherException ''RuntimeError'']),
      (''GeneratedArtifactNotFoundError'', [OtherException ''GeneratedArtifactStoreError'']),
      (''ImmutableGeneratedArtifactError'', [OtherException ''GeneratedArtifactStoreError'']),
      (''GeneratedArtifactValidationError'', [OtherException ''GeneratedArtifactStoreError'']),
      (''ContentIntegrityError'', [OtherException ''GeneratedArtifactStoreError'']),
      (''ToolSchemaValidationError'', [ValueError]),
      (''ToolAdapterError'', [OtherException ''RuntimeError'']),
      (''DockerStartupError'', [OtherException ''ToolAdapterError'', OtherException ''RuntimeError'']),
      (''DockerImageReadinessError'', [OtherException ''ToolAdapterError'', OtherException ''RuntimeError'']),
      (''AgentResolutionError'', [ValueError]),
      (''InvalidAgentReferenceError'', [OtherException ''AgentResolutionError'', ValueError]),
      (''MissingAgentResourceError'', [OtherException ''AgentResolutionError'', ValueError]),
      (''AgentToolDeniedError'', [OtherException ''AgentResolutionError'', ValueError]),
      (''EvaluateAcceptanceContractError'', [ValueError]),
      (''AgentInvocationContractError'', [ValueError]),
      (''AnalyzeIssueContractError'', [ValueError]),
      (''BuildImplementationPlanContractError'', [OtherException ''AnalyzeIssueContractError'', ValueError]),
      (''BuildTestEvaluationContractError'', [ValueError]),
      (''PlanningEvidenceError'', [ValueError]),
      (''CandidateReconciliationError'', [OtherException ''PlanningEvidenceError'', ValueError]),
      (''PlanningEvidenceInspectionError'', [OtherException ''PlanningEvidenceError'', ValueError]),
      (''CheckoutProvisionError'', [OtherException ''RuntimeError'']),
      (''CheckoutClaimInProgress'', [OtherException ''CheckoutProvisionError'', OtherException ''RuntimeError'']),
      (''CheckoutCacheClaimInProgress'', [OtherException ''CheckoutProvisionError'', OtherException ''RuntimeError'']),
      (''ContextBudgetExceededError'', [OtherException ''ContextBuilderError'']),
      (''ContextInputValidationError'', [OtherException ''ContextBuilderError'']),
      (''ContextPackageValidationError'', [OtherException ''ContextBuilderError'']),
      (''ImmutableContextPackageError'', [OtherException ''ContextBuilderError'']),
      (''RequiredContextError'', [OtherException ''ContextBuilderError'']),
      (''CreatePullRequestContractError'', [ValueError]),
      (''GeneratePatchContractError'', [OtherException ''AnalyzeIssueContractError'', ValueError]),
      (''DisallowedPatchPathError'', [OtherException ''GeneratePatchContractError'', OtherException ''AnalyzeIssueContractError'', ValueError]),
      (''RejectedPatchCandidateError'', [OtherException ''GeneratePatchContractError'', OtherException ''AnalyzeIssueContractError'', ValueError]),
      (''DogfoodDeploymentConfigurationError'', [ValueError]),
      (''DogfoodReconciliationError'', [OtherException ''RuntimeError'']),
      (''LocalServiceConfigurationError'', [ValueError]),
      (''DockerInvocationIdentityConflictError'', [ValueError]),
      (''FilesystemBoundaryError'', [ValueError]),
      (''FilesystemInvocationIdentityConflictError'', [ValueError]),
      (''FilesystemInvocationInProgressError'', [OtherException ''RuntimeError'']),
      (''GitToolContractError'', [ValueError]),
      (''GitInvocationIdentityConflictError'', [ValueError]),
      (''GitInvocationInProgressError'', [OtherException ''RuntimeError'']),
      (''InspectionError'', [ValueError]),
      (''ModelProviderConfigurationError'', [ValueError]),
      (''ReplayError'', [ValueError]),
      (''RunValidationContractError'', [ValueError]),
      (''InvalidRepositoryRevisionError'', [OtherException ''RepositoryScanError'']),
      (''NotGitRepositoryError'', [OtherException ''RepositoryScanError'']),
      (''OverflowError'', [OtherException ''ArithmeticError'']),
      (''InvalidOperation'', [OtherException ''ArithmeticError'']),
      (''ZeroDivisionError'', [OtherException ''ArithmeticError''])] name of None \<Rightarrow> [] | Some bases \<Rightarrow> bases)"

abbreviation ToolSchemaValidationError :: exn_class where "ToolSchemaValidationError \<equiv> OtherException ''ToolSchemaValidationError''"
abbreviation ToolAdapterError :: exn_class where "ToolAdapterError \<equiv> OtherException ''ToolAdapterError''"
abbreviation AgentResolutionError :: exn_class where "AgentResolutionError \<equiv> OtherException ''AgentResolutionError''"
abbreviation InvalidAgentReferenceError :: exn_class where "InvalidAgentReferenceError \<equiv> OtherException ''InvalidAgentReferenceError''"
abbreviation MissingAgentResourceError :: exn_class where "MissingAgentResourceError \<equiv> OtherException ''MissingAgentResourceError''"
abbreviation AgentToolDeniedError :: exn_class where "AgentToolDeniedError \<equiv> OtherException ''AgentToolDeniedError''"
abbreviation EvaluateAcceptanceContractError :: exn_class where "EvaluateAcceptanceContractError \<equiv> OtherException ''EvaluateAcceptanceContractError''"
abbreviation IndexError :: exn_class where "IndexError \<equiv> OtherException ''IndexError''"
abbreviation InvalidOperation :: exn_class where "InvalidOperation \<equiv> OtherException ''InvalidOperation''"
abbreviation StrictProviderSchemaError :: exn_class where "StrictProviderSchemaError \<equiv> OtherException ''StrictProviderSchemaError''"
abbreviation EvaluationSuiteError :: exn_class where "EvaluationSuiteError \<equiv> OtherException ''EvaluationSuiteError''"
abbreviation ExperimentError :: exn_class where "ExperimentError \<equiv> OtherException ''ExperimentError''"
abbreviation PatchEvaluationContractError :: exn_class where "PatchEvaluationContractError \<equiv> OtherException ''PatchEvaluationContractError''"
abbreviation LocalizedPatchError :: exn_class where "LocalizedPatchError \<equiv> OtherException ''LocalizedPatchError''"
abbreviation GitHubEventValidationError :: exn_class where "GitHubEventValidationError \<equiv> OtherException ''GitHubEventValidationError''"
abbreviation SchemaEvaluationContractError :: exn_class where "SchemaEvaluationContractError \<equiv> OtherException ''SchemaEvaluationContractError''"
abbreviation PublicationPolicyContractError :: exn_class where "PublicationPolicyContractError \<equiv> OtherException ''PublicationPolicyContractError''"
abbreviation PublicationPolicyIdentityConflictError :: exn_class where "PublicationPolicyIdentityConflictError \<equiv> OtherException ''PublicationPolicyIdentityConflictError''"
abbreviation RuntimeError :: exn_class where "RuntimeError \<equiv> OtherException ''RuntimeError''"
abbreviation CoordinatorStateError :: exn_class where "CoordinatorStateError \<equiv> OtherException ''CoordinatorStateError''"
abbreviation GeneratedArtifactStoreError :: exn_class where "GeneratedArtifactStoreError \<equiv> OtherException ''GeneratedArtifactStoreError''"
abbreviation GeneratedArtifactNotFoundError :: exn_class where "GeneratedArtifactNotFoundError \<equiv> OtherException ''GeneratedArtifactNotFoundError''"
abbreviation ImmutableGeneratedArtifactError :: exn_class where "ImmutableGeneratedArtifactError \<equiv> OtherException ''ImmutableGeneratedArtifactError''"
abbreviation GeneratedArtifactValidationError :: exn_class where "GeneratedArtifactValidationError \<equiv> OtherException ''GeneratedArtifactValidationError''"
abbreviation ContentIntegrityError :: exn_class where "ContentIntegrityError \<equiv> OtherException ''ContentIntegrityError''"
abbreviation OverflowError :: exn_class where "OverflowError \<equiv> OtherException ''OverflowError''"
abbreviation ArithmeticError :: exn_class where "ArithmeticError \<equiv> OtherException ''ArithmeticError''"
abbreviation ZeroDivisionError :: exn_class where "ZeroDivisionError \<equiv> OtherException ''ZeroDivisionError''"

text \<open>The modelled base classes of a class, nearest first.\<close>

fun exn_bases :: "exn_class \<Rightarrow> exn_class list" where
  "exn_bases PermissionError = [OSError]"
| "exn_bases RuntimeObjectNotFoundError = [RuntimeStoreError]"
| "exn_bases RuntimeObjectAlreadyExistsError = [RuntimeStoreError]"
| "exn_bases ImmutableRuntimeObjectError = [RuntimeStoreError]"
| "exn_bases StatusConflictError = [RuntimeStoreError]"
| "exn_bases ObservabilityContractError = [ValueError]"
| "exn_bases InvalidTaskTransitionError = [ValueError]"
| "exn_bases TaskRetryNotAllowedError = [ValueError]"
| "exn_bases InvalidTaskReferenceError = [ValueError]"
| "exn_bases TaskDagResolutionError = [ValueError]"
| "exn_bases InvalidWorkflowGraphError = [TaskDagResolutionError, ValueError]"
| "exn_bases MissingTaskResourceError = [TaskDagResolutionError, ValueError]"
| "exn_bases MissingDependencyNodeError = [TaskDagResolutionError, ValueError]"
| "exn_bases DuplicateTaskIdentityError = [TaskDagResolutionError, ValueError]"
| "exn_bases CyclicTaskDependencyError = [TaskDagResolutionError, ValueError]"
| "exn_bases WorkflowResolutionError = [ValueError]"
| "exn_bases InvalidNormalizedEventError = [WorkflowResolutionError, ValueError]"
| "exn_bases InvalidTriggerConfigurationError = [WorkflowResolutionError, ValueError]"
| "exn_bases AmbiguousWorkflowMatchError = [WorkflowResolutionError, ValueError]"
| "exn_bases InvalidWorkflowExecutionInputError = [ValueError]"
| "exn_bases ApprovalError = [ValueError]"
| "exn_bases ApprovalAuthorizationError = [PermissionError, OSError]"
| "exn_bases InvalidSchedulerInputError = [ValueError]"
| "exn_bases CapabilityPolicyContractError = [ValueError]"
| "exn_bases CapabilityPolicyIdentityConflictError = [CapabilityPolicyContractError, ValueError]"
| "exn_bases ResourceFileNotFoundError = [ResourceLoaderError]"
| "exn_bases ResourceParseError = [ResourceLoaderError]"
| "exn_bases ResourceValidationError = [ResourceLoaderError]"
| "exn_bases DuplicateResourceError = [ResourceLoaderError]"
| "exn_bases DuplicateWorkspaceError = [ResourceLoaderError]"
| "exn_bases MissingResourceReferenceError = [ResourceLoaderError]"
| "exn_bases FloatingResourceVersionError = [ResourceLoaderError]"
| "exn_bases ExecutionBudgetError = [ValueError]"
| "exn_bases ExecutionBudgetContractError = [ExecutionBudgetError, ValueError]"
| "exn_bases ExecutionBudgetExceeded = [ExecutionBudgetError, ValueError]"
| "exn_bases (OtherException name) = other_bases name"
| "exn_bases _ = []"

datatype exn = Exn (exn_cls: exn_class) (exn_msg: string) (exn_info: json)

text \<open>\<open>isinstance(error, C)\<close>, the test of an \<open>except C\<close> clause.\<close>

definition instance_of :: "exn \<Rightarrow> exn_class \<Rightarrow> bool" where
  "instance_of e c \<longleftrightarrow> exn_cls e = c \<or> c \<in> set (exn_bases (exn_cls e))"

abbreviation value_error :: "string \<Rightarrow> exn" where
  "value_error m \<equiv> Exn ValueError m JNull"

abbreviation type_error :: "string \<Rightarrow> exn" where
  "type_error m \<equiv> Exn TypeError m JNull"

text \<open>Using an unhashable value as a set member or dictionary key.\<close>

definition unhashable_error :: exn where
  "unhashable_error = type_error ''unhashable type''"

text \<open>\<open>d[k]\<close>.\<close>

definition getitem :: "dict \<Rightarrow> string \<Rightarrow> exn + json" where
  "getitem d k = (case map_of d k of None \<Rightarrow> Inl (Exn KeyError k JNull) | Some v \<Rightarrow> Inr v)"

text \<open>\<open>a or b\<close> on values.\<close>

definition py_or :: "json \<Rightarrow> json \<Rightarrow> json" where
  "py_or a b = (if truthy a then a else b)"

text \<open>Iteration over a value: list elements, characters, keys.\<close>

fun py_iter :: "json \<Rightarrow> exn + json list" where
  "py_iter (JList xs) = Inr xs"
| "py_iter (JStr s) = Inr (map (\<lambda>c. JStr [c]) s)"
| "py_iter (JObj d) = Inr (map (\<lambda>(k, v). JStr k) d)"
| "py_iter v = Inl (type_error ''object is not iterable'')"

text \<open>
  \<open>dict(v)\<close> on a JSON value: mappings only (the code applies it to mappings; sequences of
  pairs, which Python would accept too, are refused).
\<close>

definition py_dict :: "json \<Rightarrow> exn + dict" where
  "py_dict v = (if is_mapping v then Inr (as_dict v) else Inl (type_error ''object is not a mapping''))"

text \<open>\<open>type(error).__name__\<close>.\<close>

fun class_name :: "exn_class \<Rightarrow> string" where
  "class_name ValueError = ''ValueError''"
| "class_name TypeError = ''TypeError''"
| "class_name KeyError = ''KeyError''"
| "class_name PermissionError = ''PermissionError''"
| "class_name OSError = ''OSError''"
| "class_name NotImplementedError = ''NotImplementedError''"
| "class_name RuntimeStoreError = ''RuntimeStoreError''"
| "class_name RuntimeObjectNotFoundError = ''RuntimeObjectNotFoundError''"
| "class_name RuntimeObjectAlreadyExistsError = ''RuntimeObjectAlreadyExistsError''"
| "class_name ImmutableRuntimeObjectError = ''ImmutableRuntimeObjectError''"
| "class_name StatusConflictError = ''StatusConflictError''"
| "class_name ObservabilityContractError = ''ObservabilityContractError''"
| "class_name InvalidTaskTransitionError = ''InvalidTaskTransitionError''"
| "class_name TaskRetryNotAllowedError = ''TaskRetryNotAllowedError''"
| "class_name InvalidTaskReferenceError = ''InvalidTaskReferenceError''"
| "class_name TaskDagResolutionError = ''TaskDagResolutionError''"
| "class_name InvalidWorkflowGraphError = ''InvalidWorkflowGraphError''"
| "class_name MissingTaskResourceError = ''MissingTaskResourceError''"
| "class_name MissingDependencyNodeError = ''MissingDependencyNodeError''"
| "class_name DuplicateTaskIdentityError = ''DuplicateTaskIdentityError''"
| "class_name CyclicTaskDependencyError = ''CyclicTaskDependencyError''"
| "class_name WorkflowResolutionError = ''WorkflowResolutionError''"
| "class_name InvalidNormalizedEventError = ''InvalidNormalizedEventError''"
| "class_name InvalidTriggerConfigurationError = ''InvalidTriggerConfigurationError''"
| "class_name AmbiguousWorkflowMatchError = ''AmbiguousWorkflowMatchError''"
| "class_name InvalidWorkflowExecutionInputError = ''InvalidWorkflowExecutionInputError''"
| "class_name ApprovalError = ''ApprovalError''"
| "class_name ApprovalAuthorizationError = ''ApprovalAuthorizationError''"
| "class_name InvalidSchedulerInputError = ''InvalidSchedulerInputError''"
| "class_name CapabilityPolicyContractError = ''CapabilityPolicyContractError''"
| "class_name CapabilityPolicyIdentityConflictError = ''CapabilityPolicyIdentityConflictError''"
| "class_name ResourceLoaderError = ''ResourceLoaderError''"
| "class_name ResourceFileNotFoundError = ''ResourceFileNotFoundError''"
| "class_name ResourceParseError = ''ResourceParseError''"
| "class_name ResourceValidationError = ''ResourceValidationError''"
| "class_name DuplicateResourceError = ''DuplicateResourceError''"
| "class_name DuplicateWorkspaceError = ''DuplicateWorkspaceError''"
| "class_name MissingResourceReferenceError = ''MissingResourceReferenceError''"
| "class_name FloatingResourceVersionError = ''FloatingResourceVersionError''"
| "class_name ExecutionBudgetError = ''ExecutionBudgetError''"
| "class_name ExecutionBudgetContractError = ''ExecutionBudgetContractError''"
| "class_name ExecutionBudgetExceeded = ''ExecutionBudgetExceeded''"
| "class_name (OtherException name) = name"

section \<open>Functions that may raise\<close>

definition bindR :: "exn + 'a \<Rightarrow> ('a \<Rightarrow> exn + 'b) \<Rightarrow> exn + 'b" where
  "bindR m f = (case m of Inl e \<Rightarrow> Inl e | Inr a \<Rightarrow> f a)"

definition checkR :: "bool \<Rightarrow> exn \<Rightarrow> exn + unit" where
  "checkR b e = (if b then Inr () else Inl e)"

fun mapR :: "('a \<Rightarrow> exn + 'b) \<Rightarrow> 'a list \<Rightarrow> exn + 'b list" where
  "mapR f [] = Inr []"
| "mapR f (x # xs) = bindR (f x) (\<lambda>y. bindR (mapR f xs) (\<lambda>ys. Inr (y # ys)))"

text \<open>A loop that only checks: it stops at the first raise.\<close>

fun eachR :: "('a \<Rightarrow> exn + unit) \<Rightarrow> 'a list \<Rightarrow> exn + unit" where
  "eachR f [] = Inr ()"
| "eachR f (x # xs) = bindR (f x) (\<lambda>_. eachR f xs)"

lemma bindR_cong [fundef_cong]:
  "m = m' \<Longrightarrow> (\<And>a. m' = Inr a \<Longrightarrow> f a = f' a) \<Longrightarrow> bindR m f = bindR m' f'"
  by (cases m') (auto simp: bindR_def)

lemma mapR_cong [fundef_cong]:
  "xs = ys \<Longrightarrow> (\<And>x. x \<in> set ys \<Longrightarrow> f x = g x) \<Longrightarrow> mapR f xs = mapR g ys"
proof -
  have "(\<And>x. x \<in> set ys \<Longrightarrow> f x = g x) \<Longrightarrow> mapR f ys = mapR g ys"
    by (induction ys) simp_all
  then show "xs = ys \<Longrightarrow> (\<And>x. x \<in> set ys \<Longrightarrow> f x = g x) \<Longrightarrow> mapR f xs = mapR g ys" by simp
qed

lemma eachR_cong [fundef_cong]:
  "xs = ys \<Longrightarrow> (\<And>x. x \<in> set ys \<Longrightarrow> f x = g x) \<Longrightarrow> eachR f xs = eachR g ys"
proof -
  have "(\<And>x. x \<in> set ys \<Longrightarrow> f x = g x) \<Longrightarrow> eachR f ys = eachR g ys"
    by (induction ys) simp_all
  then show "xs = ys \<Longrightarrow> (\<And>x. x \<in> set ys \<Longrightarrow> f x = g x) \<Longrightarrow> eachR f xs = eachR g ys" by simp
qed

lemma bindR_Inr [simp]: "bindR (Inr a) f = f a"
  by (simp add: bindR_def)

lemma bindR_Inl [simp]: "bindR (Inl e) f = Inl e"
  by (simp add: bindR_def)

lemma bindR_eq_Inr: "bindR m f = Inr b \<longleftrightarrow> (\<exists>a. m = Inr a \<and> f a = Inr b)"
  by (cases m) auto

lemma bindR_eq_Inl: "bindR m f = Inl e \<longleftrightarrow> m = Inl e \<or> (\<exists>a. m = Inr a \<and> f a = Inl e)"
  by (cases m) auto

lemma eachR_Inr: "eachR f xs = Inr u \<longleftrightarrow> (\<forall>x \<in> set xs. f x = Inr ())"
  by (induction xs) (auto simp: bindR_eq_Inr)

lemma checkR_eq_Inr [simp]: "checkR b e = Inr u \<longleftrightarrow> b"
  by (simp add: checkR_def)

lemma checkR_eq_Inl [simp]: "checkR b e = Inl e' \<longleftrightarrow> \<not> b \<and> e' = e"
  by (auto simp: checkR_def)

lemma mapR_Inr: "mapR f xs = Inr ys \<longleftrightarrow> list_all2 (\<lambda>x y. f x = Inr y) xs ys"
  by (induction xs arbitrary: ys) (auto simp: bindR_eq_Inr list_all2_Cons1)

lemma mapR_length: "mapR f xs = Inr ys \<Longrightarrow> length ys = length xs"
  by (auto simp: mapR_Inr dest: list_all2_lengthD)

section \<open>Methods with state\<close>

type_synonym ('s, 'a) eff = "'s \<Rightarrow> (exn + 'a) \<times> 's"

definition ret :: "'a \<Rightarrow> ('s, 'a) eff" where
  "ret a s = (Inr a, s)"

definition throw :: "exn \<Rightarrow> ('s, 'a) eff" where
  "throw e s = (Inl e, s)"

definition bindE :: "('s, 'a) eff \<Rightarrow> ('a \<Rightarrow> ('s, 'b) eff) \<Rightarrow> ('s, 'b) eff" where
  "bindE m f s = (case m s of (Inl e, t) \<Rightarrow> (Inl e, t) | (Inr a, t) \<Rightarrow> f a t)"

definition thenE :: "('s, 'a) eff \<Rightarrow> ('s, 'b) eff \<Rightarrow> ('s, 'b) eff" where
  "thenE m k = bindE m (\<lambda>_. k)"

definition liftR :: "exn + 'a \<Rightarrow> ('s, 'a) eff" where
  "liftR r s = (r, s)"

definition checkE :: "bool \<Rightarrow> exn \<Rightarrow> ('s, unit) eff" where
  "checkE b e = (if b then ret () else throw e)"

definition getE :: "('s, 's) eff" where
  "getE s = (Inr s, s)"

definition putE :: "'s \<Rightarrow> ('s, unit) eff" where
  "putE t s = (Inr (), t)"

definition modE :: "('s \<Rightarrow> 's) \<Rightarrow> ('s, unit) eff" where
  "modE f s = (Inr (), f s)"

text \<open>\<open>try: m except ...: h\<close>; the handler re-raises what it does not handle.\<close>

definition catchE :: "('s, 'a) eff \<Rightarrow> (exn \<Rightarrow> ('s, 'a) eff) \<Rightarrow> ('s, 'a) eff" where
  "catchE m h s = (case m s of (Inl e, t) \<Rightarrow> h e t | (Inr a, t) \<Rightarrow> (Inr a, t))"

text \<open>Snapshot before, restore and re-raise on any exception.\<close>

definition atomicE :: "('s, 'a) eff \<Rightarrow> ('s, 'a) eff" where
  "atomicE m s = (case m s of (Inl e, t) \<Rightarrow> (Inl e, s) | (Inr a, t) \<Rightarrow> (Inr a, t))"

fun forE :: "'a list \<Rightarrow> ('a \<Rightarrow> ('s, unit) eff) \<Rightarrow> ('s, unit) eff" where
  "forE [] f = ret ()"
| "forE (x # xs) f = thenE (f x) (forE xs f)"

text \<open>A loop over a list that collects one result per element.\<close>

fun mapE :: "('a \<Rightarrow> ('s, 'b) eff) \<Rightarrow> 'a list \<Rightarrow> ('s, 'b list) eff" where
  "mapE f [] = ret []"
| "mapE f (x # xs) = bindE (f x) (\<lambda>y. bindE (mapE f xs) (\<lambda>ys. ret (y # ys)))"

named_theorems eff_simps "evaluation of effects at a state"

lemma ret_apply [eff_simps]: "ret a s = (Inr a, s)"
  by (simp add: ret_def)

lemma throw_apply [eff_simps]: "throw e s = (Inl e, s)"
  by (simp add: throw_def)

lemma liftR_apply [eff_simps]: "liftR r s = (r, s)"
  by (simp add: liftR_def)

lemma getE_apply [eff_simps]: "getE s = (Inr s, s)"
  by (simp add: getE_def)

lemma putE_apply [eff_simps]: "putE t s = (Inr (), t)"
  by (simp add: putE_def)

lemma modE_apply [eff_simps]: "modE f s = (Inr (), f s)"
  by (simp add: modE_def)

lemma checkE_apply [eff_simps]: "checkE b e s = (if b then (Inr (), s) else (Inl e, s))"
  by (simp add: checkE_def ret_def throw_def)

lemma bindE_apply [eff_simps]:
  "bindE m f s = (case m s of (Inl e, t) \<Rightarrow> (Inl e, t) | (Inr a, t) \<Rightarrow> f a t)"
  by (simp add: bindE_def)

lemma thenE_apply [eff_simps]:
  "thenE m k s = (case m s of (Inl e, t) \<Rightarrow> (Inl e, t) | (Inr a, t) \<Rightarrow> k t)"
  by (simp add: thenE_def bindE_def)

lemma catchE_apply [eff_simps]:
  "catchE m h s = (case m s of (Inl e, t) \<Rightarrow> h e t | (Inr a, t) \<Rightarrow> (Inr a, t))"
  by (simp add: catchE_def)

lemma atomicE_apply [eff_simps]:
  "atomicE m s = (case m s of (Inl e, t) \<Rightarrow> (Inl e, s) | (Inr a, t) \<Rightarrow> (Inr a, t))"
  by (simp add: atomicE_def)

lemma bindE_Inr_iff:
  "bindE m f s = (Inr b, u) \<longleftrightarrow> (\<exists>a t. m s = (Inr a, t) \<and> f a t = (Inr b, u))"
  by (auto simp: bindE_def split: prod.splits sum.splits)

lemma thenE_Inr_iff:
  "thenE m k s = (Inr b, u) \<longleftrightarrow> (\<exists>a t. m s = (Inr a, t) \<and> k t = (Inr b, u))"
  by (simp add: thenE_def bindE_Inr_iff)

lemma checkE_Inr_iff: "checkE b e s = (Inr u, t) \<longleftrightarrow> b \<and> t = s"
  by (auto simp: checkE_apply)

lemma liftR_Inr_iff: "liftR r s = (Inr a, t) \<longleftrightarrow> r = Inr a \<and> t = s"
  by (auto simp: liftR_apply)

lemma ret_Inr_iff: "ret a s = (Inr b, t) \<longleftrightarrow> b = a \<and> t = s"
  by (auto simp: ret_apply)

lemma throw_Inr_iff: "throw e s = (Inr b, t) \<longleftrightarrow> False"
  by (simp add: throw_apply)

lemma getE_Inr_iff: "getE s = (Inr a, t) \<longleftrightarrow> a = s \<and> t = s"
  by (auto simp: getE_apply)

lemma putE_Inr_iff: "putE r s = (Inr u, t) \<longleftrightarrow> t = r"
  by (auto simp: putE_apply)

text \<open>Inversion of a successful run, for the proofs of functional behaviour.\<close>

lemmas success_iffs = bindE_Inr_iff thenE_Inr_iff checkE_Inr_iff liftR_Inr_iff ret_Inr_iff
  throw_Inr_iff getE_Inr_iff putE_Inr_iff

section \<open>Relations every step respects\<close>

definition keeps :: "('s \<Rightarrow> 's \<Rightarrow> bool) \<Rightarrow> ('s, 'a) eff \<Rightarrow> bool" where
  "keeps R m \<longleftrightarrow> (\<forall>s. R s (snd (m s)))"

lemma keepsI: "(\<And>s. R s (snd (m s))) \<Longrightarrow> keeps R m"
  by (simp add: keeps_def)

lemma keepsD: "keeps R m \<Longrightarrow> m s = (r, t) \<Longrightarrow> R s t"
  by (metis keeps_def snd_conv)

text \<open>
  \<open>runs R P m Q\<close>: from a state where \<open>P\<close> holds, \<open>m\<close> moves along \<open>R\<close> whether it raises or
  not, and a result \<open>a\<close> comes with \<open>Q a\<close> of the state reached.
\<close>

definition runs ::
  "('s \<Rightarrow> 's \<Rightarrow> bool) \<Rightarrow> ('s \<Rightarrow> bool) \<Rightarrow> ('s, 'a) eff \<Rightarrow> ('a \<Rightarrow> 's \<Rightarrow> bool) \<Rightarrow> bool" where
  "runs R P m Q \<longleftrightarrow> (\<forall>s. P s \<longrightarrow> R s (snd (m s)) \<and> (\<forall>a t. m s = (Inr a, t) \<longrightarrow> Q a t))"

lemma runsD: "runs R P m Q \<Longrightarrow> P s \<Longrightarrow> m s = (r, t) \<Longrightarrow> R s t \<and> (\<forall>a. r = Inr a \<longrightarrow> Q a t)"
  by (metis runs_def snd_conv)

lemma runsI:
  "(\<And>s r t. P s \<Longrightarrow> m s = (r, t) \<Longrightarrow> R s t \<and> (\<forall>a. r = Inr a \<longrightarrow> Q a t)) \<Longrightarrow> runs R P m Q"
  unfolding runs_def by (metis prod.collapse)

lemma keeps_runs: "keeps R m \<longleftrightarrow> runs R (\<lambda>_. True) m (\<lambda>_ _. True)"
  by (simp add: keeps_def runs_def)

lemma runs_weaken:
  "runs R P m Q \<Longrightarrow> (\<And>s. P' s \<Longrightarrow> P s) \<Longrightarrow> (\<And>a s. Q a s \<Longrightarrow> Q' a s) \<Longrightarrow> runs R P' m Q'"
  unfolding runs_def by blast

lemma runs_conj: "runs R P m Q \<Longrightarrow> runs R P m Q' \<Longrightarrow> runs R P m (\<lambda>a s. Q a s \<and> Q' a s)"
  by (simp add: runs_def)

text \<open>What holds before and is stable along the relation holds after a kept step.\<close>

lemma keeps_stable:
  "keeps R m \<Longrightarrow> (\<And>s t. P s \<Longrightarrow> R s t \<Longrightarrow> P t) \<Longrightarrow> runs R P m (\<lambda>_. P)"
  unfolding runs_def keeps_def by (metis snd_conv)

lemma runs_stable:
  "runs R P m Q \<Longrightarrow> (\<And>s t. P s \<Longrightarrow> R s t \<Longrightarrow> P t) \<Longrightarrow> runs R P m (\<lambda>_. P)"
  unfolding runs_def by (metis snd_conv)

lemma runs_const: "(b \<Longrightarrow> keeps R m) \<Longrightarrow> runs R (\<lambda>_. b) m (\<lambda>_ _. True)"
  by (auto simp: runs_def keeps_def)

lemma getitem_Inr: "getitem d k = Inr v \<Longrightarrow> dget d k = v"
  by (auto simp: getitem_def dget_def split: option.splits)

locale step_rel =
  fixes R :: "'s \<Rightarrow> 's \<Rightarrow> bool"
  assumes refl: "R s s"
    and trans: "R s t \<Longrightarrow> R t u \<Longrightarrow> R s u"
begin

lemma ret: "keeps R (ret a)"
  by (simp add: keeps_def ret_apply refl)

lemma throw: "keeps R (throw e)"
  by (simp add: keeps_def throw_apply refl)

lemma liftR: "keeps R (liftR r)"
  by (simp add: keeps_def liftR_apply refl)

lemma checkE: "keeps R (checkE b e)"
  by (simp add: keeps_def checkE_apply refl)

lemma getE: "keeps R getE"
  by (simp add: keeps_def getE_apply refl)

lemma bindE:
  assumes "keeps R m" "\<And>a. keeps R (f a)"
  shows "keeps R (bindE m f)"
proof (rule keepsI)
  fix s
  obtain r t where m: "m s = (r, t)" by (cases "m s")
  with assms(1) have "R s t" by (rule keepsD)
  show "R s (snd (bindE m f s))"
  proof (cases r)
    case (Inl e)
    with m \<open>R s t\<close> show ?thesis by (simp add: bindE_apply)
  next
    case (Inr a)
    from assms(2) have "R t (snd (f a t))" by (simp add: keeps_def)
    with m Inr \<open>R s t\<close> show ?thesis by (simp add: bindE_apply trans [of s t])
  qed
qed

lemma thenE: "keeps R m \<Longrightarrow> keeps R k \<Longrightarrow> keeps R (thenE m k)"
  by (simp add: thenE_def bindE)

lemma catchE:
  assumes "keeps R m" "\<And>e. keeps R (h e)"
  shows "keeps R (catchE m h)"
proof (rule keepsI)
  fix s
  obtain r t where m: "m s = (r, t)" by (cases "m s")
  with assms(1) have "R s t" by (rule keepsD)
  show "R s (snd (catchE m h s))"
  proof (cases r)
    case (Inl e)
    from assms(2) have "R t (snd (h e t))" by (simp add: keeps_def)
    with m Inl \<open>R s t\<close> show ?thesis by (simp add: catchE_apply trans [of s t])
  next
    case (Inr a)
    with m \<open>R s t\<close> show ?thesis by (simp add: catchE_apply)
  qed
qed

lemma atomicE:
  assumes "keeps R m"
  shows "keeps R (atomicE m)"
proof (rule keepsI)
  fix s
  obtain r t where m: "m s = (r, t)" by (cases "m s")
  with assms have "R s t" by (rule keepsD)
  with m show "R s (snd (atomicE m s))"
    by (cases r) (simp_all add: atomicE_apply refl)
qed

lemma forE: "(\<And>x. keeps R (f x)) \<Longrightarrow> keeps R (forE xs f)"
  by (induction xs) (simp_all add: ret thenE)

lemma mapE: "(\<And>x. keeps R (f x)) \<Longrightarrow> keeps R (mapE f xs)"
  by (induction xs) (simp_all add: ret bindE)

lemma ite: "(b \<Longrightarrow> keeps R m) \<Longrightarrow> (\<not> b \<Longrightarrow> keeps R k) \<Longrightarrow> keeps R (if b then m else k)"
  by simp

lemma case_option:
  "keeps R m \<Longrightarrow> (\<And>a. keeps R (f a)) \<Longrightarrow> keeps R (case x of None \<Rightarrow> m | Some a \<Rightarrow> f a)"
  by (cases x) simp_all

lemma case_prod:
  "(\<And>a b. keeps R (f a b)) \<Longrightarrow> keeps R (case p of (a, b) \<Rightarrow> f a b)"
  by (cases p) simp

lemma case_prod_fun:
  "(\<And>a b. keeps R (f a b c)) \<Longrightarrow> keeps R ((case p of (a, b) \<Rightarrow> f a b) c)"
  by (cases p) simp

lemma guard: "(b \<Longrightarrow> keeps R k) \<Longrightarrow> keeps R (thenE (checkE b e) k)"
  by (simp add: keeps_def thenE_apply checkE_apply refl)

lemma lifted: "(\<And>a. r = Inr a \<Longrightarrow> keeps R (f a)) \<Longrightarrow> keeps R (bindE (liftR r) f)"
  by (cases r) (simp_all add: keeps_def bindE_apply liftR_apply refl)

lemma lifted_then: "(r = Inr () \<Longrightarrow> keeps R k) \<Longrightarrow> keeps R (thenE (liftR r) k)"
  by (cases r) (simp_all add: keeps_def thenE_apply liftR_apply refl)

subsection \<open>Steps with conditions\<close>

lemma runs_ret: "(\<And>s. P s \<Longrightarrow> Q a s) \<Longrightarrow> runs R P (PyEffect.ret a) Q"
  by (simp add: runs_def ret_apply refl)

lemma runs_throw: "runs R P (PyEffect.throw e) Q"
  by (simp add: runs_def throw_apply refl)

lemma runs_bind:
  assumes m: "runs R P m Q" and f: "\<And>a. runs R (Q a) (f a) S"
  shows "runs R P (PyEffect.bindE m f) S"
proof (rule runsI)
  fix s r u assume P: "P s" and b: "PyEffect.bindE m f s = (r, u)"
  obtain r1 t where m1: "m s = (r1, t)" by (cases "m s")
  note st = runsD[OF m P m1]
  show "R s u \<and> (\<forall>a. r = Inr a \<longrightarrow> S a u)"
  proof (cases r1)
    case (Inl e)
    with b m1 st show ?thesis by (auto simp: bindE_apply)
  next
    case (Inr a)
    with b m1 have "f a t = (r, u)" by (simp add: bindE_apply)
    moreover have "Q a t" and "R s t" using st Inr by simp_all
    ultimately show ?thesis using runsD[OF f] trans[of s t u] by blast
  qed
qed

lemma runs_then: "runs R P m Q \<Longrightarrow> (\<And>a. runs R (Q a) k S) \<Longrightarrow> runs R P (PyEffect.thenE m k) S"
  unfolding thenE_def by (rule runs_bind)

lemma runs_guard: "(b \<Longrightarrow> runs R P k S) \<Longrightarrow> runs R P (PyEffect.thenE (PyEffect.checkE b e) k) S"
  by (auto simp: runs_def thenE_apply checkE_apply refl)

lemma runs_lifted:
  "(\<And>a. r = Inr a \<Longrightarrow> runs R P (f a) S) \<Longrightarrow> runs R P (PyEffect.bindE (PyEffect.liftR r) f) S"
  by (cases r) (simp_all add: runs_def bindE_apply liftR_apply refl)

lemma runs_lifted_then:
  "(r = Inr () \<Longrightarrow> runs R P k S) \<Longrightarrow> runs R P (PyEffect.thenE (PyEffect.liftR r) k) S"
  by (cases r) (simp_all add: runs_def thenE_apply liftR_apply refl)

lemma runs_catch:
  assumes m: "runs R P m S" and stable: "\<And>s t. P s \<Longrightarrow> R s t \<Longrightarrow> P t"
    and h: "\<And>e. runs R P (h e) S"
  shows "runs R P (PyEffect.catchE m h) S"
proof (rule runsI)
  fix s r u assume P: "P s" and c: "PyEffect.catchE m h s = (r, u)"
  obtain r1 t where m1: "m s = (r1, t)" by (cases "m s")
  note st = runsD[OF m P m1]
  show "R s u \<and> (\<forall>a. r = Inr a \<longrightarrow> S a u)"
  proof (cases r1)
    case (Inl e)
    with c m1 have "h e t = (r, u)" by (simp add: catchE_apply)
    moreover have "P t" using P st stable by blast
    ultimately show ?thesis using runsD[OF h] st trans[of s t u] by blast
  next
    case (Inr a)
    with c m1 st show ?thesis by (auto simp: catchE_apply)
  qed
qed

lemma runs_for:
  "(\<And>x. x \<in> set xs \<Longrightarrow> runs R P (f x) (\<lambda>_. P)) \<Longrightarrow> runs R P (PyEffect.forE xs f) (\<lambda>_. P)"
  by (induction xs) (auto intro: runs_ret runs_then)

lemma runs_map:
  "(\<And>x. x \<in> set xs \<Longrightarrow> runs R P (f x) (\<lambda>_. P)) \<Longrightarrow> runs R P (PyEffect.mapE f xs) (\<lambda>_. P)"
  by (induction xs) (auto intro: runs_ret runs_bind)

lemmas rules = ret throw liftR checkE getE bindE thenE catchE forE mapE ite case_option case_prod
  case_prod_fun

end

text \<open>
  An operation that raises leaves the state it started from, when it is atomic.
\<close>

lemma atomicE_Inl: "atomicE m s = (Inl e, t) \<Longrightarrow> t = s"
  by (auto simp: atomicE_apply split: prod.splits sum.splits)

end
