(* ===== verification/RuntimeStore.thy ===== *)
theory RuntimeStore
  imports PyEffect
begin

text \<open>
  \<open>runtime_store.py\<close>, the in-memory store.  \<open>store\<close> is the state of
  \<open>InMemoryRuntimeObjectStore\<close>, one definition per method, with the method's guards in
  the code's order.  The lock makes every method one step, so a method is a function of
  the state.  Mutating a stored dictionary is \<open>save\<close>.  The wall clock a method falls back
  to is an argument (\<open>wall\<close>).

  The lemmas show that every method respects \<open>evidence\<close> (identity fields, completed
  objects and write-once fields do not change) and keeps the store's well-formedness.
\<close>

section \<open>State\<close>

record lease =
  lease_owner :: string
  lease_expires :: string

record store =
  objects :: "(string \<times> dict) list"
  deterministic_keys :: "(string \<times> string) list"
  claims :: "(string \<times> json) list"
  leases :: "(string \<times> lease) list"
  workflow_index :: "(string \<times> string list) list"
  task_execution_index :: "(string \<times> string list) list"

definition empty_store :: store where
  "empty_store = \<lparr>objects = [], deterministic_keys = [], claims = [], leases = [],
     workflow_index = [], task_execution_index = []\<rparr>"

section \<open>Field sets\<close>

definition terminal_statuses :: "string list" where
  "terminal_statuses = [''SUCCEEDED'', ''FAILED'', ''CANCELLED'', ''APPROVED'', ''REJECTED'', ''EXPIRED'']"

definition runtime_identity_fields :: "string list" where
  "runtime_identity_fields = [''apiVersion'', ''id'', ''kind'', ''traceId'', ''createdAt'', ''provenance'']"

definition kind_identity_fields :: "json \<Rightarrow> string list" where
  "kind_identity_fields kind =
     (if kind = JStr ''TaskExecution''
      then [''workflowExecutionId'', ''taskRef'', ''attempt'', ''dependencyTaskExecutionIds'']
      else [])"

definition kind_write_once_fields :: "json \<Rightarrow> string list" where
  "kind_write_once_fields kind =
     (if kind = JStr ''TaskExecution'' then
        [''contextPackageId'', ''resolvedAgentId'', ''terminalEvidence'',
         ''dispatchState'', ''dispatchOwnerId'', ''executionBudget'']
      else if kind = JStr ''WorkflowExecution'' then [''resolvedTaskPlan'', ''executionBudget'']
      else [])"

definition status_managed_fields :: "string list" where
  "status_managed_fields = [''status'', ''updatedAt'', ''completedAt'']"

abbreviation store_error :: "exn_class \<Rightarrow> string \<Rightarrow> exn" where
  "store_error c m \<equiv> Exn c m (JObj [])"

section \<open>Module functions\<close>

definition copy_and_validate :: "json \<Rightarrow> exn + dict" where
  "copy_and_validate runtime_object =
     (if \<not> is_mapping runtime_object then Inl (type_error ''runtime_object must be a mapping'')
      else let value = as_dict runtime_object
           in if \<not> nonempty_str (dget value ''id'')
              then Inl (value_error ''runtime_object.id must be a non-empty string'')
              else if \<not> nonempty_str (dget value ''kind'')
              then Inl (value_error ''runtime_object.kind must be a non-empty string'')
              else Inr value)"

definition workflow_execution_id_of :: "dict \<Rightarrow> string option" where
  "workflow_execution_id_of value =
     (let candidate =
        (if dget value ''kind'' = JStr ''WorkflowExecution'' then dget value ''id''
         else if dget value ''workflowExecutionId'' \<noteq> JNull then dget value ''workflowExecutionId''
         else if is_mapping (dget value ''provenance'')
              then mget (dget value ''provenance'') ''workflowExecutionId''
         else JNull)
      in if is_str candidate then Some (as_str candidate) else None)"

definition task_execution_id_of :: "dict \<Rightarrow> string option" where
  "task_execution_id_of value =
     (let candidate =
        (if dget value ''taskExecutionId'' \<noteq> JNull then dget value ''taskExecutionId''
         else if is_mapping (dget value ''provenance'')
              then mget (dget value ''provenance'') ''taskExecutionId''
         else JNull)
      in if is_str candidate then Some (as_str candidate) else None)"

text \<open>The event type that reports a workflow status.\<close>

definition expected_workflow_event :: "string \<Rightarrow> string option" where
  "expected_workflow_event status =
     map_of [(''RUNNING'', ''WorkflowExecutionStarted''),
             (''SUCCEEDED'', ''WorkflowExecutionCompleted''),
             (''FAILED'', ''WorkflowExecutionFailed''),
             (''CANCELLED'', ''WorkflowExecutionCancelled'')] status"

definition failure_classes :: "string list" where
  "failure_classes = [''RECOVERABLE'', ''CONFIGURATION'', ''EVALUATION'', ''POLICY'', ''PERMANENT'']"

definition validate_workflow_transition_event ::
  "string \<Rightarrow> string \<Rightarrow> json \<Rightarrow> exn + unit" where
  "validate_workflow_transition_event workflow_execution_id status event =
     (if \<not> is_mapping event \<or> mget event ''kind'' \<noteq> JStr ''ExecutionEvent''
      then Inl (value_error ''workflow transitions require an ExecutionEvent'')
      else
       let subject = mget event ''subject''; provenance = mget event ''provenance'' in
       if \<not> is_mapping subject
          \<or> mget subject ''kind'' \<noteq> JStr ''WorkflowExecution''
          \<or> mget subject ''id'' \<noteq> JStr workflow_execution_id
          \<or> \<not> is_mapping provenance
          \<or> mget provenance ''workflowExecutionId'' \<noteq> JStr workflow_execution_id
       then Inl (value_error ''ExecutionEvent must belong to the transitioning WorkflowExecution'')
       else
        let expected_event = expected_workflow_event status; payload = mget event ''payload'' in
        if expected_event = None
           \<or> mget event ''eventType'' \<noteq> JStr (the expected_event)
           \<or> \<not> is_mapping payload
           \<or> mget payload ''status'' \<noteq> JStr status
        then Inl (value_error ''ExecutionEvent type and status must match the WorkflowExecution transition'')
        else
         let failure_class = mget payload ''failureClass'' in
         if status = ''FAILED'' \<and> \<not> hashable failure_class then Inl unhashable_error
         else if status = ''FAILED'' \<and> \<not> in_strs failure_class failure_classes
         then Inl (value_error ''WorkflowExecutionFailed requires a valid failure class'')
         else if status \<noteq> ''FAILED'' \<and> failure_class \<noteq> JNull
         then Inl (value_error ''successful WorkflowExecution transitions must not contain a failure class'')
         else Inr ())"

section \<open>Reading, saving and indexing\<close>

definition require :: "string \<Rightarrow> (store, dict) eff" where
  "require object_id s =
     (case map_of (objects s) object_id of
        None \<Rightarrow> (Inl (store_error RuntimeObjectNotFoundError
                        (''runtime object '' @ repr_str object_id @ '' was not found'')), s)
      | Some value \<Rightarrow> (Inr value, s))"

definition save :: "string \<Rightarrow> dict \<Rightarrow> (store, unit) eff" where
  "save object_id value s = (Inr (), s\<lparr>objects := dput object_id value (objects s)\<rparr>)"

definition index_append :: "string \<Rightarrow> string \<Rightarrow> (string \<times> string list) list \<Rightarrow> (string \<times> string list) list" where
  "index_append key object_id ix =
     dput key ((case map_of ix key of None \<Rightarrow> [] | Some ids \<Rightarrow> ids) @ [object_id]) ix"

definition index_value :: "dict \<Rightarrow> store \<Rightarrow> store" where
  "index_value value s =
     (let object_id = as_str (dget value ''id'');
          s1 = (case workflow_execution_id_of value of None \<Rightarrow> s
                | Some w \<Rightarrow> s\<lparr>workflow_index := index_append w object_id (workflow_index s)\<rparr>)
      in case task_execution_id_of value of None \<Rightarrow> s1
         | Some t \<Rightarrow> s1\<lparr>task_execution_index := index_append t object_id (task_execution_index s1)\<rparr>)"

definition mem_get :: "string \<Rightarrow> (store, dict option) eff" where
  "mem_get object_id s = (Inr (map_of (objects s) object_id), s)"

definition indexed_objects :: "string list \<Rightarrow> store \<Rightarrow> exn + dict list" where
  "indexed_objects ids s =
     mapR (\<lambda>object_id. case map_of (objects s) object_id of
        None \<Rightarrow> Inl (Exn KeyError object_id JNull) | Some v \<Rightarrow> Inr v) ids"

definition index_lookup :: "(string \<times> string list) list \<Rightarrow> string \<Rightarrow> string list" where
  "index_lookup ix key = (case map_of ix key of None \<Rightarrow> [] | Some ids \<Rightarrow> ids)"

definition mem_list_by_workflow_execution :: "string \<Rightarrow> (store, dict list) eff" where
  "mem_list_by_workflow_execution w s = (indexed_objects (index_lookup (workflow_index s) w) s, s)"

definition mem_list_by_task_execution :: "string \<Rightarrow> (store, dict list) eff" where
  "mem_list_by_task_execution t s = (indexed_objects (index_lookup (task_execution_index s) t) s, s)"


section \<open>Creating objects and events\<close>

definition mem_create :: "json \<Rightarrow> string \<Rightarrow> (store, dict) eff" where
  "mem_create runtime_object deterministic_key =
     bindE (liftR (copy_and_validate runtime_object)) (\<lambda>value.
     thenE (checkE (deterministic_key \<noteq> []) (value_error ''deterministic_key must not be empty'')) (\<lambda>s.
       let object_id = as_str (dget value ''id'') in
       case map_of (deterministic_keys s) deterministic_key of
         Some existing_id \<Rightarrow>
           (case map_of (objects s) existing_id of
              None \<Rightarrow> (Inl (Exn KeyError existing_id JNull), s)
            | Some existing \<Rightarrow> (Inr existing, s))
       | None \<Rightarrow>
           if dhas (objects s) object_id
           then (Inl (store_error RuntimeObjectAlreadyExistsError
                        (''runtime object '' @ repr_str object_id @ '' already exists'')), s)
           else (Inr value,
                 index_value value
                   (s\<lparr>objects := dput object_id value (objects s),
                      deterministic_keys := dput deterministic_key object_id (deterministic_keys s)\<rparr>))))"

definition mem_append_event :: "json \<Rightarrow> (store, dict) eff" where
  "mem_append_event event =
     bindE (liftR (copy_and_validate event)) (\<lambda>value.
     thenE (checkE (dget value ''kind'' = JStr ''ExecutionEvent'')
              (value_error ''append_event requires an ExecutionEvent''))
       (mem_create (JObj value) (''execution-event:'' @ as_str (dget value ''id''))))"

definition mem_create_with_event :: "json \<Rightarrow> json \<Rightarrow> string \<Rightarrow> (store, dict) eff" where
  "mem_create_with_event runtime_object event deterministic_key =
     atomicE (bindE (mem_create runtime_object deterministic_key) (\<lambda>created.
              thenE (mem_append_event event) (ret created)))"

section \<open>Status updates\<close>

definition protected_changes :: "dict \<Rightarrow> dict \<Rightarrow> string list" where
  "protected_changes value changes =
     (let kind = dget value ''kind'';
          fields = runtime_identity_fields @ status_managed_fields @ kind_identity_fields kind
      in sort (remdups
           (filter (\<lambda>f. dhas changes f) fields
            @ filter (\<lambda>f. dhas value f \<and> dhas changes f) (kind_write_once_fields kind))))"

text \<open>The object a permitted status update leaves behind.\<close>

definition status_updated :: "dict \<Rightarrow> string \<Rightarrow> string \<Rightarrow> dict \<Rightarrow> dict" where
  "status_updated value status now changes =
     (let value' = dput ''updatedAt'' (JStr now) (dput ''status'' (JStr status) (dupdate value changes))
      in if status \<in> set terminal_statuses then dsetdefault ''completedAt'' (JStr now) value' else value')"

definition mem_update_status ::
  "string \<Rightarrow> string \<Rightarrow> string \<Rightarrow> string option \<Rightarrow> string option \<Rightarrow> dict \<Rightarrow> (store, dict) eff" where
  "mem_update_status wall object_id status expected_status updated_at changes =
     thenE (checkE (status \<noteq> []) (value_error ''status must not be empty''))
     (bindE (require object_id) (\<lambda>value.
        let protected = protected_changes value changes; current = dget value ''status'' in
        thenE (checkE (protected = [])
          (value_error (''changes cannot replace protected fields: '' @ repr_strs protected)))
        (thenE (checkE (current \<noteq> JNull)
          (value_error (''runtime object '' @ repr_str object_id @ '' has no status'')))
        (thenE (checkE (case expected_status of None \<Rightarrow> True | Some e \<Rightarrow> current = JStr e)
          (store_error StatusConflictError
             (''expected status '' @ repr_str (the expected_status) @ '' for '' @ repr_str object_id
              @ '', found '' @ py_repr current)))
        (thenE (checkE (hashable current) unhashable_error)
        (if in_strs current terminal_statuses then
           (if current = JStr status then ret value
            else throw (store_error ImmutableRuntimeObjectError
                   (''completed runtime object '' @ repr_str object_id @ '' is immutable'')))
         else
           let now = (case updated_at of None \<Rightarrow> wall | Some t \<Rightarrow> if t = [] then wall else t);
               value' = status_updated value status now changes
           in thenE (save object_id value') (ret value')))))))"

section \<open>Leases and claims\<close>

definition mem_claim :: "string \<Rightarrow> json \<Rightarrow> (store, bool \<times> json) eff" where
  "mem_claim deterministic_key value =
     thenE (checkE (deterministic_key \<noteq> []) (value_error ''deterministic_key must not be empty''))
     (thenE (checkE (is_mapping value) (type_error ''value must be a mapping''))
     (\<lambda>s. case map_of (claims s) deterministic_key of
            Some existing \<Rightarrow> (Inr (False, existing), s)
          | None \<Rightarrow> (Inr (True, value), s\<lparr>claims := dput deterministic_key value (claims s)\<rparr>)))"

definition mem_acquire_lease :: "string \<Rightarrow> string \<Rightarrow> string \<Rightarrow> string \<Rightarrow> (store, bool) eff" where
  "mem_acquire_lease key owner_id now expires_at s =
     (case map_of (leases s) key of
        Some current \<Rightarrow>
          if lease_owner current \<noteq> owner_id \<and> lease_expires current > now then (Inr False, s)
          else (Inr True, s\<lparr>leases := dput key \<lparr>lease_owner = owner_id, lease_expires = expires_at\<rparr> (leases s)\<rparr>)
      | None \<Rightarrow> (Inr True, s\<lparr>leases := dput key \<lparr>lease_owner = owner_id, lease_expires = expires_at\<rparr> (leases s)\<rparr>))"

definition mem_renew_lease :: "string \<Rightarrow> string \<Rightarrow> string \<Rightarrow> string \<Rightarrow> (store, bool) eff" where
  "mem_renew_lease key owner_id now expires_at s =
     (case map_of (leases s) key of
        None \<Rightarrow> (Inr False, s)
      | Some current \<Rightarrow>
          if lease_owner current \<noteq> owner_id \<or> lease_expires current \<le> now then (Inr False, s)
          else (Inr True, s\<lparr>leases := dput key (current\<lparr>lease_expires := expires_at\<rparr>) (leases s)\<rparr>))"

definition mem_release_lease :: "string \<Rightarrow> string \<Rightarrow> (store, bool) eff" where
  "mem_release_lease key owner_id s =
     (case map_of (leases s) key of
        None \<Rightarrow> (Inr False, s)
      | Some current \<Rightarrow>
          if lease_owner current \<noteq> owner_id then (Inr False, s)
          else (Inr True, s\<lparr>leases := dpop key (leases s)\<rparr>))"

definition holds_lease :: "string \<Rightarrow> string \<Rightarrow> string \<Rightarrow> store \<Rightarrow> bool" where
  "holds_lease lease_key owner_id now s \<longleftrightarrow>
     (case map_of (leases s) lease_key of
        None \<Rightarrow> False
      | Some l \<Rightarrow> \<not> (lease_owner l \<noteq> owner_id \<or> lease_expires l \<le> now))"

definition mem_update_status_with_lease ::
  "string \<Rightarrow> string \<Rightarrow> string \<Rightarrow> string \<Rightarrow> string \<Rightarrow> string \<Rightarrow> string option \<Rightarrow> string option \<Rightarrow> dict
   \<Rightarrow> (store, dict) eff" where
  "mem_update_status_with_lease wall object_id status lease_key owner_id now expected_status updated_at changes =
     bindE getE (\<lambda>s.
       if \<not> holds_lease lease_key owner_id now s
       then throw (store_error StatusConflictError ''execution lease ownership was lost'')
       else mem_update_status wall object_id status expected_status updated_at changes)"

section \<open>Task dispatch and approval waits\<close>

definition mem_claim_task_dispatch ::
  "string \<Rightarrow> string \<Rightarrow> string \<Rightarrow> (store, bool \<times> dict) eff" where
  "mem_claim_task_dispatch task_execution_id owner_id updated_at =
     thenE (checkE (owner_id \<noteq> []) (value_error ''owner_id must be a non-empty string''))
     (bindE (require task_execution_id) (\<lambda>value.
        thenE (checkE (dget value ''kind'' = JStr ''TaskExecution'')
          (value_error ''dispatch claims require a TaskExecution''))
        (thenE (checkE (dget value ''status'' = JStr ''RUNNING'')
          (store_error StatusConflictError
             (''TaskExecution '' @ repr_str task_execution_id @ '' is not RUNNING'')))
        (if dget value ''dispatchState'' = JStr ''CLAIMED'' then ret (False, value)
         else if dget value ''dispatchState'' \<noteq> JStr ''PENDING''
         then throw (value_error (''TaskExecution '' @ repr_str task_execution_id @ '' has no pending dispatch''))
         else
           let value' = dput ''updatedAt'' (JStr updated_at)
                          (dput ''dispatchOwnerId'' (JStr owner_id)
                            (dput ''dispatchState'' (JStr ''CLAIMED'') value))
           in thenE (save task_execution_id value') (ret (True, value'))))))"

definition woken_task :: "dict \<Rightarrow> string \<Rightarrow> string \<Rightarrow> dict" where
  "woken_task task approval_id updated_at =
     (let task1 = (if dget task ''status'' = JStr ''AWAITING_APPROVAL''
                   then dput ''status'' (JStr ''PENDING'') task else task)
      in dput ''updatedAt'' (JStr updated_at) (dput ''approvalId'' (JStr approval_id)
           (dpop ''dispatchOwnerId'' (dpop ''dispatchState'' task1))))"

definition mem_wake_approved_task :: "string \<Rightarrow> string \<Rightarrow> string \<Rightarrow> (store, dict) eff" where
  "mem_wake_approved_task task_execution_id approval_id updated_at =
     bindE (require task_execution_id) (\<lambda>task.
       thenE (checkE (dget task ''kind'' = JStr ''TaskExecution'')
         (value_error ''approval wake-up requires a TaskExecution''))
       (if dget task ''approvalId'' \<noteq> JStr approval_id then ret task
        else thenE (checkE (hashable (dget task ''status'')) unhashable_error)
        (if \<not> in_strs (dget task ''status'') [''AWAITING_APPROVAL'', ''PENDING''] then ret task
         else let task' = woken_task task approval_id updated_at
              in thenE (save task_execution_id task') (ret task'))))"

definition awaiting_task :: "dict \<Rightarrow> bool" where
  "awaiting_task task \<longleftrightarrow>
     dget task ''kind'' = JStr ''TaskExecution'' \<and> dget task ''status'' = JStr ''AWAITING_APPROVAL''"

definition bound_task :: "dict \<Rightarrow> string \<Rightarrow> string \<Rightarrow> dict" where
  "bound_task task approval_id updated_at =
     dput ''updatedAt'' (JStr updated_at) (dput ''approvalId'' (JStr approval_id) task)"

definition mem_bind_approval_request :: "string \<Rightarrow> string \<Rightarrow> string \<Rightarrow> (store, dict) eff" where
  "mem_bind_approval_request task_execution_id approval_id updated_at =
     bindE (require task_execution_id) (\<lambda>task.
       thenE (checkE (awaiting_task task)
         (value_error ''approval requests can bind only to an awaiting TaskExecution''))
       (let task' = bound_task task approval_id updated_at
        in thenE (save task_execution_id task') (ret task')))"

definition mem_create_approval_request ::
  "json \<Rightarrow> string \<Rightarrow> json \<Rightarrow> string \<Rightarrow> (store, dict) eff" where
  "mem_create_approval_request approval deterministic_key expected_current_approval_id updated_at =
     atomicE (bindE (mem_create approval deterministic_key) (\<lambda>persisted.
       bindE (liftR (getitem persisted ''taskExecutionId'')) (\<lambda>task_value.
       let task_id = py_str task_value in
       bindE (require task_id) (\<lambda>task.
       thenE (checkE (awaiting_task task)
         (value_error ''approval requests can bind only to an awaiting TaskExecution''))
       (let current = dget task ''approvalId''; persisted_id = py_str (dget persisted ''id'') in
        if current = JStr persisted_id then ret persisted
        else if current \<noteq> expected_current_approval_id
        then throw (store_error StatusConflictError ''TaskExecution approval binding changed'')
        else thenE (save task_id (bound_task task persisted_id updated_at)) (ret persisted))))))"

section \<open>Attachments and compound transitions\<close>

text \<open>The list check and the append, on the workflow with its list in place.\<close>

definition attach_task_id ::
  "string \<Rightarrow> string \<Rightarrow> string \<Rightarrow> string option \<Rightarrow> dict \<Rightarrow> (store, dict) eff" where
  "attach_task_id wall workflow_execution_id task_execution_id updated_at workflow =
     (let ids = dget workflow ''taskExecutionIds'' in
      thenE (checkE (is_list ids)
        (value_error ''WorkflowExecution.taskExecutionIds must be an array''))
      (if JStr task_execution_id \<in> set (as_list ids) then ret workflow
       else thenE (checkE (hashable (dget workflow ''status'')) unhashable_error)
       (if in_strs (dget workflow ''status'') terminal_statuses
        then throw (store_error ImmutableRuntimeObjectError
               (''completed runtime object '' @ repr_str workflow_execution_id @ '' is immutable''))
        else
         let now = (case updated_at of None \<Rightarrow> wall | Some t \<Rightarrow> if t = [] then wall else t);
             workflow' = dput ''updatedAt'' (JStr now)
               (dput ''taskExecutionIds'' (JList (as_list ids @ [JStr task_execution_id])) workflow)
         in thenE (save workflow_execution_id workflow') (ret workflow'))))"

definition mem_append_task_execution_id ::
  "string \<Rightarrow> string \<Rightarrow> string \<Rightarrow> string option \<Rightarrow> (store, dict) eff" where
  "mem_append_task_execution_id wall workflow_execution_id task_execution_id updated_at =
     thenE (checkE (task_execution_id \<noteq> []) (value_error ''task_execution_id must be a non-empty string''))
     (bindE (require workflow_execution_id) (\<lambda>workflow.
      thenE (checkE (dget workflow ''kind'' = JStr ''WorkflowExecution'')
        (value_error (''runtime object '' @ repr_str workflow_execution_id @ '' is not a WorkflowExecution'')))
      (bindE (require task_execution_id) (\<lambda>task.
      thenE (checkE (dget task ''kind'' = JStr ''TaskExecution''
                     \<and> dget task ''workflowExecutionId'' = JStr workflow_execution_id)
        (value_error (''TaskExecution '' @ repr_str task_execution_id @ '' does not belong to ''
                      @ ''WorkflowExecution '' @ repr_str workflow_execution_id)))
      (let workflow1 = dsetdefault ''taskExecutionIds'' (JList []) workflow
       in thenE (save workflow_execution_id workflow1)
          (attach_task_id wall workflow_execution_id task_execution_id updated_at workflow1))))))"

definition mem_commit_task_execution_transition ::
  "string \<Rightarrow> string \<Rightarrow> string \<Rightarrow> string \<Rightarrow> json \<Rightarrow> string \<Rightarrow> string \<Rightarrow> dict \<Rightarrow> (store, dict) eff" where
  "mem_commit_task_execution_transition wall task_execution_id status workflow_execution_id event
       expected_status updated_at changes =
     atomicE (bindE (mem_update_status wall task_execution_id status (Some expected_status)
                       (Some updated_at) changes) (\<lambda>updated.
       thenE (mem_append_task_execution_id wall workflow_execution_id task_execution_id (Some updated_at))
       (thenE (mem_append_event event) (ret updated))))"

definition mem_commit_workflow_execution_transition ::
  "string \<Rightarrow> string \<Rightarrow> string \<Rightarrow> json \<Rightarrow> string \<Rightarrow> string \<Rightarrow> dict \<Rightarrow> (store, dict) eff" where
  "mem_commit_workflow_execution_transition wall workflow_execution_id status event
       expected_status updated_at changes =
     atomicE (bindE (require workflow_execution_id) (\<lambda>workflow.
       thenE (checkE (dget workflow ''kind'' = JStr ''WorkflowExecution'')
         (value_error ''workflow transitions require a WorkflowExecution''))
       (thenE (liftR (validate_workflow_transition_event workflow_execution_id status event))
       (thenE (mem_append_event event)
         (mem_update_status wall workflow_execution_id status (Some expected_status)
            (Some updated_at) changes)))))"

text \<open>
  \<open>mutate\<close> is the caller's closure: it sees snapshots of the two records and gives the
  two sets of changes, with whatever it writes to its own variables as \<open>'o\<close>.
\<close>

definition mem_mutate_execution_budget ::
  "string \<Rightarrow> string \<Rightarrow> string \<Rightarrow> (dict \<Rightarrow> dict \<Rightarrow> exn + (dict \<times> dict) \<times> 'o) \<Rightarrow> string
   \<Rightarrow> (store, (dict \<times> dict) \<times> 'o) eff" where
  "mem_mutate_execution_budget wall workflow_execution_id task_execution_id mutate updated_at =
     atomicE (bindE (require workflow_execution_id) (\<lambda>workflow.
       bindE (require task_execution_id) (\<lambda>task.
       thenE (checkE (dget workflow ''kind'' = JStr ''WorkflowExecution'')
         (value_error ''budget mutation requires a WorkflowExecution''))
       (thenE (checkE (dget workflow ''status'' = JStr ''RUNNING'')
         (value_error ''budget WorkflowExecution is not RUNNING''))
       (thenE (checkE (dget task ''kind'' = JStr ''TaskExecution'')
         (value_error ''budget mutation requires a TaskExecution''))
       (thenE (checkE (dget task ''status'' = JStr ''RUNNING'')
         (value_error ''budget TaskExecution is not RUNNING''))
       (thenE (checkE (dget task ''workflowExecutionId'' = JStr workflow_execution_id)
         (value_error ''budget TaskExecution belongs to another workflow''))
       (bindE (liftR (mutate workflow task)) (\<lambda>((workflow_changes, task_changes), out).
       bindE (mem_update_status wall workflow_execution_id ''RUNNING'' (Some ''RUNNING'')
                (Some updated_at) workflow_changes) (\<lambda>updated_workflow.
       bindE (mem_update_status wall task_execution_id ''RUNNING'' (Some ''RUNNING'')
                (Some updated_at) task_changes) (\<lambda>updated_task.
       ret ((updated_workflow, updated_task), out))))))))))))"

end
