(* ===== verification/StoreEvidence.thy ===== *)
theory StoreEvidence
  imports RuntimeStore
begin

text \<open>
  What every method of the in-memory store guarantees about recorded evidence.
  \<open>evolves v v'\<close> is the change a stored object may undergo; \<open>store_rel\<close> is the
  contract of a relation between store states that accepts such changes, creations,
  claims and leases, and inside it every method is shown to respect the relation.  The
  two interpretations give evidence preservation and well-formedness.
\<close>

section \<open>The change an object may undergo\<close>

definition identity_fields :: "dict \<Rightarrow> string list" where
  "identity_fields v = runtime_identity_fields @ kind_identity_fields (dget v ''kind'')"

definition same_fields :: "string list \<Rightarrow> dict \<Rightarrow> dict \<Rightarrow> bool" where
  "same_fields fs v v' \<longleftrightarrow> list_all (\<lambda>f. map_of v' f = map_of v f) fs"

definition completed :: "dict \<Rightarrow> bool" where
  "completed v \<longleftrightarrow> in_strs (dget v ''status'') terminal_statuses"

text \<open>
  The write-once fields no method ever resets (dispatch ownership is cleared when an
  approval wakes its task).
\<close>

definition kept_once_fields :: "dict \<Rightarrow> string list" where
  "kept_once_fields v =
     filter (\<lambda>f. f \<notin> {''dispatchState'', ''dispatchOwnerId''}) (kind_write_once_fields (dget v ''kind''))"

text \<open>
  A completed object stays as it is, except that attaching to a completed workflow that
  carries no attachment list leaves it with an empty one.
\<close>

definition frozen_as :: "dict \<Rightarrow> dict \<Rightarrow> bool" where
  "frozen_as v v' \<longleftrightarrow>
     map_of v' = map_of v
     \<or> (dget v ''kind'' = JStr ''WorkflowExecution''
        \<and> map_of v' = map_of (dsetdefault ''taskExecutionIds'' (JList []) v))"

definition evolves :: "dict \<Rightarrow> dict \<Rightarrow> bool" where
  "evolves v v' \<longleftrightarrow>
     same_fields (identity_fields v) v v'
     \<and> (completed v \<longrightarrow> frozen_as v v')
     \<and> same_fields (filter (dhas v) (kept_once_fields v)) v v'"

lemma same_fieldsD: "same_fields fs v v' \<Longrightarrow> f \<in> set fs \<Longrightarrow> map_of v' f = map_of v f"
  by (auto simp: same_fields_def list_all_iff)

lemma same_fields_dget: "same_fields fs v v' \<Longrightarrow> f \<in> set fs \<Longrightarrow> dget v' f = dget v f"
  by (simp add: dget_def same_fieldsD)

lemma identity_fields_runtime [simp]: "f \<in> set runtime_identity_fields \<Longrightarrow> f \<in> set (identity_fields v)"
  by (simp add: identity_fields_def)

lemma evolves_identity: "evolves v v' \<Longrightarrow> f \<in> set (identity_fields v) \<Longrightarrow> map_of v' f = map_of v f"
  by (auto simp: evolves_def dest: same_fieldsD)

lemma evolves_kind: "evolves v v' \<Longrightarrow> dget v' ''kind'' = dget v ''kind''"
  by (simp add: dget_def evolves_identity runtime_identity_fields_def)

lemma evolves_id: "evolves v v' \<Longrightarrow> dget v' ''id'' = dget v ''id''"
  by (simp add: dget_def evolves_identity runtime_identity_fields_def)

lemma evolves_refl: "evolves v v"
  by (simp add: evolves_def same_fields_def frozen_as_def list_all_iff)

lemma map_of_dsetdefault_fun:
  "map_of (dsetdefault k x v) = (if map_of v k = None then (map_of v)(k \<mapsto> x) else map_of v)"
  by (auto simp: map_of_dsetdefault)

lemma frozen_as_trans: "frozen_as v v' \<Longrightarrow> frozen_as v' v'' \<Longrightarrow> frozen_as v v''"
  by (auto simp: frozen_as_def map_of_dsetdefault_fun dget_def split: if_splits)

lemma frozen_as_completed: "frozen_as v v' \<Longrightarrow> completed v \<Longrightarrow> completed v'"
  by (auto simp: frozen_as_def completed_def dget_def map_of_dsetdefault_fun split: if_splits)

lemma evolves_trans:
  assumes "evolves v v'" "evolves v' v''"
  shows "evolves v v''"
proof -
  have k: "dget v' ''kind'' = dget v ''kind''" using assms(1) by (rule evolves_kind)
  then have idf: "identity_fields v' = identity_fields v"
    and once: "kept_once_fields v' = kept_once_fields v"
    by (simp_all add: identity_fields_def kept_once_fields_def)
  have "same_fields (identity_fields v) v v''"
    using assms idf by (auto simp: evolves_def same_fields_def list_all_iff)
  moreover have "completed v \<longrightarrow> frozen_as v v''"
    using assms by (auto simp: evolves_def intro: frozen_as_trans frozen_as_completed)
  moreover have "same_fields (filter (dhas v) (kept_once_fields v)) v v''"
    using assms once
    by (auto simp: evolves_def same_fields_def list_all_iff dhas_iff)
  ultimately show ?thesis by (simp add: evolves_def)
qed

subsection \<open>The changes the methods make\<close>

text \<open>
  A change that writes only fields outside the identity, to an object that is not
  completed, and leaves the set write-once fields alone.
\<close>

lemma evolvesI:
  assumes "\<And>f. f \<in> set (identity_fields v) \<Longrightarrow> map_of v' f = map_of v f"
    and "completed v \<Longrightarrow> frozen_as v v'"
    and "\<And>f. f \<in> set (kept_once_fields v) \<Longrightarrow> dhas v f \<Longrightarrow> map_of v' f = map_of v f"
  shows "evolves v v'"
  using assms by (auto simp: evolves_def same_fields_def list_all_iff)

lemmas field_list_defs = identity_fields_def runtime_identity_fields_def kind_identity_fields_def
  kept_once_fields_def kind_write_once_fields_def

lemma protected_changes_empty:
  assumes "protected_changes v changes = []"
  shows "f \<in> set (identity_fields v) \<Longrightarrow> \<not> dhas changes f"
    and "f \<in> set status_managed_fields \<Longrightarrow> \<not> dhas changes f"
    and "f \<in> set (kind_write_once_fields (dget v ''kind'')) \<Longrightarrow> dhas v f \<Longrightarrow> \<not> dhas changes f"
proof -
  let ?all = "filter (\<lambda>f. dhas changes f) (runtime_identity_fields @ status_managed_fields
      @ kind_identity_fields (dget v ''kind''))
    @ filter (\<lambda>f. dhas v f \<and> dhas changes f) (kind_write_once_fields (dget v ''kind''))"
  have "set (protected_changes v changes) = set ?all"
    by (simp add: protected_changes_def Let_def)
  with assms have none: "set ?all = {}" by simp
  show "f \<in> set (identity_fields v) \<Longrightarrow> \<not> dhas changes f"
    using none by (auto simp: identity_fields_def)
  show "f \<in> set status_managed_fields \<Longrightarrow> \<not> dhas changes f"
    using none by auto
  show "f \<in> set (kind_write_once_fields (dget v ''kind'')) \<Longrightarrow> dhas v f \<Longrightarrow> \<not> dhas changes f"
    using none by auto
qed

lemma map_of_status_updated_other:
  assumes "\<not> dhas changes f" "f \<notin> set status_managed_fields"
  shows "map_of (status_updated v status now changes) f = map_of v f"
  using assms
  by (simp add: status_updated_def Let_def map_of_dput map_of_dsetdefault map_of_dupdate_other
      dhas_def status_managed_fields_def)

lemma dget_status_updated_status [simp]:
  "dget (status_updated v status now changes) ''status'' = JStr status"
  by (simp add: status_updated_def Let_def dget_def map_of_dput map_of_dsetdefault)

lemma evolves_status_updated:
  assumes free: "protected_changes v changes = []" and open': "\<not> completed v"
  shows "evolves v (status_updated v status now changes)"
proof (rule evolvesI)
  fix f assume f: "f \<in> set (identity_fields v)"
  then have "f \<notin> set status_managed_fields"
    by (auto simp: field_list_defs status_managed_fields_def split: if_splits)
  with protected_changes_empty(1)[OF free f]
  show "map_of (status_updated v status now changes) f = map_of v f"
    by (simp add: map_of_status_updated_other)
next
  fix f assume f: "f \<in> set (kept_once_fields v)" and v: "dhas v f"
  then have w: "f \<in> set (kind_write_once_fields (dget v ''kind''))"
    by (simp add: kept_once_fields_def)
  then have "f \<notin> set status_managed_fields"
    by (auto simp: field_list_defs status_managed_fields_def split: if_splits)
  with protected_changes_empty(3)[OF free w v]
  show "map_of (status_updated v status now changes) f = map_of v f"
    by (simp add: map_of_status_updated_other)
qed (use open' in simp)

lemma dput_change_evolves:
  assumes "\<not> completed v" "f \<notin> set (identity_fields v)" "f \<notin> set (kept_once_fields v)"
  shows "evolves v (dput f x v)" "evolves v (dpop f v)"
  using assms by (auto intro!: evolvesI simp: map_of_dput map_of_dpop)


text \<open>The fields the special-purpose methods write.\<close>

definition loose_fields :: "string list" where
  "loose_fields = [''status'', ''updatedAt'', ''dispatchState'', ''dispatchOwnerId'', ''approvalId'',
     ''taskExecutionIds'']"

lemma evolves_loose:
  assumes "\<not> completed v" "\<And>f. f \<notin> set loose_fields \<Longrightarrow> map_of v' f = map_of v f"
  shows "evolves v v'"
proof (rule evolvesI)
  fix f assume "f \<in> set (identity_fields v)"
  then have "f \<notin> set loose_fields"
    by (auto simp: field_list_defs loose_fields_def split: if_splits)
  then show "map_of v' f = map_of v f" by (rule assms(2))
next
  fix f assume "f \<in> set (kept_once_fields v)"
  then have "f \<notin> set loose_fields"
    by (auto simp: field_list_defs loose_fields_def split: if_splits)
  then show "map_of v' f = map_of v f" by (rule assms(2))
qed (use assms(1) in simp)

lemma running_not_completed: "dget v ''status'' = JStr ''RUNNING'' \<Longrightarrow> \<not> completed v"
  by (simp add: completed_def terminal_statuses_def)

lemma awaiting_not_completed: "awaiting_task v \<Longrightarrow> \<not> completed v"
  by (simp add: awaiting_task_def completed_def terminal_statuses_def)

lemma evolves_dispatch_claim:
  "dget v ''status'' = JStr ''RUNNING'' \<Longrightarrow>
   evolves v (dput ''updatedAt'' x (dput ''dispatchOwnerId'' y (dput ''dispatchState'' z v)))"
  by (rule evolves_loose) (simp_all add: running_not_completed map_of_dput loose_fields_def)

lemma evolves_woken_task:
  assumes "in_strs (dget v ''status'') [''AWAITING_APPROVAL'', ''PENDING'']"
  shows "evolves v (woken_task v a u)"
proof (rule evolves_loose)
  show "\<not> completed v"
    using assms by (auto simp: completed_def in_strs_def terminal_statuses_def)
qed (simp add: woken_task_def Let_def map_of_dput map_of_dpop loose_fields_def)

lemma dget_woken_task_status:
  "dget (woken_task v a u) ''status'' =
     (if dget v ''status'' = JStr ''AWAITING_APPROVAL'' then JStr ''PENDING'' else dget v ''status'')"
  by (simp add: woken_task_def Let_def dget_dput dget_dpop)

lemma dget_bound_task_status: "dget (bound_task v a u) ''status'' = dget v ''status''"
  by (simp add: bound_task_def dget_dput)

lemma evolves_bound_task: "awaiting_task v \<Longrightarrow> evolves v (bound_task v a u)"
  by (rule evolves_loose)
    (simp_all add: awaiting_not_completed bound_task_def map_of_dput loose_fields_def)

lemma evolves_attachment_list:
  assumes "dget v ''kind'' = JStr ''WorkflowExecution''"
  shows "evolves v (dsetdefault ''taskExecutionIds'' (JList []) v)"
proof (rule evolvesI)
  show "frozen_as v (dsetdefault ''taskExecutionIds'' (JList []) v)"
    using assms by (simp add: frozen_as_def)
qed (auto simp: map_of_dsetdefault field_list_defs split: if_splits)

lemma evolves_attach:
  "\<not> completed v \<Longrightarrow> evolves v (dput ''updatedAt'' x (dput ''taskExecutionIds'' y v))"
  by (rule evolves_loose) (simp_all add: map_of_dput loose_fields_def)

lemma copy_and_validate_Inr:
  "copy_and_validate j = Inr v \<Longrightarrow>
     j = JObj v \<and> nonempty_str (dget v ''id'') \<and> nonempty_str (dget v ''kind'')"
  by (cases j) (auto simp: copy_and_validate_def Let_def split: if_splits)

section \<open>Relations between store states that every method respects\<close>

text \<open>
  \<open>Q\<close> is the change of status a saved object may undergo, \<open>N\<close> what a created object may be.
\<close>

locale store_rel = step_rel R for R :: "store \<Rightarrow> store \<Rightarrow> bool" +
  fixes Q :: "json \<Rightarrow> json \<Rightarrow> bool" and N :: "dict \<Rightarrow> bool"
  assumes same_status: "Q x x"
  and save_step:
    "map_of (objects s) oid = Some v \<Longrightarrow> evolves v v' \<Longrightarrow> Q (dget v ''status'') (dget v' ''status'')
     \<Longrightarrow> R s (s\<lparr>objects := dput oid v' (objects s)\<rparr>)"
  and create_step:
    "copy_and_validate (JObj v) = Inr v \<Longrightarrow> \<not> dhas (objects s) (as_str (dget v ''id''))
     \<Longrightarrow> map_of (deterministic_keys s) key = None \<Longrightarrow> N v
     \<Longrightarrow> R s (index_value v
           (s\<lparr>objects := dput (as_str (dget v ''id'')) v (objects s),
              deterministic_keys := dput key (as_str (dget v ''id'')) (deterministic_keys s)\<rparr>))"
  and claim_step: "R s (s\<lparr>claims := c\<rparr>)"
  and lease_step: "R s (s\<lparr>leases := l\<rparr>)"
begin

subsection \<open>Stepping through a method at a state\<close>

lemma at_ret: "R s (snd (ret a s))"
  by (simp add: ret_apply refl)

lemma at_throw: "R s (snd (throw e s))"
  by (simp add: throw_apply refl)

lemma at_check: "(b \<Longrightarrow> R s (snd (k s))) \<Longrightarrow> R s (snd (thenE (checkE b e) k s))"
  by (simp add: thenE_apply checkE_apply refl)

lemma at_lift: "(\<And>a. r = Inr a \<Longrightarrow> R s (snd (f a s))) \<Longrightarrow> R s (snd (bindE (liftR r) f s))"
  by (cases r) (simp_all add: bindE_apply liftR_apply refl)

lemma at_lift_then: "(r = Inr () \<Longrightarrow> R s (snd (k s))) \<Longrightarrow> R s (snd (thenE (liftR r) k s))"
  by (cases r) (simp_all add: thenE_apply liftR_apply refl)

lemma at_require:
  "(\<And>v. map_of (objects s) oid = Some v \<Longrightarrow> R s (snd (f v s)))
   \<Longrightarrow> R s (snd (bindE (require oid) f s))"
  by (cases "map_of (objects s) oid") (simp_all add: bindE_apply require_def refl)

lemma at_save:
  "map_of (objects s) oid = Some v \<Longrightarrow> evolves v v' \<Longrightarrow> Q (dget v ''status'') (dget v' ''status'')
   \<Longrightarrow> R s (snd (thenE (save oid v') (ret x) s))"
  by (simp add: thenE_apply save_def ret_apply save_step)

lemma at_get: "R s (snd (f s s)) \<Longrightarrow> R s (snd (bindE getE f s))"
  by (simp add: bindE_apply getE_apply)

lemma at_ite: "(b \<Longrightarrow> R s (snd (m s))) \<Longrightarrow> (\<not> b \<Longrightarrow> R s (snd (k s)))
    \<Longrightarrow> R s (snd ((if b then m else k) s))"
  by simp

lemmas at_rules = at_ret at_throw at_check at_lift at_lift_then at_require at_get at_ite

subsection \<open>The methods\<close>

lemma mem_create:
  assumes new: "\<And>d. j = JObj d \<Longrightarrow> N d"
  shows "keeps R (mem_create j key)"
proof (rule keepsI, unfold mem_create_def, intro at_rules)
  fix s :: store and v
  assume valid: "copy_and_validate j = Inr v"
  then have j: "j = JObj v"
    by (cases j) (auto simp: copy_and_validate_def Let_def split: if_splits)
  with valid create_step new
  show "R s (snd (let object_id = as_str (dget v ''id'')
     in case map_of (deterministic_keys s) key of
          None \<Rightarrow> if dhas (objects s) object_id
                  then (Inl (store_error RuntimeObjectAlreadyExistsError
                          (''runtime object '' @ repr_str object_id @ '' already exists'')), s)
                  else (Inr v, index_value v (s\<lparr>objects := dput object_id v (objects s),
                          deterministic_keys := dput key object_id (deterministic_keys s)\<rparr>))
        | Some existing_id \<Rightarrow>
            (case map_of (objects s) existing_id of
               None \<Rightarrow> (Inl (Exn KeyError existing_id JNull), s)
             | Some existing \<Rightarrow> (Inr existing, s))))"
    by (auto simp: Let_def refl split: option.split)
qed

lemma mem_append_event:
  assumes "\<And>d. j = JObj d \<Longrightarrow> dget d ''kind'' = JStr ''ExecutionEvent'' \<Longrightarrow> N d"
  shows "keeps R (mem_append_event j)"
proof (rule keepsI, unfold mem_append_event_def, intro at_rules)
  fix s v
  assume "copy_and_validate j = Inr v" "dget v ''kind'' = JStr ''ExecutionEvent''"
  with assms have "keeps R (mem_create (JObj v) (''execution-event:'' @ as_str (dget v ''id'')))"
    by (intro mem_create) (auto dest: copy_and_validate_Inr)
  then show "R s (snd (mem_create (JObj v) (''execution-event:'' @ as_str (dget v ''id'')) s))"
    by (simp add: keeps_def)
qed

lemma mem_create_with_event:
  "(\<And>d. j = JObj d \<Longrightarrow> N d) \<Longrightarrow> (\<And>d. e = JObj d \<Longrightarrow> dget d ''kind'' = JStr ''ExecutionEvent'' \<Longrightarrow> N d)
   \<Longrightarrow> keeps R (mem_create_with_event j e key)"
  unfolding mem_create_with_event_def
  by (intro atomicE bindE thenE mem_create mem_append_event ret)

definition may_update :: "string option \<Rightarrow> string \<Rightarrow> bool" where
  "may_update expected status \<longleftrightarrow>
     (case expected of None \<Rightarrow> (\<forall>x. Q x (JStr status)) | Some e \<Rightarrow> Q (JStr e) (JStr status))"

lemma mem_update_status:
  assumes "may_update expd status"
  shows "keeps R (mem_update_status wall oid status expd upd changes)"
proof (rule keepsI, unfold mem_update_status_def Let_def, intro at_rules)
  fix s :: store and v
  assume "map_of (objects s) oid = Some v" and "protected_changes v changes = []"
    and "\<not> in_strs (dget v ''status'') terminal_statuses"
    and "case expd of None \<Rightarrow> True | Some e \<Rightarrow> dget v ''status'' = JStr e"
  then show "R s (snd (thenE (save oid (status_updated v status
        (case upd of None \<Rightarrow> wall | Some t \<Rightarrow> if t = [] then wall else t) changes))
        (ret (status_updated v status
        (case upd of None \<Rightarrow> wall | Some t \<Rightarrow> if t = [] then wall else t) changes)) s))"
    using assms
    by (auto intro!: at_save evolves_status_updated simp: completed_def may_update_def
        split: option.splits)
qed

lemma mem_claim: "keeps R (mem_claim key j)"
  by (rule keepsI, unfold mem_claim_def, intro at_rules)
    (auto simp: refl claim_step split: option.split)

lemma leases_kept:
  "keeps R (mem_acquire_lease k ow now ex)" "keeps R (mem_renew_lease k ow now ex)"
  "keeps R (mem_release_lease k ow)"
  by (auto simp: keeps_def mem_acquire_lease_def mem_renew_lease_def mem_release_lease_def
      refl lease_step split: option.split)

lemma mem_update_status_with_lease:
  "may_update expd st \<Longrightarrow> keeps R (mem_update_status_with_lease wall oid st lk ow now expd upd changes)"
  unfolding mem_update_status_with_lease_def by (intro rules mem_update_status)

lemma mem_claim_task_dispatch: "keeps R (mem_claim_task_dispatch t ow u)"
  by (rule keepsI, unfold mem_claim_task_dispatch_def Let_def, intro at_rules)
    (auto intro!: at_save evolves_dispatch_claim simp: dget_dput same_status)

lemma mem_wake_approved_task:
  "Q (JStr ''AWAITING_APPROVAL'') (JStr ''PENDING'') \<Longrightarrow> keeps R (mem_wake_approved_task t a u)"
  by (rule keepsI, unfold mem_wake_approved_task_def Let_def, intro at_rules)
    (auto intro!: at_save evolves_woken_task simp: dget_woken_task_status same_status)

lemma mem_bind_approval_request: "keeps R (mem_bind_approval_request t a u)"
  by (rule keepsI, unfold mem_bind_approval_request_def Let_def, intro at_rules)
    (auto intro!: at_save evolves_bound_task simp: dget_bound_task_status same_status)

lemma rebind_kept:
  "keeps R (bindE (require tid) (\<lambda>task. thenE (checkE (awaiting_task task) e)
     (if P1 task then ret x else if P2 task then throw e'
      else thenE (save tid (bound_task task a u)) (ret y))))"
  by (rule keepsI, intro at_rules)
    (auto intro!: at_save evolves_bound_task simp: dget_bound_task_status same_status)

lemma mem_create_approval_request:
  "(\<And>d. j = JObj d \<Longrightarrow> N d) \<Longrightarrow> keeps R (mem_create_approval_request j key expd u)"
  unfolding mem_create_approval_request_def Let_def
  by (intro atomicE bindE liftR mem_create rebind_kept)

lemma at_attach:
  "map_of (objects s) w = Some v \<Longrightarrow> R s (snd (attach_task_id wall w t u v s))"
  unfolding attach_task_id_def Let_def
  by (intro at_rules) (auto intro!: at_save evolves_attach simp: completed_def dget_dput same_status)

lemma mem_append_task_execution_id: "keeps R (mem_append_task_execution_id wall w t u)"
proof (rule keepsI, unfold mem_append_task_execution_id_def Let_def, intro at_rules)
  fix s :: store and v task
  let ?v1 = "dsetdefault ''taskExecutionIds'' (JList []) v"
  let ?s1 = "s\<lparr>objects := dput w ?v1 (objects s)\<rparr>"
  assume v: "map_of (objects s) w = Some v" and kind: "dget v ''kind'' = JStr ''WorkflowExecution''"
  have "dget ?v1 ''status'' = dget v ''status''" by (simp add: dget_def map_of_dsetdefault)
  then have "R s ?s1" using v by (intro save_step[OF _ evolves_attachment_list[OF kind]]) (simp_all add: same_status)
  moreover have "R ?s1 (snd (attach_task_id wall w t u ?v1 ?s1))"
    by (rule at_attach) (simp add: map_of_dput)
  ultimately have "R s (snd (attach_task_id wall w t u ?v1 ?s1))" by (rule trans)
  then show "R s (snd (thenE (save w ?v1) (attach_task_id wall w t u ?v1) s))"
    by (simp add: thenE_apply save_def)
qed

lemma mem_commit_task_execution_transition:
  "Q (JStr expd) (JStr st)
   \<Longrightarrow> (\<And>d. e = JObj d \<Longrightarrow> dget d ''kind'' = JStr ''ExecutionEvent'' \<Longrightarrow> N d)
   \<Longrightarrow> keeps R (mem_commit_task_execution_transition wall t st w e expd u changes)"
  unfolding mem_commit_task_execution_transition_def
  by (intro atomicE bindE thenE ret mem_update_status mem_append_task_execution_id mem_append_event)
    (simp_all add: may_update_def)

lemma require_kept: "keeps R (require oid)"
  by (simp add: keeps_def require_def refl split: option.split)

lemma mem_commit_workflow_execution_transition:
  "Q (JStr expd) (JStr st)
   \<Longrightarrow> (\<And>d. e = JObj d \<Longrightarrow> dget d ''kind'' = JStr ''ExecutionEvent'' \<Longrightarrow> N d)
   \<Longrightarrow> keeps R (mem_commit_workflow_execution_transition wall w st e expd u changes)"
  unfolding mem_commit_workflow_execution_transition_def
  by (intro atomicE bindE thenE liftR checkE require_kept mem_update_status mem_append_event)
    (simp_all add: may_update_def)

lemma mem_mutate_execution_budget:
  "keeps R (mem_mutate_execution_budget wall w t mutate u)"
  unfolding mem_mutate_execution_budget_def
  by (intro atomicE bindE thenE liftR checkE ret require_kept mem_update_status case_prod case_prod_fun)
    (simp_all add: may_update_def same_status)

lemma readers_kept:
  "keeps R (mem_get oid)" "keeps R (mem_list_by_workflow_execution w)"
  "keeps R (mem_list_by_task_execution t)"
  by (simp_all add: keeps_def mem_get_def mem_list_by_workflow_execution_def
      mem_list_by_task_execution_def refl)

lemmas methods = mem_create mem_append_event mem_create_with_event mem_update_status mem_claim
  leases_kept mem_update_status_with_lease mem_claim_task_dispatch mem_wake_approved_task
  mem_bind_approval_request mem_create_approval_request mem_append_task_execution_id
  mem_commit_task_execution_transition mem_commit_workflow_execution_transition
  mem_mutate_execution_budget require_kept readers_kept

end


section \<open>Evidence is preserved\<close>

definition evidence :: "store \<Rightarrow> store \<Rightarrow> bool" where
  "evidence s t \<longleftrightarrow>
     (\<forall>oid v. map_of (objects s) oid = Some v
        \<longrightarrow> (\<exists>v'. map_of (objects t) oid = Some v' \<and> evolves v v'))"

lemma objects_index_value [simp]: "objects (index_value v s) = objects s"
  by (simp add: index_value_def Let_def split: option.split)

lemma deterministic_keys_index_value [simp]:
  "deterministic_keys (index_value v s) = deterministic_keys s"
  by (simp add: index_value_def Let_def split: option.split)

lemma evidenceD:
  "evidence s t \<Longrightarrow> map_of (objects s) oid = Some v
   \<Longrightarrow> \<exists>v'. map_of (objects t) oid = Some v' \<and> evolves v v'"
  by (simp add: evidence_def)

interpretation evidence: store_rel evidence "\<lambda>_ _. True" "\<lambda>_. True"
proof (unfold_locales, goal_cases)
  case (2 s t u)
  then show ?case unfolding evidence_def by (blast intro: evolves_trans)
next
  case (4 s oid v v')
  then show ?case by (auto simp: evidence_def map_of_dput intro: evolves_refl)
next
  case (5 v s key)
  then show ?case by (auto simp: evidence_def map_of_dput dhas_iff intro: evolves_refl)
qed (auto simp: evidence_def intro: evolves_refl)

section \<open>Well-formed stores\<close>

definition anchored :: "dict \<Rightarrow> bool" where
  "anchored v \<longleftrightarrow> dget v ''kind'' = JStr ''TaskExecution'' \<or> dget v ''kind'' = JStr ''WorkflowExecution''"

text \<open>
  Objects sit under their own id; deterministic keys and indexes refer to stored
  objects; a workflow's index lists each of its tasks exactly once, and no other task.
\<close>

definition store_ok :: "store \<Rightarrow> bool" where
  "store_ok s \<longleftrightarrow>
     distinct (dkeys (objects s))
     \<and> (\<forall>oid v. map_of (objects s) oid = Some v
          \<longrightarrow> oid \<noteq> [] \<and> dget v ''id'' = JStr oid \<and> nonempty_str (dget v ''kind''))
     \<and> (\<forall>k oid. map_of (deterministic_keys s) k = Some oid \<longrightarrow> dhas (objects s) oid)
     \<and> (\<forall>w oid. oid \<in> set (index_lookup (workflow_index s) w) \<longrightarrow> dhas (objects s) oid)
     \<and> (\<forall>t oid. oid \<in> set (index_lookup (task_execution_index s) t) \<longrightarrow> dhas (objects s) oid)
     \<and> (\<forall>w. distinct (index_lookup (workflow_index s) w))
     \<and> (\<forall>oid v w. map_of (objects s) oid = Some v \<longrightarrow> anchored v
          \<longrightarrow> (oid \<in> set (index_lookup (workflow_index s) w) \<longleftrightarrow> workflow_execution_id_of v = Some w))"

lemma store_okD:
  assumes "store_ok s"
  shows "distinct (dkeys (objects s))"
    and "map_of (objects s) oid = Some v
         \<Longrightarrow> oid \<noteq> [] \<and> dget v ''id'' = JStr oid \<and> nonempty_str (dget v ''kind'')"
    and "map_of (deterministic_keys s) k = Some oid \<Longrightarrow> dhas (objects s) oid"
    and "oid \<in> set (index_lookup (workflow_index s) w) \<Longrightarrow> dhas (objects s) oid"
    and "oid \<in> set (index_lookup (task_execution_index s) t) \<Longrightarrow> dhas (objects s) oid"
    and "distinct (index_lookup (workflow_index s) w)"
    and "map_of (objects s) oid = Some v \<Longrightarrow> anchored v
         \<Longrightarrow> oid \<in> set (index_lookup (workflow_index s) w) \<longleftrightarrow> workflow_execution_id_of v = Some w"
  using assms by (auto simp: store_ok_def)

lemma store_ok_empty: "store_ok empty_store"
  by (simp add: store_ok_def empty_store_def dkeys_def index_lookup_def)

lemma anchored_evolves:
  assumes "evolves v v'" "anchored v'"
  shows "anchored v" "workflow_execution_id_of v' = workflow_execution_id_of v"
proof -
  have kind: "dget v' ''kind'' = dget v ''kind''" using assms(1) by (rule evolves_kind)
  then show an: "anchored v" using assms(2) by (simp add: anchored_def)
  have same: "dget v' f = dget v f" if "f \<in> set (identity_fields v)" for f
    using assms(1) that by (simp add: dget_def evolves_identity)
  have id: "dget v' ''id'' = dget v ''id''" "dget v' ''provenance'' = dget v ''provenance''"
    by (simp_all add: same runtime_identity_fields_def)
  show "workflow_execution_id_of v' = workflow_execution_id_of v"
  proof (cases "dget v ''kind'' = JStr ''WorkflowExecution''")
    case True
    then show ?thesis using kind id by (simp add: workflow_execution_id_of_def)
  next
    case False
    with an have "dget v ''kind'' = JStr ''TaskExecution''" by (simp add: anchored_def)
    then have "dget v' ''workflowExecutionId'' = dget v ''workflowExecutionId''"
      by (intro same) (simp add: identity_fields_def kind_identity_fields_def)
    then show ?thesis using kind id by (simp add: workflow_execution_id_of_def)
  qed
qed

lemma index_lookup_append:
  "index_lookup (index_append key oid ix) k
     = (if k = key then index_lookup ix key @ [oid] else index_lookup ix k)"
  by (simp add: index_lookup_def index_append_def map_of_dput)

lemma workflow_index_value:
  "index_lookup (workflow_index (index_value v s)) w =
     index_lookup (workflow_index s) w
       @ (if workflow_execution_id_of v = Some w then [as_str (dget v ''id'')] else [])"
  by (auto simp: index_value_def Let_def index_lookup_append split: option.split)

lemma task_index_value:
  "index_lookup (task_execution_index (index_value v s)) t =
     index_lookup (task_execution_index s) t
       @ (if task_execution_id_of v = Some t then [as_str (dget v ''id'')] else [])"
  by (auto simp: index_value_def Let_def index_lookup_append split: option.split)

lemma dhas_dput [simp]: "dhas (dput k v d) k' \<longleftrightarrow> k' = k \<or> dhas d k'"
  by (simp add: dhas_iff map_of_dput)

lemma store_ok_save:
  assumes ok: "store_ok s" and v: "map_of (objects s) oid = Some v" and ev: "evolves v v'"
  shows "store_ok (s\<lparr>objects := dput oid v' (objects s)\<rparr>)"
proof -
  have "dhas (objects s) oid" using v by (simp add: dhas_iff)
  moreover have "dget v' ''id'' = JStr oid" "nonempty_str (dget v' ''kind'')" "oid \<noteq> []"
    using store_okD(2)[OF ok v] evolves_id[OF ev] evolves_kind[OF ev] by simp_all
  moreover have "oid \<in> set (index_lookup (workflow_index s) w) \<longleftrightarrow> workflow_execution_id_of v' = Some w"
    if "anchored v'" for w
    using store_okD(7)[OF ok v] anchored_evolves[OF ev that] by simp
  ultimately show ?thesis
    using ok unfolding store_ok_def dkeys_def by (simp add: map_of_dput)
qed

lemma store_ok_create:
  assumes ok: "store_ok s" and valid: "copy_and_validate (JObj v) = Inr v"
    and new: "\<not> dhas (objects s) (as_str (dget v ''id''))"
    and key: "map_of (deterministic_keys s) key = None"
  shows "store_ok (index_value v
           (s\<lparr>objects := dput (as_str (dget v ''id'')) v (objects s),
              deterministic_keys := dput key (as_str (dget v ''id'')) (deterministic_keys s)\<rparr>))"
proof -
  obtain oid where oid: "dget v ''id'' = JStr oid" "oid \<noteq> []" and kind: "nonempty_str (dget v ''kind'')"
    using copy_and_validate_Inr[OF valid] by (auto elim: nonempty_strE)
  have fresh: "oid \<notin> set (index_lookup (workflow_index s) w)" for w
    using store_okD(4)[OF ok] new oid by auto
  have "distinct (dkeys (dput oid v (objects s)))"
    using store_okD(1)[OF ok] by (simp add: dkeys_def)
  then show ?thesis
    using ok new fresh kind unfolding store_ok_def
    by (auto simp: oid map_of_dput workflow_index_value task_index_value split: if_splits)
qed

interpretation store_wf: store_rel "\<lambda>s t. store_ok s \<longrightarrow> store_ok t" "\<lambda>_ _. True" "\<lambda>_. True"
proof (unfold_locales, goal_cases)
  case (4 s oid v v')
  then show ?case by (simp add: store_ok_save)
next
  case (5 v s key)
  then show ?case by (simp add: store_ok_create)
next
  case (6 s c)
  then show ?case by (simp add: store_ok_def)
next
  case (7 s l)
  then show ?case by (simp add: store_ok_def)
qed auto

text \<open>Listing a workflow or a task of a well-formed store never fails.\<close>

lemma indexed_objects_total:
  assumes "\<And>oid. oid \<in> set ids \<Longrightarrow> dhas (objects s) oid"
  shows "indexed_objects ids s = Inr (map (\<lambda>oid. the (map_of (objects s) oid)) ids)"
  using assms
proof (induction ids)
  case (Cons a ids)
  obtain v where "map_of (objects s) a = Some v"
    using Cons.prems [of a] by (auto simp: dhas_iff)
  with Cons show ?case by (simp add: indexed_objects_def)
qed (simp add: indexed_objects_def)

lemma list_by_workflow_execution_total:
  "store_ok s \<Longrightarrow> mem_list_by_workflow_execution w s =
     (Inr (map (\<lambda>oid. the (map_of (objects s) oid)) (index_lookup (workflow_index s) w)), s)"
  unfolding mem_list_by_workflow_execution_def
  by (subst indexed_objects_total) (auto dest: store_okD(4))

end
