(* ===== verification/DurableStore.thy ===== *)
theory DurableStore
  imports StoreEvidence
begin

text \<open>
  \<open>runtime_store.py\<close>, the durable store.  \<open>durable\<close> is the in-memory state, the
  checkpoint file (the JSON value its text decodes to, or no file) and the faults the
  operating system has in store: each transaction consumes one.  A transaction takes the
  writer fence, reloads the checkpoint, runs the in-memory method, writes the checkpoint
  by temporary file and rename, and releases the fence; every raise of that sequence is a
  branch.  Writing text and reading it back is \<open>canon\<close>: \<open>json.dumps\<close> sorts the keys.

  The lemmas give the round trip through the file, the atomicity of a transaction and
  the meaning of its diagnostics, and show that every transaction respects evidence.
\<close>

section \<open>Faults and diagnostics\<close>

datatype checkpoint_phase = TemporaryCreate | TemporaryWrite | FileSync | Replace | DirectorySync

fun phase_name :: "checkpoint_phase \<Rightarrow> string" where
  "phase_name TemporaryCreate = ''temporary_create''"
| "phase_name TemporaryWrite = ''temporary_write''"
| "phase_name FileSync = ''file_sync''"
| "phase_name Replace = ''replace''"
| "phase_name DirectorySync = ''directory_sync''"

datatype fence_phase = FenceOpen | FenceAcquire | FenceCleanup

fun fence_phase_name :: "fence_phase \<Rightarrow> string" where
  "fence_phase_name FenceOpen = ''open''"
| "fence_phase_name FenceAcquire = ''acquire''"
| "fence_phase_name FenceCleanup = ''cleanup''"

text \<open>An \<open>OSError\<close> at one point of a transaction, with its \<open>errno\<close> if it has one.\<close>

datatype io_fault =
    NoFault
  | FenceFault fence_phase "int option"
  | ReadFault "int option"
  | CheckpointFault checkpoint_phase "int option"
  | ReleaseFault "int option"

record durable =
  memory :: store
  disk :: "json option"
  faults :: "io_fault list"
  windows :: bool

definition category_by_errno :: "(int \<times> string) list" where
  \<comment> \<open>EACCES, EPERM, ENOSPC, EROFS, EBUSY, EEXIST, EIO\<close>
  "category_by_errno =
     [(13, ''permission_denied''), (1, ''permission_denied''), (28, ''no_space''), (30, ''read_only''),
      (16, ''busy''), (17, ''collision''), (5, ''io_error'')]"

definition persistence_diagnostic :: "string \<Rightarrow> string \<Rightarrow> int option \<Rightarrow> bool \<Rightarrow> dict" where
  "persistence_diagnostic operation phase number lock_contention =
     (let category =
        (if lock_contention \<and> (number = Some 13 \<or> number = Some 11) then ''busy''
         else case number of None \<Rightarrow> ''os_error''
              | Some n \<Rightarrow> (case map_of category_by_errno n of None \<Rightarrow> ''os_error'' | Some c \<Rightarrow> c))
      in [(''operation'', JStr operation), (''phase'', JStr phase), (''category'', JStr category),
          (''errno'', case number of None \<Rightarrow> JNull | Some n \<Rightarrow> if n \<ge> 0 then JInt n else JNull)])"

definition fence_error :: "bool \<Rightarrow> fence_phase \<Rightarrow> int option \<Rightarrow> exn" where
  "fence_error nt ph n =
     Exn RuntimeStoreError ''durable runtime writer fence could not be acquired''
       (JObj (persistence_diagnostic ''writer_fence'' (fence_phase_name ph) n (ph = FenceAcquire \<and> nt)))"

definition release_error :: "int option \<Rightarrow> exn" where
  "release_error n =
     Exn RuntimeStoreError ''durable runtime writer fence could not be released''
       (JObj (persistence_diagnostic ''writer_fence'' ''release'' n False))"

definition read_error :: "int option \<Rightarrow> exn" where
  "read_error n =
     Exn RuntimeStoreError ''durable runtime checkpoint could not be read''
       (JObj (persistence_diagnostic ''restore'' ''read'' n False))"

definition checkpoint_error :: "checkpoint_phase \<Rightarrow> int option \<Rightarrow> exn" where
  "checkpoint_error ph n =
     Exn RuntimeStoreError ''durable runtime checkpoint persistence failed''
       (JObj (persistence_diagnostic ''checkpoint'' (phase_name ph) n False))"

definition invalid_checkpoint :: exn where
  "invalid_checkpoint =
     Exn RuntimeStoreError ''durable runtime checkpoint is invalid''
       (JObj [(''operation'', JStr ''restore''), (''phase'', JStr ''read''),
              (''category'', JStr ''invalid_checkpoint'')])"

section \<open>The checkpoint\<close>

definition checkpoint_payload :: "store \<Rightarrow> json" where
  "checkpoint_payload s = JObj
     [(''objects'', JObj (map (\<lambda>(k, v). (k, JObj v)) (objects s))),
      (''objectOrder'', JList (map JStr (dkeys (objects s)))),
      (''deterministicKeys'', JObj (map (\<lambda>(k, v). (k, JStr v)) (deterministic_keys s))),
      (''claims'', JObj (claims s)),
      (''leases'', JObj (map (\<lambda>(k, l). (k, JObj [(''ownerId'', JStr (lease_owner l)),
                                                 (''expiresAt'', JStr (lease_expires l))])) (leases s)))]"

definition restored_leases :: "dict \<Rightarrow> (string \<times> lease) list" where
  "restored_leases ls =
     map (\<lambda>(k, v). (k, \<lparr>lease_owner = py_str (mget v ''ownerId''), lease_expires = py_str (mget v ''expiresAt'')\<rparr>))
       (filter (\<lambda>(k, v). is_mapping v \<and> dhas (as_dict v) ''ownerId'' \<and> dhas (as_dict v) ''expiresAt'') ls)"

definition reindexed :: "store \<Rightarrow> store" where
  "reindexed s = foldl (\<lambda>t v. index_value v t) (s\<lparr>workflow_index := [], task_execution_index := []\<rparr>)
                   (map snd (objects s))"

definition restore_payload :: "json \<Rightarrow> exn + store" where
  "restore_payload payload =
     (let p = as_dict payload in
      if \<not> is_mapping payload \<or> \<not> dhas p ''objects'' \<or> \<not> dhas p ''deterministicKeys'' \<or> \<not> dhas p ''claims''
      then Inl invalid_checkpoint
      else
       let objs = dget p ''objects''; dks = dget p ''deterministicKeys''; cls = dget p ''claims'';
           lss = dget_or p ''leases'' (JObj []) in
       if \<not> (is_mapping objs \<and> is_mapping dks \<and> is_mapping cls \<and> is_mapping lss)
       then Inl invalid_checkpoint
       else
        let object_order = dget_or p ''objectOrder'' (JList (map JStr (dkeys (as_dict objs))));
            order = map as_str (as_list object_order) in
        if \<not> is_list object_order \<or> \<not> list_all is_str (as_list object_order)
           \<or> \<not> distinct order \<or> set order \<noteq> set (dkeys (as_dict objs))
        then Inl invalid_checkpoint
        else
         bindR (mapR (\<lambda>oid. bindR (copy_and_validate (mget objs oid)) (\<lambda>v. Inr (oid, v))) order) (\<lambda>restored.
         Inr (reindexed \<lparr>objects = restored,
                 deterministic_keys = map (\<lambda>(k, v). (k, py_str v)) (as_dict dks),
                 claims = as_dict cls,
                 leases = restored_leases (as_dict lss),
                 workflow_index = [], task_execution_index = []\<rparr>)))"

section \<open>Transactions\<close>

definition next_fault :: "durable \<Rightarrow> io_fault \<times> durable" where
  "next_fault w = (case faults w of [] \<Rightarrow> (NoFault, w) | f # fs \<Rightarrow> (f, w\<lparr>faults := fs\<rparr>))"

text \<open>Reloading the file, when there is one.\<close>

definition reload :: "io_fault \<Rightarrow> durable \<Rightarrow> exn + store" where
  "reload f w =
     (case disk w of None \<Rightarrow> Inr (memory w)
      | Some payload \<Rightarrow> (case f of ReadFault n \<Rightarrow> Inl (read_error n) | _ \<Rightarrow> restore_payload payload))"

definition keeps_memory_on :: "exn \<Rightarrow> bool" where
  "keeps_memory_on e \<longleftrightarrow>
     instance_of e RuntimeStoreError \<and> mget (exn_info e) ''phase'' = JStr ''directory_sync''"

definition committed_as :: "durable \<Rightarrow> store \<Rightarrow> durable" where
  "committed_as w s = w\<lparr>memory := s, disk := Some (canon (checkpoint_payload s))\<rparr>"

definition mutate :: "(store, 'a) eff \<Rightarrow> (durable, 'a) eff" where
  "mutate operation w0 =
     (let (f, w) = next_fault w0 in
      case f of FenceFault ph n \<Rightarrow> (Inl (fence_error (windows w) ph n), w)
      | _ \<Rightarrow>
        (case reload f w of
           Inl e \<Rightarrow> (Inl e, w)
         | Inr s0 \<Rightarrow>
             (case operation s0 of
                (Inl e, s1) \<Rightarrow> (Inl e, w\<lparr>memory := if keeps_memory_on e then s1 else s0\<rparr>)
              | (Inr a, s1) \<Rightarrow>
                  (case f of
                     CheckpointFault ph n \<Rightarrow>
                       if ph = DirectorySync
                       then (if windows w then (Inr a, committed_as w s1)
                             else (Inl (checkpoint_error ph n), committed_as w s1))
                       else (Inl (checkpoint_error ph n), w\<lparr>memory := s0\<rparr>)
                   | ReleaseFault n \<Rightarrow> (Inl (release_error n), committed_as w s1)
                   | _ \<Rightarrow> (Inr a, committed_as w s1)))))"

definition read :: "(store, 'a) eff \<Rightarrow> (durable, 'a) eff" where
  "read operation w0 =
     (let (f, w) = next_fault w0 in
      case f of FenceFault ph n \<Rightarrow> (Inl (fence_error (windows w) ph n), w)
      | _ \<Rightarrow>
        (case reload f w of
           Inl e \<Rightarrow> (Inl e, w)
         | Inr s0 \<Rightarrow>
             (case operation s0 of
                (Inl e, s1) \<Rightarrow> (Inl e, w\<lparr>memory := s1\<rparr>)
              | (Inr a, s1) \<Rightarrow>
                  (case f of ReleaseFault n \<Rightarrow> (Inl (release_error n), w\<lparr>memory := s1\<rparr>)
                   | _ \<Rightarrow> (Inr a, w\<lparr>memory := s1\<rparr>)))))"

section \<open>The methods\<close>

definition durable_create :: "json \<Rightarrow> string \<Rightarrow> (durable, dict) eff" where
  "durable_create runtime_object key = mutate (mem_create runtime_object key)"

definition durable_create_with_event :: "json \<Rightarrow> json \<Rightarrow> string \<Rightarrow> (durable, dict) eff" where
  "durable_create_with_event runtime_object event key =
     mutate (bindE (mem_create runtime_object key) (\<lambda>created.
       thenE (mem_append_event event) (ret created)))"

definition durable_claim :: "string \<Rightarrow> json \<Rightarrow> (durable, bool \<times> json) eff" where
  "durable_claim key value = mutate (mem_claim key value)"

definition durable_acquire_lease :: "string \<Rightarrow> string \<Rightarrow> string \<Rightarrow> string \<Rightarrow> (durable, bool) eff" where
  "durable_acquire_lease key owner_id now expires_at = mutate (mem_acquire_lease key owner_id now expires_at)"

definition durable_renew_lease :: "string \<Rightarrow> string \<Rightarrow> string \<Rightarrow> string \<Rightarrow> (durable, bool) eff" where
  "durable_renew_lease key owner_id now expires_at = mutate (mem_renew_lease key owner_id now expires_at)"

definition durable_release_lease :: "string \<Rightarrow> string \<Rightarrow> (durable, bool) eff" where
  "durable_release_lease key owner_id = mutate (mem_release_lease key owner_id)"

definition durable_update_status_with_lease ::
  "string \<Rightarrow> string \<Rightarrow> string \<Rightarrow> string \<Rightarrow> string \<Rightarrow> string \<Rightarrow> string option \<Rightarrow> string option \<Rightarrow> dict
   \<Rightarrow> (durable, dict) eff" where
  "durable_update_status_with_lease wall oid status lease_key owner_id now expected updated_at changes =
     mutate (mem_update_status_with_lease wall oid status lease_key owner_id now expected updated_at changes)"

definition durable_claim_task_dispatch :: "string \<Rightarrow> string \<Rightarrow> string \<Rightarrow> (durable, bool \<times> dict) eff" where
  "durable_claim_task_dispatch t owner_id updated_at = mutate (mem_claim_task_dispatch t owner_id updated_at)"

definition durable_wake_approved_task :: "string \<Rightarrow> string \<Rightarrow> string \<Rightarrow> (durable, dict) eff" where
  "durable_wake_approved_task t approval_id updated_at = mutate (mem_wake_approved_task t approval_id updated_at)"

definition durable_bind_approval_request :: "string \<Rightarrow> string \<Rightarrow> string \<Rightarrow> (durable, dict) eff" where
  "durable_bind_approval_request t approval_id updated_at =
     mutate (mem_bind_approval_request t approval_id updated_at)"

definition durable_create_approval_request ::
  "json \<Rightarrow> string \<Rightarrow> json \<Rightarrow> string \<Rightarrow> (durable, dict) eff" where
  "durable_create_approval_request approval key expected updated_at =
     mutate (mem_create_approval_request approval key expected updated_at)"

definition durable_update_status ::
  "string \<Rightarrow> string \<Rightarrow> string \<Rightarrow> string option \<Rightarrow> string option \<Rightarrow> dict \<Rightarrow> (durable, dict) eff" where
  "durable_update_status wall oid status expected updated_at changes =
     mutate (mem_update_status wall oid status expected updated_at changes)"

definition durable_append_event :: "json \<Rightarrow> (durable, dict) eff" where
  "durable_append_event event = mutate (mem_append_event event)"

definition durable_append_task_execution_id ::
  "string \<Rightarrow> string \<Rightarrow> string \<Rightarrow> string option \<Rightarrow> (durable, dict) eff" where
  "durable_append_task_execution_id wall w t updated_at =
     mutate (mem_append_task_execution_id wall w t updated_at)"

definition durable_commit_task_execution_transition ::
  "string \<Rightarrow> string \<Rightarrow> string \<Rightarrow> string \<Rightarrow> json \<Rightarrow> string \<Rightarrow> string \<Rightarrow> dict \<Rightarrow> (durable, dict) eff" where
  "durable_commit_task_execution_transition wall t status w event expected updated_at changes =
     mutate (bindE (mem_update_status wall t status (Some expected) (Some updated_at) changes) (\<lambda>updated.
       thenE (mem_append_task_execution_id wall w t (Some updated_at))
       (thenE (mem_append_event event) (ret updated))))"

definition durable_commit_workflow_execution_transition ::
  "string \<Rightarrow> string \<Rightarrow> string \<Rightarrow> json \<Rightarrow> string \<Rightarrow> string \<Rightarrow> dict \<Rightarrow> (durable, dict) eff" where
  "durable_commit_workflow_execution_transition wall w status event expected updated_at changes =
     mutate (bindE (mem_get w) (\<lambda>workflow.
       thenE (checkE (case workflow of None \<Rightarrow> False | Some v \<Rightarrow> dget v ''kind'' = JStr ''WorkflowExecution'')
         (value_error ''workflow transitions require a WorkflowExecution''))
       (thenE (liftR (validate_workflow_transition_event w status event))
       (thenE (mem_append_event event)
         (mem_update_status wall w status (Some expected) (Some updated_at) changes)))))"

text \<open>The fence retry of a budget mutation: up to \<open>n\<close> attempts, 100 in the code.\<close>

fun retry_busy :: "nat \<Rightarrow> ('s, 'a) eff \<Rightarrow> ('s, 'a) eff" where
  "retry_busy 0 m = m"
| "retry_busy (Suc n) m = catchE m (\<lambda>e.
     if instance_of e RuntimeStoreError \<and> mget (exn_info e) ''category'' = JStr ''busy''
     then retry_busy n m else throw e)"

definition durable_mutate_execution_budget ::
  "string \<Rightarrow> string \<Rightarrow> string \<Rightarrow> (dict \<Rightarrow> dict \<Rightarrow> exn + (dict \<times> dict) \<times> 'o) \<Rightarrow> string
   \<Rightarrow> (durable, (dict \<times> dict) \<times> 'o) eff" where
  "durable_mutate_execution_budget wall w t mutation updated_at =
     retry_busy 99 (mutate (mem_mutate_execution_budget wall w t mutation updated_at))"

definition durable_get :: "string \<Rightarrow> (durable, dict option) eff" where
  "durable_get oid = read (mem_get oid)"

definition durable_list_by_workflow_execution :: "string \<Rightarrow> (durable, dict list) eff" where
  "durable_list_by_workflow_execution w = read (mem_list_by_workflow_execution w)"

definition durable_list_by_task_execution :: "string \<Rightarrow> (durable, dict list) eff" where
  "durable_list_by_task_execution t = read (mem_list_by_task_execution t)"

text \<open>\<open>__init__\<close> on a path: the stale temporaries go, an existing checkpoint is loaded.\<close>

definition durable_open :: "json option \<Rightarrow> io_fault list \<Rightarrow> bool \<Rightarrow> exn + durable" where
  "durable_open file fs nt =
     (let w = \<lparr>memory = empty_store, disk = file, faults = fs, windows = nt\<rparr>
      in case read (\<lambda>s. (Inr (), s)) w of (Inl e, w') \<Rightarrow> Inl e | (Inr u, w') \<Rightarrow> Inr w')"


section \<open>The round trip through the checkpoint\<close>

text \<open>What a store is after a reload: dictionaries in key order, indexes rebuilt.\<close>

definition canon_store :: "store \<Rightarrow> store" where
  "canon_store s = reindexed
     \<lparr>objects = map (\<lambda>(k, v). (k, canon_dict v)) (objects s),
      deterministic_keys = sort_key fst (deterministic_keys s),
      claims = canon_dict (claims s), leases = sort_key fst (leases s),
      workflow_index = [], task_execution_index = []\<rparr>"

lemma reindexed_frame:
  "objects (reindexed s) = objects s" "deterministic_keys (reindexed s) = deterministic_keys s"
  "claims (reindexed s) = claims s" "leases (reindexed s) = leases s"
proof -
  have "objects (foldl (\<lambda>t v. index_value v t) u vs) = objects u \<and>
        deterministic_keys (foldl (\<lambda>t v. index_value v t) u vs) = deterministic_keys u \<and>
        claims (foldl (\<lambda>t v. index_value v t) u vs) = claims u \<and>
        leases (foldl (\<lambda>t v. index_value v t) u vs) = leases u" for u :: store and vs
    by (induction vs arbitrary: u) (simp_all add: index_value_def Let_def split: option.split)
  then show "objects (reindexed s) = objects s" "deterministic_keys (reindexed s) = deterministic_keys s"
    "claims (reindexed s) = claims s" "leases (reindexed s) = leases s"
    by (simp_all add: reindexed_def)
qed

lemma reindexed_workflow_index:
  "index_lookup (workflow_index (reindexed s)) w =
     map (\<lambda>v. as_str (dget v ''id''))
       (filter (\<lambda>v. workflow_execution_id_of v = Some w) (map snd (objects s)))"
proof -
  have "index_lookup (workflow_index (foldl (\<lambda>t v. index_value v t) u vs)) w =
      index_lookup (workflow_index u) w @ map (\<lambda>v. as_str (dget v ''id''))
        (filter (\<lambda>v. workflow_execution_id_of v = Some w) vs)" for u :: store and vs
    by (induction vs arbitrary: u) (simp_all add: workflow_index_value)
  then show ?thesis by (simp add: reindexed_def index_lookup_def)
qed

lemma reindexed_task_index:
  "index_lookup (task_execution_index (reindexed s)) t =
     map (\<lambda>v. as_str (dget v ''id''))
       (filter (\<lambda>v. task_execution_id_of v = Some t) (map snd (objects s)))"
proof -
  have "index_lookup (task_execution_index (foldl (\<lambda>t v. index_value v t) u vs)) t =
      index_lookup (task_execution_index u) t @ map (\<lambda>v. as_str (dget v ''id''))
        (filter (\<lambda>v. task_execution_id_of v = Some t) vs)" for u :: store and vs
    by (induction vs arbitrary: u) (simp_all add: task_index_value)
  then show ?thesis by (simp add: reindexed_def index_lookup_def)
qed

lemma map_of_snd_map: "map_of (map (\<lambda>(k, v). (k, f v)) xs) k = map_option f (map_of xs k)"
  by (induction xs) auto

lemma objects_canon_store: "objects (canon_store s) = map (\<lambda>(k, v). (k, canon_dict v)) (objects s)"
  by (simp add: canon_store_def reindexed_frame)

lemma lookup_canon_store:
  "map_of (objects (canon_store s)) oid = map_option canon_dict (map_of (objects s) oid)"
  by (simp add: objects_canon_store map_of_snd_map)

lemma nonempty_str_canon: "nonempty_str v \<Longrightarrow> canon v = v"
  by (auto elim: nonempty_strE)

lemma validate_canon_dict:
  assumes "nonempty_str (dget v ''id'')" "nonempty_str (dget v ''kind'')"
  shows "copy_and_validate (JObj (canon_dict v)) = Inr (canon_dict v)"
  using assms by (simp add: copy_and_validate_def Let_def dget_canon_dict nonempty_str_canon)

lemma store_ok_entry:
  assumes "store_ok s" "(k, v) \<in> set (objects s)"
  shows "map_of (objects s) k = Some v" "dget v ''id'' = JStr k" "k \<noteq> []" "nonempty_str (dget v ''kind'')"
proof -
  show look: "map_of (objects s) k = Some v"
    using assms store_okD(1)[OF assms(1)] by (simp add: dkeys_def)
  show "dget v ''id'' = JStr k" "k \<noteq> []" "nonempty_str (dget v ''kind'')"
    using store_okD(2)[OF assms(1) look] by simp_all
qed

lemma distinct_map_filter_values:
  assumes "distinct (map fst xs)" "\<And>k v. (k, v) \<in> set xs \<Longrightarrow> f v = k"
  shows "distinct (map f (filter P (map snd xs)))"
  using assms
proof (induction xs)
  case (Cons p xs)
  obtain k v where p: "p = (k, v)" by (cases p)
  have "f v \<notin> f ` (snd ` set xs)"
  proof
    assume "f v \<in> f ` (snd ` set xs)"
    then obtain k' v' where "(k', v') \<in> set xs" "f v' = f v" by auto
    with Cons.prems(2) [of k v] Cons.prems(2) [of k' v'] p have "k \<in> fst ` set xs" by force
    with Cons.prems(1) p show False by simp
  qed
  then have "f v \<notin> set (map f (filter P (map snd xs)))" by auto
  with Cons p show ?case by auto
qed simp

lemma canon_store_index:
  "index_lookup (workflow_index (canon_store s)) w = map (\<lambda>v. as_str (dget v ''id''))
     (filter (\<lambda>v. workflow_execution_id_of v = Some w) (map snd (objects (canon_store s))))"
  "index_lookup (task_execution_index (canon_store s)) t = map (\<lambda>v. as_str (dget v ''id''))
     (filter (\<lambda>v. task_execution_id_of v = Some t) (map snd (objects (canon_store s))))"
  by (simp_all only: canon_store_def reindexed_workflow_index reindexed_task_index reindexed_frame)

lemma canon_store_keys: "map fst (objects (canon_store s)) = map fst (objects s)"
  by (simp add: objects_canon_store comp_def case_prod_beta)

lemma canon_store_entry_id:
  "store_ok s \<Longrightarrow> (k, v) \<in> set (objects (canon_store s)) \<Longrightarrow> as_str (dget v ''id'') = k"
  by (auto simp: objects_canon_store dget_canon_dict dest!: store_ok_entry(2))

text \<open>A list of ids rebuilt from the objects names an object exactly when its test holds.\<close>

lemma rebuilt_index_mem:
  assumes ok: "store_ok s" and look: "map_of (objects (canon_store s)) oid = Some v"
  shows "oid \<in> set (map (\<lambda>v. as_str (dget v ''id'')) (filter P (map snd (objects (canon_store s)))))
     \<longleftrightarrow> P v"
proof -
  have "v' = v" if "(k', v') \<in> set (objects (canon_store s))" "as_str (dget v' ''id'') = oid" for k' v'
  proof -
    from that canon_store_entry_id[OF ok] have "k' = oid" by auto
    with that(1) have "map_of (objects (canon_store s)) oid = Some v'"
      using store_okD(1)[OF ok] by (simp add: canon_store_keys dkeys_def)
    with look show ?thesis by simp
  qed
  then show ?thesis
    using map_of_SomeD[OF look] canon_store_entry_id[OF ok map_of_SomeD[OF look]] by force
qed

lemma store_ok_canon_store:
  assumes ok: "store_ok s"
  shows "store_ok (canon_store s)"
proof -
  have keys: "distinct (map fst (objects (canon_store s)))"
    using store_okD(1)[OF ok] by (simp add: canon_store_keys dkeys_def)
  have has: "dhas (objects (canon_store s)) oid \<longleftrightarrow> dhas (objects s) oid" for oid
    by (simp add: dhas_iff lookup_canon_store)
  have sound: "dhas (objects s) oid"
    if "oid \<in> set (map (\<lambda>v. as_str (dget v ''id'')) (filter P (map snd (objects (canon_store s)))))"
    for oid P
  proof -
    from that obtain k v where "(k, v) \<in> set (objects (canon_store s))" "as_str (dget v ''id'') = oid"
      by auto
    then have "dhas (objects (canon_store s)) oid"
      using canon_store_entry_id[OF ok] by (force simp: dhas_def)
    then show ?thesis by (simp only: has)
  qed
  have entry: "oid \<noteq> [] \<and> dget v ''id'' = JStr oid \<and> nonempty_str (dget v ''kind'')"
    if "map_of (objects (canon_store s)) oid = Some v" for oid v
    using that store_okD(2)[OF ok] by (auto simp: lookup_canon_store dget_canon_dict nonempty_str_canon)
  have once: "distinct (map (\<lambda>v. as_str (dget v ''id'')) (filter P (map snd (objects (canon_store s)))))" for P
    using keys canon_store_entry_id[OF ok] by (rule distinct_map_filter_values)
  have det: "map_of (deterministic_keys (canon_store s)) k = map_of (deterministic_keys s) k" for k
    by (simp add: canon_store_def reindexed_frame map_of_sort_key)
  show ?thesis
    unfolding store_ok_def canon_store_index
  proof (intro conjI allI impI, goal_cases)
    case 1
    show ?case using keys by (simp add: dkeys_def)
  next
    case (5 k oid)
    then show ?case using store_okD(3)[OF ok] by (simp add: det has)
  next
    case (6 w oid)
    then show ?case using sound by (simp add: has)
  next
    case (7 t oid)
    then show ?case using sound by (simp add: has)
  next
    case (8 w)
    show ?case by (rule once)
  next
    case (9 oid v w)
    show ?case using 9(1) by (rule rebuilt_index_mem[OF ok])
  qed (use entry in blast)+
qed

lemma mapR_total: "(\<And>x. x \<in> set xs \<Longrightarrow> f x = Inr (g x)) \<Longrightarrow> mapR f xs = Inr (map g xs)"
  by (induction xs) simp_all

lemma canon_dict_map:
  "canon_dict (map (\<lambda>(k, v). (k, f v)) xs) = map (\<lambda>(k, v). (k, canon (f v))) (sort_key fst xs)"
proof -
  have "canon_dict (map (\<lambda>(k, v). (k, f v)) xs) = sort_key fst (map (\<lambda>(k, v). (k, canon (f v))) xs)"
    by (simp add: canon_dict_def comp_def case_prod_unfold)
  then show ?thesis by (simp only: sort_key_map_fst)
qed

lemma restored_leases_canon:
  "restored_leases (canon_dict (map (\<lambda>(k, l). (k, JObj [(''ownerId'', JStr (lease_owner l)),
      (''expiresAt'', JStr (lease_expires l))])) ls)) = sort_key fst ls"
proof -
  let ?enc = "\<lambda>l. JObj (canon_dict [(''ownerId'', JStr (lease_owner l)), (''expiresAt'', JStr (lease_expires l))])"
  have enc: "mget (?enc l) ''ownerId'' = JStr (lease_owner l)"
    "mget (?enc l) ''expiresAt'' = JStr (lease_expires l)" for l
    by (simp_all add: mget_def dget_canon_dict) (simp_all add: dget_def)
  have eta: "\<lparr>lease_owner = lease_owner l, lease_expires = lease_expires l\<rparr> = l" for l :: lease
    by (cases l) simp
  have has: "dhas (canon_dict [(''ownerId'', x), (''expiresAt'', y)]) ''ownerId''"
    "dhas (canon_dict [(''ownerId'', x), (''expiresAt'', y)]) ''expiresAt''" for x y
    by (simp_all add: dhas_def keys_canon_dict)
  have "canon_dict (map (\<lambda>(k, l). (k, JObj [(''ownerId'', JStr (lease_owner l)),
      (''expiresAt'', JStr (lease_expires l))])) ls) = map (\<lambda>(k, l). (k, ?enc l)) (sort_key fst ls)"
    by (simp only: canon_dict_map canon_JObj)
  then show ?thesis
    by (simp add: restored_leases_def filter_map comp_def case_prod_beta enc has eta)
qed

text \<open>The fields of a written checkpoint.\<close>

lemma checkpoint_fields:
  fixes s :: store
  defines "p \<equiv> as_dict (canon (checkpoint_payload s))"
  shows "is_mapping (canon (checkpoint_payload s))"
    and "dhas p ''objects''" "dhas p ''deterministicKeys''" "dhas p ''claims''"
    and "dget p ''objects'' = JObj (canon_dict (map (\<lambda>(k, v). (k, JObj v)) (objects s)))"
    and "dget_or p ''objectOrder'' x = JList (map JStr (dkeys (objects s)))"
    and "dget p ''deterministicKeys'' = JObj (canon_dict (map (\<lambda>(k, v). (k, JStr v)) (deterministic_keys s)))"
    and "dget p ''claims'' = JObj (canon_dict (claims s))"
    and "dget_or p ''leases'' x = JObj (canon_dict (map (\<lambda>(k, l). (k,
           JObj [(''ownerId'', JStr (lease_owner l)), (''expiresAt'', JStr (lease_expires l))])) (leases s)))"
  unfolding p_def checkpoint_payload_def canon_JObj as_dict.simps is_mapping.simps
    dhas_def keys_canon_dict dget_canon_dict dget_or_def map_of_canon_dict
  by (simp_all add: dget_def comp_def)

theorem restore_checkpoint:
  assumes ok: "store_ok s"
  shows "restore_payload (canon (checkpoint_payload s)) = Inr (canon_store s)"
proof -
  let ?objs = "map (\<lambda>(k, v). (k, JObj v)) (objects s)"
  have order: "map (as_str \<circ> JStr) xs = xs" for xs by (induction xs) simp_all
  have strs: "list_all is_str (map JStr xs)" for xs by (induction xs) simp_all
  have keys: "set (dkeys (canon_dict ?objs)) = set (dkeys (objects s))"
    by (simp only: dkeys_def set_map keys_canon_dict) force
  have entry: "bindR (copy_and_validate (mget (JObj (canon_dict ?objs)) oid)) (\<lambda>v. Inr (oid, v))
      = Inr (oid, canon_dict (the (map_of (objects s) oid)))" if "oid \<in> set (dkeys (objects s))" for oid
  proof -
    from that obtain v where v: "map_of (objects s) oid = Some v"
      by (force simp: dkeys_def dest: weak_map_of_SomeI)
    then have "mget (JObj (canon_dict ?objs)) oid = JObj (canon_dict v)"
      by (simp add: mget_def dget_canon_dict) (simp add: dget_def map_of_snd_map canon_JObj)
    with store_okD(2)[OF ok v] show ?thesis by (simp add: v validate_canon_dict)
  qed
  have restored: "map (\<lambda>oid. (oid, canon_dict (the (map_of (objects s) oid)))) (dkeys (objects s))
      = map (\<lambda>(k, v). (k, canon_dict v)) (objects s)"
    using store_ok_entry(1)[OF ok] by (auto simp: dkeys_def)
  have "map (\<lambda>(k, v). (k, py_str v)) (canon_dict (map (\<lambda>(k, v). (k, JStr v)) (deterministic_keys s)))
      = sort_key fst (deterministic_keys s)"
    by (simp only: canon_dict_map) (simp add: comp_def case_prod_beta)
  then show ?thesis
    using store_okD(1)[OF ok]
    by (simp add: restore_payload_def Let_def checkpoint_fields order strs keys image_image
        mapR_total[OF entry] restored restored_leases_canon canon_store_def)
qed


section \<open>Transactions respect evidence\<close>

text \<open>
  The file of a running store is always a checkpoint of a well-formed store; before the
  first commit there is no file and the store is the one in memory.
\<close>

definition durable_ok :: "durable \<Rightarrow> bool" where
  "durable_ok w \<longleftrightarrow>
     (case disk w of None \<Rightarrow> store_ok (memory w)
      | Some p \<Rightarrow> (\<exists>s. store_ok s \<and> p = canon (checkpoint_payload s)))"

text \<open>The store the next transaction starts from, unless reading the file fails.\<close>

definition committed :: "durable \<Rightarrow> store" where
  "committed w =
     (case disk w of None \<Rightarrow> memory w
      | Some p \<Rightarrow> (case restore_payload p of Inl e \<Rightarrow> empty_store | Inr s \<Rightarrow> s))"

lemma committed_ok: "durable_ok w \<Longrightarrow> store_ok (committed w)"
  by (auto simp: durable_ok_def committed_def restore_checkpoint store_ok_canon_store
      split: option.splits)

lemma reload_committed: "durable_ok w \<Longrightarrow> reload f w = Inr s \<Longrightarrow> s = committed w"
  by (auto simp: durable_ok_def committed_def reload_def restore_checkpoint
      split: option.splits io_fault.splits)

lemma committed_committed_as: "store_ok s \<Longrightarrow> committed (committed_as w s) = canon_store s"
  by (simp add: committed_def committed_as_def restore_checkpoint)

lemma durable_ok_committed_as: "store_ok s \<Longrightarrow> durable_ok (committed_as w s)"
  by (auto simp: durable_ok_def committed_as_def)

lemma next_fault_frame [simp]:
  "next_fault w = (f, w') \<Longrightarrow> disk w' = disk w \<and> memory w' = memory w \<and> windows w' = windows w"
  by (auto simp: next_fault_def split: list.splits)

lemma completed_canon_dict: "completed (canon_dict v) \<longleftrightarrow> completed v"
  by (cases "dget v ''status''") (simp_all add: completed_def dget_canon_dict in_strs_def)

lemma kind_canon_dict: "dget (canon_dict v) ''kind'' = JStr k \<longleftrightarrow> dget v ''kind'' = JStr k"
  by (simp add: dget_canon_dict)

lemma evolves_canon:
  assumes ev: "evolves v v'"
  shows "evolves (canon_dict v) (canon_dict v')"
proof -
  have "identity_fields (canon_dict v) = identity_fields v" "kept_once_fields (canon_dict v) = kept_once_fields v"
    by (simp_all add: identity_fields_def kept_once_fields_def kind_identity_fields_def
        kind_write_once_fields_def kind_canon_dict)
  moreover have "frozen_as (canon_dict v) (canon_dict v')" if "frozen_as v v'"
    using that unfolding frozen_as_def map_of_dsetdefault_fun kind_canon_dict
    by (auto simp: fun_eq_iff map_of_canon_dict split: if_splits)
  ultimately show ?thesis
    using ev by (auto simp: evolves_def same_fields_def list_all_iff map_of_canon_dict
        completed_canon_dict dhas_iff)
qed

lemma evidence_canon: "evidence s t \<Longrightarrow> evidence (canon_store s) (canon_store t)"
  by (fastforce simp: evidence_def lookup_canon_store intro: evolves_canon)

lemma evidence_canon_idem: "evidence (canon_store s) (canon_store (canon_store s))"
  by (auto simp: evidence_def lookup_canon_store canon_dict_idem intro: evolves_refl)

text \<open>
  A step of the durable store keeps the file a checkpoint and moves what it records along
  \<open>evidence\<close>, dictionaries read in key order.
\<close>

definition durable_evidence :: "durable \<Rightarrow> durable \<Rightarrow> bool" where
  "durable_evidence w w' \<longleftrightarrow>
     (durable_ok w \<longrightarrow> durable_ok w' \<and> evidence (canon_store (committed w)) (canon_store (committed w')))"

interpretation durable_evidence: step_rel durable_evidence
  by unfold_locales (auto simp: durable_evidence_def evidence.refl intro: evidence.trans)

subsection \<open>The outcomes of a transaction\<close>

text \<open>
  Either nothing is written, and memory holds the reloaded store or what a failed
  operation left behind, or exactly the store the operation produced is on disk.
\<close>

definition rolled_back :: "(store, 'a) eff \<Rightarrow> durable \<Rightarrow> durable \<Rightarrow> bool" where
  "rolled_back operation w w' \<longleftrightarrow>
     disk w' = disk w
     \<and> (memory w' = memory w \<or> (\<exists>f. reload f w = Inr (memory w'))
        \<or> (\<exists>f s0. reload f w = Inr s0 \<and> memory w' = snd (operation s0)))"

definition committed_by :: "(store, 'a) eff \<Rightarrow> durable \<Rightarrow> 'a \<Rightarrow> durable \<Rightarrow> bool" where
  "committed_by operation w a w' \<longleftrightarrow>
     (\<exists>f s0. reload f w = Inr s0 \<and> operation s0 = (Inr a, memory w')
        \<and> disk w' = Some (canon (checkpoint_payload (memory w'))))"

lemma reload_cong: "disk w' = disk w \<Longrightarrow> memory w' = memory w \<Longrightarrow> reload f w' = reload f w"
  by (simp add: reload_def cong: option.case_cong)

lemma rolled_back_left:
  "disk w' = disk w \<Longrightarrow> reload f w = Inr s0 \<Longrightarrow> operation s0 = (r, s1) \<Longrightarrow> memory w' = s1
   \<Longrightarrow> rolled_back operation w w'"
  unfolding rolled_back_def by (metis snd_conv)

lemma mutate_outcome:
  assumes "mutate operation w = (r, w')"
  shows "(rolled_back operation w w' \<and> (\<exists>e. r = Inl e))
    \<or> (\<exists>a. committed_by operation w a w' \<and> (r = Inr a \<or> (\<exists>e. r = Inl e)))"
proof -
  obtain f w1 where n: "next_fault w = (f, w1)" by (cases "next_fault w")
  have fr: "disk w1 = disk w" "memory w1 = memory w" using next_fault_frame[OF n] by simp_all
  have re: "reload f w1 = reload f w" for f using fr by (rule reload_cong)
  show ?thesis
  proof (cases "reload f w")
    case (Inl e)
    then show ?thesis
      using assms fr by (auto simp: mutate_def n re rolled_back_def split: io_fault.splits)
  next
    case (Inr s0)
    obtain r1 s1 where o: "operation s0 = (r1, s1)" by (cases "operation s0")
    show ?thesis
    proof (cases r1)
      case (Inl e)
      have "w' = w1 \<lparr>memory := s1\<rparr> \<or> w' = w1 \<or> w' = w1 \<lparr>memory := s0\<rparr>"
        using assms o \<open>reload f w = Inr s0\<close> Inl
        by (auto simp: mutate_def n re split: io_fault.splits if_splits)
      then have "rolled_back operation w w'"
      proof (elim disjE)
        assume "w' = w1 \<lparr>memory := s1\<rparr>"
        then show ?thesis
          using fr o \<open>reload f w = Inr s0\<close>
          by (intro rolled_back_left[where operation = operation and f = f and ?s0.0 = s0]) simp_all
      qed (use fr \<open>reload f w = Inr s0\<close> in \<open>auto simp: rolled_back_def\<close>)
      moreover have "\<exists>e. r = Inl e"
        using assms o \<open>reload f w = Inr s0\<close> Inl
        by (auto simp: mutate_def n re split: io_fault.splits if_splits)
      ultimately show ?thesis by blast
    next
      case (Inr a)
      with assms o \<open>reload f w = Inr s0\<close> fr show ?thesis
        by (auto simp: mutate_def n re rolled_back_def committed_by_def committed_as_def
            split: io_fault.splits if_splits)
    qed
  qed
qed

lemma mutate_keeps:
  assumes ev: "keeps evidence operation" and wf: "keeps (\<lambda>s t. store_ok s \<longrightarrow> store_ok t) operation"
  shows "keeps durable_evidence (mutate operation)"
proof (rule keepsI)
  fix w
  obtain r w' where m: "mutate operation w = (r, w')" by (cases "mutate operation w")
  have step: "evidence s (snd (operation s))" "store_ok s \<Longrightarrow> store_ok (snd (operation s))" for s
    using ev wf by (simp_all add: keeps_def)
  have "durable_ok w' \<and> evidence (canon_store (committed w)) (canon_store (committed w'))"
    if ok: "durable_ok w"
    using mutate_outcome[OF m]
  proof (elim disjE conjE)
    assume "rolled_back operation w w'"
    then have d: "disk w' = disk w"
      and "memory w' = memory w \<or> memory w' = committed w \<or> memory w' = snd (operation (committed w))"
      by (auto simp: rolled_back_def dest: reload_committed[OF ok])
    then show ?thesis
      using ok step [of "committed w"] committed_ok[OF ok]
      by (cases "disk w")
        (auto simp: durable_ok_def committed_def evidence.refl intro: evidence_canon)
  next
    assume "\<exists>a. committed_by operation w a w' \<and> (r = Inr a \<or> (\<exists>e. r = Inl e))"
    then obtain a where "committed_by operation w a w'" by blast
    then have o: "operation (committed w) = (Inr a, memory w')"
      and d: "disk w' = Some (canon (checkpoint_payload (memory w')))"
      by (auto simp: committed_by_def dest: reload_committed[OF ok])
    with step [of "committed w"] committed_ok[OF ok]
    have s1: "store_ok (memory w')" and e: "evidence (committed w) (memory w')" by simp_all
    have "committed w' = canon_store (memory w')"
      using d s1 by (simp add: committed_def restore_checkpoint)
    moreover have "durable_ok w'" using d s1 by (auto simp: durable_ok_def)
    ultimately show ?thesis
      using evidence.trans[OF evidence_canon[OF e] evidence_canon_idem] by simp
  qed
  then show "durable_evidence w (snd (mutate operation w))"
    by (simp add: durable_evidence_def m)
qed

lemma read_outcome:
  assumes same: "\<And>s. snd (operation s) = s"
  shows "disk (snd (read operation w)) = disk w \<and>
        (memory (snd (read operation w)) = memory w
         \<or> (\<exists>f. reload f w = Inr (memory (snd (read operation w)))))"
proof -
  obtain f w1 where n: "next_fault w = (f, w1)" by (cases "next_fault w")
  have fr: "disk w1 = disk w" "memory w1 = memory w" using next_fault_frame[OF n] by simp_all
  show ?thesis
  proof (cases "reload f w1")
    case (Inr s0)
    obtain r1 s1 where o: "operation s0 = (r1, s1)" by (cases "operation s0")
    with same [of s0] have s1: "s1 = s0" by simp
    have "reload f w = Inr s0" using Inr reload_cong[OF fr] by simp
    then show ?thesis
      using Inr o s1 fr by (cases r1) (auto simp: read_def n split: io_fault.splits)
  qed (use fr in \<open>auto simp: read_def n split: io_fault.splits\<close>)
qed

lemma same_commit_evidence:
  assumes "disk w' = disk w" "memory w' = memory w \<or> (\<exists>f. reload f w = Inr (memory w'))"
  shows "durable_evidence w w'"
proof (cases "durable_ok w")
  case True
  then have "memory w' = memory w \<or> memory w' = committed w"
    using assms(2) reload_committed by blast
  with assms(1) True show ?thesis
    using committed_ok[OF True]
    by (cases "disk w") (auto simp: durable_evidence_def durable_ok_def committed_def evidence.refl)
qed (simp add: durable_evidence_def)

lemma read_keeps:
  assumes "\<And>s. snd (operation s) = s"
  shows "keeps durable_evidence (read operation)"
  using read_outcome[OF assms] by (auto intro!: keepsI same_commit_evidence)

end
