(* ===== verification/StoreInterface.thy ===== *)
theory StoreInterface
  imports DurableStore
begin

text \<open>
  The boundary between the stores and their clients.  \<open>store_ops\<close> is the abstract class
  \<open>RuntimeObjectStore\<close> as a table of methods, the part of it the modelled clients call;
  \<open>in_memory_store\<close> and \<open>durable_store\<close> are its two implementations.  The locale
  \<open>runtime_store\<close> states what a client may rely on, whatever the implementation: objects
  only evolve, a read shows what is stored, a successful status update is what is stored
  afterwards, a created object is stored.  Both implementations are shown to provide it.
\<close>

section \<open>The abstract class\<close>

record 's store_ops =
  op_create :: "json \<Rightarrow> string \<Rightarrow> ('s, dict) eff"
  op_append_event :: "json \<Rightarrow> ('s, dict) eff"
  op_update_status ::
    "string \<Rightarrow> string \<Rightarrow> string option \<Rightarrow> string option \<Rightarrow> dict \<Rightarrow> ('s, dict) eff"
  op_append_task_execution_id :: "string \<Rightarrow> string \<Rightarrow> string option \<Rightarrow> ('s, dict) eff"
  op_get :: "string \<Rightarrow> ('s, dict option) eff"
  op_list_by_workflow_execution :: "string \<Rightarrow> ('s, dict list) eff"
  op_list_by_task_execution :: "string \<Rightarrow> ('s, dict list) eff"
  op_atomic_task_transitions :: bool
  op_commit_task_execution_transition ::
    "string \<Rightarrow> string \<Rightarrow> string \<Rightarrow> json \<Rightarrow> string \<Rightarrow> string \<Rightarrow> dict \<Rightarrow> ('s, dict) eff"
  op_claim_task_dispatch :: "string \<Rightarrow> string \<Rightarrow> string \<Rightarrow> ('s, bool \<times> dict) eff"
  op_wake_approved_task :: "string \<Rightarrow> string \<Rightarrow> string \<Rightarrow> ('s, dict) eff"
  op_create_approval_request :: "json \<Rightarrow> string \<Rightarrow> json \<Rightarrow> string \<Rightarrow> ('s, dict) eff"

text \<open>\<open>wall\<close> is the wall-clock time a store uses when a caller passes no \<open>updated_at\<close>.\<close>

definition in_memory_store :: "string \<Rightarrow> store store_ops" where
  "in_memory_store wall =
     \<lparr>op_create = mem_create, op_append_event = mem_append_event,
      op_update_status = mem_update_status wall,
      op_append_task_execution_id = mem_append_task_execution_id wall,
      op_get = mem_get, op_list_by_workflow_execution = mem_list_by_workflow_execution,
      op_list_by_task_execution = mem_list_by_task_execution,
      op_atomic_task_transitions = False,
      op_commit_task_execution_transition = mem_commit_task_execution_transition wall,
      op_claim_task_dispatch = mem_claim_task_dispatch,
      op_wake_approved_task = mem_wake_approved_task,
      op_create_approval_request = mem_create_approval_request\<rparr>"

definition durable_store :: "string \<Rightarrow> durable store_ops" where
  "durable_store wall =
     \<lparr>op_create = durable_create, op_append_event = durable_append_event,
      op_update_status = durable_update_status wall,
      op_append_task_execution_id = durable_append_task_execution_id wall,
      op_get = durable_get, op_list_by_workflow_execution = durable_list_by_workflow_execution,
      op_list_by_task_execution = durable_list_by_task_execution,
      op_atomic_task_transitions = True,
      op_commit_task_execution_transition = durable_commit_task_execution_transition wall,
      op_claim_task_dispatch = durable_claim_task_dispatch,
      op_wake_approved_task = durable_wake_approved_task,
      op_create_approval_request = durable_create_approval_request\<rparr>"

section \<open>The contract\<close>

text \<open>
  \<open>view s oid\<close> is the object a state stores under an id, its dictionaries in key order.
\<close>

definition grows :: "('s \<Rightarrow> bool) \<Rightarrow> ('s \<Rightarrow> string \<Rightarrow> dict option) \<Rightarrow> 's \<Rightarrow> 's \<Rightarrow> bool" where
  "grows ok view s t \<longleftrightarrow>
     (ok s \<longrightarrow> ok t \<and> (\<forall>oid v. view s oid = Some v \<longrightarrow> (\<exists>v'. view t oid = Some v' \<and> evolves v v')))"

lemma step_rel_grows: "step_rel (grows ok view)"
proof
  fix s t u
  assume st: "grows ok view s t" and tu: "grows ok view t u"
  show "grows ok view s u"
    unfolding grows_def
  proof (intro impI conjI allI)
    assume "ok s"
    with st tu show "ok u" by (simp add: grows_def)
    fix oid v assume "view s oid = Some v"
    with \<open>ok s\<close> st tu show "\<exists>v'. view u oid = Some v' \<and> evolves v v'"
      unfolding grows_def by (meson evolves_trans)
  qed
qed (auto simp: grows_def intro: evolves_refl)

text \<open>
  The detailed account of a step: besides evolving, a status only changes along the pairs
  of \<open>E\<close>, and an object that was not there before is one of \<open>N\<close>.
\<close>

definition status_path :: "(string \<times> string) set \<Rightarrow> json \<Rightarrow> json \<Rightarrow> bool" where
  "status_path E x y \<longleftrightarrow> x = y \<or> (\<exists>a b. x = JStr a \<and> y = JStr b \<and> (a, b) \<in> E\<^sup>*)"

definition moves ::
  "('s \<Rightarrow> bool) \<Rightarrow> ('s \<Rightarrow> string \<Rightarrow> dict option) \<Rightarrow> (string \<times> string) set \<Rightarrow> (dict \<Rightarrow> bool)
   \<Rightarrow> 's \<Rightarrow> 's \<Rightarrow> bool" where
  "moves ok view E N s t \<longleftrightarrow>
     (ok s \<longrightarrow> ok t
       \<and> (\<forall>oid v. view s oid = Some v \<longrightarrow> (\<exists>v'. view t oid = Some v' \<and> evolves v v'
             \<and> status_path E (dget v ''status'') (dget v' ''status'')))
       \<and> (\<forall>oid v. view s oid = None \<longrightarrow> view t oid = Some v \<longrightarrow> (\<exists>d. N d \<and> evolves (canon_dict d) v
             \<and> status_path E (dget (canon_dict d) ''status'') (dget v ''status''))))"

lemma status_path_refl [simp]: "status_path E x x"
  by (simp add: status_path_def)

lemma status_path_trans: "status_path E x y \<Longrightarrow> status_path E y z \<Longrightarrow> status_path E x z"
  by (auto simp: status_path_def intro: rtrancl_trans)

lemma status_path_mono: "status_path E x y \<Longrightarrow> E \<subseteq> E'\<^sup>* \<Longrightarrow> status_path E' x y"
  using rtrancl_subset_rtrancl[of E E'] by (auto simp: status_path_def)

lemma moves_grows: "moves ok view E N s t \<Longrightarrow> grows ok view s t"
  unfolding moves_def grows_def by blast

lemma moves_mono:
  "moves ok view E N s t \<Longrightarrow> E \<subseteq> E'\<^sup>* \<Longrightarrow> (\<And>d. N d \<Longrightarrow> N' d) \<Longrightarrow> moves ok view E' N' s t"
  unfolding moves_def by (meson status_path_mono)

lemma keeps_mono: "keeps R m \<Longrightarrow> (\<And>s t. R s t \<Longrightarrow> R' s t) \<Longrightarrow> keeps R' m"
  by (simp add: keeps_def)

lemma keeps_moves_mono:
  "keeps (moves ok view E N) m \<Longrightarrow> E \<subseteq> E'\<^sup>* \<Longrightarrow> (\<And>d. N d \<Longrightarrow> N' d) \<Longrightarrow> keeps (moves ok view E' N') m"
  by (erule keeps_mono) (erule moves_mono; blast)

lemma keeps_moves_grows: "keeps (moves ok view E N) m \<Longrightarrow> keeps (grows ok view) m"
  by (erule keeps_mono) (rule moves_grows)

lemma step_rel_moves: "step_rel (moves ok view E N)"
proof
  fix s t u
  assume st: "moves ok view E N s t" and tu: "moves ok view E N t u"
  show "moves ok view E N s u"
    unfolding moves_def
  proof (intro impI conjI allI)
    assume "ok s"
    with st have okt: "ok t" by (simp add: moves_def)
    with tu show "ok u" by (simp add: moves_def)
    fix oid v
    show "\<exists>v'. view u oid = Some v' \<and> evolves v v'
        \<and> status_path E (dget v ''status'') (dget v' ''status'')" if "view s oid = Some v"
      using that \<open>ok s\<close> okt st tu unfolding moves_def by (meson evolves_trans status_path_trans)
    show "\<exists>d. N d \<and> evolves (canon_dict d) v
        \<and> status_path E (dget (canon_dict d) ''status'') (dget v ''status'')"
      if none: "view s oid = None" and some: "view u oid = Some v"
    proof (cases "view t oid")
      case None
      then show ?thesis using some okt tu by (simp add: moves_def)
    next
      case (Some v1)
      then obtain d where d: "N d" "evolves (canon_dict d) v1"
          "status_path E (dget (canon_dict d) ''status'') (dget v1 ''status'')"
        using none \<open>ok s\<close> st unfolding moves_def by blast
      obtain v2 where "view u oid = Some v2" "evolves v1 v2"
          "status_path E (dget v1 ''status'') (dget v2 ''status'')"
        using Some okt tu unfolding moves_def by blast
      with some d show ?thesis by (auto intro: evolves_trans status_path_trans)
    qed
  qed
qed (auto simp: moves_def intro: evolves_refl)

definition lists_workflow ::
  "('s \<Rightarrow> string \<Rightarrow> dict option) \<Rightarrow> 's \<Rightarrow> string \<Rightarrow> dict list \<Rightarrow> bool" where
  "lists_workflow view s w vs \<longleftrightarrow>
     (\<forall>v \<in> set vs. is_str (dget v ''id'') \<and> view s (as_str (dget v ''id'')) = Some (canon_dict v))
     \<and> (\<forall>oid v. view s oid = Some v \<longrightarrow> dget v ''kind'' = JStr ''TaskExecution''
          \<longrightarrow> workflow_execution_id_of v = Some w \<longrightarrow> v \<in> canon_dict ` set vs)"

abbreviation no_object :: "dict \<Rightarrow> bool" where
  "no_object \<equiv> \<lambda>_. False"

abbreviation this_object :: "json \<Rightarrow> dict \<Rightarrow> bool" where
  "this_object j \<equiv> \<lambda>d. j = JObj d"

abbreviation this_event :: "json \<Rightarrow> dict \<Rightarrow> bool" where
  "this_event j \<equiv> \<lambda>d. j = JObj d \<and> dget d ''kind'' = JStr ''ExecutionEvent''"

locale runtime_store =
  fixes ops :: "'s store_ops" and view :: "'s \<Rightarrow> string \<Rightarrow> dict option" and ok :: "'s \<Rightarrow> bool"
  assumes create_moves: "keeps (moves ok view {} (this_object j)) (op_create ops j key)"
    and append_event_moves: "keeps (moves ok view {} (this_event j)) (op_append_event ops j)"
    and update_status_moves:
      "keeps (moves ok view {(e, st)} no_object) (op_update_status ops oid st (Some e) u ch)"
    and append_task_execution_id_moves:
      "keeps (moves ok view {} no_object) (op_append_task_execution_id ops w te u)"
    and get_moves: "keeps (moves ok view {} no_object) (op_get ops oid)"
    and list_by_workflow_execution_moves:
      "keeps (moves ok view {} no_object) (op_list_by_workflow_execution ops w)"
    and list_by_task_execution_moves:
      "keeps (moves ok view {} no_object) (op_list_by_task_execution ops te)"
    and commit_task_execution_transition_moves:
      "keeps (moves ok view {(e, st)} (this_event j))
         (op_commit_task_execution_transition ops te st w j e now ch)"
    and claim_task_dispatch_moves:
      "keeps (moves ok view {} no_object) (op_claim_task_dispatch ops te ow now)"
    and wake_approved_task_moves:
      "keeps (moves ok view {(''AWAITING_APPROVAL'', ''PENDING'')} no_object)
         (op_wake_approved_task ops te ap now)"
    and create_approval_request_moves:
      "keeps (moves ok view {} (this_object j)) (op_create_approval_request ops j key cur now)"
    and get_shows: "ok s \<Longrightarrow> op_get ops oid s = (Inr r, s')
      \<Longrightarrow> map_option canon_dict r = view s oid \<and> view s' = view s"
    and list_shows: "ok s \<Longrightarrow> op_list_by_workflow_execution ops w s = (Inr vs, s')
      \<Longrightarrow> lists_workflow view s w vs \<and> view s' = view s"
    and create_stores: "ok s \<Longrightarrow> op_create ops j key s = (Inr v, s')
      \<Longrightarrow> view s' (as_str (dget v ''id'')) = Some (canon_dict v)"
    and update_stores: "ok s \<Longrightarrow> op_update_status ops oid st expd u ch s = (Inr v', s')
      \<Longrightarrow> \<exists>v. view s oid = Some v \<and> (case expd of None \<Rightarrow> True | Some e \<Rightarrow> dget v ''status'' = JStr e)
            \<and> dget v' ''status'' = JStr st \<and> view s' oid = Some (canon_dict v')"
begin

sublocale growing: step_rel "grows ok view"
  by (rule step_rel_grows)

sublocale moving: step_rel "moves ok view E N" for E N
  by (rule step_rel_moves)

lemmas ops_move = create_moves append_event_moves update_status_moves append_task_execution_id_moves
  get_moves list_by_workflow_execution_moves list_by_task_execution_moves
  commit_task_execution_transition_moves claim_task_dispatch_moves wake_approved_task_moves
  create_approval_request_moves

lemmas client_rules = growing.rules ops_move[THEN keeps_moves_grows]

lemmas reads_moves = get_moves list_by_workflow_execution_moves list_by_task_execution_moves

text \<open>What a completed object is, it stays.\<close>

lemma completed_kept:
  assumes "keeps (grows ok view) m" "ok s" "view s oid = Some v" "completed v"
    "dget v ''kind'' \<noteq> JStr ''WorkflowExecution''"
  shows "\<exists>v'. view (snd (m s)) oid = Some v' \<and> map_of v' = map_of v"
  using assms unfolding keeps_def grows_def evolves_def frozen_as_def by blast

end

section \<open>The in-memory store provides it\<close>

definition mem_view :: "store \<Rightarrow> string \<Rightarrow> dict option" where
  "mem_view s oid = map_option canon_dict (map_of (objects s) oid)"

lemma status_path_canon: "status_path E x y \<Longrightarrow> status_path E (canon x) (canon y)"
  by (auto simp: status_path_def)

lemma mem_view_all:
  "(\<forall>oid v. mem_view s oid = Some v \<longrightarrow> P oid v)
     \<longleftrightarrow> (\<forall>oid v. map_of (objects s) oid = Some v \<longrightarrow> P oid (canon_dict v))"
  by (auto simp: mem_view_def)

lemma mem_view_ex:
  "(\<exists>v. mem_view s oid = Some v \<and> P v) \<longleftrightarrow> (\<exists>v. map_of (objects s) oid = Some v \<and> P (canon_dict v))"
  by (auto simp: mem_view_def)

lemma mem_view_None: "mem_view s oid = None \<longleftrightarrow> map_of (objects s) oid = None"
  by (simp add: mem_view_def)

lemma mem_view_new:
  "(\<forall>oid v. mem_view s oid = None \<longrightarrow> mem_view t oid = Some v \<longrightarrow> P oid v)
     \<longleftrightarrow> (\<forall>oid v. map_of (objects s) oid = None \<longrightarrow> map_of (objects t) oid = Some v
           \<longrightarrow> P oid (canon_dict v))"
  by (auto simp: mem_view_def)

lemma mem_moves_iff:
  "moves store_ok mem_view E N s t \<longleftrightarrow>
     (store_ok s \<longrightarrow> store_ok t
       \<and> (\<forall>oid v. map_of (objects s) oid = Some v \<longrightarrow> (\<exists>v'. map_of (objects t) oid = Some v'
             \<and> evolves (canon_dict v) (canon_dict v')
             \<and> status_path E (canon (dget v ''status'')) (canon (dget v' ''status''))))
       \<and> (\<forall>oid v. map_of (objects s) oid = None \<longrightarrow> map_of (objects t) oid = Some v
           \<longrightarrow> (\<exists>d. N d \<and> evolves (canon_dict d) (canon_dict v)
             \<and> status_path E (canon (dget d ''status'')) (canon (dget v ''status'')))))"
  unfolding moves_def mem_view_new mem_view_all mem_view_ex dget_canon_dict by (rule refl)

lemma mem_moves_save:
  assumes "map_of (objects s) oid = Some v" "evolves v v'"
    "status_path E (dget v ''status'') (dget v' ''status'')"
  shows "moves store_ok mem_view E N s (s\<lparr>objects := dput oid v' (objects s)\<rparr>)"
  unfolding mem_moves_iff
  using assms store_ok_save[OF _ assms(1,2)] evolves_canon[OF assms(2)] status_path_canon[OF assms(3)]
  by (auto simp: map_of_dput intro: evolves_refl)

lemma mem_moves_create:
  assumes "copy_and_validate (JObj v) = Inr v" "\<not> dhas (objects s) (as_str (dget v ''id''))"
    "map_of (deterministic_keys s) key = None" "N v"
  shows "moves store_ok mem_view E N s
     (index_value v (s\<lparr>objects := dput (as_str (dget v ''id'')) v (objects s),
        deterministic_keys := dput key (as_str (dget v ''id'')) (deterministic_keys s)\<rparr>))"
  unfolding mem_moves_iff
  using assms store_ok_create[OF _ assms(1-3)]
  by (auto simp: map_of_dput dhas_iff intro: evolves_refl)

interpretation mem_moves: store_rel "moves store_ok mem_view E N" "status_path E" N for E N
proof (unfold_locales, goal_cases)
  case (4 s oid v v')
  then show ?case by (rule mem_moves_save)
next
  case (5 v s key)
  then show ?case by (rule mem_moves_create)
next
  case (6 s c)
  then show ?case
    using store_wf.claim_step[of s c] by (auto simp: mem_moves_iff intro: evolves_refl)
next
  case (7 s l)
  then show ?case
    using store_wf.lease_step[of s l] by (auto simp: mem_moves_iff intro: evolves_refl)
qed (auto intro: step_rel.refl[OF step_rel_moves] step_rel.trans[OF step_rel_moves])

lemma mem_update_status_Inr:
  assumes "mem_update_status wall oid st expd u ch s = (Inr v', t)"
  shows "\<exists>v. map_of (objects s) oid = Some v
    \<and> (case expd of None \<Rightarrow> True | Some e \<Rightarrow> dget v ''status'' = JStr e)
    \<and> dget v' ''status'' = JStr st \<and> map_of (objects t) oid = Some v'"
  using assms
  by (auto simp: mem_update_status_def Let_def success_iffs require_def save_def map_of_dput
      split: option.splits if_splits)

text \<open>A deterministic key, once bound, keeps its object under any further creation.\<close>

lemma mem_create_keeps_keyed:
  assumes "mem_create j key s = (r, t)" "map_of (deterministic_keys s) k = Some oid" "map_of (objects s) oid = Some v"
  shows "map_of (deterministic_keys t) k = Some oid \<and> map_of (objects t) oid = Some v"
  using assms
  by (auto simp: mem_create_def eff_simps Let_def map_of_dput dhas_iff objects_index_value
      deterministic_keys_index_value split: option.splits if_splits sum.splits)

lemma mem_create_keyed:
  assumes "mem_create j key s = (Inr v, t)"
  shows "\<exists>oid. map_of (deterministic_keys t) key = Some oid \<and> map_of (objects t) oid = Some v"
  using assms
  by (auto simp: mem_create_def eff_simps Let_def map_of_dput dhas_iff objects_index_value
      deterministic_keys_index_value split: option.splits if_splits sum.splits)

lemma mem_create_found:
  "map_of (deterministic_keys s) key = Some oid \<Longrightarrow> map_of (objects s) oid = Some v
   \<Longrightarrow> copy_and_validate j = Inr d \<Longrightarrow> key \<noteq> [] \<Longrightarrow> mem_create j key s = (Inr v, s)"
  by (simp add: mem_create_def eff_simps Let_def)

lemma mem_create_objects:
  assumes "mem_create (JObj w) k s = (q, t)"
  shows "objects t = objects s \<or> (objects t = dput (as_str (dget w ''id'')) w (objects s) \<and> q = Inr w
           \<and> map_of (objects s) (as_str (dget w ''id'')) = None)"
  using assms
  by (auto simp: mem_create_def eff_simps Let_def dhas_iff objects_index_value copy_and_validate_def
      split: option.splits if_splits sum.splits)

lemma mem_create_Inr:
  assumes ok: "store_ok s" and c: "mem_create j key s = (Inr v, t)"
  shows "map_of (objects t) (as_str (dget v ''id'')) = Some v"
proof -
  obtain d where d: "copy_and_validate j = Inr d"
    using c by (auto simp: mem_create_def success_iffs)
  show ?thesis
  proof (cases "map_of (deterministic_keys s) key")
    case None
    with c d show ?thesis
      by (auto simp: mem_create_def success_iffs Let_def map_of_dput split: if_splits)
  next
    case (Some oid)
    with c d store_okD(2)[OF ok] show ?thesis
      by (auto simp: mem_create_def success_iffs Let_def split: option.splits)
  qed
qed

lemma workflow_execution_id_of_canon:
  "workflow_execution_id_of (canon_dict v) = workflow_execution_id_of v"
proof -
  have str: "is_str (canon j) = is_str j" "as_str (canon j) = as_str j" "is_mapping (canon j) = is_mapping j"
      "(canon j = JNull) = (j = JNull)" for j
    by (cases j; simp)+
  have m: "is_mapping j \<Longrightarrow> mget (canon j) k = canon (mget j k)" for j k
    by (cases j) (simp_all add: mget_def dget_canon_dict)
  show ?thesis
    unfolding workflow_execution_id_of_def dget_canon_dict canon_eq_JStr str
    by (simp add: Let_def str m)
qed

lemma mem_lists_workflow:
  assumes ok: "store_ok s" and l: "mem_list_by_workflow_execution w s = (Inr vs, t)"
  shows "lists_workflow mem_view s w vs"
proof -
  let ?ids = "index_lookup (workflow_index s) w"
  have vs: "vs = map (\<lambda>oid. the (map_of (objects s) oid)) ?ids"
    using l by (auto simp: list_by_workflow_execution_total[OF ok])
  show ?thesis
    unfolding lists_workflow_def
  proof (intro conjI ballI allI impI)
    fix v assume "v \<in> set vs"
    then obtain oid where "oid \<in> set ?ids" "v = the (map_of (objects s) oid)"
      by (auto simp: vs)
    then have "map_of (objects s) oid = Some v"
      using store_okD(4)[OF ok] by (fastforce simp: dhas_iff)
    with store_okD(2)[OF ok this] show "is_str (dget v ''id'')"
      "mem_view s (as_str (dget v ''id'')) = Some (canon_dict v)"
      by (simp_all add: mem_view_def)
  next
    fix oid v
    assume v: "mem_view s oid = Some v" "dget v ''kind'' = JStr ''TaskExecution''"
      "workflow_execution_id_of v = Some w"
    then obtain v0 where v0: "map_of (objects s) oid = Some v0" "v = canon_dict v0"
      by (auto simp: mem_view_def)
    with v have "anchored v0" "workflow_execution_id_of v0 = Some w"
      by (simp_all add: anchored_def kind_canon_dict workflow_execution_id_of_canon)
    with store_okD(7)[OF ok v0(1)] have "oid \<in> set ?ids" by simp
    with v0 show "v \<in> canon_dict ` set vs" by (force simp: vs)
  qed
qed

lemma mem_reads_same:
  "snd (mem_get oid s) = s" "snd (mem_list_by_workflow_execution w s) = s"
  "snd (mem_list_by_task_execution te s) = s"
  by (simp_all add: mem_get_def mem_list_by_workflow_execution_def mem_list_by_task_execution_def)

lemma mem_get_shows: "mem_get oid s = (Inr r, t) \<Longrightarrow> map_option canon_dict r = mem_view s oid"
  by (auto simp: mem_get_def mem_view_def)

interpretation in_memory: runtime_store "in_memory_store wall" mem_view store_ok for wall
proof (unfold_locales, goal_cases)
  case (12 s oid r s')
  then show ?case using mem_get_shows mem_reads_same(1) by (simp add: in_memory_store_def) (metis snd_conv)
next
  case (13 s w vs s')
  then show ?case using mem_lists_workflow mem_reads_same(2) by (simp add: in_memory_store_def) (metis snd_conv)
next
  case (14 s j key v s')
  then show ?case using mem_create_Inr by (fastforce simp: in_memory_store_def mem_view_def)
next
  case (15 s oid st expd u ch v' s')
  then show ?case
    by (fastforce simp: in_memory_store_def mem_view_def dget_canon_dict
        dest!: mem_update_status_Inr split: option.splits)
qed (auto simp: in_memory_store_def status_path_def mem_moves.may_update_def intro!: mem_moves.methods)

section \<open>The durable store provides it\<close>

definition durable_view :: "durable \<Rightarrow> string \<Rightarrow> dict option" where
  "durable_view w = mem_view (committed w)"

lemma mem_view_canon_store [simp]: "mem_view (canon_store s) = mem_view s"
  by (auto simp: mem_view_def lookup_canon_store canon_dict_idem option.map_comp comp_def)

text \<open>
  Whatever the outcome of a transaction, the objects on record are those of before or
  those the operation left.
\<close>

lemma mutate_view:
  assumes m: "mutate operation w = (r, w')" and ok: "durable_ok w"
    and wf: "keeps (\<lambda>s t. store_ok s \<longrightarrow> store_ok t) operation"
  shows "durable_ok w' \<and> (durable_view w' = durable_view w
    \<or> durable_view w' = mem_view (snd (operation (committed w))))"
  using mutate_outcome[OF m]
proof (elim disjE conjE)
  assume "rolled_back operation w w'"
  then have d: "disk w' = disk w"
    and "memory w' = memory w \<or> memory w' = committed w \<or> memory w' = snd (operation (committed w))"
    by (auto simp: rolled_back_def dest: reload_committed[OF ok])
  moreover have "store_ok (snd (operation (committed w)))"
    using wf committed_ok[OF ok] by (simp add: keeps_def)
  ultimately show ?thesis
    using ok committed_ok[OF ok]
    by (cases "disk w") (auto simp: durable_ok_def durable_view_def committed_def)
next
  assume "\<exists>a. committed_by operation w a w' \<and> (r = Inr a \<or> (\<exists>e. r = Inl e))"
  then obtain a where "committed_by operation w a w'" by blast
  then have o: "operation (committed w) = (Inr a, memory w')"
    and d: "disk w' = Some (canon (checkpoint_payload (memory w')))"
    by (auto simp: committed_by_def dest: reload_committed[OF ok])
  have "store_ok (memory w')" using keepsD[OF wf o] committed_ok[OF ok] by simp
  with d o show ?thesis
    by (auto simp: durable_ok_def durable_view_def committed_def restore_checkpoint)
qed

lemma mutate_moves:
  assumes mv: "keeps (moves store_ok mem_view E N) operation"
    and wf: "keeps (\<lambda>s t. store_ok s \<longrightarrow> store_ok t) operation"
  shows "keeps (moves durable_ok durable_view E N) (mutate operation)"
proof (rule keepsI)
  fix w
  obtain r w' where m: "mutate operation w = (r, w')" by (cases "mutate operation w")
  have "moves store_ok mem_view E N (committed w) (snd (operation (committed w)))"
    using mv by (simp add: keeps_def)
  then show "moves durable_ok durable_view E N w (snd (mutate operation w))"
    using mutate_view[OF m _ wf] committed_ok[of w]
    unfolding moves_def m by (auto simp: durable_view_def evolves_refl)
qed

lemma read_moves:
  assumes "\<And>s. snd (operation s) = s"
  shows "keeps (moves durable_ok durable_view E N) (read operation)"
proof (rule keepsI)
  fix w
  let ?w' = "snd (read operation w)"
  have "durable_ok ?w' \<and> durable_view ?w' = durable_view w" if ok: "durable_ok w"
    using read_outcome[OF assms, of w] ok committed_ok[OF ok] reload_committed[OF ok]
    by (cases "disk w") (auto simp: durable_ok_def durable_view_def committed_def)
  then show "moves durable_ok durable_view E N w ?w'"
    by (auto simp: moves_def intro: evolves_refl)
qed

lemma mutate_Inr:
  assumes "durable_ok w" "mutate operation w = (Inr a, w')"
  shows "operation (committed w) = (Inr a, memory w')"
    and "disk w' = Some (canon (checkpoint_payload (memory w')))"
proof -
  from mutate_outcome[OF assms(2)] have "committed_by operation w a w'" by auto
  then show "operation (committed w) = (Inr a, memory w')"
    and "disk w' = Some (canon (checkpoint_payload (memory w')))"
    by (auto simp: committed_by_def dest: reload_committed[OF assms(1)])
qed

lemma mutate_Inr_committed:
  assumes ok: "durable_ok w" and m: "mutate operation w = (Inr a, w')"
    and wf: "keeps (\<lambda>s t. store_ok s \<longrightarrow> store_ok t) operation"
  shows "committed w' = canon_store (memory w')"
proof -
  have "store_ok (memory w')"
    using keepsD[OF wf mutate_Inr(1)[OF ok m]] committed_ok[OF ok] by simp
  then show ?thesis
    using mutate_Inr(2)[OF ok m] by (simp add: committed_def restore_checkpoint)
qed

lemma read_Inr:
  assumes ok: "durable_ok w" and r: "read operation w = (Inr a, w')"
    and same: "\<And>s. snd (operation s) = s"
  shows "operation (committed w) = (Inr a, committed w)" and "committed w' = committed w"
proof -
  obtain f w1 where n: "next_fault w = (f, w1)" by (cases "next_fault w")
  have fr: "disk w1 = disk w" "memory w1 = memory w" using next_fault_frame[OF n] by simp_all
  obtain s0 where re: "reload f w1 = Inr s0"
    using r by (cases "reload f w1") (auto simp: read_def n split: io_fault.splits)
  obtain r1 s1 where o: "operation s0 = (r1, s1)" by (cases "operation s0")
  have s0: "r1 = Inr a" "memory w' = s0" "disk w' = disk w" "s1 = s0"
    using r re o fr same [of s0]
    by (auto simp: read_def n split: io_fault.splits sum.splits)
  have "s0 = committed w" using re reload_cong[OF fr] reload_committed[OF ok] by simp
  with s0 o show "operation (committed w) = (Inr a, committed w)" by simp
  show "committed w' = committed w"
    using s0 \<open>s0 = committed w\<close> by (simp add: committed_def split: option.split)
qed

interpretation durable: runtime_store "durable_store wall" durable_view durable_ok for wall
proof (unfold_locales, goal_cases)
  case (12 w oid r w')
  then show ?case
    using read_Inr[of w "mem_get oid" r w'] mem_get_shows mem_reads_same(1)
    by (simp add: durable_store_def durable_get_def durable_view_def)
next
  case (13 w x vs w')
  then show ?case
    using read_Inr[of w "mem_list_by_workflow_execution x" vs w'] mem_reads_same(2)
      mem_lists_workflow[OF committed_ok[of w], of x vs "committed w"]
    by (simp add: durable_store_def durable_list_by_workflow_execution_def durable_view_def
        lists_workflow_def)
next
  case (14 w j key v w')
  then have m: "mutate (mem_create j key) w = (Inr v, w')"
    by (simp add: durable_store_def durable_create_def)
  have "map_of (objects (memory w')) (as_str (dget v ''id'')) = Some v"
    by (rule mem_create_Inr[OF committed_ok[OF 14(1)] mutate_Inr(1)[OF 14(1) m]])
  then show ?case
    using mutate_Inr_committed[OF 14(1) m store_wf.mem_create]
    by (simp add: durable_view_def mem_view_def)
next
  case (15 w oid st expd u ch v' w')
  then have m: "mutate (mem_update_status wall oid st expd u ch) w = (Inr v', w')"
    by (simp add: durable_store_def durable_update_status_def)
  from mem_update_status_Inr[OF mutate_Inr(1)[OF 15(1) m]] obtain v where
    "map_of (objects (committed w)) oid = Some v"
    "case expd of None \<Rightarrow> True | Some e \<Rightarrow> dget v ''status'' = JStr e"
    "dget v' ''status'' = JStr st" "map_of (objects (memory w')) oid = Some v'"
    by blast
  then show ?case
    using mutate_Inr_committed[OF 15(1) m store_wf.mem_update_status]
    by (auto simp: durable_view_def mem_view_def dget_canon_dict store_wf.may_update_def
        lookup_canon_store canon_dict_idem split: option.splits)
qed (auto simp: durable_store_def durable_create_def durable_append_event_def durable_update_status_def
    durable_append_task_execution_id_def durable_get_def durable_list_by_workflow_execution_def
    durable_list_by_task_execution_def durable_commit_task_execution_transition_def
    durable_claim_task_dispatch_def durable_wake_approved_task_def durable_create_approval_request_def
    mem_reads_same
    status_path_def mem_moves.may_update_def store_wf.may_update_def
    intro!: mutate_moves read_moves mem_moves.methods store_wf.methods mem_moves.rules store_wf.rules)

end
