(* ===== verification/RuntimeValidation.thy ===== *)
theory RuntimeValidation
  imports PyEffect
begin

text \<open>
  Timestamps (\<open>runtime_validation.py\<close>): the RFC 3339 pattern, and \<open>datetime.fromisoformat\<close>
  of CPython 3.12 on the texts of that shape.  On other ISO 8601 spellings
  \<open>fromisoformat\<close> is the parameter \<open>other\<close> of the definitions that parse.  A point in
  time is its distance in microseconds from the first day of year 1, and is naive or aware.
\<close>

datatype pytime = Aware int | Naive int

record timestamp_fields =
  ts_year :: int
  ts_month :: int
  ts_day :: int
  ts_hour :: int
  ts_minute :: int
  ts_second :: int
  ts_fraction :: string
  ts_offset :: int

section \<open>The pattern\<close>

definition is_digit :: "char \<Rightarrow> bool" where
  "is_digit c \<longleftrightarrow> (let n = of_char c :: nat in 48 \<le> n \<and> n \<le> 57)"

definition digit_value :: "char \<Rightarrow> int" where
  "digit_value c = int (of_char c) - 48"

definition digits_value :: "string \<Rightarrow> int" where
  "digits_value s = foldl (\<lambda>n c. 10 * n + digit_value c) 0 s"

text \<open>\<open>\d{n}\<close>: the value of the next \<open>n\<close> digits and what follows them.\<close>

definition scan_digits :: "nat \<Rightarrow> string \<Rightarrow> (int \<times> string) option" where
  "scan_digits n s =
     (if n \<le> length s \<and> list_all is_digit (take n s)
      then Some (digits_value (take n s), drop n s) else None)"

definition scan_char :: "char \<Rightarrow> string \<Rightarrow> string option" where
  "scan_char c s = (case s of [] \<Rightarrow> None | x # r \<Rightarrow> if x = c then Some r else None)"

text \<open>\<open>(?:\.\d+)?\<close>: the digits of the fraction.\<close>

definition scan_fraction :: "string \<Rightarrow> (string \<times> string) option" where
  "scan_fraction s =
     (case scan_char CHR ''.'' s of
        None \<Rightarrow> Some ([], s)
      | Some r \<Rightarrow> if takeWhile is_digit r = [] then None
                  else Some (takeWhile is_digit r, dropWhile is_digit r))"

text \<open>\<open>(?:Z|[+-]\d{2}:\d{2})\<close> up to the end: the offset in seconds.\<close>

definition scan_offset :: "string \<Rightarrow> int option" where
  "scan_offset s =
     (if s = ''Z'' then Some 0
      else case s of
        [] \<Rightarrow> None
      | sign # r \<Rightarrow>
          if sign \<noteq> CHR ''+'' \<and> sign \<noteq> CHR ''-'' then None
          else Option.bind (scan_digits 2 r) (\<lambda>(h, r).
               Option.bind (scan_char CHR '':'' r) (\<lambda>r.
               Option.bind (scan_digits 2 r) (\<lambda>(m, r).
               if r = [] then Some ((if sign = CHR ''-'' then -1 else 1) * (h * 3600 + m * 60))
               else None))))"

definition scan_timestamp :: "string \<Rightarrow> timestamp_fields option" where
  "scan_timestamp s =
     Option.bind (scan_digits 4 s) (\<lambda>(y, s).
     Option.bind (scan_char CHR ''-'' s) (\<lambda>s.
     Option.bind (scan_digits 2 s) (\<lambda>(mo, s).
     Option.bind (scan_char CHR ''-'' s) (\<lambda>s.
     Option.bind (scan_digits 2 s) (\<lambda>(d, s).
     Option.bind (scan_char CHR ''T'' s) (\<lambda>s.
     Option.bind (scan_digits 2 s) (\<lambda>(h, s).
     Option.bind (scan_char CHR '':'' s) (\<lambda>s.
     Option.bind (scan_digits 2 s) (\<lambda>(mi, s).
     Option.bind (scan_char CHR '':'' s) (\<lambda>s.
     Option.bind (scan_digits 2 s) (\<lambda>(se, s).
     Option.bind (scan_fraction s) (\<lambda>(fr, s).
     Option.bind (scan_offset s) (\<lambda>off.
     Some \<lparr>ts_year = y, ts_month = mo, ts_day = d, ts_hour = h, ts_minute = mi,
           ts_second = se, ts_fraction = fr, ts_offset = off\<rparr>)))))))))))))"

section \<open>The calendar\<close>

definition leap_year :: "int \<Rightarrow> bool" where
  "leap_year y \<longleftrightarrow> y mod 4 = 0 \<and> (y mod 100 \<noteq> 0 \<or> y mod 400 = 0)"

definition days_in_month :: "int \<Rightarrow> int \<Rightarrow> int" where
  "days_in_month y m =
     (if m = 2 then (if leap_year y then 29 else 28)
      else if m \<in> {4, 6, 9, 11} then 30 else 31)"

definition valid_timestamp :: "timestamp_fields \<Rightarrow> bool" where
  "valid_timestamp t \<longleftrightarrow>
     1 \<le> ts_year t \<and> 1 \<le> ts_month t \<and> ts_month t \<le> 12
     \<and> 1 \<le> ts_day t \<and> ts_day t \<le> days_in_month (ts_year t) (ts_month t)
     \<and> ts_hour t \<le> 23 \<and> ts_minute t \<le> 59 \<and> ts_second t \<le> 59
     \<and> \<bar>ts_offset t\<bar> < 86400"

definition ordinal_day :: "int \<Rightarrow> int \<Rightarrow> int \<Rightarrow> int" where
  "ordinal_day y m d =
     365 * (y - 1) + (y - 1) div 4 - (y - 1) div 100 + (y - 1) div 400
     + sum_list (map (days_in_month y) [1..m - 1]) + d"

text \<open>Fractions are cut to microseconds.\<close>

definition micros :: "timestamp_fields \<Rightarrow> int" where
  "micros t =
     ((ordinal_day (ts_year t) (ts_month t) (ts_day t) * 24 + ts_hour t) * 60 + ts_minute t) * 60000000
     + (ts_second t - ts_offset t) * 1000000
     + digits_value (take 6 (ts_fraction t @ ''000000''))"

section \<open>Validation and parsing\<close>

text \<open>A leap second is checked as the second before it.\<close>

definition is_rfc3339_timestamp :: "json \<Rightarrow> bool" where
  "is_rfc3339_timestamp value \<longleftrightarrow>
     (if \<not> is_str value then True
      else case scan_timestamp (as_str value) of
             None \<Rightarrow> False
           | Some t \<Rightarrow> valid_timestamp (if ts_second t = 60 then t\<lparr>ts_second := 59\<rparr> else t))"

fun replace_Z :: "string \<Rightarrow> string" where
  "replace_Z [] = []"
| "replace_Z (c # s) = (if c = CHR ''Z'' then ''+00:00'' @ replace_Z s else c # replace_Z s)"

text \<open>\<open>datetime.fromisoformat(value.replace("Z", "+00:00"))\<close>, \<open>None\<close> when it raises \<open>ValueError\<close>.\<close>

definition parse_time :: "(string \<Rightarrow> pytime option) \<Rightarrow> string \<Rightarrow> pytime option" where
  "parse_time other value =
     (case scan_timestamp value of
        None \<Rightarrow> other (replace_Z value)
      | Some t \<Rightarrow> if valid_timestamp t then Some (Aware (micros t)) else None)"

text \<open>\<open>a >= b\<close> on datetimes; naive and aware ones do not compare.\<close>

fun time_ge :: "pytime \<Rightarrow> pytime \<Rightarrow> exn + bool" where
  "time_ge (Aware a) (Aware b) = Inr (b \<le> a)"
| "time_ge (Naive a) (Naive b) = Inr (b \<le> a)"
| "time_ge _ _ = Inl (type_error ''can't compare offset-naive and offset-aware datetimes'')"

lemma parse_time_rfc3339:
  assumes "is_rfc3339_timestamp (JStr s)" "scan_timestamp s = Some t" "ts_second t \<noteq> 60"
  shows "parse_time other s = Some (Aware (micros t))"
  using assms by (simp add: is_rfc3339_timestamp_def parse_time_def)

text \<open>A leap second passes the validation and is refused by the parser.\<close>

lemma parse_time_leap_second:
  assumes "scan_timestamp s = Some t" "ts_second t = 60"
  shows "parse_time other s = None"
  using assms by (simp add: parse_time_def valid_timestamp_def)

lemma rfc3339_scans: "is_rfc3339_timestamp (JStr s) \<Longrightarrow> \<exists>t. scan_timestamp s = Some t"
  by (simp add: is_rfc3339_timestamp_def split: option.splits)

end
