(* ===== verification/SchemaValidation.thy ===== *)
theory SchemaValidation
  imports RuntimeValidation
begin

text \<open>
  How the modules report JSON Schema errors.  The validators themselves are the third-party
  \<open>jsonschema\<close> package: a validator is a parameter that gives the errors of a value
  (\<open>iter_errors\<close>), each with its location and its message.  What the code does with
  them is here: order them, take the first, render its location.
\<close>

text \<open>A location is a sequence of object keys and array positions.\<close>

datatype path_part = PIndex int | PKey string

instantiation path_part :: linorder
begin

fun less_eq_path_part :: "path_part \<Rightarrow> path_part \<Rightarrow> bool" where
  "less_eq_path_part (PIndex i) (PIndex j) = (i \<le> j)"
| "less_eq_path_part (PIndex i) (PKey t) = True"
| "less_eq_path_part (PKey s) (PIndex j) = False"
| "less_eq_path_part (PKey s) (PKey t) = (s \<le> t)"

definition less_path_part :: "path_part \<Rightarrow> path_part \<Rightarrow> bool" where
  "less_path_part p q \<longleftrightarrow> p \<le> q \<and> \<not> q \<le> p"

instance
proof
  fix x y z :: path_part
  show "x \<le> x" by (cases x) simp_all
  show "x < y \<longleftrightarrow> x \<le> y \<and> \<not> y \<le> x" by (rule less_path_part_def)
  show "x \<le> y \<or> y \<le> x" by (cases x; cases y) auto
  show "x \<le> y \<Longrightarrow> y \<le> x \<Longrightarrow> x = y" by (cases x; cases y) auto
  show "x \<le> y \<Longrightarrow> y \<le> z \<Longrightarrow> x \<le> z" by (cases x; cases y; cases z) auto
qed

end

record schema_error =
  err_path :: "path_part list"
  err_message :: string

type_synonym validator = "json \<Rightarrow> schema_error list"

fun path_part_str :: "path_part \<Rightarrow> string" where
  "path_part_str (PIndex i) = dec_int i"
| "path_part_str (PKey s) = s"

text \<open>\<open>"$" + "".join(f".{part}" for part in path)\<close>.\<close>

definition path_text :: "path_part list \<Rightarrow> string" where
  "path_text ps = ''$'' @ concat (map (\<lambda>p. ''.'' @ path_part_str p) ps)"

definition first_error :: "schema_error list \<Rightarrow> schema_error option" where
  "first_error errors =
     (case sort_key (\<lambda>e. (err_path e, err_message e)) errors of [] \<Rightarrow> None | e # es \<Rightarrow> Some e)"

text \<open>
  The common shape of \<open>_validate_runtime_record\<close> and \<open>_validate_task_execution\<close>: raise
  \<open>cls\<close> with the prefix and the first error.
\<close>

definition validate_with :: "validator \<Rightarrow> exn_class \<Rightarrow> string \<Rightarrow> json \<Rightarrow> exn + unit" where
  "validate_with iter_errors cls prefix value =
     (case first_error (iter_errors value) of
        None \<Rightarrow> Inr ()
      | Some e \<Rightarrow> Inl (Exn cls (prefix @ '' at '' @ path_text (err_path e) @ '': '' @ err_message e) JNull))"

lemma first_error_None: "first_error errors = None \<longleftrightarrow> errors = []"
  by (cases errors) (auto simp: first_error_def split: list.splits dest: arg_cong[of _ _ length])

lemma first_error_least:
  "first_error errors = Some e \<Longrightarrow>
     e \<in> set errors \<and> (\<forall>e' \<in> set errors. (err_path e, err_message e) \<le> (err_path e', err_message e'))"
proof -
  assume f: "first_error errors = Some e"
  let ?key = "\<lambda>e. (err_path e, err_message e)"
  obtain es where es: "sort_key ?key errors = e # es"
    using f by (auto simp: first_error_def split: list.splits)
  have "set (e # es) = set errors" by (metis es set_sort)
  moreover have "sorted (map ?key (e # es))" by (metis es sorted_sort_key)
  ultimately show ?thesis by auto
qed

lemma validate_with_Inr [simp]:
  "validate_with iter_errors cls prefix value = Inr u \<longleftrightarrow> iter_errors value = []"
  by (auto simp: validate_with_def first_error_None[symmetric] split: option.split)

end
