(* ===== verification/Observability.thy ===== *)
theory Observability
  imports RuntimeValidation "HOL-Library.Sublist"
begin

text \<open>
  Trace correlation, redaction and lifecycle records (\<open>observability.py\<close>).  A correlation
  context is the record \<open>correlation\<close>; building one checks its fields, as
  \<open>__post_init__\<close> does.  Redaction is a function on JSON values with the enclosing container
  key as an argument; its lemmas say that no secret-bearing key or value survives, and that
  redacting twice changes nothing.
\<close>

definition observability_error :: "string \<Rightarrow> exn" where
  "observability_error m = Exn ObservabilityContractError m JNull"

section \<open>Texts\<close>

definition require_text :: "json \<Rightarrow> string \<Rightarrow> exn + string" where
  "require_text value field =
     (if is_str value \<and> py_strip (as_str value) \<noteq> [] then Inr (py_strip (as_str value))
      else Inl (observability_error (field @ '' must be a non-empty string'')))"

definition required_mapping_text :: "dict \<Rightarrow> string \<Rightarrow> exn + string" where
  "required_mapping_text value field = require_text (dget value field) field"

definition optional_mapping_text :: "dict \<Rightarrow> string \<Rightarrow> exn + string option" where
  "optional_mapping_text value field =
     (if dget value field = JNull then Inr None
      else bindR (require_text (dget value field) field) (\<lambda>t. Inr (Some t)))"

definition one_identity :: "json list \<Rightarrow> string \<Rightarrow> exn + string" where
  "one_identity candidates field =
     bindR (mapR (\<lambda>c. require_text c field) candidates) (\<lambda>normalized.
       if length (remdups normalized) \<noteq> 1
       then Inl (observability_error (''conflicting '' @ field @ '' values''))
       else Inr (hd normalized))"

section \<open>Correlation contexts\<close>

record correlation =
  cor_trace :: string
  cor_workflow :: string
  cor_task :: "string option"

definition correlation_context :: "string \<Rightarrow> string \<Rightarrow> string option \<Rightarrow> exn + correlation" where
  "correlation_context trace workflow task =
     bindR (require_text (JStr trace) ''traceId'') (\<lambda>_.
     bindR (require_text (JStr workflow) ''workflowExecutionId'') (\<lambda>_.
     bindR (case task of None \<Rightarrow> Inr [] | Some t \<Rightarrow> require_text (JStr t) ''taskExecutionId'') (\<lambda>_.
     Inr \<lparr>cor_trace = trace, cor_workflow = workflow, cor_task = task\<rparr>)))"

definition to_boundary_fields :: "correlation \<Rightarrow> dict" where
  "to_boundary_fields c =
     [(''traceId'', JStr (cor_trace c)), (''workflowExecutionId'', JStr (cor_workflow c))]
     @ (case cor_task c of None \<Rightarrow> [] | Some t \<Rightarrow> [(''taskExecutionId'', JStr t)])"

definition from_boundary_fields :: "dict \<Rightarrow> exn + correlation" where
  "from_boundary_fields boundary =
     bindR (required_mapping_text boundary ''traceId'') (\<lambda>trace.
     bindR (required_mapping_text boundary ''workflowExecutionId'') (\<lambda>workflow.
     bindR (optional_mapping_text boundary ''taskExecutionId'') (\<lambda>task.
     correlation_context trace workflow task)))"

definition mapping_or_empty :: "json \<Rightarrow> dict" where
  "mapping_or_empty v = (if is_mapping v then as_dict v else [])"

definition from_runtime_object :: "dict \<Rightarrow> exn + correlation" where
  "from_runtime_object value =
     (let provenance = mapping_or_empty (dget value ''provenance'');
          kind = dget value ''kind'';
          workflow_candidates = filter (\<lambda>c. c \<noteq> JNull)
            [if kind = JStr ''WorkflowExecution'' then dget value ''id'' else JNull,
             dget value ''workflowExecutionId'', dget provenance ''workflowExecutionId''];
          task_candidates = filter (\<lambda>c. c \<noteq> JNull)
            [if kind = JStr ''TaskExecution'' then dget value ''id'' else JNull,
             dget value ''taskExecutionId'', dget provenance ''taskExecutionId'']
      in bindR (one_identity workflow_candidates ''workflowExecutionId'') (\<lambda>workflow.
         bindR (if task_candidates = [] then Inr None
                else bindR (one_identity task_candidates ''taskExecutionId'') (\<lambda>t. Inr (Some t))) (\<lambda>task.
         bindR (required_mapping_text value ''traceId'') (\<lambda>trace.
         correlation_context trace workflow task))))"

text \<open>A context read from boundary fields is read back from the fields it writes.\<close>

lemma dropWhile_fixed: "(xs \<noteq> [] \<Longrightarrow> \<not> P (hd xs)) \<Longrightarrow> dropWhile P xs = xs"
  by (cases xs) simp_all

lemma py_strip_idem: "py_strip (py_strip s) = py_strip s"
proof -
  define t where "t = dropWhile py_space s"
  define r where "r = dropWhile py_space (rev t)"
  have s: "py_strip s = rev r" by (simp add: py_strip_def py_lstrip_def t_def r_def)
  have "\<not> py_space (hd (rev r))" if "r \<noteq> []"
  proof -
    have t: "t \<noteq> []" using that by (auto simp: r_def)
    have "last r = last (rev t)"
      using that unfolding r_def by (metis dropWhile_eq_drop last_drop length_drop length_greater_0_conv zero_less_diff)
    then have "hd (rev r) = hd t" by (simp add: hd_rev last_rev)
    then show ?thesis using hd_dropWhile t unfolding t_def by metis
  qed
  then have "dropWhile py_space (rev r) = rev r" by (intro dropWhile_fixed) simp
  moreover have "dropWhile py_space r = r"
    unfolding r_def by (intro dropWhile_fixed) (rule hd_dropWhile)
  ultimately show ?thesis unfolding s by (simp add: py_strip_def py_lstrip_def)
qed

lemma require_text_again: "require_text v f = Inr t \<Longrightarrow> require_text (JStr t) g = Inr t"
  by (auto simp: require_text_def py_strip_idem split: if_splits)

lemma boundary_round_trip:
  assumes "from_boundary_fields d = Inr c"
  shows "from_boundary_fields (to_boundary_fields c) = Inr c"
proof -
  obtain tr w tk where t: "require_text (dget d ''traceId'') ''traceId'' = Inr tr"
    and w: "require_text (dget d ''workflowExecutionId'') ''workflowExecutionId'' = Inr w"
    and tk: "optional_mapping_text d ''taskExecutionId'' = Inr tk"
    and c: "correlation_context tr w tk = Inr c"
    using assms by (auto simp: from_boundary_fields_def required_mapping_text_def bindR_eq_Inr)
  have f: "cor_trace c = tr" "cor_workflow c = w" "cor_task c = tk"
    using c by (auto simp: correlation_context_def bindR_eq_Inr)
  have "optional_mapping_text (to_boundary_fields c) ''taskExecutionId'' = Inr tk"
  proof (cases tk)
    case None
    then show ?thesis by (simp add: optional_mapping_text_def to_boundary_fields_def f dget_def)
  next
    case (Some x)
    then have "require_text (JStr x) ''taskExecutionId'' = Inr x"
      using tk require_text_again by (auto simp: optional_mapping_text_def bindR_eq_Inr split: if_splits)
    with Some show ?thesis by (simp add: optional_mapping_text_def to_boundary_fields_def f dget_def)
  qed
  then show ?thesis
    using c require_text_again[OF t] require_text_again[OF w]
    by (simp add: from_boundary_fields_def required_mapping_text_def to_boundary_fields_def f dget_def)
qed

text \<open>The first argument of \<open>bind_correlation\<close>: a context or its boundary fields.\<close>

datatype correlation_arg = Context correlation | BoundaryFields dict

definition opt_str :: "string option \<Rightarrow> json" where
  "opt_str t = (case t of None \<Rightarrow> JNull | Some s \<Rightarrow> JStr s)"

definition bind_correlation ::
  "correlation_arg \<Rightarrow> string option \<Rightarrow> dict option \<Rightarrow> exn + correlation" where
  "bind_correlation arg task provenance =
     bindR (case arg of Context c \<Rightarrow> Inr c | BoundaryFields d \<Rightarrow> from_boundary_fields d) (\<lambda>context.
     bindR (checkR (task = None \<or> cor_task context = task)
       (observability_error ''taskExecutionId conflicts with the correlation context'')) (\<lambda>_.
     (case provenance of
        None \<Rightarrow> Inr context
      | Some p \<Rightarrow>
          let workflow = dget p ''workflowExecutionId''; ptask = dget p ''taskExecutionId'' in
          bindR (checkR (workflow = JNull \<or> workflow = JStr (cor_workflow context))
            (observability_error ''provenance.workflowExecutionId conflicts with the correlation context'')) (\<lambda>_.
          bindR (checkR (ptask = JNull \<or> ptask = opt_str (cor_task context))
            (observability_error ''provenance.taskExecutionId conflicts with the correlation context'')) (\<lambda>_.
          Inr context)))))"

definition propagation_fields :: "dict \<Rightarrow> string option \<Rightarrow> exn + dict" where
  "propagation_fields parent task =
     bindR (from_runtime_object parent) (\<lambda>context.
     bindR (case task of None \<Rightarrow> Inr context
            | Some t \<Rightarrow> correlation_context (cor_trace context) (cor_workflow context) (Some t)) (\<lambda>c.
     Inr (to_boundary_fields c)))"

definition assert_trace_continuity :: "dict list \<Rightarrow> exn + string" where
  "assert_trace_continuity records =
     (if records = [] then Inl (observability_error ''at least one runtime object is required'')
      else bindR (mapR (\<lambda>r. required_mapping_text r ''traceId'') records) (\<lambda>traces.
        if length (remdups traces) \<noteq> 1
        then Inl (observability_error
               (''runtime objects do not share one traceId: '' @ repr_strs (sort (remdups traces))))
        else Inr (hd traces)))"

section \<open>Redaction\<close>

definition redacted :: string where "redacted = ''[REDACTED]''"
definition omitted :: string where "omitted = ''[OMITTED]''"

definition contains :: "string \<Rightarrow> string \<Rightarrow> bool" where
  "contains marker s \<longleftrightarrow> list_ex (prefix marker) (suffixes s)"

definition ascii_lower :: "char \<Rightarrow> char" where
  "ascii_lower c = (let n = of_char c :: nat in if 65 \<le> n \<and> n \<le> 90 then char_of (n + 32) else c)"

definition ascii_alnum :: "char \<Rightarrow> bool" where
  "ascii_alnum c \<longleftrightarrow> (let n = of_char c :: nat in
     48 \<le> n \<and> n \<le> 57 \<or> 65 \<le> n \<and> n \<le> 90 \<or> 97 \<le> n \<and> n \<le> 122)"

definition ascii_alpha :: "char \<Rightarrow> bool" where
  "ascii_alpha c \<longleftrightarrow> (let n = of_char c :: nat in 65 \<le> n \<and> n \<le> 90 \<or> 97 \<le> n \<and> n \<le> 122)"

text \<open>\<open>re.sub(r"[^a-z0-9]", "", key.lower())\<close>.\<close>

definition normalized_key :: "string \<Rightarrow> string" where
  "normalized_key key = filter ascii_alnum (map ascii_lower key)"

definition secret_keys :: "string list" where
  "secret_keys = [''apikey'', ''authorization'', ''clientsecret'', ''cookie'', ''credential'', ''credentials'',
     ''password'', ''passwd'', ''privatekey'', ''proxyauthorization'', ''refreshtoken'', ''secret'', ''setcookie'',
     ''token'', ''accesstoken'']"

definition body_keys :: "string list" where
  "body_keys = [''artifactbody'', ''body'', ''content'', ''rawcontent'']"

definition artifact_containers :: "string list" where
  "artifact_containers = [''artifact'', ''artifacts'', ''generatedartifact'', ''generatedartifacts'']"

definition artifact_body_keys :: "string list" where
  "artifact_body_keys = [''body'', ''bytes'', ''content'', ''data'', ''diff'', ''patch'', ''payload'',
     ''rawcontent'', ''text'']"

definition safe_token_keys :: "string list" where
  "safe_token_keys = [''tokencount'', ''tokenestimate'', ''tokenusage'', ''tokenbudget'', ''estimatedinputtokens'',
     ''reservedtokens'', ''outputtokenallowance'', ''limittokens'', ''remainingtokens'', ''resettokensms'']"

definition container_keys :: "string list" where
  "container_keys = [''environment'', ''env'', ''headers'', ''requestheaders'', ''responseheaders'']"

definition env_secret_keys :: "string list" where
  "env_secret_keys = [''connectionstring'', ''databaseurl'', ''dburl'', ''dsn'', ''jdbcurl'', ''redisurl'']"

definition is_secret_key :: "string \<Rightarrow> string option \<Rightarrow> bool" where
  "is_secret_key key container \<longleftrightarrow>
     (if key \<in> set safe_token_keys then False
      else if key \<in> set secret_keys
              \<or> list_ex (\<lambda>m. contains m key)
                  [''apikey'', ''authentication'', ''authorization'', ''credential'', ''password'', ''privatekey'',
                   ''secret'', ''token''] then True
      else if suffix ''token'' key \<or> suffix ''secret'' key \<or> suffix ''credential'' key then True
      else if container \<in> Some ` set [''headers'', ''requestheaders'', ''responseheaders'']
           then list_ex (\<lambda>m. contains m key) [''auth'', ''cookie'', ''credential'', ''key'', ''secret'', ''token'']
      else if container \<in> Some ` set [''env'', ''environment'']
           then key \<in> set env_secret_keys
                \<or> list_ex (\<lambda>m. contains m key) [''password'', ''secret'', ''token'', ''credential'', ''privatekey'']
      else False)"

definition is_body_key :: "string \<Rightarrow> string option \<Rightarrow> bool" where
  "is_body_key key container \<longleftrightarrow>
     (if key \<in> set body_keys then True
      else if container \<in> Some ` set artifact_containers \<and> key \<in> set artifact_body_keys then True
      else list_ex (\<lambda>alias. key = ''artifact'' @ alias \<or> key = ''generatedartifact'' @ alias) artifact_body_keys)"

text \<open>The alternatives of \<open>_SECRET_VALUE\<close>, matched at one position, case ignored.\<close>

definition bearer_at :: "string \<Rightarrow> bool" where
  "bearer_at s \<longleftrightarrow>
     map ascii_lower (take 6 s) = ''bearer''
     \<and> (case drop 6 s of [] \<Rightarrow> False | c # r \<Rightarrow> py_space c \<and> dropWhile py_space r \<noteq> [])"

definition github_token_at :: "string \<Rightarrow> bool" where
  "github_token_at s \<longleftrightarrow>
     map ascii_lower (take 2 s) = ''gh'' \<and> 4 \<le> length s
     \<and> ascii_lower (s ! 2) \<in> set ''pousr'' \<and> s ! 3 = CHR ''_''
     \<and> 20 \<le> length (takeWhile (\<lambda>c. ascii_alnum c \<or> c = CHR ''_'') (drop 4 s))"

definition access_key_at :: "string \<Rightarrow> bool" where
  "access_key_at s \<longleftrightarrow>
     map ascii_lower (take 4 s) = ''akia'' \<and> 16 \<le> length (takeWhile ascii_alnum (drop 4 s))"

definition secret_value :: "string \<Rightarrow> bool" where
  "secret_value s \<longleftrightarrow>
     list_ex (\<lambda>r. bearer_at r \<or> github_token_at r \<or> access_key_at r) (suffixes s)"

text \<open>\<open>_CREDENTIAL_URL\<close>: a URL with user and password.\<close>

definition credential_url :: "string \<Rightarrow> bool" where
  "credential_url s \<longleftrightarrow>
     (case s of [] \<Rightarrow> False
      | c # r \<Rightarrow> ascii_alpha c \<and>
          (let r1 = dropWhile (\<lambda>c. ascii_alnum c \<or> c \<in> set ''+.-'') r;
               r2 = drop 3 r1;
               user = (\<lambda>c. c \<notin> set ''/:@'' \<and> \<not> py_space c);
               r3 = dropWhile user r2;
               pass = (\<lambda>c. c \<notin> set ''/@'' \<and> \<not> py_space c);
               r4 = drop 1 r3
           in prefix ''://'' r1 \<and> takeWhile user r2 \<noteq> [] \<and> prefix '':'' r3
              \<and> takeWhile pass r4 \<noteq> [] \<and> prefix ''@'' (dropWhile pass r4)))"

definition next_container :: "string \<Rightarrow> string option \<Rightarrow> string option" where
  "next_container key container =
     (if key \<in> set container_keys \<or> key \<in> set artifact_containers then Some key else container)"

fun redact_in :: "nat \<Rightarrow> string option \<Rightarrow> json \<Rightarrow> json" where
  "redact_in max_len container (JObj d) =
     JObj (map (\<lambda>(key, item).
       (key,
        if is_secret_key (normalized_key key) container then JStr redacted
        else if is_body_key (normalized_key key) container then JStr omitted
        else redact_in max_len (next_container (normalized_key key) container) item)) d)"
| "redact_in max_len container (JList xs) = JList (map (redact_in max_len container) xs)"
| "redact_in max_len container (JStr s) =
     (if secret_value s \<or> credential_url s then JStr redacted
      else if max_len < length s then JStr omitted
      else JStr s)"
| "redact_in max_len container v = v"

definition redact :: "json \<Rightarrow> json" where
  "redact v = redact_in 4096 None v"

text \<open>A value with no secret key, body key, secret string or overlong string left in it.\<close>

fun clean_in :: "nat \<Rightarrow> string option \<Rightarrow> json \<Rightarrow> bool" where
  "clean_in max_len container (JObj d) =
     list_all (\<lambda>(key, item).
        if is_secret_key (normalized_key key) container then item = JStr redacted
        else if is_body_key (normalized_key key) container then item = JStr omitted
        else clean_in max_len (next_container (normalized_key key) container) item) d"
| "clean_in max_len container (JList xs) = list_all (clean_in max_len container) xs"
| "clean_in max_len container (JStr s) =
     (\<not> secret_value s \<and> \<not> credential_url s \<and> length s \<le> max_len)"
| "clean_in max_len container v = True"

lemma placeholders_harmless:
  "\<not> secret_value redacted" "\<not> credential_url redacted" "\<not> secret_value omitted" "\<not> credential_url omitted"
  "length redacted = 10" "length omitted = 9"
  by code_simp+

lemma redact_in_clean: "10 \<le> max_len \<Longrightarrow> clean_in max_len container (redact_in max_len container v)"
proof (induction max_len container v rule: redact_in.induct)
  case (1 max_len container d)
  then show ?case by (auto simp: list_all_iff split: prod.splits)
qed (auto simp: list_all_iff placeholders_harmless)

lemma redact_in_clean_same: "clean_in max_len container v \<Longrightarrow> redact_in max_len container v = v"
proof (induction max_len container v rule: redact_in.induct)
  case (1 max_len container d)
  then show ?case by (auto simp: list_all_iff intro!: map_idI split: if_splits)
qed (auto simp: list_all_iff intro!: map_idI)

section \<open>Lifecycle records\<close>

text \<open>Event name, runtime kind, admissible statuses, whether a failure class is required.\<close>

definition lifecycle_semantics :: "(string \<times> string \<times> string list \<times> bool) list" where
  "lifecycle_semantics =
     [(''WorkflowExecutionStarted'', ''WorkflowExecution'', [''RUNNING''], False),
      (''WorkflowExecutionCompleted'', ''WorkflowExecution'', [''SUCCEEDED''], False),
      (''WorkflowExecutionFailed'', ''WorkflowExecution'', [''FAILED''], True),
      (''WorkflowExecutionCancelled'', ''WorkflowExecution'', [''CANCELLED''], False),
      (''TaskExecutionQueued'', ''TaskExecution'', [''PENDING'', ''QUEUED''], False),
      (''TaskExecutionStarted'', ''TaskExecution'', [''RUNNING''], False),
      (''TaskExecutionSucceeded'', ''TaskExecution'', [''SUCCEEDED''], False),
      (''TaskExecutionFailed'', ''TaskExecution'', [''FAILED''], True),
      (''TaskExecutionCancelled'', ''TaskExecution'', [''CANCELLED''], False),
      (''TaskExecutionAwaitingApproval'', ''TaskExecution'', [''AWAITING_APPROVAL''], False),
      (''ContextPackageCreated'', ''ContextPackage'', [''CREATED''], False),
      (''AgentResolved'', ''ResolvedAgent'', [''CREATED''], False),
      (''AgentInvocationStarted'', ''AgentInvocation'', [''RUNNING''], False),
      (''AgentInvocationCompleted'', ''AgentInvocation'', [''SUCCEEDED''], False),
      (''AgentInvocationFailed'', ''AgentInvocation'', [''FAILED''], True),
      (''ModelInvocationStarted'', ''ModelInvocation'', [''RUNNING''], False),
      (''ModelInvocationCompleted'', ''ModelInvocation'', [''SUCCEEDED''], False),
      (''ModelInvocationFailed'', ''ModelInvocation'', [''FAILED''], True),
      (''ModelRequestAdmitted'', ''ModelInvocation'', [''RUNNING''], False),
      (''ModelRequestThrottled'', ''ModelInvocation'', [''RUNNING''], False),
      (''ModelRetryScheduled'', ''ModelInvocation'', [''RUNNING''], False),
      (''ModelRetrySuppressed'', ''ModelInvocation'', [''RUNNING''], False),
      (''ToolInvocationStarted'', ''ToolInvocation'', [''RUNNING''], False),
      (''ToolInvocationCompleted'', ''ToolInvocation'', [''SUCCEEDED''], False),
      (''ToolInvocationFailed'', ''ToolInvocation'', [''FAILED''], True),
      (''EvaluationCompleted'', ''EvaluationResult'', [''SUCCEEDED''], False),
      (''EvaluationFailed'', ''EvaluationResult'', [''FAILED''], True),
      (''PolicyDecisionRecorded'', ''PolicyDecision'', [''RECORDED''], False),
      (''ApprovalRequested'', ''Approval'', [''PENDING''], False),
      (''ApprovalRecorded'', ''Approval'', [''APPROVED'', ''REJECTED'', ''EXPIRED''], False),
      (''GeneratedArtifactCreated'', ''GeneratedArtifact'', [''CREATED''], False)]"

definition known_failure_classes :: "string list" where
  "known_failure_classes = [''RECOVERABLE'', ''CONFIGURATION'', ''EVALUATION'', ''POLICY'', ''PERMANENT'']"

definition validate_lifecycle_semantics :: "string \<Rightarrow> string \<Rightarrow> string \<Rightarrow> json \<Rightarrow> exn + unit" where
  "validate_lifecycle_semantics event_name runtime_kind status failure_class =
     (case map_of lifecycle_semantics event_name of
        None \<Rightarrow> Inl (Exn KeyError event_name JNull)
      | Some (expected_kind, statuses, failure_required) \<Rightarrow>
          bindR (checkR (runtime_kind = expected_kind)
            (observability_error (event_name @ '' requires runtimeKind '' @ expected_kind @ '', got '' @ runtime_kind))) (\<lambda>_.
          bindR (checkR (status \<in> set statuses)
            (observability_error (event_name @ '' is incompatible with status '' @ repr_str status))) (\<lambda>_.
          if failure_required then
            bindR (checkR (hashable failure_class) unhashable_error) (\<lambda>_.
            checkR (in_strs failure_class known_failure_classes)
              (observability_error (event_name @ '' requires a valid failure class'')))
          else checkR (failure_class = JNull)
            (observability_error (event_name @ '' must not carry failure class '' @ py_repr failure_class)))))"

definition ref_candidates :: "dict \<Rightarrow> dict \<Rightarrow> exn + json list" where
  "ref_candidates runtime_object provenance =
     bindR (py_iter (dget_or provenance ''resourceRefs'' (JList []))) (\<lambda>base.
     Inr (base @ concat (map (\<lambda>(key, value).
       if suffix ''Ref'' key then [value]
       else if suffix ''Refs'' key \<and> is_list value then as_list value else []) runtime_object)))"

definition ref_parts :: "json \<Rightarrow> (string \<times> string \<times> string) option" where
  "ref_parts candidate =
     (let k = mget candidate ''kind''; n = mget candidate ''name''; v = mget candidate ''version''
      in if is_mapping candidate \<and> nonempty_str k \<and> nonempty_str n \<and> nonempty_str v
         then Some (as_str k, as_str n, as_str v) else None)"

definition runtime_resource_refs :: "dict \<Rightarrow> dict \<Rightarrow> exn + json list" where
  "runtime_resource_refs runtime_object provenance =
     bindR (ref_candidates runtime_object provenance) (\<lambda>candidates.
     let parts = List.map_filter ref_parts candidates in
     if \<exists>p \<in> set parts. snd (snd p) = ''latest''
     then Inl (observability_error ''resourceVersions must not contain floating latest references'')
     else Inr (map (\<lambda>(k, n, v). JObj [(''kind'', JStr k), (''name'', JStr n), (''version'', JStr v)])
                (sort (remdups parts))))"

definition pascal_case :: "string \<Rightarrow> bool" where
  "pascal_case s \<longleftrightarrow>
     (case s of [] \<Rightarrow> False
      | c # r \<Rightarrow> ascii_alpha c \<and> ascii_lower c \<noteq> c \<and> r \<noteq> [] \<and> list_all ascii_alnum r)"

definition lifecycle_log ::
  "string \<Rightarrow> string \<Rightarrow> dict \<Rightarrow> string \<Rightarrow> string option \<Rightarrow> json \<Rightarrow> dict \<Rightarrow> exn + dict" where
  "lifecycle_log event_name0 service runtime_object emitted_at0 status duration_ms attributes =
     bindR (require_text (JStr event_name0) ''eventName'') (\<lambda>event_name.
     bindR (checkR (pascal_case event_name) (observability_error ''eventName must use PascalCase alphanumerics'')) (\<lambda>_.
     bindR (checkR (map_of lifecycle_semantics event_name \<noteq> None)
       (observability_error (''unsupported lifecycle eventName '' @ repr_str event_name))) (\<lambda>_.
     bindR (require_text (JStr service) ''service'') (\<lambda>_.
     bindR (require_text (JStr emitted_at0) ''emittedAt'') (\<lambda>emitted_at.
     bindR (checkR (is_rfc3339_timestamp (JStr emitted_at))
       (observability_error ''emittedAt must be an RFC3339 timestamp'')) (\<lambda>_.
     bindR (checkR (duration_ms = JNull \<or> (is_int duration_ms \<and> 0 \<le> as_int duration_ms))
       (observability_error ''durationMs must be a non-negative integer'')) (\<lambda>_.
     bindR (from_runtime_object runtime_object) (\<lambda>correlation.
     bindR (required_mapping_text runtime_object ''id'') (\<lambda>object_id.
     bindR (required_mapping_text runtime_object ''kind'') (\<lambda>kind.
     bindR (require_text (py_or (opt_str status) (dget runtime_object ''status'')) ''status'') (\<lambda>resolved_status.
     let provenance = mapping_or_empty (dget runtime_object ''provenance'') in
     bindR (require_text (py_or (dget runtime_object ''repositoryRevision'')
              (dget provenance ''repositoryRevision'')) ''repositoryRevision'') (\<lambda>repository_revision.
     bindR (runtime_resource_refs runtime_object provenance) (\<lambda>refs.
     bindR (checkR (refs \<noteq> [])
       (observability_error ''resourceVersions must contain at least one immutable Resource reference'')) (\<lambda>_.
     let failure = dget runtime_object ''failure'';
         failure_class = (if is_mapping failure then mget failure ''class'' else JNull) in
     bindR (validate_lifecycle_semantics event_name kind resolved_status failure_class) (\<lambda>_.
     Inr ([(''schemaVersion'', JStr ''aep.dev/observability/v1alpha1''), (''eventName'', JStr event_name),
           (''emittedAt'', JStr emitted_at), (''service'', JStr service),
           (''level'', JStr (if truthy failure_class then ''ERROR'' else ''INFO'')),
           (''traceId'', JStr (cor_trace correlation)),
           (''executionId'', JStr (cor_workflow correlation)),
           (''taskId'', opt_str (cor_task correlation)), (''runtimeKind'', JStr kind),
           (''runtimeObjectId'', JStr object_id), (''resourceVersions'', JList refs),
           (''repositoryRevision'', JStr repository_revision), (''status'', JStr resolved_status),
           (''failureClass'', failure_class)]
          @ (if duration_ms \<noteq> JNull then [(''durationMs'', duration_ms)] else [])
          @ (if attributes \<noteq> [] then [(''attributes'', redact (JObj attributes))] else []))
     )))))))))))))))"

text \<open>
  The logger: the record goes to the injected sink, an effect of the caller's state; no
  logger is \<open>None\<close>.
\<close>

type_synonym 's lifecycle_logger = "(dict \<Rightarrow> ('s, unit) eff) option"

definition emit_lifecycle ::
  "(dict \<Rightarrow> ('s, unit) eff) \<Rightarrow> string \<Rightarrow> string \<Rightarrow> dict \<Rightarrow> string \<Rightarrow> ('s, dict) eff" where
  "emit_lifecycle sink event_name service runtime_object emitted_at =
     bindE (liftR (lifecycle_log event_name service runtime_object emitted_at None JNull [])) (\<lambda>record.
     thenE (sink record) (ret record))"

end
