(* ===== verification/TaskLifecycle.thy ===== *)
theory TaskLifecycle
  imports StoreInterface SchemaValidation Observability
begin

text \<open>
  The lifecycle of a task attempt (\<open>task_execution.py\<close>): the statuses and the transitions
  between them, the attempts it creates, the status changes it requests from the store,
  and the retry rule.  The lifecycle works over any store; its lemmas are proved over the
  \<open>runtime_store\<close> interface.  The task-reference and task-record schemas are validators of
  the environment.
\<close>

section \<open>Statuses and transitions\<close>

datatype task_status = PENDING | RUNNING | SUCCEEDED | FAILED | CANCELLED | AWAITING_APPROVAL

datatype failure_class = RECOVERABLE | CONFIGURATION | EVALUATION | POLICY | PERMANENT

definition task_statuses :: "task_status list" where
  "task_statuses = [PENDING, RUNNING, SUCCEEDED, FAILED, CANCELLED, AWAITING_APPROVAL]"

fun status_value :: "task_status \<Rightarrow> string" where
  "status_value PENDING = ''PENDING''"
| "status_value RUNNING = ''RUNNING''"
| "status_value SUCCEEDED = ''SUCCEEDED''"
| "status_value FAILED = ''FAILED''"
| "status_value CANCELLED = ''CANCELLED''"
| "status_value AWAITING_APPROVAL = ''AWAITING_APPROVAL''"

fun class_value :: "failure_class \<Rightarrow> string" where
  "class_value RECOVERABLE = ''RECOVERABLE''"
| "class_value CONFIGURATION = ''CONFIGURATION''"
| "class_value EVALUATION = ''EVALUATION''"
| "class_value POLICY = ''POLICY''"
| "class_value PERMANENT = ''PERMANENT''"

text \<open>\<open>TaskStatus(value)\<close>.\<close>

definition task_status_of :: "json \<Rightarrow> exn + task_status" where
  "task_status_of value =
     (case find (\<lambda>st. value = JStr (status_value st)) task_statuses of
        Some st \<Rightarrow> Inr st
      | None \<Rightarrow> Inl (value_error (py_repr value @ '' is not a valid TaskStatus'')))"

fun transitions :: "task_status \<Rightarrow> task_status list" where
  "transitions PENDING = [RUNNING, CANCELLED]"
| "transitions RUNNING = [SUCCEEDED, FAILED, CANCELLED, AWAITING_APPROVAL]"
| "transitions AWAITING_APPROVAL = [RUNNING, FAILED, CANCELLED]"
| "transitions SUCCEEDED = []"
| "transitions FAILED = []"
| "transitions CANCELLED = []"

text \<open>The transitions as a step relation, and on the stored texts.\<close>

inductive task_step :: "task_status \<Rightarrow> task_status \<Rightarrow> bool" where
  step: "target \<in> set (transitions current) \<Longrightarrow> task_step current target"

inductive_simps task_step_simps [simp]: "task_step current target"

definition lifecycle_edges :: "(string \<times> string) set" where
  "lifecycle_edges = {(status_value a, status_value b) |a b. task_step a b}"

lemma status_value_inject [simp]: "status_value a = status_value b \<longleftrightarrow> a = b"
  by (cases a; cases b) simp_all

lemma task_status_of_Inr: "task_status_of v = Inr st \<longleftrightarrow> v = JStr (status_value st)"
  by (cases st) (auto simp: task_status_of_def task_statuses_def split: if_splits)

section \<open>The lifecycle object\<close>

record 's lifecycle =
  lc_store :: "'s store_ops"
  lc_logger :: "'s lifecycle_logger"
  lc_task_ref_errors :: validator
  lc_task_execution_errors :: validator

definition emit_event :: "'s lifecycle \<Rightarrow> string \<Rightarrow> dict \<Rightarrow> string \<Rightarrow> ('s, unit) eff" where
  "emit_event lc event_name runtime_object timestamp =
     (case lc_logger lc of
        None \<Rightarrow> ret ()
      | Some sink \<Rightarrow> thenE (emit_lifecycle sink event_name ''workflow-runtime'' runtime_object timestamp) (ret ()))"

definition validate_task_ref :: "'s lifecycle \<Rightarrow> dict \<Rightarrow> exn + unit" where
  "validate_task_ref lc task_ref =
     validate_with (lc_task_ref_errors lc) InvalidTaskReferenceError ''invalid Task reference'' (JObj task_ref)"

definition validate_task_execution :: "'s lifecycle \<Rightarrow> dict \<Rightarrow> exn + unit" where
  "validate_task_execution lc r =
     validate_with (lc_task_execution_errors lc) ValueError ''invalid TaskExecution'' (JObj r)"

definition attempt_record ::
  "string \<Rightarrow> json \<Rightarrow> dict \<Rightarrow> json \<Rightarrow> string \<Rightarrow> string \<Rightarrow> dict \<Rightarrow> json list \<Rightarrow> dict" where
  "attempt_record execution_id workflow_id task_ref attempt trace timestamp provenance deps =
     [(''apiVersion'', JStr ''aep.dev/v1alpha1''), (''kind'', JStr ''TaskExecution''),
      (''id'', JStr execution_id), (''traceId'', JStr trace), (''createdAt'', JStr timestamp),
      (''updatedAt'', JStr timestamp), (''provenance'', JObj provenance),
      (''workflowExecutionId'', workflow_id), (''taskRef'', JObj task_ref), (''attempt'', attempt),
      (''status'', JStr ''PENDING''), (''dependencyTaskExecutionIds'', JList deps)]"

definition task_identity :: "dict \<Rightarrow> exn + string" where
  "task_identity task_ref =
     bindR (getitem task_ref ''kind'') (\<lambda>k. bindR (getitem task_ref ''name'') (\<lambda>n.
     bindR (getitem task_ref ''version'') (\<lambda>v.
     Inr (py_str k @ '':'' @ py_str n @ '':'' @ py_str v))))"

definition lc_create ::
  "'s lifecycle \<Rightarrow> string \<Rightarrow> json \<Rightarrow> json \<Rightarrow> json \<Rightarrow> correlation_arg \<Rightarrow> string \<Rightarrow> dict \<Rightarrow> json list
   \<Rightarrow> ('s, dict) eff" where
  "lc_create lc execution_id workflow_id task_ref_value attempt correlation timestamp provenance deps =
     thenE (checkE (is_int attempt \<and> 1 \<le> as_int attempt) (value_error ''attempt must be positive''))
     (bindE (liftR (py_dict task_ref_value)) (\<lambda>task_ref.
      thenE (liftR (validate_task_ref lc task_ref))
     (bindE (liftR (bind_correlation correlation (Some execution_id) (Some provenance))) (\<lambda>context.
      thenE (checkE (JStr (cor_workflow context) = workflow_id)
        (value_error ''workflow_execution_id conflicts with the correlation context''))
      (let r = attempt_record execution_id workflow_id task_ref attempt (cor_trace context)
                 timestamp provenance deps in
       bindE (liftR (task_identity task_ref)) (\<lambda>identity.
       thenE (liftR (validate_task_execution lc r))
      (bindE (op_create (lc_store lc) (JObj r)
                (''task-execution:'' @ py_str workflow_id @ '':'' @ identity @ '':'' @ py_str attempt)) (\<lambda>created.
       thenE (emit_event lc ''TaskExecutionQueued'' created timestamp) (ret created)))))))))"

definition lc_require :: "'s lifecycle \<Rightarrow> string \<Rightarrow> ('s, dict) eff" where
  "lc_require lc execution_id =
     bindE (op_get (lc_store lc) execution_id) (\<lambda>r.
       case r of
         None \<Rightarrow> throw (value_error (''TaskExecution '' @ repr_str execution_id @ '' was not found''))
       | Some v \<Rightarrow>
           if dget v ''kind'' \<noteq> JStr ''TaskExecution''
           then throw (value_error (''runtime object '' @ repr_str execution_id @ '' is not a TaskExecution''))
           else ret v)"

fun event_name_of :: "task_status \<Rightarrow> string" where
  "event_name_of RUNNING = ''TaskExecutionStarted''"
| "event_name_of SUCCEEDED = ''TaskExecutionSucceeded''"
| "event_name_of FAILED = ''TaskExecutionFailed''"
| "event_name_of CANCELLED = ''TaskExecutionCancelled''"
| "event_name_of AWAITING_APPROVAL = ''TaskExecutionAwaitingApproval''"
| "event_name_of PENDING = []"

definition lc_transition :: "'s lifecycle \<Rightarrow> string \<Rightarrow> task_status \<Rightarrow> string \<Rightarrow> dict \<Rightarrow> ('s, dict) eff" where
  "lc_transition lc execution_id target timestamp changes =
     bindE (lc_require lc execution_id) (\<lambda>current_record.
     bindE (liftR (bindR (getitem current_record ''status'') task_status_of)) (\<lambda>current.
     thenE (checkE (target \<in> set (transitions current))
       (Exn InvalidTaskTransitionError (''TaskExecution cannot transition from '' @ status_value current
          @ '' to '' @ status_value target) JNull))
     (bindE (op_update_status (lc_store lc) execution_id (status_value target)
               (Some (status_value current)) (Some timestamp) changes) (\<lambda>updated.
      thenE (emit_event lc (event_name_of target) updated timestamp) (ret updated)))))"

definition lc_start :: "'s lifecycle \<Rightarrow> string \<Rightarrow> string \<Rightarrow> ('s, dict) eff" where
  "lc_start lc execution_id timestamp =
     lc_transition lc execution_id RUNNING timestamp [(''startedAt'', JStr timestamp)]"

definition lc_succeed :: "'s lifecycle \<Rightarrow> string \<Rightarrow> string \<Rightarrow> ('s, dict) eff" where
  "lc_succeed lc execution_id timestamp = lc_transition lc execution_id SUCCEEDED timestamp []"

definition lc_cancel :: "'s lifecycle \<Rightarrow> string \<Rightarrow> string \<Rightarrow> ('s, dict) eff" where
  "lc_cancel lc execution_id timestamp = lc_transition lc execution_id CANCELLED timestamp []"

definition lc_await_approval :: "'s lifecycle \<Rightarrow> string \<Rightarrow> string \<Rightarrow> dict \<Rightarrow> ('s, dict) eff" where
  "lc_await_approval lc execution_id timestamp changes =
     lc_transition lc execution_id AWAITING_APPROVAL timestamp changes"

definition lc_resume :: "'s lifecycle \<Rightarrow> string \<Rightarrow> string \<Rightarrow> ('s, dict) eff" where
  "lc_resume lc execution_id timestamp = lc_transition lc execution_id RUNNING timestamp []"

definition lc_fail ::
  "'s lifecycle \<Rightarrow> string \<Rightarrow> failure_class \<Rightarrow> string \<Rightarrow> string \<Rightarrow> string option \<Rightarrow> dict option
   \<Rightarrow> ('s, dict) eff" where
  "lc_fail lc execution_id classification message timestamp retry_not_before details =
     thenE (checkE (message \<noteq> []) (value_error ''failure message must not be empty''))
     (thenE (checkE (case retry_not_before of None \<Rightarrow> True
                     | Some t \<Rightarrow> classification = RECOVERABLE \<and> is_rfc3339_timestamp (JStr t))
        (value_error ''retry_not_before requires a recoverable failure and RFC3339 timestamp''))
      (lc_transition lc execution_id FAILED timestamp
         [(''failure'', JObj ([(''class'', JStr (class_value classification)), (''message'', JStr message),
                             (''retryable'', JBool (classification = RECOVERABLE))]
            @ (case retry_not_before of None \<Rightarrow> [] | Some t \<Rightarrow> [(''retryNotBefore'', JStr t)])
            @ (case details of None \<Rightarrow> [] | Some d \<Rightarrow> [(''details'', JObj d)])))]))"

text \<open>\<open>v + 1\<close>.\<close>

fun plus_one :: "json \<Rightarrow> exn + json" where
  "plus_one (JInt i) = Inr (JInt (i + 1))"
| "plus_one (JBool b) = Inr (JInt (if b then 2 else 1))"
| "plus_one (JFloat f) =
     Inr (JFloat (case f of Finite r \<Rightarrow> Finite (round_double (r + 1)) | _ \<Rightarrow> f))"
| "plus_one v = Inl (type_error ''unsupported operand type(s) for +'')"

definition retryable_attempt :: "dict \<Rightarrow> bool" where
  "retryable_attempt previous \<longleftrightarrow>
     (let failure = dget previous ''failure'' in
      dget previous ''status'' = JStr ''FAILED'' \<and> is_mapping failure
      \<and> mget failure ''class'' = JStr ''RECOVERABLE'')"

definition lc_retry :: "'s lifecycle \<Rightarrow> string \<Rightarrow> string \<Rightarrow> string \<Rightarrow> ('s, dict) eff" where
  "lc_retry lc execution_id new_execution_id timestamp =
     bindE (lc_require lc execution_id) (\<lambda>previous.
     thenE (checkE (retryable_attempt previous)
       (Exn TaskRetryNotAllowedError ''only failed recoverable TaskExecutions may be retried'' JNull))
     (bindE (liftR (bindR (getitem previous ''provenance'') py_dict)) (\<lambda>provenance0.
      let provenance = dput ''parentId'' (JStr execution_id) provenance0 in
      bindE (liftR (from_runtime_object previous)) (\<lambda>previous_context.
      bindE (liftR (getitem previous ''workflowExecutionId'')) (\<lambda>workflow_id.
      bindE (liftR (getitem previous ''taskRef'')) (\<lambda>task_ref.
      bindE (liftR (bindR (getitem previous ''attempt'') plus_one)) (\<lambda>attempt.
      bindE (liftR (correlation_context (cor_trace previous_context) (cor_workflow previous_context)
                      (Some new_execution_id))) (\<lambda>correlation.
      bindE (liftR (py_iter (dget_or previous ''dependencyTaskExecutionIds'' (JList [])))) (\<lambda>deps.
      lc_create lc new_execution_id workflow_id task_ref attempt (Context correlation) timestamp
        provenance deps)))))))))"

section \<open>What the lifecycle guarantees over any store\<close>

text \<open>The lifecycle works on this store, and its log sink leaves the objects alone.\<close>

definition lifecycle_on ::
  "'s store_ops \<Rightarrow> ('s \<Rightarrow> string \<Rightarrow> dict option) \<Rightarrow> ('s \<Rightarrow> bool) \<Rightarrow> 's lifecycle \<Rightarrow> bool" where
  "lifecycle_on ops view ok lc \<longleftrightarrow>
     lc_store lc = ops
     \<and> (\<forall>sink r. lc_logger lc = Some sink \<longrightarrow> keeps (moves ok view {} no_object) (sink r))"

text \<open>The attempt a creation may add.\<close>

definition new_attempt :: "string \<Rightarrow> json \<Rightarrow> json \<Rightarrow> json list \<Rightarrow> dict \<Rightarrow> bool" where
  "new_attempt execution_id workflow_id attempt deps d \<longleftrightarrow>
     dget d ''kind'' = JStr ''TaskExecution'' \<and> dget d ''id'' = JStr execution_id
     \<and> dget d ''workflowExecutionId'' = workflow_id \<and> dget d ''status'' = JStr ''PENDING''
     \<and> dget d ''attempt'' = attempt \<and> is_int attempt \<and> 1 \<le> as_int attempt
     \<and> dget d ''dependencyTaskExecutionIds'' = JList deps"

lemma new_attempt_record:
  "is_int attempt \<Longrightarrow> 1 \<le> as_int attempt \<Longrightarrow>
   new_attempt x w attempt deps (attempt_record x w task_ref attempt trace now prov deps)"
  by (simp add: new_attempt_def attempt_record_def dget_def)

text \<open>The attempt a retry of \<open>p\<close> may add.\<close>

definition retry_of :: "dict \<Rightarrow> string \<Rightarrow> dict \<Rightarrow> bool" where
  "retry_of p new_id d \<longleftrightarrow>
     dget p ''kind'' = JStr ''TaskExecution'' \<and> retryable_attempt p
     \<and> (\<exists>n deps. plus_one (dget p ''attempt'') = Inr (JInt n)
          \<and> py_iter (dget_or p ''dependencyTaskExecutionIds'' (JList [])) = Inr deps
          \<and> new_attempt new_id (dget p ''workflowExecutionId'') (JInt n) deps d)"

context runtime_store
begin

lemma lifecycle_store: "lifecycle_on ops view ok lc \<Longrightarrow> lc_store lc = ops"
  by (simp add: lifecycle_on_def)

lemma sink_moves:
  "lifecycle_on ops view ok lc \<Longrightarrow> lc_logger lc = Some sink \<Longrightarrow> keeps (moves ok view E N) (sink x)"
  by (rule keeps_moves_mono[of ok view "{}" no_object]) (simp_all add: lifecycle_on_def)

lemma emit_event_moves:
  assumes lc: "lifecycle_on ops view ok lc"
  shows "keeps (moves ok view E N) (emit_event lc name r now)"
proof (cases "lc_logger lc")
  case None
  then show ?thesis by (simp add: emit_event_def moving.ret)
next
  case (Some sink)
  then show ?thesis
    unfolding emit_event_def emit_lifecycle_def
    by (simp, intro moving.bindE moving.thenE moving.liftR moving.ret sink_moves[OF lc])
qed

lemma lc_require_moves:
  assumes lc: "lifecycle_on ops view ok lc"
  shows "keeps (moves ok view E N) (lc_require lc oid)"
  unfolding lc_require_def lifecycle_store[OF lc]
  by (intro moving.rules keeps_moves_mono[OF get_moves]) simp_all

lemma lc_create_moves:
  assumes lc: "lifecycle_on ops view ok lc"
  shows "keeps (moves ok view {} (new_attempt x w attempt deps))
    (lc_create lc x w task_ref attempt cor now prov deps)"
proof -
  have "keeps (moves ok view {} (new_attempt x w attempt deps)) (op_create ops (JObj
      (attempt_record x w r attempt t now prov deps)) key)"
    if "is_int attempt \<and> 1 \<le> as_int attempt" for r t key
    by (rule keeps_moves_mono[OF create_moves]) (use that in \<open>auto intro: new_attempt_record\<close>)
  then show ?thesis
    unfolding lc_create_def Let_def lifecycle_store[OF lc]
    by (intro moving.guard moving.bindE moving.thenE moving.liftR moving.ret moving.checkE
        emit_event_moves[OF lc]) simp
qed

lemma lifecycle_edge: "target \<in> set (transitions current)
    \<Longrightarrow> {(status_value current, status_value target)} \<subseteq> lifecycle_edges\<^sup>*"
  by (auto simp: lifecycle_edges_def intro!: r_into_rtrancl)

lemma lc_transition_moves:
  assumes lc: "lifecycle_on ops view ok lc"
  shows "keeps (moves ok view lifecycle_edges no_object) (lc_transition lc oid target now changes)"
  unfolding lc_transition_def lifecycle_store[OF lc]
  by (intro moving.guard moving.bindE moving.thenE moving.liftR moving.ret
      lc_require_moves[OF lc] emit_event_moves[OF lc] keeps_moves_mono[OF update_status_moves]
      lifecycle_edge)

lemma lc_transitions_move:
  assumes lc: "lifecycle_on ops view ok lc"
  shows "keeps (moves ok view lifecycle_edges no_object) (lc_start lc oid now)"
    "keeps (moves ok view lifecycle_edges no_object) (lc_succeed lc oid now)"
    "keeps (moves ok view lifecycle_edges no_object) (lc_cancel lc oid now)"
    "keeps (moves ok view lifecycle_edges no_object) (lc_await_approval lc oid now ch)"
    "keeps (moves ok view lifecycle_edges no_object) (lc_resume lc oid now)"
    "keeps (moves ok view lifecycle_edges no_object) (lc_fail lc oid cls msg now rnb det)"
  unfolding lc_start_def lc_succeed_def lc_cancel_def lc_await_approval_def lc_resume_def lc_fail_def
  by (intro moving.guard lc_transition_moves[OF lc]; (rule TrueI)?)+

text \<open>A transition that returns found the attempt in a status it may leave.\<close>

lemma lc_transition_Inr:
  assumes lc: "lifecycle_on ops view ok lc" and ok: "ok s"
    and t: "lc_transition lc oid target now changes s = (Inr v', s')"
  shows "\<exists>v current. view s oid = Some v \<and> dget v ''kind'' = JStr ''TaskExecution''
    \<and> dget v ''status'' = JStr (status_value current) \<and> task_step current target
    \<and> dget v' ''status'' = JStr (status_value target)
    \<and> (\<exists>v1. view s' oid = Some v1 \<and> evolves (canon_dict v') v1
          \<and> dget v1 ''status'' = JStr (status_value target))"
proof -
  have st: "lc_store lc = ops" using lc by (simp add: lifecycle_on_def)
  obtain r s1 current s2 s3 where g: "op_get ops oid s = (Inr (Some r), s1)"
    and k: "dget r ''kind'' = JStr ''TaskExecution''"
    and c: "getitem r ''status'' = Inr (JStr (status_value current))" "target \<in> set (transitions current)"
    and u: "op_update_status ops oid (status_value target) (Some (status_value current)) (Some now)
        changes s1 = (Inr v', s2)"
    and e: "emit_event lc (event_name_of target) v' now s2 = (Inr (), s3)" "s' = s3"
    using t st
    by (auto simp: lc_transition_def lc_require_def success_iffs bindR_eq_Inr task_status_of_Inr
        split: option.splits if_splits)
  have v: "view s oid = Some (canon_dict r)" and "view s1 = view s"
    using get_shows[OF ok g] by auto
  have ok1: "ok s1" using keepsD[OF get_moves g] ok by (simp add: moves_def)
  have v2: "view s2 oid = Some (canon_dict v')" and st': "dget v' ''status'' = JStr (status_value target)"
    using update_stores[OF ok1 u] by auto
  have ok2: "ok s2" using keepsD[OF update_status_moves u] ok1 by (simp add: moves_def)
  have "moves ok view {} no_object s2 s'"
    using keepsD[OF emit_event_moves[OF lc] e(1)] e(2) by simp
  with ok2 v2 obtain v1 where "view s' oid = Some v1" "evolves (canon_dict v') v1"
      "status_path {} (dget (canon_dict v') ''status'') (dget v1 ''status'')"
    unfolding moves_def by blast
  moreover have "dget r ''status'' = JStr (status_value current)"
    using c(1) by (simp add: getitem_def dget_def split: option.splits)
  ultimately show ?thesis
    using v k c(2) st' by (auto simp: dget_canon_dict status_path_def)
qed

text \<open>Only a failed recoverable attempt is retried, and the retry is its successor.\<close>

lemma lc_require_runs:
  assumes lc: "lifecycle_on ops view ok lc"
  shows "runs (moves ok view E N) (\<lambda>s. ok s \<and> view s oid = Some v) (lc_require lc oid)
    (\<lambda>p s. canon_dict p = v \<and> dget p ''kind'' = JStr ''TaskExecution'')"
proof (rule runsI)
  fix s r t
  assume s: "ok s \<and> view s oid = Some v" and r: "lc_require lc oid s = (r, t)"
  have "moves ok view E N s t" using keepsD[OF lc_require_moves[OF lc] r] .
  moreover have "canon_dict p = v \<and> dget p ''kind'' = JStr ''TaskExecution''" if "r = Inr p" for p
    using r that s get_shows[of s oid]
    by (auto simp: lc_require_def lifecycle_store[OF lc] success_iffs split: option.splits if_splits)
  ultimately show "moves ok view E N s t
      \<and> (\<forall>p. r = Inr p \<longrightarrow> canon_dict p = v \<and> dget p ''kind'' = JStr ''TaskExecution'')"
    by blast
qed

lemma lc_create_moves_where:
  assumes lc: "lifecycle_on ops view ok lc"
    and N: "\<And>d. new_attempt x w attempt deps d \<Longrightarrow> N d"
  shows "keeps (moves ok view {} N) (lc_create lc x w task_ref attempt cor now prov deps)"
  by (rule keeps_moves_mono[OF lc_create_moves[OF lc]]) (use N in auto)

lemma retry_keeps:
  assumes lc: "lifecycle_on ops view ok lc" and k: "dget p ''kind'' = JStr ''TaskExecution''"
    and N: "\<And>d. retry_of p x d \<Longrightarrow> N d"
    and w: "getitem p ''workflowExecutionId'' = Inr w"
    and a: "bindR (getitem p ''attempt'') plus_one = Inr attempt"
    and d: "py_iter (dget_or p ''dependencyTaskExecutionIds'' (JList [])) = Inr deps"
    and r: "retryable_attempt p"
  shows "keeps (moves ok view {} N) (lc_create lc x w task_ref attempt cor now prov deps)"
proof (rule lc_create_moves_where[OF lc])
  fix c assume c: "new_attempt x w attempt deps c"
  then obtain n where "attempt = JInt n" by (cases attempt) (auto simp: new_attempt_def)
  with c show "N c"
    using k w a d r by (intro N) (auto simp: retry_of_def bindR_eq_Inr dest!: getitem_Inr)
qed

lemma lc_retry_runs:
  assumes lc: "lifecycle_on ops view ok lc"
    and N: "\<And>p d. canon_dict p = v \<Longrightarrow> retry_of p x d \<Longrightarrow> N d"
  shows "runs (moves ok view {} N) (\<lambda>s. ok s \<and> view s oid = Some v)
    (lc_retry lc oid x now) (\<lambda>_ _. True)"
  unfolding lc_retry_def Let_def
proof (rule moving.runs_bind[OF lc_require_runs[OF lc]], rule runs_const)
  fix p
  assume p: "canon_dict p = v \<and> dget p ''kind'' = JStr ''TaskExecution''"
  show "keeps (moves ok view {} N) (thenE (checkE (retryable_attempt p)
       (Exn TaskRetryNotAllowedError ''only failed recoverable TaskExecutions may be retried'' JNull))
     (bindE (liftR (bindR (getitem p ''provenance'') py_dict)) (\<lambda>provenance0.
      bindE (liftR (from_runtime_object p)) (\<lambda>previous_context.
      bindE (liftR (getitem p ''workflowExecutionId'')) (\<lambda>workflow_id.
      bindE (liftR (getitem p ''taskRef'')) (\<lambda>task_ref.
      bindE (liftR (bindR (getitem p ''attempt'') plus_one)) (\<lambda>attempt.
      bindE (liftR (correlation_context (cor_trace previous_context) (cor_workflow previous_context)
                      (Some x))) (\<lambda>correlation.
      bindE (liftR (py_iter (dget_or p ''dependencyTaskExecutionIds'' (JList [])))) (\<lambda>deps.
      lc_create lc x workflow_id task_ref attempt (Context correlation) now
        (dput ''parentId'' (JStr oid) provenance0) deps)))))))))"
    by (intro moving.guard moving.lifted, rule retry_keeps[OF lc]) (use p N in auto)
qed

end

end
