(* ===== verification/ProviderSchema.thy ===== *)
theory ProviderSchema
  imports SchemaValidation
begin

text \<open>
  The structured-output contract of the model provider (\<open>provider_schema.py\<close>): the keyword table,
  and the recursive check that a schema lies in the subset the provider's strict mode accepts.
  The meta-schema check of the \<open>jsonschema\<close> package is a parameter that gives the path of the
  error, if any.  The main lemma relates the check to the subschemas reachable from the root.
\<close>

section \<open>The keyword table\<close>

datatype keyword_support = Provider | AepOnly | Unsupported

definition schema_compatibility :: "(string \<times> keyword_support) list" where
  "schema_compatibility =
     [(''$defs'', Provider), (''$ref'', Provider), (''type'', Provider),
      (''enum'', Provider), (''properties'', Provider), (''required'', Provider),
      (''additionalProperties'', Provider), (''items'', Provider),
      (''anyOf'', Provider), (''title'', Provider), (''description'', Provider),
      (''$comment'', Provider), (''default'', Provider), (''examples'', Provider),
      (''minItems'', Provider), (''maxItems'', Provider), (''minimum'', Provider),
      (''maximum'', Provider), (''pattern'', Provider), (''format'', Provider),
      (''minLength'', AepOnly), (''maxLength'', AepOnly),
      (''uniqueItems'', AepOnly), (''const'', Unsupported),
      (''allOf'', Unsupported), (''oneOf'', Unsupported), (''not'', Unsupported)]"

definition provider_keywords :: "string list" where
  "provider_keywords = map fst (filter (\<lambda>(k, s). s = Provider) schema_compatibility)"

definition aep_only_keywords :: "string list" where
  "aep_only_keywords = map fst (filter (\<lambda>(k, s). s = AepOnly) schema_compatibility)"

definition accepted_keywords :: "string list" where
  "accepted_keywords = provider_keywords @ aep_only_keywords"

section \<open>The error\<close>

text \<open>The payload has the fields of the frozen dataclass; \<open>safe_path\<close> is the evidence path.\<close>

definition strict_error :: "string \<Rightarrow> string \<Rightarrow> string list \<Rightarrow> string option \<Rightarrow> exn" where
  "strict_error path reason names evidence_path =
     Exn StrictProviderSchemaError
       (''OpenAI strict output schema is incompatible at '' @ path @ '': '' @ reason
        @ (if names = [] then '''' else '' ('' @ commas names @ '')''))
       (JObj [(''path'', JStr path), (''reason'', JStr reason),
              (''names'', JList (map JStr names)),
              (''safePath'', JStr (case evidence_path of None \<Rightarrow> path
                                  | Some e \<Rightarrow> if e = [] then path else e))])"

definition structural_keywords :: "string list" where
  "structural_keywords =
     [''$defs'', ''additionalProperties'', ''allOf'', ''anyOf'', ''enum'', ''items'',
      ''oneOf'', ''properties'', ''required'', ''type'']"

text \<open>\<open>_safe_schema_error_path\<close>: the second argument is \<open>redact_next\<close>.\<close>

fun safe_path_from :: "string \<Rightarrow> bool \<Rightarrow> path_part list \<Rightarrow> string" where
  "safe_path_from rendered redact_next [] = rendered"
| "safe_path_from rendered redact_next (PIndex i # parts) =
     safe_path_from (rendered @ ''['' @ dec_int i @ '']'') redact_next parts"
| "safe_path_from rendered redact_next (PKey k # parts) =
     (if redact_next then safe_path_from (rendered @ ''.<redacted>'') False parts
      else if k \<in> set structural_keywords
      then safe_path_from (rendered @ ''.'' @ k) (k \<in> {''$defs'', ''properties''}) parts
      else safe_path_from (rendered @ ''.<redacted>'') redact_next parts)"

definition safe_schema_error_path :: "path_part list \<Rightarrow> string" where
  "safe_schema_error_path parts = safe_path_from ''$'' False parts"

section \<open>References to root definitions\<close>

text \<open>\<open>(?:[^~]|~[01])*\<close> as a full match.\<close>

fun pointer_escapes :: "string \<Rightarrow> bool" where
  "pointer_escapes [] = True"
| "pointer_escapes (c # s) =
     (if c \<noteq> CHR ''~'' then pointer_escapes s
      else (case s of [] \<Rightarrow> False
            | d # s' \<Rightarrow> d \<in> {CHR ''0'', CHR ''1''} \<and> pointer_escapes s'))"

text \<open>\<open>s.replace("~d", r)\<close>.\<close>

fun replace_escape :: "char \<Rightarrow> char \<Rightarrow> string \<Rightarrow> string" where
  "replace_escape d r (a # b # s) =
     (if a = CHR ''~'' \<and> b = d then r # replace_escape d r s else a # replace_escape d r (b # s))"
| "replace_escape d r s = s"

definition local_definition_target :: "json \<Rightarrow> string option" where
  "local_definition_target reference =
     (let prefix = ''#/$defs/''; encoded = drop (length prefix) (as_str reference) in
      if \<not> is_str reference \<or> take (length prefix) (as_str reference) \<noteq> prefix then None
      else if encoded = [] \<or> CHR ''/'' \<in> set encoded \<or> \<not> pointer_escapes encoded then None
      else Some (replace_escape (CHR ''0'') (CHR ''~'') (replace_escape (CHR ''1'') (CHR ''/'') encoded)))"

section \<open>The recursive check\<close>

definition unsupported_keywords :: "dict \<Rightarrow> string list" where
  "unsupported_keywords d = sort (filter (\<lambda>k. k \<notin> set accepted_keywords) (map fst d))"

definition check_reference :: "json \<Rightarrow> string \<Rightarrow> string \<Rightarrow> dict \<Rightarrow> exn + unit" where
  "check_reference root_definitions path safe_path d =
     (let reference = dget d ''$ref'' in
      if reference = JNull then Inr ()
      else checkR (case local_definition_target reference of None \<Rightarrow> False
                   | Some target \<Rightarrow> is_mapping root_definitions \<and> dhas (as_dict root_definitions) target)
             (strict_error (path @ ''.$ref'') ''reference must resolve to a root-local definition'' []
                (Some (safe_path @ ''.$ref''))))"

definition object_schema :: "dict \<Rightarrow> bool" where
  "object_schema d \<longleftrightarrow> dget d ''type'' = JStr ''object'' \<or> is_mapping (dget d ''properties'')"

text \<open>\<open>sorted(set(xs) - set(ys))\<close>.\<close>

definition sorted_difference :: "string list \<Rightarrow> string list \<Rightarrow> string list" where
  "sorted_difference xs ys = sorted_list_of_set (set xs - set ys)"

definition check_closed_object :: "string \<Rightarrow> string \<Rightarrow> dict \<Rightarrow> exn + unit" where
  "check_closed_object path safe_path d =
     (let properties = dget d ''properties''; required = dget d ''required'';
          declared = map fst (as_dict properties); names = map as_str (as_list required);
          at_required = (\<lambda>reason ns. strict_error (path @ ''.required'') reason ns
                                       (Some (safe_path @ ''.required''))) in
      bindR (checkR (is_mapping properties)
        (strict_error (path @ ''.properties'') ''object properties must be declared'' []
           (Some (safe_path @ ''.properties'')))) (\<lambda>_.
      bindR (checkR (dget d ''additionalProperties'' = JBool False)
        (strict_error (path @ ''.additionalProperties'') ''additionalProperties must be false'' []
           (Some (safe_path @ ''.additionalProperties'')))) (\<lambda>_.
      bindR (checkR (is_list required \<and> list_all is_str (as_list required))
        (at_required ''required must list every property'' [])) (\<lambda>_.
      bindR (checkR (sorted_difference declared names = [])
        (at_required ''declared properties are not required'' (sorted_difference declared names))) (\<lambda>_.
      checkR (sorted_difference names declared = [])
        (at_required ''required names are not declared'' (sorted_difference names declared)))))))"

lemma json_size_get: "map_of d k = Some v \<Longrightarrow> size (v :: json) < size (JObj d)"
  using json_size_entry [of k v d] by (simp add: map_of_SomeD)

lemma json_size_dget: "dget d k \<noteq> JNull \<Longrightarrow> size (dget d k) < size (JObj d)"
  by (auto simp del: json.size simp: dget_def dest: json_size_get split: option.splits)

lemma json_size_dget_entry: "(n, c) \<in> set (as_dict (dget d k)) \<Longrightarrow> size (c :: json) < size (JObj d)"
proof -
  assume m: "(n, c) \<in> set (as_dict (dget d k))"
  then obtain e where e: "dget d k = JObj e" by (cases "dget d k") auto
  with m have "size c < size (dget d k)" using json_size_entry[of n c e] by simp
  also have "\<dots> < size (JObj d)" using e by (intro json_size_dget) simp
  finally show ?thesis .
qed

lemma json_size_dget_item: "c \<in> set (as_list (dget d k)) \<Longrightarrow> size (c :: json) < size (JObj d)"
proof -
  assume m: "c \<in> set (as_list (dget d k))"
  then obtain xs where e: "dget d k = JList xs" by (cases "dget d k") auto
  with m have "size c < size (dget d k)" using size_list_estimation'[of c xs "size c" size] by fastforce
  also have "\<dots> < size (JObj d)" using e by (intro json_size_dget) simp
  finally show ?thesis .
qed

function (sequential) validate_node :: "json \<Rightarrow> bool \<Rightarrow> string \<Rightarrow> string \<Rightarrow> json \<Rightarrow> exn + unit" where
  "validate_node root_definitions schema_position path safe_path (JObj d) =
     bindR (checkR (unsupported_keywords d = [])
       (strict_error path ''unsupported keyword'' (unsupported_keywords d) (Some safe_path))) (\<lambda>_.
     bindR (checkR (\<not> is_list (dget d ''type''))
       (strict_error (path @ ''.type'') ''type unions are unsupported; use nested anyOf'' []
          (Some (safe_path @ ''.type'')))) (\<lambda>_.
     bindR (check_reference root_definitions path safe_path d) (\<lambda>_.
     bindR (if object_schema d
            then bindR (check_closed_object path safe_path d) (\<lambda>_.
                 eachR (\<lambda>(name, child). validate_node root_definitions True
                          (path @ ''.properties.'' @ name) (safe_path @ ''.properties.<redacted>'') child)
                   (as_dict (dget d ''properties'')))
            else Inr ()) (\<lambda>_.
     bindR (if dget d ''items'' = JNull then Inr ()
            else validate_node root_definitions True (path @ ''.items'') (safe_path @ ''.items'')
                   (dget d ''items'')) (\<lambda>_.
     bindR (if dget d ''$defs'' = JNull then Inr ()
            else bindR (checkR (is_mapping (dget d ''$defs''))
                   (strict_error (path @ ''.$defs'') ''$defs must be an object'' []
                      (Some (safe_path @ ''.$defs'')))) (\<lambda>_.
                 eachR (\<lambda>(name, child). validate_node root_definitions True
                          (path @ ''.$defs.'' @ name) (safe_path @ ''.$defs.<redacted>'') child)
                   (as_dict (dget d ''$defs'')))) (\<lambda>_.
     if dget d ''anyOf'' = JNull then Inr ()
     else bindR (checkR (is_list (dget d ''anyOf'') \<and> as_list (dget d ''anyOf'') \<noteq> [])
            (strict_error (path @ ''.anyOf'') ''anyOf must contain schema branches'' []
               (Some (safe_path @ ''.anyOf'')))) (\<lambda>_.
          eachR (\<lambda>(index, child). validate_node root_definitions True
                   (path @ ''.anyOf['' @ dec_nat index @ '']'') (safe_path @ ''.anyOf['' @ dec_nat index @ '']'') child)
            (zip [0..<length (as_list (dget d ''anyOf''))] (as_list (dget d ''anyOf''))))))))))"
| "validate_node root_definitions schema_position path safe_path v =
     (if schema_position then Inl (strict_error path ''schema must be an object'' [] (Some safe_path))
      else Inr ())"
  by pat_completeness auto
termination
  by (relation "measure (\<lambda>(_, _, _, _, v). size v)") (auto simp del: json.size
      intro: json_size_dget json_size_dget_entry json_size_dget_item dest: set_zip_rightD)

declare validate_node.simps(1) [simp del]

definition validate_openai_strict_schema ::
  "(json \<Rightarrow> path_part list option) \<Rightarrow> json \<Rightarrow> exn + unit" where
  "validate_openai_strict_schema check_schema schema =
     bindR (checkR (is_mapping schema \<and> mget schema ''type'' = JStr ''object'')
       (strict_error ''$'' ''root schema type must be object'' [] None)) (\<lambda>_.
     bindR (case check_schema schema of None \<Rightarrow> Inr ()
       | Some error_path \<Rightarrow> Inl (strict_error (safe_schema_error_path error_path)
                                 ''invalid JSON Schema keyword value'' [] None)) (\<lambda>_.
     bindR (checkR (\<not> dhas (as_dict schema) ''anyOf'')
       (strict_error ''$.anyOf'' ''anyOf is not supported at the root'' [] None)) (\<lambda>_.
     validate_node (dget_or (as_dict schema) ''$defs'' (JObj [])) True ''$'' ''$'' schema)))"

section \<open>What is accepted\<close>

text \<open>The subschemas the check descends into.\<close>

inductive subschema :: "json \<Rightarrow> json \<Rightarrow> bool" where
  property: "object_schema d \<Longrightarrow> (n, c) \<in> set (as_dict (dget d ''properties'')) \<Longrightarrow> subschema (JObj d) c"
| items: "dget d ''items'' = c \<Longrightarrow> c \<noteq> JNull \<Longrightarrow> subschema (JObj d) c"
| def_entry: "(n, c) \<in> set (as_dict (dget d ''$defs'')) \<Longrightarrow> subschema (JObj d) c"
| branch: "c \<in> set (as_list (dget d ''anyOf'')) \<Longrightarrow> subschema (JObj d) c"

inductive_cases subschemaE [elim]: "subschema v c"

text \<open>A single schema object in the strict subset, its subschemas aside.\<close>

definition closed_object :: "dict \<Rightarrow> bool" where
  "closed_object d \<longleftrightarrow> dget d ''additionalProperties'' = JBool False
     \<and> (\<exists>props names. dget d ''properties'' = JObj props \<and> dget d ''required'' = JList (map JStr names)
          \<and> set names = fst ` set props)"

definition strict_schema_object :: "json \<Rightarrow> json \<Rightarrow> bool" where
  "strict_schema_object defs v \<longleftrightarrow> (\<exists>d. v = JObj d
     \<and> fst ` set d \<subseteq> set accepted_keywords
     \<and> \<not> is_list (dget d ''type'')
     \<and> (dget d ''$ref'' = JNull \<or> (\<exists>t. local_definition_target (dget d ''$ref'') = Some t
          \<and> dhas (as_dict defs) t))
     \<and> (object_schema d \<longrightarrow> closed_object d)
     \<and> (dget d ''$defs'' \<noteq> JNull \<longrightarrow> is_mapping (dget d ''$defs''))
     \<and> (dget d ''anyOf'' \<noteq> JNull \<longrightarrow> is_list (dget d ''anyOf'') \<and> as_list (dget d ''anyOf'') \<noteq> []))"

lemma sorted_difference_Nil [simp]: "sorted_difference xs ys = [] \<longleftrightarrow> set xs \<subseteq> set ys"
  by (simp add: sorted_difference_def)

lemma unsupported_Nil: "unsupported_keywords d = [] \<longleftrightarrow> fst ` set d \<subseteq> set accepted_keywords"
proof -
  have "unsupported_keywords d = [] \<longleftrightarrow> set (unsupported_keywords d) = {}" by simp
  also have "set (unsupported_keywords d) = fst ` set d - set accepted_keywords"
    by (auto simp: unsupported_keywords_def)
  finally show ?thesis by (simp only: Diff_eq_empty_iff)
qed

lemma map_JStr_inject [simp]: "map JStr xs = map JStr ys \<longleftrightarrow> xs = ys"
  by (rule inj_map_eq_map) (simp add: inj_on_def)

lemma check_reference_Inr:
  "check_reference defs p q d = Inr () \<longleftrightarrow>
     dget d ''$ref'' = JNull \<or> (\<exists>t. local_definition_target (dget d ''$ref'') = Some t \<and> dhas (as_dict defs) t)"
  by (cases defs) (auto simp: check_reference_def Let_def dhas_def split: option.splits)

lemma strings_list: "list_all is_str xs \<longleftrightarrow> (\<exists>ss. xs = map JStr ss)"
proof
  assume "list_all is_str xs"
  then have "xs = map JStr (map as_str xs)"
    by (induction xs) (auto elim: is_str.elims)
  then show "\<exists>ss. xs = map JStr ss" by blast
qed (auto simp: list_all_iff)

lemma check_closed_object_Inr: "check_closed_object p q d = Inr () \<longleftrightarrow> closed_object d"
proof (cases "dget d ''properties''")
  case (JObj props)
  show ?thesis
  proof (cases "\<exists>names. dget d ''required'' = JList (map JStr names)")
    case True
    then obtain names where "dget d ''required'' = JList (map JStr names)" by blast
    then show ?thesis using JObj
      by (auto simp: check_closed_object_def closed_object_def Let_def bindR_eq_Inr list_all_iff image_image)
  next
    case False
    then have "\<not> (is_list (dget d ''required'') \<and> list_all is_str (as_list (dget d ''required'')))"
      by (auto simp: strings_list elim: is_list.elims)
    with False JObj show ?thesis
      by (auto simp: check_closed_object_def closed_object_def Let_def bindR_eq_Inr)
  qed
qed (auto simp: check_closed_object_def closed_object_def Let_def bindR_eq_Inr)

lemma strict_schema_object_JObj:
  "strict_schema_object defs (JObj d) \<longleftrightarrow>
     fst ` set d \<subseteq> set accepted_keywords
     \<and> \<not> is_list (dget d ''type'')
     \<and> (dget d ''$ref'' = JNull \<or> (\<exists>t. local_definition_target (dget d ''$ref'') = Some t
          \<and> dhas (as_dict defs) t))
     \<and> (object_schema d \<longrightarrow> closed_object d)
     \<and> (dget d ''$defs'' \<noteq> JNull \<longrightarrow> is_mapping (dget d ''$defs''))
     \<and> (dget d ''anyOf'' \<noteq> JNull \<longrightarrow> is_list (dget d ''anyOf'') \<and> as_list (dget d ''anyOf'') \<noteq> [])"
  by (simp add: strict_schema_object_def)

text \<open>Strict in itself and in every subschema below.\<close>

definition strict_below :: "json \<Rightarrow> json \<Rightarrow> bool" where
  "strict_below defs v \<longleftrightarrow> (\<forall>w. subschema\<^sup>*\<^sup>* v w \<longrightarrow> strict_schema_object defs w)"

lemma strict_below_iff:
  "strict_below defs v \<longleftrightarrow> strict_schema_object defs v \<and> (\<forall>c. subschema v c \<longrightarrow> strict_below defs c)"
  unfolding strict_below_def by (metis converse_rtranclpE converse_rtranclp_into_rtranclp rtranclp.rtrancl_refl)

lemma subschema_iff:
  "subschema (JObj d) c \<longleftrightarrow>
     object_schema d \<and> c \<in> snd ` set (as_dict (dget d ''properties''))
     \<or> dget d ''items'' = c \<and> c \<noteq> JNull
     \<or> c \<in> snd ` set (as_dict (dget d ''$defs''))
     \<or> c \<in> set (as_list (dget d ''anyOf''))"
  by (force intro: subschema.intros)

lemma all_indexed: "(\<forall>p \<in> set (zip [0..<length xs] xs). P (snd p)) \<longleftrightarrow> (\<forall>x \<in> set xs. P x)"
proof -
  have "snd ` set (zip [0..<length xs] xs) = set xs" by (metis length_upt map_snd_zip minus_nat.diff_0 set_map)
  then show ?thesis by (metis (no_types, lifting) imageE imageI)
qed

lemma unit_steps:
  "bindR m (\<lambda>_. n) = Inr () \<longleftrightarrow> m = Inr () \<and> n = Inr ()"
  "(if b then x else Inr ()) = Inr () \<longleftrightarrow> (b \<longrightarrow> x = Inr ())"
  "(if b then Inr () else x) = Inr () \<longleftrightarrow> (\<not> b \<longrightarrow> x = Inr ())"
  by (auto simp: bindR_eq_Inr)

lemma node_shuffle:
  assumes "i \<Longrightarrow> I \<longleftrightarrow> I'" "\<not> dp \<Longrightarrow> Ds" "\<not> ap \<Longrightarrow> As"
  shows "(K \<and> T \<and> R \<and> (ob \<longrightarrow> cl \<and> Ps) \<and> (i \<longrightarrow> I) \<and> (dp \<longrightarrow> dm \<and> Ds) \<and> (ap \<longrightarrow> am \<and> As))
    \<longleftrightarrow> (K \<and> T \<and> R \<and> (ob \<longrightarrow> cl) \<and> (dp \<longrightarrow> dm) \<and> (ap \<longrightarrow> am))
        \<and> (ob \<longrightarrow> Ps) \<and> (i \<longrightarrow> I') \<and> Ds \<and> As"
  using assms by blast

lemma validate_node_iff: "validate_node defs True p q v = Inr () \<longleftrightarrow> strict_below defs v"
proof (induction v arbitrary: p q rule: measure_induct_rule[of size])
  case (less v)
  show ?case
  proof (cases v)
    case (JObj d)
    have entries: "eachR (\<lambda>(name, child). validate_node defs True (f name) (g name) child) (as_dict (dget d k)) = Inr ()
        \<longleftrightarrow> (\<forall>c \<in> snd ` set (as_dict (dget d k)). strict_below defs c)" for f g k
      using less.IH json_size_dget_entry[of _ _ d k] unfolding JObj
      by (force simp del: json.size simp: eachR_Inr)
    have branches: "eachR (\<lambda>(index, child). validate_node defs True (f index) (g index) child)
          (zip [0..<length (as_list (dget d k))] (as_list (dget d k))) = Inr ()
        \<longleftrightarrow> (\<forall>c \<in> set (as_list (dget d k)). strict_below defs c)" for f g k
    proof -
      have "validate_node defs True (f i) (g i) c = Inr () \<longleftrightarrow> strict_below defs c"
        if "(i, c) \<in> set (zip [0..<length (as_list (dget d k))] (as_list (dget d k)))" for i c
        using less.IH[of c "f i" "g i"] json_size_dget_item[of c d k] set_zip_rightD[OF that]
        unfolding JObj by blast
      then have "eachR (\<lambda>(index, child). validate_node defs True (f index) (g index) child)
          (zip [0..<length (as_list (dget d k))] (as_list (dget d k))) = Inr ()
          \<longleftrightarrow> (\<forall>x \<in> set (zip [0..<length (as_list (dget d k))] (as_list (dget d k))). strict_below defs (snd x))"
        by (auto simp: eachR_Inr)
      then show ?thesis by (simp only: all_indexed)
    qed
    have items: "validate_node defs True p' q' (dget d k) = Inr () \<longleftrightarrow> strict_below defs (dget d k)"
      if "dget d k \<noteq> JNull" for p' q' k
      using less.IH json_size_dget[OF that] unfolding JObj by blast
    have strict: "strict_below defs (JObj d) \<longleftrightarrow> strict_schema_object defs (JObj d)
        \<and> (object_schema d \<longrightarrow> (\<forall>c \<in> snd ` set (as_dict (dget d ''properties'')). strict_below defs c))
        \<and> (dget d ''items'' \<noteq> JNull \<longrightarrow> strict_below defs (dget d ''items''))
        \<and> (\<forall>c \<in> snd ` set (as_dict (dget d ''$defs'')). strict_below defs c)
        \<and> (\<forall>c \<in> set (as_list (dget d ''anyOf'')). strict_below defs c)"
      by (subst strict_below_iff) (auto simp only: subschema_iff)
    show ?thesis
      unfolding JObj strict validate_node.simps(1) strict_schema_object_JObj
      by (simp only: unit_steps entries branches checkR_eq_Inr unsupported_Nil check_reference_Inr
            check_closed_object_Inr)
        (rule node_shuffle, erule items, simp_all)
  qed (subst strict_below_iff, simp add: strict_schema_object_def)+
qed

text \<open>The whole check: the root conditions, the meta-schema, and strictness everywhere below.\<close>

lemma validate_openai_strict_schema_iff:
  "validate_openai_strict_schema check schema = Inr () \<longleftrightarrow>
     mget schema ''type'' = JStr ''object'' \<and> is_mapping schema \<and> check schema = None
     \<and> \<not> dhas (as_dict schema) ''anyOf''
     \<and> strict_below (dget_or (as_dict schema) ''$defs'' (JObj [])) schema"
  by (auto simp: validate_openai_strict_schema_def bindR_eq_Inr validate_node_iff split: option.splits)

end
