(* ===== verification/BudgetLimits.thy ===== *)
theory BudgetLimits
  imports PyEffect
begin

text \<open>
  Declared execution limits and their resolution (the stateless part of
  \<open>execution_budgets.py\<close>): reading a declaration, intersecting the scopes of a task, refusing a
  child that widens its parent, and the pricing of a model.  A limit keeps the number the
  declaration has, an integer or a float; comparisons are by exact value, as in Python.
\<close>

section \<open>Numbers\<close>

text \<open>The value of a finite number, and \<open>isinstance(v, (int, float)) and not isinstance(v, bool)\<close>.\<close>

fun is_number :: "json \<Rightarrow> bool" where
  "is_number (JInt i) = True"
| "is_number (JFloat f) = True"
| "is_number v = False"

fun num_rat :: "json \<Rightarrow> rat" where
  "num_rat (JInt i) = of_int i"
| "num_rat (JFloat (Finite r)) = r"
| "num_rat v = 0"

text \<open>
  \<open>math.isfinite\<close> on a number: an integer is converted to a float first, which overflows from
  the first value that rounds past the largest double.
\<close>

definition overflow_bound :: int where
  "overflow_bound = 2 ^ 1024 - 2 ^ 970"

fun py_isfinite :: "json \<Rightarrow> exn + bool" where
  "py_isfinite (JInt i) = (if overflow_bound \<le> \<bar>i\<bar>
     then Inl (Exn OverflowError ''int too large to convert to float'' JNull) else Inr True)"
| "py_isfinite (JFloat (Finite r)) = Inr True"
| "py_isfinite (JFloat f) = Inr False"
| "py_isfinite v = Inl (type_error ''must be real number'')"

section \<open>Limits\<close>

definition budget_fields :: "string list" where
  "budget_fields = [''maxModelInvocations'', ''maxInputTokens'', ''maxOutputTokens'', ''maxElapsedMs'', ''maxCostUsd'']"

definition budget_error :: "string \<Rightarrow> exn" where
  "budget_error m = Exn ExecutionBudgetError m JNull"

record budget_limit =
  bl_field :: string
  bl_value :: json
  bl_scope :: string
  bl_ref :: "dict option"

definition limit_record :: "budget_limit \<Rightarrow> dict" where
  "limit_record l = [(''value'', bl_value l), (''scope'', JStr (bl_scope l))]
     @ (case bl_ref l of None \<Rightarrow> [] | Some r \<Rightarrow> [(''resourceRef'', JObj r)])"

text \<open>A scope's limits: every field, each with its limit or \<open>None\<close>.\<close>

type_synonym limits = "(string \<times> budget_limit option) list"

definition limit_of :: "limits \<Rightarrow> string \<Rightarrow> budget_limit option" where
  "limit_of ls field = (case map_of ls field of None \<Rightarrow> None | Some l \<Rightarrow> l)"

definition scope_record :: "limits \<Rightarrow> dict" where
  "scope_record ls = map (\<lambda>(field, l). (field, case l of None \<Rightarrow> JNull | Some x \<Rightarrow> JObj (limit_record x))) ls"

definition reference_record :: "json \<Rightarrow> dict option" where
  "reference_record value =
     (if is_mapping value \<and> nonempty_str (mget value ''kind'') \<and> nonempty_str (mget value ''name'')
         \<and> nonempty_str (mget value ''version'')
      then Some [(''kind'', mget value ''kind''), (''name'', mget value ''name''), (''version'', mget value ''version'')]
      else None)"

definition positive_int :: "json \<Rightarrow> string \<Rightarrow> exn + json" where
  "positive_int value field =
     (if value = JNull \<or> (is_int value \<and> 1 \<le> as_int value) then Inr value
      else Inl (budget_error (field @ '' must be a positive integer'')))"

definition positive_number :: "json \<Rightarrow> string \<Rightarrow> exn + json" where
  "positive_number value field =
     (let e = budget_error (field @ '' must be a positive finite number'') in
      if \<not> is_number value then Inl e
      else bindR (py_isfinite value) (\<lambda>finite.
           if \<not> finite \<or> num_rat value \<le> 0 then Inl e else Inr value))"

definition declared_limit :: "dict \<Rightarrow> string \<Rightarrow> dict option \<Rightarrow> string \<Rightarrow> exn + string \<times> budget_limit option" where
  "declared_limit declarations scope resource_ref field =
     (let value = dget declarations field in
      if value = JNull then Inr (field, None)
      else bindR (if field = ''maxCostUsd'' then positive_number value field else positive_int value field)
        (\<lambda>v. Inr (field, Some \<lparr>bl_field = field, bl_value = v, bl_scope = scope, bl_ref = resource_ref\<rparr>)))"

definition declared_limits :: "json \<Rightarrow> string \<Rightarrow> json \<Rightarrow> exn + limits" where
  "declared_limits declarations scope ref =
     (if declarations = JNull then Inr (map (\<lambda>field. (field, None)) budget_fields)
      else if \<not> is_mapping declarations then Inl (budget_error ''execution budget must be an object'')
      else if \<not> set (dkeys (as_dict declarations)) \<subseteq> set budget_fields
      then Inl (budget_error ''execution budget contains unsupported fields'')
      else mapR (declared_limit (as_dict declarations) scope (reference_record ref)) budget_fields)"

definition price_field :: "dict \<Rightarrow> string \<Rightarrow> exn + unit" where
  "price_field pricing field =
     (let candidate = dget pricing field;
          e = budget_error (''pricing.'' @ field @ '' must be a non-negative number'') in
      if \<not> is_number candidate then Inl e
      else bindR (py_isfinite candidate) (\<lambda>finite.
           if \<not> finite \<or> num_rat candidate < 0 then Inl e else Inr ()))"

definition model_pricing :: "json \<Rightarrow> exn + dict option" where
  "model_pricing value =
     (if value = JNull then Inr None
      else if \<not> is_mapping value then Inl (budget_error ''Model.spec.pricing must be an object'')
      else bindR (eachR (price_field (as_dict value)) [''inputPerMillionTokens'', ''outputPerMillionTokens'']) (\<lambda>_.
           if dget (as_dict value) ''currency'' \<noteq> JStr ''USD''
           then Inl (budget_error ''pricing.currency must be USD'')
           else Inr (Some (as_dict value))))"

section \<open>Intersection and narrowing\<close>

definition scope_specificity :: "string \<Rightarrow> nat" where
  "scope_specificity scope =
     (case map_of [(''Execution'', 0), (''Task'', 1), (''Agent'', 2), (''Workflow'', 3)] scope of
        None \<Rightarrow> 99 | Some n \<Rightarrow> n)"

definition limit_key :: "budget_limit \<Rightarrow> rat \<times> nat \<times> string" where
  "limit_key l = (num_rat (bl_value l), scope_specificity (bl_scope l),
     py_str (case bl_ref l of None \<Rightarrow> JNull | Some r \<Rightarrow> JObj r))"

text \<open>\<open>min(candidates, key=...)\<close>: the first of the least.\<close>

definition most_restrictive :: "limits list \<Rightarrow> limits" where
  "most_restrictive scopes =
     map (\<lambda>field.
       (field, case sort_key limit_key (List.map_filter (\<lambda>scope. limit_of scope field) scopes) of
          [] \<Rightarrow> None | l # _ \<Rightarrow> Some l)) budget_fields"

definition check_narrower :: "string \<Rightarrow> string \<Rightarrow> limits \<Rightarrow> limits \<Rightarrow> string \<Rightarrow> exn + unit" where
  "check_narrower parent_scope child_scope parent child field =
     (case (limit_of parent field, limit_of child field) of
        (Some p, Some c) \<Rightarrow>
          checkR (num_rat (bl_value c) \<le> num_rat (bl_value p))
            (budget_error (child_scope @ '' '' @ field @ '' ('' @ py_str (bl_value c) @ '') widens ''
               @ parent_scope @ '' limit ('' @ py_str (bl_value p) @ '')''))
      | _ \<Rightarrow> Inr ())"

definition reject_widening :: "limits \<Rightarrow> limits \<Rightarrow> string \<Rightarrow> string \<Rightarrow> exn + unit" where
  "reject_widening parent child parent_scope child_scope =
     eachR (check_narrower parent_scope child_scope parent child) budget_fields"

record resolved_budget =
  rb_workflow :: limits
  rb_task :: limits
  rb_agent :: limits
  rb_output_limit :: json
  rb_pricing :: "dict option"
  rb_refs :: "dict list"

definition budget_ref_key :: "json \<Rightarrow> (string \<times> string \<times> string) option" where
  "budget_ref_key ref =
     (let part = (\<lambda>f. py_str (dget_or (as_dict ref) f (JStr ''''))) in
      if ref = JNull \<or> part ''kind'' = [] \<or> part ''name'' = [] \<or> part ''version'' = [] then None
      else Some (part ''kind'', part ''name'', part ''version''))"

definition budget_refs :: "json list \<Rightarrow> dict list" where
  "budget_refs refs =
     map (\<lambda>(k, n, v). [(''kind'', JStr k), (''name'', JStr n), (''version'', JStr v)])
       (sorted_list_of_set (set (List.map_filter budget_ref_key refs)))"

text \<open>
  The declared limits of a scope are a dictionary of all the fields, so the tests
  \<open>if execution_limits\<close>, \<open>if task_limits\<close> and \<open>if agent_limits\<close> of the code are always true.
\<close>

definition resolve_execution_budget ::
  "json \<Rightarrow> json \<Rightarrow> json \<Rightarrow> json \<Rightarrow> json \<Rightarrow> json \<Rightarrow> json \<Rightarrow> json \<Rightarrow> json \<Rightarrow> exn + resolved_budget" where
  "resolve_execution_budget workflow_budget task_budget agent_budget execution_budget
     workflow_ref task_ref agent_ref model_token_limit pricing =
     bindR (declared_limits workflow_budget ''Workflow'' workflow_ref) (\<lambda>declared_workflow.
     bindR (declared_limits execution_budget ''Execution'' JNull) (\<lambda>execution_limits.
     bindR (declared_limits task_budget ''Task'' task_ref) (\<lambda>task_limits.
     bindR (declared_limits agent_budget ''Agent'' agent_ref) (\<lambda>agent_limits.
     bindR (reject_widening declared_workflow execution_limits ''Workflow'' ''Execution'') (\<lambda>_.
     bindR (reject_widening declared_workflow task_limits ''Workflow'' ''Task'') (\<lambda>_.
     bindR (reject_widening declared_workflow agent_limits ''Workflow'' ''Agent'') (\<lambda>_.
     bindR (reject_widening task_limits agent_limits ''Task'' ''Agent'') (\<lambda>_.
     let effective_workflow = most_restrictive [declared_workflow, execution_limits] in
     bindR (positive_int model_token_limit ''Model.spec.tokenLimit'') (\<lambda>output_limit.
     bindR (model_pricing pricing) (\<lambda>prices.
     Inr \<lparr>rb_workflow = effective_workflow,
          rb_task = most_restrictive [effective_workflow, task_limits],
          rb_agent = most_restrictive [effective_workflow, agent_limits],
          rb_output_limit = output_limit, rb_pricing = prices,
          rb_refs = budget_refs [workflow_ref, task_ref, agent_ref]\<rparr>))))))))))"

definition validate_budget_narrowing ::
  "json \<Rightarrow> json \<Rightarrow> json \<Rightarrow> json \<Rightarrow> json \<Rightarrow> json \<Rightarrow> exn + unit" where
  "validate_budget_narrowing workflow_budget task_budget agent_budget workflow_ref task_ref agent_ref =
     bindR (declared_limits workflow_budget ''Workflow'' workflow_ref) (\<lambda>workflow_limits.
     bindR (declared_limits task_budget ''Task'' task_ref) (\<lambda>task_limits.
     bindR (declared_limits agent_budget ''Agent'' agent_ref) (\<lambda>agent_limits.
     bindR (reject_widening workflow_limits task_limits ''Workflow'' ''Task'') (\<lambda>_.
     bindR (reject_widening workflow_limits agent_limits ''Workflow'' ''Agent'') (\<lambda>_.
     reject_widening task_limits agent_limits ''Task'' ''Agent'')))))"

definition has_limits :: "resolved_budget \<Rightarrow> bool" where
  "has_limits rb \<longleftrightarrow> list_ex (\<lambda>(field, l). l \<noteq> None) (rb_workflow rb @ rb_task rb @ rb_agent rb)"

definition budget_scopes :: "resolved_budget \<Rightarrow> dict" where
  "budget_scopes rb = [(''workflow'', JObj (scope_record (rb_workflow rb))),
     (''task'', JObj (scope_record (rb_task rb))), (''agent'', JObj (scope_record (rb_agent rb)))]"

definition workflow_budget_record :: "resolved_budget \<Rightarrow> string \<Rightarrow> dict" where
  "workflow_budget_record rb resolved_at =
     [(''limits'', JObj (scope_record (rb_workflow rb))), (''resolvedAt'', JStr resolved_at),
      (''resourceRefs'', JList (map JObj (filter (\<lambda>r. dget r ''kind'' = JStr ''Workflow'') (rb_refs rb))))]"

definition task_budget_record :: "resolved_budget \<Rightarrow> string \<Rightarrow> dict" where
  "task_budget_record rb resolved_at =
     [(''scopes'', JObj (budget_scopes rb)), (''modelOutputTokenLimit'', rb_output_limit rb),
      (''pricing'', case rb_pricing rb of None \<Rightarrow> JNull | Some p \<Rightarrow> JObj p),
      (''resolvedAt'', JStr resolved_at), (''resourceRefs'', JList (map JObj (rb_refs rb)))]"

section \<open>What resolution gives\<close>

text \<open>A value a declaration may have for a field.\<close>

definition valid_limit :: "string \<Rightarrow> json \<Rightarrow> bool" where
  "valid_limit field v \<longleftrightarrow>
     (if field = ''maxCostUsd'' then is_number v \<and> py_isfinite v = Inr True \<and> 0 < num_rat v
      else is_int v \<and> 1 \<le> as_int v)"

definition valid_budget :: "json \<Rightarrow> bool" where
  "valid_budget b \<longleftrightarrow> b = JNull \<or> is_mapping b \<and> set (dkeys (as_dict b)) \<subseteq> set budget_fields
     \<and> (\<forall>field \<in> set budget_fields. mget b field = JNull \<or> valid_limit field (mget b field))"

definition declared :: "json \<Rightarrow> string \<Rightarrow> dict option \<Rightarrow> limits" where
  "declared b scope ref = map (\<lambda>field. (field,
     if mget b field = JNull then None
     else Some \<lparr>bl_field = field, bl_value = mget b field, bl_scope = scope, bl_ref = ref\<rparr>)) budget_fields"

lemma declared_limit_Inr:
  "declared_limit d scope ref field = Inr x \<longleftrightarrow>
     (dget d field = JNull \<or> valid_limit field (dget d field))
     \<and> x = (field, if dget d field = JNull then None
            else Some \<lparr>bl_field = field, bl_value = dget d field, bl_scope = scope, bl_ref = ref\<rparr>)"
  by (auto simp: declared_limit_def valid_limit_def positive_int_def positive_number_def Let_def bindR_eq_Inr)

lemma declared_limits_Inr:
  "declared_limits b scope ref = Inr ls \<longleftrightarrow> valid_budget b \<and> ls = declared b scope (reference_record ref)"
proof (cases "b = JNull")
  case True
  have n: "mget JNull field = JNull" for field by (simp add: mget_def dget_Nil)
  show ?thesis by (auto simp: True n declared_limits_def valid_budget_def declared_def)
next
  case False
  have get: "dget (as_dict b) = mget b" by (simp add: mget_def fun_eq_iff)
  have "mapR (declared_limit (as_dict b) scope r) xs = Inr ls \<longleftrightarrow>
      (\<forall>field \<in> set xs. mget b field = JNull \<or> valid_limit field (mget b field))
      \<and> ls = map (\<lambda>field. (field, if mget b field = JNull then None
            else Some \<lparr>bl_field = field, bl_value = mget b field, bl_scope = scope, bl_ref = r\<rparr>)) xs"
    for r xs ls
    by (induction xs arbitrary: ls) (auto simp: bindR_eq_Inr declared_limit_Inr get)
  with False show ?thesis by (auto simp: declared_limits_def valid_budget_def declared_def)
qed

lemma map_of_tabulate: "map_of (map (\<lambda>x. (x, f x)) xs) k = (if k \<in> set xs then Some (f k) else None)"
  by (induction xs) auto

lemma limit_of_declared:
  "limit_of (declared b scope ref) field =
     (if field \<in> set budget_fields \<and> mget b field \<noteq> JNull
      then Some \<lparr>bl_field = field, bl_value = mget b field, bl_scope = scope, bl_ref = ref\<rparr> else None)"
  by (simp add: limit_of_def declared_def map_of_tabulate)

text \<open>A child is within its parent where both declare a limit.\<close>

definition narrows :: "json \<Rightarrow> json \<Rightarrow> bool" where
  "narrows parent child \<longleftrightarrow> (\<forall>field \<in> set budget_fields.
     mget parent field \<noteq> JNull \<and> mget child field \<noteq> JNull
     \<longrightarrow> num_rat (mget child field) \<le> num_rat (mget parent field))"

lemma reject_widening_Inr:
  "reject_widening (declared p ps pr) (declared c cs cr) ps' cs' = Inr () \<longleftrightarrow> narrows p c"
  by (auto simp: reject_widening_def narrows_def eachR_Inr check_narrower_def limit_of_declared)

lemma validate_budget_narrowing_iff:
  "validate_budget_narrowing w t a wr tr ar = Inr () \<longleftrightarrow>
     valid_budget w \<and> valid_budget t \<and> valid_budget a \<and> narrows w t \<and> narrows w a \<and> narrows t a"
  by (auto simp: validate_budget_narrowing_def bindR_eq_Inr declared_limits_Inr reject_widening_Inr)

lemma sort_key_least:
  assumes "sort_key f xs = x # ys"
  shows "x \<in> set xs" "\<forall>y \<in> set xs. f x \<le> f y"
proof -
  have "set (x # ys) = set xs" "sorted (map f (x # ys))"
    using set_sort[of f xs] sorted_sort_key[of f xs] unfolding assms by blast+
  then show "x \<in> set xs" "\<forall>y \<in> set xs. f x \<le> f y" by auto
qed

lemma set_map_filter: "set (List.map_filter f xs) = {y. \<exists>x \<in> set xs. f x = Some y}"
  by (force simp: List.map_filter_def)

definition candidates :: "limits list \<Rightarrow> string \<Rightarrow> budget_limit set" where
  "candidates scopes field = {l. \<exists>scope \<in> set scopes. limit_of scope field = Some l}"

lemma most_restrictive_cases:
  assumes "field \<in> set budget_fields"
  shows "case limit_of (most_restrictive scopes) field of
      None \<Rightarrow> candidates scopes field = {}
    | Some l \<Rightarrow> l \<in> candidates scopes field
        \<and> (\<forall>c \<in> candidates scopes field. num_rat (bl_value l) \<le> num_rat (bl_value c))"
proof -
  let ?xs = "List.map_filter (\<lambda>scope. limit_of scope field) scopes"
  have set: "set ?xs = candidates scopes field" by (simp add: set_map_filter candidates_def)
  have l: "limit_of (most_restrictive scopes) field = (case sort_key limit_key ?xs of [] \<Rightarrow> None | l # _ \<Rightarrow> Some l)"
    using assms by (simp add: limit_of_def most_restrictive_def map_of_tabulate)
  show ?thesis
  proof (cases "sort_key limit_key ?xs")
    case Nil
    then have "set ?xs = {}" by (metis set_empty set_sort)
    with Nil set show ?thesis by (simp add: l)
  next
    case (Cons x ys)
    have "num_rat (bl_value x) \<le> num_rat (bl_value c)" if "c \<in> set ?xs" for c
      using sort_key_least(2)[OF Cons] that by (auto simp: limit_key_def)
    with Cons sort_key_least(1)[OF Cons] set show ?thesis by (simp add: l)
  qed
qed

text \<open>A limit is the tightest of the values declared for a field, or absent with them.\<close>

definition tightest :: "json list \<Rightarrow> budget_limit option \<Rightarrow> bool" where
  "tightest values l = (let declared_values = filter (\<lambda>v. v \<noteq> JNull) values in
     case l of None \<Rightarrow> declared_values = []
     | Some x \<Rightarrow> bl_value x \<in> set declared_values
         \<and> (\<forall>v \<in> set declared_values. num_rat (bl_value x) \<le> num_rat v))"

lemma tightest_restrict:
  assumes f: "field \<in> set budget_fields"
    and a: "\<And>l. limit_of x field = Some l \<Longrightarrow> bl_value l \<in> set vs" "tightest vs (limit_of x field)"
    and b: "limit_of y field = (if v = JNull then None else Some l')" "bl_value l' = v"
  shows "tightest (vs @ [v]) (limit_of (most_restrictive [x, y]) field)"
proof -
  have c: "candidates [x, y] field = {l. limit_of x field = Some l} \<union> {l. limit_of y field = Some l}"
    by (auto simp: candidates_def)
  show ?thesis
  proof (cases "limit_of x field")
    case None
    with a have "filter (\<lambda>v. v \<noteq> JNull) vs = []" by (simp add: tightest_def)
    with None b most_restrictive_cases[OF f, of "[x, y]"] show ?thesis
      by (auto simp: tightest_def c Let_def split: option.splits if_splits)
  next
    case (Some l)
    with a have t: "bl_value l \<in> set vs" "bl_value l \<noteq> JNull"
        "\<forall>v \<in> set vs. v \<noteq> JNull \<longrightarrow> num_rat (bl_value l) \<le> num_rat v"
      by (auto simp: tightest_def Let_def)
    show ?thesis
      using most_restrictive_cases[OF f, of "[x, y]"] Some b t
      by (auto simp: tightest_def c Let_def split: option.splits if_splits intro: order_trans)
  qed
qed

lemma tightest_declared:
  "field \<in> set budget_fields \<Longrightarrow> tightest [mget b field] (limit_of (declared b scope ref) field)"
  by (simp add: tightest_def limit_of_declared)

lemma tightest_member: "tightest vs (Some l) \<Longrightarrow> bl_value l \<in> set vs"
  by (auto simp: tightest_def Let_def)

lemma resolve_execution_budget_Inr:
  assumes "resolve_execution_budget w t a e wr tr ar tok pr = Inr rb" and f: "field \<in> set budget_fields"
  shows "tightest [mget w field, mget e field] (limit_of (rb_workflow rb) field)"
    and "tightest [mget w field, mget e field, mget t field] (limit_of (rb_task rb) field)"
    and "tightest [mget w field, mget e field, mget a field] (limit_of (rb_agent rb) field)"
    and "narrows w t \<and> narrows w e \<and> narrows w a \<and> narrows t a"
proof -
  define dw de where "dw = declared w ''Workflow'' (reference_record wr)"
    and "de = declared e ''Execution'' (reference_record JNull)"
  have rb: "rb_workflow rb = most_restrictive [dw, de]"
    "rb_task rb = most_restrictive [most_restrictive [dw, de], declared t ''Task'' (reference_record tr)]"
    "rb_agent rb = most_restrictive [most_restrictive [dw, de], declared a ''Agent'' (reference_record ar)]"
    and n: "narrows w t \<and> narrows w e \<and> narrows w a \<and> narrows t a"
    using assms(1)
    by (auto simp: resolve_execution_budget_def bindR_eq_Inr declared_limits_Inr reject_widening_Inr
        Let_def dw_def de_def)
  show "narrows w t \<and> narrows w e \<and> narrows w a \<and> narrows t a" by (rule n)
  have one: "tightest (vs @ [mget b field]) (limit_of (most_restrictive [x, declared b scope r]) field)"
    if "tightest vs (limit_of x field)" for vs b x scope r
    using that f tightest_member
    by (intro tightest_restrict) (auto simp: limit_of_declared)
  have tw: "tightest [mget w field, mget e field] (limit_of (most_restrictive [dw, de]) field)"
    using one[OF tightest_declared[OF f, of w "''Workflow''" "reference_record wr"], of e "''Execution''" "reference_record JNull"]
    by (simp add: dw_def de_def)
  then show "tightest [mget w field, mget e field] (limit_of (rb_workflow rb) field)" by (simp add: rb)
  show "tightest [mget w field, mget e field, mget t field] (limit_of (rb_task rb) field)"
    "tightest [mget w field, mget e field, mget a field] (limit_of (rb_agent rb) field)"
    using one[OF tw, of t "''Task''" "reference_record tr"] one[OF tw, of a "''Agent''" "reference_record ar"]
    by (simp_all add: rb)
qed

end
