(* ===== verification/Resources.thy ===== *)
theory Resources
  imports ProviderSchema BudgetLimits
begin

text \<open>
  Versioned resources and their loader (\<open>resource_loader.py\<close>).  A reference is a kind, a
  name and a version, ordered field by field as the frozen dataclass is; a collection looks
  references up in the index of its resources.  The loader's checks are here in the order
  the code makes them: schema, floating versions, the single workspace, duplicates, missing
  references, output schemas (\<open>ProviderSchema\<close>), the budget hierarchy (\<open>BudgetLimits\<close>).  File
  contents, YAML and the schemas' validators are parameters.
\<close>

section \<open>References\<close>

datatype resource_ref = ResourceRef (ref_kind: string) (ref_name: string) (ref_version: string)

instantiation resource_ref :: linorder
begin

definition less_eq_resource_ref :: "resource_ref \<Rightarrow> resource_ref \<Rightarrow> bool" where
  "less_eq_resource_ref r q \<longleftrightarrow>
     (ref_kind r, ref_name r, ref_version r) \<le> (ref_kind q, ref_name q, ref_version q)"

definition less_resource_ref :: "resource_ref \<Rightarrow> resource_ref \<Rightarrow> bool" where
  "less_resource_ref r q \<longleftrightarrow> r \<le> q \<and> \<not> q \<le> r"

instance
proof
  fix x y z :: resource_ref
  show "x < y \<longleftrightarrow> x \<le> y \<and> \<not> y \<le> x" by (rule less_resource_ref_def)
  show "x \<le> x" by (simp add: less_eq_resource_ref_def)
  show "x \<le> y \<Longrightarrow> y \<le> z \<Longrightarrow> x \<le> z" unfolding less_eq_resource_ref_def by (rule order_trans)
  show "x \<le> y \<or> y \<le> x" unfolding less_eq_resource_ref_def by (rule linear)
  assume "x \<le> y" "y \<le> x"
  then have "(ref_kind x, ref_name x, ref_version x) = (ref_kind y, ref_name y, ref_version y)"
    unfolding less_eq_resource_ref_def by (rule order_antisym)
  then show "x = y" by (cases x; cases y) simp
qed

end

text \<open>\<open>ResourceRef.from_mapping\<close>.\<close>

definition ref_from_mapping :: "dict \<Rightarrow> exn + resource_ref" where
  "ref_from_mapping value =
     bindR (getitem value ''kind'') (\<lambda>k. bindR (getitem value ''name'') (\<lambda>n.
     bindR (getitem value ''version'') (\<lambda>v. Inr (ResourceRef (py_str k) (py_str n) (py_str v)))))"

definition format_ref :: "resource_ref \<Rightarrow> string" where
  "format_ref r = ref_kind r @ ''/'' @ ref_name r @ '':'' @ ref_version r"

definition ref_record :: "resource_ref \<Rightarrow> json" where
  "ref_record r =
     JObj [(''kind'', JStr (ref_kind r)), (''name'', JStr (ref_name r)), (''version'', JStr (ref_version r))]"

lemma ref_record_inject [simp]: "ref_record r = ref_record q \<longleftrightarrow> r = q"
  by (cases r; cases q) (simp add: ref_record_def)

lemma ref_from_record [simp]: "ref_from_mapping (as_dict (ref_record r)) = Inr r"
  by (cases r) (simp add: ref_from_mapping_def ref_record_def getitem_def)

section \<open>Resources and collections\<close>

record resource =
  res_ref :: resource_ref
  res_path :: string
  res_data :: dict
  res_references :: "resource_ref list"

definition res_kind :: "resource \<Rightarrow> string" where
  "res_kind r = ref_kind (res_ref r)"

record collection =
  col_workspace :: resource
  col_resources :: "resource list"

text \<open>The index keeps the last resource of a reference.\<close>

definition collection_get :: "collection \<Rightarrow> resource_ref \<Rightarrow> resource option" where
  "collection_get c ref = map_of (rev (map (\<lambda>r. (res_ref r, r)) (col_resources c))) ref"

definition by_kind :: "collection \<Rightarrow> string \<Rightarrow> resource list" where
  "by_kind c kind = filter (\<lambda>r. res_kind r = kind) (col_resources c)"

lemma collection_get_ref: "collection_get c ref = Some r \<Longrightarrow> res_ref r = ref \<and> r \<in> set (col_resources c)"
  unfolding collection_get_def by (drule map_of_SomeD) auto

section \<open>Sort keys\<close>

definition kind_order_table :: "(string \<times> nat) list" where
  "kind_order_table = [(''Workspace'', 0), (''Workflow'', 1), (''Task'', 2), (''Agent'', 3), (''Prompt'', 4),
     (''Model'', 5), (''Tool'', 6), (''KnowledgeBase'', 7), (''Policy'', 8), (''Evaluation'', 9),
     (''Event'', 10), (''EvaluationSuite'', 11)]"

definition kind_order :: "string \<Rightarrow> nat" where
  "kind_order kind = (case map_of kind_order_table kind of None \<Rightarrow> 100 | Some n \<Rightarrow> n)"

text \<open>
  \<open>^v?(\d+)\.(\d+)\.(\d+)(.*)$\<close>: the dot of \<open>(.*)\<close> stops at a newline, and \<open>$\<close> also matches
  before a final one.
\<close>

definition scan_number :: "string \<Rightarrow> (int \<times> string) option" where
  "scan_number s =
     (let ds = takeWhile is_digit s
      in if ds = [] then None else Some (digits_value ds, dropWhile is_digit s))"

definition rest_of_line :: "string \<Rightarrow> string option" where
  "rest_of_line s =
     (let line = takeWhile (\<lambda>c. c \<noteq> CHR 0x0A) s; r = dropWhile (\<lambda>c. c \<noteq> CHR 0x0A) s
      in if r = [] \<or> r = [CHR 0x0A] then Some line else None)"

definition semver_sort_key :: "string \<Rightarrow> int \<times> int \<times> int \<times> string" where
  "semver_sort_key version =
     (let s = (case version of [] \<Rightarrow> [] | c # r \<Rightarrow> if c = CHR ''v'' then r else version) in
      case Option.bind (scan_number s) (\<lambda>(a, s).
           Option.bind (scan_char CHR ''.'' s) (\<lambda>s.
           Option.bind (scan_number s) (\<lambda>(b, s).
           Option.bind (scan_char CHR ''.'' s) (\<lambda>s.
           Option.bind (scan_number s) (\<lambda>(c, s).
           Option.bind (rest_of_line s) (\<lambda>rest. Some (a, b, c, rest))))))) of
        None \<Rightarrow> (0, 0, 0, version)
      | Some key \<Rightarrow> key)"

definition ref_sort_key :: "resource_ref \<Rightarrow> nat \<times> string \<times> int \<times> int \<times> int \<times> string" where
  "ref_sort_key r = (kind_order (ref_kind r), ref_name r, semver_sort_key (ref_version r))"

definition resource_sort_key ::
  "resource \<Rightarrow> nat \<times> string \<times> (int \<times> int \<times> int \<times> string) \<times> string" where
  "resource_sort_key r =
     (kind_order (res_kind r), ref_name (res_ref r), semver_sort_key (ref_version (res_ref r)), res_path r)"

section \<open>Loading one file\<close>

text \<open>
  \<open>le_json\<close> is \<open>json.loads\<close> (the error message, or the value), \<open>le_yaml\<close> the third-party
  YAML loader when it is installed; \<open>le_validators\<close> gives the kinds that have a schema.
\<close>

record loader =
  le_root :: string
  le_text :: "string \<Rightarrow> string"
  le_json :: "string \<Rightarrow> string + json"
  le_yaml :: "(string \<Rightarrow> json) option"
  le_validators :: "string \<Rightarrow> validator option"

definition file_name :: "string \<Rightarrow> string" where
  "file_name path = rev (takeWhile (\<lambda>c. c \<noteq> CHR ''/'') (rev path))"

text \<open>\<open>Path.suffix\<close>: the last dot of the name and what follows, unless it starts or ends it.\<close>

definition path_suffix :: "string \<Rightarrow> string" where
  "path_suffix path =
     (let name = file_name path;
          tail = rev (takeWhile (\<lambda>c. c \<noteq> CHR ''.'') (rev name));
          before = length name - length tail - 1
      in if CHR ''.'' \<in> set name \<and> 0 < before \<and> tail \<noteq> [] then ''.'' @ tail else [])"

definition lower :: "string \<Rightarrow> string" where
  "lower s = map (\<lambda>c. let n = of_char c :: nat in if 65 \<le> n \<and> n \<le> 90 then char_of (n + 32) else c) s"

definition load_mapping :: "loader \<Rightarrow> string \<Rightarrow> exn + dict" where
  "load_mapping le path =
     (let text = le_text le path in
      bindR (case le_json le text of
               Inr v \<Rightarrow> Inr v
             | Inl json_error \<Rightarrow>
                 if lower (path_suffix path) \<notin> {''.yaml'', ''.yml''}
                 then Inl (Exn ResourceParseError (path @ '': invalid JSON: '' @ json_error) JNull)
                 else case le_yaml le of
                        None \<Rightarrow> Inl (Exn ResourceParseError
                          (path @ '': YAML syntax requires PyYAML; JSON content is supported without it'') JNull)
                      | Some safe_load \<Rightarrow> Inr (safe_load text))
        (\<lambda>value. if is_mapping value then Inr (as_dict value)
           else Inl (Exn ResourceParseError (path @ '': expected a resource object'') JNull)))"

fun find_resource_refs :: "json \<Rightarrow> resource_ref list" where
  "find_resource_refs (JObj d) =
     (if fst ` set d = {''kind'', ''name'', ''version''}
      then [ResourceRef (py_str (dget d ''kind'')) (py_str (dget d ''name'')) (py_str (dget d ''version''))]
      else concat (map (\<lambda>(k, v). find_resource_refs v) d))"
| "find_resource_refs (JList xs) = concat (map find_resource_refs xs)"
| "find_resource_refs v = []"

definition reject_floating_version :: "string \<Rightarrow> resource_ref \<Rightarrow> exn + unit" where
  "reject_floating_version path ref =
     checkR (ref_version ref \<noteq> ''latest'') (Exn FloatingResourceVersionError
       (path @ '': floating resource version is not allowed in '' @ format_ref ref) JNull)"

fun join_with :: "string \<Rightarrow> string list \<Rightarrow> string" where
  "join_with sep [] = []"
| "join_with sep [x] = x"
| "join_with sep (x # y # zs) = x @ sep @ join_with sep (y # zs)"

definition format_validation_error :: "schema_error \<Rightarrow> string" where
  "format_validation_error e =
     (let location = join_with ''.'' (map path_part_str (err_path e))
      in if location \<noteq> [] then location @ '': '' @ err_message e else err_message e)"

definition validate_schema :: "validator \<Rightarrow> string \<Rightarrow> dict \<Rightarrow> exn + unit" where
  "validate_schema iter_errors path data =
     (case sort_key err_path (iter_errors (JObj data)) of
        [] \<Rightarrow> Inr ()
      | e # es \<Rightarrow> Inl (Exn ResourceValidationError (path @ '': '' @ format_validation_error e) JNull))"

text \<open>\<open>ResourceRef.from_mapping({"kind": kind, **data["metadata"]})\<close>.\<close>

definition metadata_ref :: "string \<Rightarrow> dict \<Rightarrow> exn + resource_ref" where
  "metadata_ref kind data =
     bindR (getitem data ''metadata'') (\<lambda>metadata.
     if is_mapping metadata then ref_from_mapping (dupdate [(''kind'', JStr kind)] (as_dict metadata))
     else Inl (type_error ''object is not a mapping''))"

definition load_resource :: "loader \<Rightarrow> string \<Rightarrow> exn + resource" where
  "load_resource le path =
     bindR (load_mapping le path) (\<lambda>data.
     let kind = py_str (dget_or data ''kind'' (JStr [])) in
     case le_validators le kind of
       None \<Rightarrow> Inl (Exn ResourceValidationError
                 (path @ '' declares unsupported resource kind: '' @ repr_str kind) JNull)
     | Some iter_errors \<Rightarrow>
         bindR (validate_schema iter_errors path data) (\<lambda>_.
         bindR (metadata_ref kind data) (\<lambda>ref.
         bindR (reject_floating_version path ref) (\<lambda>_.
         let references = sort_key ref_sort_key (find_resource_refs (JObj data)) in
         bindR (mapR (reject_floating_version path) references) (\<lambda>_.
         Inr \<lparr>res_ref = ref, res_path = path, res_data = data, res_references = references\<rparr>)))))"

section \<open>Loading a repository\<close>

definition resource_directories :: "string list" where
  "resource_directories = [''workflows'', ''tasks'', ''agents'', ''prompts'', ''models'', ''tools'', ''knowledge'',
     ''knowledgebases'', ''policies'', ''evaluations'', ''events'', ''evaluation-suites'']"

text \<open>\<open>_resource_files\<close> on the files below a directory, in path order (part by part).\<close>

fun split_path :: "string \<Rightarrow> string list" where
  "split_path [] = [[]]"
| "split_path (c # s) =
     (if c = CHR ''/'' then [] # split_path s
      else case split_path s of [] \<Rightarrow> [[c]] | p # ps \<Rightarrow> (c # p) # ps)"

definition resource_files :: "string list \<Rightarrow> string list" where
  "resource_files files =
     sort_key split_path
       (filter (\<lambda>path. lower (path_suffix path) \<in> {''.json'', ''.yaml'', ''.yml''}) files)"

fun check_duplicates :: "(resource_ref \<times> string) list \<Rightarrow> resource list \<Rightarrow> exn + unit" where
  "check_duplicates seen [] = Inr ()"
| "check_duplicates seen (r # rs) =
     (case map_of seen (res_ref r) of
        Some first_path \<Rightarrow> Inl (Exn DuplicateResourceError
          (''Duplicate resource version '' @ format_ref (res_ref r) @ '' in '' @ first_path @ '' and ''
           @ res_path r) JNull)
      | None \<Rightarrow> check_duplicates ((res_ref r, res_path r) # seen) rs)"

definition check_references :: "resource list \<Rightarrow> exn + unit" where
  "check_references resources =
     bindR (mapR (\<lambda>r. mapR (\<lambda>reference.
         checkR (reference \<in> res_ref ` set resources) (Exn MissingResourceReferenceError
           (res_path r @ '' references missing resource '' @ format_ref reference) JNull))
       (res_references r)) resources) (\<lambda>_. Inr ())"

definition resource_index :: "resource list \<Rightarrow> resource_ref \<Rightarrow> resource option" where
  "resource_index resources ref = map_of (rev (map (\<lambda>r. (res_ref r, r)) resources)) ref"

text \<open>\<open>data["spec"]\<close> and a key of it, on values the schemas have checked to be mappings.\<close>

definition spec_of :: "resource \<Rightarrow> exn + dict" where
  "spec_of r =
     bindR (getitem (res_data r) ''spec'') (\<lambda>spec.
     if is_mapping spec then Inr (as_dict spec) else Inl (type_error ''spec is not a mapping''))"

definition ref_of_value :: "json \<Rightarrow> exn + resource_ref" where
  "ref_of_value v =
     (if is_mapping v then ref_from_mapping (as_dict v) else Inl (type_error ''reference is not a mapping''))"

text \<open>\<open>model is None or model.data["spec"].get("provider") != "openai"\<close>.\<close>

definition is_openai :: "resource option \<Rightarrow> exn + bool" where
  "is_openai model =
     (case model of None \<Rightarrow> Inr False
      | Some m \<Rightarrow> bindR (spec_of m) (\<lambda>spec. Inr (dget spec ''provider'' = JStr ''openai'')))"

text \<open>\<open>try: m; except C as error: raise ResourceValidationError(prefix + str(error))\<close>.\<close>

definition as_validation_error :: "exn_class \<Rightarrow> string \<Rightarrow> exn + unit \<Rightarrow> exn + unit" where
  "as_validation_error cls prefix m =
     (case m of Inr u \<Rightarrow> Inr u
      | Inl e \<Rightarrow> Inl (if instance_of e cls then Exn ResourceValidationError (prefix @ exn_msg e) JNull else e))"

lemma as_validation_error_Inr [simp]: "as_validation_error cls prefix m = Inr u \<longleftrightarrow> m = Inr u"
  by (cases m) (simp_all add: as_validation_error_def)

text \<open>\<open>check\<close> is the meta-schema check of \<open>ProviderSchema\<close>.\<close>

type_synonym meta_check = "json \<Rightarrow> path_part list option"

definition validate_openai_output_schema :: "meta_check \<Rightarrow> string \<Rightarrow> string \<Rightarrow> json \<Rightarrow> exn + unit" where
  "validate_openai_output_schema check path field schema =
     as_validation_error StrictProviderSchemaError (path @ '': '' @ field @ '': '')
       (validate_openai_strict_schema check schema)"

definition check_agent_schema ::
  "meta_check \<Rightarrow> resource list \<Rightarrow> resource \<Rightarrow> exn + unit" where
  "check_agent_schema check resources agent =
     bindR (spec_of agent) (\<lambda>spec.
     bindR (bindR (getitem spec ''modelRef'') ref_of_value) (\<lambda>model_ref.
     bindR (is_openai (resource_index resources model_ref)) (\<lambda>openai.
     if openai \<and> dhas spec ''outputSchema''
     then validate_openai_output_schema check (res_path agent) ''spec.outputSchema'' (dget spec ''outputSchema'')
     else Inr ())))"

definition check_task_schema ::
  "meta_check \<Rightarrow> resource list \<Rightarrow> resource \<Rightarrow> exn + unit" where
  "check_task_schema check resources task =
     bindR (spec_of task) (\<lambda>task_spec.
     let agent_ref_value = dget task_spec ''agentRef'' in
     if \<not> is_mapping agent_ref_value then Inr ()
     else bindR (ref_of_value agent_ref_value) (\<lambda>agent_ref.
     case resource_index resources agent_ref of
       None \<Rightarrow> Inr ()
     | Some agent \<Rightarrow>
         bindR (spec_of agent) (\<lambda>agent_spec.
         bindR (bindR (getitem agent_spec ''modelRef'') ref_of_value) (\<lambda>model_ref.
         bindR (is_openai (resource_index resources model_ref)) (\<lambda>openai.
         if openai \<and> \<not> dhas agent_spec ''outputSchema''
         then bindR (getitem task_spec ''outputs'') (\<lambda>outputs.
              validate_openai_output_schema check (res_path task) ''spec.outputs'' outputs)
         else Inr ())))))"

definition check_budget_entry ::
  "resource list \<Rightarrow> resource \<Rightarrow> json \<Rightarrow> json \<Rightarrow> exn + unit" where
  "check_budget_entry resources workflow workflow_budget entry =
     (if \<not> is_mapping entry \<or> \<not> is_mapping (mget entry ''taskRef'') then Inr ()
      else bindR (ref_of_value (mget entry ''taskRef'')) (\<lambda>task_ref.
      case resource_index resources task_ref of
        None \<Rightarrow> Inr ()
      | Some task \<Rightarrow>
          if res_kind task \<noteq> ''Task'' \<or> \<not> is_mapping (dget (res_data task) ''spec'') then Inr ()
          else let task_spec = as_dict (dget (res_data task) ''spec'');
                   agent_ref = dget task_spec ''agentRef'' in
          bindR (if is_mapping agent_ref
                 then bindR (ref_of_value agent_ref) (\<lambda>ref. Inr (resource_index resources ref))
                 else Inr None) (\<lambda>agent.
          let agent_spec = (case agent of None \<Rightarrow> JNull | Some a \<Rightarrow> dget (res_data a) ''spec'') in
          as_validation_error ExecutionBudgetError (res_path task @ '': '')
            (validate_budget_narrowing workflow_budget (dget task_spec ''budget'')
               (if is_mapping agent_spec then mget agent_spec ''budget'' else JNull)
               (ref_record (res_ref workflow)) (ref_record (res_ref task))
               (case agent of None \<Rightarrow> JNull | Some a \<Rightarrow> ref_record (res_ref a))))))"

definition validate_execution_budget_hierarchy :: "resource list \<Rightarrow> exn + unit" where
  "validate_execution_budget_hierarchy resources =
     bindR (mapR (\<lambda>workflow.
       let spec = dget (res_data workflow) ''spec'' in
       if \<not> is_mapping spec then Inr []
       else bindR (py_iter (dget_or (as_dict spec) ''tasks'' (JList []))) (\<lambda>entries.
            mapR (check_budget_entry resources workflow (mget spec ''budget'')) entries))
       (filter (\<lambda>r. res_kind r = ''Workflow'') resources)) (\<lambda>_. Inr ())"

text \<open>
  \<open>directory d\<close> gives the files below \<open>.ai/d\<close>, \<open>None\<close> when there is no such directory;
  \<open>workspace\<close> says whether \<open>workspace.yaml\<close> exists.
\<close>

definition loader_load ::
  "loader \<Rightarrow> bool \<Rightarrow> (string \<Rightarrow> string list option) \<Rightarrow> meta_check \<Rightarrow> exn + collection" where
  "loader_load le workspace directory check =
     (let workspace_path = le_root le @ ''/.ai/workspace.yaml'' in
      bindR (checkR workspace (Exn ResourceFileNotFoundError
        (''Missing required workspace file: '' @ workspace_path) JNull)) (\<lambda>_.
      bindR (load_resource le workspace_path) (\<lambda>w.
      bindR (mapR (load_resource le) (concat (map (\<lambda>d. case directory d of
                 None \<Rightarrow> [] | Some files \<Rightarrow> resource_files files) resource_directories))) (\<lambda>others.
      let resources = w # others;
          workspaces = filter (\<lambda>r. res_kind r = ''Workspace'') resources in
      bindR (checkR (length workspaces \<le> 1) (Exn DuplicateWorkspaceError
        (''Workspace must be declared only in '' @ workspace_path @ ''; found: ''
         @ join_with '', '' (map res_path workspaces)) JNull)) (\<lambda>_.
      bindR (check_duplicates [] resources) (\<lambda>_.
      bindR (check_references resources) (\<lambda>_.
      bindR (mapR (check_agent_schema check resources)
               (filter (\<lambda>r. res_kind r = ''Agent'') resources)) (\<lambda>_.
      bindR (validate_execution_budget_hierarchy resources) (\<lambda>_.
      bindR (mapR (check_task_schema check resources)
               (filter (\<lambda>r. res_kind r = ''Task'') resources)) (\<lambda>_.
      Inr \<lparr>col_workspace = w, col_resources = sort_key resource_sort_key resources\<rparr>))))))))))"

section \<open>What a loaded collection is\<close>

lemma check_duplicates_Inr:
  "check_duplicates seen rs = Inr ()
     \<longleftrightarrow> distinct (map res_ref rs) \<and> (\<forall>r \<in> set rs. map_of seen (res_ref r) = None)"
proof (induction rs arbitrary: seen)
  case (Cons a rs)
  have "res_ref a \<notin> res_ref ` set rs \<longleftrightarrow> (\<forall>r \<in> set rs. res_ref r \<noteq> res_ref a)"
    by (metis (no_types, lifting) imageE image_eqI)
  then show ?case by (auto simp: Cons.IH split: option.split)
qed simp

lemma mapR_all: "mapR f xs = Inr ys \<Longrightarrow> x \<in> set xs \<Longrightarrow> \<exists>y. f x = Inr y"
  by (auto simp: mapR_Inr list_all2_conv_all_nth in_set_conv_nth)

lemma mapR_result: "mapR f xs = Inr ys \<Longrightarrow> y \<in> set ys \<Longrightarrow> \<exists>x \<in> set xs. f x = Inr y"
  by (fastforce simp: mapR_Inr list_all2_conv_all_nth in_set_conv_nth)

lemma check_references_Inr:
  assumes c: "check_references rs = Inr u" and r: "r \<in> set rs" and q: "q \<in> set (res_references r)"
  shows "q \<in> res_ref ` set rs"
proof -
  obtain us where "mapR (\<lambda>r. mapR (\<lambda>reference.
         checkR (reference \<in> res_ref ` set rs) (Exn MissingResourceReferenceError
           (res_path r @ '' references missing resource '' @ format_ref reference) JNull))
       (res_references r)) rs = Inr us"
    using c by (auto simp: check_references_def bindR_eq_Inr)
  from mapR_all[OF this r] obtain vs where "mapR (\<lambda>reference.
         checkR (reference \<in> res_ref ` set rs) (Exn MissingResourceReferenceError
           (res_path r @ '' references missing resource '' @ format_ref reference) JNull))
       (res_references r) = Inr vs" ..
  from mapR_all[OF this q] show ?thesis by simp
qed

definition pinned :: "resource \<Rightarrow> bool" where
  "pinned r \<longleftrightarrow> ref_version (res_ref r) \<noteq> ''latest''
     \<and> list_all (\<lambda>q. ref_version q \<noteq> ''latest'') (res_references r)"

lemma load_resource_Inr:
  assumes "load_resource le path = Inr r"
  shows "pinned r" "res_path r = path"
proof -
  obtain refs us where r: "res_references r = refs" "res_path r = path"
      "ref_version (res_ref r) \<noteq> ''latest''" "mapR (reject_floating_version path) refs = Inr us"
    using assms
    by (auto simp: load_resource_def bindR_eq_Inr Let_def reject_floating_version_def split: option.splits)
  have "ref_version q \<noteq> ''latest''" if "q \<in> set refs" for q
    using mapR_all[OF r(4) that] by (auto simp: reject_floating_version_def)
  with r show "pinned r" "res_path r = path" by (auto simp: pinned_def list_all_iff)
qed

text \<open>
  A collection that loads: its resources are the files', in sort order, each version once,
  every reference resolved and none floating, and its first file the only workspace.
\<close>

lemma loader_load_Inr:
  assumes "loader_load le workspace directory check = Inr c"
  obtains w others files where
    "load_resource le (le_root le @ ''/.ai/workspace.yaml'') = Inr w"
    "mapR (load_resource le) files = Inr others"
    "col_workspace c = w" "col_resources c = sort_key resource_sort_key (w # others)"
    "length (filter (\<lambda>r. res_kind r = ''Workspace'') (w # others)) \<le> 1"
    "distinct (map res_ref (w # others))"
    "check_references (w # others) = Inr ()"
    "validate_execution_budget_hierarchy (w # others) = Inr ()"
  using assms unfolding loader_load_def Let_def
  by (fastforce simp: bindR_eq_Inr check_duplicates_Inr)

lemma collection_get_distinct:
  assumes "distinct (map res_ref (col_resources c))" "r \<in> set (col_resources c)"
  shows "collection_get c (res_ref r) = Some r"
proof -
  have "distinct (map fst (rev (map (\<lambda>r. (res_ref r, r)) (col_resources c))))"
    using assms(1) by (simp add: comp_def flip: rev_map)
  then show ?thesis
    unfolding collection_get_def using assms(2) by (intro map_of_is_SomeI) auto
qed

lemma resource_index_distinct:
  assumes "distinct (map res_ref rs)" "r \<in> set rs"
  shows "resource_index rs (res_ref r) = Some r"
proof -
  have "distinct (map fst (rev (map (\<lambda>r. (res_ref r, r)) rs)))"
    using assms(1) by (simp add: comp_def flip: rev_map)
  then show ?thesis
    unfolding resource_index_def using assms(2) by (intro map_of_is_SomeI) auto
qed

text \<open>A workflow names a task: an entry of its task list refers to it.\<close>

definition runs_task :: "resource \<Rightarrow> resource \<Rightarrow> bool" where
  "runs_task w t \<longleftrightarrow> res_kind w = ''Workflow'' \<and> res_kind t = ''Task''
     \<and> (\<exists>entries entry ref. mget (dget (res_data w) ''spec'') ''tasks'' = JList entries
          \<and> JObj entry \<in> set entries \<and> dget entry ''taskRef'' = JObj ref
          \<and> ref_from_mapping ref = Inr (res_ref t))"

definition budget_of :: "resource \<Rightarrow> json" where
  "budget_of r = mget (dget (res_data r) ''spec'') ''budget''"

lemma mget_mapping: "mget v k = x \<Longrightarrow> x \<noteq> JNull \<Longrightarrow> \<exists>d. v = JObj d \<and> dget d k = x"
  by (cases v) (auto simp: mget_def dget_Nil)

lemma check_budget_entry_narrows:
  assumes c: "check_budget_entry rs w b (JObj entry) = Inr u"
    and e: "dget entry ''taskRef'' = JObj ref" "ref_from_mapping ref = Inr (res_ref t)"
    and t: "distinct (map res_ref rs)" "t \<in> set rs" "res_kind t = ''Task''"
  shows "narrows b (budget_of t)"
proof (cases "dget (res_data t) ''spec''")
  case (JObj spec)
  have "mget (JObj entry) ''taskRef'' = JObj ref" using e by (simp add: mget_def)
  with c e(2) t resource_index_distinct[OF t(1,2)] JObj show ?thesis
    by (auto simp: check_budget_entry_def ref_of_value_def bindR_eq_Inr Let_def budget_of_def mget_def
        validate_budget_narrowing_iff)
qed (auto simp: narrows_def budget_of_def mget_def dget_Nil)

lemma hierarchy_narrows:
  assumes h: "validate_execution_budget_hierarchy rs = Inr ()"
    and d: "distinct (map res_ref rs)" "w \<in> set rs" "t \<in> set rs" and r: "runs_task w t"
  shows "narrows (budget_of w) (budget_of t)"
proof -
  obtain entries entry ref where e: "mget (dget (res_data w) ''spec'') ''tasks'' = JList entries"
      "JObj entry \<in> set entries" "dget entry ''taskRef'' = JObj ref" "ref_from_mapping ref = Inr (res_ref t)"
    using r unfolding runs_task_def by blast
  from mget_mapping[OF e(1)] obtain spec where spec: "dget (res_data w) ''spec'' = JObj spec"
      "dget spec ''tasks'' = JList entries" by auto
  have o: "dget_or spec ''tasks'' (JList []) = JList entries"
    using spec(2) by (simp add: dget_or_def dget_def split: option.splits)
  have "w \<in> set (filter (\<lambda>r. res_kind r = ''Workflow'') rs)" using d r by (simp add: runs_task_def)
  from mapR_all[OF _ this] h obtain us where "mapR (check_budget_entry rs w (budget_of w)) entries = Inr us"
    by (fastforce simp: validate_execution_budget_hierarchy_def bindR_eq_Inr Let_def spec o budget_of_def mget_def)
  from mapR_all[OF this e(2)] check_budget_entry_narrows[OF _ e(3,4) d(1,3)] r show ?thesis
    by (auto simp: runs_task_def)
qed

text \<open>What a loaded collection promises.\<close>

definition collection_ok :: "collection \<Rightarrow> bool" where
  "collection_ok c \<longleftrightarrow>
     sorted (map resource_sort_key (col_resources c)) \<and> distinct (map res_ref (col_resources c))
     \<and> (\<forall>r \<in> set (col_resources c). pinned r \<and> collection_get c (res_ref r) = Some r
          \<and> set (res_references r) \<subseteq> res_ref ` set (col_resources c))
     \<and> (\<forall>w \<in> set (col_resources c). \<forall>t \<in> set (col_resources c).
          runs_task w t \<longrightarrow> narrows (budget_of w) (budget_of t))"

lemma loader_load_ok:
  assumes "loader_load le workspace directory check = Inr c"
  shows "collection_ok c \<and> col_workspace c \<in> set (col_resources c)"
  using assms
proof (rule loader_load_Inr)
  fix w others files
  assume l: "load_resource le (le_root le @ ''/.ai/workspace.yaml'') = Inr w"
      "mapR (load_resource le) files = Inr others"
    and c: "col_workspace c = w" "col_resources c = sort_key resource_sort_key (w # others)"
    and d: "distinct (map res_ref (w # others))" "check_references (w # others) = Inr ()"
      "validate_execution_budget_hierarchy (w # others) = Inr ()"
  have members: "set (col_resources c) = set (w # others)" by (simp only: c set_sort)
  have "distinct (map res_ref (col_resources c))"
    using d(1) unfolding distinct_map members by (metis c(2) distinct_map distinct_sort)
  moreover have "pinned r" if "r \<in> set (w # others)" for r
    using that l mapR_result[OF l(2)] load_resource_Inr(1) by auto
  moreover have "sorted (map resource_sort_key (col_resources c))" by (simp only: c sorted_sort_key)
  ultimately show ?thesis
    using collection_get_distinct[of c] check_references_Inr[OF d(2)] hierarchy_narrows[OF d(3,1)]
    unfolding collection_ok_def members by (auto simp: c(1))
qed

end
