(* ===== verification/TaskDag.thy ===== *)
theory TaskDag
  imports Resources "HOL-Library.While_Combinator"
begin

text \<open>
  The task graph of a workflow and its execution plan (\<open>task_dag.py\<close>).  The three
  dictionaries of the code (declaration order, dependencies, resolved tasks) have the same
  keys in the same order and are one list of graph nodes here; in-degrees are an
  association list, decremented as in the code; the loop that peels off ready groups is a
  \<open>while_option\<close>, shown to end.  A plan is a topological order cut into groups, and
  resolution reports a cycle exactly when the dependencies have one.
\<close>

section \<open>Data\<close>

record graph_node =
  gn_ref :: resource_ref
  gn_dependencies :: "resource_ref list"
  gn_task :: resource

type_synonym graph = "graph_node list"

record plan_node =
  pn_ref :: resource_ref
  pn_task :: resource
  pn_dependencies :: "resource_ref list"
  pn_dependents :: "resource_ref list"

record task_plan =
  tp_workflow :: resource_ref
  tp_nodes :: "plan_node list"
  tp_ready_groups :: "resource_ref list list"

definition topological_order :: "task_plan \<Rightarrow> resource_ref list" where
  "topological_order plan = map pn_ref (tp_nodes plan)"

definition get_node :: "task_plan \<Rightarrow> resource_ref \<Rightarrow> plan_node option" where
  "get_node plan ref = find (\<lambda>n. pn_ref n = ref) (tp_nodes plan)"

section \<open>Parsing the declared graph\<close>

definition invalid_graph :: "resource \<Rightarrow> string \<Rightarrow> exn" where
  "invalid_graph workflow message =
     Exn InvalidWorkflowGraphError (format_ref (res_ref workflow) @ '': '' @ message)
       (JObj [(''workflowRef'', ref_record (res_ref workflow))])"

definition task_entries :: "resource \<Rightarrow> exn + dict list" where
  "task_entries workflow =
     (let spec = dget (res_data workflow) ''spec'';
          task_values = (if is_mapping spec then mget spec ''tasks'' else JNull)
      in if \<not> is_list task_values \<or> as_list task_values = []
         then Inl (invalid_graph workflow ''spec.tasks must be a non-empty array'')
         else if \<not> list_all is_mapping (as_list task_values)
         then Inl (invalid_graph workflow ''every spec.tasks entry must be an object'')
         else Inr (map as_dict (as_list task_values)))"

definition parse_task_ref :: "resource \<Rightarrow> json \<Rightarrow> string \<Rightarrow> exn + resource_ref" where
  "parse_task_ref workflow value location =
     (case (if is_mapping value then ref_from_mapping (as_dict value) else Inl (type_error [])) of
        Inl e \<Rightarrow> Inl (invalid_graph workflow (location @ '' must be an explicit Task Resource reference''))
      | Inr task_ref \<Rightarrow>
          if ref_kind task_ref \<noteq> ''Task'' \<or> ref_version task_ref = ''latest''
          then Inl (invalid_graph workflow (location @ '' must reference an explicit Task version''))
          else Inr task_ref)"

definition graph_refs :: "graph \<Rightarrow> resource_ref list" where
  "graph_refs g = map gn_ref g"

definition index_of :: "resource_ref list \<Rightarrow> resource_ref \<Rightarrow> nat" where
  "index_of refs ref = length (takeWhile (\<lambda>r. r \<noteq> ref) refs)"

definition loaded_task :: "resource \<Rightarrow> collection \<Rightarrow> nat \<Rightarrow> resource_ref \<Rightarrow> exn + resource" where
  "loaded_task workflow resources index task_ref =
     (let missing = Exn MissingTaskResourceError
            (format_ref (res_ref workflow) @ '' cannot resolve Task node '' @ format_ref task_ref)
            (JObj [(''workflowRef'', ref_record (res_ref workflow)), (''taskRef'', ref_record task_ref),
                   (''index'', JInt (int index))])
      in case collection_get resources task_ref of
           None \<Rightarrow> Inl missing
         | Some task \<Rightarrow> if res_kind task = ''Task'' then Inr task else Inl missing)"

definition parse_entry :: "resource \<Rightarrow> collection \<Rightarrow> graph \<Rightarrow> nat \<Rightarrow> dict \<Rightarrow> exn + graph_node" where
  "parse_entry workflow resources seen index entry =
     (let loc = ''spec.tasks['' @ dec_nat index @ '']'' in
      bindR (parse_task_ref workflow (dget entry ''taskRef'') (loc @ ''.taskRef'')) (\<lambda>task_ref.
      bindR (checkR (task_ref \<notin> set (graph_refs seen)) (Exn DuplicateTaskIdentityError
        (format_ref (res_ref workflow) @ '' declares duplicate Task node '' @ format_ref task_ref)
        (JObj [(''workflowRef'', ref_record (res_ref workflow)), (''taskRef'', ref_record task_ref),
               (''firstIndex'', JInt (int (index_of (graph_refs seen) task_ref))),
               (''duplicateIndex'', JInt (int index))]))) (\<lambda>_.
      bindR (loaded_task workflow resources index task_ref) (\<lambda>task.
      let dependency_values = dget_or entry ''dependsOn'' (JList []) in
      bindR (checkR (is_list dependency_values) (invalid_graph workflow (loc @ ''.dependsOn must be an array''))) (\<lambda>_.
      bindR (mapR (\<lambda>(i, value). parse_task_ref workflow value (loc @ ''.dependsOn['' @ dec_nat i @ '']''))
               (enumerate 0 (as_list dependency_values))) (\<lambda>deps.
      bindR (checkR (distinct deps) (invalid_graph workflow
               (loc @ ''.dependsOn contains a duplicate Task reference''))) (\<lambda>_.
      Inr \<lparr>gn_ref = task_ref, gn_dependencies = deps, gn_task = task\<rparr>)))))))"

fun parse_entries :: "resource \<Rightarrow> collection \<Rightarrow> graph \<Rightarrow> nat \<Rightarrow> dict list \<Rightarrow> exn + graph" where
  "parse_entries workflow resources seen index [] = Inr seen"
| "parse_entries workflow resources seen index (entry # entries) =
     bindR (parse_entry workflow resources seen index entry) (\<lambda>node.
     parse_entries workflow resources (seen @ [node]) (Suc index) entries)"

definition check_dependency_nodes :: "resource \<Rightarrow> graph \<Rightarrow> exn + unit" where
  "check_dependency_nodes workflow g =
     bindR (mapR (\<lambda>node. mapR (\<lambda>dependency_ref.
         checkR (dependency_ref \<in> set (graph_refs g)) (Exn MissingDependencyNodeError
           (format_ref (gn_ref node) @ '' depends on Task node '' @ format_ref dependency_ref
            @ '' that is not declared in '' @ format_ref (res_ref workflow))
           (JObj [(''workflowRef'', ref_record (res_ref workflow)), (''taskRef'', ref_record (gn_ref node)),
                  (''dependencyRef'', ref_record dependency_ref)])))
       (gn_dependencies node)) g) (\<lambda>_. Inr ())"

section \<open>Peeling off the ready groups\<close>

definition dependents_of :: "graph \<Rightarrow> resource_ref \<Rightarrow> resource_ref list" where
  "dependents_of g ref = map gn_ref (filter (\<lambda>n. ref \<in> set (gn_dependencies n)) g)"

type_synonym indegrees = "(resource_ref \<times> int) list"

definition indegree_of :: "indegrees \<Rightarrow> resource_ref \<Rightarrow> int" where
  "indegree_of d ref = (case map_of d ref of None \<Rightarrow> 0 | Some n \<Rightarrow> n)"

definition initial_indegrees :: "graph \<Rightarrow> indegrees" where
  "initial_indegrees g = map (\<lambda>n. (gn_ref n, int (length (gn_dependencies n)))) g"

text \<open>\<open>sorted(refs, key=declaration_order.__getitem__)\<close>.\<close>

definition in_declaration_order :: "graph \<Rightarrow> resource_ref list \<Rightarrow> resource_ref list" where
  "in_declaration_order g refs = sort_key (index_of (graph_refs g)) refs"

fun release_dependents ::
  "resource_ref list \<Rightarrow> indegrees \<times> resource_ref list \<Rightarrow> indegrees \<times> resource_ref list" where
  "release_dependents [] st = st"
| "release_dependents (dep # ds) (d, next_ready) =
     (let n = indegree_of d dep - 1
      in release_dependents ds
           (AList.update dep n d, if n = 0 then next_ready @ [dep] else next_ready))"

fun release_group ::
  "graph \<Rightarrow> resource_ref list \<Rightarrow> indegrees \<times> resource_ref list \<Rightarrow> indegrees \<times> resource_ref list" where
  "release_group g [] st = st"
| "release_group g (finished # members) st =
     release_group g members (release_dependents (dependents_of g finished) st)"

record peel_state =
  ps_ready :: "resource_ref list"
  ps_indegree :: indegrees
  ps_groups :: "resource_ref list list"
  ps_order :: "resource_ref list"

definition peel_init :: "graph \<Rightarrow> peel_state" where
  "peel_init g =
     \<lparr>ps_ready = in_declaration_order g (map fst (filter (\<lambda>(r, n). n = 0) (initial_indegrees g))),
      ps_indegree = initial_indegrees g, ps_groups = [], ps_order = []\<rparr>"

definition peel_step :: "graph \<Rightarrow> peel_state \<Rightarrow> peel_state" where
  "peel_step g st =
     (let members = ps_ready st;
          (d, next_ready) = release_group g members (ps_indegree st, [])
      in \<lparr>ps_ready = in_declaration_order g next_ready, ps_indegree = d,
          ps_groups = ps_groups st @ [members], ps_order = ps_order st @ members\<rparr>)"

definition peel :: "graph \<Rightarrow> peel_state option" where
  "peel g = while_option (\<lambda>st. ps_ready st \<noteq> []) (peel_step g) (peel_init g)"

section \<open>The plan\<close>

definition node_of :: "graph \<Rightarrow> resource_ref \<Rightarrow> plan_node list" where
  "node_of g ref =
     (case find (\<lambda>n. gn_ref n = ref) g of
        None \<Rightarrow> []
      | Some n \<Rightarrow> [\<lparr>pn_ref = ref, pn_task = gn_task n, pn_dependencies = gn_dependencies n,
                   pn_dependents = in_declaration_order g (dependents_of g ref)\<rparr>])"

definition cyclic_error :: "resource \<Rightarrow> graph \<Rightarrow> indegrees \<Rightarrow> exn" where
  "cyclic_error workflow g d =
     Exn CyclicTaskDependencyError
       (format_ref (res_ref workflow) @ '' contains a cyclic Task dependency'')
       (JObj [(''workflowRef'', ref_record (res_ref workflow)),
              (''taskRefs'', JList (map ref_record (in_declaration_order g
                 (filter (\<lambda>r. 0 < indegree_of d r) (graph_refs g)))))])"

definition plan_graph :: "resource \<Rightarrow> graph \<Rightarrow> (exn + task_plan) option" where
  "plan_graph workflow g =
     map_option (\<lambda>st.
       if length (ps_order st) \<noteq> length g then Inl (cyclic_error workflow g (ps_indegree st))
       else Inr \<lparr>tp_workflow = res_ref workflow,
                 tp_nodes = concat (map (node_of g) (ps_order st)),
                 tp_ready_groups = ps_groups st\<rparr>) (peel g)"

definition declared_graph :: "resource \<Rightarrow> collection \<Rightarrow> exn + graph" where
  "declared_graph workflow resources =
     bindR (checkR (res_kind workflow = ''Workflow'') (type_error ''workflow must be a Workflow Resource'')) (\<lambda>_.
     bindR (task_entries workflow) (\<lambda>entries.
     bindR (parse_entries workflow resources [] 0 entries) (\<lambda>g.
     bindR (check_dependency_nodes workflow g) (\<lambda>_. Inr g))))"

text \<open>The outer option is the loop: \<open>None\<close> would be a loop that does not end.\<close>

definition resolve_task_dag :: "resource \<Rightarrow> collection \<Rightarrow> (exn + task_plan) option" where
  "resolve_task_dag workflow resources =
     (case declared_graph workflow resources of
        Inl e \<Rightarrow> Some (Inl e)
      | Inr g \<Rightarrow> plan_graph workflow g)"

section \<open>Releasing dependents\<close>

lemma indegree_of_update [simp]:
  "indegree_of (AList.update r n d) q = (if q = r then n else indegree_of d q)"
  by (simp add: indegree_of_def update_conv')

lemma release_dependents_effect:
  "distinct ds \<Longrightarrow> release_dependents ds (d, nr) = (d', nr') \<Longrightarrow>
     (\<forall>q. indegree_of d' q = indegree_of d q - (if q \<in> set ds then 1 else 0))
     \<and> nr' = nr @ filter (\<lambda>q. indegree_of d q = 1) ds"
proof (induction ds arbitrary: d nr)
  case (Cons a ds)
  let ?n = "indegree_of d a - 1"
  have "release_dependents ds (AList.update a ?n d, if ?n = 0 then nr @ [a] else nr) = (d', nr')"
    using Cons.prems(2) by (simp add: Let_def)
  from Cons.IH[OF _ this] Cons.prems(1)
  have "\<forall>q. indegree_of d' q = indegree_of (AList.update a ?n d) q - (if q \<in> set ds then 1 else 0)"
    and nr': "nr' = (if ?n = 0 then nr @ [a] else nr)
        @ filter (\<lambda>q. indegree_of (AList.update a ?n d) q = 1) ds"
    by auto
  moreover have "filter (\<lambda>q. indegree_of (AList.update a ?n d) q = 1) ds
      = filter (\<lambda>q. indegree_of d q = 1) ds"
    using Cons.prems(1) by (intro filter_cong) auto
  ultimately show ?case using Cons.prems(1) by auto
qed simp

text \<open>How many members of a group a node depends on.\<close>

definition released_by :: "graph \<Rightarrow> resource_ref list \<Rightarrow> resource_ref \<Rightarrow> int" where
  "released_by g members q = int (length (filter (\<lambda>c. q \<in> set (dependents_of g c)) members))"

lemma released_by_simps [simp]:
  "released_by g [] q = 0"
  "released_by g (c # members) q = (if q \<in> set (dependents_of g c) then 1 else 0) + released_by g members q"
  by (simp_all add: released_by_def)

lemma released_by_nonneg: "0 \<le> released_by g members q"
  by (simp add: released_by_def)

lemma release_group_effect:
  assumes "distinct (graph_refs g)"
  shows "release_group g members (d, nr) = (d', nr') \<Longrightarrow>
     (\<forall>q. indegree_of d' q = indegree_of d q - released_by g members q)
     \<and> (distinct nr \<longrightarrow> (\<forall>q \<in> set nr. indegree_of d q \<le> 0) \<longrightarrow> distinct nr')
     \<and> (\<forall>q. q \<in> set nr' \<longleftrightarrow> q \<in> set nr \<or> (0 < indegree_of d q \<and> indegree_of d q \<le> released_by g members q))"
proof (induction members arbitrary: d nr)
  case Nil
  then show ?case by auto
next
  case (Cons c members)
  let ?ds = "dependents_of g c"
  obtain d1 nr1 where r: "release_dependents ?ds (d, nr) = (d1, nr1)"
    by (cases "release_dependents ?ds (d, nr)")
  have ds: "distinct ?ds"
    using assms by (simp add: dependents_of_def graph_refs_def distinct_map_filter)
  note eff = release_dependents_effect[OF ds r]
  have ih: "release_group g members (d1, nr1) = (d', nr')" using Cons.prems r by simp
  note IH = Cons.IH[OF ih]
  have one: "q \<in> set nr1 \<longleftrightarrow> q \<in> set nr \<or> (indegree_of d q = 1 \<and> q \<in> set ?ds)" for q
    using eff by auto
  have nonneg: "0 \<le> released_by g members q" for q by (rule released_by_nonneg)
  have "\<forall>q. indegree_of d' q = indegree_of d q - released_by g (c # members) q"
    using IH eff by simp
  moreover have "distinct nr'" if "distinct nr" "\<forall>q \<in> set nr. indegree_of d q \<le> 0"
  proof -
    have "distinct nr1" using that eff ds by auto
    moreover have "\<forall>q \<in> set nr1. indegree_of d1 q \<le> 0" using that eff one by auto
    ultimately show ?thesis using IH by blast
  qed
  moreover have "q \<in> set nr' \<longleftrightarrow> q \<in> set nr
      \<or> (0 < indegree_of d q \<and> indegree_of d q \<le> released_by g (c # members) q)" for q
    using IH eff one[of q] nonneg[of q] by auto
  ultimately show ?case by blast
qed

section \<open>The loop invariant\<close>

definition graph_ok :: "graph \<Rightarrow> bool" where
  "graph_ok g \<longleftrightarrow> distinct (graph_refs g)
     \<and> list_all (\<lambda>n. distinct (gn_dependencies n) \<and> set (gn_dependencies n) \<subseteq> set (graph_refs g)) g"

text \<open>The nodes outside \<open>seen\<close> whose dependencies are all inside.\<close>

definition ready_after :: "graph \<Rightarrow> resource_ref set \<Rightarrow> resource_ref set" where
  "ready_after g seen =
     gn_ref ` set (filter (\<lambda>n. gn_ref n \<notin> seen \<and> set (gn_dependencies n) \<subseteq> seen) g)"

text \<open>Each group holds exactly the nodes that the earlier groups make ready.\<close>

fun staged :: "graph \<Rightarrow> resource_ref set \<Rightarrow> resource_ref list list \<Rightarrow> bool" where
  "staged g seen [] = True"
| "staged g seen (members # groups) =
     (set members = ready_after g seen \<and> staged g (seen \<union> set members) groups)"

lemma staged_append:
  "staged g seen (gs @ hs) \<longleftrightarrow> staged g seen gs \<and> staged g (seen \<union> set (concat gs)) hs"
  by (induction gs arbitrary: seen) (simp_all add: Un_assoc)

lemma ready_after_iff:
  "q \<in> ready_after g seen
     \<longleftrightarrow> (\<exists>n \<in> set g. gn_ref n = q \<and> gn_ref n \<notin> seen \<and> set (gn_dependencies n) \<subseteq> seen)"
  by (auto simp: ready_after_def)

lemma node_unique: "graph_ok g \<Longrightarrow> n \<in> set g \<Longrightarrow> m \<in> set g \<Longrightarrow> gn_ref n = gn_ref m \<Longrightarrow> n = m"
  by (auto simp: graph_ok_def graph_refs_def distinct_map inj_on_def)

definition peel_inv :: "graph \<Rightarrow> peel_state \<Rightarrow> bool" where
  "peel_inv g st \<longleftrightarrow>
     distinct (ps_order st @ ps_ready st)
     \<and> set (ps_order st) \<subseteq> set (graph_refs g)
     \<and> set (ps_ready st) = ready_after g (set (ps_order st))
     \<and> concat (ps_groups st) = ps_order st
     \<and> staged g {} (ps_groups st)
     \<and> (\<forall>n \<in> set g. gn_ref n \<in> set (ps_order st) \<longrightarrow> set (gn_dependencies n) \<subseteq> set (ps_order st))
     \<and> (\<forall>n \<in> set g. indegree_of (ps_indegree st) (gn_ref n)
           = int (card (set (gn_dependencies n) - set (ps_order st))))"

lemma map_of_initial:
  assumes "graph_ok g" "n \<in> set g"
  shows "map_of (initial_indegrees g) (gn_ref n) = Some (int (length (gn_dependencies n)))"
proof -
  have "distinct (map fst (initial_indegrees g))"
    using assms(1) by (simp add: graph_ok_def graph_refs_def initial_indegrees_def comp_def)
  then show ?thesis using assms(2) by (intro map_of_is_SomeI) (auto simp: initial_indegrees_def)
qed

lemma peel_init_inv:
  assumes ok: "graph_ok g"
  shows "peel_inv g (peel_init g)"
proof -
  have "distinct (map fst (filter (\<lambda>(r, n). n = 0) (initial_indegrees g)))"
    using ok by (auto simp: graph_ok_def graph_refs_def initial_indegrees_def filter_map comp_def
        intro!: distinct_map_filter)
  moreover have "set (map fst (filter (\<lambda>(r, n). n = 0) (initial_indegrees g))) = ready_after g {}"
    by (force simp: initial_indegrees_def ready_after_def)
  moreover have "indegree_of (initial_indegrees g) (gn_ref n) = int (card (set (gn_dependencies n)))"
    if "n \<in> set g" for n
    using ok that map_of_initial[OF ok that]
    by (simp add: indegree_of_def graph_ok_def list_all_iff distinct_card)
  ultimately show ?thesis
    by (simp add: peel_inv_def peel_init_def in_declaration_order_def)
qed

lemma released_by_node:
  assumes "graph_ok g" "n \<in> set g" "distinct members"
  shows "released_by g members (gn_ref n) = int (card (set (gn_dependencies n) \<inter> set members))"
proof -
  have "gn_ref n \<in> set (dependents_of g c) \<longleftrightarrow> c \<in> set (gn_dependencies n)" for c
    using assms(2) node_unique[OF assms(1)] by (fastforce simp: dependents_of_def)
  then have "released_by g members (gn_ref n)
      = int (length (filter (\<lambda>c. c \<in> set (gn_dependencies n)) members))"
    by (simp add: released_by_def)
  also have "\<dots> = int (card (set (filter (\<lambda>c. c \<in> set (gn_dependencies n)) members)))"
    using distinct_card[OF distinct_filter[OF assms(3)]] by metis
  also have "set (filter (\<lambda>c. c \<in> set (gn_dependencies n)) members) = set (gn_dependencies n) \<inter> set members"
    by auto
  finally show ?thesis .
qed

lemma released_by_other: "q \<notin> set (graph_refs g) \<Longrightarrow> released_by g members q = 0"
  by (auto simp: released_by_def dependents_of_def graph_refs_def filter_empty_conv)

lemma peel_step_inv:
  assumes ok: "graph_ok g" and inv: "peel_inv g st"
  shows "peel_inv g (peel_step g st)"
proof -
  let ?order = "ps_order st" and ?ready = "ps_ready st"
  let ?order' = "?order @ ?ready"
  obtain d nr where r: "release_group g ?ready (ps_indegree st, []) = (d, nr)"
    by (cases "release_group g ?ready (ps_indegree st, [])")
  have dist: "distinct (graph_refs g)" using ok by (simp add: graph_ok_def)
  note eff = release_group_effect[OF dist r]
  have readys: "set ?ready = ready_after g (set ?order)" and disj: "set ?order \<inter> set ?ready = {}"
    and dr: "distinct ?ready" and closed: "\<And>n. n \<in> set g \<Longrightarrow> gn_ref n \<in> set ?order
        \<Longrightarrow> set (gn_dependencies n) \<subseteq> set ?order"
    and deg: "\<And>n. n \<in> set g \<Longrightarrow> indegree_of (ps_indegree st) (gn_ref n)
        = int (card (set (gn_dependencies n) - set ?order))"
    using inv by (auto simp: peel_inv_def)
  have split: "card (set (gn_dependencies n) - set ?order)
      = card (set (gn_dependencies n) - set ?order') + card (set (gn_dependencies n) \<inter> set ?ready)" for n
  proof -
    have "set (gn_dependencies n) - set ?order
        = (set (gn_dependencies n) - set ?order') \<union> (set (gn_dependencies n) \<inter> set ?ready)"
      using disj by auto
    then show ?thesis by (subst card_Un_disjoint[symmetric]) auto
  qed
  have deg': "indegree_of d (gn_ref n) = int (card (set (gn_dependencies n) - set ?order'))"
    if "n \<in> set g" for n
    using eff deg[OF that] released_by_node[OF ok that dr] split[of n] by simp
  have member: "set (gn_dependencies n) \<subseteq> set ?order" if n: "n \<in> set g" "gn_ref n \<in> set ?ready" for n
  proof -
    from n(2) obtain m where "m \<in> set g" "gn_ref m = gn_ref n" "set (gn_dependencies m) \<subseteq> set ?order"
      unfolding readys by (auto simp: ready_after_iff)
    moreover have "n = m" using node_unique[OF ok n(1)] calculation by simp
    ultimately show ?thesis by simp
  qed
  have closed': "set (gn_dependencies n) \<subseteq> set ?order'" if "n \<in> set g" "gn_ref n \<in> set ?order'" for n
    using closed[OF that(1)] member[OF that(1)] that(2) by auto
  have nr: "set nr = ready_after g (set ?order')"
  proof (intro set_eqI iffI)
    fix q assume "q \<in> set nr"
    then have q: "0 < indegree_of (ps_indegree st) q"
        "indegree_of (ps_indegree st) q \<le> released_by g ?ready q"
      using eff by auto
    then have "q \<in> set (graph_refs g)" using released_by_other by fastforce
    then obtain n where n: "n \<in> set g" "gn_ref n = q" by (auto simp: graph_refs_def)
    have "card (set (gn_dependencies n) - set ?order') = 0"
      using q deg[OF n(1)] released_by_node[OF ok n(1) dr] split[of n] n(2) by simp
    then have sub: "set (gn_dependencies n) \<subseteq> set ?order'" by simp
    have "\<not> set (gn_dependencies n) \<subseteq> set ?order"
    proof
      assume "set (gn_dependencies n) \<subseteq> set ?order"
      then have "set (gn_dependencies n) - set ?order = {}" by simp
      with q(1) deg[OF n(1)] n(2) show False by simp
    qed
    then have "q \<notin> set ?order'"
      using closed[OF n(1)] member[OF n(1)] n(2) by auto
    with sub n show "q \<in> ready_after g (set ?order')" by (auto simp: ready_after_iff)
  next
    fix q assume "q \<in> ready_after g (set ?order')"
    then obtain n where n: "n \<in> set g" "gn_ref n = q" "q \<notin> set ?order'"
        "set (gn_dependencies n) \<subseteq> set ?order'"
      by (auto simp: ready_after_iff)
    then have "\<not> set (gn_dependencies n) \<subseteq> set ?order"
      using readys by (auto simp: ready_after_iff)
    then have "0 < card (set (gn_dependencies n) - set ?order)" by (simp add: card_gt_0_iff)
    moreover have "set (gn_dependencies n) - set ?order' = {}" using n(4) by blast
    then have "card (set (gn_dependencies n) - set ?order) = card (set (gn_dependencies n) \<inter> set ?ready)"
      using split[of n] by (simp only: card.empty add_0)
    ultimately show "q \<in> set nr"
      using eff deg[OF n(1)] released_by_node[OF ok n(1) dr] n(2) by simp
  qed
  have "distinct nr" using eff by simp
  moreover have "set nr \<inter> set ?order' = {}" using nr by (auto simp: ready_after_iff)
  moreover have "staged g {} (ps_groups st @ [?ready])"
    using inv readys by (auto simp: peel_inv_def staged_append)
  ultimately show ?thesis
    using inv r nr deg' closed' dr
    by (auto simp: peel_inv_def peel_step_def Let_def in_declaration_order_def ready_after_iff graph_refs_def)
qed

lemma order_length:
  assumes "peel_inv g st"
  shows "length (ps_order st) \<le> length g"
proof -
  have "card (set (ps_order st)) \<le> card (set (graph_refs g))"
    using assms by (intro card_mono) (auto simp: peel_inv_def)
  also have "\<dots> \<le> length g" using card_length[of "graph_refs g"] by (simp add: graph_refs_def)
  finally show ?thesis using assms by (simp add: peel_inv_def distinct_card)
qed

text \<open>The loop ends: every round schedules a node that was not scheduled before.\<close>

lemma peel_ends:
  assumes ok: "graph_ok g"
  obtains st where "peel g = Some st" "peel_inv g st" "ps_ready st = []"
proof -
  have "\<exists>st. while_option (\<lambda>st. ps_ready st \<noteq> []) (peel_step g) (peel_init g) = Some st"
  proof (rule measure_while_option_Some[where P = "peel_inv g" and f = "\<lambda>st. length g - length (ps_order st)"])
    show "peel_inv g (peel_init g)" using ok by (rule peel_init_inv)
    fix st assume inv: "peel_inv g st" and r: "ps_ready st \<noteq> []"
    have inv': "peel_inv g (peel_step g st)" using peel_step_inv[OF ok inv] .
    have "length (ps_order (peel_step g st)) = length (ps_order st) + length (ps_ready st)"
      by (simp add: peel_step_def Let_def split: prod.split)
    moreover have "0 < length (ps_ready st)" using r by simp
    ultimately show "peel_inv g (peel_step g st)
        \<and> length g - length (ps_order (peel_step g st)) < length g - length (ps_order st)"
      using order_length[OF inv'] inv' by linarith
  qed
  then obtain st where st: "peel g = Some st" by (auto simp: peel_def)
  then have "ps_ready st = []" using while_option_stop by (fastforce simp: peel_def)
  moreover have "peel_inv g st"
    by (rule while_option_rule[where P = "peel_inv g", OF _ st[unfolded peel_def]])
      (use ok in \<open>auto intro: peel_step_inv peel_init_inv\<close>)
  ultimately show thesis using that st by blast
qed

section \<open>What resolution returns\<close>

lemma parse_task_ref_Inr: "parse_task_ref workflow v loc = Inr r \<Longrightarrow> ref_kind r = ''Task'' \<and> ref_version r \<noteq> ''latest''"
  by (auto simp: parse_task_ref_def split: sum.splits if_splits)

lemma loaded_task_Inr:
  "loaded_task workflow resources index r = Inr t \<Longrightarrow> res_kind t = ''Task'' \<and> res_ref t = r"
  by (auto simp: loaded_task_def Let_def split: option.splits if_splits dest: collection_get_ref)

lemma parse_entry_Inr:
  assumes "parse_entry workflow resources seen index entry = Inr n"
  shows "gn_ref n \<notin> set (graph_refs seen)" "distinct (gn_dependencies n)"
    "res_kind (gn_task n) = ''Task''" "res_ref (gn_task n) = gn_ref n"
  using assms
  by (auto simp: parse_entry_def Let_def bindR_eq_Inr dest: loaded_task_Inr)

lemma parse_entries_Inr:
  "parse_entries workflow resources seen index entries = Inr g
   \<Longrightarrow> distinct (graph_refs seen) \<Longrightarrow> list_all (\<lambda>n. distinct (gn_dependencies n)) seen
   \<Longrightarrow> distinct (graph_refs g) \<and> list_all (\<lambda>n. distinct (gn_dependencies n)) g"
proof (induction entries arbitrary: seen index)
  case (Cons entry entries)
  then obtain n where n: "parse_entry workflow resources seen index entry = Inr n"
    and r: "parse_entries workflow resources (seen @ [n]) (Suc index) entries = Inr g"
    by (auto simp: bindR_eq_Inr)
  show ?case
    using Cons.IH[OF r] Cons.prems parse_entry_Inr[OF n] by (simp add: graph_refs_def)
qed simp

lemma declared_graph_ok: "declared_graph workflow resources = Inr g \<Longrightarrow> graph_ok g"
proof -
  assume "declared_graph workflow resources = Inr g"
  then obtain entries u where p: "parse_entries workflow resources [] 0 entries = Inr g"
    and c: "check_dependency_nodes workflow g = Inr u"
    by (auto simp: declared_graph_def bindR_eq_Inr)
  have "d \<in> set (graph_refs g)" if n: "n \<in> set g" and d: "d \<in> set (gn_dependencies n)" for n d
  proof -
    obtain us where "mapR (\<lambda>node. mapR (\<lambda>dependency_ref.
         checkR (dependency_ref \<in> set (graph_refs g)) (Exn MissingDependencyNodeError
           (format_ref (gn_ref node) @ '' depends on Task node '' @ format_ref dependency_ref
            @ '' that is not declared in '' @ format_ref (res_ref workflow))
           (JObj [(''workflowRef'', ref_record (res_ref workflow)), (''taskRef'', ref_record (gn_ref node)),
                  (''dependencyRef'', ref_record dependency_ref)])))
       (gn_dependencies node)) g = Inr us"
      using c by (auto simp: check_dependency_nodes_def bindR_eq_Inr)
    from mapR_all[OF this n] show ?thesis using mapR_all[OF _ d] by fastforce
  qed
  with parse_entries_Inr[OF p] show "graph_ok g"
    by (auto simp: graph_ok_def list_all_iff graph_refs_def)
qed

text \<open>The dependency edges, from a task to the tasks that wait for it.\<close>

definition edges :: "graph \<Rightarrow> (resource_ref \<times> resource_ref) set" where
  "edges g = {(d, gn_ref n) |n d. n \<in> set g \<and> d \<in> set (gn_dependencies n)}"

lemma finite_edges: "finite (edges g)"
proof -
  have "edges g = (\<Union>n \<in> set g. (\<lambda>d. (d, gn_ref n)) ` set (gn_dependencies n))"
    by (auto simp: edges_def)
  then show ?thesis by simp
qed

text \<open>A list that schedules every node after its dependencies shows the graph acyclic.\<close>

lemma topological_acyclic:
  assumes "\<And>d q. (d, q) \<in> edges g \<Longrightarrow> pos d < (pos q :: nat)"
  shows "acyclic (edges g)"
proof -
  have "(a, b) \<in> (edges g)\<^sup>+ \<Longrightarrow> pos a < pos b" for a b
    by (induction rule: trancl_induct) (use assms in \<open>auto dest: order_less_trans\<close>)
  then show ?thesis by (fastforce simp: acyclic_def)
qed

fun stage_of :: "resource_ref list list \<Rightarrow> resource_ref \<Rightarrow> nat" where
  "stage_of [] q = 0"
| "stage_of (members # groups) q = (if q \<in> set members then 0 else Suc (stage_of groups q))"

lemma staged_stage:
  assumes "graph_ok g" "n \<in> set g" "d \<in> set (gn_dependencies n)"
  shows "staged g seen groups \<Longrightarrow> gn_ref n \<in> set (concat groups) \<Longrightarrow> d \<in> seen \<or> stage_of groups d < stage_of groups (gn_ref n)"
proof (induction groups arbitrary: seen)
  case (Cons members groups)
  show ?case
  proof (cases "gn_ref n \<in> set members")
    case True
    then obtain m where "m \<in> set g" "gn_ref m = gn_ref n" "set (gn_dependencies m) \<subseteq> seen"
      using Cons.prems by (auto simp: ready_after_iff)
    moreover from this have "n = m" using node_unique[OF assms(1,2)] by simp
    ultimately show ?thesis using assms(3) by auto
  next
    case False
    with Cons.prems have "staged g (seen \<union> set members) groups" "gn_ref n \<in> set (concat groups)"
      by auto
    then have "d \<in> seen \<union> set members \<or> stage_of groups d < stage_of groups (gn_ref n)"
      by (rule Cons.IH)
    with False show ?thesis by auto
  qed
qed simp

lemma graph_card: "graph_ok g \<Longrightarrow> card (set (graph_refs g)) = length g"
  unfolding graph_ok_def using distinct_card[of "graph_refs g"] by (simp add: graph_refs_def)

lemma peel_complete_iff:
  assumes ok: "graph_ok g" and p: "peel_inv g st" and stop: "ps_ready st = []"
  shows "length (ps_order st) = length g \<longleftrightarrow> acyclic (edges g)"
    and "length (ps_order st) = length g \<Longrightarrow> set (ps_order st) = set (graph_refs g)"
proof -
  have sub: "set (ps_order st) \<subseteq> set (graph_refs g)" and dist: "distinct (ps_order st)"
    and none: "ready_after g (set (ps_order st)) = {}"
    using p stop by (auto simp: peel_inv_def)
  have len: "length (ps_order st) = length g \<longleftrightarrow> set (ps_order st) = set (graph_refs g)"
    using sub dist graph_card[OF ok] by (metis card_subset_eq distinct_card finite_set)
  then show "length (ps_order st) = length g \<Longrightarrow> set (ps_order st) = set (graph_refs g)" by simp
  show "length (ps_order st) = length g \<longleftrightarrow> acyclic (edges g)"
  proof
    assume "length (ps_order st) = length g"
    with len have all: "set (ps_order st) = set (graph_refs g)" by simp
    show "acyclic (edges g)"
    proof (rule topological_acyclic)
      fix d q assume "(d, q) \<in> edges g"
      then obtain n where n: "n \<in> set g" "q = gn_ref n" "d \<in> set (gn_dependencies n)"
        by (auto simp: edges_def)
      have "gn_ref n \<in> set (concat (ps_groups st))"
        using p all n(1) by (simp add: peel_inv_def graph_refs_def)
      then show "stage_of (ps_groups st) d < stage_of (ps_groups st) q"
        using staged_stage[OF ok n(1,3), of "{}"] p n(2) by (auto simp: peel_inv_def)
    qed
  next
    assume ac: "acyclic (edges g)"
    have wf: "wf (edges g)" using finite_acyclic_wf[OF finite_edges ac] .
    have "q \<in> set (ps_order st)" if "q \<in> set (graph_refs g)" for q
      using that
    proof (induction q rule: wf_induct_rule[OF wf])
      case (1 q)
      then obtain n where n: "n \<in> set g" "q = gn_ref n" by (auto simp: graph_refs_def)
      have "set (gn_dependencies n) \<subseteq> set (ps_order st)"
      proof
        fix d assume d: "d \<in> set (gn_dependencies n)"
        with n have "(d, q) \<in> edges g" by (auto simp: edges_def)
        moreover have "d \<in> set (graph_refs g)"
          using ok n(1) d by (auto simp: graph_ok_def list_all_iff)
        ultimately show "d \<in> set (ps_order st)" by (rule 1(1))
      qed
      then have "q \<in> set (ps_order st) \<or> q \<in> ready_after g (set (ps_order st))"
        using n by (auto simp: ready_after_iff)
      with none show ?case by simp
    qed
    with sub len show "length (ps_order st) = length g" by auto
  qed
qed

lemma node_of_pn_refs:
  "graph_ok g \<Longrightarrow> set order \<subseteq> set (graph_refs g) \<Longrightarrow> map pn_ref (concat (map (node_of g) order)) = order"
proof (induction order)
  case (Cons r order)
  then obtain n where "n \<in> set g" "gn_ref n = r" by (auto simp: graph_refs_def)
  then obtain m where "find (\<lambda>n. gn_ref n = r) g = Some m" by (metis (mono_tags) find_None_iff not_None_eq)
  with Cons show ?case by (simp add: node_of_def)
qed simp

lemma node_of_data:
  assumes "p \<in> set (node_of g r)" "graph_ok g"
  obtains n where "n \<in> set g" "gn_ref n = pn_ref p" "pn_dependencies p = gn_dependencies n"
    "pn_task p = gn_task n" "set (pn_dependents p) = set (dependents_of g (gn_ref n))"
proof -
  obtain n where f: "find (\<lambda>n. gn_ref n = r) g = Some n"
    and p: "p = \<lparr>pn_ref = r, pn_task = gn_task n, pn_dependencies = gn_dependencies n,
        pn_dependents = in_declaration_order g (dependents_of g r)\<rparr>"
    using assms(1) by (cases "find (\<lambda>n. gn_ref n = r) g") (simp_all add: node_of_def that)
  have "n \<in> set g" "gn_ref n = r" using f by (auto simp: find_Some_iff)
  with p show thesis by (intro that[of n]) (auto simp: in_declaration_order_def)
qed

text \<open>The plan of a graph: complete, in stages, with the declared data.\<close>

definition plan_of :: "graph \<Rightarrow> task_plan \<Rightarrow> bool" where
  "plan_of g plan \<longleftrightarrow>
     distinct (topological_order plan)
     \<and> set (topological_order plan) = set (graph_refs g)
     \<and> concat (tp_ready_groups plan) = topological_order plan
     \<and> staged g {} (tp_ready_groups plan)
     \<and> (\<forall>p \<in> set (tp_nodes plan). \<exists>n \<in> set g. gn_ref n = pn_ref p
          \<and> pn_dependencies p = gn_dependencies n \<and> pn_task p = gn_task n)"

lemma plan_graph_cases:
  assumes ok: "graph_ok g"
  shows "acyclic (edges g) \<Longrightarrow> \<exists>plan. plan_graph workflow g = Some (Inr plan) \<and> plan_of g plan
           \<and> tp_workflow plan = res_ref workflow"
    and "\<not> acyclic (edges g) \<Longrightarrow> \<exists>d. plan_graph workflow g = Some (Inl (cyclic_error workflow g d))"
proof -
  obtain st where st: "peel g = Some st" "peel_inv g st" "ps_ready st = []" by (rule peel_ends[OF ok])
  note complete = peel_complete_iff[OF ok st(2,3)]
  show "\<exists>plan. plan_graph workflow g = Some (Inr plan) \<and> plan_of g plan
      \<and> tp_workflow plan = res_ref workflow" if "acyclic (edges g)"
  proof -
    have len: "length (ps_order st) = length g" using complete(1) that by simp
    let ?plan = "\<lparr>tp_workflow = res_ref workflow, tp_nodes = concat (map (node_of g) (ps_order st)),
        tp_ready_groups = ps_groups st\<rparr>"
    have "topological_order ?plan = ps_order st"
      using st(2) by (simp add: topological_order_def node_of_pn_refs[OF ok] peel_inv_def)
    moreover have "\<exists>n \<in> set g. gn_ref n = pn_ref p \<and> pn_dependencies p = gn_dependencies n
        \<and> pn_task p = gn_task n" if "p \<in> set (tp_nodes ?plan)" for p
      using that ok by (auto elim!: node_of_data)
    ultimately have "plan_of g ?plan"
      using st(2) complete(2)[OF len] by (simp add: plan_of_def peel_inv_def)
    with st(1) len show ?thesis by (auto simp: plan_graph_def)
  qed
  show "\<exists>d. plan_graph workflow g = Some (Inl (cyclic_error workflow g d))" if "\<not> acyclic (edges g)"
    using st(1) complete(1) that by (auto simp: plan_graph_def)
qed

lemma staged_before:
  assumes ok: "graph_ok g" and p: "plan_of g plan" and split: "tp_nodes plan = xs @ n # ys"
  shows "set (pn_dependencies n) \<subseteq> pn_ref ` set xs"
proof
  fix d assume d: "d \<in> set (pn_dependencies n)"
  obtain m where m: "m \<in> set g" "gn_ref m = pn_ref n" "pn_dependencies n = gn_dependencies m"
    using p split by (auto simp: plan_of_def)
  have groups: "concat (tp_ready_groups plan) = map pn_ref xs @ pn_ref n # map pn_ref ys"
    and dist: "distinct (map pn_ref xs @ pn_ref n # map pn_ref ys)"
    using p split by (simp_all add: plan_of_def topological_order_def)
  have "stage_of gs d < stage_of gs q \<Longrightarrow> concat gs = pre @ q # bs \<Longrightarrow> distinct (pre @ q # bs)
      \<Longrightarrow> d \<in> set pre" for gs pre q bs
  proof (induction gs arbitrary: pre)
    case (Cons members gs)
    have qn: "q \<notin> set members" using Cons.prems(1) by (auto split: if_splits)
    then obtain pre2 where pre: "pre = members @ pre2" "concat gs = pre2 @ q # bs"
      using Cons.prems(2) by (auto simp: append_eq_append_conv2 append_eq_Cons_conv)
    show ?case
      using Cons.IH[OF _ pre(2)] Cons.prems(1,3) pre(1) qn by (auto split: if_splits)
  qed simp
  moreover have "gn_ref m \<in> set (concat (tp_ready_groups plan))" using groups m(2) by simp
  then have "stage_of (tp_ready_groups plan) d < stage_of (tp_ready_groups plan) (pn_ref n)"
    using staged_stage[OF ok m(1), of d "{}"] d m(2,3) p by (auto simp: plan_of_def)
  ultimately show "d \<in> pn_ref ` set xs" using groups dist by (metis image_set)
qed

lemma resolve_Inr:
  assumes "resolve_task_dag workflow resources = Some (Inr plan)"
  obtains g where "declared_graph workflow resources = Inr g" "graph_ok g" "acyclic (edges g)"
    "plan_of g plan" "tp_workflow plan = res_ref workflow"
proof -
  obtain g where g: "declared_graph workflow resources = Inr g" "plan_graph workflow g = Some (Inr plan)"
    using assms by (auto simp: resolve_task_dag_def split: sum.splits)
  have ok: "graph_ok g" using g(1) by (rule declared_graph_ok)
  have "acyclic (edges g)"
  proof (rule ccontr)
    assume "\<not> acyclic (edges g)"
    from plan_graph_cases(2)[OF ok this, of workflow] g(2) show False by auto
  qed
  with plan_graph_cases(1)[OF ok this, of workflow] g ok that show thesis by auto
qed

end
