(* ===== verification/CanonicalText.thy ===== *)
theory CanonicalText
  imports SchemaValidation Observability
begin

text \<open>
  The canonical JSON text that digests are taken of, the digest of a context package's
  reproducible inputs (\<open>context_identity.py\<close>), and the environment every component shares.
  \<open>json_text\<close> is \<open>json.dumps\<close> with sorted keys and the separators \<open>,\<close> and \<open>:\<close>.  Hash
  functions are parameters of the environment: nothing below depends on their values, so the
  results hold for any of them, collisions included.
\<close>

section \<open>The environment\<close>

text \<open>
  \<open>env_sha256\<close> is the hexadecimal SHA-256 of the UTF-8 encoding of a text, \<open>env_uuid5\<close> the
  text of \<open>uuid5(NAMESPACE_URL, name)\<close>, \<open>env_iso\<close> is \<open>datetime.fromisoformat\<close> outside the
  RFC 3339 shape, \<open>env_schema\<close> the validator of a runtime schema file.
\<close>

record environment =
  env_sha256 :: "string \<Rightarrow> string"
  env_uuid5 :: "string \<Rightarrow> string"
  env_iso :: "string \<Rightarrow> pytime option"
  env_schema :: "string \<Rightarrow> validator"

section \<open>JSON text\<close>

definition unicode_escape :: "nat \<Rightarrow> string" where
  "unicode_escape n = [CHR 0x5C, CHR ''u'', CHR ''0'', CHR ''0'', hex_digit (n div 16), hex_digit (n mod 16)]"

definition json_char :: "bool \<Rightarrow> char \<Rightarrow> string" where
  "json_char ascii c =
     (let n = of_char c :: nat
      in if n = 34 \<or> n = 92 then [CHR 0x5C, c]
         else if n = 10 then [CHR 0x5C, CHR ''n''] else if n = 13 then [CHR 0x5C, CHR ''r'']
         else if n = 9 then [CHR 0x5C, CHR ''t''] else if n = 12 then [CHR 0x5C, CHR ''f'']
         else if n = 8 then [CHR 0x5C, CHR ''b'']
         else if n < 32 \<or> (ascii \<and> 126 < n) then unicode_escape n
         else [c])"

definition json_string :: "bool \<Rightarrow> string \<Rightarrow> string" where
  "json_string ascii s = [CHR 0x22] @ concat (map (json_char ascii) s) @ [CHR 0x22]"

fun json_float :: "pyfloat \<Rightarrow> string" where
  "json_float PosInf = ''Infinity''"
| "json_float NegInf = ''-Infinity''"
| "json_float NaN = ''NaN''"
| "json_float f = float_repr f"

fun joined :: "string list \<Rightarrow> string" where
  "joined [] = []"
| "joined [x] = x"
| "joined (x # y # zs) = x @ '','' @ joined (y # zs)"

fun json_text_of :: "bool \<Rightarrow> json \<Rightarrow> string" where
  "json_text_of ascii JNull = ''null''"
| "json_text_of ascii (JBool b) = (if b then ''true'' else ''false'')"
| "json_text_of ascii (JInt i) = dec_int i"
| "json_text_of ascii (JFloat f) = json_float f"
| "json_text_of ascii (JStr s) = json_string ascii s"
| "json_text_of ascii (JList xs) = ''['' @ joined (map (json_text_of ascii) xs) @ '']''"
| "json_text_of ascii (JObj d) =
     ''{'' @ joined (map (\<lambda>(k, v). json_string ascii k @ '':'' @ json_text_of ascii v) d) @ ''}''"

text \<open>\<open>json.dumps(value, sort_keys=True, separators=(",", ":"), ensure_ascii=ascii)\<close>.\<close>

definition json_text :: "bool \<Rightarrow> json \<Rightarrow> string" where
  "json_text ascii v = json_text_of ascii (canon v)"

fun all_finite :: "json \<Rightarrow> bool" where
  "all_finite (JFloat (Finite r)) = True"
| "all_finite (JFloat f) = False"
| "all_finite (JList xs) = list_all all_finite xs"
| "all_finite (JObj d) = list_all (\<lambda>(k, v). all_finite v) d"
| "all_finite v = True"

section \<open>Context identity\<close>

definition context_identity_fields :: "string list" where
  "context_identity_fields = [''taskRef'', ''repositoryRevision'', ''elements'', ''tokenBudget'', ''selection'',
     ''tokenCount'', ''tokenEstimate'', ''truncation'']"

text \<open>The path is kept innermost key first.\<close>

definition skipped_key :: "string list \<Rightarrow> string \<Rightarrow> bool" where
  "skipped_key path key \<longleftrightarrow>
     take 1 path = [''retrieval''] \<and> key = ''snapshotCreatedAt''
     \<or> take 1 path = [''provenance''] \<and> key \<in> {''traceId'', ''workflowExecutionId'', ''taskExecutionId''}
     \<or> take 2 path = [''metadata'', ''content''] \<and> key \<in> {''id'', ''createdAt'', ''updatedAt''}
     \<or> take 1 path = [''inputArtifactRefs''] \<and> key = ''generatedArtifactId''"

fun stable_context_value :: "string list \<Rightarrow> json \<Rightarrow> json" where
  "stable_context_value path (JObj d) =
     JObj (map (\<lambda>(key, item). (key, stable_context_value (key # path) item))
       (filter (\<lambda>(key, item). \<not> skipped_key path key) d))"
| "stable_context_value path (JList xs) = JList (map (stable_context_value path) xs)"
| "stable_context_value path v = v"

definition identity_payload :: "dict \<Rightarrow> dict" where
  "identity_payload context =
     map (\<lambda>f. (f, stable_context_value [f] (dget context f)))
       (filter (dhas context) context_identity_fields)"

text \<open>\<open>allow_nan=False\<close> raises on a value that is not a finite number.\<close>

definition context_identity :: "environment \<Rightarrow> dict \<Rightarrow> exn + string" where
  "context_identity env context =
     (let payload = JObj (identity_payload context)
      in if all_finite payload then Inr (''sha256:'' @ env_sha256 env (json_text False payload))
         else Inl (value_error ''Out of range float values are not JSON compliant''))"

text \<open>Dropping the execution-specific keys is done once and for all.\<close>

lemma stable_context_value_idem:
  "stable_context_value path (stable_context_value path v) = stable_context_value path v"
  by (induction path v rule: stable_context_value.induct)
    (auto simp: filter_map comp_def case_prod_unfold filter_id_conv)

text \<open>Two values that differ only in the execution-specific keys.\<close>

definition same_inputs :: "dict \<Rightarrow> dict \<Rightarrow> bool" where
  "same_inputs c c' \<longleftrightarrow>
     list_all (\<lambda>f. map_option (stable_context_value [f]) (map_of c f)
                 = map_option (stable_context_value [f]) (map_of c' f)) context_identity_fields"

lemma identity_payload_cong:
  assumes "same_inputs c c'"
  shows "identity_payload c = identity_payload c'"
proof -
  have each: "map_option (stable_context_value [f]) (map_of c f)
      = map_option (stable_context_value [f]) (map_of c' f)" if "f \<in> set context_identity_fields" for f
    using assms that by (simp add: same_inputs_def list_all_iff)
  then have has: "dhas c f = dhas c' f" if "f \<in> set context_identity_fields" for f
    using that by (metis dhas_iff map_option_is_None)
  have "stable_context_value [f] (dget c f) = stable_context_value [f] (dget c' f)"
    if "f \<in> set context_identity_fields" "dhas c f" for f
    using each[OF that(1)] that(2) has[OF that(1)] by (auto simp: dget_def dhas_iff)
  with has show ?thesis
    unfolding identity_payload_def by (auto intro!: map_cong filter_cong)
qed

end
