(* ===== verification/Approval.thy ===== *)
theory Approval
  imports StoreInterface CanonicalText
begin

text \<open>
  Human approvals (\<open>approval.py\<close>): the digest an approval is bound to, the request that
  parks a task until it is decided, and the decision.  The gate works over any store.
\<close>

definition approval_error :: "string \<Rightarrow> string \<Rightarrow> exn" where
  "approval_error code message = Exn ApprovalError message (JStr code)"

definition approval_digest :: "environment \<Rightarrow> string \<Rightarrow> dict \<Rightarrow> string \<Rightarrow> dict \<Rightarrow> string" where
  "approval_digest env action target repository_revision artifact_digests =
     ''sha256:'' @ env_sha256 env (json_text True (JObj
       [(''action'', JStr action), (''target'', JObj target),
        (''repositoryRevision'', JStr repository_revision), (''artifactDigests'', JObj artifact_digests)]))"

text \<open>\<open>v[k]\<close>, and \<open>sorted\<close> references without duplicates, the last of equal keys kept.\<close>

definition subscript :: "json \<Rightarrow> string \<Rightarrow> exn + json" where
  "subscript v k = (if is_mapping v then getitem (as_dict v) k else Inl (type_error ''object is not subscriptable''))"

definition ref_key :: "dict \<Rightarrow> string \<times> string \<times> string" where
  "ref_key ref = (py_str (dget ref ''kind''), py_str (dget ref ''name''), py_str (dget ref ''version''))"

definition unique_refs :: "json list \<Rightarrow> exn + json list" where
  "unique_refs values =
     bindR (mapR py_dict values) (\<lambda>refs.
     let result = foldl (\<lambda>m ref. AList.update (ref_key ref) ref m) [] refs in
     Inr (map (\<lambda>key. JObj (the (map_of result key))) (sort (map fst result))))"

definition approval_fields ::
  "string \<Rightarrow> json \<Rightarrow> string \<Rightarrow> dict \<Rightarrow> json \<Rightarrow> json \<Rightarrow> json \<Rightarrow> string \<Rightarrow> json list \<Rightarrow> json \<Rightarrow> json
   \<Rightarrow> string \<Rightarrow> json list \<Rightarrow> dict" where
  "approval_fields approval_id trace timestamp provenance workflow task policy_id requester refs action
       revision digest reviewers =
     [(''apiVersion'', JStr ''aep.dev/v1alpha1''), (''kind'', JStr ''Approval''), (''id'', JStr approval_id),
      (''traceId'', trace), (''createdAt'', JStr timestamp), (''updatedAt'', JStr timestamp),
      (''provenance'', JObj provenance), (''workflowExecutionId'', workflow),
      (''taskExecutionId'', task), (''policyDecisionId'', policy_id), (''requester'', JStr requester),
      (''status'', JStr ''PENDING''), (''requestedAt'', JStr timestamp),
      (''governingPolicyRefs'', JList refs), (''targetAction'', action), (''repositoryRevision'', revision),
      (''artifactRequestDigest'', JStr digest), (''authorizedReviewers'', JList reviewers)]"

text \<open>Optional arguments are \<open>JNull\<close> when absent.\<close>

definition approval_record ::
  "string \<Rightarrow> dict \<Rightarrow> string \<Rightarrow> string \<Rightarrow> string \<Rightarrow> json list \<Rightarrow> json \<Rightarrow> json \<Rightarrow> json \<Rightarrow> json list
   \<Rightarrow> exn + dict" where
  "approval_record approval_id policy requester timestamp digest reviewers expires_at target artifacts
       approval_policy_refs =
     bindR (getitem policy ''traceId'') (\<lambda>trace.
     bindR (py_dict (dget_or policy ''provenance'' (JObj []))) (\<lambda>provenance.
     bindR (bindR (getitem policy ''provenance'') (\<lambda>p. subscript p ''workflowExecutionId'')) (\<lambda>workflow.
     bindR (getitem policy ''taskExecutionId'') (\<lambda>task.
     bindR (getitem policy ''id'') (\<lambda>policy_id.
     bindR (bindR (getitem policy ''policyRefs'') py_iter) (\<lambda>policy_refs.
     bindR (unique_refs (policy_refs @ approval_policy_refs)) (\<lambda>refs.
     bindR (getitem policy ''action'') (\<lambda>action.
     bindR (bindR (getitem policy ''provenance'') py_dict) (\<lambda>p.
     bindR (if target = JNull then Inr [] else bindR (py_dict target) (\<lambda>d. Inr [(''target'', JObj d)])) (\<lambda>target_field.
     bindR (if artifacts = JNull then Inr [] else bindR (py_dict artifacts) (\<lambda>d. Inr [(''artifactDigests'', JObj d)])) (\<lambda>artifact_field.
     Inr (approval_fields approval_id trace timestamp provenance workflow task policy_id requester refs
           action (dget_or policy ''repositoryRevision'' (dget p ''repositoryRevision'')) digest reviewers
          @ (if expires_at = JNull then [] else [(''expiresAt'', expires_at)])
          @ target_field @ artifact_field))))))))))))"

definition approval_request ::
  "'s store_ops \<Rightarrow> string \<Rightarrow> dict \<Rightarrow> string \<Rightarrow> string \<Rightarrow> string \<Rightarrow> json list \<Rightarrow> json \<Rightarrow> json \<Rightarrow> json
   \<Rightarrow> json list \<Rightarrow> json \<Rightarrow> ('s, dict) eff" where
  "approval_request ops approval_id policy requester timestamp digest reviewers expires_at target
       artifacts approval_policy_refs expected_current =
     thenE (checkE (dget policy ''decision'' = JStr ''REQUIRE_APPROVAL'')
       (approval_error ''APPROVAL_POLICY_INVALID'' ''approval requires a REQUIRE_APPROVAL PolicyDecision''))
     (thenE (checkE (reviewers \<noteq> [])
       (approval_error ''APPROVAL_REVIEWERS_MISSING'' ''approval policy must resolve at least one reviewer''))
     (bindE (liftR (approval_record approval_id policy requester timestamp digest reviewers expires_at
              target artifacts approval_policy_refs)) (\<lambda>r.
      op_create_approval_request ops (JObj r)
        (''approval:'' @ py_str (dget policy ''id'') @ '':'' @ digest) expected_current timestamp)))"

text \<open>\<open>actor in v\<close>.\<close>

fun py_in :: "string \<Rightarrow> json \<Rightarrow> exn + bool" where
  "py_in a (JList xs) = Inr (JStr a \<in> set xs)"
| "py_in a (JStr s) = Inr (contains a s)"
| "py_in a (JObj d) = Inr (dhas d a)"
| "py_in a v = Inl (type_error ''argument is not iterable'')"

definition approval_time :: "environment \<Rightarrow> json \<Rightarrow> exn + int" where
  "approval_time env value =
     (case (if is_str value then parse_time (env_iso env) (as_str value) else None) of
        None \<Rightarrow> Inl (approval_error ''APPROVAL_TIMESTAMP_INVALID'' ''approval timestamps must be RFC3339 values'')
      | Some (Naive t) \<Rightarrow> Inl (approval_error ''APPROVAL_TIMESTAMP_INVALID''
                            ''approval timestamps must include a timezone'')
      | Some (Aware t) \<Rightarrow> Inr t)"

definition wake_task :: "'s store_ops \<Rightarrow> dict \<Rightarrow> string \<Rightarrow> string \<Rightarrow> ('s, unit) eff" where
  "wake_task ops approval approval_id timestamp =
     (let task_id = dget approval ''taskExecutionId'' in
      if \<not> is_str task_id then ret ()
      else bindE (op_get ops (as_str task_id)) (\<lambda>task.
        case task of None \<Rightarrow> ret ()
        | Some t \<Rightarrow>
            thenE (checkE (hashable (dget t ''status'')) unhashable_error)
            (if in_strs (dget t ''status'') [''AWAITING_APPROVAL'', ''PENDING'']
             then thenE (op_wake_approved_task ops (as_str task_id) approval_id timestamp) (ret ())
             else ret ())))"

definition denied_event :: "environment \<Rightarrow> dict \<Rightarrow> string \<Rightarrow> string \<Rightarrow> string \<Rightarrow> exn + dict" where
  "denied_event env approval actor decision timestamp =
     bindR (getitem approval ''id'') (\<lambda>approval_id.
     bindR (getitem approval ''traceId'') (\<lambda>trace.
     bindR (getitem approval ''workflowExecutionId'') (\<lambda>workflow.
     bindR (getitem approval ''taskExecutionId'') (\<lambda>task.
     Inr [(''apiVersion'', JStr ''aep.dev/v1alpha1''), (''kind'', JStr ''ExecutionEvent''),
          (''id'', JStr (''executionevent-'' @ take 24 (env_sha256 env
             (py_str approval_id @ '':'' @ actor @ '':'' @ decision @ '':'' @ timestamp)))),
          (''traceId'', trace), (''createdAt'', JStr timestamp), (''updatedAt'', JStr timestamp),
          (''provenance'', JObj [(''actor'', JStr ''approval-gate''), (''workflowExecutionId'', workflow),
             (''taskExecutionId'', task), (''resourceRefs'', dget_or approval ''governingPolicyRefs'' (JList []))]),
          (''eventType'', JStr ''ApprovalAuthorizationDenied''),
          (''subject'', JObj [(''kind'', JStr ''Approval''), (''id'', approval_id)]),
          (''sequence'', JInt 1), (''emittedAt'', JStr timestamp),
          (''payload'', JObj [(''actorIdentity'', JStr actor), (''requestedDecision'', JStr decision),
             (''reasonCode'', JStr ''UNAUTHORIZED_REVIEWER'')])]))))"

text \<open>A pending approval whose expiry is not after the time of the decision.\<close>

definition approval_expired :: "environment \<Rightarrow> dict \<Rightarrow> string \<Rightarrow> exn + bool" where
  "approval_expired env approval timestamp =
     (if dget approval ''status'' = JStr ''PENDING'' \<and> dget approval ''expiresAt'' \<noteq> JNull
      then bindR (approval_time env (JStr timestamp)) (\<lambda>now.
           bindR (approval_time env (dget approval ''expiresAt'')) (\<lambda>expiry. Inr (expiry \<le> now)))
      else Inr False)"

definition record_decision ::
  "'s store_ops \<Rightarrow> dict \<Rightarrow> string \<Rightarrow> string \<Rightarrow> string \<Rightarrow> string \<Rightarrow> string \<Rightarrow> ('s, dict) eff" where
  "record_decision ops approval approval_id actor decision timestamp reason =
     thenE (checkE (decision \<in> {''APPROVED'', ''REJECTED''})
       (approval_error ''APPROVAL_DECISION_INVALID'' ''decision must be APPROVED or REJECTED''))
     (thenE (checkE (py_strip reason \<noteq> [])
       (approval_error ''APPROVAL_REASON_REQUIRED'' ''a non-empty decision reason is required''))
     (bindE (op_update_status ops approval_id decision (Some ''PENDING'') (Some timestamp)
        [(''approver'', JStr actor), (''decidedAt'', JStr timestamp), (''reason'', JStr (py_strip reason))]) (\<lambda>decided.
      thenE (if decision = ''APPROVED'' then wake_task ops approval approval_id timestamp else ret ())
      (ret decided))))"

definition approval_decide ::
  "environment \<Rightarrow> 's store_ops \<Rightarrow> string \<Rightarrow> string \<Rightarrow> string \<Rightarrow> string \<Rightarrow> string \<Rightarrow> string
   \<Rightarrow> ('s, dict) eff" where
  "approval_decide env ops approval_id actor decision timestamp reason current_digest =
     bindE (op_get ops approval_id) (\<lambda>found.
     case found of
       None \<Rightarrow> throw (approval_error ''APPROVAL_NOT_FOUND'' ''approval request was not found'')
     | Some approval \<Rightarrow>
         thenE (checkE (dget approval ''kind'' = JStr ''Approval'')
           (approval_error ''APPROVAL_NOT_FOUND'' ''approval request was not found''))
         (bindE (liftR (py_in actor (dget_or approval ''authorizedReviewers'' (JList [])))) (\<lambda>authorized.
          if \<not> authorized then
            bindE (liftR (denied_event env approval actor decision timestamp)) (\<lambda>event.
            thenE (op_append_event ops (JObj event))
            (throw (Exn ApprovalAuthorizationError
               ''identity is not authorized by the resolved approval policy'' (JStr ''APPROVAL_UNAUTHORIZED''))))
          else
          thenE (checkE (dget approval ''artifactRequestDigest'' = JStr current_digest)
            (approval_error ''APPROVAL_STALE'' ''approval is stale because its bound artifact or action changed''))
          (bindE (liftR (approval_expired env approval timestamp)) (\<lambda>expired.
           if expired then
             thenE (op_update_status ops approval_id ''EXPIRED'' (Some ''PENDING'') (Some timestamp)
                [(''decidedAt'', JStr timestamp), (''reason'', JStr ''Approval request expired.'')])
             (throw (approval_error ''APPROVAL_EXPIRED'' ''approval request has expired''))
           else if dget approval ''status'' \<noteq> JStr ''PENDING'' then
             (if dget approval ''approver'' = JStr actor \<and> dget approval ''status'' = JStr decision
              then thenE (if decision = ''APPROVED'' then wake_task ops approval approval_id timestamp
                          else ret ()) (ret approval)
              else throw (approval_error ''APPROVAL_ALREADY_DECIDED''
                     ''approval request already has a terminal decision''))
           else record_decision ops approval approval_id actor decision timestamp reason)))))"

section \<open>What a decision may do\<close>

text \<open>The conditions under which a pending approval may become approved.\<close>

definition may_approve ::
  "environment \<Rightarrow> dict \<Rightarrow> string \<Rightarrow> string \<Rightarrow> string \<Rightarrow> string \<Rightarrow> string \<Rightarrow> bool" where
  "may_approve env approval actor decision timestamp reason current_digest \<longleftrightarrow>
     decision = ''APPROVED'' \<and> py_strip reason \<noteq> []
     \<and> py_in actor (dget_or approval ''authorizedReviewers'' (JList [])) = Inr True
     \<and> dget approval ''artifactRequestDigest'' = JStr current_digest
     \<and> approval_expired env approval timestamp = Inr False"

definition decision_edges :: "bool \<Rightarrow> (string \<times> string) set" where
  "decision_edges approvable =
     (if approvable then {(''PENDING'', ''APPROVED'')} else {})
     \<union> {(''PENDING'', ''REJECTED''), (''PENDING'', ''EXPIRED''), (''AWAITING_APPROVAL'', ''PENDING'')}"

lemma not_approvable_path: "status_path (decision_edges False) x (JStr ''APPROVED'') \<Longrightarrow> x = JStr ''APPROVED''"
proof -
  have "(a, b) \<in> (decision_edges False)\<^sup>* \<Longrightarrow> b = ''APPROVED'' \<Longrightarrow> a = ''APPROVED''" for a b
    by (induction rule: rtrancl_induct) (auto simp: decision_edges_def)
  then show "status_path (decision_edges False) x (JStr ''APPROVED'') \<Longrightarrow> x = JStr ''APPROVED''"
    by (auto simp: status_path_def)
qed

lemma py_in_canon: "py_in a (canon v) = py_in a v"
proof (cases v)
  case (JList xs)
  have "JStr a \<in> canon ` set xs \<longleftrightarrow> JStr a \<in> set xs"
    by (metis canon.simps(5) canon_eq_JStr image_iff)
  with JList show ?thesis by simp
qed (simp_all add: dhas_iff map_of_canon_dict)

lemma dget_or_canon: "dget_or (canon_dict d) k (JList []) = canon (dget_or d k (JList []))"
  by (simp add: dget_or_def map_of_canon_dict split: option.split)

lemma approval_time_canon: "approval_time env (canon v) = approval_time env v"
  by (cases v) (simp_all add: approval_time_def)

lemma canon_JNull_iff [simp]: "canon v = JNull \<longleftrightarrow> v = JNull"
  by (cases v) simp_all

lemma may_approve_canon:
  "may_approve env (canon_dict d) actor decision now reason digest
     = may_approve env d actor decision now reason digest"
  by (simp add: may_approve_def approval_expired_def dget_or_canon py_in_canon dget_canon_dict
      canon_eq_JStr approval_time_canon)

definition is_event :: "dict \<Rightarrow> bool" where
  "is_event d \<longleftrightarrow> dget d ''kind'' = JStr ''ExecutionEvent''"

text \<open>A pending approval and what a request records.\<close>

definition pending_approval :: "dict \<Rightarrow> string \<Rightarrow> string \<Rightarrow> dict \<Rightarrow> bool" where
  "pending_approval policy approval_id digest d \<longleftrightarrow>
     dget d ''kind'' = JStr ''Approval'' \<and> dget d ''id'' = JStr approval_id
     \<and> dget d ''status'' = JStr ''PENDING'' \<and> dget d ''artifactRequestDigest'' = JStr digest
     \<and> dget policy ''decision'' = JStr ''REQUIRE_APPROVAL''
     \<and> dget d ''policyDecisionId'' = dget policy ''id''"

lemma dget_approval_fields:
  "dget (approval_fields aid tr now pv we tk pid rq refs act rr digest rvs @ rest) ''kind'' = JStr ''Approval''"
  "dget (approval_fields aid tr now pv we tk pid rq refs act rr digest rvs @ rest) ''id'' = JStr aid"
  "dget (approval_fields aid tr now pv we tk pid rq refs act rr digest rvs @ rest) ''status'' = JStr ''PENDING''"
  "dget (approval_fields aid tr now pv we tk pid rq refs act rr digest rvs @ rest) ''policyDecisionId'' = pid"
  "dget (approval_fields aid tr now pv we tk pid rq refs act rr digest rvs @ rest) ''artifactRequestDigest''
     = JStr digest"
  by (simp_all add: approval_fields_def dget_Cons)

lemma approval_record_fields:
  assumes "approval_record aid policy requester now digest reviewers ex target arts refs = Inr d"
  shows "dget d ''kind'' = JStr ''Approval'' \<and> dget d ''id'' = JStr aid
    \<and> dget d ''status'' = JStr ''PENDING'' \<and> dget d ''artifactRequestDigest'' = JStr digest
    \<and> dget d ''policyDecisionId'' = dget policy ''id''"
  using assms unfolding approval_record_def bindR_eq_Inr
  by (elim exE conjE) (auto simp: dget_approval_fields dest: getitem_Inr)

context runtime_store
begin

lemma runs_get:
  "runs (moves ok view E N) (\<lambda>s. ok s \<and> view s oid = v) (op_get ops oid)
     (\<lambda>r s. map_option canon_dict r = v)"
proof (rule runsI)
  fix s r t
  assume "ok s \<and> view s oid = v" "op_get ops oid s = (r, t)"
  then show "moves ok view E N s t \<and> (\<forall>a. r = Inr a \<longrightarrow> map_option canon_dict a = v)"
    using keepsD[OF keeps_moves_mono[OF get_moves, of E N]] get_shows by auto
qed

lemma event_moves:
  assumes "dget d ''kind'' = JStr ''ExecutionEvent''"
  shows "keeps (moves ok view E is_event) (op_append_event ops (JObj d))"
  by (rule keeps_moves_mono[OF append_event_moves]) (auto simp: is_event_def)

lemma wake_task_moves:
  assumes "(''AWAITING_APPROVAL'', ''PENDING'') \<in> E"
  shows "keeps (moves ok view E N) (wake_task ops approval aid now)"
  unfolding wake_task_def Let_def
  by (intro moving.rules keeps_moves_mono[OF get_moves] keeps_moves_mono[OF wake_approved_task_moves])
    (use assms in auto)

lemma decision_moves:
  assumes "(''PENDING'', st) \<in> E"
  shows "keeps (moves ok view E N) (op_update_status ops aid st (Some ''PENDING'') u ch)"
  by (rule keeps_moves_mono[OF update_status_moves]) (use assms in auto)

lemma record_decision_moves:
  assumes "decision = ''APPROVED'' \<Longrightarrow> py_strip reason \<noteq> [] \<Longrightarrow> b"
  shows "keeps (moves ok view (decision_edges b) N)
    (record_decision ops approval aid actor decision now reason)"
  unfolding record_decision_def
  by (intro moving.guard moving.bindE moving.thenE moving.ite moving.ret wake_task_moves decision_moves)
    (use assms in \<open>auto simp: decision_edges_def\<close>)

lemma denied_event_kind: "denied_event env approval actor decision now = Inr d
    \<Longrightarrow> dget d ''kind'' = JStr ''ExecutionEvent''"
  unfolding denied_event_def bindR_eq_Inr by (elim exE conjE) (auto simp: dget_Cons)

lemma approval_decide_runs:
  "runs (moves ok view (decision_edges (may_approve env a actor decision now reason digest)) is_event)
     (\<lambda>s. ok s \<and> view s aid = Some a)
     (approval_decide env ops aid actor decision now reason digest) (\<lambda>_ _. True)"
  unfolding approval_decide_def
proof (rule moving.runs_bind[OF runs_get], rule runs_const)
  fix found :: "dict option"
  assume "map_option canon_dict found = Some a"
  then obtain p where p: "found = Some p" "canon_dict p = a" by auto
  let ?b = "may_approve env a actor decision now reason digest"
  have b: "?b = may_approve env p actor decision now reason digest"
    using p(2) may_approve_canon by blast
  have "keeps (moves ok view (decision_edges ?b) is_event)
      (record_decision ops p aid actor decision now reason)"
    if "py_in actor (dget_or p ''authorizedReviewers'' (JList [])) = Inr True"
      "dget p ''artifactRequestDigest'' = JStr digest" "approval_expired env p now = Inr False"
    by (rule record_decision_moves) (use b that in \<open>auto simp: may_approve_def\<close>)
  then show "keeps (moves ok view (decision_edges ?b) is_event) (case found of
       None \<Rightarrow> throw (approval_error ''APPROVAL_NOT_FOUND'' ''approval request was not found'')
     | Some approval \<Rightarrow>
         thenE (checkE (dget approval ''kind'' = JStr ''Approval'')
           (approval_error ''APPROVAL_NOT_FOUND'' ''approval request was not found''))
         (bindE (liftR (py_in actor (dget_or approval ''authorizedReviewers'' (JList [])))) (\<lambda>authorized.
          if \<not> authorized then
            bindE (liftR (denied_event env approval actor decision now)) (\<lambda>event.
            thenE (op_append_event ops (JObj event))
            (throw (Exn ApprovalAuthorizationError
               ''identity is not authorized by the resolved approval policy'' (JStr ''APPROVAL_UNAUTHORIZED''))))
          else
          thenE (checkE (dget approval ''artifactRequestDigest'' = JStr digest)
            (approval_error ''APPROVAL_STALE'' ''approval is stale because its bound artifact or action changed''))
          (bindE (liftR (approval_expired env approval now)) (\<lambda>expired.
           if expired then
             thenE (op_update_status ops aid ''EXPIRED'' (Some ''PENDING'') (Some now)
                [(''decidedAt'', JStr now), (''reason'', JStr ''Approval request expired.'')])
             (throw (approval_error ''APPROVAL_EXPIRED'' ''approval request has expired''))
           else if dget approval ''status'' \<noteq> JStr ''PENDING'' then
             (if dget approval ''approver'' = JStr actor \<and> dget approval ''status'' = JStr decision
              then thenE (if decision = ''APPROVED'' then wake_task ops approval aid now
                          else ret ()) (ret approval)
              else throw (approval_error ''APPROVAL_ALREADY_DECIDED''
                     ''approval request already has a terminal decision''))
           else record_decision ops approval aid actor decision now reason)))))"
    unfolding p(1) option.case
    by (intro moving.guard moving.lifted moving.ite moving.thenE moving.throw moving.ret
        wake_task_moves decision_moves event_moves)
      (auto simp: decision_edges_def dest: denied_event_kind)
qed

lemma approval_request_moves:
  "keeps (moves ok view {} (pending_approval policy aid digest))
     (approval_request ops aid policy requester now digest reviewers ex target arts refs cur)"
  unfolding approval_request_def
  by (intro moving.guard moving.lifted keeps_moves_mono[OF create_approval_request_moves])
    (auto simp: pending_approval_def dest: approval_record_fields)

end

end
