(* ===== verification/Scheduler.thy ===== *)
theory Scheduler
  imports TaskLifecycle TaskDag Approval
begin

text \<open>
  The workflow scheduler (\<open>workflow_scheduler.py\<close>).  One reconciliation validates its
  inputs against the persisted workflow, repairs what an interrupted one left behind,
  computes the ready wave from the persisted attempts, creates the wave's attempts, and
  starts, dispatches and finishes each.  The executor and the clock are parameters; the
  executor is an effect on the store's state, since handlers use the store too.  The wave is
  a function of the persisted records (\<open>ready_wave\<close>), separate from the effects around it,
  as it is in the code.

  The retry of a durable start is recursive in the code; here it takes fuel, and running out
  of it is the exception \<open>RecursionError\<close>.  \<open>ScheduleSafety\<close> shows how much is enough.
\<close>

section \<open>Persistence diagnostics\<close>

definition failure_detail_fields :: "string list" where
  "failure_detail_fields = [''reason'', ''path'', ''declaredMaxBytesHint'', ''blobSize'', ''appliedTrustedCeiling'',
     ''predicateType'', ''inspectionStrategy'', ''evaluationComplete'', ''operation'', ''phase'', ''category'', ''errno'']"

definition bounded_text :: "nat \<Rightarrow> json \<Rightarrow> bool" where
  "bounded_text n v \<longleftrightarrow> nonempty_str v \<and> length (as_str v) \<le> n"

definition nonneg_int :: "json \<Rightarrow> bool" where
  "nonneg_int v \<longleftrightarrow> is_int v \<and> 0 \<le> as_int v"

definition check_fields :: "string list \<Rightarrow> (string \<Rightarrow> bool) \<Rightarrow> (string \<Rightarrow> string) \<Rightarrow> exn + unit" where
  "check_fields fs good message =
     (case find (\<lambda>f. \<not> good f) fs of None \<Rightarrow> Inr () | Some f \<Rightarrow> Inl (value_error (message f)))"

definition validate_failure_details :: "dict \<Rightarrow> exn + unit" where
  "validate_failure_details details =
     bindR (checkR (length details \<le> 8) (value_error ''failure details must contain at most eight properties'')) (\<lambda>_.
     bindR (checkR (list_all (\<lambda>k. k \<in> set failure_detail_fields) (dkeys details))
       (value_error ''failure details contain unapproved fields'')) (\<lambda>_.
     bindR (check_fields [''reason'', ''path'', ''predicateType'', ''inspectionStrategy'']
       (\<lambda>f. dget details f = JNull \<or> bounded_text 4096 (dget details f))
       (\<lambda>f. ''failure details '' @ f @ '' must be bounded text or null'')) (\<lambda>_.
     bindR (check_fields [''operation'', ''phase'', ''category'']
       (\<lambda>f. dhas details f \<longrightarrow> bounded_text 128 (dget details f))
       (\<lambda>f. ''failure details '' @ f @ '' must be bounded text'')) (\<lambda>_.
     bindR (check_fields [''declaredMaxBytesHint'', ''blobSize'', ''appliedTrustedCeiling'']
       (\<lambda>f. dget details f = JNull \<or> nonneg_int (dget details f))
       (\<lambda>f. ''failure details '' @ f @ '' must be a non-negative integer or null'')) (\<lambda>_.
     bindR (checkR (dhas details ''evaluationComplete'' \<longrightarrow>
         (\<exists>b \<in> {True, False}. dget details ''evaluationComplete'' = JBool b))
       (value_error ''failure details evaluationComplete must be boolean'')) (\<lambda>_.
     checkR (dget details ''errno'' = JNull \<or> nonneg_int (dget details ''errno''))
       (value_error ''failure details errno must be a non-negative integer or null'')))))))"

definition safe_persistence_details :: "json \<Rightarrow> dict" where
  "safe_persistence_details value =
     (if \<not> is_mapping value
      then [(''operation'', JStr ''append_execution_event''), (''phase'', JStr ''unknown''),
            (''category'', JStr ''store_error'')]
      else
        let kept = map (\<lambda>k. (k, JStr (take 128 (as_str (mget value k)))))
                     (filter (\<lambda>k. nonempty_str (mget value k)) [''operation'', ''phase'', ''category'']);
            errno = mget value ''errno'';
            r = (if errno = JNull \<or> nonneg_int errno then dput ''errno'' errno kept else kept)
        in dsetdefault ''category'' (JStr ''store_error'')
             (dsetdefault ''phase'' (JStr ''unknown'')
               (dsetdefault ''operation'' (JStr ''append_execution_event'') r)))"

definition last8 :: "'a list \<Rightarrow> 'a list" where
  "last8 xs = drop (length xs - 8) xs"

definition append_persistence_diagnostic :: "dict \<Rightarrow> dict \<Rightarrow> exn + json" where
  "append_persistence_diagnostic runtime_object details =
     bindR (py_iter (dget_or runtime_object ''persistenceDiagnostics'' (JList []))) (\<lambda>existing.
     Inr (JList (last8 (filter is_mapping existing @ [JObj details]))))"

text \<open>The diagnostic of a store error; its fields are texts.\<close>

definition diagnostic :: "exn \<Rightarrow> dict" where
  "diagnostic e = as_dict (exn_info e)"

definition can_recover_start :: "dict \<Rightarrow> bool" where
  "can_recover_start d \<longleftrightarrow>
     (dget d ''operation'' = JStr ''checkpoint''
      \<and> in_strs (dget d ''phase'') [''temporary_create'', ''temporary_write'', ''file_sync'', ''replace'', ''directory_sync''])
     \<or> (dget d ''operation'' = JStr ''writer_fence'' \<and> dget d ''phase'' = JStr ''release'')"

definition can_adopt_committed_start :: "dict \<Rightarrow> bool" where
  "can_adopt_committed_start d \<longleftrightarrow>
     (dget d ''operation'' = JStr ''checkpoint'' \<and> dget d ''phase'' = JStr ''directory_sync'')
     \<or> (dget d ''operation'' = JStr ''writer_fence'' \<and> dget d ''phase'' = JStr ''release'')"

section \<open>Results of the executor\<close>

text \<open>\<open>details\<close> and \<open>approval\<close> are \<open>JNull\<close> when absent.\<close>

record task_result =
  tr_succeeded :: bool
  tr_failure_class :: "failure_class option"
  tr_message :: "string option"
  tr_retry_not_before :: "string option"
  tr_details :: json
  tr_approval :: json

definition result_success :: task_result where
  "result_success = \<lparr>tr_succeeded = True, tr_failure_class = None, tr_message = None,
     tr_retry_not_before = None, tr_details = JNull, tr_approval = JNull\<rparr>"

definition result_awaiting_approval :: "dict \<Rightarrow> task_result" where
  "result_awaiting_approval request = \<lparr>tr_succeeded = False, tr_failure_class = None, tr_message = None,
     tr_retry_not_before = None, tr_details = JNull, tr_approval = JObj request\<rparr>"

definition result_failure ::
  "failure_class \<Rightarrow> string \<Rightarrow> string option \<Rightarrow> dict option \<Rightarrow> exn + task_result" where
  "result_failure classification message retry_not_before details =
     (if py_strip message = [] then Inl (value_error ''failure message must not be empty'')
      else Inr \<lparr>tr_succeeded = False, tr_failure_class = Some classification,
        tr_message = Some (py_strip message), tr_retry_not_before = retry_not_before,
        tr_details = (case details of None \<Rightarrow> JNull | Some d \<Rightarrow> JObj d), tr_approval = JNull\<rparr>)"

definition result_validate :: "task_result \<Rightarrow> exn + unit" where
  "result_validate r =
     (if tr_succeeded r then
        checkR (tr_failure_class r = None \<and> tr_message r = None \<and> tr_retry_not_before r = None
                \<and> tr_details r = JNull)
          (value_error ''successful Task result cannot contain failure details'')
      else if tr_approval r \<noteq> JNull then
        checkR (tr_failure_class r = None \<and> tr_message r = None)
          (value_error ''approval wait cannot also be a failure'')
      else
        bindR (checkR (tr_failure_class r \<noteq> None \<and> tr_message r \<noteq> None \<and> tr_message r \<noteq> Some [])
          (value_error ''failed Task result requires classification and message'')) (\<lambda>_.
        bindR (checkR (tr_details r = JNull \<or> is_mapping (tr_details r))
          (value_error ''failure details must be an object'')) (\<lambda>_.
        bindR (if tr_details r = JNull then Inr () else validate_failure_details (as_dict (tr_details r))) (\<lambda>_.
        checkR (case tr_retry_not_before r of None \<Rightarrow> True
                | Some t \<Rightarrow> tr_failure_class r = Some RECOVERABLE \<and> is_rfc3339_timestamp (JStr t))
          (value_error ''retry_not_before requires a recoverable failure and RFC3339 timestamp'')))))"

text \<open>What an executor that raises is taken for.\<close>

definition executor_failed :: "exn \<Rightarrow> task_result" where
  "executor_failed e = \<lparr>tr_succeeded = False, tr_failure_class = Some RECOVERABLE,
     tr_message = Some (''Task executor failed: '' @ class_name (exn_cls e)),
     tr_retry_not_before = None, tr_details = JNull, tr_approval = JNull\<rparr>"

section \<open>The scheduler object\<close>

text \<open>
  \<open>sc_execute\<close> is the executor, \<open>None\<close> standing for a result that is no \<open>TaskExecutionResult\<close>;
  \<open>sc_clock\<close> is what the clock returns at this reconciliation; \<open>sc_owner\<close> the \<open>uuid4\<close> text drawn
  when an execution is claimed (at most one claim is made per execution).
\<close>

record 's scheduler =
  sc_store :: "'s store_ops"
  sc_execute :: "resource \<Rightarrow> dict \<Rightarrow> ('s, task_result option) eff"
  sc_max_attempts :: int
  sc_clock :: json
  sc_owner :: "string \<Rightarrow> string"
  sc_env :: environment

definition sc_lifecycle :: "'s scheduler \<Rightarrow> 's lifecycle" where
  "sc_lifecycle sc = \<lparr>lc_store = sc_store sc, lc_logger = None,
     lc_task_ref_errors = env_schema (sc_env sc) ''taskRef'',
     lc_task_execution_errors = env_schema (sc_env sc) ''taskexecution.schema.json''\<rparr>"

definition new_scheduler ::
  "'s store_ops \<Rightarrow> (resource \<Rightarrow> dict \<Rightarrow> ('s, task_result option) eff) \<Rightarrow> json \<Rightarrow> json
   \<Rightarrow> (string \<Rightarrow> string) \<Rightarrow> environment \<Rightarrow> exn + 's scheduler" where
  "new_scheduler ops execute max_attempts now owner env =
     bindR (checkR (is_int max_attempts) (type_error ''max_attempts must be an integer'')) (\<lambda>_.
     bindR (checkR (1 \<le> as_int max_attempts) (value_error ''max_attempts must be positive'')) (\<lambda>_.
     Inr \<lparr>sc_store = ops, sc_execute = execute, sc_max_attempts = as_int max_attempts,
          sc_clock = now, sc_owner = owner, sc_env = env\<rparr>))"

definition scheduler_input_error :: "string \<Rightarrow> exn" where
  "scheduler_input_error m = Exn InvalidSchedulerInputError m JNull"

definition validate_runtime_record :: "environment \<Rightarrow> string \<Rightarrow> dict \<Rightarrow> exn + unit" where
  "validate_runtime_record env schema_name r =
     validate_with (env_schema env schema_name) InvalidSchedulerInputError
       (''invalid '' @ py_str (dget_or r ''kind'' (JStr ''runtime object''))) (JObj r)"

definition sc_timestamp :: "'s scheduler \<Rightarrow> exn + string" where
  "sc_timestamp sc =
     (if is_str (sc_clock sc) \<and> is_rfc3339_timestamp (sc_clock sc) then Inr (as_str (sc_clock sc))
      else Inl (scheduler_input_error ''clock must return an RFC3339 timestamp''))"

text \<open>\<open>_ref_from_record\<close>: a mapping without the three fields is no reference.\<close>

definition ref_from_record :: "json \<Rightarrow> resource_ref option" where
  "ref_from_record v =
     (if is_mapping v then (case ref_from_mapping (as_dict v) of Inl e \<Rightarrow> None | Inr r \<Rightarrow> Some r) else None)"

definition immutable_workflow_fields :: "string list" where
  "immutable_workflow_fields = [''id'', ''traceId'', ''workflowRef'', ''eventRef'', ''repositoryRevision'',
     ''knowledgeGraphVersion'', ''provenance'']"

record run_inputs =
  ri_workflow :: string
  ri_trace :: string
  ri_revision :: string
  ri_graph_version :: json

definition check_persisted_workflow ::
  "'s scheduler \<Rightarrow> task_plan \<Rightarrow> dict \<Rightarrow> string \<Rightarrow> dict \<Rightarrow> exn + run_inputs" where
  "check_persisted_workflow sc plan workflow_execution workflow_id persisted =
     bindR (validate_runtime_record (sc_env sc) ''workflowexecution.schema.json'' persisted) (\<lambda>_.
     bindR (case find (\<lambda>f. \<not> py_eq (dget workflow_execution f) (dget persisted f)) immutable_workflow_fields of
              None \<Rightarrow> Inr ()
            | Some f \<Rightarrow> Inl (scheduler_input_error (''caller WorkflowExecution '' @ f
                         @ '' does not match persisted evidence''))) (\<lambda>_.
     bindR (checkR (dget persisted ''status'' = JStr ''RUNNING'')
       (scheduler_input_error ''WorkflowExecution must be RUNNING'')) (\<lambda>_.
     bindR (checkR (ref_from_record (dget persisted ''workflowRef'') = Some (tp_workflow plan))
       (scheduler_input_error ''WorkflowExecution workflowRef does not match the resolved plan'')) (\<lambda>_.
     bindR (checkR (nonempty_str (dget persisted ''traceId''))
       (scheduler_input_error ''WorkflowExecution traceId is required'')) (\<lambda>_.
     bindR (checkR (nonempty_str (dget persisted ''repositoryRevision''))
       (scheduler_input_error ''WorkflowExecution repositoryRevision is required'')) (\<lambda>_.
     Inr \<lparr>ri_workflow = workflow_id, ri_trace = as_str (dget persisted ''traceId''),
          ri_revision = as_str (dget persisted ''repositoryRevision''),
          ri_graph_version = dget persisted ''knowledgeGraphVersion''\<rparr>))))))"

definition validate_inputs :: "'s scheduler \<Rightarrow> task_plan \<Rightarrow> json \<Rightarrow> ('s, run_inputs) eff" where
  "validate_inputs sc plan value =
     thenE (checkE (is_mapping value) (type_error ''workflow_execution must be a mapping''))
     (let workflow_execution = as_dict value in
      thenE (checkE (dget workflow_execution ''kind'' = JStr ''WorkflowExecution'')
        (scheduler_input_error ''workflow_execution must be a WorkflowExecution''))
      (thenE (liftR (validate_runtime_record (sc_env sc) ''workflowexecution.schema.json'' workflow_execution))
      (thenE (checkE (nonempty_str (dget workflow_execution ''id''))
        (scheduler_input_error ''WorkflowExecution id is required''))
      (let workflow_id = as_str (dget workflow_execution ''id'') in
       bindE (op_get (sc_store sc) workflow_id) (\<lambda>found.
         case found of
           None \<Rightarrow> throw (scheduler_input_error ''WorkflowExecution must exist in the runtime store'')
         | Some persisted \<Rightarrow>
             thenE (checkE (dget persisted ''kind'' = JStr ''WorkflowExecution'')
               (scheduler_input_error ''WorkflowExecution must exist in the runtime store''))
             (liftR (check_persisted_workflow sc plan workflow_execution workflow_id persisted)))))))"

section \<open>Events\<close>

definition task_execution_id :: "environment \<Rightarrow> string \<Rightarrow> resource_ref \<Rightarrow> int \<Rightarrow> string" where
  "task_execution_id env workflow_id ref attempt =
     ''taskexecution-'' @ env_uuid5 env (''task-execution:'' @ workflow_id @ '':'' @ format_ref ref @ '':''
       @ dec_int attempt)"

definition event_id :: "environment \<Rightarrow> string \<Rightarrow> string \<Rightarrow> string" where
  "event_id env task_execution event_type =
     ''executionevent-'' @ env_uuid5 env (''execution-event:'' @ task_execution @ '':'' @ event_type)"

definition event_status :: "string \<Rightarrow> string option" where
  "event_status = map_of
     [(''TaskExecutionQueued'', ''PENDING''), (''TaskExecutionStarted'', ''RUNNING''),
      (''TaskExecutionSucceeded'', ''SUCCEEDED''), (''TaskExecutionFailed'', ''FAILED''),
      (''TaskExecutionAwaitingApproval'', ''AWAITING_APPROVAL'')]"

definition event_fields ::
  "environment \<Rightarrow> string \<Rightarrow> string \<Rightarrow> json \<Rightarrow> json \<Rightarrow> dict \<Rightarrow> json \<Rightarrow> int \<Rightarrow> string \<Rightarrow> string \<Rightarrow> dict \<Rightarrow> dict" where
  "event_fields env tid event_type trace workflow task_ref attempt seq timestamp status failure_fields =
     [(''apiVersion'', JStr ''aep.dev/v1alpha1''), (''kind'', JStr ''ExecutionEvent''),
      (''id'', JStr (event_id env tid event_type)), (''traceId'', trace),
      (''createdAt'', JStr timestamp), (''updatedAt'', JStr timestamp),
      (''provenance'', JObj [(''actor'', JStr ''workflow-scheduler''), (''workflowExecutionId'', workflow),
         (''taskExecutionId'', JStr tid), (''resourceRefs'', JList [JObj task_ref])]),
      (''eventType'', JStr event_type),
      (''subject'', JObj [(''kind'', JStr ''TaskExecution''), (''id'', JStr tid)]),
      (''sequence'', JInt seq), (''emittedAt'', JStr timestamp),
      (''payload'', JObj ([(''status'', JStr status), (''attempt'', attempt)] @ failure_fields))]"

definition event_record :: "environment \<Rightarrow> dict \<Rightarrow> string \<Rightarrow> int \<Rightarrow> string \<Rightarrow> exn + dict" where
  "event_record env task_execution event_type seq timestamp =
     bindR (getitem task_execution ''id'') (\<lambda>id_value.
     bindR (getitem task_execution ''traceId'') (\<lambda>trace.
     bindR (getitem task_execution ''workflowExecutionId'') (\<lambda>workflow.
     bindR (bindR (getitem task_execution ''taskRef'') py_dict) (\<lambda>task_ref.
     bindR (case event_status event_type of None \<Rightarrow> Inl (Exn KeyError event_type JNull) | Some st \<Rightarrow> Inr st) (\<lambda>status.
     bindR (getitem task_execution ''attempt'') (\<lambda>attempt.
     let failure = dget task_execution ''failure'' in
     bindR (if event_type = ''TaskExecutionFailed'' \<and> is_mapping failure
            then bindR (getitem (as_dict failure) ''class'') (\<lambda>c.
                 Inr [(''failureClass'', c), (''retryable'', dget_or (as_dict failure) ''retryable'' (JBool False))])
            else Inr []) (\<lambda>failure_fields.
     Inr (event_fields env (py_str id_value) event_type trace workflow task_ref attempt seq timestamp
            status failure_fields))))))))"

definition sc_emit :: "'s scheduler \<Rightarrow> dict \<Rightarrow> string \<Rightarrow> int \<Rightarrow> string \<Rightarrow> ('s, unit) eff" where
  "sc_emit sc task_execution event_type seq timestamp =
     bindE (liftR (event_record (sc_env sc) task_execution event_type seq timestamp)) (\<lambda>event.
     thenE (liftR (validate_runtime_record (sc_env sc) ''executionevent.schema.json'' event))
     (thenE (op_append_event (sc_store sc) (JObj event)) (ret ())))"

section \<open>Transitions\<close>

definition id_str :: "dict \<Rightarrow> exn + string" where
  "id_str v = bindR (getitem v ''id'') (\<lambda>x. Inr (py_str x))"

definition fail_running ::
  "'s scheduler \<Rightarrow> dict \<Rightarrow> failure_class \<Rightarrow> string \<Rightarrow> string \<Rightarrow> string option \<Rightarrow> dict option
   \<Rightarrow> ('s, dict) eff" where
  "fail_running sc running classification message timestamp retry_not_before details =
     bindE (liftR (id_str running)) (\<lambda>tid.
     catchE (lc_fail (sc_lifecycle sc) tid classification message timestamp retry_not_before details)
       (\<lambda>e. bindE (op_get (sc_store sc) tid) (\<lambda>persisted.
          case persisted of
            Some p \<Rightarrow> if dget p ''status'' = JStr ''FAILED'' then ret p else throw e
          | None \<Rightarrow> throw e)))"

definition complete_success :: "'s scheduler \<Rightarrow> dict \<Rightarrow> string \<Rightarrow> ('s, dict) eff" where
  "complete_success sc running timestamp =
     bindE (liftR (id_str running)) (\<lambda>tid.
     catchE (lc_succeed (sc_lifecycle sc) tid timestamp)
       (\<lambda>e. bindE (op_get (sc_store sc) tid) (\<lambda>persisted.
          case persisted of
            Some p \<Rightarrow>
              if dget p ''status'' = JStr ''SUCCEEDED'' then ret p
              else if dget p ''status'' = JStr ''RUNNING'' then
                fail_running sc p RECOVERABLE
                  (''could not persist Task success: '' @ class_name (exn_cls e)) timestamp None None
              else throw e
          | None \<Rightarrow> throw e)))"

definition failure_class_of :: "string \<Rightarrow> exn + failure_class" where
  "failure_class_of s =
     (case find (\<lambda>c. class_value c = s) [RECOVERABLE, CONFIGURATION, EVALUATION, POLICY, PERMANENT] of
        Some c \<Rightarrow> Inr c
      | None \<Rightarrow> Inl (value_error (repr_str s @ '' is not a valid FailureClass'')))"

text \<open>The record the audit event of a committed transition is built from.\<close>

definition transition_preview :: "dict \<Rightarrow> dict \<Rightarrow> task_status \<Rightarrow> string \<Rightarrow> dict" where
  "transition_preview task_execution changes status timestamp =
     (let p = dput ''updatedAt'' (JStr timestamp)
                (dput ''status'' (JStr (status_value status)) (dupdate task_execution changes));
          p = (if status = RUNNING then dsetdefault ''startedAt'' (JStr timestamp) p else p)
      in if status \<in> {SUCCEEDED, FAILED} then dsetdefault ''completedAt'' (JStr timestamp) p else p)"

definition commit_transition ::
  "'s scheduler \<Rightarrow> dict \<Rightarrow> task_status \<Rightarrow> string \<Rightarrow> string \<Rightarrow> dict \<Rightarrow> ('s, dict) eff" where
  "commit_transition sc task_execution status event_type timestamp changes =
     bindE (liftR (event_record (sc_env sc) (transition_preview task_execution changes status timestamp)
              event_type (if status = RUNNING then 2 else 3) timestamp)) (\<lambda>event.
     thenE (liftR (validate_runtime_record (sc_env sc) ''executionevent.schema.json'' event))
     (bindE (liftR (id_str task_execution)) (\<lambda>tid.
      bindE (liftR (getitem task_execution ''workflowExecutionId'')) (\<lambda>workflow.
      bindE (liftR (getitem task_execution ''status'')) (\<lambda>expected.
      op_commit_task_execution_transition (sc_store sc) tid (status_value status) (py_str workflow)
        (JObj event) (py_str expected) timestamp changes)))))"

text \<open>The failure a change set carries, for the stores without atomic transitions.\<close>

definition fail_from_changes :: "'s scheduler \<Rightarrow> dict \<Rightarrow> string \<Rightarrow> dict \<Rightarrow> ('s, dict) eff" where
  "fail_from_changes sc task_execution timestamp changes =
     bindE (liftR (py_dict (dget_or changes ''failure'' (JObj [])))) (\<lambda>failure.
     bindE (liftR (failure_class_of (py_str (dget_or failure ''class'' (JStr ''RECOVERABLE''))))) (\<lambda>cls.
     fail_running sc task_execution cls
       (py_str (dget_or failure ''message'' (JStr ''Task execution failed''))) timestamp
       (if is_str (dget failure ''retryNotBefore'') then Some (as_str (dget failure ''retryNotBefore'')) else None)
       (if is_mapping (dget failure ''details'') then Some (as_dict (dget failure ''details'')) else None)))"

definition transition_and_emit ::
  "'s scheduler \<Rightarrow> dict \<Rightarrow> task_status \<Rightarrow> string \<Rightarrow> string \<Rightarrow> dict \<Rightarrow> ('s, dict) eff" where
  "transition_and_emit sc task_execution status event_type timestamp changes =
     (if op_atomic_task_transitions (sc_store sc)
      then commit_transition sc task_execution status event_type timestamp changes
      else if status = RUNNING
      then bindE (liftR (id_str task_execution)) (\<lambda>tid. lc_start (sc_lifecycle sc) tid timestamp)
      else
        bindE (if status = AWAITING_APPROVAL
               then bindE (liftR (id_str task_execution)) (\<lambda>tid.
                    lc_await_approval (sc_lifecycle sc) tid timestamp changes)
               else if status = SUCCEEDED then complete_success sc task_execution timestamp
               else fail_from_changes sc task_execution timestamp changes) (\<lambda>updated.
        thenE (sc_emit sc updated event_type 3 timestamp) (ret updated)))"

section \<open>Repairing interrupted reconciliations\<close>

definition request_from_intent ::
  "'s scheduler \<Rightarrow> dict \<Rightarrow> string \<Rightarrow> dict \<Rightarrow> string \<Rightarrow> ('s, unit) eff" where
  "request_from_intent sc intent approval_id policy timestamp =
     bindE (liftR (getitem intent ''requester'')) (\<lambda>requester.
     bindE (liftR (getitem intent ''digest'')) (\<lambda>digest.
     bindE (liftR (bindR (getitem intent ''authorizedReviewers'') py_iter)) (\<lambda>reviewers.
     bindE (liftR (py_iter (dget_or intent ''approvalPolicyRefs'' (JList [])))) (\<lambda>refs.
     thenE (approval_request (sc_store sc) approval_id policy (py_str requester) timestamp (py_str digest)
              reviewers JNull (dget intent ''target'') (dget intent ''artifactDigests'') refs
              (dget intent ''expectedCurrentApprovalId''))
     (ret ())))))"

definition recover_pending_request :: "'s scheduler \<Rightarrow> string \<Rightarrow> dict \<Rightarrow> ('s, unit) eff" where
  "recover_pending_request sc timestamp task =
     (let intent_value = dget task ''pendingApprovalRequest''; intent = as_dict intent_value in
      if dget task ''kind'' \<noteq> JStr ''TaskExecution'' \<or> dget task ''status'' \<noteq> JStr ''AWAITING_APPROVAL''
         \<or> \<not> is_mapping intent_value
      then ret ()
      else bindE (op_get (sc_store sc) (py_str (dget_or intent ''policyDecisionId'' (JStr [])))) (\<lambda>decision.
        case decision of
          None \<Rightarrow> ret ()
        | Some d \<Rightarrow>
            if \<not> is_str (dget intent ''approvalId'') then ret ()
            else request_from_intent sc intent (as_str (dget intent ''approvalId'')) d timestamp))"

definition recover_pending_approval_requests :: "'s scheduler \<Rightarrow> string \<Rightarrow> string \<Rightarrow> ('s, unit) eff" where
  "recover_pending_approval_requests sc workflow_id timestamp =
     bindE (op_list_by_workflow_execution (sc_store sc) workflow_id) (\<lambda>records.
     forE records (recover_pending_request sc timestamp))"

definition records_by_id :: "string \<Rightarrow> dict list \<Rightarrow> (string \<times> dict) list" where
  "records_by_id kind records =
     foldl (\<lambda>m r. AList.update (py_str (dget r ''id'')) r m) []
       (filter (\<lambda>r. dget r ''kind'' = JStr kind) records)"

definition recover_wakeup ::
  "'s scheduler \<Rightarrow> string \<Rightarrow> (string \<times> dict) list \<Rightarrow> dict \<Rightarrow> ('s, unit) eff" where
  "recover_wakeup sc timestamp decisions approval =
     (if dget approval ''kind'' \<noteq> JStr ''Approval'' \<or> dget approval ''status'' \<noteq> JStr ''APPROVED'' then ret ()
      else case map_of decisions (py_str (dget approval ''policyDecisionId'')) of
        None \<Rightarrow> ret ()
      | Some policy \<Rightarrow>
          if dget policy ''decision'' \<noteq> JStr ''REQUIRE_APPROVAL'' then ret ()
          else let task_id = dget approval ''taskExecutionId'' in
          if \<not> truthy task_id then ret ()
          else bindE (op_get (sc_store sc) (py_str task_id)) (\<lambda>task.
            case task of
              None \<Rightarrow> ret ()
            | Some t \<Rightarrow>
                thenE (checkE (hashable (dget t ''status'')) unhashable_error)
                (if in_strs (dget t ''status'') [''AWAITING_APPROVAL'', ''PENDING'']
                 then bindE (liftR (id_str approval)) (\<lambda>aid.
                      thenE (op_wake_approved_task (sc_store sc) (py_str task_id) aid timestamp) (ret ()))
                 else ret ())))"

definition recover_approved_task_wakeups :: "'s scheduler \<Rightarrow> string \<Rightarrow> string \<Rightarrow> ('s, unit) eff" where
  "recover_approved_task_wakeups sc workflow_id timestamp =
     bindE (op_list_by_workflow_execution (sc_store sc) workflow_id) (\<lambda>records.
     forE records (recover_wakeup sc timestamp (records_by_id ''PolicyDecision'' records)))"

definition rejection_failure :: dict where
  "rejection_failure = [(''failure'', JObj [(''class'', JStr ''POLICY''),
     (''message'', JStr ''Approval was rejected or expired; the gated action remains blocked.''),
     (''retryable'', JBool False)])]"

definition fail_rejected_wait ::
  "'s scheduler \<Rightarrow> string \<Rightarrow> (string \<times> dict) list \<Rightarrow> dict \<Rightarrow> ('s, unit) eff" where
  "fail_rejected_wait sc timestamp approvals task =
     (if dget task ''kind'' \<noteq> JStr ''TaskExecution'' \<or> dget task ''status'' \<noteq> JStr ''AWAITING_APPROVAL'' then ret ()
      else let approval_id = dget task ''approvalId'' in
        if \<not> truthy approval_id then ret ()
        else case map_of approvals (py_str approval_id) of
          None \<Rightarrow> ret ()
        | Some approval \<Rightarrow>
            thenE (checkE (hashable (dget approval ''status'')) unhashable_error)
            (if \<not> in_strs (dget approval ''status'') [''REJECTED'', ''EXPIRED''] then ret ()
             else thenE (transition_and_emit sc task FAILED ''TaskExecutionFailed'' timestamp rejection_failure)
                  (ret ())))"

definition fail_rejected_approval_waits :: "'s scheduler \<Rightarrow> string \<Rightarrow> string \<Rightarrow> ('s, unit) eff" where
  "fail_rejected_approval_waits sc workflow_id timestamp =
     bindE (op_list_by_workflow_execution (sc_store sc) workflow_id) (\<lambda>records.
     forE records (fail_rejected_wait sc timestamp (records_by_id ''Approval'' records)))"

definition resolved_task_plan :: "task_plan \<Rightarrow> json" where
  "resolved_task_plan plan =
     JList (map (\<lambda>n. JObj [(''taskRef'', ref_record (pn_ref n)),
                         (''dependencies'', JList (map ref_record (pn_dependencies n)))]) (tp_nodes plan))"

definition ensure_resolved_task_plan :: "'s scheduler \<Rightarrow> string \<Rightarrow> task_plan \<Rightarrow> string \<Rightarrow> ('s, unit) eff" where
  "ensure_resolved_task_plan sc workflow_id plan timestamp =
     (let expected = resolved_task_plan plan;
          mismatch = scheduler_input_error ''resolved task plan does not match persisted evidence'' in
      bindE (op_get (sc_store sc) workflow_id) (\<lambda>found.
      case found of
        None \<Rightarrow> throw (scheduler_input_error ''WorkflowExecution must exist in the runtime store'')
      | Some persisted \<Rightarrow>
          let existing = dget persisted ''resolvedTaskPlan'' in
          if existing \<noteq> JNull then (if py_eq existing expected then ret () else throw mismatch)
          else
            thenE (liftR (validate_runtime_record (sc_env sc) ''workflowexecution.schema.json''
              (dput ''updatedAt'' (JStr timestamp) (dput ''resolvedTaskPlan'' expected persisted))))
            (bindE (liftR (getitem persisted ''status'')) (\<lambda>status.
             catchE (thenE (op_update_status (sc_store sc) workflow_id (py_str status) (Some (py_str status))
                              (Some timestamp) [(''resolvedTaskPlan'', expected)]) (ret ()))
               (\<lambda>e. if \<not> instance_of e ValueError then throw e
                    else bindE (op_get (sc_store sc) workflow_id) (\<lambda>again.
                      case again of
                        None \<Rightarrow> throw mismatch
                      | Some p \<Rightarrow> if py_eq (dget p ''resolvedTaskPlan'') expected then ret ()
                                  else throw mismatch))))))"

text \<open>A stored timestamp, or the reconciliation's when it is not one.\<close>

definition stored_timestamp :: "json \<Rightarrow> string \<Rightarrow> string" where
  "stored_timestamp v timestamp =
     (if is_str v \<and> is_rfc3339_timestamp v then as_str v else timestamp)"

definition adopt_terminal_evidence :: "'s scheduler \<Rightarrow> string \<Rightarrow> dict \<Rightarrow> ('s, dict) eff" where
  "adopt_terminal_evidence sc timestamp attempt =
     (let evidence = dget attempt ''terminalEvidence''; terminal = mget evidence ''status'' in
      if \<not> (dget attempt ''status'' = JStr ''RUNNING'' \<and> is_mapping evidence) then ret attempt
      else thenE (checkE (hashable terminal) unhashable_error)
       (if \<not> in_strs terminal [''SUCCEEDED'', ''FAILED''] then ret attempt
        else bindE (liftR (id_str attempt)) (\<lambda>tid.
          op_update_status (sc_store sc) tid (as_str terminal) (Some ''RUNNING'')
            (Some (stored_timestamp (dget attempt ''updatedAt'') timestamp))
            (filter (\<lambda>(k, v). k \<noteq> ''status'') (as_dict evidence)))))"

definition repair_attempt :: "'s scheduler \<Rightarrow> string \<Rightarrow> string \<Rightarrow> dict \<Rightarrow> ('s, unit) eff" where
  "repair_attempt sc workflow_id timestamp attempt =
     (if dget attempt ''kind'' \<noteq> JStr ''TaskExecution'' then ret ()
      else
        bindE (liftR (id_str attempt)) (\<lambda>tid.
        thenE (op_append_task_execution_id (sc_store sc) workflow_id tid (Some timestamp))
        (thenE (sc_emit sc attempt ''TaskExecutionQueued'' 1 timestamp)
        (thenE (if dget attempt ''startedAt'' \<noteq> JNull
                then sc_emit sc attempt ''TaskExecutionStarted'' 2
                       (stored_timestamp (dget attempt ''startedAt'') timestamp)
                else ret ())
        (bindE (adopt_terminal_evidence sc timestamp attempt) (\<lambda>attempt.
         let status = dget attempt ''status'' in
         thenE (checkE (hashable status) unhashable_error)
         (if status = JStr ''SUCCEEDED''
          then sc_emit sc attempt ''TaskExecutionSucceeded'' 3
                 (stored_timestamp (dget attempt ''completedAt'') timestamp)
          else if status = JStr ''FAILED''
          then sc_emit sc attempt ''TaskExecutionFailed'' 3
                 (stored_timestamp (dget attempt ''completedAt'') timestamp)
          else ret ())))))))"

definition repair_attempt_evidence :: "'s scheduler \<Rightarrow> string \<Rightarrow> string \<Rightarrow> ('s, unit) eff" where
  "repair_attempt_evidence sc workflow_id timestamp =
     bindE (op_list_by_workflow_execution (sc_store sc) workflow_id) (\<lambda>records.
     forE records (repair_attempt sc workflow_id timestamp))"

end
