(* ===== verification/Reconciliation.thy ===== *)
theory Reconciliation
  imports Scheduler
begin

text \<open>
  One reconciliation of the scheduler: the ready wave as a function of the persisted
  records, the creation of its attempts, and the start, dispatch and completion of each
  (\<open>WorkflowScheduler.reconcile\<close> and the methods it calls after the repairs).
\<close>

section \<open>The ready wave\<close>

text \<open>\<open>int(v)\<close>; texts are optionally signed decimal numerals.\<close>

definition parse_int :: "string \<Rightarrow> int option" where
  "parse_int s =
     (let t = py_strip s;
          (sign, ds) = (case t of [] \<Rightarrow> (1, []) | c # r \<Rightarrow>
             if c = CHR ''-'' then (- 1, r) else if c = CHR ''+'' then (1, r) else (1, t))
      in if ds \<noteq> [] \<and> list_all is_digit ds then Some (sign * digits_value ds) else None)"

fun py_int :: "json \<Rightarrow> exn + int" where
  "py_int (JInt i) = Inr i"
| "py_int (JBool b) = Inr (if b then 1 else 0)"
| "py_int (JFloat f) = (case f of Finite r \<Rightarrow> Inr (if r < 0 then \<lceil>r\<rceil> else \<lfloor>r\<rfloor>)
     | _ \<Rightarrow> Inl (value_error ''cannot convert float to integer''))"
| "py_int (JStr s) = (case parse_int s of Some i \<Rightarrow> Inr i
     | None \<Rightarrow> Inl (value_error (''invalid literal for int() with base 10: '' @ repr_str s)))"
| "py_int v = Inl (type_error ''int() argument must be a string or a real number'')"

type_synonym attempts = "(resource_ref \<times> dict list) list"

definition attempts_of :: "attempts \<Rightarrow> resource_ref \<Rightarrow> dict list" where
  "attempts_of m ref = (case map_of m ref of None \<Rightarrow> [] | Some as \<Rightarrow> as)"

definition group_attempt :: "attempts \<Rightarrow> dict \<Rightarrow> attempts" where
  "group_attempt m r =
     (if dget r ''kind'' \<noteq> JStr ''TaskExecution'' then m
      else case ref_from_record (dget r ''taskRef'') of
        None \<Rightarrow> m
      | Some ref \<Rightarrow> AList.update ref (attempts_of m ref @ [r]) m)"

definition sort_attempts :: "dict list \<Rightarrow> exn + dict list" where
  "sort_attempts as =
     bindR (mapR (\<lambda>a. bindR (getitem a ''attempt'') py_int) as) (\<lambda>keys.
     Inr (map snd (sort_key fst (zip keys as))))"

definition attempts_by_task :: "dict list \<Rightarrow> exn + attempts" where
  "attempts_by_task records =
     mapR (\<lambda>(ref, as). bindR (sort_attempts as) (\<lambda>sorted. Inr (ref, sorted)))
       (foldl group_attempt [] records)"

definition succeeded :: "dict \<Rightarrow> bool" where
  "succeeded a \<longleftrightarrow> dget a ''status'' = JStr ''SUCCEEDED''"

fun succeeded_ids :: "attempts \<Rightarrow> resource_ref list \<Rightarrow> exn + string list option" where
  "succeeded_ids m [] = Inr (Some [])"
| "succeeded_ids m (d # ds) =
     (case find succeeded (rev (attempts_of m d)) of
        None \<Rightarrow> Inr None
      | Some a \<Rightarrow> bindR (id_str a) (\<lambda>i. bindR (succeeded_ids m ds) (\<lambda>r. Inr (map_option ((#) i) r))))"

definition parse_timestamp :: "environment \<Rightarrow> string \<Rightarrow> exn + pytime" where
  "parse_timestamp env s =
     (case parse_time (env_iso env) s of
        None \<Rightarrow> Inl (value_error (''Invalid isoformat string: '' @ repr_str (replace_Z s)))
      | Some t \<Rightarrow> Inr t)"

definition retry_is_ready :: "environment \<Rightarrow> dict \<Rightarrow> int \<Rightarrow> string \<Rightarrow> exn + bool" where
  "retry_is_ready env attempt max_attempts timestamp =
     (let failure = dget attempt ''failure'';
          not_before = (if is_mapping failure then mget failure ''retryNotBefore'' else JNull) in
      if \<not> retryable_attempt attempt then Inr False
      else bindR (bindR (getitem attempt ''attempt'') py_int) (\<lambda>n.
        if \<not> n < max_attempts then Inr False
        else if \<not> is_str not_before then Inr True
        else bindR (parse_timestamp env timestamp) (\<lambda>now.
             bindR (parse_timestamp env (as_str not_before)) (\<lambda>earliest. time_ge now earliest))))"

text \<open>A node to run: with the latest attempt, if any, and the ids of its dependencies' successes.\<close>

type_synonym ready_entry = "plan_node \<times> dict option \<times> string list"

definition ready_entry :: "'s scheduler \<Rightarrow> attempts \<Rightarrow> string \<Rightarrow> plan_node \<Rightarrow> exn + ready_entry list" where
  "ready_entry sc m timestamp node =
     (let as = attempts_of m (pn_ref node) in
      bindR (succeeded_ids m (pn_dependencies node)) (\<lambda>ids.
      case ids of
        None \<Rightarrow> Inr []
      | Some deps \<Rightarrow>
          if as = [] then Inr [(node, None, deps)]
          else let latest = last as in
            if dget latest ''status'' = JStr ''PENDING'' then Inr [(node, Some latest, deps)]
            else if dget latest ''status'' = JStr ''RUNNING'' \<and> dget latest ''dispatchState'' = JStr ''PENDING''
            then Inr [(node, Some latest, deps)]
            else bindR (retry_is_ready (sc_env sc) latest (sc_max_attempts sc) timestamp) (\<lambda>retry.
                 Inr (if retry then [(node, Some latest, deps)] else []))))"

definition ready_wave :: "'s scheduler \<Rightarrow> task_plan \<Rightarrow> dict list \<Rightarrow> string \<Rightarrow> exn + ready_entry list" where
  "ready_wave sc plan records timestamp =
     bindR (attempts_by_task records) (\<lambda>m.
     bindR (mapR (ready_entry sc m timestamp) (tp_nodes plan)) (\<lambda>entries. Inr (concat entries)))"

section \<open>Creating the attempts of a wave\<close>

definition create_attempt ::
  "'s scheduler \<Rightarrow> resource_ref \<Rightarrow> run_inputs \<Rightarrow> string list \<Rightarrow> string \<Rightarrow> ('s, dict) eff" where
  "create_attempt sc ref inputs dependency_ids timestamp =
     (let tid = task_execution_id (sc_env sc) (ri_workflow inputs) ref 1;
          workflow = ri_workflow inputs;
          provenance =
            [(''actor'', JStr ''workflow-scheduler''), (''workflowExecutionId'', JStr workflow),
             (''repositoryRevision'', JStr (ri_revision inputs)), (''resourceRefs'', JList [ref_record ref])]
            @ (if nonempty_str (ri_graph_version inputs)
               then [(''knowledgeGraphVersion'', ri_graph_version inputs)] else [])
      in lc_create (sc_lifecycle sc) tid (JStr workflow) (ref_record ref) (JInt 1)
           (BoundaryFields [(''traceId'', JStr (ri_trace inputs)), (''workflowExecutionId'', JStr workflow),
              (''taskExecutionId'', JStr tid)])
           timestamp provenance (map JStr dependency_ids))"

definition attempt_for :: "'s scheduler \<Rightarrow> run_inputs \<Rightarrow> string \<Rightarrow> ready_entry \<Rightarrow> ('s, dict) eff" where
  "attempt_for sc inputs timestamp entry =
     (case entry of (node, latest, deps) \<Rightarrow>
       (case latest of
          None \<Rightarrow> create_attempt sc (pn_ref node) inputs deps timestamp
        | Some a \<Rightarrow>
            thenE (checkE (hashable (dget a ''status'')) unhashable_error)
            (if in_strs (dget a ''status'') [''PENDING'', ''RUNNING''] then ret a
             else bindE (liftR (bindR (getitem a ''attempt'') py_int)) (\<lambda>n.
                  bindE (liftR (id_str a)) (\<lambda>tid.
                  lc_retry (sc_lifecycle sc) tid
                    (task_execution_id (sc_env sc) (ri_workflow inputs) (pn_ref node) (n + 1)) timestamp)))))"

definition prepare_attempt :: "'s scheduler \<Rightarrow> run_inputs \<Rightarrow> string \<Rightarrow> ready_entry \<Rightarrow> ('s, dict) eff" where
  "prepare_attempt sc inputs timestamp entry =
     bindE (attempt_for sc inputs timestamp entry) (\<lambda>attempt.
     bindE (liftR (id_str attempt)) (\<lambda>tid.
     thenE (op_append_task_execution_id (sc_store sc) (ri_workflow inputs) tid (Some timestamp))
     (thenE (sc_emit sc attempt ''TaskExecutionQueued'' 1 timestamp)
     (ret attempt))))"

section \<open>Starting an attempt\<close>

definition task_event_exists :: "'s scheduler \<Rightarrow> dict \<Rightarrow> string \<Rightarrow> ('s, bool) eff" where
  "task_event_exists sc task_execution event_type =
     bindE (liftR (id_str task_execution)) (\<lambda>tid.
     bindE (op_list_by_task_execution (sc_store sc) tid) (\<lambda>records.
     ret (list_ex (\<lambda>r. dget r ''kind'' = JStr ''ExecutionEvent'' \<and> dget r ''eventType'' = JStr event_type)
            records)))"

definition persist_recovered_start_diagnostics ::
  "'s scheduler \<Rightarrow> dict \<Rightarrow> json \<Rightarrow> string \<Rightarrow> ('s, dict) eff" where
  "persist_recovered_start_diagnostics sc running diagnostics timestamp =
     bindE (liftR (id_str running)) (\<lambda>tid.
     catchE (op_update_status (sc_store sc) tid ''RUNNING'' (Some ''RUNNING'') (Some timestamp)
               [(''persistenceDiagnostics'', diagnostics)])
       (\<lambda>e. if \<not> instance_of e RuntimeStoreError then throw e
            else bindE (op_get (sc_store sc) tid) (\<lambda>persisted.
              case persisted of
                None \<Rightarrow> throw e
              | Some p \<Rightarrow>
                  if dget p ''status'' \<noteq> JStr ''RUNNING'' then throw e
                  else if py_eq (dget p ''persistenceDiagnostics'') diagnostics then ret p
                  else bindE (task_event_exists sc p ''TaskExecutionStarted'') (\<lambda>_. throw e))))"

text \<open>Recovery of a diagnosed start; the recursive call has one unit of fuel less.\<close>

definition recursion_error :: exn where
  "recursion_error = Exn (OtherException ''RecursionError'') ''maximum recursion depth exceeded'' JNull"

definition ambiguous_start :: "dict \<Rightarrow> exn" where
  "ambiguous_start details = Exn RuntimeStoreError ''durable start checkpoint outcome is ambiguous'' (JObj details)"

definition recovery_start_changes :: "json \<Rightarrow> string \<Rightarrow> dict" where
  "recovery_start_changes diagnostics timestamp =
     [(''startedAt'', JStr timestamp), (''dispatchState'', JStr ''PENDING''),
      (''persistenceDiagnostics'', diagnostics)]"

fun recover_durable_start :: "nat \<Rightarrow> 's scheduler \<Rightarrow> dict \<Rightarrow> string \<Rightarrow> dict \<Rightarrow> ('s, dict) eff" where
  "recover_durable_start 0 sc attempt timestamp diag = throw recursion_error"
| "recover_durable_start (Suc fuel) sc attempt timestamp diag =
     (let details = safe_persistence_details (JObj diag) in
      bindE (liftR (id_str attempt)) (\<lambda>tid.
      bindE (op_get (sc_store sc) tid) (\<lambda>found.
      case found of
        None \<Rightarrow> throw (Exn RuntimeStoreError ''durable start recovery lost its TaskExecution'' (JObj details))
      | Some persisted \<Rightarrow>
          bindE (liftR (append_persistence_diagnostic persisted details)) (\<lambda>diagnostics.
          if dget persisted ''status'' = JStr ''PENDING'' then
            catchE (transition_and_emit sc persisted RUNNING ''TaskExecutionStarted'' timestamp
                      (recovery_start_changes diagnostics timestamp))
              (\<lambda>e. if \<not> instance_of e RuntimeStoreError then throw e
                   else if diagnostic e \<noteq> [] \<and> can_adopt_committed_start (diagnostic e)
                   then recover_durable_start fuel sc persisted timestamp (diagnostic e)
                   else throw e)
          else
            bindE (if can_adopt_committed_start diag \<and> dget persisted ''status'' = JStr ''RUNNING''
                   then task_event_exists sc persisted ''TaskExecutionStarted'' else ret False) (\<lambda>adopt.
            if adopt then persist_recovered_start_diagnostics sc persisted diagnostics timestamp
            else throw (ambiguous_start details))))))"

text \<open>\<open>None\<close> is the \<open>continue\<close> of the dispatch loop.\<close>

definition skip_store_errors :: "('s, dict) eff \<Rightarrow> ('s, dict option) eff" where
  "skip_store_errors m =
     catchE (bindE m (\<lambda>r. ret (Some r)))
       (\<lambda>e. if instance_of e RuntimeStoreError then ret None else throw e)"

definition resume_interrupted :: "'s scheduler \<Rightarrow> dict \<Rightarrow> string \<Rightarrow> ('s, dict option) eff" where
  "resume_interrupted sc attempt timestamp =
     (if truthy (dget attempt ''persistenceDiagnostics'') then ret (Some attempt)
      else skip_store_errors
        (bindE (liftR (append_persistence_diagnostic attempt
           [(''operation'', JStr ''dispatch_recovery''), (''phase'', JStr ''resume''), (''category'', JStr ''interrupted'')]))
         (\<lambda>diagnostics. persist_recovered_start_diagnostics sc attempt diagnostics timestamp)))"

definition start_attempt :: "nat \<Rightarrow> 's scheduler \<Rightarrow> dict \<Rightarrow> string \<Rightarrow> ('s, dict option) eff" where
  "start_attempt fuel sc attempt timestamp =
     (let durable = op_atomic_task_transitions (sc_store sc);
          changes = [(''startedAt'', JStr timestamp)]
                    @ (if durable then [(''dispatchState'', JStr ''PENDING'')] else []) in
      if durable \<and> dget attempt ''status'' = JStr ''RUNNING'' \<and> dget attempt ''dispatchState'' = JStr ''PENDING''
      then resume_interrupted sc attempt timestamp
      else catchE (bindE (transition_and_emit sc attempt RUNNING ''TaskExecutionStarted'' timestamp changes)
                     (\<lambda>r. ret (Some r)))
        (\<lambda>e. if instance_of e InvalidTaskTransitionError \<or> instance_of e StatusConflictError then ret None
             else if durable \<and> instance_of e RuntimeStoreError \<and> diagnostic e \<noteq> []
                     \<and> can_recover_start (diagnostic e)
             then bindE (recover_durable_start fuel sc attempt timestamp (diagnostic e)) (\<lambda>r. ret (Some r))
             else ret None))"

definition claim_durable_dispatch :: "'s scheduler \<Rightarrow> dict \<Rightarrow> string \<Rightarrow> ('s, bool \<times> dict) eff" where
  "claim_durable_dispatch sc running timestamp =
     bindE (liftR (id_str running)) (\<lambda>tid.
     let owner = sc_owner sc tid in
     catchE (op_claim_task_dispatch (sc_store sc) tid owner timestamp)
       (\<lambda>e. if \<not> instance_of e RuntimeStoreError then throw e
            else bindE (op_get (sc_store sc) tid) (\<lambda>persisted.
              case persisted of
                None \<Rightarrow> throw e
              | Some p \<Rightarrow>
                  if dget p ''dispatchState'' = JStr ''CLAIMED'' \<and> dget p ''dispatchOwnerId'' = JStr owner
                  then ret (True, p) else throw e)))"

text \<open>
  The claim of a durable store, or the started event of the others; a failure to record
  the event fails the attempt and is raised again.
\<close>

definition acquire_attempt :: "'s scheduler \<Rightarrow> dict \<Rightarrow> string \<Rightarrow> ('s, dict option) eff" where
  "acquire_attempt sc running timestamp =
     (if op_atomic_task_transitions (sc_store sc) then
        catchE (bindE (claim_durable_dispatch sc running timestamp) (\<lambda>(claimed, r).
                  ret (if claimed then Some r else None)))
          (\<lambda>e. if instance_of e RuntimeStoreError then ret None else throw e)
      else
        catchE (thenE (sc_emit sc running ''TaskExecutionStarted'' 2 timestamp) (ret (Some running)))
          (\<lambda>e. thenE (fail_running sc running RECOVERABLE ''ExecutionEvent persistence failure'' timestamp
                        None (Some (safe_persistence_details
                          (if instance_of e RuntimeStoreError then exn_info e else JObj []))))
               (throw e)))"

section \<open>Executing and finishing an attempt\<close>

definition run_executor :: "'s scheduler \<Rightarrow> resource \<Rightarrow> dict \<Rightarrow> ('s, task_result) eff" where
  "run_executor sc task running =
     catchE (bindE (sc_execute sc task running) (\<lambda>result.
        case result of
          None \<Rightarrow> throw (type_error ''Task executor must return TaskExecutionResult'')
        | Some r \<Rightarrow> thenE (liftR (result_validate r)) (ret r)))
       (\<lambda>e. ret (executor_failed e))"

definition failure_of_result :: "task_result \<Rightarrow> dict" where
  "failure_of_result r =
     [(''class'', JStr (case tr_failure_class r of None \<Rightarrow> [] | Some c \<Rightarrow> class_value c)),
      (''message'', JStr (case tr_message r of None \<Rightarrow> ''Task execution failed''
                       | Some m \<Rightarrow> if m = [] then ''Task execution failed'' else m)),
      (''retryable'', JBool (tr_failure_class r = Some RECOVERABLE))]
     @ (case tr_retry_not_before r of None \<Rightarrow> [] | Some t \<Rightarrow> [(''retryNotBefore'', JStr t)])
     @ (if tr_details r = JNull then [] else [(''details'', tr_details r)])"

definition await_approval :: "'s scheduler \<Rightarrow> dict \<Rightarrow> task_result \<Rightarrow> string \<Rightarrow> ('s, unit) eff" where
  "await_approval sc running result timestamp =
     bindE (liftR (py_dict (tr_approval result))) (\<lambda>approval.
     bindE (op_get (sc_store sc) (py_str (dget approval ''policyDecisionId''))) (\<lambda>policy.
     case policy of
       None \<Rightarrow> throw (scheduler_input_error ''approval PolicyDecision was not persisted'')
     | Some p \<Rightarrow>
         bindE (transition_and_emit sc running AWAITING_APPROVAL ''TaskExecutionAwaitingApproval'' timestamp
           [(''pendingApprovalRequest'',
             JObj (dput ''expectedCurrentApprovalId'' (dget running ''approvalId'') approval))]) (\<lambda>waiting.
         bindE (liftR (py_dict (dget_or waiting ''pendingApprovalRequest'' (JObj approval)))) (\<lambda>request.
         bindE (liftR (getitem request ''approvalId'')) (\<lambda>aid.
         request_from_intent sc request (py_str aid) p timestamp)))))"

definition terminal_changes_update :: "dict \<Rightarrow> dict \<Rightarrow> dict" where
  "terminal_changes_update running evi =
     [(''terminalEvidence'', JObj evi)]
     @ (if is_list (dget running ''persistenceDiagnostics'')
        then [(''persistenceDiagnostics'',
               JList (last8 (filter is_mapping (as_list (dget running ''persistenceDiagnostics'')))))]
        else [])"

definition persist_terminal_evidence :: "'s scheduler \<Rightarrow> dict \<Rightarrow> dict \<Rightarrow> string \<Rightarrow> ('s, dict) eff" where
  "persist_terminal_evidence sc running evi timestamp =
     bindE (liftR (id_str running)) (\<lambda>tid.
     catchE (op_update_status (sc_store sc) tid ''RUNNING'' (Some ''RUNNING'') (Some timestamp)
               (terminal_changes_update running evi))
       (\<lambda>e. if \<not> instance_of e RuntimeStoreError \<or> diagnostic e = [] then throw e
            else bindE (op_get (sc_store sc) tid) (\<lambda>persisted.
              case persisted of
                None \<Rightarrow> throw e
              | Some p \<Rightarrow>
                  if dget p ''status'' \<noteq> JStr ''RUNNING'' then throw e
                  else bindE (liftR (append_persistence_diagnostic p
                              (safe_persistence_details (exn_info e)))) (\<lambda>diagnostics.
                    bindE (liftR (id_str p)) (\<lambda>pid.
                    op_update_status (sc_store sc) pid ''RUNNING'' (Some ''RUNNING'') (Some timestamp)
                      ([(''persistenceDiagnostics'', diagnostics)]
                       @ (if py_eq (dget p ''terminalEvidence'') (JObj evi) then []
                          else [(''terminalEvidence'', JObj evi)])))))))"

definition finish_attempt :: "'s scheduler \<Rightarrow> dict \<Rightarrow> task_result \<Rightarrow> string \<Rightarrow> ('s, unit) eff" where
  "finish_attempt sc running result timestamp =
     (let ok = tr_succeeded result;
          terminal_changes = (if ok then [] else [(''failure'', JObj (failure_of_result result))]);
          event_type = (if ok then ''TaskExecutionSucceeded'' else ''TaskExecutionFailed'') in
      if op_atomic_task_transitions (sc_store sc) then
        bindE (persist_terminal_evidence sc running
                 ((''status'', JStr (if ok then ''SUCCEEDED'' else ''FAILED'')) # terminal_changes) timestamp) (\<lambda>r.
        thenE (transition_and_emit sc r (if ok then SUCCEEDED else FAILED) event_type timestamp
                 terminal_changes) (ret ()))
      else
        bindE (if ok then complete_success sc running timestamp
               else fail_running sc running
                 (case tr_failure_class result of None \<Rightarrow> RECOVERABLE | Some c \<Rightarrow> c)
                 (case tr_message result of None \<Rightarrow> ''Task execution failed''
                  | Some m \<Rightarrow> if m = [] then ''Task execution failed'' else m) timestamp
                 (tr_retry_not_before result)
                 (if tr_details result = JNull then None else Some (as_dict (tr_details result)))) (\<lambda>terminal.
        sc_emit sc terminal event_type 3 timestamp))"

definition dispatch_attempt :: "nat \<Rightarrow> 's scheduler \<Rightarrow> task_plan \<Rightarrow> string \<Rightarrow> dict \<Rightarrow> ('s, unit) eff" where
  "dispatch_attempt fuel sc plan timestamp attempt =
     bindE (start_attempt fuel sc attempt timestamp) (\<lambda>started.
     case started of
       None \<Rightarrow> ret ()
     | Some started_record \<Rightarrow>
         bindE (acquire_attempt sc started_record timestamp) (\<lambda>acquired.
         case acquired of
           None \<Rightarrow> ret ()
         | Some running \<Rightarrow>
             bindE (liftR (getitem running ''taskRef'')) (\<lambda>ref_value.
             case Option.bind (ref_from_record ref_value) (get_node plan) of
               None \<Rightarrow> throw (scheduler_input_error ''TaskExecution is not present in plan'')
             | Some node \<Rightarrow>
                 bindE (run_executor sc (pn_task node) running) (\<lambda>result.
                 if \<not> tr_succeeded result \<and> tr_approval result \<noteq> JNull
                 then await_approval sc running result timestamp
                 else finish_attempt sc running result timestamp))))"

section \<open>The reconciliation\<close>

definition repairs :: "'s scheduler \<Rightarrow> string \<Rightarrow> task_plan \<Rightarrow> string \<Rightarrow> ('s, unit) eff" where
  "repairs sc workflow_id plan timestamp =
     thenE (recover_pending_approval_requests sc workflow_id timestamp)
     (thenE (recover_approved_task_wakeups sc workflow_id timestamp)
     (thenE (fail_rejected_approval_waits sc workflow_id timestamp)
     (thenE (ensure_resolved_task_plan sc workflow_id plan timestamp)
     (repair_attempt_evidence sc workflow_id timestamp))))"

definition reconcile :: "nat \<Rightarrow> 's scheduler \<Rightarrow> task_plan \<Rightarrow> json \<Rightarrow> ('s, dict list) eff" where
  "reconcile fuel sc plan workflow_execution =
     bindE (liftR (sc_timestamp sc)) (\<lambda>timestamp.
     bindE (validate_inputs sc plan workflow_execution) (\<lambda>inputs.
     thenE (repairs sc (ri_workflow inputs) plan timestamp)
     (bindE (op_list_by_workflow_execution (sc_store sc) (ri_workflow inputs)) (\<lambda>records.
      bindE (liftR (ready_wave sc plan records timestamp)) (\<lambda>wave.
      bindE (mapE (prepare_attempt sc inputs timestamp) wave) (\<lambda>scheduled.
      thenE (forE scheduled (dispatch_attempt fuel sc plan timestamp))
      (bindE (mapE (\<lambda>a. bindE (liftR (id_str a)) (op_get (sc_store sc))) scheduled) (\<lambda>persisted.
       ret (List.map_filter id persisted)))))))))"

end
