(* ===== verification/ReadyWave.thy ===== *)
theory ReadyWave
  imports Reconciliation
begin

text \<open>
  The ready wave against a declarative reading of the persisted records: a node is in it
  exactly when every dependency has a successful attempt on record, and its own latest
  attempt is missing, not yet started, started but not yet dispatched, or retryable.
\<close>

section \<open>The attempts on record\<close>

definition attempt_number :: "dict \<Rightarrow> int" where
  "attempt_number a = (case bindR (getitem a ''attempt'') py_int of Inr n \<Rightarrow> n | Inl e \<Rightarrow> 0)"

definition attempt_record_of :: "resource_ref \<Rightarrow> dict \<Rightarrow> bool" where
  "attempt_record_of ref r \<longleftrightarrow>
     dget r ''kind'' = JStr ''TaskExecution'' \<and> ref_from_record (dget r ''taskRef'') = Some ref"

text \<open>The attempts of a task, in the order of their numbers.\<close>

definition attempts_for :: "dict list \<Rightarrow> resource_ref \<Rightarrow> dict list" where
  "attempts_for records ref = sort_key attempt_number (filter (attempt_record_of ref) records)"

lemma attempts_of_update:
  "attempts_of (AList.update k v m) ref = (if k = ref then v else attempts_of m ref)"
  by (simp add: attempts_of_def update_conv')

lemma attempts_of_group:
  "attempts_of (foldl group_attempt m records) ref
     = attempts_of m ref @ filter (attempt_record_of ref) records"
  by (induction records arbitrary: m)
    (auto simp: group_attempt_def attempt_record_of_def attempts_of_update split: option.split)

lemma sort_key_map: "sort_key f (map g xs) = map g (sort_key (f \<circ> g) xs)"
proof -
  have "insort_key f (g x) (map g xs) = map g (insort_key (f \<circ> g) x xs)" for x xs
    by (induction xs) simp_all
  then show ?thesis by (induction xs) simp_all
qed

lemma mapR_function:
  "mapR f xs = Inr ys \<Longrightarrow> (\<And>x y. x \<in> set xs \<Longrightarrow> f x = Inr y \<Longrightarrow> g x = y) \<Longrightarrow> ys = map g xs"
  by (induction xs arbitrary: ys) (auto simp: bindR_eq_Inr)

lemma sort_attempts_Inr:
  assumes "sort_attempts as = Inr bs"
  shows "bs = sort_key attempt_number as"
proof -
  obtain keys where k: "mapR (\<lambda>a. bindR (getitem a ''attempt'') py_int) as = Inr keys"
    and bs: "bs = map snd (sort_key fst (zip keys as))"
    using assms by (auto simp: sort_attempts_def bindR_eq_Inr)
  have "keys = map attempt_number as"
    by (rule mapR_function[OF k]) (simp add: attempt_number_def)
  then have "zip keys as = map (\<lambda>a. (attempt_number a, a)) as"
    by (simp add: zip_map1 zip_same_conv_map)
  then show ?thesis by (simp add: bs sort_key_map comp_def)
qed

lemma map_of_mapR:
  assumes "mapR (\<lambda>(k, v). bindR (f v) (\<lambda>w. Inr (k, w))) m = Inr m'"
  shows "map_of m' k = (case map_of m k of None \<Rightarrow> None
     | Some v \<Rightarrow> (case f v of Inl e \<Rightarrow> None | Inr w \<Rightarrow> Some w))"
  using assms by (induction m arbitrary: m') (auto simp: bindR_eq_Inr)

lemma sort_attempts_Nil [simp]: "sort_attempts [] = Inr []"
  by (simp add: sort_attempts_def)

lemma attempts_by_task_Inr:
  assumes "attempts_by_task records = Inr m"
  shows "attempts_of m ref = attempts_for records ref"
proof -
  let ?g = "foldl group_attempt [] records"
  have sort: "\<exists>bs. sort_attempts as = Inr bs" if "map_of ?g ref = Some as" for as
  proof -
    have "list_all2 (\<lambda>(ref, as) y. bindR (sort_attempts as) (\<lambda>s. Inr (ref, s)) = Inr y) ?g m"
      using assms unfolding attempts_by_task_def mapR_Inr by (simp add: case_prod_unfold)
    then show ?thesis
      using map_of_SomeD[OF that] by (auto simp: list_all2_conv_all_nth in_set_conv_nth bindR_eq_Inr)
  qed
  have "attempts_of ?g ref = filter (attempt_record_of ref) records"
    using attempts_of_group[of "[]"] by (simp add: attempts_of_def)
  moreover have "attempts_of m ref = sort_key attempt_number (attempts_of ?g ref)"
    using map_of_mapR[OF assms[unfolded attempts_by_task_def], of ref] sort
    by (auto simp: attempts_of_def dest: sort_attempts_Inr split: option.splits)
  ultimately show ?thesis by (simp add: attempts_for_def)
qed

section \<open>Readiness\<close>

definition succeeded_as :: "dict list \<Rightarrow> resource_ref \<Rightarrow> string \<Rightarrow> bool" where
  "succeeded_as records ref i \<longleftrightarrow>
     (\<exists>a. find succeeded (rev (attempts_for records ref)) = Some a \<and> id_str a = Inr i)"

definition latest_attempt :: "dict list \<Rightarrow> resource_ref \<Rightarrow> dict option" where
  "latest_attempt records ref =
     (if attempts_for records ref = [] then None else Some (last (attempts_for records ref)))"

text \<open>Waiting to be started, or started but interrupted before its dispatch.\<close>

definition awaits_start :: "dict \<Rightarrow> bool" where
  "awaits_start a \<longleftrightarrow> dget a ''status'' = JStr ''PENDING''
     \<or> (dget a ''status'' = JStr ''RUNNING'' \<and> dget a ''dispatchState'' = JStr ''PENDING'')"

definition ready :: "'s scheduler \<Rightarrow> dict list \<Rightarrow> string \<Rightarrow> ready_entry \<Rightarrow> bool" where
  "ready sc records now entry \<longleftrightarrow>
     (case entry of (node, latest, deps) \<Rightarrow>
        latest = latest_attempt records (pn_ref node)
        \<and> list_all2 (succeeded_as records) (pn_dependencies node) deps
        \<and> (case latest of None \<Rightarrow> True
           | Some a \<Rightarrow> awaits_start a
               \<or> retry_is_ready (sc_env sc) a (sc_max_attempts sc) now = Inr True))"

lemma succeeded_as_unique: "succeeded_as records d i \<Longrightarrow> succeeded_as records d j \<Longrightarrow> i = j"
  by (auto simp: succeeded_as_def)

lemma succeeded_ids_sound:
  assumes "\<And>ref. attempts_of m ref = attempts_for records ref"
  shows "succeeded_ids m ds = Inr (Some ids) \<Longrightarrow> list_all2 (succeeded_as records) ds ids"
  by (induction ds arbitrary: ids)
    (auto simp: succeeded_as_def assms bindR_eq_Inr split: option.splits)

lemma succeeded_ids_complete:
  assumes "\<And>ref. attempts_of m ref = attempts_for records ref"
  shows "list_all2 (succeeded_as records) ds ids \<Longrightarrow> succeeded_ids m ds = Inr (Some ids)"
  by (induction ds ids rule: list_all2_induct) (auto simp: succeeded_as_def assms)

lemma ready_entry_Inr:
  assumes m: "\<And>ref. attempts_of m ref = attempts_for records ref"
    and e: "ready_entry sc m now node = Inr es"
  shows "entry \<in> set es \<longleftrightarrow> fst entry = node \<and> ready sc records now entry"
    and "subseq (map fst es) [node]"
proof -
  obtain ids where i: "succeeded_ids m (pn_dependencies node) = Inr ids"
    using e by (auto simp: ready_entry_def bindR_eq_Inr Let_def)
  obtain n l d where en: "entry = (n, l, d)" by (cases entry)
  have d: "list_all2 (succeeded_as records) (pn_dependencies node) d \<longleftrightarrow> ids = Some d" for d
  proof
    assume "list_all2 (succeeded_as records) (pn_dependencies node) d"
    from succeeded_ids_complete[of m records, OF m this] i show "ids = Some d" by simp
  next
    assume "ids = Some d"
    with i show "list_all2 (succeeded_as records) (pn_dependencies node) d"
      by (intro succeeded_ids_sound[of m, OF m]) simp
  qed
  show "entry \<in> set es \<longleftrightarrow> fst entry = node \<and> ready sc records now entry"
  proof (cases ids)
    case None
    then show ?thesis using e i d
      by (auto simp: en ready_entry_def ready_def)
  next
    case (Some deps)
    have dd: "list_all2 (succeeded_as records) (pn_dependencies node) x \<longleftrightarrow> x = deps" for x
      unfolding d Some by auto
    show ?thesis
    proof (cases "attempts_for records (pn_ref node) = []")
      case True
      have en_ready: "fst entry = node \<and> ready sc records now entry \<longleftrightarrow> entry = (node, None, deps)"
        using True by (auto simp: en ready_def latest_attempt_def dd)
      have "es = [(node, None, deps)]"
        using e True by (simp add: ready_entry_def i Some m)
      then show ?thesis unfolding en_ready by simp
    next
      case False
      let ?a = "last (attempts_for records (pn_ref node))"
      have en_ready: "fst entry = node \<and> ready sc records now entry \<longleftrightarrow> entry = (node, Some ?a, deps)
          \<and> (awaits_start ?a \<or> retry_is_ready (sc_env sc) ?a (sc_max_attempts sc) now = Inr True)"
        using False by (auto simp: en ready_def latest_attempt_def dd)
      have es: "(if awaits_start ?a then Inr [(node, Some ?a, deps)]
          else bindR (retry_is_ready (sc_env sc) ?a (sc_max_attempts sc) now) (\<lambda>retry.
            Inr (if retry then [(node, Some ?a, deps)] else []))) = Inr es"
        using e i Some False unfolding ready_entry_def Let_def awaits_start_def m
        by (auto split: if_splits)
      show ?thesis
        unfolding en_ready using es by (auto simp: bindR_eq_Inr split: if_splits)
    qed
  qed
  show "subseq (map fst es) [node]"
    using e i by (auto simp: ready_entry_def Let_def bindR_eq_Inr split: option.splits if_splits)
qed

lemma ready_wave_Inr:
  assumes "ready_wave sc plan records now = Inr wave"
  shows "entry \<in> set wave \<longleftrightarrow> fst entry \<in> set (tp_nodes plan) \<and> ready sc records now entry"
    and "subseq (map fst wave) (tp_nodes plan)"
proof -
  obtain m ess where m: "attempts_by_task records = Inr m"
    and es: "mapR (ready_entry sc m now) (tp_nodes plan) = Inr ess" and w: "wave = concat ess"
    using assms by (auto simp: ready_wave_def bindR_eq_Inr)
  note e = ready_entry_Inr[OF attempts_by_task_Inr[OF m]]
  have "list_all2 (\<lambda>n xs. ready_entry sc m now n = Inr xs) (tp_nodes plan) ess"
    using es by (simp add: mapR_Inr)
  then have "(entry \<in> set (concat ess) \<longleftrightarrow> fst entry \<in> set (tp_nodes plan) \<and> ready sc records now entry)
      \<and> subseq (map fst (concat ess)) (tp_nodes plan)"
  proof (induction rule: list_all2_induct)
    case (Cons n ns xs xss)
    have "subseq (map fst xs @ map fst (concat xss)) ([n] @ ns)"
      using Cons e(2)[OF Cons(1)] by (intro list_emb_append_mono) simp_all
    with Cons e(1)[OF Cons(1)] show ?case by auto
  qed simp
  then show "entry \<in> set wave \<longleftrightarrow> fst entry \<in> set (tp_nodes plan) \<and> ready sc records now entry"
    "subseq (map fst wave) (tp_nodes plan)" by (simp_all add: w)
qed

end
