(* ===== verification/ScheduleSafety.thy ===== *)
theory ScheduleSafety
  imports ReadyWave
begin

text \<open>
  What a reconciliation guarantees, over any store that provides the interface and any
  executor that respects the same relation: objects only evolve, a status only moves to the
  ones the scheduler sets, new objects are events, pending approvals and pending attempts
  within the attempt limit, and no attempt ever exists whose dependencies have not
  succeeded.
\<close>

section \<open>The relation\<close>

definition scheduler_edges :: "(string \<times> string) set" where
  "scheduler_edges =
     UNIV \<times> set [''RUNNING'', ''SUCCEEDED'', ''FAILED'', ''AWAITING_APPROVAL'']
     \<union> {(''AWAITING_APPROVAL'', ''PENDING'')}"

text \<open>
  The records a reconciliation creates: events, approvals and what its executor adds, and
  the attempts.
\<close>

definition scheduler_record :: "dict \<Rightarrow> bool" where
  "scheduler_record d \<longleftrightarrow> dget d ''kind'' \<noteq> JStr ''TaskExecution''"

definition scheduler_attempt :: "int \<Rightarrow> dict \<Rightarrow> bool" where
  "scheduler_attempt limit d \<longleftrightarrow>
     dget d ''kind'' = JStr ''TaskExecution'' \<and> dget d ''status'' = JStr ''PENDING''
     \<and> is_int (dget d ''attempt'') \<and> 1 \<le> as_int (dget d ''attempt'') \<and> as_int (dget d ''attempt'') \<le> limit"

definition scheduler_object :: "int \<Rightarrow> dict \<Rightarrow> bool" where
  "scheduler_object limit d \<longleftrightarrow> scheduler_record d \<or> scheduler_attempt limit d"

definition task_succeeded :: "('s \<Rightarrow> string \<Rightarrow> dict option) \<Rightarrow> 's \<Rightarrow> string \<Rightarrow> bool" where
  "task_succeeded view s i \<longleftrightarrow>
     (case view s i of None \<Rightarrow> False
      | Some u \<Rightarrow> dget u ''kind'' = JStr ''TaskExecution'' \<and> succeeded u)"

definition deps_done :: "('s \<Rightarrow> string \<Rightarrow> dict option) \<Rightarrow> 's \<Rightarrow> json \<Rightarrow> bool" where
  "deps_done view s ds \<longleftrightarrow> (ds = JNull \<or> is_list ds)
     \<and> list_all (\<lambda>x. is_str x \<and> task_succeeded view s (as_str x)) (as_list ds)"

text \<open>Every attempt on record was created after its dependencies succeeded.\<close>

definition deps_inv :: "('s \<Rightarrow> string \<Rightarrow> dict option) \<Rightarrow> 's \<Rightarrow> bool" where
  "deps_inv view s \<longleftrightarrow>
     (\<forall>oid v. view s oid = Some v \<longrightarrow> dget v ''kind'' = JStr ''TaskExecution''
        \<longrightarrow> deps_done view s (dget v ''dependencyTaskExecutionIds''))"

text \<open>\<open>E\<close> holds the status changes, those of the scheduler and those its executor may add.\<close>

definition safe ::
  "('s \<Rightarrow> bool) \<Rightarrow> ('s \<Rightarrow> string \<Rightarrow> dict option) \<Rightarrow> (string \<times> string) set \<Rightarrow> int
   \<Rightarrow> 's \<Rightarrow> 's \<Rightarrow> bool" where
  "safe ok view E limit s t \<longleftrightarrow>
     moves ok view E (scheduler_object limit) s t
     \<and> (ok s \<longrightarrow> deps_inv view s \<longrightarrow> deps_inv view t)"

text \<open>The attempts on record in the second state and not in the first.\<close>

definition added_attempts ::
  "('s \<Rightarrow> string \<Rightarrow> dict option) \<Rightarrow> 's \<Rightarrow> 's \<Rightarrow> dict set" where
  "added_attempts view s t =
     {v. \<exists>oid. view s oid = None \<and> view t oid = Some v \<and> dget v ''kind'' = JStr ''TaskExecution''}"

lemma step_rel_safe: "step_rel (safe ok view E limit)"
proof
  fix s t u
  assume st: "safe ok view E limit s t" and tu: "safe ok view E limit t u"
  then have "moves ok view E (scheduler_object limit) s t"
    and "moves ok view E (scheduler_object limit) t u" by (simp_all add: safe_def)
  then have "moves ok view E (scheduler_object limit) s u"
    by (rule step_rel.trans[OF step_rel_moves])
  then show "safe ok view E limit s u"
    using st tu unfolding safe_def by (auto simp: moves_def)
qed (simp add: safe_def step_rel.refl[OF step_rel_moves])

sublocale runtime_store \<subseteq> safety: step_rel "safe ok view E limit" for E limit
  by (rule step_rel_safe)

subsection \<open>What is stable\<close>

lemma completed_task_same:
  assumes "evolves u u'" "completed u" "dget u ''kind'' = JStr ''TaskExecution''"
  shows "map_of u' = map_of u"
  using assms by (auto simp: evolves_def frozen_as_def)

lemma task_succeeded_evolves:
  assumes "evolves u u'" "dget u ''kind'' = JStr ''TaskExecution''" "succeeded u"
  shows "dget u' ''kind'' = JStr ''TaskExecution''" "succeeded u'"
proof -
  have "completed u" using assms(3) by (simp add: completed_def succeeded_def terminal_statuses_def)
  then have "map_of u' = map_of u" using completed_task_same assms by blast
  then show "dget u' ''kind'' = JStr ''TaskExecution''" "succeeded u'"
    using assms(2,3) by (simp_all add: dget_def succeeded_def)
qed

lemma task_succeeded_stable:
  assumes "grows ok view s t" "ok s" "task_succeeded view s i"
  shows "task_succeeded view t i"
proof -
  obtain u where u: "view s i = Some u" "dget u ''kind'' = JStr ''TaskExecution''" "succeeded u"
    using assms(3) by (auto simp: task_succeeded_def split: option.splits)
  then obtain u' where "view t i = Some u'" "evolves u u'"
    using assms(1,2) unfolding grows_def by blast
  with u task_succeeded_evolves show ?thesis by (auto simp: task_succeeded_def)
qed

lemma deps_done_stable:
  "grows ok view s t \<Longrightarrow> ok s \<Longrightarrow> deps_done view s ds \<Longrightarrow> deps_done view t ds"
  by (auto simp: deps_done_def list_all_iff intro: task_succeeded_stable)

lemma evolves_dependencies:
  assumes "evolves v v'" "dget v ''kind'' = JStr ''TaskExecution''"
  shows "dget v' ''dependencyTaskExecutionIds'' = dget v ''dependencyTaskExecutionIds''"
  using evolves_identity[OF assms(1), of "''dependencyTaskExecutionIds''"] assms(2)
  by (simp add: dget_def identity_fields_def kind_identity_fields_def)

text \<open>A step is safe when the attempts it creates have their dependencies done.\<close>

lemma moves_safe:
  assumes mv: "moves ok view F N s t" and F: "F \<subseteq> E\<^sup>*"
    and N: "\<And>d. N d \<Longrightarrow> scheduler_object limit d"
    and new: "\<And>d. ok s \<Longrightarrow> deps_inv view s \<Longrightarrow> N d \<Longrightarrow> dget d ''kind'' = JStr ''TaskExecution''
        \<Longrightarrow> deps_done view s (dget (canon_dict d) ''dependencyTaskExecutionIds'')"
  shows "safe ok view E limit s t"
  unfolding safe_def
proof (intro conjI impI)
  show "moves ok view E (scheduler_object limit) s t"
    using moves_mono[OF mv F N] .
  assume ok: "ok s" and inv: "deps_inv view s"
  have gr: "grows ok view s t" using mv by (rule moves_grows)
  show "deps_inv view t"
    unfolding deps_inv_def
  proof (intro allI impI)
    fix oid v
    assume v: "view t oid = Some v" and k: "dget v ''kind'' = JStr ''TaskExecution''"
    show "deps_done view t (dget v ''dependencyTaskExecutionIds'')"
    proof (cases "view s oid")
      case (Some v0)
      then have "evolves v0 v" using gr ok v unfolding grows_def by fastforce
      moreover from this have "dget v0 ''kind'' = JStr ''TaskExecution''"
        using k evolves_kind by metis
      ultimately show ?thesis
        using inv Some evolves_dependencies deps_done_stable[OF gr ok] unfolding deps_inv_def by metis
    next
      case None
      then obtain d where d: "N d" "evolves (canon_dict d) v"
        using mv ok v unfolding moves_def by blast
      then have kd: "dget (canon_dict d) ''kind'' = JStr ''TaskExecution''"
        using k evolves_kind by metis
      then have "deps_done view s (dget (canon_dict d) ''dependencyTaskExecutionIds'')"
        using new[OF ok inv d(1)] by (simp add: dget_canon_dict)
      then show ?thesis
        using deps_done_stable[OF gr ok] evolves_dependencies[OF d(2) kd] by simp
    qed
  qed
qed

lemma keeps_safe:
  assumes E: "scheduler_edges \<subseteq> E" and m: "keeps (moves ok view scheduler_edges scheduler_record) m"
  shows "keeps (safe ok view E limit) m"
proof (rule keepsI)
  fix s
  have "moves ok view scheduler_edges scheduler_record s (snd (m s))"
    using m by (simp add: keeps_def)
  then show "safe ok view E limit s (snd (m s))"
    by (rule moves_safe) (use E in \<open>auto simp: scheduler_object_def scheduler_record_def\<close>)
qed

lemma safe_added_attempt:
  assumes "safe ok view E limit s t" "ok s" "v \<in> added_attempts view s t"
  shows "\<exists>n. dget v ''attempt'' = JInt n \<and> 1 \<le> n \<and> n \<le> limit"
proof -
  obtain d where d: "scheduler_object limit d" "evolves (canon_dict d) v"
      and k: "dget v ''kind'' = JStr ''TaskExecution''"
    using assms unfolding safe_def moves_def added_attempts_def by blast
  have kd: "dget (canon_dict d) ''kind'' = JStr ''TaskExecution''"
    using evolves_kind[OF d(2)] k by simp
  with d(1) have "scheduler_attempt limit d"
    by (simp add: scheduler_object_def scheduler_record_def dget_canon_dict)
  moreover have "dget v ''attempt'' = dget (canon_dict d) ''attempt''"
    using evolves_identity[OF d(2), of "''attempt''"] kd
    by (simp add: dget_def identity_fields_def kind_identity_fields_def)
  ultimately show ?thesis
    unfolding scheduler_attempt_def by (cases "dget d ''attempt''") (auto simp: dget_canon_dict)
qed

section \<open>The parts of a reconciliation\<close>

text \<open>The scheduler works on this store, and its executor respects the relation.\<close>

definition scheduled_on ::
  "'s store_ops \<Rightarrow> ('s \<Rightarrow> string \<Rightarrow> dict option) \<Rightarrow> ('s \<Rightarrow> bool)
   \<Rightarrow> (string \<times> string) set \<Rightarrow> 's scheduler \<Rightarrow> bool" where
  "scheduled_on ops view ok E sc \<longleftrightarrow>
     sc_store sc = ops \<and> scheduler_edges \<subseteq> E
     \<and> (\<forall>task r. keeps (safe ok view E (sc_max_attempts sc)) (sc_execute sc task r))"

lemma event_record_kind: "event_record env t ty n now = Inr d \<Longrightarrow> is_event d"
  unfolding event_record_def bindR_eq_Inr Let_def
  by (elim exE conjE) (auto simp: event_fields_def is_event_def dget_Cons)

lemma edge_to:
  "b \<in> set [''RUNNING'', ''SUCCEEDED'', ''FAILED'', ''AWAITING_APPROVAL''] \<Longrightarrow> {(a, b)} \<subseteq> scheduler_edges\<^sup>*"
  by (auto simp: scheduler_edges_def intro!: r_into_rtrancl)

lemma lifecycle_fail_edge: "{(a, status_value FAILED)} \<subseteq> scheduler_edges\<^sup>*"
  by (rule edge_to) simp

context runtime_store
begin

abbreviation "scheduled \<equiv> moves ok view scheduler_edges scheduler_record"

lemma reads_scheduled:
  "keeps scheduled (op_get ops oid)" "keeps scheduled (op_list_by_workflow_execution ops w)"
  "keeps scheduled (op_list_by_task_execution ops te)" "keeps scheduled (op_append_task_execution_id ops w te u)"
  "keeps scheduled (op_claim_task_dispatch ops te ow now)"
  by (rule keeps_moves_mono, rule get_moves list_by_workflow_execution_moves list_by_task_execution_moves
      append_task_execution_id_moves claim_task_dispatch_moves; simp)+

lemma update_scheduled:
  "st \<in> set [''RUNNING'', ''SUCCEEDED'', ''FAILED'', ''AWAITING_APPROVAL''] \<or> st = e
   \<Longrightarrow> keeps scheduled (op_update_status ops oid st (Some e) u ch)"
  by (rule keeps_moves_mono[OF update_status_moves]) (use edge_to in auto)

lemma wake_scheduled: "keeps scheduled (op_wake_approved_task ops te ap now)"
  by (rule keeps_moves_mono[OF wake_approved_task_moves]) (auto simp: scheduler_edges_def)

lemma request_scheduled:
  "keeps scheduled (approval_request ops aid policy rq now digest rvs ex target arts refs cur)"
  by (rule keeps_moves_mono[OF approval_request_moves])
    (auto simp: scheduler_record_def pending_approval_def)

lemma commit_scheduled:
  assumes "is_event d" "st \<in> set [''RUNNING'', ''SUCCEEDED'', ''FAILED'', ''AWAITING_APPROVAL'']"
  shows "keeps scheduled (op_commit_task_execution_transition ops te st w (JObj d) e now ch)"
  by (rule keeps_moves_mono[OF commit_task_execution_transition_moves])
    (use assms edge_to in \<open>auto simp: scheduler_record_def\<close>)

lemma event_scheduled: "is_event d \<Longrightarrow> keeps scheduled (op_append_event ops (JObj d))"
  by (rule keeps_moves_mono[OF append_event_moves]) (auto simp: scheduler_record_def)

lemma scheduled_lifecycle: "scheduled_on ops view ok E sc \<Longrightarrow> lifecycle_on ops view ok (sc_lifecycle sc)"
  by (simp add: scheduled_on_def lifecycle_on_def sc_lifecycle_def)

lemma scheduled_store: "scheduled_on ops view ok E sc \<Longrightarrow> sc_store sc = ops"
  by (simp add: scheduled_on_def)

lemma scheduled_edges: "scheduled_on ops view ok E sc \<Longrightarrow> scheduler_edges \<subseteq> E"
  by (simp add: scheduled_on_def)

lemma lc_transition_scheduled:
  assumes "lifecycle_on ops view ok lc" "target \<in> {RUNNING, SUCCEEDED, FAILED, AWAITING_APPROVAL}"
  shows "keeps scheduled (lc_transition lc oid target now changes)"
  unfolding lc_transition_def lifecycle_store[OF assms(1)]
  by (intro moving.guard moving.bindE moving.thenE moving.liftR moving.ret
      lc_require_moves[OF assms(1)] emit_event_moves[OF assms(1)] update_scheduled)
    (use assms(2) in auto)

lemma lc_scheduled:
  assumes "lifecycle_on ops view ok lc"
  shows "keeps scheduled (lc_start lc oid now)" "keeps scheduled (lc_succeed lc oid now)"
    "keeps scheduled (lc_await_approval lc oid now ch)"
    "keeps scheduled (lc_fail lc oid cls msg now rnb det)"
  unfolding lc_start_def lc_succeed_def lc_await_approval_def lc_fail_def
  by (intro moving.guard lc_transition_scheduled[OF assms]; simp)+

lemmas flow = moving.guard moving.lifted moving.lifted_then moving.ite moving.case_option moving.case_prod
  moving.catchE moving.checkE moving.forE moving.mapE moving.ret moving.throw moving.bindE moving.thenE moving.liftR
  reads_scheduled wake_scheduled request_scheduled

lemma sc_emit_scheduled:
  assumes sc: "scheduled_on ops view ok E sc"
  shows "keeps scheduled (sc_emit sc te ty n now)"
  unfolding sc_emit_def scheduled_store[OF sc]
  by (intro flow event_scheduled) (erule event_record_kind)

lemma fail_running_scheduled:
  assumes sc: "scheduled_on ops view ok E sc"
  shows "keeps scheduled (fail_running sc r cls msg now rnb det)"
  unfolding fail_running_def scheduled_store[OF sc]
  by (intro flow lc_scheduled[OF scheduled_lifecycle[OF sc]])

lemma complete_success_scheduled:
  assumes sc: "scheduled_on ops view ok E sc"
  shows "keeps scheduled (complete_success sc r now)"
  unfolding complete_success_def scheduled_store[OF sc]
  by (intro flow lc_scheduled[OF scheduled_lifecycle[OF sc]] fail_running_scheduled[OF sc])

lemma transition_and_emit_scheduled:
  assumes sc: "scheduled_on ops view ok E sc"
    and st: "st \<in> {RUNNING, SUCCEEDED, FAILED, AWAITING_APPROVAL}"
  shows "keeps scheduled (transition_and_emit sc te st ty now ch)"
proof -
  have "status_value st \<in> set [''RUNNING'', ''SUCCEEDED'', ''FAILED'', ''AWAITING_APPROVAL'']"
    using st by auto
  then show ?thesis
    unfolding transition_and_emit_def commit_transition_def fail_from_changes_def scheduled_store[OF sc]
    by (intro flow commit_scheduled lc_scheduled[OF scheduled_lifecycle[OF sc]]
        fail_running_scheduled[OF sc] complete_success_scheduled[OF sc] sc_emit_scheduled[OF sc])
      (erule event_record_kind)
qed

text \<open>The repairs.\<close>

lemma request_from_intent_scheduled:
  assumes sc: "scheduled_on ops view ok E sc"
  shows "keeps scheduled (request_from_intent sc intent aid policy now)"
  unfolding request_from_intent_def scheduled_store[OF sc] by (intro flow)

lemma repairs_scheduled:
  assumes sc: "scheduled_on ops view ok E sc"
  shows "keeps scheduled (recover_pending_approval_requests sc w now)"
    "keeps scheduled (recover_approved_task_wakeups sc w now)"
    "keeps scheduled (fail_rejected_approval_waits sc w now)"
  unfolding recover_pending_approval_requests_def recover_pending_request_def
    recover_approved_task_wakeups_def recover_wakeup_def fail_rejected_approval_waits_def
    fail_rejected_wait_def scheduled_store[OF sc] Let_def
  by (intro flow request_from_intent_scheduled[OF sc] transition_and_emit_scheduled[OF sc]; simp)+

lemma ensure_resolved_task_plan_scheduled:
  assumes sc: "scheduled_on ops view ok E sc"
  shows "keeps scheduled (ensure_resolved_task_plan sc w plan now)"
  unfolding ensure_resolved_task_plan_def scheduled_store[OF sc] Let_def
  by (intro flow update_scheduled; simp)

lemma adopt_terminal_evidence_scheduled:
  assumes sc: "scheduled_on ops view ok E sc"
  shows "keeps scheduled (adopt_terminal_evidence sc now a)"
  unfolding adopt_terminal_evidence_def scheduled_store[OF sc] Let_def
  by (intro flow update_scheduled) (auto simp: in_strs_def)

lemma repair_attempt_evidence_scheduled:
  assumes sc: "scheduled_on ops view ok E sc"
  shows "keeps scheduled (repair_attempt_evidence sc w now)"
  unfolding repair_attempt_evidence_def repair_attempt_def scheduled_store[OF sc] Let_def
  by (intro flow sc_emit_scheduled[OF sc] adopt_terminal_evidence_scheduled[OF sc])

lemma all_repairs_scheduled:
  assumes sc: "scheduled_on ops view ok E sc"
  shows "keeps scheduled (repairs sc w plan now)"
  unfolding repairs_def
  by (intro moving.thenE repairs_scheduled[OF sc] ensure_resolved_task_plan_scheduled[OF sc]
      repair_attempt_evidence_scheduled[OF sc])

lemma validate_inputs_scheduled:
  assumes sc: "scheduled_on ops view ok E sc"
  shows "keeps scheduled (validate_inputs sc plan v)"
  unfolding validate_inputs_def scheduled_store[OF sc] Let_def by (intro flow)

text \<open>Starting, acquiring and finishing an attempt.\<close>

lemma task_event_exists_scheduled:
  assumes sc: "scheduled_on ops view ok E sc"
  shows "keeps scheduled (task_event_exists sc te ty)"
  unfolding task_event_exists_def scheduled_store[OF sc] by (intro flow)

lemma persist_recovered_scheduled:
  assumes sc: "scheduled_on ops view ok E sc"
  shows "keeps scheduled (persist_recovered_start_diagnostics sc r diags now)"
  unfolding persist_recovered_start_diagnostics_def scheduled_store[OF sc]
  by (intro flow task_event_exists_scheduled[OF sc] update_scheduled; simp)

lemma recover_durable_start_scheduled:
  assumes sc: "scheduled_on ops view ok E sc"
  shows "keeps scheduled (recover_durable_start fuel sc a now diag)"
proof (induction fuel arbitrary: a diag)
  case 0
  show ?case by (simp add: moving.throw)
next
  case (Suc fuel)
  show ?case
    unfolding recover_durable_start.simps scheduled_store[OF sc] Let_def
    by (intro flow Suc.IH transition_and_emit_scheduled[OF sc] task_event_exists_scheduled[OF sc]
        persist_recovered_scheduled[OF sc]) simp
qed

lemma start_attempt_scheduled:
  assumes sc: "scheduled_on ops view ok E sc"
  shows "keeps scheduled (start_attempt fuel sc a now)"
  unfolding start_attempt_def resume_interrupted_def skip_store_errors_def Let_def
  by (intro flow recover_durable_start_scheduled[OF sc] transition_and_emit_scheduled[OF sc]
      persist_recovered_scheduled[OF sc]) simp

lemma acquire_attempt_scheduled:
  assumes sc: "scheduled_on ops view ok E sc"
  shows "keeps scheduled (acquire_attempt sc r now)"
  unfolding acquire_attempt_def claim_durable_dispatch_def scheduled_store[OF sc] Let_def
  by (intro flow sc_emit_scheduled[OF sc] fail_running_scheduled[OF sc])

lemma await_approval_scheduled:
  assumes sc: "scheduled_on ops view ok E sc"
  shows "keeps scheduled (await_approval sc r result now)"
  unfolding await_approval_def scheduled_store[OF sc]
  by (intro flow transition_and_emit_scheduled[OF sc] request_from_intent_scheduled[OF sc]) simp

lemma persist_terminal_evidence_scheduled:
  assumes sc: "scheduled_on ops view ok E sc"
  shows "keeps scheduled (persist_terminal_evidence sc r evi now)"
  unfolding persist_terminal_evidence_def scheduled_store[OF sc]
  by (intro flow update_scheduled; simp)

lemma finish_attempt_scheduled:
  assumes sc: "scheduled_on ops view ok E sc"
  shows "keeps scheduled (finish_attempt sc r result now)"
  unfolding finish_attempt_def Let_def
  by (intro flow persist_terminal_evidence_scheduled[OF sc] transition_and_emit_scheduled[OF sc]
      complete_success_scheduled[OF sc] fail_running_scheduled[OF sc] sc_emit_scheduled[OF sc]) simp

text \<open>Around the executor, the relation is the safe one.\<close>

lemma dispatch_attempt_safe:
  assumes sc: "scheduled_on ops view ok E sc"
  shows "keeps (safe ok view E (sc_max_attempts sc)) (dispatch_attempt fuel sc plan now a)"
proof -
  have ex: "keeps (safe ok view E (sc_max_attempts sc)) (sc_execute sc task r)" for task r
    using sc by (simp add: scheduled_on_def)
  then show ?thesis
    unfolding dispatch_attempt_def run_executor_def
    by (intro ex safety.bindE safety.thenE safety.case_option safety.ite safety.catchE safety.liftR
        safety.ret safety.throw keeps_safe[OF scheduled_edges[OF sc]] start_attempt_scheduled[OF sc]
        acquire_attempt_scheduled[OF sc] await_approval_scheduled[OF sc] finish_attempt_scheduled[OF sc])
qed

end

section \<open>The wave's attempts\<close>

text \<open>
  What an entry of the ready wave promises of the store: its dependencies' ids are
  successful attempts, and a latest attempt that will be retried is below the limit.
\<close>

definition retry_below :: "('s \<Rightarrow> string \<Rightarrow> dict option) \<Rightarrow> int \<Rightarrow> 's \<Rightarrow> dict \<Rightarrow> bool" where
  "retry_below view limit s a \<longleftrightarrow>
     (\<exists>n oid v. bindR (getitem a ''attempt'') py_int = Inr n \<and> n < limit \<and> id_str a = Inr oid
        \<and> view s oid = Some v \<and> dget v ''kind'' = JStr ''TaskExecution''
        \<and> dget v ''attempt'' = canon (dget a ''attempt''))"

definition entry_ok :: "('s \<Rightarrow> string \<Rightarrow> dict option) \<Rightarrow> int \<Rightarrow> 's \<Rightarrow> ready_entry \<Rightarrow> bool" where
  "entry_ok view limit s entry \<longleftrightarrow>
     (case entry of (node, latest, deps) \<Rightarrow>
        list_all (task_succeeded view s) deps
        \<and> (case latest of None \<Rightarrow> True
           | Some a \<Rightarrow> in_strs (dget a ''status'') [''PENDING'', ''RUNNING''] \<or> retry_below view limit s a))"

lemma retry_below_stable:
  assumes gr: "grows ok view s t" and ok: "ok s" and r: "retry_below view limit s a"
  shows "retry_below view limit t a"
proof -
  obtain n oid v where v: "bindR (getitem a ''attempt'') py_int = Inr n" "n < limit" "id_str a = Inr oid"
      "view s oid = Some v" "dget v ''kind'' = JStr ''TaskExecution''"
      "dget v ''attempt'' = canon (dget a ''attempt'')"
    using r unfolding retry_below_def by blast
  obtain v' where v': "view t oid = Some v'" "evolves v v'"
    using gr ok v(4) unfolding grows_def by blast
  have "dget v' ''attempt'' = dget v ''attempt''"
    using evolves_identity[OF v'(2), of "''attempt''"] v(5)
    by (simp add: dget_def identity_fields_def kind_identity_fields_def)
  moreover have "dget v' ''kind'' = JStr ''TaskExecution''" using evolves_kind[OF v'(2)] v(5) by simp
  ultimately show ?thesis using v v'(1) unfolding retry_below_def by metis
qed

lemma entry_ok_stable:
  assumes "grows ok view s t" "ok s" "entry_ok view limit s entry"
  shows "entry_ok view limit t entry"
  using assms(3) retry_below_stable[OF assms(1,2)] task_succeeded_stable[OF assms(1,2)]
  by (auto simp: entry_ok_def list_all_iff split: option.splits)

lemma attempts_for_set: "a \<in> set (attempts_for records ref) \<longleftrightarrow> a \<in> set records \<and> attempt_record_of ref a"
  by (auto simp: attempts_for_def)

lemma listed_attempt:
  assumes "lists_workflow view s w records" "a \<in> set records" "attempt_record_of ref a"
  shows "\<exists>oid. dget a ''id'' = JStr oid \<and> view s oid = Some (canon_dict a)
    \<and> dget (canon_dict a) ''kind'' = JStr ''TaskExecution''"
proof -
  obtain oid where "dget a ''id'' = JStr oid"
    using assms(1,2) unfolding lists_workflow_def by (meson is_str.elims(2))
  then show ?thesis using assms by (auto simp: lists_workflow_def attempt_record_of_def dget_canon_dict)
qed

lemma id_str_JStr: "id_str a = Inr i \<Longrightarrow> dget a ''id'' = JStr oid \<Longrightarrow> i = oid"
  by (auto simp: id_str_def bindR_eq_Inr dest!: getitem_Inr)

lemma succeeded_as_view:
  assumes "lists_workflow view s w records" "succeeded_as records d i"
  shows "task_succeeded view s i"
proof -
  obtain a where a: "find succeeded (rev (attempts_for records d)) = Some a" "id_str a = Inr i"
    using assms(2) by (auto simp: succeeded_as_def)
  then have "a \<in> set (rev (attempts_for records d))" "succeeded a"
    by (metis find_Some_iff nth_mem, metis find_Some_iff)
  then have "a \<in> set records" "attempt_record_of d a" "succeeded a"
    by (simp_all add: attempts_for_set)
  with listed_attempt[OF assms(1)] obtain oid where oid: "dget a ''id'' = JStr oid"
      "view s oid = Some (canon_dict a)" "dget (canon_dict a) ''kind'' = JStr ''TaskExecution''"
    by blast
  moreover have "i = oid" using id_str_JStr a(2) oid(1) .
  ultimately show ?thesis
    using \<open>succeeded a\<close> by (simp add: task_succeeded_def succeeded_def dget_canon_dict)
qed

lemma retry_is_ready_below:
  assumes "retry_is_ready env a limit now = Inr True"
  shows "\<exists>n. bindR (getitem a ''attempt'') py_int = Inr n \<and> n < limit"
  using assms by (auto simp: retry_is_ready_def bindR_eq_Inr Let_def split: if_splits)

lemma ready_entry_ok:
  assumes l: "lists_workflow view s w records" and r: "ready sc records now entry"
  shows "entry_ok view (sc_max_attempts sc) s entry"
proof -
  obtain node latest deps where e: "entry = (node, latest, deps)" by (cases entry)
  have "list_all (task_succeeded view s) deps"
    using r succeeded_as_view[OF l]
    by (auto simp: e ready_def list_all_length list_all2_conv_all_nth)
  moreover have "retry_below view (sc_max_attempts sc) s a"
    if a: "latest = Some a" and st: "\<not> in_strs (dget a ''status'') [''PENDING'', ''RUNNING'']" for a
  proof -
    have "retry_is_ready (sc_env sc) a (sc_max_attempts sc) now = Inr True"
      using r st by (auto simp: e a ready_def awaits_start_def)
    then obtain n where n: "bindR (getitem a ''attempt'') py_int = Inr n" "n < sc_max_attempts sc"
      using retry_is_ready_below by blast
    have "a \<in> set (attempts_for records (pn_ref node))"
      using r by (auto simp: e a ready_def latest_attempt_def split: if_splits)
    then obtain oid where "dget a ''id'' = JStr oid" "view s oid = Some (canon_dict a)"
        "dget (canon_dict a) ''kind'' = JStr ''TaskExecution''"
      using listed_attempt[OF l] by (auto simp: attempts_for_set)
    moreover from this have "id_str a = Inr oid"
      by (auto simp: id_str_def getitem_def dget_def split: option.splits)
    ultimately show ?thesis using n unfolding retry_below_def by (auto simp: dget_canon_dict)
  qed
  ultimately show ?thesis by (auto simp: e entry_ok_def split: option.split)
qed

lemma plus_one_below:
  "canon x = canon y \<Longrightarrow> plus_one x = Inr (JInt m) \<Longrightarrow> py_int y = Inr n \<Longrightarrow> m = n + 1"
  by (cases x; cases y) (auto split: if_splits)

text \<open>The dependencies of a retry are those of the attempt it retries.\<close>

lemma retry_deps:
  assumes inv: "deps_inv view s" and v: "view s oid = Some (canon_dict p)" and r: "retry_of p x d"
  shows "deps_done view s (dget (canon_dict d) ''dependencyTaskExecutionIds'')"
proof -
  obtain deps where k: "dget p ''kind'' = JStr ''TaskExecution''"
    and it: "py_iter (dget_or p ''dependencyTaskExecutionIds'' (JList [])) = Inr deps"
    and d: "dget d ''dependencyTaskExecutionIds'' = JList deps"
    using r by (auto simp: retry_of_def new_attempt_def)
  have dd: "deps_done view s (canon (dget p ''dependencyTaskExecutionIds''))"
  proof -
    have "dget (canon_dict p) ''kind'' = JStr ''TaskExecution''" by (simp add: dget_canon_dict k)
    with inv v have "deps_done view s (dget (canon_dict p) ''dependencyTaskExecutionIds'')"
      unfolding deps_inv_def by blast
    then show ?thesis by (simp add: dget_canon_dict)
  qed
  show ?thesis
  proof (cases "map_of p ''dependencyTaskExecutionIds''")
    case None
    then show ?thesis using it d by (simp add: dget_or_def dget_canon_dict deps_done_def)
  next
    case (Some j)
    then have "dget p ''dependencyTaskExecutionIds'' = j" by (simp add: dget_def)
    with dd it d Some show ?thesis
      by (cases j) (auto simp: dget_or_def dget_canon_dict deps_done_def)
  qed
qed

text \<open>A new or retried attempt is safe when its entry is.\<close>

lemma new_attempt_safe:
  assumes "new_attempt x w (JInt n) (map JStr ids) d" "n \<le> limit"
    and "list_all (task_succeeded view s) ids"
  shows "scheduler_object limit d"
    and "deps_done view s (dget (canon_dict d) ''dependencyTaskExecutionIds'')"
  using assms
  by (auto simp: new_attempt_def scheduler_object_def scheduler_attempt_def dget_canon_dict
      deps_done_def list_all_iff)

lemma retry_attempt_safe:
  assumes r: "retry_of p x d" and a: "canon (dget p ''attempt'') = canon (dget a ''attempt'')"
    and n: "bindR (getitem a ''attempt'') py_int = Inr n" "n < limit"
  shows "scheduler_object limit d"
proof -
  have i: "py_int (dget a ''attempt'') = Inr n"
    using n(1) by (auto simp: bindR_eq_Inr dest: getitem_Inr)
  obtain m deps where m: "plus_one (dget p ''attempt'') = Inr (JInt m)"
      "new_attempt x (dget p ''workflowExecutionId'') (JInt m) deps d"
    using r by (auto simp: retry_of_def)
  have "m = n + 1" using plus_one_below[OF a m(1) i] .
  with m(2) n(2) show ?thesis
    by (auto simp: new_attempt_def scheduler_object_def scheduler_attempt_def)
qed

context runtime_store
begin

lemma create_attempt_safe:
  assumes sc: "scheduled_on ops view ok E sc" and lim: "1 \<le> sc_max_attempts sc"
    and ids: "list_all (task_succeeded view s) ids"
  shows "safe ok view E (sc_max_attempts sc) s (snd (create_attempt sc ref inputs ids now s))"
proof -
  obtain x w tr cor prov where c: "create_attempt sc ref inputs ids now
      = lc_create (sc_lifecycle sc) x w tr (JInt 1) cor now prov (map JStr ids)"
    by (simp add: create_attempt_def Let_def)
  have "moves ok view {} (new_attempt x w (JInt 1) (map JStr ids)) s
      (snd (create_attempt sc ref inputs ids now s))"
    using lc_create_moves[OF scheduled_lifecycle[OF sc]] by (simp add: c keeps_def)
  then show ?thesis
    by (rule moves_safe) (use new_attempt_safe lim ids in \<open>auto\<close>)
qed

lemma retry_safe:
  assumes sc: "scheduled_on ops view ok E sc" and ok: "ok s"
    and r: "retry_below view (sc_max_attempts sc) s a" and oid: "id_str a = Inr oid"
  shows "safe ok view E (sc_max_attempts sc) s (snd (lc_retry (sc_lifecycle sc) oid x now s))"
proof -
  obtain n v where v: "bindR (getitem a ''attempt'') py_int = Inr n" "n < sc_max_attempts sc"
      "view s oid = Some v" "dget v ''attempt'' = canon (dget a ''attempt'')"
    using r oid unfolding retry_below_def by auto
  let ?N = "\<lambda>d. \<exists>p. canon_dict p = v \<and> retry_of p x d"
  have "runs (moves ok view {} ?N) (\<lambda>s. ok s \<and> view s oid = Some v)
      (lc_retry (sc_lifecycle sc) oid x now) (\<lambda>_ _. True)"
    by (rule lc_retry_runs[OF scheduled_lifecycle[OF sc]]) blast
  then have "moves ok view {} ?N s (snd (lc_retry (sc_lifecycle sc) oid x now s))"
    using ok v(3) by (simp add: runs_def)
  then show ?thesis
  proof (rule moves_safe)
    fix d assume "?N d"
    then obtain p where p: "canon_dict p = v" "retry_of p x d" by blast
    show "scheduler_object (sc_max_attempts sc) d"
      by (rule retry_attempt_safe[OF p(2) _ v(1,2)]) (use p(1) v(4) in \<open>simp flip: dget_canon_dict\<close>)
    show "deps_done view s (dget (canon_dict d) ''dependencyTaskExecutionIds'')"
      if "deps_inv view s"
      using retry_deps[OF that _ p(2)] v(3) p(1) by simp
  qed simp
qed

lemma attempt_for_safe:
  assumes sc: "scheduled_on ops view ok E sc" and lim: "1 \<le> sc_max_attempts sc" and ok: "ok s"
    and e: "entry_ok view (sc_max_attempts sc) s entry"
  shows "safe ok view E (sc_max_attempts sc) s (snd (attempt_for sc inputs now entry s))"
proof -
  obtain node latest deps where en: "entry = (node, latest, deps)" by (cases entry)
  have ids: "list_all (task_succeeded view s) deps" using e by (simp add: entry_ok_def en)
  show ?thesis
  proof (cases latest)
    case None
    then show ?thesis using create_attempt_safe[OF sc lim ids] by (simp add: attempt_for_def en)
  next
    case (Some a)
    show ?thesis
    proof (cases "in_strs (dget a ''status'') [''PENDING'', ''RUNNING'']")
      case True
      then show ?thesis
        by (simp add: attempt_for_def en Some thenE_apply checkE_apply ret_apply safety.refl)
    next
      case False
      then have r: "retry_below view (sc_max_attempts sc) s a"
        using e by (simp add: entry_ok_def en Some)
      then obtain n oid where "bindR (getitem a ''attempt'') py_int = Inr n" "id_str a = Inr oid"
        unfolding retry_below_def by blast
      then show ?thesis
        using False retry_safe[OF sc ok r]
        by (simp add: attempt_for_def en Some thenE_apply checkE_apply bindE_apply liftR_apply safety.refl)
    qed
  qed
qed

lemma prepare_attempt_safe:
  assumes sc: "scheduled_on ops view ok E sc" and lim: "1 \<le> sc_max_attempts sc"
  shows "runs (safe ok view E (sc_max_attempts sc))
    (\<lambda>s. ok s \<and> entry_ok view (sc_max_attempts sc) s entry)
    (prepare_attempt sc inputs now entry) (\<lambda>_ _. True)"
  unfolding prepare_attempt_def
proof (rule safety.runs_bind)
  show "runs (safe ok view E (sc_max_attempts sc))
      (\<lambda>s. ok s \<and> entry_ok view (sc_max_attempts sc) s entry)
      (attempt_for sc inputs now entry) (\<lambda>_ _. True)"
    using attempt_for_safe[OF sc lim] by (simp add: runs_def)
  show "runs (safe ok view E (sc_max_attempts sc)) (\<lambda>_. True)
      (bindE (liftR (id_str a)) (\<lambda>tid.
       thenE (op_append_task_execution_id (sc_store sc) (ri_workflow inputs) tid (Some now))
       (thenE (sc_emit sc a ''TaskExecutionQueued'' 1 now) (ret a)))) (\<lambda>_ _. True)" for a
    unfolding keeps_runs[symmetric] scheduled_store[OF sc]
    by (intro keeps_safe[OF scheduled_edges[OF sc]] flow sc_emit_scheduled[OF sc])
qed

lemma safe_grows: "safe ok view E limit s t \<Longrightarrow> grows ok view s t"
  by (auto simp: safe_def intro: moves_grows)

lemma wave_stable:
  "ok s \<and> (\<forall>e \<in> set wave. entry_ok view limit s e) \<Longrightarrow> safe ok view E limit s t
   \<Longrightarrow> ok t \<and> (\<forall>e \<in> set wave. entry_ok view limit t e)"
proof (intro conjI ballI)
  assume ok: "ok s \<and> (\<forall>e \<in> set wave. entry_ok view limit s e)" and st: "safe ok view E limit s t"
  have gr: "grows ok view s t" using st by (rule safe_grows)
  then show "ok t" using ok by (simp add: grows_def)
  show "entry_ok view limit t e" if "e \<in> set wave" for e
    using entry_ok_stable[OF gr] ok that by blast
qed

lemma prepare_wave_safe:
  assumes sc: "scheduled_on ops view ok E sc" and lim: "1 \<le> sc_max_attempts sc"
  shows "runs (safe ok view E (sc_max_attempts sc))
    (\<lambda>s. ok s \<and> (\<forall>e \<in> set wave. entry_ok view (sc_max_attempts sc) s e))
    (mapE (prepare_attempt sc inputs now) wave) (\<lambda>_ _. True)"
proof -
  let ?P = "\<lambda>s. ok s \<and> (\<forall>e \<in> set wave. entry_ok view (sc_max_attempts sc) s e)"
  have "runs (safe ok view E (sc_max_attempts sc)) ?P (prepare_attempt sc inputs now e) (\<lambda>_. ?P)"
    if "e \<in> set wave" for e
  proof (rule runs_stable[OF runs_weaken[OF prepare_attempt_safe[OF sc lim]]])
    show "?P s \<Longrightarrow> ok s \<and> entry_ok view (sc_max_attempts sc) s e" for s using that by blast
    show "?P s \<Longrightarrow> safe ok view E (sc_max_attempts sc) s t \<Longrightarrow> ?P t" for s t by (rule wave_stable)
  qed simp
  then show ?thesis by (intro runs_weaken[OF safety.runs_map[of wave E _ ?P]]) simp_all
qed

lemma list_runs:
  assumes sc: "scheduled_on ops view ok E sc"
  shows "runs (safe ok view E limit) ok (op_list_by_workflow_execution ops w)
    (\<lambda>records s. ok s \<and> lists_workflow view s w records)"
proof (rule runsI)
  fix s r t
  assume ok: "ok s" and l: "op_list_by_workflow_execution ops w s = (r, t)"
  have st: "safe ok view E limit s t"
    using keepsD[OF keeps_safe[OF scheduled_edges[OF sc] reads_scheduled(2)] l] .
  then have "ok t" using ok safe_grows by (auto simp: grows_def)
  moreover have "lists_workflow view t w records" if "r = Inr records" for records
    using list_shows[OF ok, of w records t] l that by (simp add: lists_workflow_def)
  ultimately show "safe ok view E limit s t \<and>
      (\<forall>a. r = Inr a \<longrightarrow> ok t \<and> lists_workflow view t w a)"
    using st by blast
qed

lemma wave_safe:
  assumes sc: "scheduled_on ops view ok E sc" and lim: "1 \<le> sc_max_attempts sc"
  shows "runs (safe ok view E (sc_max_attempts sc)) ok
    (bindE (op_list_by_workflow_execution (sc_store sc) (ri_workflow inputs)) (\<lambda>records.
      bindE (liftR (ready_wave sc plan records timestamp)) (\<lambda>wave.
      bindE (mapE (prepare_attempt sc inputs timestamp) wave) (\<lambda>scheduled.
      thenE (forE scheduled (dispatch_attempt fuel sc plan timestamp))
      (bindE (mapE (\<lambda>a. bindE (liftR (id_str a)) (op_get (sc_store sc))) scheduled) (\<lambda>persisted.
       ret (List.map_filter id persisted))))))) (\<lambda>_ _. True)"
  unfolding scheduled_store[OF sc]
proof (rule safety.runs_bind[OF list_runs[OF sc]], rule safety.runs_lifted, rule safety.runs_bind)
  fix records wave
  assume w: "ready_wave sc plan records timestamp = Inr wave"
  show "runs (safe ok view E (sc_max_attempts sc))
      (\<lambda>s. ok s \<and> lists_workflow view s (ri_workflow inputs) records)
      (mapE (prepare_attempt sc inputs timestamp) wave) (\<lambda>_ _. True)"
    by (rule runs_weaken[OF prepare_wave_safe[OF sc lim]])
      (use ready_entry_ok ready_wave_Inr(1)[OF w] in auto)
  show "runs (safe ok view E (sc_max_attempts sc)) (\<lambda>_. True)
      (thenE (forE scheduled (dispatch_attempt fuel sc plan timestamp))
      (bindE (mapE (\<lambda>a. bindE (liftR (id_str a)) (op_get ops)) scheduled) (\<lambda>persisted.
       ret (List.map_filter id persisted)))) (\<lambda>_ _. True)" for scheduled
    unfolding keeps_runs[symmetric]
    by (intro safety.thenE safety.forE dispatch_attempt_safe[OF sc] safety.bindE safety.mapE
        safety.liftR safety.ret keeps_safe[OF scheduled_edges[OF sc]] reads_scheduled)
qed

text \<open>A reconciliation is safe.\<close>

lemma reconcile_runs:
  assumes sc: "scheduled_on ops view ok E sc" and lim: "1 \<le> sc_max_attempts sc"
  shows "runs (safe ok view E (sc_max_attempts sc)) ok (reconcile fuel sc plan we) (\<lambda>_ _. True)"
proof -
  have stable: "ok s \<Longrightarrow> safe ok view E (sc_max_attempts sc) s t \<Longrightarrow> ok t" for s t
    using safe_grows by (auto simp: grows_def)
  have v: "runs (safe ok view E (sc_max_attempts sc)) ok (validate_inputs sc plan we) (\<lambda>_. ok)"
    by (rule keeps_stable[OF keeps_safe[OF scheduled_edges[OF sc] validate_inputs_scheduled[OF sc]] stable])
  have r: "runs (safe ok view E (sc_max_attempts sc)) ok (repairs sc w plan now) (\<lambda>_. ok)" for w now
    by (rule keeps_stable[OF keeps_safe[OF scheduled_edges[OF sc] all_repairs_scheduled[OF sc]] stable])
  show ?thesis
    unfolding reconcile_def
    by (rule safety.runs_lifted, rule safety.runs_bind[OF v], rule safety.runs_then[OF r],
        rule wave_safe[OF sc lim])
qed

lemma reconcile_safe:
  assumes "scheduled_on ops view ok E sc" "1 \<le> sc_max_attempts sc" "ok s"
  shows "safe ok view E (sc_max_attempts sc) s (snd (reconcile fuel sc plan we s))"
  using reconcile_runs[OF assms(1,2)] assms(3) by (simp add: runs_def)

end

end
