(* ===== verification/DurableStart.thy ===== *)
theory DurableStart
  imports ScheduleSafety
begin

text \<open>
  The recovery of a diagnosed start on the durable store.  A diagnostic that may be adopted
  is only ever raised after the checkpoint was written, so the task it speaks of is then on
  record as RUNNING, and the recovery does not call itself more than once.
\<close>

section \<open>Errors without a diagnostic\<close>

definition plain :: "('s, 'a) eff \<Rightarrow> bool" where
  "plain m \<longleftrightarrow> (\<forall>s e t. m s = (Inl e, t) \<longrightarrow> diagnostic e = [])"

lemma plainD: "plain m \<Longrightarrow> m s = (Inl e, t) \<Longrightarrow> diagnostic e = []"
  unfolding plain_def by blast

lemma plain_ret: "plain (ret a)"
  by (simp add: plain_def ret_apply)

lemma plain_throw: "diagnostic e = [] \<Longrightarrow> plain (throw e)"
  by (simp add: plain_def throw_apply)

lemma plain_checkE: "diagnostic e = [] \<Longrightarrow> plain (checkE b e)"
  by (simp add: plain_def checkE_apply)

lemma plain_liftR: "(\<And>e. r = Inl e \<Longrightarrow> diagnostic e = []) \<Longrightarrow> plain (liftR r)"
  by (simp add: plain_def liftR_apply)

lemma plain_bindE: "plain m \<Longrightarrow> (\<And>a. plain (f a)) \<Longrightarrow> plain (bindE m f)"
  unfolding plain_def bindE_apply by (auto split: prod.splits sum.splits)

lemma plain_thenE: "plain m \<Longrightarrow> plain k \<Longrightarrow> plain (thenE m k)"
  unfolding thenE_def by (rule plain_bindE)

lemma plain_ite: "plain m \<Longrightarrow> plain k \<Longrightarrow> plain (if b then m else k)"
  by simp

lemma plain_require: "plain (require oid)"
  by (auto simp: plain_def require_def diagnostic_def split: option.splits)

lemma plain_save: "plain (save oid v)"
  by (simp add: plain_def save_def)

lemmas plain_rules = plain_ret plain_throw plain_checkE plain_bindE plain_thenE plain_ite plain_require
  plain_save

lemma plain_validate: "plain (liftR (copy_and_validate j))"
  by (rule plain_liftR) (auto simp: copy_and_validate_def Let_def diagnostic_def split: if_splits)

lemma plain_create: "plain (mem_create j key)"
  unfolding mem_create_def
  by (intro plain_rules plain_validate)
    (auto simp: plain_def diagnostic_def Let_def split: option.splits if_splits)

lemma plain_append_event: "plain (mem_append_event j)"
  unfolding mem_append_event_def
  by (intro plain_rules plain_validate plain_create) (simp add: diagnostic_def)

lemma plain_update_status: "plain (mem_update_status wall oid st expd u ch)"
  unfolding mem_update_status_def Let_def
  by (intro plain_rules; simp add: diagnostic_def unhashable_error_def)

lemma plain_append_id: "plain (mem_append_task_execution_id wall w t u)"
  unfolding mem_append_task_execution_id_def attach_task_id_def Let_def
  by (intro plain_rules plain_liftR; auto simp: diagnostic_def unhashable_error_def)

section \<open>An adoptable diagnostic means a committed transaction\<close>

lemma adoptable_phases:
  "\<not> can_adopt_committed_start []"
  "\<not> can_adopt_committed_start (diagnostic (fence_error nt ph n))"
  "\<not> can_adopt_committed_start (diagnostic (read_error n))"
  "\<not> can_adopt_committed_start (diagnostic invalid_checkpoint)"
  "can_adopt_committed_start (diagnostic (checkpoint_error cp n)) \<longleftrightarrow> cp = DirectorySync"
  "can_adopt_committed_start (diagnostic (release_error n))"
  by (cases ph; cases cp;
      simp add: can_adopt_committed_start_def diagnostic_def fence_error_def read_error_def
        invalid_checkpoint_def checkpoint_error_def release_error_def persistence_diagnostic_def
        dget_Cons dget_Nil)+

lemma restore_payload_plain:
  assumes "restore_payload p = Inl e"
  shows "\<not> can_adopt_committed_start (diagnostic e)"
proof -
  have "diagnostic e = [] \<or> e = invalid_checkpoint"
  proof -
    have "diagnostic e = []" if "mapR (\<lambda>oid. bindR (copy_and_validate (mget objs oid)) (\<lambda>v. Inr (oid, v))) order = Inl e"
      for objs order
      using that plain_validate
      by (induction order) (auto simp: bindR_eq_Inl plain_def liftR_apply)
    then show ?thesis
      using assms by (auto simp: restore_payload_def Let_def bindR_eq_Inl split: if_splits)
  qed
  then show ?thesis using adoptable_phases by auto
qed

lemma reload_plain: "reload f w = Inl e \<Longrightarrow> \<not> can_adopt_committed_start (diagnostic e)"
  by (auto simp: reload_def adoptable_phases restore_payload_plain split: option.splits io_fault.splits)

lemma mutate_adoptable:
  assumes m: "mutate operation w = (Inl e, w')" and ok: "durable_ok w" and p: "plain operation"
    and a: "can_adopt_committed_start (diagnostic e)"
  shows "\<exists>r. operation (committed w) = (Inr r, memory w')
    \<and> disk w' = Some (canon (checkpoint_payload (memory w')))"
proof -
  obtain f w1 where n: "next_fault w = (f, w1)" by (cases "next_fault w")
  have re: "reload f w1 = reload f w" for f
    using next_fault_frame[OF n] by (intro reload_cong) simp_all
  obtain s0 where s0: "reload f w = Inr s0"
    using m a reload_plain by (cases "reload f w") (auto simp: mutate_def n re adoptable_phases split: io_fault.splits)
  then have c: "s0 = committed w" by (rule reload_committed[OF ok])
  obtain r s1 where o: "operation s0 = (Inr r, s1)"
    using m a s0 plainD[OF p]
    by (cases "operation s0"; cases "fst (operation s0)")
      (auto simp: mutate_def n re adoptable_phases split: io_fault.splits)
  then show ?thesis
    using m a s0 c by (auto simp: mutate_def n re adoptable_phases committed_as_def
        split: io_fault.splits if_splits)
qed

abbreviation commit_operation ::
  "string \<Rightarrow> string \<Rightarrow> string \<Rightarrow> string \<Rightarrow> json \<Rightarrow> string \<Rightarrow> string \<Rightarrow> dict \<Rightarrow> (store, dict) eff" where
  "commit_operation wall t st w ev expd now ch \<equiv>
     bindE (mem_update_status wall t st (Some expd) (Some now) ch) (\<lambda>updated.
       thenE (mem_append_task_execution_id wall w t (Some now))
       (thenE (mem_append_event ev) (ret updated)))"

lemma commit_operation_keeps:
  "keeps (\<lambda>s t. store_ok s \<longrightarrow> store_ok t) (commit_operation wall t st w ev expd now ch)"
  by (intro store_wf.rules store_wf.methods) (simp_all add: store_wf.may_update_def)

lemma commit_operation_status:
  assumes ok: "store_ok s" and c: "commit_operation wall t st w ev expd now ch s = (Inr r, u)"
  shows "\<exists>v. mem_view u t = Some v \<and> dget v ''status'' = JStr st"
proof -
  obtain v1 s1 x s2 y where up: "mem_update_status wall t st (Some expd) (Some now) ch s = (Inr v1, s1)"
    and ap: "mem_append_task_execution_id wall w t (Some now) s1 = (Inr x, s2)"
    and ev: "mem_append_event ev s2 = (Inr y, u)"
    using c by (auto simp: success_iffs)
  have v1: "dget v1 ''status'' = JStr st" "mem_view s1 t = Some (canon_dict v1)"
    using mem_update_status_Inr[OF up] by (auto simp: mem_view_def)
  have "keeps (\<lambda>s t. store_ok s \<longrightarrow> store_ok t) (mem_update_status wall t st (Some expd) (Some now) ch)"
    by (intro store_wf.methods) (simp add: store_wf.may_update_def)
  then have ok1: "store_ok s1" using keepsD up ok by fastforce
  let ?M = "moves store_ok mem_view {} (\<lambda>_. True)"
  have "keeps ?M (mem_append_task_execution_id wall w t (Some now))" "keeps ?M (mem_append_event ev)"
    by (intro mem_moves.methods; simp)+
  then have "?M s1 s2" "?M s2 u" using ap ev by (auto dest: keepsD)
  then have "?M s1 u" by (rule step_rel.trans[OF step_rel_moves])
  then obtain v where "mem_view u t = Some v" "status_path {} (dget (canon_dict v1) ''status'') (dget v ''status'')"
    using ok1 v1(2) unfolding moves_def by blast
  then show ?thesis using v1(1) by (auto simp: status_path_def dget_canon_dict)
qed

text \<open>A start whose failure may be adopted is on record as started.\<close>

lemma ambiguous_commit:
  assumes m: "durable_commit_task_execution_transition wall t st w ev expd now ch s = (Inl e, s')"
    and ok: "durable_ok s" and a: "can_adopt_committed_start (diagnostic e)"
  shows "durable_ok s' \<and> (\<exists>v. durable_view s' t = Some v \<and> dget v ''status'' = JStr st)"
proof -
  let ?op = "commit_operation wall t st w ev expd now ch"
  have m: "mutate ?op s = (Inl e, s')"
    using m by (simp add: durable_commit_task_execution_transition_def)
  have "plain ?op"
    by (intro plain_rules plain_update_status plain_append_id plain_append_event)
  from mutate_adoptable[OF m ok this a] obtain r where
    o: "?op (committed s) = (Inr r, memory s')" and d: "disk s' = Some (canon (checkpoint_payload (memory s')))"
    by blast
  have "store_ok (memory s')"
    using keepsD[OF commit_operation_keeps o] committed_ok[OF ok] by simp
  moreover from this have "committed s' = canon_store (memory s')"
    using d by (simp add: committed_def restore_checkpoint)
  ultimately show ?thesis
    using commit_operation_status[OF committed_ok[OF ok] o] d
    by (auto simp: durable_ok_def durable_view_def)
qed

definition plain_result :: "exn + 'a \<Rightarrow> bool" where
  "plain_result r \<longleftrightarrow> (\<forall>e. r = Inl e \<longrightarrow> diagnostic e = [])"

lemma lifted_Inl:
  assumes "diagnostic e \<noteq> []" "plain_result r"
  shows "bindE (liftR r) f s = (Inl e, t) \<longleftrightarrow> (\<exists>a. r = Inr a \<and> f a s = (Inl e, t))"
  using assms by (cases r) (auto simp: plain_result_def bindE_apply liftR_apply)

lemma plain_results:
  "plain_result (Inr a)" "plain_result (getitem d k)" "plain_result (py_dict j)"
  "diagnostic e = [] \<Longrightarrow> plain_result (Inl e)"
  by (auto simp: plain_result_def getitem_def py_dict_def diagnostic_def split: option.splits)

lemma plain_result_bind: "plain_result r \<Longrightarrow> (\<And>a. plain_result (f a)) \<Longrightarrow> plain_result (bindR r f)"
  by (auto simp: plain_result_def bindR_eq_Inl)

lemma plain_result_lift: "plain_result r \<Longrightarrow> plain (liftR r)"
  by (rule plain_liftR) (simp add: plain_result_def)

lemma plain_event_record: "plain_result (event_record env te ty n now)"
  unfolding event_record_def Let_def
  by (intro plain_result_bind plain_results)
    (auto intro!: plain_result_bind plain_results simp: diagnostic_def split: option.split)

lemma plain_validate_record: "plain_result (validate_runtime_record env schema r)"
  by (auto simp: plain_result_def validate_runtime_record_def validate_with_def diagnostic_def
      split: option.splits list.splits)

lemma plain_id_str: "plain_result (id_str d)"
  unfolding id_str_def by (intro plain_result_bind plain_results)

lemma ambiguous_start_running:
  assumes t: "transition_and_emit sc task RUNNING ty now ch s = (Inl e, s')"
    and sc: "sc_store sc = durable_store wall" and ok: "durable_ok s"
    and e: "can_adopt_committed_start (diagnostic e)" and tid: "id_str task = Inr tid"
  shows "durable_ok s' \<and> (\<exists>v. durable_view s' tid = Some v \<and> dget v ''status'' = JStr ''RUNNING'')"
proof -
  have ne: "diagnostic e \<noteq> []" using e adoptable_phases(1) by auto
  have c: "commit_transition sc task RUNNING ty now ch s = (Inl e, s')"
    using t sc by (simp add: transition_and_emit_def durable_store_def)
  obtain tid' w ev expd where "id_str task = Inr tid'"
    and "op_commit_task_execution_transition (sc_store sc) tid' ''RUNNING'' w ev expd now ch s = (Inl e, s')"
    using c[unfolded commit_transition_def thenE_def]
    by (auto simp: lifted_Inl[OF ne] plain_event_record plain_validate_record plain_id_str plain_results)
  then show ?thesis
    using tid ambiguous_commit[OF _ ok e] by (simp add: sc durable_store_def)
qed

section \<open>How much fuel a recovery needs\<close>

lemma durable_get_shows:
  "durable_ok s \<Longrightarrow> durable_get oid s = (Inr r, t)
   \<Longrightarrow> map_option canon_dict r = durable_view s oid \<and> durable_view t = durable_view s \<and> durable_ok t"
  using durable.get_shows[of s wall oid r t] keepsD[OF durable.get_moves[where wall = wall]]
  by (fastforce simp: durable_store_def moves_def)

text \<open>On a started task the recovery does not start anything, whatever its fuel.\<close>

lemma recover_started:
  assumes sc: "sc_store sc = durable_store wall" and ok: "durable_ok s" and tid: "id_str task = Inr tid"
    and v: "durable_view s tid = Some v" "dget v ''status'' = JStr ''RUNNING''"
  shows "recover_durable_start (Suc n) sc task now diag s = recover_durable_start (Suc m) sc task now diag s"
proof -
  obtain r t where g: "durable_get tid s = (r, t)" by (cases "durable_get tid s")
  have "dget p ''status'' = JStr ''RUNNING''" if "r = Inr (Some p)" for p
    using durable_get_shows[OF ok, of tid "Some p" t] g that v by (auto simp: dget_canon_dict)
  then show ?thesis
    using g
    by (cases r) (auto simp: sc durable_store_def tid Let_def bindE_apply liftR_apply throw_apply
        split: option.split sum.split)
qed

text \<open>Two units are enough: the second attempt finds the task started.\<close>

lemma recovery_fuel:
  assumes sc: "sc_store sc = durable_store wall" and ok: "durable_ok s"
  shows "recover_durable_start (Suc (Suc n)) sc a now diag s = recover_durable_start 2 sc a now diag s"
proof -
  have "recover_durable_start (Suc n) sc p now d t = recover_durable_start (Suc 0) sc p now d t"
    if "transition_and_emit sc p RUNNING ty now' ch u = (Inl e, t)" "durable_ok u"
      "can_adopt_committed_start (diagnostic e)" for p d t ty now' ch u e
  proof (cases "id_str p")
    case (Inl e')
    then show ?thesis by (simp add: Let_def bindE_apply liftR_apply)
  next
    case (Inr tid)
    from ambiguous_start_running[OF that(1) sc that(2,3) Inr] recover_started[OF sc _ Inr]
    show ?thesis by blast
  qed
  note again = this
  define r where "r tid = fst (durable_get tid s)" for tid
  define t where "t tid = snd (durable_get tid s)" for tid
  have g: "durable_get tid s = (r tid, t tid)" for tid by (simp add: r_def t_def)
  have "durable_ok (t tid)" if "r tid = Inr p" for tid p
    using durable_get_shows[OF ok, of tid p "t tid"] g that by simp
  then show ?thesis
    using again
    by (auto simp: numeral_2_eq_2 sc durable_store_def Let_def bindE_apply liftR_apply throw_apply g
        catchE_apply split: option.split sum.split prod.split)
qed

text \<open>So a whole reconciliation is the same with any more fuel.\<close>

lemma bindE_agree:
  "(\<And>a t. m s = (Inr a, t) \<Longrightarrow> f a t = g a t) \<Longrightarrow> bindE m f s = bindE m g s"
  by (auto simp: bindE_apply split: prod.split sum.split)

lemma thenE_agree: "(\<And>a t. m s = (Inr a, t) \<Longrightarrow> k t = k' t) \<Longrightarrow> thenE m k s = thenE m k' s"
  unfolding thenE_def by (rule bindE_agree)

lemma start_attempt_fuel:
  assumes on: "scheduled_on (durable_store wall) durable_view durable_ok E sc" and ok: "durable_ok s"
  shows "start_attempt (Suc (Suc n)) sc a now s = start_attempt 2 sc a now s"
proof -
  have sc: "sc_store sc = durable_store wall" using on by (simp add: scheduled_on_def)
  have "durable_ok t" if "transition_and_emit sc a RUNNING ty now ch s = (Inl e, t)" for ty ch e t
  proof -
    have "keeps (moves durable_ok durable_view scheduler_edges scheduler_record)
        (transition_and_emit sc a RUNNING ty now ch)"
      by (rule durable.transition_and_emit_scheduled[OF on]) simp
    then show ?thesis using that ok by (auto dest!: keepsD simp: moves_def)
  qed
  then show ?thesis
    unfolding start_attempt_def Let_def
    by (auto simp: catchE_apply bindE_apply ret_apply recovery_fuel[OF sc]
        simp del: recover_durable_start.simps split: prod.split sum.split)
qed

lemma dispatch_attempt_fuel:
  assumes on: "scheduled_on (durable_store wall) durable_view durable_ok E sc" and ok: "durable_ok s"
  shows "dispatch_attempt (Suc (Suc n)) sc plan now a s = dispatch_attempt 2 sc plan now a s"
  using start_attempt_fuel[OF on ok] unfolding dispatch_attempt_def by (simp add: bindE_apply)

lemma dispatches_fuel:
  assumes on: "scheduled_on (durable_store wall) durable_view durable_ok E sc"
  shows "durable_ok s \<Longrightarrow> forE as (dispatch_attempt (Suc (Suc n)) sc plan now) s
    = forE as (dispatch_attempt 2 sc plan now) s"
proof (induction as arbitrary: s)
  case (Cons a as)
  have "durable_ok t" if "dispatch_attempt 2 sc plan now a s = (Inr u, t)" for u t
    using keepsD[OF durable.dispatch_attempt_safe[OF on] that] Cons.prems
    by (auto dest: durable.safe_grows simp: grows_def)
  then show ?case
    using Cons.IH by (auto simp: thenE_apply dispatch_attempt_fuel[OF on Cons.prems] split: prod.split sum.split)
qed simp

lemma reconcile_fuel:
  assumes on: "scheduled_on (durable_store wall) durable_view durable_ok E sc"
    and lim: "1 \<le> sc_max_attempts sc" and ok: "durable_ok s"
  shows "reconcile (Suc (Suc n)) sc plan we s = reconcile 2 sc plan we s"
proof -
  let ?S = "safe durable_ok durable_view E (sc_max_attempts sc)"
  have stable: "durable_ok s \<Longrightarrow> ?S s t \<Longrightarrow> durable_ok t" for s t
    using durable.safe_grows by (auto simp: grows_def)
  have sc: "sc_store sc = durable_store wall" using on by (simp add: scheduled_on_def)
  have v: "durable_ok t" if "validate_inputs sc plan we s = (Inr i, t)" for i t
    using keepsD[OF keeps_safe[OF durable.scheduled_edges[OF on] durable.validate_inputs_scheduled[OF on]] that] stable ok by blast
  have r: "durable_ok t" if "repairs sc w plan now u = (Inr i, t)" "durable_ok u" for w now u i t
    using keepsD[OF keeps_safe[OF durable.scheduled_edges[OF on] durable.all_repairs_scheduled[OF on]] that(1)] stable that(2) by blast
  have wave: "durable_ok t" if "ready_wave sc plan records now = Inr wave"
    "op_list_by_workflow_execution (durable_store wall) w u = (Inr records, u')"
    "mapE (prepare_attempt sc inputs now) wave u' = (Inr x, t)" "durable_ok u"
    for records now wave w u u' inputs x t
  proof -
    have "durable_ok u' \<and> lists_workflow durable_view u' w records"
      using runsD[OF durable.list_runs[OF on] that(4,2)] by blast
    then have "durable_ok u' \<and> (\<forall>e \<in> set wave. entry_ok durable_view (sc_max_attempts sc) u' e)"
      by (auto intro: ready_entry_ok simp: ready_wave_Inr(1)[OF that(1)])
    from runsD[OF durable.prepare_wave_safe[OF on lim] this that(3)] this show ?thesis
      using stable by blast
  qed
  show ?thesis
    unfolding reconcile_def sc
  proof (intro bindE_agree thenE_agree, goal_cases)
    case (1 now t inputs t1 u t2 records t3 wave t4 scheduled t5)
    have "durable_ok t2" using 1(1,2,3) v r ok by (auto simp: liftR_apply)
    moreover have "ready_wave sc plan records now = Inr wave" "t4 = t3"
      using 1(5) by (simp_all add: liftR_apply)
    ultimately have "durable_ok t5" using wave 1(4,6) by blast
    from dispatches_fuel[OF on this] show ?case by (simp add: thenE_apply)
  qed
qed

end
