(* ===== verification/StoreLaws.thy ===== *)
theory StoreLaws
  imports DurableStart
begin

text \<open>
  The functional behaviour of the store's methods: creation and membership are idempotent, a
  completed object is never updated, claims and leases exclude each other, a workflow lists
  its attempts exactly once; and a transaction of the durable store against the in-memory
  method it wraps, with and without faults.
\<close>

text \<open>The objects on record in the second state and not in the first.\<close>

definition added_objects :: "('s \<Rightarrow> string \<Rightarrow> dict option) \<Rightarrow> 's \<Rightarrow> 's \<Rightarrow> dict set" where
  "added_objects view s t = {v. \<exists>oid. view s oid = None \<and> view t oid = Some v}"

section \<open>Idempotence\<close>

lemma mem_create_again:
  assumes c: "mem_create j key s = (Inr v, t)" and valid: "copy_and_validate j' = Inr d"
    and ok: "store_ok s"
  shows "mem_create j' key t = (Inr v, t)"
proof -
  obtain d0 where d0: "copy_and_validate j = Inr d0" "key \<noteq> []"
    using c by (auto simp: mem_create_def success_iffs)
  show ?thesis
  proof (cases "map_of (deterministic_keys s) key")
    case (Some oid)
    then show ?thesis using c d0 valid
      by (auto simp: mem_create_def eff_simps Let_def split: option.splits)
  next
    case None
    then have "v = d0" and t: "t = index_value d0 (s\<lparr>objects := dput (as_str (dget d0 ''id'')) d0 (objects s),
        deterministic_keys := dput key (as_str (dget d0 ''id'')) (deterministic_keys s)\<rparr>)"
      using c d0 by (auto simp: mem_create_def eff_simps Let_def split: if_splits)
    then show ?thesis using d0 valid
      by (simp add: mem_create_def eff_simps Let_def map_of_dput)
  qed
qed

lemma dsetdefault_present: "dhas d k \<Longrightarrow> dsetdefault k v d = d"
  by (simp add: dsetdefault_def)

lemma save_same: "map_of (objects s) oid = Some v \<Longrightarrow> save oid v s = (Inr (), s)"
  by (simp add: save_def dput_same)

lemma attach_task_id_Inr:
  assumes "attach_task_id wall w te u wo s = (Inr v, t)" "map_of (objects s) w = Some wo"
  shows "is_list (dget v ''taskExecutionIds'') \<and> JStr te \<in> set (as_list (dget v ''taskExecutionIds''))
    \<and> dget v ''kind'' = dget wo ''kind'' \<and> map_of (objects t) w = Some v
    \<and> (\<forall>oid. oid \<noteq> w \<longrightarrow> map_of (objects t) oid = map_of (objects s) oid)"
  using assms
  by (auto simp: attach_task_id_def success_iffs save_def map_of_dput dget_dput Let_def split: if_splits)

lemma mem_append_again:
  assumes "mem_append_task_execution_id wall w te u s = (Inr v, t)"
  shows "JStr te \<in> set (as_list (dget v ''taskExecutionIds''))
    \<and> mem_append_task_execution_id wall' w te u' t = (Inr v, t)"
proof -
  obtain wo task where te: "te \<noteq> []" and wo: "map_of (objects s) w = Some wo" "dget wo ''kind'' = JStr ''WorkflowExecution''"
    and task: "map_of (objects s) te = Some task" "dget task ''kind'' = JStr ''TaskExecution''"
      "dget task ''workflowExecutionId'' = JStr w"
    and att: "attach_task_id wall w te u (dsetdefault ''taskExecutionIds'' (JList []) wo)
      (s\<lparr>objects := dput w (dsetdefault ''taskExecutionIds'' (JList []) wo) (objects s)\<rparr>) = (Inr v, t)"
    using assms
    by (auto simp: mem_append_task_execution_id_def success_iffs require_def save_def Let_def split: option.splits)
  have ne: "te \<noteq> w" using wo task by auto
  have k: "dget (dsetdefault ''taskExecutionIds'' (JList []) wo) ''kind'' = JStr ''WorkflowExecution''"
    using wo(2) by (simp add: dget_def map_of_dsetdefault)
  note a = attach_task_id_Inr[OF att]
  have v: "is_list (dget v ''taskExecutionIds'')" "JStr te \<in> set (as_list (dget v ''taskExecutionIds''))"
    "dget v ''kind'' = JStr ''WorkflowExecution''" "map_of (objects t) w = Some v"
    "map_of (objects t) te = Some task"
    using a k ne task(1) by (simp_all add: map_of_dput)
  have "dhas v ''taskExecutionIds''" using v(1) by (auto simp: dget_def dhas_iff split: option.splits)
  then show ?thesis
    using v te task
    by (simp add: mem_append_task_execution_id_def eff_simps require_def save_same dsetdefault_present
        attach_task_id_def Let_def)
qed

section \<open>Completed objects\<close>

lemma mem_update_completed:
  assumes "map_of (objects s) oid = Some v" "completed v" "mem_update_status wall oid st expd u ch s = (r, t)"
  shows "t = s \<and> (\<forall>v'. r = Inr v' \<longrightarrow> v' = v \<and> dget v ''status'' = JStr st)"
  using assms
  by (auto simp: mem_update_status_def completed_def Let_def eff_simps require_def split: if_splits option.splits)

section \<open>Claims and leases\<close>

lemma claim_once:
  assumes "mem_claim_task_dispatch te owner now s = (Inr (True, v), t)" "owner' \<noteq> []"
  shows "mem_claim_task_dispatch te owner' now' t = (Inr (False, v), t)
    \<and> dget v ''dispatchOwnerId'' = JStr owner"
  using assms
  by (auto simp: mem_claim_task_dispatch_def success_iffs eff_simps require_def save_def map_of_dput Let_def
      dget_dput split: if_splits option.splits)

lemma lease_excludes:
  assumes "mem_acquire_lease key owner now expires s = (Inr True, t)" "now' < expires" "owner' \<noteq> owner"
  shows "mem_acquire_lease key owner' now' expires' t = (Inr False, t)"
    and "mem_renew_lease key owner' now' expires' t = (Inr False, t)"
    and "mem_release_lease key owner' t = (Inr False, t)"
    and "\<exists>e. mem_update_status_with_lease wall oid st key owner' now' expd u ch t = (Inl e, t)
          \<and> exn_cls e = StatusConflictError"
proof -
  have l: "\<exists>l. map_of (leases t) key = Some l \<and> lease_owner l = owner \<and> lease_expires l = expires"
    using assms(1) by (auto simp: mem_acquire_lease_def map_of_dput split: option.splits if_splits)
  then show "mem_acquire_lease key owner' now' expires' t = (Inr False, t)"
    "mem_renew_lease key owner' now' expires' t = (Inr False, t)"
    "mem_release_lease key owner' t = (Inr False, t)"
    using assms(2,3) by (auto simp: mem_acquire_lease_def mem_renew_lease_def mem_release_lease_def)
  show "\<exists>e. mem_update_status_with_lease wall oid st key owner' now' expd u ch t = (Inl e, t)
      \<and> exn_cls e = StatusConflictError"
    using l assms(3) by (auto simp: mem_update_status_with_lease_def holds_lease_def eff_simps)
qed

section \<open>Listing\<close>

definition task_executions :: "dict list \<Rightarrow> dict list" where
  "task_executions vs = filter (\<lambda>v. dget v ''kind'' = JStr ''TaskExecution'') vs"

lemma list_workflow_attempts:
  assumes ok: "store_ok s"
  shows "\<exists>vs. mem_list_by_workflow_execution w s = (Inr vs, s)
    \<and> distinct (map (\<lambda>v. dget v ''id'') (task_executions vs))
    \<and> set (task_executions vs) = {v \<in> snd ` set (objects s). dget v ''kind'' = JStr ''TaskExecution''
          \<and> workflow_execution_id_of v = Some w}"
proof -
  let ?ids = "index_lookup (workflow_index s) w"
  let ?obj = "\<lambda>oid. the (map_of (objects s) oid)"
  have ids: "\<exists>v. map_of (objects s) oid = Some v \<and> dget v ''id'' = JStr oid" if "oid \<in> set ?ids" for oid
    using store_okD(2,4)[OF ok] that by (metis dhas_iff not_Some_eq)
  have "map (\<lambda>v. dget v ''id'') (map ?obj ?ids) = map JStr ?ids"
    using ids by fastforce
  then have "distinct (map (\<lambda>v. dget v ''id'') (map ?obj ?ids))"
    using store_okD(6)[OF ok, of w] by (simp add: distinct_map inj_on_def)
  then have "distinct (map (\<lambda>v. dget v ''id'') (task_executions (map ?obj ?ids)))"
    unfolding task_executions_def by (rule distinct_map_filter)
  moreover have "set (task_executions (map ?obj ?ids)) = {v \<in> snd ` set (objects s).
      dget v ''kind'' = JStr ''TaskExecution'' \<and> workflow_execution_id_of v = Some w}" (is "?L = ?R")
  proof
    have an: "anchored v" if "dget v ''kind'' = JStr ''TaskExecution''" for v
      using that by (simp add: anchored_def)
    show "?L \<subseteq> ?R"
    proof
      fix v assume "v \<in> ?L"
      then obtain oid where oid: "oid \<in> set ?ids" "v = ?obj oid" "dget v ''kind'' = JStr ''TaskExecution''"
        by (auto simp: task_executions_def)
      then obtain u where u: "map_of (objects s) oid = Some u" using ids by blast
      then have "v = u" using oid by simp
      with u oid store_okD(7)[OF ok u] an map_of_SomeD[OF u] show "v \<in> ?R" by force
    qed
    show "?R \<subseteq> ?L"
    proof
      fix v assume "v \<in> ?R"
      then obtain oid where oid: "(oid, v) \<in> set (objects s)" and k: "dget v ''kind'' = JStr ''TaskExecution''"
        and w: "workflow_execution_id_of v = Some w" by auto
      have m: "map_of (objects s) oid = Some v"
        using oid store_okD(1)[OF ok] by (simp add: dkeys_def)
      then have "oid \<in> set ?ids" using store_okD(7)[OF ok m] an[OF k] w by blast
      with m k show "v \<in> ?L" by (force simp: task_executions_def)
    qed
  qed
  ultimately show ?thesis using list_by_workflow_execution_total[OF ok] by blast
qed

section \<open>Transactions\<close>

text \<open>Without faults a transaction is the in-memory method on the committed store.\<close>

lemma reload_ok: "durable_ok w \<Longrightarrow> (\<And>n. f \<noteq> ReadFault n) \<Longrightarrow> reload f w = Inr (committed w)"
  by (auto simp: durable_ok_def committed_def reload_def restore_checkpoint split: option.splits io_fault.splits)

lemma mutate_no_faults:
  assumes ok: "durable_ok w" and f: "faults w = []"
  shows "mutate operation w = (case operation (committed w) of
      (Inl e, s) \<Rightarrow> (Inl e, w\<lparr>memory := if keeps_memory_on e then s else committed w\<rparr>)
    | (Inr a, s) \<Rightarrow> (Inr a, committed_as w s))"
  using reload_ok[OF ok, of NoFault] f
  by (auto simp: mutate_def next_fault_def split: sum.splits prod.splits)

lemma read_no_faults:
  assumes ok: "durable_ok w" and f: "faults w = []" and same: "\<And>s. snd (operation s) = s"
  shows "read operation w = (fst (operation (committed w)), w\<lparr>memory := committed w\<rparr>)"
proof -
  obtain r where "operation (committed w) = (r, committed w)"
    using same by (metis surjective_pairing)
  then show ?thesis
    using reload_ok[OF ok, of NoFault] f
    by (auto simp: read_def next_fault_def split: sum.splits)
qed

text \<open>
  With faults: a raise whose diagnostic is not that of a committed checkpoint leaves the
  record as it was.
\<close>

lemma plain_not_kept: "diagnostic e = [] \<Longrightarrow> \<not> keeps_memory_on e"
  by (cases "exn_info e") (auto simp: keeps_memory_on_def diagnostic_def mget_def dget_def)

lemma mutate_unchanged:
  assumes m: "mutate operation w = (Inl e, w')" and ok: "durable_ok w" and p: "plain operation"
    and a: "\<not> can_adopt_committed_start (diagnostic e)"
  shows "durable_view w' = durable_view w"
proof -
  obtain f w1 where n: "next_fault w = (f, w1)" by (cases "next_fault w")
  have fr: "disk w1 = disk w" "memory w1 = memory w" using next_fault_frame[OF n] by simp_all
  have re: "reload f w1 = reload f w" for f using fr by (rule reload_cong)
  have left: "durable_view u = durable_view w"
    if "disk u = disk w" "memory u = memory w \<or> memory u = committed w" for u
    using that by (auto simp: durable_view_def committed_def split: option.splits)
  show ?thesis
  proof (cases "reload f w")
    case (Inl e')
    then show ?thesis using m fr by (auto simp: mutate_def n re split: io_fault.splits intro!: left)
  next
    case (Inr s0)
    then have s0: "s0 = committed w" by (rule reload_committed[OF ok])
    obtain r s1 where o: "operation s0 = (r, s1)" by (cases "operation s0")
    show ?thesis
    proof (cases r)
      case (Inl e')
      then have "\<not> keeps_memory_on e'" using plainD[OF p] o plain_not_kept by blast
      then show ?thesis
        using m o Inl fr s0 \<open>reload f w = Inr s0\<close>
        by (auto simp: mutate_def n re split: io_fault.splits intro!: left)
    next
      case (Inr x)
      then show ?thesis
        using m o fr s0 a \<open>reload f w = Inr s0\<close> adoptable_phases
        by (auto simp: mutate_def n re split: io_fault.splits if_splits intro!: left)
    qed
  qed
qed

lemma commit_operation_plain: "plain (commit_operation wall t st w ev expd now ch)"
  by (intro plain_rules plain_update_status plain_append_id plain_append_event)

lemma committed_view:
  assumes o: "operation (committed w) = (Inr a, memory w')" and ok: "durable_ok w"
    and d: "disk w' = Some (canon (checkpoint_payload (memory w')))"
    and wf: "keeps (\<lambda>s t. store_ok s \<longrightarrow> store_ok t) operation"
  shows "durable_view w' = mem_view (memory w')"
proof -
  have "store_ok (memory w')" using keepsD[OF wf o] committed_ok[OF ok] by simp
  then show ?thesis using d by (simp add: durable_view_def committed_def restore_checkpoint)
qed

text \<open>A committed transition: status, membership and event together.\<close>

definition transition_committed ::
  "string \<Rightarrow> string \<Rightarrow> string \<Rightarrow> string \<Rightarrow> json \<Rightarrow> string \<Rightarrow> string \<Rightarrow> dict \<Rightarrow> durable \<Rightarrow> durable \<Rightarrow> bool" where
  "transition_committed wall t st w ev expd now ch s s' \<longleftrightarrow>
     (\<exists>v. commit_operation wall t st w ev expd now ch (committed s) = (Inr v, memory s')
        \<and> durable_view s' = mem_view (memory s'))"

lemma commit_outcome:
  assumes ok: "durable_ok s"
    and c: "durable_commit_task_execution_transition wall t st w ev expd now ch s = (r, s')"
  shows "case r of
      Inr v \<Rightarrow> transition_committed wall t st w ev expd now ch s s'
    | Inl e \<Rightarrow> if can_adopt_committed_start (diagnostic e)
        then transition_committed wall t st w ev expd now ch s s'
        else durable_view s' = durable_view s"
proof -
  let ?op = "commit_operation wall t st w ev expd now ch"
  have m: "mutate ?op s = (r, s')"
    using c by (simp add: durable_commit_task_execution_transition_def)
  have "transition_committed wall t st w ev expd now ch s s'"
    if "?op (committed s) = (Inr v, memory s')" "disk s' = Some (canon (checkpoint_payload (memory s')))" for v
    using that committed_view[OF that(1) ok that(2) commit_operation_keeps]
    by (auto simp: transition_committed_def)
  note done_by = this
  show ?thesis
  proof (cases r)
    case (Inl e)
    note m' = m[unfolded Inl]
    show ?thesis
      using done_by mutate_adoptable[OF m' ok commit_operation_plain]
        mutate_unchanged[OF m' ok commit_operation_plain] Inl by auto
  next
    case (Inr v)
    then show ?thesis using done_by mutate_Inr[OF ok m[unfolded Inr]] by simp
  qed
qed

end
