(* ===== verification/Samples.thy ===== *)
theory Samples
  imports StoreLaws Resources
begin

text \<open>
  Concrete records, stores and schedulers the witnesses of the properties run on: a workflow
  with a finished task and a task that waits on it.
\<close>

text \<open>A call that does not raise returns.\<close>

lemma returns: "\<not> isl (fst c) \<Longrightarrow> \<exists>v t. c = (Inr v, t)"
  by (cases c; cases "fst c") auto

definition sample_workflow :: dict where
  "sample_workflow = [(''kind'', JStr ''WorkflowExecution''), (''id'', JStr ''w1''), (''status'', JStr ''RUNNING''),
     (''traceId'', JStr ''t''), (''taskExecutionIds'', JList [JStr ''a'', JStr ''b'']),
     (''repositoryRevision'', JStr ''r''), (''workflowRef'', JObj [(''kind'', JStr ''Workflow''),
       (''name'', JStr ''w''), (''version'', JStr ''1.0.0'')])]"

definition sample_task :: "string \<Rightarrow> string \<Rightarrow> string list \<Rightarrow> dict" where
  "sample_task oid status deps = [(''kind'', JStr ''TaskExecution''), (''id'', JStr oid), (''status'', JStr status),
     (''traceId'', JStr ''t''), (''workflowExecutionId'', JStr ''w1''), (''attempt'', JInt 1),
     (''taskRef'', JObj [(''kind'', JStr ''Task''), (''name'', JStr oid), (''version'', JStr ''1.0.0'')]),
     (''dependencyTaskExecutionIds'', JList (map JStr deps))]"

definition sample_failed :: "string \<Rightarrow> dict" where
  "sample_failed oid = sample_task oid ''FAILED'' [] @ [(''provenance'', JObj []),
     (''failure'', JObj [(''class'', JStr ''RECOVERABLE''), (''message'', JStr ''m''), (''retryable'', JBool True)])]"

definition sample_approval :: dict where
  "sample_approval = [(''kind'', JStr ''Approval''), (''id'', JStr ''p''), (''status'', JStr ''PENDING''),
     (''provenance'', JObj [(''workflowExecutionId'', JStr ''w1'')]), (''taskExecutionId'', JNull),
     (''authorizedReviewers'', JList [JStr ''alice'']), (''artifactRequestDigest'', JStr ''sha'')]"

definition sample_store :: store where
  "sample_store = snd (thenE (mem_create (JObj sample_workflow) ''kw'')
     (thenE (mem_create (JObj (sample_task ''a'' ''SUCCEEDED'' [])) ''ka'')
     (thenE (mem_create (JObj (sample_task ''b'' ''PENDING'' [''a''])) ''kb'')
     (thenE (mem_create (JObj (sample_failed ''c'')) ''kc'')
     (mem_create (JObj sample_approval) ''kp'')))) empty_store)"

definition sample_durable :: durable where
  "sample_durable = \<lparr>memory = sample_store, disk = None, faults = [], windows = False\<rparr>"

text \<open>The checkpoint was renamed into place, but its directory entry was not synced.\<close>

definition unsynced_durable :: durable where
  "unsynced_durable = sample_durable \<lparr>faults := [CheckpointFault DirectorySync None]\<rparr>"

text \<open>The same with its approval decided.\<close>

definition decided_durable :: durable where
  "decided_durable = sample_durable \<lparr>memory :=
     snd (mem_create (JObj (dput ''status'' (JStr ''APPROVED'') sample_approval)) ''kp'' empty_store)\<rparr>"

definition sample_env :: environment where
  "sample_env = \<lparr>env_sha256 = (\<lambda>s. s), env_uuid5 = (\<lambda>s. s), env_iso = (\<lambda>s. None), env_schema = (\<lambda>n j. [])\<rparr>"

definition sample_scheduler :: "'s store_ops \<Rightarrow> 's scheduler" where
  "sample_scheduler ops = \<lparr>sc_store = ops, sc_execute = (\<lambda>task r. ret (Some result_success)),
     sc_max_attempts = 3, sc_clock = JStr ''2026-01-01T00:00:00Z'', sc_owner = (\<lambda>t. ''owner''),
     sc_env = sample_env\<rparr>"

definition sample_ref :: "string \<Rightarrow> resource_ref" where
  "sample_ref n = ResourceRef ''Task'' n ''1.0.0''"

definition sample_node :: "string \<Rightarrow> string list \<Rightarrow> plan_node" where
  "sample_node n deps = \<lparr>pn_ref = sample_ref n, pn_task = \<lparr>res_ref = sample_ref n, res_path = [],
     res_data = [], res_references = []\<rparr>, pn_dependencies = map sample_ref deps, pn_dependents = []\<rparr>"

definition sample_plan :: task_plan where
  "sample_plan = \<lparr>tp_workflow = ResourceRef ''Workflow'' ''w'' ''1.0.0'',
     tp_nodes = [sample_node ''a'' [], sample_node ''b'' [''a''], sample_node ''d'' [''a'']], tp_ready_groups = []\<rparr>"

definition dispatch_store :: store where
  "dispatch_store = snd (mem_create (JObj (sample_task ''d'' ''RUNNING'' [] @ [(''dispatchState'', JStr ''PENDING'')]))
     ''kd'' empty_store)"

text \<open>A workflow resource whose task \<open>b\<close> depends on \<open>a\<close>, and \<open>a\<close> on the given tasks.\<close>

definition sample_resource :: "resource_ref \<Rightarrow> dict \<Rightarrow> resource" where
  "sample_resource r d = \<lparr>res_ref = r, res_path = [], res_data = d, res_references = []\<rparr>"

definition sample_entry :: "string \<Rightarrow> string list \<Rightarrow> json" where
  "sample_entry n deps = JObj [(''taskRef'', ref_record (sample_ref n)),
     (''dependsOn'', JList (map (\<lambda>d. ref_record (sample_ref d)) deps))]"

definition sample_graph :: "string list \<Rightarrow> resource" where
  "sample_graph deps = sample_resource (ResourceRef ''Workflow'' ''w'' ''1.0.0'')
     [(''spec'', JObj [(''tasks'', JList [sample_entry ''b'' [''a''], sample_entry ''a'' deps])])]"

definition sample_collection :: collection where
  "sample_collection = \<lparr>col_workspace = sample_graph [],
     col_resources = [sample_resource (sample_ref ''a'') [], sample_resource (sample_ref ''b'') []]\<rparr>"

definition sample_event :: json where
  "sample_event = JObj [(''kind'', JStr ''ExecutionEvent''), (''id'', JStr ''e1'')]"

lemma sample_objects:
  "objects sample_store = [(''w1'', sample_workflow), (''a'', sample_task ''a'' ''SUCCEEDED'' []),
     (''b'', sample_task ''b'' ''PENDING'' [''a'']), (''c'', sample_failed ''c''), (''p'', sample_approval)]"
  by code_simp

lemma sample_store_ok: "store_ok sample_store"
proof -
  have "keeps (\<lambda>s t. store_ok s \<longrightarrow> store_ok t)
     (thenE (mem_create (JObj sample_workflow) ''kw'')
     (thenE (mem_create (JObj (sample_task ''a'' ''SUCCEEDED'' [])) ''ka'')
     (thenE (mem_create (JObj (sample_task ''b'' ''PENDING'' [''a''])) ''kb'')
     (thenE (mem_create (JObj (sample_failed ''c'')) ''kc'')
     (mem_create (JObj sample_approval) ''kp'')))))"
    by (intro store_wf.rules store_wf.mem_create) simp_all
  then show ?thesis
    unfolding sample_store_def keeps_def using store_ok_empty by blast
qed

lemma sample_durable_ok: "durable_ok sample_durable" "durable_ok unsynced_durable"
  by (simp_all add: durable_ok_def sample_durable_def unsynced_durable_def sample_store_ok)

lemma sample_view: "durable_view sample_durable = mem_view sample_store"
  by (simp add: durable_view_def committed_def sample_durable_def)

lemma decided_durable_ok: "durable_ok decided_durable"
proof -
  have "keeps (\<lambda>s t. store_ok s \<longrightarrow> store_ok t)
      (mem_create (JObj (dput ''status'' (JStr ''APPROVED'') sample_approval)) ''kp'')"
    by (rule store_wf.mem_create) simp
  then show ?thesis
    using store_ok_empty unfolding keeps_def
    by (auto simp: durable_ok_def decided_durable_def sample_durable_def)
qed

lemma decided_view:
  "durable_view decided_durable ''p'' = Some (canon_dict (dput ''status'' (JStr ''APPROVED'') sample_approval))"
proof -
  have "map_of (objects (memory decided_durable)) ''p'' = Some (dput ''status'' (JStr ''APPROVED'') sample_approval)"
    by code_simp
  then show ?thesis by (simp add: durable_view_def committed_def decided_durable_def sample_durable_def mem_view_def)
qed

lemma sample_deps_inv: "deps_inv durable_view sample_durable"
  unfolding deps_inv_def
  by (auto simp: sample_view mem_view_def sample_objects deps_done_def task_succeeded_def dget_canon_dict
      sample_workflow_def sample_task_def sample_failed_def sample_approval_def dget_Cons dget_Nil succeeded_def split: if_splits)

lemma sample_scheduled:
  "scheduled_on (durable_store wall) durable_view durable_ok scheduler_edges (sample_scheduler (durable_store wall))"
  by (simp add: scheduled_on_def sample_scheduler_def step_rel.ret[OF step_rel_safe])

lemma sample_limit: "1 \<le> sc_max_attempts (sample_scheduler ops)"
  by (simp add: sample_scheduler_def)

end
