(* ===== verification/ToolRuntime.thy ===== *)
theory ToolRuntime
  imports Observability SchemaValidation
begin

text \<open>
  The contract for controlled tool execution (\<open>tool_runtime.py\<close>): requests and results with the
  checks of their constructors, the schema hooks, and \<open>invoke_tool\<close>, which validates, authorizes,
  starts, waits by deadline, stops what overruns it, and always cleans up.  Adapters and
  executions are abstract classes, here tables of operations on any state; the deterministic
  adapter of the module implements them over a log of what was called.
\<close>

section \<open>Requests\<close>

definition semver_char :: "char \<Rightarrow> bool" where
  "semver_char c \<longleftrightarrow> (let n = of_char c :: nat in
     48 \<le> n \<and> n \<le> 57 \<or> 65 \<le> n \<and> n \<le> 90 \<or> 97 \<le> n \<and> n \<le> 122 \<or> c = CHR ''.'' \<or> c = CHR ''-'')"

text \<open>\<open>0|[1-9][0-9]*\<close>, what follows it a character no digit.\<close>

definition scan_semver_number :: "string \<Rightarrow> string option" where
  "scan_semver_number s =
     (let ds = takeWhile is_digit s in
      if ds = [] \<or> (hd ds = CHR ''0'' \<and> length ds \<noteq> 1) then None else Some (dropWhile is_digit s))"

text \<open>\<open>(?:-C+)?(?:\+C+)?\<close> to the end, \<open>C\<close> the class of \<open>semver_char\<close>.\<close>

definition semver_suffix :: "string \<Rightarrow> bool" where
  "semver_suffix s =
     (let build_ok = (\<lambda>t. t = [] \<or> (hd t = CHR ''+'' \<and> tl t \<noteq> [] \<and> list_all semver_char (tl t))) in
      if s \<noteq> [] \<and> hd s = CHR ''-''
      then takeWhile semver_char (tl s) \<noteq> [] \<and> build_ok (dropWhile semver_char (tl s))
      else build_ok s)"

definition is_semver :: "string \<Rightarrow> bool" where
  "is_semver s =
     (let s1 = (if s \<noteq> [] \<and> hd s = CHR ''v'' then tl s else s) in
      case scan_semver_number s1 of None \<Rightarrow> False | Some r1 \<Rightarrow>
      case scan_char (CHR ''.'') r1 of None \<Rightarrow> False | Some s2 \<Rightarrow>
      case scan_semver_number s2 of None \<Rightarrow> False | Some r2 \<Rightarrow>
      case scan_char (CHR ''.'') r2 of None \<Rightarrow> False | Some s3 \<Rightarrow>
      case scan_semver_number s3 of None \<Rightarrow> False | Some r3 \<Rightarrow> semver_suffix r3)"

record tool_caller =
  caller_kind :: string
  caller_id :: string

definition new_caller :: "string \<Rightarrow> string \<Rightarrow> exn + tool_caller" where
  "new_caller kind ident =
     (if kind = [] \<or> ident = [] then Inl (value_error ''caller kind and id must not be empty'')
      else Inr \<lparr>caller_kind = kind, caller_id = ident\<rparr>)"

record tool_request =
  tq_ref :: dict
  tq_input :: dict
  tq_caller :: tool_caller
  tq_capabilities :: "string list"
  tq_timeout :: int
  tq_correlation :: correlation

text \<open>The constructor: \<open>__post_init__\<close> checks and normalizes the fields.\<close>

definition new_tool_request ::
  "dict \<Rightarrow> dict \<Rightarrow> tool_caller \<Rightarrow> string list \<Rightarrow> int \<Rightarrow> correlation_arg \<Rightarrow> exn + tool_request" where
  "new_tool_request ref inp caller capabilities timeout arg =
     bindR (checkR (dget ref ''kind'' = JStr ''Tool'')
       (value_error ''tool_ref.kind must be 'Tool'; Model provider calls are excluded'')) (\<lambda>_.
     bindR (eachR (\<lambda>key. checkR (truthy (dget ref key)) (value_error (''tool_ref.'' @ key @ '' must not be empty'')))
       [''name'', ''version'']) (\<lambda>_.
     bindR (checkR (is_str (dget ref ''version'') \<and> is_semver (as_str (dget ref ''version'')))
       (value_error ''tool_ref.version must be an immutable semantic version'')) (\<lambda>_.
     bindR (checkR (capabilities \<noteq> [] \<and> [] \<notin> set capabilities)
       (value_error ''capabilities must contain non-empty values'')) (\<lambda>_.
     bindR (checkR (distinct capabilities) (value_error ''capabilities must be unique'')) (\<lambda>_.
     bindR (checkR (1 \<le> timeout) (value_error ''timeout_ms must be positive'')) (\<lambda>_.
     bindR (bind_correlation arg None None) (\<lambda>context.
     bindR (checkR (cor_task context \<noteq> None) (value_error ''correlation requires taskExecutionId'')) (\<lambda>_.
     bindR (checkR (caller_kind caller = ''TaskExecution'' \<longrightarrow> cor_task context = Some (caller_id caller))
       (value_error ''caller TaskExecution conflicts with correlation'')) (\<lambda>_.
     Inr \<lparr>tq_ref = ref, tq_input = inp, tq_caller = caller, tq_capabilities = capabilities,
          tq_timeout = timeout, tq_correlation = context\<rparr>)))))))))"

section \<open>Results\<close>

datatype tool_status = TOOL_SUCCEEDED | TOOL_FAILED | TOOL_DENIED | TOOL_TIMED_OUT

datatype tool_failure_class =
  VALIDATION | POLICY_DENIED | TIMEOUT | ADAPTER | STARTUP | NONZERO_EXIT | BOUNDARY | NOT_FOUND | IO_FAILURE
  | CONFIGURATION_FAILURE

record tool_metrics =
  tm_duration :: int
  tm_cpu :: "int option"
  tm_memory :: "int option"

definition new_metrics :: "int \<Rightarrow> int option \<Rightarrow> int option \<Rightarrow> exn + tool_metrics" where
  "new_metrics duration cpu memory =
     bindR (checkR (0 \<le> duration) (value_error ''duration_ms must not be negative'')) (\<lambda>_.
     bindR (checkR (case cpu of None \<Rightarrow> True | Some c \<Rightarrow> 0 \<le> c) (value_error ''cpu_ms must not be negative'')) (\<lambda>_.
     bindR (checkR (case memory of None \<Rightarrow> True | Some m \<Rightarrow> 0 \<le> m)
       (value_error ''memory_bytes must not be negative'')) (\<lambda>_.
     Inr \<lparr>tm_duration = duration, tm_cpu = cpu, tm_memory = memory\<rparr>)))"

definition metrics_record :: "tool_metrics \<Rightarrow> dict" where
  "metrics_record m = [(''durationMs'', JInt (tm_duration m))]
     @ (case tm_cpu m of None \<Rightarrow> [] | Some c \<Rightarrow> [(''cpuMs'', JInt c)])
     @ (case tm_memory m of None \<Rightarrow> [] | Some b \<Rightarrow> [(''memoryBytes'', JInt b)])"

record tool_result =
  tr_status :: tool_status
  tr_output :: json
  tr_logs :: "string option"
  tr_metrics :: tool_metrics
  tr_started :: string
  tr_completed :: string
  tr_class :: "tool_failure_class option"
  tr_message :: "string option"

definition new_tool_result ::
  "tool_status \<Rightarrow> json \<Rightarrow> string option \<Rightarrow> tool_metrics \<Rightarrow> string \<Rightarrow> string \<Rightarrow> tool_failure_class option
   \<Rightarrow> string option \<Rightarrow> exn + tool_result" where
  "new_tool_result st out logs metrics started finished cls msg =
     bindR (checkR (started \<noteq> [] \<and> finished \<noteq> [])
       (value_error ''result timing must include started_at and completed_at'')) (\<lambda>_.
     bindR (checkR (\<not> (st = TOOL_SUCCEEDED \<and> cls \<noteq> None))
       (value_error ''successful results must not include a failure class'')) (\<lambda>_.
     bindR (checkR (\<not> (st \<noteq> TOOL_SUCCEEDED \<and> cls = None))
       (value_error ''unsuccessful results must include a failure class'')) (\<lambda>_.
     Inr \<lparr>tr_status = st, tr_output = out, tr_logs = logs, tr_metrics = metrics, tr_started = started,
          tr_completed = finished, tr_class = cls, tr_message = msg\<rparr>)))"

section \<open>Schema hooks\<close>

record tool_validator =
  tv_input :: "json \<Rightarrow> exn + unit"
  tv_output :: "json \<Rightarrow> exn + unit"

fun join_semicolons :: "string list \<Rightarrow> string" where
  "join_semicolons [] = []"
| "join_semicolons [x] = x"
| "join_semicolons (x # y # zs) = x @ ''; '' @ join_semicolons (y # zs)"

definition schema_hook :: "validator \<Rightarrow> string \<Rightarrow> json \<Rightarrow> exn + unit" where
  "schema_hook iter_errors phase value =
     (case sort_key err_path (iter_errors value) of
        [] \<Rightarrow> Inr ()
      | es \<Rightarrow> Inl (Exn ToolSchemaValidationError
                (phase @ '' schema validation failed: '' @ join_semicolons (map err_message es))
                (JObj [(''phase'', JStr phase), (''messages'', JList (map (JStr \<circ> err_message) es))])))"

definition json_schema_tool_validator :: "validator \<Rightarrow> validator \<Rightarrow> tool_validator" where
  "json_schema_tool_validator input_errors output_errors =
     \<lparr>tv_input = schema_hook input_errors ''input'', tv_output = schema_hook output_errors ''output''\<rparr>"

section \<open>Adapters\<close>

text \<open>
  What \<open>wait\<close> may give: nothing by the deadline, a result, or (a faulty adapter) a value of
  another type, with its type's name.
\<close>

datatype wait_outcome = StillRunning | Finished tool_result | Foreign string

record 's tool_execution =
  ex_wait :: "int \<Rightarrow> ('s, wait_outcome) eff"
  ex_terminate :: "('s, unit) eff"
  ex_kill :: "('s, unit) eff"
  ex_cleanup :: "('s, unit) eff"

text \<open>The runtime around an invocation: the two clocks it reads, the hook and the adapter.\<close>

record 's tool_runtime =
  rt_now :: "('s, string) eff"
  rt_elapsed_ms :: "('s, int) eff"
  rt_authorize :: "tool_request \<Rightarrow> ('s, bool) eff"
  rt_start :: "tool_request \<Rightarrow> ('s, 's tool_execution) eff"

definition termination_grace_ms :: int where
  "termination_grace_ms = 100"

definition tool_failure ::
  "'s tool_runtime \<Rightarrow> string \<Rightarrow> tool_status \<Rightarrow> tool_failure_class \<Rightarrow> string \<Rightarrow> ('s, tool_result) eff" where
  "tool_failure rt started_at st cls msg =
     bindE (rt_now rt) (\<lambda>completed_at.
     bindE (rt_elapsed_ms rt) (\<lambda>elapsed.
     bindE (liftR (new_metrics (max 0 elapsed) None None)) (\<lambda>metrics.
     liftR (new_tool_result st JNull None metrics started_at completed_at (Some cls) (Some msg)))))"

text \<open>\<open>str(error) or type(error).__name__\<close>.\<close>

definition error_text :: "exn \<Rightarrow> string" where
  "error_text e = (if exn_msg e = [] then class_name (exn_cls e) else exn_msg e)"

text \<open>The class attribute \<open>failure_class\<close> of an adapter error and of its subclasses.\<close>

definition adapter_failure_class :: "exn \<Rightarrow> tool_failure_class" where
  "adapter_failure_class e =
     (if exn_cls e = OtherException ''DockerStartupError'' then STARTUP
      else if exn_cls e = OtherException ''DockerImageReadinessError'' then CONFIGURATION_FAILURE
      else ADAPTER)"

definition stop_execution :: "'s tool_execution \<Rightarrow> ('s, unit) eff" where
  "stop_execution ex =
     thenE (ex_terminate ex)
     (bindE (ex_wait ex termination_grace_ms) (\<lambda>w.
      case w of StillRunning \<Rightarrow> ex_kill ex | _ \<Rightarrow> ret ()))"

definition await_result ::
  "'s tool_runtime \<Rightarrow> tool_validator \<Rightarrow> string \<Rightarrow> tool_request \<Rightarrow> 's tool_execution \<Rightarrow> ('s, tool_result) eff" where
  "await_result rt validator started_at request ex =
     bindE (ex_wait ex (tq_timeout request)) (\<lambda>w.
     case w of
       StillRunning \<Rightarrow>
         thenE (stop_execution ex)
           (tool_failure rt started_at TOOL_TIMED_OUT TIMEOUT
             (''adapter exceeded timeout of '' @ dec_int (tq_timeout request) @ ''ms''))
     | Foreign type_name \<Rightarrow>
         tool_failure rt started_at TOOL_FAILED ADAPTER
           (''adapter returned '' @ type_name @ '', expected ToolResult'')
     | Finished result \<Rightarrow>
         (case tr_status result of
            TOOL_TIMED_OUT \<Rightarrow> thenE (stop_execution ex) (ret result)
          | TOOL_SUCCEEDED \<Rightarrow> thenE (liftR (tv_output validator (tr_output result))) (ret result)
          | _ \<Rightarrow> ret result))"

definition normalized_result ::
  "'s tool_runtime \<Rightarrow> tool_validator \<Rightarrow> string \<Rightarrow> tool_request \<Rightarrow> 's tool_execution \<Rightarrow> ('s, tool_result) eff" where
  "normalized_result rt validator started_at request ex =
     catchE (await_result rt validator started_at request ex) (\<lambda>e.
       if instance_of e ToolSchemaValidationError
       then tool_failure rt started_at TOOL_FAILED VALIDATION (exn_msg e)
       else tool_failure rt started_at TOOL_FAILED ADAPTER (error_text e))"

text \<open>The \<open>finally\<close> clause and what follows it: a failing cleanup turns any result into a failure.\<close>

definition cleaned_result :: "'s tool_execution \<Rightarrow> tool_result \<Rightarrow> ('s, tool_result) eff" where
  "cleaned_result ex result =
     bindE (catchE (thenE (ex_cleanup ex) (ret None)) (\<lambda>e. ret (Some e))) (\<lambda>cleanup_error.
     case cleanup_error of
       None \<Rightarrow> ret result
     | Some e \<Rightarrow>
         let cleanup_message = ''execution cleanup failed: '' @ exn_msg e;
             msg = (case tr_message result of
                      None \<Rightarrow> cleanup_message
                    | Some m \<Rightarrow> if m = [] then cleanup_message else m @ ''; '' @ cleanup_message)
         in liftR (new_tool_result TOOL_FAILED (tr_output result) (tr_logs result) (tr_metrics result)
                     (tr_started result) (tr_completed result) (Some ADAPTER) (Some msg)))"

text \<open>
  When normalizing itself raises (only a clock could), the cleanup still runs and the error
  goes on, whatever the cleanup does.
\<close>

definition run_started ::
  "'s tool_runtime \<Rightarrow> tool_validator \<Rightarrow> string \<Rightarrow> tool_request \<Rightarrow> 's tool_execution \<Rightarrow> ('s, tool_result) eff" where
  "run_started rt validator started_at request ex =
     bindE (catchE (normalized_result rt validator started_at request ex)
              (\<lambda>e. thenE (catchE (ex_cleanup ex) (\<lambda>_. ret ())) (throw e)))
       (cleaned_result ex)"

definition invoke_tool ::
  "'s tool_runtime \<Rightarrow> tool_validator \<Rightarrow> tool_request \<Rightarrow> ('s, tool_result) eff" where
  "invoke_tool rt validator request =
     bindE (rt_now rt) (\<lambda>started_at.
     case tv_input validator (JObj (tq_input request)) of
       Inl e \<Rightarrow>
         if instance_of e ToolSchemaValidationError
         then tool_failure rt started_at TOOL_FAILED VALIDATION (exn_msg e) else throw e
     | Inr _ \<Rightarrow>
         bindE (rt_authorize rt request) (\<lambda>authorized.
         if \<not> authorized
         then tool_failure rt started_at TOOL_DENIED POLICY_DENIED ''requested capabilities were denied''
         else bindE (catchE (bindE (rt_start rt request) (\<lambda>ex. ret (Inr ex)))
                (\<lambda>e. if instance_of e ToolAdapterError
                     then ret (Inl (adapter_failure_class e, error_text e))
                     else ret (Inl (ADAPTER, error_text e)))) (\<lambda>started.
              case started of
                Inl (cls, msg) \<Rightarrow> tool_failure rt started_at TOOL_FAILED cls msg
              | Inr ex \<Rightarrow> run_started rt validator started_at request ex)))"

section \<open>The deterministic adapter\<close>

datatype fake_outcome = Gives wait_outcome | Raises exn

record fake_execution =
  fx_outcomes :: "fake_outcome list"
  fx_wait_timeouts :: "int list"
  fx_terminated :: bool
  fx_killed :: bool
  fx_cleaned_up :: bool

record fake_adapter =
  fa_outcomes :: "fake_outcome list"
  fa_requests :: "tool_request list"
  fa_executions :: "fake_execution list"

definition new_fake_adapter :: "fake_outcome list \<Rightarrow> exn + fake_adapter" where
  "new_fake_adapter outcomes =
     (if outcomes = [] then Inl (value_error ''outcomes must not be empty'')
      else Inr \<lparr>fa_outcomes = outcomes, fa_requests = [], fa_executions = []\<rparr>)"

text \<open>
  The state pairs the world the authorization hook works on with the adapter's log.  A handle
  is the position of its execution; \<open>_wait_count\<close> is the number of recorded timeouts.
\<close>

type_synonym 'w tool_world = "'w \<times> fake_adapter"

definition on_world :: "('w, 'a) eff \<Rightarrow> ('w tool_world, 'a) eff" where
  "on_world m = (\<lambda>(w, a). let (r, w') = m w in (r, (w', a)))"

definition on_execution :: "nat \<Rightarrow> (fake_execution \<Rightarrow> fake_execution) \<Rightarrow> 'w tool_world \<Rightarrow> 'w tool_world" where
  "on_execution i f = (\<lambda>(w, a). (w, a\<lparr>fa_executions := (fa_executions a)[i := f (fa_executions a ! i)]\<rparr>))"

definition fake_wait :: "nat \<Rightarrow> int \<Rightarrow> ('w tool_world, wait_outcome) eff" where
  "fake_wait i timeout_ms = (\<lambda>s.
     let x = fa_executions (snd s) ! i;
         index = min (length (fx_wait_timeouts x)) (length (fx_outcomes x) - 1);
         s' = on_execution i (\<lambda>x. x\<lparr>fx_wait_timeouts := fx_wait_timeouts x @ [timeout_ms]\<rparr>) s
     in case fx_outcomes x ! index of
          Raises e \<Rightarrow> (Inl e, s')
        | Gives w \<Rightarrow> (Inr w, s'))"

definition fake_execution_handle :: "nat \<Rightarrow> 'w tool_world tool_execution" where
  "fake_execution_handle i =
     \<lparr>ex_wait = fake_wait i,
      ex_terminate = (\<lambda>s. (Inr (), on_execution i (\<lambda>x. x\<lparr>fx_terminated := True\<rparr>) s)),
      ex_kill = (\<lambda>s. (Inr (), on_execution i (\<lambda>x. x\<lparr>fx_killed := True\<rparr>) s)),
      ex_cleanup = (\<lambda>s. (Inr (), on_execution i (\<lambda>x. x\<lparr>fx_cleaned_up := True\<rparr>) s))\<rparr>"

definition fake_start :: "tool_request \<Rightarrow> ('w tool_world, 'w tool_world tool_execution) eff" where
  "fake_start request = (\<lambda>(w, a).
     (Inr (fake_execution_handle (length (fa_executions a))),
      (w, a\<lparr>fa_requests := fa_requests a @ [request],
            fa_executions := fa_executions a @ [\<lparr>fx_outcomes = fa_outcomes a, fx_wait_timeouts = [],
              fx_terminated = False, fx_killed = False, fx_cleaned_up = False\<rparr>]\<rparr>)))"

definition fake_runtime ::
  "string \<Rightarrow> int \<Rightarrow> (tool_request \<Rightarrow> ('w, bool) eff) \<Rightarrow> 'w tool_world tool_runtime" where
  "fake_runtime now elapsed authorize =
     \<lparr>rt_now = ret now, rt_elapsed_ms = ret elapsed, rt_authorize = (\<lambda>r. on_world (authorize r)),
      rt_start = fake_start\<rparr>"

section \<open>What an invocation does\<close>

text \<open>
  The execution an invocation leaves behind: its outcomes consumed, cleaned up, and killed only
  after it was asked to terminate and had its grace.
\<close>

definition stopped_execution :: "tool_request \<Rightarrow> fake_outcome list \<Rightarrow> fake_execution \<Rightarrow> bool" where
  "stopped_execution request outcomes x \<longleftrightarrow> fx_outcomes x = outcomes \<and> fx_cleaned_up x
     \<and> (if fx_terminated x
        then fx_wait_timeouts x = [tq_timeout request, termination_grace_ms]
        else fx_wait_timeouts x = [tq_timeout request] \<and> \<not> fx_killed x)"

definition released :: "fake_adapter \<Rightarrow> tool_request \<Rightarrow> fake_adapter \<Rightarrow> bool" where
  "released a request a' \<longleftrightarrow> fa_outcomes a' = fa_outcomes a
     \<and> fa_requests a' = fa_requests a @ [request]
     \<and> (\<exists>x. fa_executions a' = fa_executions a @ [x] \<and> stopped_execution request (fa_outcomes a) x)"

lemma tool_failure_fake:
  "now \<noteq> [] \<Longrightarrow> st \<noteq> TOOL_SUCCEEDED \<Longrightarrow>
     tool_failure (fake_runtime now elapsed auth) now st cls msg s =
       (Inr \<lparr>tr_status = st, tr_output = JNull, tr_logs = None,
             tr_metrics = \<lparr>tm_duration = max 0 elapsed, tm_cpu = None, tm_memory = None\<rparr>,
             tr_started = now, tr_completed = now, tr_class = Some cls, tr_message = Some msg\<rparr>, s)"
  by (simp add: tool_failure_def fake_runtime_def new_metrics_def new_tool_result_def eff_simps checkR_def)

text \<open>The handle of the last execution acts on it alone.\<close>

definition with_last :: "fake_adapter \<Rightarrow> fake_execution list \<Rightarrow> 'w \<Rightarrow> fake_execution \<Rightarrow> 'w tool_world" where
  "with_last a xs w x = (w, a\<lparr>fa_executions := xs @ [x]\<rparr>)"

lemma fake_handle_simps [eff_simps]:
  "ex_terminate (fake_execution_handle (length xs)) (with_last a xs w x)
     = (Inr (), with_last a xs w (x\<lparr>fx_terminated := True\<rparr>))"
  "ex_kill (fake_execution_handle (length xs)) (with_last a xs w x)
     = (Inr (), with_last a xs w (x\<lparr>fx_killed := True\<rparr>))"
  "ex_cleanup (fake_execution_handle (length xs)) (with_last a xs w x)
     = (Inr (), with_last a xs w (x\<lparr>fx_cleaned_up := True\<rparr>))"
  "ex_wait (fake_execution_handle (length xs)) t (with_last a xs w x) =
     (let s' = with_last a xs w (x\<lparr>fx_wait_timeouts := fx_wait_timeouts x @ [t]\<rparr>) in
      case fx_outcomes x ! min (length (fx_wait_timeouts x)) (length (fx_outcomes x) - 1) of
        Raises e \<Rightarrow> (Inl e, s') | Gives w \<Rightarrow> (Inr w, s'))"
  by (simp_all add: fake_execution_handle_def with_last_def on_execution_def fake_wait_def Let_def
      split: fake_outcome.split)

lemma with_last_inject [simp]: "with_last a xs w x = with_last a xs w y \<longleftrightarrow> x = y"
proof
  assume "with_last a xs w x = with_last a xs w y"
  then have "fa_executions (a\<lparr>fa_executions := xs @ [x]\<rparr>) = fa_executions (a\<lparr>fa_executions := xs @ [y]\<rparr>)"
    by (simp only: with_last_def prod.inject)
  then show "x = y" by simp
qed simp

text \<open>The execution after stopping it, and what stopping gives.\<close>

lemma stop_execution_fake:
  "stop_execution (fake_execution_handle (length xs)) (with_last a xs w x) =
     (let x' = x\<lparr>fx_terminated := True, fx_wait_timeouts := fx_wait_timeouts x @ [termination_grace_ms]\<rparr> in
      case fx_outcomes x ! min (length (fx_wait_timeouts x)) (length (fx_outcomes x) - 1) of
        Raises e \<Rightarrow> (Inl e, with_last a xs w x')
      | Gives StillRunning \<Rightarrow> (Inr (), with_last a xs w (x'\<lparr>fx_killed := True\<rparr>))
      | Gives _ \<Rightarrow> (Inr (), with_last a xs w x'))"
  by (simp add: stop_execution_def eff_simps Let_def split: fake_outcome.split wait_outcome.split)

text \<open>What normalizing leaves of a fresh execution, not yet cleaned up.\<close>

definition fresh_execution :: "fake_outcome list \<Rightarrow> fake_execution" where
  "fresh_execution outcomes = \<lparr>fx_outcomes = outcomes, fx_wait_timeouts = [], fx_terminated = False,
     fx_killed = False, fx_cleaned_up = False\<rparr>"

lemma normalized_result_fake:
  assumes now: "now \<noteq> []" and some: "os \<noteq> []"
  shows "\<exists>res x. normalized_result (fake_runtime now el auth) v now req (fake_execution_handle (length xs))
        (with_last a xs w (fresh_execution os)) = (Inr res, with_last a xs w x)
      \<and> stopped_execution req os (x\<lparr>fx_cleaned_up := True\<rparr>)
      \<and> (tr_status res = TOOL_SUCCEEDED \<longrightarrow> hd os = Gives (Finished res) \<and> tv_output v (tr_output res) = Inr ())"
    (is "\<exists>res x. ?n = _ \<and> _")
proof -
  define o2 where "o2 = os ! min (Suc 0) (length os - Suc 0)"
  have o1: "os ! 0 = hd os" using some by (simp add: hd_conv_nth)
  note defs = normalized_result_def await_result_def eff_simps Let_def fresh_execution_def o1
    stopped_execution_def tool_failure_fake[OF now]
  note stop = stop_execution_fake o2_def[symmetric]
  show ?thesis
  proof (cases "hd os")
    case (Raises e)
    then show ?thesis by (simp add: defs)
  next
    case (Gives out)
    show ?thesis
    proof (cases out)
      case StillRunning
      show ?thesis
      proof (cases o2)
        case (Raises e)
        with Gives StillRunning show ?thesis by (simp add: defs stop)
      next
        case second: (Gives out2)
        with Gives StillRunning show ?thesis by (cases out2) (simp_all add: defs stop)
      qed
    next
      case (Foreign n)
      with Gives show ?thesis by (simp add: defs)
    next
      case (Finished r)
      show ?thesis
      proof (cases "tr_status r")
        case TOOL_SUCCEEDED
        with Gives Finished show ?thesis
          by (cases "tv_output v (tr_output r)") (simp_all add: defs)
      next
        case TOOL_TIMED_OUT
        show ?thesis
        proof (cases o2)
          case (Raises e)
          with Gives Finished TOOL_TIMED_OUT show ?thesis by (simp add: defs stop)
        next
          case second: (Gives out2)
          with Gives Finished TOOL_TIMED_OUT show ?thesis by (cases out2) (simp_all add: defs stop)
        qed
      qed (use Gives Finished in \<open>simp_all add: defs\<close>)
    qed
  qed
qed

lemma run_started_fake:
  assumes "now \<noteq> []" "os \<noteq> []"
  shows "\<exists>res x. run_started (fake_runtime now el auth) v now req (fake_execution_handle (length xs))
        (with_last a xs w (fresh_execution os)) = (Inr res, with_last a xs w x)
      \<and> stopped_execution req os x
      \<and> (tr_status res = TOOL_SUCCEEDED \<longrightarrow> hd os = Gives (Finished res) \<and> tv_output v (tr_output res) = Inr ())"
  using normalized_result_fake[OF assms, of el auth v req xs a w]
  by (auto simp: run_started_def cleaned_result_def eff_simps)

lemma fake_start_apply [eff_simps]:
  "fake_start req (w, a) = (Inr (fake_execution_handle (length (fa_executions a))),
     with_last (a\<lparr>fa_requests := fa_requests a @ [req]\<rparr>) (fa_executions a) w (fresh_execution (fa_outcomes a)))"
  by (simp add: fake_start_def with_last_def fresh_execution_def)

lemma released_with_last:
  "with_last (a\<lparr>fa_requests := fa_requests a @ [req]\<rparr>) (fa_executions a) w x = (w', a') \<Longrightarrow>
     stopped_execution req (fa_outcomes a) x \<Longrightarrow> w' = w \<and> released a req a'"
  by (auto simp: with_last_def released_def)

text \<open>
  The governed invocation: the adapter sees the request only when the input is valid and the
  hook says yes; what it started is stopped and cleaned up; a success is the adapter's own
  result with valid output; and nothing the adapter raises escapes.
\<close>

definition governed_by ::
  "tool_validator \<Rightarrow> (tool_request \<Rightarrow> ('w, bool) eff) \<Rightarrow> tool_request \<Rightarrow> 'w tool_world
   \<Rightarrow> (exn + tool_result) \<times> 'w tool_world \<Rightarrow> bool" where
  "governed_by v auth req s out = (case (s, out) of ((w, a), (r, (w', a'))) \<Rightarrow>
     case tv_input v (JObj (tq_input req)) of
       Inl e \<Rightarrow> w' = w \<and> a' = a
         \<and> (r = Inl e \<or> (\<exists>res. r = Inr res \<and> tr_status res = TOOL_FAILED \<and> tr_class res = Some VALIDATION))
     | Inr _ \<Rightarrow> w' = snd (auth req w) \<and>
         (case fst (auth req w) of
            Inl e \<Rightarrow> r = Inl e \<and> a' = a
          | Inr allowed \<Rightarrow> \<exists>res. r = Inr res \<and>
              (if allowed
               then released a req a'
                 \<and> (tr_status res = TOOL_SUCCEEDED \<longrightarrow>
                      hd (fa_outcomes a) = Gives (Finished res) \<and> tv_output v (tr_output res) = Inr ())
               else a' = a \<and> tr_status res = TOOL_DENIED \<and> tr_class res = Some POLICY_DENIED)))"

lemma invoke_tool_fake:
  assumes now: "now \<noteq> []" and os: "fa_outcomes a \<noteq> []"
  shows "governed_by v auth req (w, a) (invoke_tool (fake_runtime now el auth) v req (w, a))"
proof (cases "tv_input v (JObj (tq_input req))")
  case (Inl e)
  have "rt_now (fake_runtime now el auth) = ret now" by (simp add: fake_runtime_def)
  then show ?thesis
    by (simp add: Inl governed_by_def invoke_tool_def eff_simps tool_failure_fake[OF now])
next
  case (Inr u)
  obtain r1 w1 where a1: "auth req w = (r1, w1)" by (cases "auth req w")
  have rt: "rt_now (fake_runtime now el auth) = ret now" "rt_start (fake_runtime now el auth) = fake_start"
      "rt_authorize (fake_runtime now el auth) req (w, a) = (r1, (w1, a))"
    by (simp_all add: fake_runtime_def on_world_def a1)
  show ?thesis
  proof (cases "r1 = Inr True")
    case True
    obtain res x where run: "run_started (fake_runtime now el auth) v now req
          (fake_execution_handle (length (fa_executions a)))
          (with_last (a\<lparr>fa_requests := fa_requests a @ [req]\<rparr>) (fa_executions a) w1 (fresh_execution (fa_outcomes a)))
        = (Inr res, with_last (a\<lparr>fa_requests := fa_requests a @ [req]\<rparr>) (fa_executions a) w1 x)"
      "stopped_execution req (fa_outcomes a) x"
      "tr_status res = TOOL_SUCCEEDED \<longrightarrow> hd (fa_outcomes a) = Gives (Finished res) \<and> tv_output v (tr_output res) = Inr ()"
      using run_started_fake[OF now os, where el = el and auth = auth and v = v and req = req
          and xs = "fa_executions a" and a = "a\<lparr>fa_requests := fa_requests a @ [req]\<rparr>" and w = w1]
      by (elim exE conjE) (rule that)
    obtain w' a' where wa: "with_last (a\<lparr>fa_requests := fa_requests a @ [req]\<rparr>) (fa_executions a) w1 x = (w', a')"
      by fastforce
    have "invoke_tool (fake_runtime now el auth) v req (w, a) = (Inr res, (w', a'))"
      by (simp add: invoke_tool_def Inr eff_simps rt True run wa)
    with released_with_last[OF wa run(2)] run(3) show ?thesis
      by (simp add: governed_by_def Inr a1 True)
  next
    case False
    then show ?thesis
      by (cases r1) (simp_all add: governed_by_def invoke_tool_def Inr eff_simps rt a1 tool_failure_fake[OF now])
  qed
qed

end
