(* ===== verification/CapabilityPolicy.thy ===== *)
theory CapabilityPolicy
  imports StoreInterface CanonicalText ToolRuntime
begin

text \<open>
  Authorization before execution (\<open>capability_policy.py\<close>): policies attached at six scopes, their
  rules matched against one capability, the most restrictive effect persisted as a
  \<open>PolicyDecision\<close>, and the hook of the tool runtime that lets nothing but \<open>ALLOW\<close> through.
  JSON Schema conditions are evaluated by a parameter.
\<close>

section \<open>Scopes and decisions\<close>

datatype policy_scope = PLATFORM | WORKSPACE | WORKFLOW | TASK | AGENT | TOOL

datatype policy_decision = ALLOW | REQUIRE_APPROVAL | DENY

fun scope_value :: "policy_scope \<Rightarrow> string" where
  "scope_value PLATFORM = ''Platform''"
| "scope_value WORKSPACE = ''Workspace''"
| "scope_value WORKFLOW = ''Workflow''"
| "scope_value TASK = ''Task''"
| "scope_value AGENT = ''Agent''"
| "scope_value TOOL = ''Tool''"

fun scope_order :: "policy_scope \<Rightarrow> nat" where
  "scope_order PLATFORM = 0"
| "scope_order WORKSPACE = 1"
| "scope_order WORKFLOW = 2"
| "scope_order TASK = 3"
| "scope_order AGENT = 4"
| "scope_order TOOL = 5"

fun decision_value :: "policy_decision \<Rightarrow> string" where
  "decision_value ALLOW = ''ALLOW''"
| "decision_value REQUIRE_APPROVAL = ''REQUIRE_APPROVAL''"
| "decision_value DENY = ''DENY''"

text \<open>Decisions are ordered by \<open>_DECISION_PRIORITY\<close>.\<close>

fun decision_priority :: "policy_decision \<Rightarrow> nat" where
  "decision_priority ALLOW = 0"
| "decision_priority REQUIRE_APPROVAL = 1"
| "decision_priority DENY = 2"

instantiation policy_decision :: linorder
begin

definition less_eq_policy_decision :: "policy_decision \<Rightarrow> policy_decision \<Rightarrow> bool" where
  "less_eq_policy_decision a b \<longleftrightarrow> decision_priority a \<le> decision_priority b"

definition less_policy_decision :: "policy_decision \<Rightarrow> policy_decision \<Rightarrow> bool" where
  "less_policy_decision a b \<longleftrightarrow> decision_priority a < decision_priority b"

instance
proof
  fix a b :: policy_decision
  show "a \<le> b \<Longrightarrow> b \<le> a \<Longrightarrow> a = b" by (cases a; cases b) (simp_all add: less_eq_policy_decision_def)
qed (auto simp: less_eq_policy_decision_def less_policy_decision_def)

end

definition effect_decisions :: "(string \<times> policy_decision) list" where
  "effect_decisions = [(''allow'', ALLOW), (''require-approval'', REQUIRE_APPROVAL), (''deny'', DENY)]"

definition effect_decision :: "json \<Rightarrow> policy_decision option" where
  "effect_decision v = (if is_str v then map_of effect_decisions (as_str v) else None)"

definition policy_error :: "string \<Rightarrow> exn" where
  "policy_error m = Exn CapabilityPolicyContractError m JNull"

record applicable_policy =
  ap_scope :: policy_scope
  ap_resource :: dict

definition scope_of_value :: "json \<Rightarrow> policy_scope option" where
  "scope_of_value v = find (\<lambda>s. v = JStr (scope_value s)) [PLATFORM, WORKSPACE, WORKFLOW, TASK, AGENT, TOOL]"

definition new_applicable_policy :: "json \<Rightarrow> json \<Rightarrow> exn + applicable_policy" where
  "new_applicable_policy scope resource =
     (case scope_of_value scope of
        None \<Rightarrow> Inl (policy_error (''unsupported policy scope '' @ py_repr scope))
      | Some s \<Rightarrow>
          if \<not> is_mapping resource then Inl (policy_error ''policy resource must be a mapping'')
          else Inr \<lparr>ap_scope = s, ap_resource = as_dict resource\<rparr>)"

section \<open>Validation\<close>

definition policy_text :: "string \<Rightarrow> json \<Rightarrow> exn + unit" where
  "policy_text field value = checkR (nonempty_str value) (policy_error (field @ '' must be a non-empty string''))"

definition validated_rule :: "nat \<times> json \<Rightarrow> exn + unit" where
  "validated_rule ir =
     (let (index, rule) = ir; d = as_dict rule; r = ''policy rule '' @ dec_nat index;
          capabilities = dget d ''capabilities'' in
      bindR (checkR (is_mapping rule) (policy_error (r @ '' must be a mapping''))) (\<lambda>_.
      bindR (checkR (hashable (dget d ''effect'')) unhashable_error) (\<lambda>_.
      bindR (checkR (effect_decision (dget d ''effect'') \<noteq> None)
        (policy_error (r @ '' has unsupported effect '' @ py_repr (dget d ''effect'')))) (\<lambda>_.
      bindR (checkR (is_list capabilities \<and> as_list capabilities \<noteq> [] \<and> list_all nonempty_str (as_list capabilities))
        (policy_error (r @ '' capabilities must be a non-empty string list''))) (\<lambda>_.
      bindR (checkR (distinct (as_list capabilities))
        (policy_error (r @ '' capabilities must be unique''))) (\<lambda>_.
      bindR (checkR (dget d ''reason'' = JNull \<or> nonempty_str (dget d ''reason''))
        (policy_error (r @ '' reason must be a non-empty string''))) (\<lambda>_.
      checkR (dget d ''conditions'' = JNull \<or> is_mapping (dget d ''conditions''))
        (policy_error (r @ '' conditions must be a JSON Schema mapping'')))))))))"

definition enumerate_list :: "'a list \<Rightarrow> (nat \<times> 'a) list" where
  "enumerate_list xs = zip [0..<length xs] xs"

definition validated_policy :: "applicable_policy \<Rightarrow> exn + applicable_policy" where
  "validated_policy binding =
     (let resource = ap_resource binding; metadata = dget resource ''metadata'';
          version = mget metadata ''version''; spec = dget resource ''spec''; rules = mget spec ''rules'' in
      bindR (checkR (dget resource ''apiVersion'' = JStr ''aep.dev/v1alpha1'')
        (policy_error ''policy resource apiVersion must be aep.dev/v1alpha1'')) (\<lambda>_.
      bindR (checkR (dget resource ''kind'' = JStr ''Policy'')
        (policy_error ''policy resource kind must be Policy'')) (\<lambda>_.
      bindR (checkR (is_mapping metadata) (policy_error ''policy metadata must be a mapping'')) (\<lambda>_.
      bindR (policy_text ''policy metadata.name'' (mget metadata ''name'')) (\<lambda>_.
      bindR (checkR (is_str version \<and> is_semver (as_str version))
        (policy_error ''policy metadata.version must be an immutable semantic version'')) (\<lambda>_.
      bindR (checkR (is_mapping spec) (policy_error ''policy spec must be a mapping'')) (\<lambda>_.
      bindR (checkR (mget spec ''type'' = JStr ''pre-execution-capability'')
        (policy_error ''applicable policy must have type pre-execution-capability'')) (\<lambda>_.
      bindR (checkR (is_list rules \<and> as_list rules \<noteq> [])
        (policy_error ''policy rules must be a non-empty list'')) (\<lambda>_.
      bindR (eachR validated_rule (enumerate_list (as_list rules))) (\<lambda>_.
      Inr binding))))))))))"

section \<open>Composition\<close>

text \<open>
  The schema engine: the message of the meta-schema error of a schema, if any, and whether a
  value satisfies it.
\<close>

record schema_engine =
  se_check :: "json \<Rightarrow> string option"
  se_valid :: "json \<Rightarrow> json \<Rightarrow> bool"

definition policy_name :: "applicable_policy \<Rightarrow> string" where
  "policy_name b = as_str (mget (dget (ap_resource b) ''metadata'') ''name'')"

definition policy_version :: "applicable_policy \<Rightarrow> string" where
  "policy_version b = as_str (mget (dget (ap_resource b) ''metadata'') ''version'')"

definition policy_ref :: "applicable_policy \<Rightarrow> json" where
  "policy_ref b = JObj [(''kind'', JStr ''Policy''), (''name'', JStr (policy_name b)),
     (''version'', JStr (policy_version b))]"

definition policy_rules :: "applicable_policy \<Rightarrow> json list" where
  "policy_rules b = as_list (mget (dget (ap_resource b) ''spec'') ''rules'')"

definition policy_sort_key :: "applicable_policy \<Rightarrow> nat \<times> string \<times> string" where
  "policy_sort_key b = (scope_order (ap_scope b), policy_name b, policy_version b)"

definition conditions_match ::
  "schema_engine \<Rightarrow> json \<Rightarrow> json \<Rightarrow> applicable_policy \<Rightarrow> nat \<Rightarrow> exn + bool" where
  "conditions_match se conditions policy_input b rule_index =
     (case se_check se conditions of
        Some message \<Rightarrow> Inl (policy_error (''invalid conditions in '' @ policy_name b @ '' rule ''
          @ dec_nat rule_index @ '': '' @ message))
      | None \<Rightarrow> Inr (se_valid se conditions policy_input))"

record matched_rule =
  mr_policy :: applicable_policy
  mr_index :: nat
  mr_effect :: policy_decision

definition matched_record :: "matched_rule \<Rightarrow> json" where
  "matched_record m = JObj [(''scope'', JStr (scope_value (ap_scope (mr_policy m)))),
     (''policyRef'', policy_ref (mr_policy m)), (''ruleIndex'', JInt (int (mr_index m))),
     (''effect'', dget (as_dict (policy_rules (mr_policy m) ! mr_index m)) ''effect'')]"

definition match_rule ::
  "schema_engine \<Rightarrow> string \<Rightarrow> json \<Rightarrow> applicable_policy \<times> nat \<times> json \<Rightarrow> exn + matched_rule list" where
  "match_rule se capability policy_input bir =
     (let (b, i, rule) = bir; d = as_dict rule; conditions = dget d ''conditions'' in
      if JStr capability \<notin> set (as_list (dget d ''capabilities'')) then Inr []
      else bindR (if conditions = JNull then Inr True else conditions_match se conditions policy_input b i) (\<lambda>ok.
           Inr (if ok then [\<lparr>mr_policy = b, mr_index = i,
                             mr_effect = the (effect_decision (dget d ''effect''))\<rparr>] else [])))"

definition indexed_rules :: "applicable_policy \<Rightarrow> (applicable_policy \<times> nat \<times> json) list" where
  "indexed_rules b = map (\<lambda>(i, rule). (b, i, rule)) (enumerate_list (policy_rules b))"

definition matched_rules ::
  "schema_engine \<Rightarrow> string \<Rightarrow> json \<Rightarrow> applicable_policy list \<Rightarrow> exn + matched_rule list" where
  "matched_rules se capability policy_input policies =
     bindR (mapR (match_rule se capability policy_input) (concat (map indexed_rules policies))) (\<lambda>ms.
     Inr (concat ms))"

text \<open>\<open>max(rules, key=...)\<close>: the first of the greatest.\<close>

fun first_max :: "('a \<Rightarrow> 'b::linorder) \<Rightarrow> 'a \<Rightarrow> 'a list \<Rightarrow> 'a" where
  "first_max f m [] = m"
| "first_max f m (x # xs) = first_max f (if f m < f x then x else m) xs"

definition default_reason :: "string \<Rightarrow> matched_rule \<Rightarrow> string" where
  "default_reason capability m =
     decision_value (mr_effect m) @ '' for '' @ capability @ '' by '' @ scope_value (ap_scope (mr_policy m))
     @ '' policy '' @ policy_name (mr_policy m) @ ''@'' @ policy_version (mr_policy m) @ '' rule ''
     @ dec_nat (mr_index m) @ ''.''"

text \<open>
  The reason is looked up again, by the winning rule's policy reference and index: the first
  policy with that reference answers.
\<close>

definition source_reason :: "applicable_policy list \<Rightarrow> string \<Rightarrow> matched_rule \<Rightarrow> exn + json" where
  "source_reason policies capability m =
     (case find (\<lambda>b. policy_ref b = policy_ref (mr_policy m)) policies of
        None \<Rightarrow> Inl (Exn (OtherException ''StopIteration'') '''' JNull)
      | Some b \<Rightarrow>
          if length (policy_rules b) \<le> mr_index m then Inl (Exn IndexError ''list index out of range'' JNull)
          else Inr (py_or (dget (as_dict (policy_rules b ! mr_index m)) ''reason'')
                     (JStr (default_reason capability m))))"

text \<open>The winning rule, the decision and its reason.\<close>

definition policy_outcome ::
  "applicable_policy list \<Rightarrow> string \<Rightarrow> matched_rule list \<Rightarrow> exn + matched_rule option \<times> policy_decision \<times> json" where
  "policy_outcome policies capability matched =
     (case matched of
        [] \<Rightarrow> Inr (None, DENY, JStr (''No applicable rule authorizes capability '' @ capability @ ''.''))
      | m # ms \<Rightarrow>
          let winning = first_max mr_effect m ms in
          bindR (source_reason policies capability winning) (\<lambda>reason.
          Inr (Some winning, mr_effect winning, reason)))"

definition policy_refs :: "applicable_policy list \<Rightarrow> json list" where
  "policy_refs policies = rev (remdups (rev (map policy_ref policies)))"

definition policy_input_record :: "string \<Rightarrow> string \<Rightarrow> dict \<Rightarrow> dict \<Rightarrow> json" where
  "policy_input_record capability actor resource_scope execution_context =
     JObj [(''capability'', JStr capability), (''actor'', JStr actor),
       (''resourceScope'', JObj resource_scope), (''executionContext'', JObj execution_context)]"

definition policy_bindings :: "applicable_policy list \<Rightarrow> json" where
  "policy_bindings policies = JList (map (\<lambda>b. JObj [(''scope'', JStr (scope_value (ap_scope b))),
     (''resource'', JObj (ap_resource b))]) policies)"

definition decision_key ::
  "environment \<Rightarrow> string \<Rightarrow> string \<Rightarrow> string \<Rightarrow> string \<Rightarrow> string \<Rightarrow> dict \<Rightarrow> dict \<Rightarrow> applicable_policy list \<Rightarrow> string" where
  "decision_key env decision_id task_execution_id trace_id capability actor resource_scope execution_context policies =
     ''pre-execution-policy:'' @ env_sha256 env (json_text True (JObj
       [(''decisionId'', JStr decision_id), (''taskExecutionId'', JStr task_execution_id),
        (''traceId'', JStr trace_id), (''capability'', JStr capability), (''actor'', JStr actor),
        (''resourceScope'', JObj resource_scope), (''executionContext'', JObj execution_context),
        (''policies'', policy_bindings policies)]))"

definition decision_record ::
  "string \<Rightarrow> correlation \<Rightarrow> string \<Rightarrow> string \<Rightarrow> string \<Rightarrow> dict \<Rightarrow> json list \<Rightarrow> matched_rule list
   \<Rightarrow> matched_rule option \<times> policy_decision \<times> json \<Rightarrow> string \<Rightarrow> dict" where
  "decision_record decision_id context task_execution_id capability actor resource_scope refs matched outcome timestamp =
     (let (winning, decision, reason) = outcome; revision = dget resource_scope ''repositoryRevision'' in
      [(''apiVersion'', JStr ''aep.dev/v1alpha1''), (''kind'', JStr ''PolicyDecision''), (''id'', JStr decision_id),
       (''traceId'', JStr (cor_trace context)), (''createdAt'', JStr timestamp), (''updatedAt'', JStr timestamp),
       (''provenance'', JObj ([(''actor'', JStr ''policy-engine''), (''caller'', JStr actor),
          (''workflowExecutionId'', JStr (cor_workflow context)),
          (''taskExecutionId'', JStr task_execution_id), (''resourceRefs'', JList refs)]
          @ (if nonempty_str revision then [(''repositoryRevision'', revision)] else []))),
       (''taskExecutionId'', JStr task_execution_id), (''gate'', JStr ''PRE_EXECUTION_CAPABILITY''),
       (''policyRefs'', JList refs), (''action'', JStr capability),
       (''decision'', JStr (decision_value decision)), (''reason'', reason),
       (''approvalRequired'', JBool (decision = REQUIRE_APPROVAL)), (''evaluatedAt'', JStr timestamp),
       (''subject'', JStr actor), (''resourceScope'', JObj resource_scope),
       (''evaluatedRule'', case winning of None \<Rightarrow> JNull | Some m \<Rightarrow> matched_record m),
       (''matchedRules'', JList (map matched_record matched))])"

text \<open>The pure part of an evaluation: the record to persist and its deterministic key.\<close>

definition policy_evaluation ::
  "environment \<Rightarrow> schema_engine \<Rightarrow> string \<Rightarrow> string \<Rightarrow> string \<Rightarrow> string \<Rightarrow> dict \<Rightarrow> dict
   \<Rightarrow> applicable_policy list \<Rightarrow> correlation_arg \<Rightarrow> string \<Rightarrow> exn + dict \<times> string" where
  "policy_evaluation env se decision_id task_execution_id capability actor resource_scope execution_context
     applicable_policies arg timestamp =
     bindR (policy_text ''decision_id'' (JStr decision_id)) (\<lambda>_.
     bindR (policy_text ''task_execution_id'' (JStr task_execution_id)) (\<lambda>_.
     bindR (policy_text ''capability'' (JStr capability)) (\<lambda>_.
     bindR (policy_text ''actor'' (JStr actor)) (\<lambda>_.
     bindR (bind_correlation arg (Some task_execution_id) None) (\<lambda>context.
     bindR (policy_text ''timestamp'' (JStr timestamp)) (\<lambda>_.
     bindR (mapR validated_policy applicable_policies) (\<lambda>bindings.
     let policies = sort_key policy_sort_key bindings;
         policy_input = policy_input_record capability actor resource_scope execution_context in
     bindR (matched_rules se capability policy_input policies) (\<lambda>matched.
     bindR (policy_outcome policies capability matched) (\<lambda>outcome.
     Inr (decision_record decision_id context task_execution_id capability actor resource_scope
            (policy_refs policies) matched outcome timestamp,
          decision_key env decision_id task_execution_id (cor_trace context) capability actor
            resource_scope execution_context policies))))))))))"

section \<open>The policy and its hook\<close>

definition policy_evaluate ::
  "environment \<Rightarrow> schema_engine \<Rightarrow> 's store_ops \<Rightarrow> string \<Rightarrow> string \<Rightarrow> string \<Rightarrow> string \<Rightarrow> dict \<Rightarrow> dict
   \<Rightarrow> applicable_policy list \<Rightarrow> correlation_arg \<Rightarrow> string \<Rightarrow> ('s, dict) eff" where
  "policy_evaluate env se ops decision_id task_execution_id capability actor resource_scope execution_context
     applicable_policies arg timestamp =
     bindE (liftR (policy_evaluation env se decision_id task_execution_id capability actor resource_scope
              execution_context applicable_policies arg timestamp)) (\<lambda>(record, key).
     catchE (op_create ops (JObj record) key) (\<lambda>e.
       if instance_of e RuntimeObjectAlreadyExistsError
       then throw (Exn CapabilityPolicyIdentityConflictError (''decision id '' @ repr_str decision_id
              @ '' is already bound to different authorization inputs'') JNull)
       else throw e))"

definition boundary_decision_id ::
  "environment \<Rightarrow> string \<Rightarrow> dict \<Rightarrow> dict \<Rightarrow> applicable_policy list \<Rightarrow> tool_request \<Rightarrow> string \<Rightarrow> string" where
  "boundary_decision_id env task_execution_id resource_scope execution_context policies request capability =
     ''policydecision-'' @ take 20 (env_sha256 env (json_text True (JObj
       [(''taskExecutionId'', JStr task_execution_id), (''toolRef'', JObj (tq_ref request)),
        (''capability'', JStr capability),
        (''actor'', JStr (caller_kind (tq_caller request) @ '':'' @ caller_id (tq_caller request))),
        (''traceId'', JStr (cor_trace (tq_correlation request))),
        (''resourceScope'', JObj resource_scope), (''executionContext'', JObj execution_context),
        (''policies'', policy_bindings policies)])))"

definition boundary_decision ::
  "environment \<Rightarrow> schema_engine \<Rightarrow> 's store_ops \<Rightarrow> string \<Rightarrow> dict \<Rightarrow> dict \<Rightarrow> applicable_policy list \<Rightarrow> string
   \<Rightarrow> tool_request \<Rightarrow> string \<Rightarrow> ('s, dict) eff" where
  "boundary_decision env se ops task_execution_id resource_scope execution_context policies timestamp request capability =
     policy_evaluate env se ops
       (boundary_decision_id env task_execution_id resource_scope execution_context policies request capability)
       task_execution_id capability
       (caller_kind (tq_caller request) @ '':'' @ caller_id (tq_caller request))
       resource_scope execution_context policies (Context (tq_correlation request)) timestamp"

text \<open>Every capability is evaluated, and persisted, even after one was refused.\<close>

fun authorize_capabilities :: "(string \<Rightarrow> ('s, dict) eff) \<Rightarrow> string list \<Rightarrow> ('s, bool) eff" where
  "authorize_capabilities decide [] = ret True"
| "authorize_capabilities decide (c # cs) =
     bindE (decide c) (\<lambda>result.
     bindE (liftR (getitem result ''decision'')) (\<lambda>decision.
     bindE (authorize_capabilities decide cs) (\<lambda>rest.
     ret (decision = JStr (decision_value ALLOW) \<and> rest))))"

definition tool_authorization_boundary ::
  "environment \<Rightarrow> schema_engine \<Rightarrow> 's store_ops \<Rightarrow> string \<Rightarrow> dict \<Rightarrow> dict \<Rightarrow> applicable_policy list \<Rightarrow> string
   \<Rightarrow> tool_request \<Rightarrow> ('s, bool) eff" where
  "tool_authorization_boundary env se ops task_execution_id resource_scope execution_context policies timestamp request =
     authorize_capabilities
       (boundary_decision env se ops task_execution_id resource_scope execution_context policies timestamp request)
       (tq_capabilities request)"

section \<open>The decision is the strictest\<close>

definition rule_applies :: "schema_engine \<Rightarrow> string \<Rightarrow> json \<Rightarrow> json \<Rightarrow> bool" where
  "rule_applies se capability policy_input rule \<longleftrightarrow>
     JStr capability \<in> set (as_list (mget rule ''capabilities''))
     \<and> (mget rule ''conditions'' = JNull \<or> se_valid se (mget rule ''conditions'') policy_input)"

text \<open>The effects of every rule of every applicable policy that speaks of the capability.\<close>

definition applicable_effects ::
  "schema_engine \<Rightarrow> string \<Rightarrow> json \<Rightarrow> applicable_policy list \<Rightarrow> policy_decision set" where
  "applicable_effects se capability policy_input policies =
     {e. \<exists>b \<in> set policies. \<exists>rule \<in> set (policy_rules b).
        rule_applies se capability policy_input rule \<and> effect_decision (mget rule ''effect'') = Some e}"

definition strictest :: "policy_decision set \<Rightarrow> policy_decision" where
  "strictest E = (if DENY \<in> E \<or> E = {} then DENY else if REQUIRE_APPROVAL \<in> E then REQUIRE_APPROVAL else ALLOW)"

lemma first_max_greatest:
  "first_max f m xs \<in> set (m # xs) \<and> (\<forall>x \<in> set (m # xs). f x \<le> f (first_max f m xs))"
proof (induction xs arbitrary: m)
  case (Cons x xs)
  show ?case
    using Cons.IH[of "if f m < f x then x else m"] by (auto split: if_splits intro: order_trans)
qed simp

lemma strictest_greatest:
  assumes "e \<in> E" "\<forall>x \<in> E. x \<le> e"
  shows "strictest E = e"
proof (cases e)
  case DENY
  with assms show ?thesis by (auto simp: strictest_def)
next
  case REQUIRE_APPROVAL
  have "DENY \<notin> E" using assms(2) unfolding REQUIRE_APPROVAL by (auto simp: less_eq_policy_decision_def)
  with assms(1) REQUIRE_APPROVAL show ?thesis by (auto simp: strictest_def)
next
  case ALLOW
  have "DENY \<notin> E" "REQUIRE_APPROVAL \<notin> E"
    using assms(2) unfolding ALLOW by (auto simp: less_eq_policy_decision_def)
  with assms(1) ALLOW show ?thesis by (auto simp: strictest_def)
qed

lemma set_enumerate: "snd ` set (enumerate_list xs) = set xs"
  unfolding enumerate_list_def by (metis length_upt map_snd_zip minus_nat.diff_0 set_map)

lemma indexed_rules_ex:
  "(\<exists>x \<in> set (indexed_rules b). P (snd (snd x))) \<longleftrightarrow> (\<exists>rule \<in> set (policy_rules b). P rule)"
  unfolding indexed_rules_def set_enumerate[of "policy_rules b", symmetric] by (simp add: split_beta)

lemma match_rule_Inr:
  assumes "match_rule se capability inp (b, i, rule) = Inr ms"
  shows "mr_effect ` set ms =
    (if rule_applies se capability inp rule then {the (effect_decision (mget rule ''effect''))} else {})"
  using assms
  by (auto simp: match_rule_def rule_applies_def mget_def Let_def bindR_eq_Inr conditions_match_def
      split: if_splits option.splits)

lemma matched_rules_effects:
  assumes m: "matched_rules se capability inp policies = Inr ms"
    and valid: "\<And>b rule. b \<in> set policies \<Longrightarrow> rule \<in> set (policy_rules b)
      \<Longrightarrow> effect_decision (mget rule ''effect'') \<noteq> None"
  shows "mr_effect ` set ms = applicable_effects se capability inp policies"
proof -
  obtain mss where mss: "list_all2 (\<lambda>x y. match_rule se capability inp x = Inr y)
      (concat (map indexed_rules policies)) mss" "ms = concat mss"
    using m by (auto simp: matched_rules_def bindR_eq_Inr mapR_Inr)
  let ?gives = "\<lambda>rule e. rule_applies se capability inp rule \<and> e = the (effect_decision (mget rule ''effect''))"
  have "mr_effect ` set (concat ys) = {e. \<exists>x \<in> set xs. ?gives (snd (snd x)) e}"
    if "list_all2 (\<lambda>x y. match_rule se capability inp x = Inr y) xs ys" for xs ys
    using that
  proof (induction rule: list_all2_induct)
    case (Cons x xs y ys)
    obtain b i rule where x: "x = (b, i, rule)" by (cases x) auto
    show ?case using match_rule_Inr[OF Cons(1)[unfolded x]] Cons.IH
      by (auto simp: x image_Un split: if_splits)
  qed simp
  moreover have "(\<exists>x \<in> set (indexed_rules b). ?gives (snd (snd x)) e) \<longleftrightarrow> (\<exists>rule \<in> set (policy_rules b). ?gives rule e)"
    for b e by (rule indexed_rules_ex)
  ultimately
  have "mr_effect ` set ms = {e. \<exists>b \<in> set policies. \<exists>rule \<in> set (policy_rules b). ?gives rule e}"
    using mss by simp
  also have "\<dots> = applicable_effects se capability inp policies"
    using valid unfolding applicable_effects_def by fastforce
  finally show ?thesis .
qed

lemma validated_policy_Inr:
  assumes "validated_policy b = Inr b'"
  shows "b' = b" "\<And>rule. rule \<in> set (policy_rules b) \<Longrightarrow> effect_decision (mget rule ''effect'') \<noteq> None"
proof -
  have v: "b' = b" "eachR validated_rule (enumerate_list (policy_rules b)) = Inr ()"
    using assms by (auto simp: validated_policy_def Let_def bindR_eq_Inr policy_rules_def)
  then show "b' = b" by simp
  fix rule assume "rule \<in> set (policy_rules b)"
  then obtain i where "(i, rule) \<in> set (enumerate_list (policy_rules b))"
    by (metis set_enumerate imageE prod.collapse)
  with v(2) show "effect_decision (mget rule ''effect'') \<noteq> None"
    by (fastforce simp: eachR_Inr validated_rule_def Let_def bindR_eq_Inr mget_def)
qed

lemma applicable_effects_set: "set p = set q \<Longrightarrow> applicable_effects se c i p = applicable_effects se c i q"
  by (simp add: applicable_effects_def)

lemma policy_outcome_strictest:
  assumes "policy_outcome policies capability ms = Inr (w, decision, reason)"
  shows "decision = strictest (mr_effect ` set ms)"
proof (cases ms)
  case Nil
  with assms show ?thesis by (auto simp: policy_outcome_def strictest_def)
next
  case (Cons m rest)
  have d: "decision = mr_effect (first_max mr_effect m rest)"
    using assms by (auto simp: policy_outcome_def Cons Let_def bindR_eq_Inr)
  show ?thesis
    unfolding d using first_max_greatest[of mr_effect m rest] by (intro strictest_greatest[symmetric]) (auto simp: Cons)
qed

lemma policy_evaluation_strictest:
  assumes "policy_evaluation env se did te capability actor scope ctx policies arg now = Inr (record, key)"
  shows "dget record ''decision'' = JStr (decision_value (strictest
      (applicable_effects se capability (policy_input_record capability actor scope ctx) policies)))
    \<and> dget record ''action'' = JStr capability \<and> dget record ''subject'' = JStr actor
    \<and> dget record ''taskExecutionId'' = JStr te \<and> dget record ''id'' = JStr did"
proof -
  let ?inp = "policy_input_record capability actor scope ctx"
  obtain bindings matched w decision reason cx where e: "mapR validated_policy policies = Inr bindings"
      "matched_rules se capability ?inp (sort_key policy_sort_key bindings) = Inr matched"
      "policy_outcome (sort_key policy_sort_key bindings) capability matched = Inr (w, decision, reason)"
      "record = decision_record did cx te capability actor scope
         (policy_refs (sort_key policy_sort_key bindings)) matched (w, decision, reason) now"
    using assms by (auto simp: policy_evaluation_def bindR_eq_Inr Let_def)
  have "list_all2 (=) policies bindings"
    using e(1) unfolding mapR_Inr by (rule list_all2_mono) (auto dest: validated_policy_Inr(1))
  then have b: "bindings = policies" by (simp add: list.rel_eq)
  have valid: "effect_decision (mget rule ''effect'') \<noteq> None"
    if "p \<in> set policies" "rule \<in> set (policy_rules p)" for p rule
    using validated_policy_Inr(2)[OF _ that(2)] e(1) that(1)
    by (auto simp: mapR_Inr list_all2_conv_all_nth in_set_conv_nth)
  have "mr_effect ` set matched = applicable_effects se capability ?inp (sort_key policy_sort_key bindings)"
    by (rule matched_rules_effects[OF e(2)]) (use valid b in auto)
  also have "\<dots> = applicable_effects se capability ?inp policies"
    by (rule applicable_effects_set) (simp add: b)
  finally have "decision = strictest (applicable_effects se capability ?inp policies)"
    using policy_outcome_strictest[OF e(3)] by simp
  then show ?thesis by (simp add: e(4) decision_record_def Let_def dget_Cons)
qed

section \<open>The hook lets only recorded permissions through\<close>

text \<open>The object a deterministic key stands for is a permission.\<close>

definition permitted_under :: "string \<Rightarrow> store \<Rightarrow> bool" where
  "permitted_under key s \<longleftrightarrow> (\<exists>oid v. map_of (deterministic_keys s) key = Some oid
     \<and> map_of (objects s) oid = Some v \<and> dget v ''decision'' = JStr ''ALLOW'')"

lemma policy_evaluate_keeps_permission:
  assumes "permitted_under k s"
  shows "permitted_under k (snd (policy_evaluate env se (in_memory_store wall) did te c actor scope cx policies arg now s))"
proof (cases "policy_evaluation env se did te c actor scope cx policies arg now")
  case (Inr x)
  obtain entry key where x: "x = (entry, key)" by (cases x)
  obtain r t where c: "mem_create (JObj entry) key s = (r, t)" by fastforce
  have "permitted_under k t"
    using assms mem_create_keeps_keyed[OF c] unfolding permitted_under_def by blast
  then show ?thesis
    by (cases r) (simp_all add: policy_evaluate_def Inr x eff_simps in_memory_store_def c)
qed (use assms in \<open>simp add: policy_evaluate_def eff_simps\<close>)

lemma authorize_keeps_permission:
  assumes "\<And>c k s. permitted_under k s \<Longrightarrow> permitted_under k (snd (decide c s))" "permitted_under k s"
  shows "permitted_under k (snd (authorize_capabilities decide cs s))"
  using assms(2)
proof (induction cs arbitrary: s)
  case (Cons c cs)
  obtain r t where d: "decide c s = (r, t)" by fastforce
  with assms(1)[OF Cons.prems] have t: "permitted_under k t" by (metis snd_conv)
  with Cons.IH[OF t] d show ?case
    by (cases r; cases "authorize_capabilities decide cs t")
      (auto simp: eff_simps getitem_def split: option.split sum.split)
qed (simp add: eff_simps)

lemma authorize_capabilities_True:
  assumes keeps: "\<And>c k s. permitted_under k s \<Longrightarrow> permitted_under k (snd (decide c s))"
    and made: "\<And>c s v t. decide c s = (Inr v, t) \<Longrightarrow> dget v ''decision'' = JStr ''ALLOW'' \<Longrightarrow> \<exists>k. key c k \<and> permitted_under k t"
    and run: "authorize_capabilities decide cs s = (Inr True, u)"
  shows "\<forall>c \<in> set cs. \<exists>k. key c k \<and> permitted_under k u"
  using run
proof (induction cs arbitrary: s)
  case (Cons c cs)
  obtain v t where d: "decide c s = (Inr v, t)" "dget v ''decision'' = JStr ''ALLOW''"
      "authorize_capabilities decide cs t = (Inr True, u)"
    using Cons.prems by (auto simp: success_iffs getitem_def dget_def split: option.splits)
  from made[OF d(1,2)] obtain k where "key c k" "permitted_under k t" by blast
  with authorize_keeps_permission[of decide k t cs, OF keeps] d(3) Cons.IH[OF d(3)] show ?case by auto
qed simp

lemma boundary_permits:
  assumes "tool_authorization_boundary env se (in_memory_store wall) te scope cx policies now req s = (Inr True, u)"
  shows "\<forall>c \<in> set (tq_capabilities req). \<exists>entry key.
      policy_evaluation env se (boundary_decision_id env te scope cx policies req c) te c
        (caller_kind (tq_caller req) @ '':'' @ caller_id (tq_caller req)) scope cx policies
        (Context (tq_correlation req)) now = Inr (entry, key)
      \<and> permitted_under key u"
proof -
  let ?decide = "boundary_decision env se (in_memory_store wall) te scope cx policies now req"
  let ?pure = "\<lambda>c. policy_evaluation env se (boundary_decision_id env te scope cx policies req c) te c
        (caller_kind (tq_caller req) @ '':'' @ caller_id (tq_caller req)) scope cx policies
        (Context (tq_correlation req)) now"
  have "\<forall>c \<in> set (tq_capabilities req). \<exists>k. (\<exists>entry. ?pure c = Inr (entry, k)) \<and> permitted_under k u"
  proof (rule authorize_capabilities_True[where decide = ?decide])
    show "permitted_under k (snd (?decide c s))" if "permitted_under k s" for c k s
      unfolding boundary_decision_def using that by (rule policy_evaluate_keeps_permission)
    show "authorize_capabilities ?decide (tq_capabilities req) s = (Inr True, u)"
      using assms by (simp add: tool_authorization_boundary_def)
    fix c s v t assume d: "?decide c s = (Inr v, t)" "dget v ''decision'' = JStr ''ALLOW''"
    then obtain entry key where p: "?pure c = Inr (entry, key)" and m: "mem_create (JObj entry) key s = (Inr v, t)"
      by (auto simp: boundary_decision_def policy_evaluate_def eff_simps in_memory_store_def
          split: sum.splits prod.splits if_splits)
    from mem_create_keyed[OF m] d(2) p show "\<exists>k. (\<exists>entry. ?pure c = Inr (entry, k)) \<and> permitted_under k t"
      by (auto simp: permitted_under_def)
  qed
  then show ?thesis by blast
qed

end
