(* ===== verification/PyNumber.thy ===== *)
theory PyNumber
  imports PyEffect
begin

text \<open>
  Float arithmetic.  A Python float is its exact rational value or one of the special values;
  an operation computes the exact result and rounds it to the nearest double, ties to even,
  overflowing to infinity.  The sign of zero is not represented.  \<open>max\<close> and comparisons follow
  CPython: \<open>max\<close> keeps its first argument unless a later one is greater, and nothing compares
  with NaN.
\<close>

section \<open>Rounding\<close>

definition mk_float :: "rat \<Rightarrow> pyfloat" where
  "mk_float r =
     (let d = round_double r in
      if of_int (2 ^ 1024) \<le> d then PosInf else if d \<le> - of_int (2 ^ 1024) then NegInf else Finite d)"

fun fp_neg :: "pyfloat \<Rightarrow> pyfloat" where
  "fp_neg (Finite r) = Finite (- r)"
| "fp_neg PosInf = NegInf"
| "fp_neg NegInf = PosInf"
| "fp_neg NaN = NaN"

fun fp_add :: "pyfloat \<Rightarrow> pyfloat \<Rightarrow> pyfloat" where
  "fp_add (Finite a) (Finite b) = mk_float (a + b)"
| "fp_add NaN y = NaN"
| "fp_add x NaN = NaN"
| "fp_add PosInf NegInf = NaN"
| "fp_add NegInf PosInf = NaN"
| "fp_add PosInf y = PosInf"
| "fp_add NegInf y = NegInf"
| "fp_add x PosInf = PosInf"
| "fp_add x NegInf = NegInf"

definition fp_sub :: "pyfloat \<Rightarrow> pyfloat \<Rightarrow> pyfloat" where
  "fp_sub x y = fp_add x (fp_neg y)"

text \<open>Multiplication by a positive constant.\<close>

fun fp_scale :: "rat \<Rightarrow> pyfloat \<Rightarrow> pyfloat" where
  "fp_scale c (Finite r) = mk_float (c * r)"
| "fp_scale c x = x"

fun fp_lt :: "pyfloat \<Rightarrow> pyfloat \<Rightarrow> bool" where
  "fp_lt (Finite a) (Finite b) = (a < b)"
| "fp_lt (Finite a) PosInf = True"
| "fp_lt NegInf (Finite b) = True"
| "fp_lt NegInf PosInf = True"
| "fp_lt x y = False"

definition fp_le :: "pyfloat \<Rightarrow> pyfloat \<Rightarrow> bool" where
  "fp_le x y \<longleftrightarrow> x \<noteq> NaN \<and> y \<noteq> NaN \<and> \<not> fp_lt y x"

definition fp_max :: "pyfloat \<Rightarrow> pyfloat list \<Rightarrow> pyfloat" where
  "fp_max x ys = foldl (\<lambda>m y. if fp_lt m y then y else m) x ys"

text \<open>\<open>round(x)\<close>, \<open>int / int\<close> and \<open>float(v)\<close>; \<open>parse\<close> is \<open>float\<close> on a string.\<close>

fun py_round :: "pyfloat \<Rightarrow> exn + int" where
  "py_round (Finite r) = Inr (round_half_even r)"
| "py_round NaN = Inl (value_error ''cannot convert float NaN to integer'')"
| "py_round x = Inl (Exn OverflowError ''cannot convert float infinity to integer'' JNull)"

definition int_truediv :: "int \<Rightarrow> int \<Rightarrow> exn + pyfloat" where
  "int_truediv a b =
     (if b = 0 then Inl (Exn ZeroDivisionError ''division by zero'' JNull)
      else case mk_float (of_int a / of_int b) of
             Finite r \<Rightarrow> Inr (Finite r)
           | _ \<Rightarrow> Inl (Exn OverflowError ''integer division result too large for a float'' JNull))"

fun py_float :: "(string \<Rightarrow> pyfloat option) \<Rightarrow> json \<Rightarrow> exn + pyfloat" where
  "py_float parse (JFloat f) = Inr f"
| "py_float parse (JInt i) =
     (case mk_float (of_int i) of
        Finite r \<Rightarrow> Inr (Finite r)
      | _ \<Rightarrow> Inl (Exn OverflowError ''int too large to convert to float'' JNull))"
| "py_float parse (JBool b) = Inr (Finite (if b then 1 else 0))"
| "py_float parse (JStr s) =
     (case parse s of Some f \<Rightarrow> Inr f
      | None \<Rightarrow> Inl (value_error (''could not convert string to float: '' @ repr_str s)))"
| "py_float parse v = Inl (type_error ''float() argument must be a string or a real number'')"

section \<open>The order without NaN\<close>

lemma fp_le_refl [simp]: "fp_le x x \<longleftrightarrow> x \<noteq> NaN"
  by (cases x) (auto simp: fp_le_def)

lemma fp_le_trans: "fp_le x y \<Longrightarrow> fp_le y z \<Longrightarrow> fp_le x z"
  by (cases x; cases y; cases z) (auto simp: fp_le_def)

lemma fp_lt_imp_le: "fp_lt x y \<Longrightarrow> fp_le x y"
  by (cases x; cases y) (auto simp: fp_le_def)

lemma fp_le_total: "x \<noteq> NaN \<Longrightarrow> y \<noteq> NaN \<Longrightarrow> \<not> fp_lt x y \<Longrightarrow> fp_le y x"
  by (simp add: fp_le_def)

lemma fp_max_upper:
  "x \<noteq> NaN \<Longrightarrow> NaN \<notin> set ys \<Longrightarrow> (\<forall>y \<in> set (x # ys). fp_le y (fp_max x ys)) \<and> fp_max x ys \<in> set (x # ys)"
proof (induction ys arbitrary: x)
  case (Cons y ys)
  have "fp_max x (y # ys) = fp_max (if fp_lt x y then y else x) ys" by (simp add: fp_max_def)
  moreover have "(\<forall>z \<in> set ((if fp_lt x y then y else x) # ys). fp_le z (fp_max (if fp_lt x y then y else x) ys))
      \<and> fp_max (if fp_lt x y then y else x) ys \<in> set ((if fp_lt x y then y else x) # ys)"
    using Cons.prems by (intro Cons.IH) auto
  ultimately show ?case
    using Cons.prems by (auto split: if_splits intro: fp_le_trans fp_lt_imp_le fp_le_total)
qed (simp add: fp_max_def)

lemma mk_float_not_NaN [simp]: "mk_float r \<noteq> NaN"
  by (simp add: mk_float_def Let_def)

end
