(* ===== verification/ModelRateLimits.thy ===== *)
theory ModelRateLimits
  imports PyNumber
begin

text \<open>
  \<open>ProcessLocalModelAdmissionCoordinator\<close> of \<open>model_rate_limits.py\<close>: requests to a model
  provider are paced by a request clock, a token clock and the provider's own throttle hints, and
  the clocks are checkpointed in a file.  The lock makes each method one step.  The file is
  absent, unreadable (with a message) or a JSON value; \<open>co_faults\<close> is what the next checkpoints
  meet, consumed one by one, and \<open>co_parse\<close> is \<open>float\<close> on a string.  A call carries the two
  readings of the wall clock it may take, at the restoration and at the checkpoint.
\<close>

record coordinator =
  co_requests :: int
  co_tokens :: int
  co_has_path :: bool
  co_file :: "(string + json) option"
  co_faults :: "string option list"
  co_parse :: "string \<Rightarrow> pyfloat option"
  co_next_request :: pyfloat
  co_next_token :: pyfloat
  co_blocked :: pyfloat
  co_restored :: bool
  co_latest :: int

record admission =
  ad_admitted :: bool
  ad_delay :: int
  ad_eligible :: pyfloat
  ad_input :: int
  ad_reserved :: int
  ad_reservation :: "int option"

abbreviation zero :: pyfloat where "zero \<equiv> Finite 0"

definition new_coordinator ::
  "int \<Rightarrow> int \<Rightarrow> bool \<Rightarrow> (string + json) option \<Rightarrow> string option list \<Rightarrow> (string \<Rightarrow> pyfloat option) \<Rightarrow> exn + coordinator" where
  "new_coordinator requests_per_minute tokens_per_minute has_path file faults parse =
     bindR (checkR (\<not> (requests_per_minute < 1 \<or> tokens_per_minute < 1))
              (value_error ''rate-limit capacities must be positive'')) (\<lambda>_.
     Inr \<lparr>co_requests = requests_per_minute, co_tokens = tokens_per_minute, co_has_path = has_path,
          co_file = file, co_faults = faults, co_parse = parse, co_next_request = zero,
          co_next_token = zero, co_blocked = zero, co_restored = False, co_latest = 0\<rparr>)"

section \<open>The state file\<close>

definition state_error :: "string \<Rightarrow> exn" where
  "state_error message = Exn CoordinatorStateError message JNull"

text \<open>The deadlines of a state file: request, token, throttle.\<close>

definition file_deadlines :: "(string \<Rightarrow> pyfloat option) \<Rightarrow> json \<Rightarrow> exn + pyfloat \<times> pyfloat \<times> pyfloat" where
  "file_deadlines parse state =
     (let deadline = (\<lambda>key. bindR (getitem (as_dict state) key) (py_float parse)) in
      bindR (checkR (is_mapping state \<and> py_eq (mget state ''version'') (JInt 1))
              (value_error ''unsupported coordinator state'')) (\<lambda>_.
      bindR (deadline ''nextRequestAt'') (\<lambda>request.
      bindR (deadline ''nextTokenAt'') (\<lambda>token.
      bindR (deadline ''blockedUntil'') (\<lambda>blocked.
      bindR (checkR (\<not> (fp_lt request zero \<or> fp_lt token zero \<or> fp_lt blocked zero))
              (value_error ''negative coordinator deadline'')) (\<lambda>_.
      Inr (request, token, blocked)))))))"

text \<open>\<open>now + max(0.0, deadline - wall_now)\<close>, on both sides of the file.\<close>

definition rebased :: "pyfloat \<Rightarrow> pyfloat \<Rightarrow> pyfloat \<Rightarrow> pyfloat" where
  "rebased now wall_now deadline = fp_add now (fp_max zero [fp_sub deadline wall_now])"

definition read_deadlines ::
  "(string \<Rightarrow> pyfloat option) \<Rightarrow> string + json \<Rightarrow> exn + pyfloat \<times> pyfloat \<times> pyfloat" where
  "read_deadlines parse text =
     (case (case text of Inl message \<Rightarrow> Inl (value_error message) | Inr state \<Rightarrow> file_deadlines parse state) of
        Inr deadlines \<Rightarrow> Inr deadlines
      | Inl e \<Rightarrow> Inl (if instance_of e OSError \<or> instance_of e TypeError \<or> instance_of e ValueError
                      then state_error ''Model rate-limit coordinator state is unavailable'' else e))"

definition restore :: "pyfloat \<Rightarrow> pyfloat \<Rightarrow> (coordinator, unit) eff" where
  "restore now wall_now =
     bindE getE (\<lambda>c.
     if co_restored c then ret ()
     else if \<not> co_has_path c then modE (co_restored_update (\<lambda>_. True))
     else case co_file c of
       None \<Rightarrow> modE (co_restored_update (\<lambda>_. True))
     | Some text \<Rightarrow> bindE (liftR (read_deadlines (co_parse c) text)) (\<lambda>(request, token, blocked).
         putE (c\<lparr>co_next_request := rebased now wall_now request,
                 co_next_token := rebased now wall_now token,
                 co_blocked := rebased now wall_now blocked, co_restored := True\<rparr>)))"

definition checkpoint :: "coordinator \<Rightarrow> pyfloat \<Rightarrow> pyfloat \<Rightarrow> json" where
  "checkpoint c now wall_now = JObj
     [(''version'', JInt 1),
      (''nextRequestAt'', JFloat (rebased wall_now now (co_next_request c))),
      (''nextTokenAt'', JFloat (rebased wall_now now (co_next_token c))),
      (''blockedUntil'', JFloat (rebased wall_now now (co_blocked c)))]"

text \<open>The file is replaced as a whole or, when the system refuses, left as it was.\<close>

definition persist :: "pyfloat \<Rightarrow> pyfloat \<Rightarrow> (coordinator, unit) eff" where
  "persist now wall_now =
     bindE getE (\<lambda>c.
     if \<not> co_has_path c then ret ()
     else case co_faults c of
       Some f # fs \<Rightarrow> thenE (putE (c\<lparr>co_faults := fs\<rparr>))
         (throw (state_error ''Model rate-limit coordinator state cannot be checkpointed''))
     | fs \<Rightarrow> putE (c\<lparr>co_faults := tl fs, co_file := Some (Inr (checkpoint c now wall_now))\<rparr>))"

section \<open>Admission and feedback\<close>

definition delay_ms :: "pyfloat \<Rightarrow> pyfloat \<Rightarrow> exn + int" where
  "delay_ms eligible_at now =
     bindR (py_round (fp_scale 1000 (fp_sub eligible_at now))) (\<lambda>ms. Inr (max 0 ms))"

definition eligible :: "pyfloat \<Rightarrow> coordinator \<Rightarrow> pyfloat" where
  "eligible now c = fp_max now [co_next_request c, co_next_token c, co_blocked c]"

definition token_demand :: "int \<Rightarrow> int \<Rightarrow> int" where
  "token_demand estimated_input_tokens output_token_allowance =
     max 1 (estimated_input_tokens + output_token_allowance)"

definition reserve :: "pyfloat \<Rightarrow> int \<Rightarrow> pyfloat \<Rightarrow> pyfloat \<Rightarrow> (coordinator, int) eff" where
  "reserve eligible_at demand now wall_now =
     thenE (modE (co_latest_update (\<lambda>n. n + 1)))
     (bindE getE (\<lambda>c.
      bindE (liftR (int_truediv 60 (co_requests c))) (\<lambda>interval.
      thenE (modE (co_next_request_update (\<lambda>_. fp_add eligible_at interval)))
      (bindE (liftR (int_truediv (demand * 60) (co_tokens c))) (\<lambda>token_time.
      thenE (modE (co_next_token_update (\<lambda>_. fp_add eligible_at token_time)))
      (thenE (persist now wall_now) (ret (co_latest c))))))))"

definition admit ::
  "pyfloat \<Rightarrow> pyfloat \<Rightarrow> int \<Rightarrow> int \<Rightarrow> pyfloat \<times> pyfloat \<Rightarrow> (coordinator, admission) eff" where
  "admit now deadline estimated_input_tokens output_token_allowance walls =
     thenE (checkE (\<not> (estimated_input_tokens < 0 \<or> output_token_allowance < 0))
              (value_error ''token estimates must not be negative''))
     (let demand = token_demand estimated_input_tokens output_token_allowance in
      thenE (restore now (fst walls))
      (bindE getE (\<lambda>c.
       let eligible_at = eligible now c; admitted = fp_lt eligible_at deadline in
       bindE (liftR (delay_ms eligible_at now)) (\<lambda>delay.
       bindE (if admitted then bindE (reserve eligible_at demand now (snd walls)) (\<lambda>n. ret (Some n))
              else ret None) (\<lambda>reservation.
       ret \<lparr>ad_admitted = admitted, ad_delay = delay, ad_eligible = eligible_at,
            ad_input = estimated_input_tokens, ad_reserved = demand, ad_reservation = reservation\<rparr>)))))"

definition revalidate :: "pyfloat \<Rightarrow> pyfloat \<Rightarrow> pyfloat \<times> pyfloat \<Rightarrow> (coordinator, admission) eff" where
  "revalidate now deadline walls =
     thenE (restore now (fst walls))
     (bindE getE (\<lambda>c.
      let eligible_at = fp_max now [co_blocked c] in
      bindE (liftR (delay_ms eligible_at now)) (\<lambda>delay.
      ret \<lparr>ad_admitted = fp_lt eligible_at deadline, ad_delay = delay, ad_eligible = eligible_at,
           ad_input = 0, ad_reserved = 0, ad_reservation = None\<rparr>)))"

definition observe_success ::
  "pyfloat \<Rightarrow> int \<Rightarrow> int \<Rightarrow> int \<Rightarrow> int option \<Rightarrow> pyfloat \<times> pyfloat \<Rightarrow> (coordinator, unit) eff" where
  "observe_success now reserved_tokens actual_input_tokens actual_output_tokens reservation_id walls =
     bindE getE (\<lambda>c0.
     let actual = max 1 (actual_input_tokens + actual_output_tokens) in
     bindE (liftR (int_truediv (max 0 (reserved_tokens - actual) * 60) (co_tokens c0))) (\<lambda>credit.
     if credit = zero \<or> reservation_id = None then ret ()
     else thenE (restore now (fst walls))
       (bindE getE (\<lambda>c.
        if reservation_id \<noteq> Some (co_latest c) then ret ()
        else thenE (putE (c\<lparr>co_next_token := fp_max zero [fp_sub (co_next_token c) credit]\<rparr>))
               (persist now (snd walls))))))"

definition observe_throttle :: "pyfloat \<Rightarrow> pyfloat \<Rightarrow> pyfloat \<times> pyfloat \<Rightarrow> (coordinator, unit) eff" where
  "observe_throttle now eligible_at walls =
     thenE (restore now (fst walls))
     (thenE (modE (\<lambda>c. c\<lparr>co_blocked := fp_max (co_blocked c) [eligible_at]\<rparr>))
     (persist now (snd walls)))"

section \<open>Pacing\<close>

text \<open>
  What a run of the coordinator did, newest first: the slot an admission took, with its demand,
  a provider hint it applied, and a token credit.  The calls that raise after changing the clocks
  are in the trail too.
\<close>

datatype rate_event = Slot pyfloat int | Hint pyfloat | Credit

definition slot_taken :: "pyfloat \<Rightarrow> int \<Rightarrow> coordinator \<Rightarrow> coordinator \<Rightarrow> rate_event list" where
  "slot_taken slot demand c c' = (if co_latest c' = co_latest c then [] else [Slot slot demand])"

text \<open>
  Every call, in every order and with every outcome, from a given coordinator; \<open>now\<close> is a
  reading of the monotonic clock, so a number.
\<close>

inductive coordinated :: "coordinator \<Rightarrow> rate_event list \<Rightarrow> coordinator \<Rightarrow> bool" for c0 where
  start: "coordinated c0 [] c0"
| admit: "coordinated c0 trail c \<Longrightarrow> now = Finite t \<Longrightarrow> admit now deadline i k walls c = (r, c') \<Longrightarrow>
    coordinated c0 (slot_taken (eligible now (snd (restore now (fst walls) c))) (token_demand i k) c c' @ trail) c'"
| revalidate: "coordinated c0 trail c \<Longrightarrow> now = Finite t \<Longrightarrow> revalidate now deadline walls c = (r, c') \<Longrightarrow> coordinated c0 trail c'"
| success: "coordinated c0 trail c \<Longrightarrow> now = Finite t \<Longrightarrow> observe_success now n i k rid walls c = (r, c') \<Longrightarrow> coordinated c0 (Credit # trail) c'"
| throttle: "coordinated c0 trail c \<Longrightarrow> now = Finite t \<Longrightarrow> observe_throttle now hint walls c = (r, c') \<Longrightarrow>
    coordinated c0 ((if co_restored c' then [Hint hint] else []) @ trail) c'"

text \<open>The bounds a trail puts on the next slot.\<close>

fun request_bound :: "pyfloat \<Rightarrow> rate_event list \<Rightarrow> pyfloat option" where
  "request_bound interval [] = None"
| "request_bound interval (Slot slot demand # trail) = Some (fp_add slot interval)"
| "request_bound interval (_ # trail) = request_bound interval trail"

fun token_bound :: "int \<Rightarrow> rate_event list \<Rightarrow> pyfloat option" where
  "token_bound capacity (Slot slot demand # trail) =
     (case int_truediv (demand * 60) capacity of Inr t \<Rightarrow> Some (fp_add slot t) | Inl _ \<Rightarrow> None)"
| "token_bound capacity (Hint h # trail) = token_bound capacity trail"
| "token_bound capacity trail = None"

definition slot_bounds :: "pyfloat \<Rightarrow> int \<Rightarrow> rate_event list \<Rightarrow> pyfloat set" where
  "slot_bounds interval capacity trail =
     {h. Hint h \<in> set trail \<and> h \<noteq> NaN} \<union> set_option (request_bound interval trail) \<union> set_option (token_bound capacity trail)"

fun well_paced :: "pyfloat \<Rightarrow> int \<Rightarrow> rate_event list \<Rightarrow> bool" where
  "well_paced interval capacity [] = True"
| "well_paced interval capacity (Slot slot demand # trail) \<longleftrightarrow>
     (\<forall>b \<in> slot_bounds interval capacity trail. fp_le b slot) \<and> well_paced interval capacity trail"
| "well_paced interval capacity (_ # trail) \<longleftrightarrow> well_paced interval capacity trail"

text \<open>The clocks stand for the bounds of the trail; before the first restoration it is empty.\<close>

definition clocks_hold :: "coordinator \<Rightarrow> pyfloat \<Rightarrow> rate_event list \<Rightarrow> coordinator \<Rightarrow> bool" where
  "clocks_hold c0 interval trail c \<longleftrightarrow>
     co_requests c = co_requests c0 \<and> co_tokens c = co_tokens c0 \<and> co_blocked c \<noteq> NaN
     \<and> (co_restored c \<or> set trail \<subseteq> {Credit})
     \<and> (\<forall>h. Hint h \<in> set trail \<longrightarrow> h \<noteq> NaN \<longrightarrow> fp_le h (co_blocked c))
     \<and> (\<forall>b \<in> set_option (request_bound interval trail). fp_le b (co_next_request c))
     \<and> (\<forall>b \<in> set_option (token_bound (co_tokens c0) trail). fp_le b (co_next_token c))"

lemma fp_max_ge:
  "x \<noteq> NaN \<Longrightarrow> fp_max x ys \<noteq> NaN \<and> fp_le x (fp_max x ys) \<and> (\<forall>y \<in> set ys. y \<noteq> NaN \<longrightarrow> fp_le y (fp_max x ys))"
proof (induction ys arbitrary: x)
  case (Cons y ys)
  let ?m = "if fp_lt x y then y else x"
  have m: "?m \<noteq> NaN" "fp_le x ?m" "y \<noteq> NaN \<longrightarrow> fp_le y ?m"
    using Cons.prems by (cases x; cases y; auto simp: fp_le_def)+
  have "fp_max x (y # ys) = fp_max ?m ys" by (simp add: fp_max_def)
  with Cons.IH[OF m(1)] m(2,3) show ?case by (auto intro: fp_le_trans)
qed (simp add: fp_max_def)

lemma fp_max_NaN: "fp_max NaN ys = NaN"
  by (induction ys) (auto simp: fp_max_def)

lemma fp_lt_not_NaN: "fp_lt x y \<Longrightarrow> x \<noteq> NaN \<and> x \<noteq> PosInf"
  by (cases x; cases y) auto

lemma fp_le_NaN [simp]: "\<not> fp_le NaN x" "\<not> fp_le x NaN"
  by (simp_all add: fp_le_def)

text \<open>An admitted slot is not before any clock that is a number, and a later instant is a number.\<close>

lemma eligible_bounds:
  assumes "fp_lt (eligible now c) deadline" "clocks_hold c0 interval trail c"
  shows "\<forall>b \<in> slot_bounds interval (co_tokens c0) trail. fp_le b (eligible now c)"
proof -
  have "now \<noteq> NaN" using assms(1) fp_lt_not_NaN fp_max_NaN unfolding eligible_def by metis
  from fp_max_ge[OF this, of "[co_next_request c, co_next_token c, co_blocked c]"] assms(2)
  show ?thesis unfolding eligible_def clocks_hold_def slot_bounds_def
    by (auto 0 3 intro: fp_le_trans)
qed

lemma int_truediv_Finite: "int_truediv a b = Inr t \<Longrightarrow> \<exists>r. t = Finite r"
  by (cases t) (auto simp: int_truediv_def split: if_splits pyfloat.splits)

lemma fp_add_not_NaN: "fp_lt x y \<Longrightarrow> int_truediv a b = Inr t \<Longrightarrow> fp_add x t \<noteq> NaN"
  by (drule fp_lt_not_NaN, drule int_truediv_Finite) (cases x; auto)

text \<open>What the file does is no concern of the clocks.\<close>

lemma clocks_hold_cong:
  "co_requests c' = co_requests c \<Longrightarrow> co_tokens c' = co_tokens c \<Longrightarrow> co_restored c' = co_restored c
   \<Longrightarrow> co_blocked c' = co_blocked c \<Longrightarrow> co_next_request c' = co_next_request c
   \<Longrightarrow> co_next_token c' = co_next_token c \<Longrightarrow> clocks_hold c0 interval trail c' = clocks_hold c0 interval trail c"
  by (simp add: clocks_hold_def)

lemma persist_clocks:
  "clocks_hold c0 interval trail (snd (persist now wall c)) = clocks_hold c0 interval trail c"
  "co_latest (snd (persist now wall c)) = co_latest c" "co_restored (snd (persist now wall c)) = co_restored c"
  by (auto simp: persist_def eff_simps clocks_hold_def split: list.split option.split)

lemma credits_bounds:
  assumes "set trail \<subseteq> {Credit}"
  shows "request_bound i trail = None \<and> token_bound n trail = None"
proof -
  from assms have "request_bound i trail = None" by (induction trail) auto
  with assms show ?thesis by (cases trail) auto
qed

lemma rebased_number: "rebased (Finite t) wall_now deadline \<noteq> NaN"
proof -
  have "fp_max zero [fp_sub deadline wall_now] = PosInf \<or> (\<exists>r. fp_max zero [fp_sub deadline wall_now] = Finite r)"
    by (cases "fp_sub deadline wall_now") (auto simp: fp_max_def)
  then show ?thesis by (auto simp: rebased_def)
qed

lemma restore_clocks:
  assumes "clocks_hold c0 interval trail c" and now: "now = Finite t"
  shows "clocks_hold c0 interval trail (snd (restore now wall c))"
    "co_latest (snd (restore now wall c)) = co_latest c"
    "fst (restore now wall c) = Inl e \<longrightarrow> \<not> co_restored (snd (restore now wall c))"
    "fst (restore now wall c) = Inr () \<longrightarrow> co_restored (snd (restore now wall c))"
  using assms credits_bounds[of trail interval "co_tokens c0"]
  by (auto simp: rebased_number restore_def eff_simps clocks_hold_def split: option.split sum.split prod.split)

lemma reserve_clocks:
  assumes lt: "fp_lt slot deadline" and c: "clocks_hold c0 interval trail c" "co_restored c"
    and i: "int_truediv 60 (co_requests c0) = Inr interval"
  shows "clocks_hold c0 interval (Slot slot demand # trail) (snd (reserve slot demand now wall c))"
    "co_latest (snd (reserve slot demand now wall c)) = co_latest c + 1"
proof -
  let ?c1 = "(co_latest_update (\<lambda>n. n + 1) c)\<lparr>co_next_request := fp_add slot interval\<rparr>"
  have rt: "int_truediv 60 (co_requests c) = Inr interval" "co_tokens c = co_tokens c0"
    using c i by (simp_all add: clocks_hold_def)
  have "clocks_hold c0 interval (Slot slot demand # trail) (snd (reserve slot demand now wall c))
    \<and> co_latest (snd (reserve slot demand now wall c)) = co_latest c + 1"
  proof (cases "int_truediv (demand * 60) (co_tokens c0)")
    case (Inl e)
    with c rt fp_add_not_NaN[OF lt i] show ?thesis
      by (simp add: reserve_def eff_simps clocks_hold_def)
  next
    case (Inr t)
    let ?c2 = "?c1\<lparr>co_next_token := fp_add slot t\<rparr>"
    have "snd (reserve slot demand now wall c) = snd (persist now wall ?c2)"
      using rt Inr by (auto simp: reserve_def eff_simps split: prod.split sum.split)
    moreover have "clocks_hold c0 interval (Slot slot demand # trail) ?c2"
      using c Inr rt fp_add_not_NaN[OF lt i] fp_add_not_NaN[OF lt Inr] by (simp add: clocks_hold_def)
    ultimately show ?thesis by (simp add: persist_clocks)
  qed
  then show "clocks_hold c0 interval (Slot slot demand # trail) (snd (reserve slot demand now wall c))"
    "co_latest (snd (reserve slot demand now wall c)) = co_latest c + 1" by simp_all
qed

lemma admit_clocks:
  assumes a: "admit now deadline i k walls c = (r, c')" and c: "clocks_hold c0 interval trail c" "well_paced interval (co_tokens c0) trail"
    and now: "now = Finite t"
    and i: "int_truediv 60 (co_requests c0) = Inr interval"
  defines "new \<equiv> slot_taken (eligible now (snd (restore now (fst walls) c))) (token_demand i k) c c'"
  shows "clocks_hold c0 interval (new @ trail) c' \<and> well_paced interval (co_tokens c0) (new @ trail)"
proof (cases "fst (restore now (fst walls) c) = Inr () \<and> \<not> (i < 0 \<or> k < 0)")
  case False
  then have "c' = c \<or> c' = snd (restore now (fst walls) c)"
    using a by (cases "restore now (fst walls) c") (auto simp: admit_def eff_simps Let_def split: if_splits sum.splits)
  with restore_clocks(1,2)[OF c(1) now] c show ?thesis by (auto simp: new_def slot_taken_def)
next
  case True
  define c1 where "c1 = snd (restore now (fst walls) c)"
  from True have r1: "restore now (fst walls) c = (Inr (), c1)" by (simp add: c1_def prod_eq_iff)
  have c1: "clocks_hold c0 interval trail c1" "co_latest c1 = co_latest c" "co_restored c1"
    using restore_clocks[OF c(1) now, of "fst walls"] True by (simp_all add: c1_def)
  show ?thesis
  proof (cases "fp_lt (eligible now c1) deadline \<and> (\<exists>d. delay_ms (eligible now c1) now = Inr d)")
    case True
    then obtain d where d: "delay_ms (eligible now c1) now = Inr d" by blast
    have c': "c' = snd (reserve (eligible now c1) (token_demand i k) now (snd walls) c1)"
      using a True d \<open>fst _ = _ \<and> _\<close>
      by (auto simp: admit_def eff_simps r1 Let_def split: sum.splits prod.splits)
    from True c1 c(2) reserve_clocks[OF _ c1(1,3) i] eligible_bounds[OF _ c1(1)] show ?thesis
      unfolding new_def slot_taken_def c1_def[symmetric] by (auto simp: c')
  next
    case False
    then have "c' = c1"
      using a \<open>fst _ = _ \<and> _\<close>
      by (auto simp: admit_def eff_simps r1 Let_def split: sum.splits prod.splits)
    with c1 c(2) show ?thesis by (simp add: new_def slot_taken_def)
  qed
qed

lemma revalidate_clocks:
  assumes "revalidate now deadline walls c = (r, c')" "clocks_hold c0 interval trail c" "now = Finite t"
  shows "clocks_hold c0 interval trail c'"
proof -
  have "c' = snd (restore now (fst walls) c)"
    using assms(1) by (cases "restore now (fst walls) c") (auto simp: revalidate_def eff_simps Let_def split: sum.splits)
  then show ?thesis using restore_clocks(1)[OF assms(2,3)] by simp
qed

lemma success_clocks:
  assumes a: "observe_success now n i k rid walls c = (r, c')" and c: "clocks_hold c0 interval trail c" and now: "now = Finite t"
  shows "clocks_hold c0 interval (Credit # trail) c'"
proof -
  have credit: "clocks_hold c0 interval (Credit # trail) d" "clocks_hold c0 interval (Credit # trail) (d\<lparr>co_next_token := t\<rparr>)"
    if "clocks_hold c0 interval trail d" for d t
    using that by (auto simp: clocks_hold_def)
  let ?c1 = "snd (restore now (fst walls) c)"
  have *: "persist now w d = (r, c') \<Longrightarrow> snd (persist now w d) = c'" for w d by simp
  have "c' = c \<or> c' = ?c1 \<or> (\<exists>t. snd (persist now (snd walls) (?c1\<lparr>co_next_token := t\<rparr>)) = c')"
    using a by (cases "restore now (fst walls) c")
      (auto simp: observe_success_def eff_simps Let_def split: sum.splits if_splits dest: *)
  then show ?thesis using credit c restore_clocks(1)[OF c now] by (auto simp: persist_clocks)
qed

lemma throttle_clocks:
  assumes a: "observe_throttle now hint walls c = (r, c')" and c: "clocks_hold c0 interval trail c" and now: "now = Finite t"
  shows "clocks_hold c0 interval ((if co_restored c' then [Hint hint] else []) @ trail) c'"
proof (cases "fst (restore now (fst walls) c)")
  case (Inl e)
  then have c': "c' = snd (restore now (fst walls) c)"
    using a by (cases "restore now (fst walls) c") (auto simp: observe_throttle_def eff_simps)
  with restore_clocks(3)[OF c now] Inl have "\<not> co_restored c'" by blast
  then show ?thesis using restore_clocks(1)[OF c now] by (simp add: c')
next
  case (Inr u)
  define c1 where "c1 = snd (restore now (fst walls) c)"
  let ?c2 = "c1\<lparr>co_blocked := fp_max (co_blocked c1) [hint]\<rparr>"
  from Inr have r1: "restore now (fst walls) c = (Inr (), c1)" by (simp add: c1_def prod_eq_iff)
  have c1: "clocks_hold c0 interval trail c1" "co_restored c1"
    using restore_clocks[OF c now, of "fst walls"] Inr by (simp_all add: c1_def)
  have c': "c' = snd (persist now (snd walls) ?c2)"
    using a by (simp add: observe_throttle_def eff_simps r1)
  have "clocks_hold c0 interval (Hint hint # trail) ?c2"
    using c1 fp_max_ge[of "co_blocked c1" "[hint]"]
    by (auto simp: clocks_hold_def intro: fp_le_trans)
  with c1(2) show ?thesis by (simp add: c' persist_clocks)
qed

lemma coordinated_well_paced:
  assumes "coordinated c0 trail c" and b: "co_blocked c0 \<noteq> NaN" and i: "int_truediv 60 (co_requests c0) = Inr interval"
  shows "well_paced interval (co_tokens c0) trail \<and> clocks_hold c0 interval trail c"
  using assms(1)
proof induction
  case start
  then show ?case using b by (simp add: clocks_hold_def)
next
  case (admit trail c now t deadline a k walls r c')
  from admit_clocks[OF admit.hyps(3) _ _ admit.hyps(2) i] admit.IH show ?case by blast
next
  case (throttle trail c now t hint walls r c')
  with throttle_clocks[OF throttle.hyps(3) _ throttle.hyps(2)] show ?case by auto
qed (auto dest: revalidate_clocks success_clocks)

text \<open>The calls as functions of the state they leave.\<close>

lemma coordinated_calls:
  assumes "coordinated c0 trail c"
  shows "coordinated c0 (slot_taken (eligible (Finite t) (snd (restore (Finite t) (fst walls) c))) (token_demand i k) c
      (snd (admit (Finite t) deadline i k walls c)) @ trail) (snd (admit (Finite t) deadline i k walls c))"
    and "coordinated c0 ((if co_restored (snd (observe_throttle (Finite t) hint walls c)) then [Hint hint] else []) @ trail)
      (snd (observe_throttle (Finite t) hint walls c))"
    and "coordinated c0 (Credit # trail) (snd (observe_success (Finite t) n i k rid walls c))"
  by (rule coordinated.admit[OF assms refl prod.collapse[symmetric]])
    (rule coordinated.throttle[OF assms refl prod.collapse[symmetric]],
     rule coordinated.success[OF assms refl prod.collapse[symmetric]])

text \<open>What the caller gets is the slot that was taken, and its number.\<close>

lemma admit_Inr:
  assumes a: "admit now deadline i k walls c = (Inr d, c')" and "ad_admitted d"
  shows "slot_taken (eligible now (snd (restore now (fst walls) c))) (token_demand i k) c c'
      = [Slot (ad_eligible d) (ad_reserved d)]
    \<and> ad_reservation d = Some (co_latest c') \<and> fp_lt (ad_eligible d) deadline"
proof -
  from a obtain c1 where r1: "restore now (fst walls) c = (Inr (), c1)"
    by (cases "restore now (fst walls) c") (auto simp: admit_def success_iffs Let_def)
  have "co_latest (snd (restore now (fst walls) c)) = co_latest c"
    by (auto simp: restore_def eff_simps split: option.split sum.split)
  with assms show ?thesis
    by (auto simp: admit_def success_iffs r1 Let_def slot_taken_def reserve_def modE_apply persist_def
        split: if_splits list.splits option.splits)
qed

end
