(* ===== verification/WorkflowResolver.thy ===== *)
theory WorkflowResolver
  imports Resources
begin

text \<open>
  \<open>workflow_resolver.py\<close>: which workflows of a loaded collection an event starts.  A workflow's
  triggers are checked one after the other, all of them even after a match, and compared by the
  source and type of the event resource they refer to.
\<close>

section \<open>The event\<close>

definition invalid_event :: "string \<Rightarrow> string \<Rightarrow> string \<Rightarrow> exn" where
  "invalid_event message field reason =
     Exn InvalidNormalizedEventError message (JObj [(''field'', JStr field), (''reason'', JStr reason)])"

definition event_field :: "dict \<Rightarrow> string \<Rightarrow> exn + string" where
  "event_field event field =
     (let value = dget event field in
      if \<not> is_str value \<or> py_strip (as_str value) = []
      then Inl (invalid_event (''Normalized event field '' @ repr_str field @ '' must be a non-empty string'')
                  field ''required'')
      else Inr (py_strip (as_str value)))"

definition event_identity :: "json \<Rightarrow> exn + string \<times> string" where
  "event_identity event =
     bindR (checkR (is_mapping event)
              (invalid_event ''Normalized event must be an object'' ''event'' ''invalid_type'')) (\<lambda>_.
     bindR (event_field (as_dict event) ''source'') (\<lambda>source.
     bindR (event_field (as_dict event) ''type'') (\<lambda>event_type. Inr (source, event_type))))"

section \<open>Triggers\<close>

definition invalid_trigger :: "resource \<Rightarrow> string \<Rightarrow> resource_ref option \<Rightarrow> exn" where
  "invalid_trigger workflow message event_ref =
     Exn InvalidTriggerConfigurationError (format_ref (res_ref workflow) @ '': '' @ message)
       (JObj ([(''workflowRef'', ref_record (res_ref workflow))]
              @ (case event_ref of None \<Rightarrow> [] | Some ref \<Rightarrow> [(''eventRef'', ref_record ref)])))"

definition trigger_ref :: "resource \<Rightarrow> string \<Rightarrow> json \<Rightarrow> exn + resource_ref" where
  "trigger_ref workflow position trigger =
     bindR (checkR (is_mapping trigger) (invalid_trigger workflow (position @ '' must be an object'') None)) (\<lambda>_.
     let value = mget trigger ''eventRef'' in
     case (if is_mapping value then ref_from_mapping (as_dict value) else Inl (type_error [])) of
       Inr ref \<Rightarrow> Inr ref
     | Inl e \<Rightarrow> Inl (if instance_of e KeyError \<or> instance_of e TypeError \<or> instance_of e ValueError
         then invalid_trigger workflow (position @ ''.eventRef must be an explicit Resource reference'') None
         else e))"

text \<open>What an event resource declares for a field of its spec.\<close>

definition event_declares :: "resource \<Rightarrow> resource_ref \<Rightarrow> resource \<Rightarrow> string \<Rightarrow> exn + string" where
  "event_declares workflow event_ref event_resource field =
     (let declared = mget (dget (res_data event_resource) ''spec'') field in
      if nonempty_str declared then Inr (as_str declared)
      else Inl (invalid_trigger workflow (format_ref event_ref @ '' must declare a non-empty spec.'' @ field)
                  (Some event_ref)))"

definition trigger_event ::
  "collection \<Rightarrow> resource \<Rightarrow> nat \<Rightarrow> resource_ref list \<Rightarrow> json \<Rightarrow> exn + resource_ref \<times> string \<times> string" where
  "trigger_event resources workflow index seen trigger =
     (let position = ''spec.triggers['' @ dec_nat index @ '']'' in
      bindR (trigger_ref workflow position trigger) (\<lambda>event_ref.
      bindR (checkR (\<not> (ref_kind event_ref \<noteq> ''Event'' \<or> ref_version event_ref = ''latest''))
        (invalid_trigger workflow (position @ ''.eventRef must reference an explicit Event version'')
           (Some event_ref))) (\<lambda>_.
      bindR (checkR (event_ref \<notin> set seen)
        (invalid_trigger workflow (position @ ''.eventRef duplicates '' @ format_ref event_ref)
           (Some event_ref))) (\<lambda>_.
      case collection_get resources event_ref of
        Some event_resource \<Rightarrow>
          if res_kind event_resource = ''Event''
          then bindR (event_declares workflow event_ref event_resource ''source'') (\<lambda>source.
               bindR (event_declares workflow event_ref event_resource ''type'') (\<lambda>event_type.
               Inr (event_ref, source, event_type)))
          else Inl (invalid_trigger workflow (position @ ''.eventRef cannot resolve '' @ format_ref event_ref)
                      (Some event_ref))
      | None \<Rightarrow> Inl (invalid_trigger workflow (position @ ''.eventRef cannot resolve '' @ format_ref event_ref)
                      (Some event_ref))))))"

fun match_triggers ::
  "collection \<Rightarrow> resource \<Rightarrow> string \<times> string \<Rightarrow> nat \<Rightarrow> resource_ref list \<Rightarrow> json list \<Rightarrow> bool \<Rightarrow> exn + bool" where
  "match_triggers resources workflow identity index seen [] matched = Inr matched"
| "match_triggers resources workflow identity index seen (trigger # triggers) matched =
     bindR (trigger_event resources workflow index seen trigger) (\<lambda>(event_ref, declared).
     match_triggers resources workflow identity (index + 1) (event_ref # seen) triggers
       (matched \<or> declared = identity))"

definition workflow_matches :: "collection \<Rightarrow> string \<times> string \<Rightarrow> resource \<Rightarrow> exn + bool" where
  "workflow_matches resources identity workflow =
     (let triggers = mget (dget (res_data workflow) ''spec'') ''triggers'' in
      bindR (checkR (\<not> (\<not> is_list triggers \<or> as_list triggers = []))
        (invalid_trigger workflow ''spec.triggers must be a non-empty array'' None)) (\<lambda>_.
      match_triggers resources workflow identity 0 [] (as_list triggers) False))"

section \<open>Resolution\<close>

definition ambiguous_match :: "string \<times> string \<Rightarrow> resource_ref list \<Rightarrow> exn" where
  "ambiguous_match identity matches =
     Exn AmbiguousWorkflowMatchError
       (''Event '' @ fst identity @ ''/'' @ snd identity @ '' matches multiple Workflows: ''
        @ join_with '', '' (map format_ref matches))
       (JObj [(''source'', JStr (fst identity)), (''type'', JStr (snd identity)),
              (''workflowRefs'', JList (map ref_record matches))])"

definition resolve_workflow_for_event :: "json \<Rightarrow> collection \<Rightarrow> bool \<Rightarrow> exn + resource_ref list" where
  "resolve_workflow_for_event event resources allow_fan_out =
     bindR (event_identity event) (\<lambda>identity.
     bindR (mapR (\<lambda>workflow. bindR (workflow_matches resources identity workflow) (\<lambda>matched.
              Inr (workflow, matched))) (by_kind resources ''Workflow'')) (\<lambda>answers.
     let matches = map (res_ref \<circ> fst) (filter snd answers) in
     bindR (checkR (\<not> (1 < length matches \<and> \<not> allow_fan_out)) (ambiguous_match identity matches)) (\<lambda>_.
     Inr matches)))"

text \<open>\<open>WorkflowResolution.workflow_ref\<close>.\<close>

definition sole_match :: "resource_ref list \<Rightarrow> exn + resource_ref option" where
  "sole_match refs =
     (if 1 < length refs then Inl (value_error ''resolution contains multiple Workflow references'')
      else Inr (case refs of [] \<Rightarrow> None | ref # _ \<Rightarrow> Some ref))"

section \<open>What resolution finds\<close>

text \<open>A trigger stands for an event: its reference leads to an event resource that declares it.\<close>

definition triggered_by :: "collection \<Rightarrow> json \<Rightarrow> string \<times> string \<Rightarrow> bool" where
  "triggered_by resources trigger identity \<longleftrightarrow>
     (\<exists>ref e. ref_from_mapping (as_dict (mget trigger ''eventRef'')) = Inr ref \<and> ref_kind ref = ''Event''
        \<and> collection_get resources ref = Some e
        \<and> mget (dget (res_data e) ''spec'') ''source'' = JStr (fst identity)
        \<and> mget (dget (res_data e) ''spec'') ''type'' = JStr (snd identity))"

definition starts_on :: "collection \<Rightarrow> string \<times> string \<Rightarrow> resource \<Rightarrow> bool" where
  "starts_on resources identity workflow \<longleftrightarrow>
     (\<exists>trigger \<in> set (as_list (mget (dget (res_data workflow) ''spec'') ''triggers'')).
        triggered_by resources trigger identity)"

lemma event_declares_Inr:
  "event_declares w ref e field = Inr s \<longleftrightarrow>
     mget (dget (res_data e) ''spec'') field = JStr s \<and> s \<noteq> []"
  by (cases "mget (dget (res_data e) ''spec'') field") (auto simp: event_declares_def Let_def nonempty_str_def)

lemma trigger_event_Inr:
  assumes "trigger_event resources w i seen trigger = Inr (ref, found)"
  shows "found = identity \<longleftrightarrow> triggered_by resources trigger identity"
proof -
  obtain e where e: "ref_from_mapping (as_dict (mget trigger ''eventRef'')) = Inr ref" "ref_kind ref = ''Event''"
      "collection_get resources ref = Some e" "event_declares w ref e ''source'' = Inr (fst found)"
      "event_declares w ref e ''type'' = Inr (snd found)"
    using assms
    by (auto simp: trigger_event_def trigger_ref_def Let_def bindR_eq_Inr split: option.splits sum.splits if_splits)
  then show ?thesis unfolding triggered_by_def by (auto simp: event_declares_Inr prod_eq_iff)
qed

lemma match_triggers_Inr:
  "match_triggers resources w identity i seen triggers matched = Inr b \<Longrightarrow>
     b \<longleftrightarrow> matched \<or> (\<exists>t \<in> set triggers. triggered_by resources t identity)"
proof (induction triggers arbitrary: i seen matched)
  case (Cons t ts)
  from Cons.prems obtain ref found where t: "trigger_event resources w i seen t = Inr (ref, found)"
      "match_triggers resources w identity (i + 1) (ref # seen) ts (matched \<or> found = identity) = Inr b"
    by (auto simp: bindR_eq_Inr)
  from Cons.IH[OF t(2)] trigger_event_Inr[OF t(1)] show ?case by auto
qed simp

lemma workflow_matches_Inr: "workflow_matches resources identity w = Inr b \<Longrightarrow> b \<longleftrightarrow> starts_on resources identity w"
  unfolding starts_on_def by (auto simp: workflow_matches_def Let_def bindR_eq_Inr dest: match_triggers_Inr)

lemma resolution_Inr:
  assumes "resolve_workflow_for_event event resources fan = Inr refs"
  shows "\<exists>source event_type. event_field (as_dict event) ''source'' = Inr source
    \<and> event_field (as_dict event) ''type'' = Inr event_type
    \<and> refs = map res_ref (filter (starts_on resources (source, event_type)) (by_kind resources ''Workflow''))
    \<and> (fan \<or> length refs \<le> 1)"
proof -
  obtain source event_type answers where a: "event_field (as_dict event) ''source'' = Inr source"
      "event_field (as_dict event) ''type'' = Inr event_type"
      "mapR (\<lambda>w. bindR (workflow_matches resources (source, event_type) w) (\<lambda>matched. Inr (w, matched)))
         (by_kind resources ''Workflow'') = Inr answers"
      "refs = map (res_ref \<circ> fst) (filter snd answers)" "fan \<or> length refs \<le> 1"
    using assms by (fastforce simp: resolve_workflow_for_event_def event_identity_def bindR_eq_Inr Let_def)
  have "map (res_ref \<circ> fst) (filter snd answers)
      = map res_ref (filter (starts_on resources (source, event_type)) ws)"
    if "mapR (\<lambda>w. bindR (workflow_matches resources (source, event_type) w) (\<lambda>matched. Inr (w, matched))) ws = Inr answers"
    for ws answers
    using that by (induction ws arbitrary: answers) (auto simp: bindR_eq_Inr dest: workflow_matches_Inr)
  with a show ?thesis by blast
qed

end
