(* ===== verification/WorkflowCreation.thy ===== *)
theory WorkflowCreation
  imports StoreInterface CanonicalText WorkflowResolver
begin

text \<open>
  \<open>WorkflowExecutionCreator\<close> of \<open>workflow_execution.py\<close>: one execution per event and workflow
  version.  The identity of the pair gives the ids, the trace and the deterministic key, so that
  a repeated call finds the first execution and only repairs its creation event.
\<close>

record 's creator =
  cr_store :: "'s store_ops"
  cr_logger :: "'s lifecycle_logger"
  cr_env :: environment

record creation_input =
  ci_event :: dict
  ci_workflow :: resource
  ci_event_resource :: resource
  ci_revision :: json
  ci_graph_version :: json
  ci_timestamp :: json
  ci_budget :: json

section \<open>Checks\<close>

definition creation_error :: "string \<Rightarrow> exn" where
  "creation_error message = Exn InvalidWorkflowExecutionInputError message JNull"

definition required_value :: "json \<Rightarrow> string \<Rightarrow> exn + string" where
  "required_value value field =
     (if \<not> is_str value \<or> py_strip (as_str value) = []
      then Inl (creation_error (field @ '' must be a non-empty string'')) else Inr (py_strip (as_str value)))"

definition required_string :: "dict \<Rightarrow> string \<Rightarrow> exn + string" where
  "required_string value field = required_value (dget value field) (''event.'' @ field)"

text \<open>The references of the triggers; a mapping that is no reference raises.\<close>

definition trigger_refs :: "json \<Rightarrow> exn + resource_ref list" where
  "trigger_refs triggers =
     bindR (py_iter (py_or triggers (JList []))) (\<lambda>entries.
     mapR (\<lambda>trigger. ref_from_mapping (as_dict (mget trigger ''eventRef'')))
       (filter (\<lambda>trigger. is_mapping trigger \<and> is_mapping (mget trigger ''eventRef'')) entries))"

definition validate_resource_pair :: "dict \<Rightarrow> resource \<Rightarrow> resource \<Rightarrow> exn + unit" where
  "validate_resource_pair event workflow event_resource =
     bindR (checkR (res_kind workflow = ''Workflow'')
              (creation_error ''workflow must be a loaded Workflow Resource'')) (\<lambda>_.
     bindR (checkR (res_kind event_resource = ''Event'')
              (creation_error ''event_resource must be a loaded Event Resource'')) (\<lambda>_.
     bindR (checkR (\<not> (ref_version (res_ref workflow) = ''latest'' \<or> ref_version (res_ref event_resource) = ''latest''))
              (creation_error ''WorkflowExecution requires explicit immutable Resource versions'')) (\<lambda>_.
     bindR (trigger_refs (mget (dget (res_data workflow) ''spec'') ''triggers'')) (\<lambda>refs.
     bindR (checkR (res_ref event_resource \<in> set refs)
              (creation_error ''event_resource is not a declared trigger of workflow'')) (\<lambda>_.
     let event_spec = dget (res_data event_resource) ''spec'' in
     checkR (is_mapping event_spec
             \<and> (\<forall>field \<in> set [''source'', ''type'']. py_eq (dget event field) (mget event_spec field)))
       (creation_error ''normalized Event does not match event_resource source and type''))))))"

definition validate_creation :: "environment \<Rightarrow> string \<Rightarrow> dict \<Rightarrow> exn + unit" where
  "validate_creation env schema_name r =
     validate_with (env_schema env schema_name) InvalidWorkflowExecutionInputError
       (''invalid '' @ py_str (dget_or r ''kind'' (JStr ''runtime object''))) (JObj r)"

section \<open>The records\<close>

definition creation_identity :: "string \<Rightarrow> resource_ref \<Rightarrow> string" where
  "creation_identity event_id workflow_ref = event_id @ '':'' @ format_ref workflow_ref"

definition creation_key :: "string \<Rightarrow> string" where
  "creation_key identity = ''workflow-execution:'' @ identity"

definition creation_id :: "environment \<Rightarrow> string \<Rightarrow> string" where
  "creation_id env identity = ''workflowexecution-'' @ env_uuid5 env (''workflow-execution:'' @ identity)"

definition execution_record ::
  "environment \<Rightarrow> resource_ref \<Rightarrow> resource_ref \<Rightarrow> string \<Rightarrow> string \<Rightarrow> string \<Rightarrow> string \<Rightarrow> dict" where
  "execution_record env workflow_ref event_ref event_id revision graph_version created_at =
     (let identity = creation_identity event_id workflow_ref in
      [(''apiVersion'', JStr ''aep.dev/v1alpha1''), (''kind'', JStr ''WorkflowExecution''),
       (''id'', JStr (creation_id env identity)),
       (''traceId'', JStr (''trace-'' @ env_uuid5 env (''workflow-trace:'' @ identity))),
       (''createdAt'', JStr created_at), (''updatedAt'', JStr created_at),
       (''provenance'', JObj [(''actor'', JStr ''workflow-controller''), (''repositoryRevision'', JStr revision),
          (''knowledgeGraphVersion'', JStr graph_version),
          (''resourceRefs'', JList [ref_record workflow_ref, ref_record event_ref])]),
       (''workflowRef'', ref_record workflow_ref), (''eventRef'', ref_record event_ref),
       (''eventId'', JStr event_id), (''repositoryRevision'', JStr revision),
       (''knowledgeGraphVersion'', JStr graph_version), (''status'', JStr ''RUNNING''),
       (''startedAt'', JStr created_at), (''taskExecutionIds'', JList [])])"

definition started_event_id :: "environment \<Rightarrow> string \<Rightarrow> string" where
  "started_event_id env execution_id =
     ''executionevent-'' @ env_uuid5 env (''execution-event:'' @ execution_id @ '':WorkflowExecutionStarted'')"

definition started_event :: "environment \<Rightarrow> dict \<Rightarrow> exn + dict" where
  "started_event env execution =
     bindR (getitem execution ''id'') (\<lambda>id_value.
     bindR (getitem execution ''createdAt'') (\<lambda>created.
     bindR (getitem execution ''traceId'') (\<lambda>trace.
     bindR (getitem execution ''repositoryRevision'') (\<lambda>revision.
     bindR (getitem execution ''knowledgeGraphVersion'') (\<lambda>graph_version.
     bindR (getitem execution ''provenance'') (\<lambda>provenance.
     bindR (bindR (py_dict provenance) (\<lambda>d. getitem d ''resourceRefs'')) (\<lambda>refs_value.
     bindR (py_iter refs_value) (\<lambda>refs.
     bindR (getitem execution ''status'') (\<lambda>status.
     bindR (getitem execution ''eventId'') (\<lambda>event_id.
     let execution_id = py_str id_value; timestamp = JStr (py_str created) in
     Inr [(''apiVersion'', JStr ''aep.dev/v1alpha1''), (''kind'', JStr ''ExecutionEvent''),
       (''id'', JStr (started_event_id env execution_id)), (''traceId'', trace),
       (''createdAt'', timestamp), (''updatedAt'', timestamp),
       (''provenance'', JObj [(''actor'', JStr ''workflow-controller''),
          (''workflowExecutionId'', JStr execution_id), (''repositoryRevision'', revision),
          (''knowledgeGraphVersion'', graph_version), (''resourceRefs'', JList refs)]),
       (''eventType'', JStr ''WorkflowExecutionStarted''),
       (''subject'', JObj [(''kind'', JStr ''WorkflowExecution''), (''id'', JStr execution_id)]),
       (''sequence'', JInt 1), (''emittedAt'', timestamp),
       (''payload'', JObj [(''status'', status), (''eventId'', event_id)])]))))))))))"

definition creation_record :: "environment \<Rightarrow> creation_input \<Rightarrow> string \<Rightarrow> string \<Rightarrow> string \<Rightarrow> string \<Rightarrow> dict" where
  "creation_record env ci event_id revision graph_version created_at =
     execution_record env (res_ref (ci_workflow ci)) (res_ref (ci_event_resource ci)) event_id revision
       graph_version created_at
     @ (if ci_budget ci = JNull then [] else [(''budgetOverrides'', ci_budget ci)])"

text \<open>Everything before the store: the checked inputs give the record, its event and the key.\<close>

definition creation_records :: "environment \<Rightarrow> creation_input \<Rightarrow> exn + dict \<times> dict \<times> string" where
  "creation_records env ci =
     (let event = ci_event ci in
      bindR (required_string event ''id'') (\<lambda>event_id.
      bindR (required_string event ''deduplicationKey'') (\<lambda>_.
      bindR (validate_resource_pair event (ci_workflow ci) (ci_event_resource ci)) (\<lambda>_.
      bindR (required_value (ci_revision ci) ''repository_revision'') (\<lambda>revision.
      bindR (required_value (ci_graph_version ci) ''knowledge_graph_version'') (\<lambda>graph_version.
      bindR (required_value (ci_timestamp ci) ''timestamp'') (\<lambda>created_at.
      bindR (checkR (ci_budget ci = JNull \<or> is_mapping (ci_budget ci) \<and> as_dict (ci_budget ci) \<noteq> [])
               (creation_error ''budget_overrides must be a non-empty object'')) (\<lambda>_.
      let r = creation_record env ci event_id revision graph_version created_at in
      bindR (started_event env r) (\<lambda>creation_event.
      bindR (validate_creation env ''workflowexecution.schema.json'' r) (\<lambda>_.
      bindR (validate_creation env ''executionevent.schema.json'' creation_event) (\<lambda>_.
      Inr (r, creation_event, creation_key (creation_identity event_id (res_ref (ci_workflow ci)))))))))))))))"

definition create_execution :: "'s creator \<Rightarrow> creation_input \<Rightarrow> ('s, dict) eff" where
  "create_execution cr ci =
     bindE (liftR (creation_records (cr_env cr) ci)) (\<lambda>(r, creation_event, key).
     bindE (op_create (cr_store cr) (JObj r) key) (\<lambda>execution.
     bindE (if \<not> py_eq (JObj execution) (JObj r)
            then bindE (liftR (started_event (cr_env cr) execution)) (\<lambda>event.
                 thenE (liftR (validate_creation (cr_env cr) ''executionevent.schema.json'' event)) (ret event))
            else ret creation_event) (\<lambda>event.
     thenE (op_append_event (cr_store cr) (JObj event))
     (thenE (case cr_logger cr of None \<Rightarrow> ret ()
             | Some sink \<Rightarrow> bindE (liftR (getitem execution ''createdAt'')) (\<lambda>created.
                 thenE (emit_lifecycle sink ''WorkflowExecutionStarted'' ''workflow-controller'' execution (py_str created))
                   (ret ())))
      (ret execution)))))"

section \<open>Creation is idempotent\<close>

lemma started_event_Inr:
  assumes "started_event env execution = Inr event" "dget execution ''id'' = JStr oid"
  shows "dget event ''id'' = JStr (started_event_id env oid)
    \<and> copy_and_validate (JObj event) = Inr event \<and> dget event ''kind'' = JStr ''ExecutionEvent''
    \<and> dget event ''subject'' = JObj [(''kind'', JStr ''WorkflowExecution''), (''id'', JStr oid)]"
  using assms
  by (auto simp: started_event_def bindR_eq_Inr Let_def dget_Cons copy_and_validate_def nonempty_str_def
      started_event_id_def dest!: getitem_Inr)

lemma execution_record_fields:
  assumes r_def: "r = creation_record env ci i rv g ts"
  shows "dget r ''id'' = JStr (creation_id env (creation_identity i (res_ref (ci_workflow ci))))" "dget r ''kind'' = JStr ''WorkflowExecution''"
    "dget r ''status'' = JStr ''RUNNING''" "copy_and_validate (JObj r) = Inr r"
  by (simp_all add: r_def creation_record_def execution_record_def Let_def dget_Cons copy_and_validate_def nonempty_str_def creation_id_def)

lemma creation_records_Inr:
  assumes "creation_records env ci = Inr (r, e, key)"
  shows "copy_and_validate (JObj r) = Inr r \<and> started_event env r = Inr e
    \<and> validate_creation env ''executionevent.schema.json'' e = Inr ()
    \<and> (\<exists>identity. key = creation_key identity \<and> dget r ''id'' = JStr (creation_id env identity))
    \<and> dget r ''kind'' = JStr ''WorkflowExecution'' \<and> dget r ''status'' = JStr ''RUNNING''"
proof -
  obtain event_id revision graph_version created_at where
    r: "r = creation_record env ci event_id revision graph_version created_at"
    and e: "started_event env r = Inr e" "validate_creation env ''executionevent.schema.json'' e = Inr ()"
    and key: "key = creation_key (creation_identity event_id (res_ref (ci_workflow ci)))"
    using assms by (auto simp: creation_records_def bindR_eq_Inr Let_def)
  show ?thesis
    using e key execution_record_fields[OF r] by blast
qed

lemma mem_append_event_found:
  assumes "dget event ''id'' = JStr eid" "copy_and_validate (JObj event) = Inr event"
    "dget event ''kind'' = JStr ''ExecutionEvent''"
    and "map_of (deterministic_keys s) (''execution-event:'' @ eid) = Some oid" "map_of (objects s) oid = Some v"
  shows "mem_append_event (JObj event) s = (Inr v, s)"
  using assms by (simp add: mem_append_event_def eff_simps mem_create_found)

text \<open>
  Where the execution and its event are on record under their keys, a creation for the same
  identity returns the execution and changes nothing.
\<close>

lemma create_execution_found:
  assumes p: "creation_records (cr_env cr) ci = Inr (r, e, key)"
    and cr: "cr_store cr = in_memory_store wall" "cr_logger cr = None"
    and v: "map_of (deterministic_keys s) key = Some oid" "map_of (objects s) oid = Some v" "dget v ''id'' = JStr oid"
    and ev: "map_of (deterministic_keys s) (''execution-event:'' @ started_event_id (cr_env cr) oid) = Some eid"
      "map_of (objects s) eid = Some w"
    and again: "\<not> py_eq (JObj v) (JObj r) \<Longrightarrow> \<exists>event. started_event (cr_env cr) v = Inr event
      \<and> validate_creation (cr_env cr) ''executionevent.schema.json'' event = Inr ()"
  shows "create_execution cr ci s = (Inr v, s)"
proof -
  note rec = creation_records_Inr[OF p]
  have c: "mem_create (JObj r) key s = (Inr v, s)"
    using rec v by (auto intro!: mem_create_found simp: creation_key_def)
  have found: "mem_append_event (JObj event) s = (Inr w, s)"
    if "started_event (cr_env cr) x = Inr event" "dget x ''id'' = JStr oid" for x event
    using started_event_Inr[OF that] ev by (intro mem_append_event_found) auto
  show ?thesis
  proof (cases "py_eq (JObj v) (JObj r)")
    case True
    then have "mem_append_event (JObj e) s = (Inr w, s)"
      using found[of r e] rec py_eq_field[OF True v(3)] by simp
    with True show ?thesis
      by (simp del: py_eq.simps add: create_execution_def p cr in_memory_store_def eff_simps c)
  next
    case False
    with again obtain event where "started_event (cr_env cr) v = Inr event"
      "validate_creation (cr_env cr) ''executionevent.schema.json'' event = Inr ()" by blast
    with False found[OF this(1) v(3)] show ?thesis
      by (simp del: py_eq.simps add: create_execution_def p cr in_memory_store_def eff_simps c)
  qed
qed

text \<open>What a creation leaves on record.\<close>

lemma create_execution_Inr:
  assumes run: "create_execution cr ci s = (Inr v, t)" and ok: "store_ok s"
    and cr: "cr_store cr = in_memory_store wall" "cr_logger cr = None"
    and p: "creation_records (cr_env cr) ci = Inr (r, e, key)"
  shows "\<exists>oid eid w. map_of (deterministic_keys t) key = Some oid \<and> map_of (objects t) oid = Some v
    \<and> dget v ''id'' = JStr oid
    \<and> map_of (deterministic_keys t) (''execution-event:'' @ started_event_id (cr_env cr) oid) = Some eid
    \<and> map_of (objects t) eid = Some w
    \<and> (py_eq (JObj v) (JObj r) \<or> (\<exists>event. started_event (cr_env cr) v = Inr event
          \<and> validate_creation (cr_env cr) ''executionevent.schema.json'' event = Inr ()))"
proof -
  note rec = creation_records_Inr[OF p]
  obtain t1 event w where c: "mem_create (JObj r) key s = (Inr v, t1)"
    and e: "mem_append_event (JObj event) t1 = (Inr w, t)"
    and choice: "py_eq (JObj v) (JObj r) \<and> event = e
        \<or> started_event (cr_env cr) v = Inr event
          \<and> validate_creation (cr_env cr) ''executionevent.schema.json'' event = Inr ()"
    using run cr p
    by (auto simp del: py_eq.simps simp: create_execution_def success_iffs in_memory_store_def split: if_splits)
  obtain oid where oid: "map_of (deterministic_keys t1) key = Some oid" "map_of (objects t1) oid = Some v"
    using mem_create_keyed[OF c] by blast
  have "store_ok t1"
    using ok keepsD[OF store_wf.mem_create[of "JObj r" key] c] by blast
  then have id: "dget v ''id'' = JStr oid" using store_okD(2) oid(2) by blast
  have "started_event (cr_env cr) r = Inr e" using rec by blast
  with choice obtain x where x: "started_event (cr_env cr) x = Inr event" "dget x ''id'' = JStr oid"
    using py_eq_field[OF _ id] id by blast
  note ev = started_event_Inr[OF x]
  from e ev have m: "mem_create (JObj event) (''execution-event:'' @ started_event_id (cr_env cr) oid) t1 = (Inr w, t)"
    by (simp add: mem_append_event_def eff_simps)
  from mem_create_keyed[OF m] mem_create_keeps_keyed[OF m oid] id choice show ?thesis by blast
qed

lemma create_execution_twice:
  assumes run: "create_execution cr ci s = (Inr v, t)" and ok: "store_ok s"
    and cr: "cr_store cr = in_memory_store wall" "cr_logger cr = None"
    and p: "creation_records (cr_env cr) ci = Inr (r, e, key)" "creation_records (cr_env cr) ci' = Inr (r', e', key)"
    and fresh: "map_of (deterministic_keys s) key = None"
  shows "v = r \<and> create_execution cr ci' t = (Inr v, t)"
proof -
  note rec = creation_records_Inr[OF p(1)]
  have "v = r"
    using run cr p(1) rec fresh
    by (auto simp del: py_eq.simps simp: create_execution_def success_iffs in_memory_store_def mem_create_def Let_def
        split: if_splits)
  moreover obtain oid eid w where
    "map_of (deterministic_keys t) key = Some oid" "map_of (objects t) oid = Some v" "dget v ''id'' = JStr oid"
    "map_of (deterministic_keys t) (''execution-event:'' @ started_event_id (cr_env cr) oid) = Some eid"
    "map_of (objects t) eid = Some w"
    using create_execution_Inr[OF run ok cr p(1)] by blast
  ultimately show ?thesis
    using create_execution_found[OF p(2) cr] rec by blast
qed

end
