(* ===== verification/Governance.thy ===== *)
theory Governance
  imports Samples ToolRuntime CapabilityPolicy ModelRateLimits WorkflowCreation
begin

text \<open>
  The properties of what is decided before work is dispatched: which resources and schemas are
  accepted, which workflow an event starts, which budget and which rate a task runs under, and
  whether a tool may be called; with the concrete inputs their examples use.
\<close>

section \<open>Resources and schemas\<close>

text \<open>C27. An output schema is accepted for the provider exactly when its root is an object schema
  without \<open>anyOf\<close>, the meta-schema accepts it, and every subschema below it is in the strict
  subset: known keywords, no type unions, local references, closed objects.\<close>

theorem provider_schema_accepts:
  "validate_openai_strict_schema check schema = Inr () \<longleftrightarrow>
     mget schema ''type'' = JStr ''object'' \<and> is_mapping schema \<and> check schema = None
     \<and> \<not> dhas (as_dict schema) ''anyOf''
     \<and> strict_below (dget_or (as_dict schema) ''$defs'' (JObj [])) schema"
  by (rule validate_openai_strict_schema_iff)

definition sample_loader :: loader where
  "sample_loader = \<lparr>le_root = ''r'', le_text = (\<lambda>p. p),
     le_json = (\<lambda>t. Inr (JObj
       (if t = ''r/.ai/workspace.yaml''
        then [(''kind'', JStr ''Workspace''),
              (''metadata'', JObj [(''name'', JStr ''ws''), (''version'', JStr ''1.0.0'')])]
        else if t = ''t.yaml''
        then [(''kind'', JStr ''Task''),
              (''metadata'', JObj [(''name'', JStr ''t''), (''version'', JStr ''1.0.0'')]),
              (''spec'', JObj [(''budget'', JObj [(''maxModelInvocations'', JInt 2)])])]
        else [(''kind'', JStr ''Workflow''),
              (''metadata'', JObj [(''name'', JStr ''w''), (''version'', JStr ''1.0.0'')]),
              (''spec'', JObj [(''budget'', JObj [(''maxModelInvocations'', JInt 3)]),
                 (''tasks'', JList [JObj [(''taskRef'', ref_record (ResourceRef ''Task'' ''t'' ''1.0.0''))]])])]))),
     le_yaml = None, le_validators = (\<lambda>k. Some (\<lambda>v. []))\<rparr>"

definition sample_directory :: "string \<Rightarrow> string list option" where
  "sample_directory d = (if d = ''tasks'' then Some [''t.yaml''] else if d = ''workflows'' then Some [''w.yaml'']
     else None)"

text \<open>C28. A repository that loads gives a sound collection: ordered, one resource per reference, every
  version pinned, every reference resolved in the collection, and every task a workflow runs
  within the workflow's budget.\<close>

theorem loaded_collection_sound:
  assumes "loader_load le workspace directory check = Inr c"
  shows "collection_ok c \<and> col_workspace c \<in> set (col_resources c)"
  by (rule loader_load_ok[OF assms])

theorem loaded_collection_sound_witness:
  "\<exists>c. loader_load sample_loader True sample_directory (\<lambda>j. None) = Inr c \<and> collection_ok c
     \<and> col_workspace c \<in> set (col_resources c)"
proof -
  have "\<not> isl (loader_load sample_loader True sample_directory (\<lambda>j. None))" by code_simp
  then obtain c where "loader_load sample_loader True sample_directory (\<lambda>j. None) = Inr c"
    by (cases "loader_load sample_loader True sample_directory (\<lambda>j. None)") auto
  with loaded_collection_sound[OF this] show ?thesis by blast
qed

section \<open>From an event to an execution\<close>

text \<open>C29. A resolution that returns gives, in the order of the collection, exactly the workflows one of
  whose triggers leads to an event resource declaring the event's source and type; more than
  one only where the caller allows fan-out.\<close>

theorem resolution_exact:
  assumes "resolve_workflow_for_event event resources fan = Inr refs"
  shows "\<exists>source event_type. event_field (as_dict event) ''source'' = Inr source
    \<and> event_field (as_dict event) ''type'' = Inr event_type
    \<and> refs = map res_ref (filter (starts_on resources (source, event_type)) (by_kind resources ''Workflow''))
    \<and> (fan \<or> length refs \<le> 1)"
  by (rule resolution_Inr[OF assms])

definition event_ref_sample :: "string \<Rightarrow> resource_ref" where
  "event_ref_sample n = ResourceRef ''Event'' n ''1.0.0''"

definition event_sample :: "string \<Rightarrow> resource" where
  "event_sample n = sample_resource (event_ref_sample n)
     [(''spec'', JObj [(''source'', JStr ''github''), (''type'', JStr n)])]"

definition workflow_sample :: "string \<Rightarrow> string list \<Rightarrow> resource" where
  "workflow_sample n events = sample_resource (ResourceRef ''Workflow'' n ''1.0.0'')
     [(''spec'', JObj [(''triggers'',
        JList (map (\<lambda>e. JObj [(''eventRef'', ref_record (event_ref_sample e))]) events))])]"

definition trigger_collection :: collection where
  "trigger_collection = \<lparr>col_workspace = sample_graph [],
     col_resources = [workflow_sample ''a'' [''opened'', ''closed''], workflow_sample ''b'' [''closed''],
       event_sample ''opened'', event_sample ''closed'']\<rparr>"

definition opened_event :: dict where
  "opened_event = [(''id'', JStr ''e1''), (''deduplicationKey'', JStr ''k''), (''source'', JStr ''github''),
     (''type'', JStr ''opened'')]"

theorem resolution_exact_witness:
  "[ResourceRef ''Workflow'' ''a'' ''1.0.0'']
     = map res_ref (filter (starts_on trigger_collection (''github'', ''opened'')) (by_kind trigger_collection ''Workflow''))"
proof -
  have "resolve_workflow_for_event (JObj opened_event) trigger_collection False
      = Inr [ResourceRef ''Workflow'' ''a'' ''1.0.0'']"
    "event_field (as_dict (JObj opened_event)) ''source'' = Inr ''github''"
    "event_field (as_dict (JObj opened_event)) ''type'' = Inr ''opened''"
    by code_simp+
  with resolution_exact[OF this(1)] show ?thesis by auto
qed

text \<open>The first creation for an event and a workflow version stores its record and returns it; every
  later creation for the same pair, with whatever revision and at whatever time, returns that
  execution and leaves the store as it is.\<close>

theorem creation_once:
  assumes "create_execution cr ci s = (Inr v, t)" "store_ok s"
    and "cr_store cr = in_memory_store wall" "cr_logger cr = None"
    and "creation_records (cr_env cr) ci = Inr (r, e, key)" "creation_records (cr_env cr) ci' = Inr (r', e', key)"
    and "map_of (deterministic_keys s) key = None"
  shows "v = r \<and> create_execution cr ci' t = (Inr v, t)"
  by (rule create_execution_twice[OF assms])

definition sample_creator :: "store creator" where
  "sample_creator = \<lparr>cr_store = in_memory_store [], cr_logger = None, cr_env = sample_env\<rparr>"

definition sample_creation :: "string \<Rightarrow> creation_input" where
  "sample_creation revision = \<lparr>ci_event = opened_event, ci_workflow = workflow_sample ''a'' [''opened''],
     ci_event_resource = event_sample ''opened'', ci_revision = JStr revision, ci_graph_version = JStr ''g'',
     ci_timestamp = JStr ''now'', ci_budget = JNull\<rparr>"

theorem creation_once_witness:
  "\<exists>v t. create_execution sample_creator (sample_creation ''r1'') empty_store = (Inr v, t)
     \<and> create_execution sample_creator (sample_creation ''r2'') t = (Inr v, t)"
proof -
  let ?c = "create_execution sample_creator (sample_creation ''r1'') empty_store"
  let ?p = "\<lambda>r. creation_records sample_env (sample_creation r)"
  have "\<not> isl (fst ?c)" "\<not> isl (?p ''r1'')" "\<not> isl (?p ''r2'')"
    "snd (snd (projr (?p ''r1''))) = snd (snd (projr (?p ''r2'')))" by code_simp+
  moreover from returns[OF this(1)] obtain v t where c: "?c = (Inr v, t)" by blast
  ultimately obtain r e r' e' key where "?p ''r1'' = Inr (r, e, key)" "?p ''r2'' = Inr (r', e', key)"
    by (cases "?p ''r1''"; cases "?p ''r2''") auto
  with creation_once[OF c store_ok_empty, of "[]" r e key "sample_creation ''r2''" r' e'] c show ?thesis
    by (auto simp: sample_creator_def empty_store_def)
qed

section \<open>Budgets and rates\<close>

text \<open>C31. A resolved budget has, for every field and scope, the smallest of the values declared for it by
  the workflow, the execution and the task or agent, or none where none is declared; and no
  scope declares more than a scope above it.\<close>

theorem resolved_budget_tightest:
  assumes "resolve_execution_budget w t a e wr tr ar tokens pricing = Inr rb" and "field \<in> set budget_fields"
  shows "tightest [mget w field, mget e field] (limit_of (rb_workflow rb) field)
    \<and> tightest [mget w field, mget e field, mget t field] (limit_of (rb_task rb) field)
    \<and> tightest [mget w field, mget e field, mget a field] (limit_of (rb_agent rb) field)
    \<and> narrows w t \<and> narrows w e \<and> narrows w a \<and> narrows t a"
  using resolve_execution_budget_Inr[OF assms] by blast

theorem resolved_budget_tightest_witness:
  "\<exists>rb. resolve_execution_budget (JObj [(''maxInputTokens'', JInt 9)]) (JObj [(''maxInputTokens'', JInt 7)]) JNull
       (JObj [(''maxInputTokens'', JInt 8)]) JNull JNull JNull JNull JNull = Inr rb
     \<and> tightest [JInt 9, JInt 8, JInt 7] (limit_of (rb_task rb) ''maxInputTokens'')"
proof -
  let ?r = "resolve_execution_budget (JObj [(''maxInputTokens'', JInt 9)]) (JObj [(''maxInputTokens'', JInt 7)]) JNull
      (JObj [(''maxInputTokens'', JInt 8)]) JNull JNull JNull JNull JNull"
  have "\<not> isl ?r" by code_simp
  then obtain rb where "?r = Inr rb" by (cases ?r) auto
  with resolved_budget_tightest[OF this, of "''maxInputTokens''"] show ?thesis
    by (simp add: budget_fields_def mget_def dget_Cons)
qed


definition sample_coordinator :: coordinator where
  "sample_coordinator = \<lparr>co_requests = 60, co_tokens = 60, co_has_path = False, co_file = None, co_faults = [],
     co_parse = (\<lambda>s. None), co_next_request = zero, co_next_token = zero, co_blocked = zero,
     co_restored = False, co_latest = 0\<rparr>"

lemma float_values: "mk_float 0 = Finite 0" "mk_float 1 = Finite 1" "mk_float 2 = Finite 2" "mk_float 6 = Finite 6"
  "mk_float 8 = Finite 8" "mk_float 2000 = Finite 2000"
  by code_simp+

lemmas coordinator_eval = admit_def observe_throttle_def restore_def persist_def reserve_def delay_ms_def
  token_demand_def eligible_def int_truediv_def fp_sub_def fp_max_def slot_taken_def Let_def float_values eff_simps


section \<open>Tool calls\<close>

text \<open>C33. The decision a policy evaluation records is the strictest effect of all the rules, of all the
  applicable policies, that name the capability and whose conditions hold; without such a rule
  it is a denial.\<close>

theorem decision_strictest:
  assumes "policy_evaluation env se did te capability actor scope ctx policies arg now = Inr (entry, key)"
  shows "dget entry ''decision'' = JStr (decision_value (strictest
      (applicable_effects se capability (policy_input_record capability actor scope ctx) policies)))
    \<and> dget entry ''action'' = JStr capability \<and> dget entry ''subject'' = JStr actor
    \<and> dget entry ''taskExecutionId'' = JStr te \<and> dget entry ''id'' = JStr did"
  by (rule policy_evaluation_strictest[OF assms])

definition sample_policy :: "string \<Rightarrow> applicable_policy" where
  "sample_policy effect = \<lparr>ap_scope = WORKSPACE, ap_resource =
     [(''apiVersion'', JStr ''aep.dev/v1alpha1''), (''kind'', JStr ''Policy''),
      (''metadata'', JObj [(''name'', JStr ''p''), (''version'', JStr ''1.0.0'')]),
      (''spec'', JObj [(''type'', JStr ''pre-execution-capability''),
         (''rules'', JList [JObj [(''effect'', JStr effect), (''capabilities'', JList [JStr ''git.read''])]])])]\<rparr>"

definition sample_correlation :: correlation where
  "sample_correlation = \<lparr>cor_trace = ''tr'', cor_workflow = ''w'', cor_task = Some ''t''\<rparr>"

definition sample_engine :: schema_engine where
  "sample_engine = \<lparr>se_check = (\<lambda>j. None), se_valid = (\<lambda>s v. True)\<rparr>"

theorem decision_strictest_witness:
  "strictest (applicable_effects sample_engine ''git.read''
     (policy_input_record ''git.read'' ''me'' [] []) [sample_policy ''deny'', sample_policy ''allow'']) = DENY"
proof -
  let ?p = "policy_evaluation sample_env sample_engine ''d'' ''t'' ''git.read'' ''me'' [] []
      [sample_policy ''deny'', sample_policy ''allow''] (Context sample_correlation) ''now''"
  have "\<not> isl ?p" "dget (fst (projr ?p)) ''decision'' = JStr ''DENY''" by code_simp+
  then obtain entry key where p: "?p = Inr (entry, key)" and d: "dget entry ''decision'' = JStr ''DENY''"
    by (cases ?p) auto
  let ?s = "strictest (applicable_effects sample_engine ''git.read''
     (policy_input_record ''git.read'' ''me'' [] []) [sample_policy ''deny'', sample_policy ''allow''])"
  from decision_strictest[OF p] d have "decision_value ?s = ''DENY''" by simp
  then show ?thesis by (cases ?s) simp_all
qed


definition sample_tool_request :: tool_request where
  "sample_tool_request = \<lparr>tq_ref = [(''kind'', JStr ''Tool''), (''name'', JStr ''git''), (''version'', JStr ''1.0.0'')],
     tq_input = [], tq_caller = \<lparr>caller_kind = ''TaskExecution'', caller_id = ''t''\<rparr>,
     tq_capabilities = [''git.read''], tq_timeout = 10, tq_correlation = sample_correlation\<rparr>"

definition sample_adapter :: fake_adapter where
  "sample_adapter = \<lparr>fa_outcomes = [Gives StillRunning, Gives StillRunning], fa_requests = [], fa_executions = []\<rparr>"

definition sample_hook :: "string \<Rightarrow> tool_request \<Rightarrow> (store, bool) eff" where
  "sample_hook effect = tool_authorization_boundary sample_env sample_engine (in_memory_store []) ''t'' [] []
     [sample_policy effect] ''now''"

definition free_validator :: tool_validator where
  "free_validator = \<lparr>tv_input = (\<lambda>j. Inr ()), tv_output = (\<lambda>j. Inr ())\<rparr>"


end
