(* ===== verification/PyDecimal.thy ===== *)
theory PyDecimal
  imports PyNumber
begin

text \<open>
  Decimal arithmetic of the \<open>decimal\<close> module in its default context: a decimal is its value,
  every operation rounds to 28 significant digits, ties to even, and \<open>quantize\<close> refuses a result
  of more digits.  Decimals are made from the text of a number; the decimals of the non-finite
  floats, which every later operation of the code refuses, are refused here already.
\<close>

definition invalid_operation :: exn where
  "invalid_operation = Exn InvalidOperation ''decimal.InvalidOperation'' JNull"

definition dec_round :: "rat \<Rightarrow> rat" where
  "dec_round r =
     (if r = 0 then 0
      else let e = floor_log 10 \<bar>r\<bar> - 27 in of_int (round_half_even (r / 10 powi e)) * 10 powi e)"

text \<open>The value of the shortest text of a float.\<close>

definition float_decimal :: "rat \<Rightarrow> rat" where
  "float_decimal r =
     (if r = 0 then 0
      else let (m, k) = shortest_digits \<bar>r\<bar>; d = of_int m * 10 powi k in if r < 0 then - d else d)"

fun py_decimal :: "json \<Rightarrow> exn + rat" where
  "py_decimal (JInt i) = Inr (of_int i)"
| "py_decimal (JFloat (Finite r)) = Inr (float_decimal r)"
| "py_decimal v = Inl invalid_operation"

definition quantize12 :: "rat \<Rightarrow> exn + rat" where
  "quantize12 r =
     (let n = round_half_even (r * 10 ^ 12) in
      if 10 ^ 28 \<le> \<bar>n\<bar> then Inl invalid_operation else Inr (of_int n / 10 ^ 12))"

text \<open>\<open>round(x, 12)\<close> on a float, \<open>int(x)\<close>, and a float divided or multiplied by an integer.\<close>

fun py_round12 :: "pyfloat \<Rightarrow> pyfloat" where
  "py_round12 (Finite r) = mk_float (of_int (round_half_even (r * 10 ^ 12)) / 10 ^ 12)"
| "py_round12 x = x"

fun py_trunc :: "pyfloat \<Rightarrow> exn + int" where
  "py_trunc (Finite r) = Inr (if 0 \<le> r then \<lfloor>r\<rfloor> else \<lceil>r\<rceil>)"
| "py_trunc NaN = Inl (value_error ''cannot convert float NaN to integer'')"
| "py_trunc x = Inl (Exn OverflowError ''cannot convert float infinity to integer'' JNull)"

definition int_float :: "int \<Rightarrow> exn + rat" where
  "int_float n = (case mk_float (of_int n) of
      Finite d \<Rightarrow> Inr d | _ \<Rightarrow> Inl (Exn OverflowError ''int too large to convert to float'' JNull))"

definition fp_div_int :: "pyfloat \<Rightarrow> int \<Rightarrow> exn + pyfloat" where
  "fp_div_int x n =
     bindR (int_float n) (\<lambda>d.
     if d = 0 then Inl (Exn ZeroDivisionError ''float division by zero'' JNull) else Inr (fp_scale (1 / d) x))"

definition fp_mult_int :: "pyfloat \<Rightarrow> int \<Rightarrow> exn + pyfloat" where
  "fp_mult_int x n = bindR (int_float n) (\<lambda>d. Inr (fp_scale d x))"

text \<open>A number as an operand of float arithmetic; a text is no operand.\<close>

definition num_float :: "json \<Rightarrow> exn + pyfloat" where
  "num_float v =
     (if is_str v then Inl (type_error ''unsupported operand type(s)'') else py_float (\<lambda>_. None) v)"

end
