(* ===== verification/BudgetLedger.thy ===== *)
theory BudgetLedger
  imports PyDecimal Resources StoreInterface CanonicalText
begin

text \<open>
  The durable ledger of \<open>execution_budgets.py\<close>: what a workflow, a task and an agent have consumed
  and hold in reservation, the reservation of a model invocation before its dispatch, its
  reconciliation and its release.  A ledger entry has its counters as integers and its costs as
  floats, the other keys in a dictionary; an entry whose counters are of other types, which this
  code never writes, is refused when it is read.
\<close>

section \<open>Costs\<close>

definition normalized_cost :: "pyfloat \<Rightarrow> exn + pyfloat" where
  "normalized_cost value =
     bindR (py_decimal (JFloat value)) (\<lambda>d. bindR (quantize12 d) (\<lambda>q. Inr (mk_float q)))"

definition cost_total :: "json list \<Rightarrow> exn + pyfloat" where
  "cost_total values =
     bindR (mapR py_decimal values) (\<lambda>ds.
     bindR (quantize12 (foldl (\<lambda>t d. dec_round (t + d)) 0 ds)) (\<lambda>q. Inr (mk_float q)))"

definition cost_exceeds :: "pyfloat \<Rightarrow> json \<Rightarrow> exn + bool" where
  "cost_exceeds amount limit =
     bindR (py_decimal (JFloat amount)) (\<lambda>a. bindR (py_decimal limit) (\<lambda>b. Inr (b < a)))"

definition cost_floor_div :: "pyfloat \<Rightarrow> pyfloat \<Rightarrow> exn + int" where
  "cost_floor_div remaining per_attempt =
     bindR (py_decimal (JFloat per_attempt)) (\<lambda>denominator.
     if denominator \<le> 0 then Inr 0
     else bindR (py_decimal (JFloat remaining)) (\<lambda>d. Inr \<lfloor>dec_round (d / denominator)\<rfloor>))"

definition price :: "dict \<Rightarrow> string \<Rightarrow> exn + rat" where
  "price pricing field = bindR (getitem pricing field) py_decimal"

definition estimate_cost :: "dict \<Rightarrow> int \<Rightarrow> int \<Rightarrow> exn + pyfloat" where
  "estimate_cost pricing input_tokens output_tokens =
     bindR (price pricing ''inputPerMillionTokens'') (\<lambda>p.
     bindR (price pricing ''outputPerMillionTokens'') (\<lambda>q.
     bindR (quantize12 (dec_round (dec_round (dec_round (of_int input_tokens * p)
              + dec_round (of_int output_tokens * q)) / 1000000))) (\<lambda>q.
     Inr (mk_float q))))"

definition cost_statuses :: "string list" where
  "cost_statuses = [''EXACT'', ''CONFIGURED'', ''ESTIMATED'', ''UNAVAILABLE'', ''MIXED'']"

text \<open>The status and the amount of what an invocation cost.\<close>

definition cost_evidence ::
  "pyfloat option \<Rightarrow> string option \<Rightarrow> dict option \<Rightarrow> int \<Rightarrow> int \<Rightarrow> exn + string \<times> pyfloat option" where
  "cost_evidence cost cost_status pricing input_tokens output_tokens =
     (let estimated = (\<lambda>status. case pricing of
            Some p \<Rightarrow> if input_tokens \<noteq> 0 \<or> output_tokens \<noteq> 0
                      then bindR (estimate_cost p input_tokens output_tokens) (\<lambda>c. Inr (status, Some c))
                      else Inr (''UNAVAILABLE'', None)
          | None \<Rightarrow> Inr (''UNAVAILABLE'', None)) in
      bindR (checkR (case cost_status of None \<Rightarrow> True | Some s \<Rightarrow> s \<in> set cost_statuses)
        (budget_error ''cost_status is not a supported cost classification'')) (\<lambda>_.
      case cost of
        Some c \<Rightarrow>
          bindR (checkR (case c of Finite r \<Rightarrow> 0 \<le> r | _ \<Rightarrow> False)
            (budget_error ''cost must be a non-negative finite number'')) (\<lambda>_.
          Inr (case cost_status of None \<Rightarrow> ''EXACT'' | Some s \<Rightarrow> s, Some c))
      | None \<Rightarrow>
          if cost_status = Some ''ESTIMATED'' \<or> cost_status = Some ''CONFIGURED''
          then estimated (the cost_status) else estimated ''ESTIMATED''))"

section \<open>Ledger entries\<close>

record consumption =
  cn_invocations :: int
  cn_input :: int
  cn_output :: int
  cn_held_invocations :: int
  cn_held_input :: int
  cn_held_output :: int
  cn_elapsed :: int
  cn_cost :: pyfloat
  cn_held_cost :: pyfloat
  cn_rest :: dict

definition counter_keys :: "string list" where
  "counter_keys = [''modelInvocations'', ''inputTokens'', ''outputTokens'', ''reservedModelInvocations'',
     ''reservedInputTokens'', ''reservedOutputTokens'', ''elapsedMs'', ''costUsd'', ''reservedCostUsd'']"

definition read_counter :: "dict \<Rightarrow> string \<Rightarrow> exn + int" where
  "read_counter d key =
     (case map_of d key of None \<Rightarrow> Inr 0 | Some (JInt n) \<Rightarrow> Inr n
      | Some _ \<Rightarrow> Inl (type_error (''ledger counter '' @ key)))"

definition read_cost :: "dict \<Rightarrow> string \<Rightarrow> exn + pyfloat" where
  "read_cost d key =
     (case map_of d key of None \<Rightarrow> Inr (Finite 0) | Some (JFloat f) \<Rightarrow> Inr f
      | Some _ \<Rightarrow> Inl (type_error (''ledger cost '' @ key)))"

definition rest_defaults :: "string \<Rightarrow> string \<Rightarrow> string \<Rightarrow> dict" where
  "rest_defaults started_at provider model =
     [(''costStatus'', JStr ''UNAVAILABLE''), (''costStatusCounts'', JObj []), (''startedAt'', JStr started_at),
      (''updatedAt'', JStr started_at), (''lastProvider'', JStr provider), (''lastModel'', JStr model),
      (''overrun'', JBool False), (''blockedReason'', JNull)]"

definition consumption_record :: "json \<Rightarrow> string \<Rightarrow> string \<Rightarrow> string \<Rightarrow> exn + consumption" where
  "consumption_record value started_at provider model =
     (let d = if is_mapping value then as_dict value else [] in
      bindR (read_counter d ''modelInvocations'') (\<lambda>invocations.
      bindR (read_counter d ''inputTokens'') (\<lambda>inp.
      bindR (read_counter d ''outputTokens'') (\<lambda>out.
      bindR (read_counter d ''reservedModelInvocations'') (\<lambda>held_invocations.
      bindR (read_counter d ''reservedInputTokens'') (\<lambda>held_input.
      bindR (read_counter d ''reservedOutputTokens'') (\<lambda>held_output.
      bindR (read_counter d ''elapsedMs'') (\<lambda>elapsed.
      bindR (read_cost d ''costUsd'') (\<lambda>cost.
      bindR (read_cost d ''reservedCostUsd'') (\<lambda>held_cost.
      Inr \<lparr>cn_invocations = invocations, cn_input = inp, cn_output = out,
           cn_held_invocations = held_invocations, cn_held_input = held_input, cn_held_output = held_output,
           cn_elapsed = elapsed, cn_cost = cost, cn_held_cost = held_cost,
           cn_rest = foldl (\<lambda>r (k, v). dsetdefault k v r) (filter (\<lambda>(k, v). k \<notin> set counter_keys) d)
                       (rest_defaults started_at provider model)\<rparr>))))))))))"

definition consumption_dict :: "consumption \<Rightarrow> dict" where
  "consumption_dict c =
     [(''modelInvocations'', JInt (cn_invocations c)), (''inputTokens'', JInt (cn_input c)),
      (''outputTokens'', JInt (cn_output c)), (''reservedModelInvocations'', JInt (cn_held_invocations c)),
      (''reservedInputTokens'', JInt (cn_held_input c)), (''reservedOutputTokens'', JInt (cn_held_output c)),
      (''elapsedMs'', JInt (cn_elapsed c)), (''costUsd'', JFloat (cn_cost c)),
      (''reservedCostUsd'', JFloat (cn_held_cost c))] @ cn_rest c"

abbreviation put_rest :: "string \<Rightarrow> json \<Rightarrow> consumption \<Rightarrow> consumption" where
  "put_rest k v \<equiv> cn_rest_update (dput k v)"

text \<open>The three entries an invocation charges, with the limits of their scopes.\<close>

record ledger_state =
  ls_workflow :: consumption
  ls_task :: consumption
  ls_agent :: consumption

definition state_scopes :: "resolved_budget \<Rightarrow> ledger_state \<Rightarrow> (string \<times> limits \<times> consumption) list" where
  "state_scopes rb st = [(''workflow'', rb_workflow rb, ls_workflow st), (''task'', rb_task rb, ls_task st),
     (''agent'', rb_agent rb, ls_agent st)]"

text \<open>A change of all three entries.\<close>

definition map_state :: "(consumption \<Rightarrow> consumption) \<Rightarrow> ledger_state \<Rightarrow> ledger_state" where
  "map_state f st = \<lparr>ls_workflow = f (ls_workflow st), ls_task = f (ls_task st), ls_agent = f (ls_agent st)\<rparr>"

record task_budget =
  tb_workflow_id :: string
  tb_task_id :: string
  tb_task_key :: string
  tb_agent_key :: string
  tb_resolved :: resolved_budget
  tb_provider :: string
  tb_model :: string

text \<open>\<open>str(a or b or c)\<close> over a text.\<close>

definition first_time :: "dict \<Rightarrow> string \<Rightarrow> string" where
  "first_time d timestamp = py_str (py_or (py_or (dget d ''startedAt'') (dget d ''createdAt'')) (JStr timestamp))"

definition load_state :: "task_budget \<Rightarrow> dict \<Rightarrow> dict \<Rightarrow> string \<Rightarrow> exn + ledger_state" where
  "load_state tb workflow task timestamp =
     (let consumption = dget workflow ''budgetConsumption'';
          entry = (\<lambda>value started. consumption_record value started (tb_provider tb) (tb_model tb)) in
      bindR (entry (mget consumption ''workflow'') (first_time workflow timestamp)) (\<lambda>w.
      bindR (entry (mget (mget consumption ''tasks'') (tb_task_key tb)) (first_time task timestamp)) (\<lambda>t.
      bindR (entry (mget (mget consumption ''agents'') (tb_agent_key tb)) (first_time task timestamp)) (\<lambda>a.
      Inr \<lparr>ls_workflow = w, ls_task = t, ls_agent = a\<rparr>))))"

definition changes_for_state :: "task_budget \<Rightarrow> dict \<Rightarrow> ledger_state \<Rightarrow> dict option \<Rightarrow> dict \<times> dict" where
  "changes_for_state tb workflow st decision =
     (let existing = as_dict (dget workflow ''budgetConsumption'');
          w = JObj (consumption_dict (ls_workflow st)); t = JObj (consumption_dict (ls_task st));
          a = JObj (consumption_dict (ls_agent st));
          tasks = dput (tb_task_key tb) t (as_dict (dget existing ''tasks''));
          agents = dput (tb_agent_key tb) a (as_dict (dget existing ''agents''));
          consumption = dput ''agents'' (JObj agents) (dput ''tasks'' (JObj tasks) (dput ''workflow'' w existing)) in
      ([(''budgetConsumption'', JObj (case decision of None \<Rightarrow> consumption
           | Some d \<Rightarrow> dput ''lastDecision'' (JObj d) consumption))],
       [(''budgetConsumption'', JObj [(''workflow'', w), (''task'', t), (''agent'', a)])]
       @ (case decision of None \<Rightarrow> [] | Some d \<Rightarrow> [(''budgetDecision'', JObj d)])))"

section \<open>Time\<close>

fun time_minus :: "pytime \<Rightarrow> pytime \<Rightarrow> exn + int" where
  "time_minus (Aware a) (Aware b) = Inr (a - b)"
| "time_minus (Naive a) (Naive b) = Inr (a - b)"
| "time_minus _ _ = Inl (type_error ''can't subtract offset-naive and offset-aware datetimes'')"

text \<open>Microseconds to whole milliseconds, through floats as the code goes.\<close>

definition elapsed_ms :: "environment \<Rightarrow> json \<Rightarrow> string \<Rightarrow> exn + int" where
  "elapsed_ms env started_at timestamp =
     (if \<not> is_str started_at then Inr 0
      else case (parse_time (env_iso env) (as_str started_at), parse_time (env_iso env) timestamp) of
        (Some start, Some finish) \<Rightarrow>
          bindR (time_minus finish start) (\<lambda>us.
          bindR (int_truediv us 1000000) (\<lambda>seconds.
          bindR (py_trunc (fp_scale 1000 seconds)) (\<lambda>ms. Inr (max 0 ms))))
      | _ \<Rightarrow> Inr 0)"

section \<open>Decisions\<close>

definition reference_label :: "dict option \<Rightarrow> string" where
  "reference_label ref =
     (case ref of None \<Rightarrow> ''execution''
      | Some r \<Rightarrow> py_str (dget_or r ''name'' (JStr [])) @ ''/'' @ py_str (dget_or r ''version'' (JStr [])))"

definition blocked_decision ::
  "string \<Rightarrow> budget_limit \<Rightarrow> json \<Rightarrow> json \<Rightarrow> json \<Rightarrow> string \<Rightarrow> string \<Rightarrow> string option \<Rightarrow> bool \<Rightarrow> exn + dict" where
  "blocked_decision scope_name limit consumed reserved required timestamp reason message sticky =
     bindR (num_float (bl_value limit)) (\<lambda>value.
     bindR (num_float consumed) (\<lambda>used.
     bindR (if bl_field limit = ''maxCostUsd'' then normalized_cost (fp_sub value used)
            else Inr (py_round12 (fp_sub value used))) (\<lambda>remaining.
     Inr [(''allowed'', JBool False), (''reason'', JStr reason), (''dimension'', JStr (bl_field limit)),
          (''scope'', JStr (bl_scope limit)), (''internalScope'', JStr scope_name),
          (''resourceRef'', case bl_ref limit of None \<Rightarrow> JNull | Some r \<Rightarrow> JObj r),
          (''limit'', bl_value limit), (''consumed'', consumed), (''reserved'', reserved),
          (''remaining'', JFloat remaining), (''required'', required), (''sticky'', JBool sticky),
          (''message'', JStr (case message of Some m \<Rightarrow> m | None \<Rightarrow>
             ''execution budget exhausted: '' @ bl_scope limit @ '' '' @ reference_label (bl_ref limit) @ '' ''
             @ bl_field limit @ ''='' @ py_str (bl_value limit) @ '' has '' @ py_str (JFloat remaining)
             @ '' remaining but requires '' @ py_str required @ '' (rule '' @ scope_name @ '')'')),
          (''decidedAt'', JStr timestamp)])))"

text \<open>The integer limits a reservation counts against: consumed and held.\<close>

definition counters :: "(string \<times> (consumption \<Rightarrow> int) \<times> (consumption \<Rightarrow> int)) list" where
  "counters = [(''maxModelInvocations'', cn_invocations, cn_held_invocations),
     (''maxInputTokens'', cn_input, cn_held_input), (''maxOutputTokens'', cn_output, cn_held_output)]"

definition check_counter ::
  "string \<Rightarrow> limits \<Rightarrow> consumption \<Rightarrow> int \<Rightarrow> string
   \<Rightarrow> string \<times> (consumption \<Rightarrow> int) \<times> (consumption \<Rightarrow> int) \<Rightarrow> exn + dict option" where
  "check_counter scope_name ls c estimated timestamp counter =
     (let (field, used, held) = counter; required = (if field = ''maxInputTokens'' then estimated else 1) in
      case limit_of ls field of
        None \<Rightarrow> Inr None
      | Some limit \<Rightarrow>
          if num_rat (bl_value limit) < of_int (used c + held c + required)
          then bindR (blocked_decision scope_name limit (JInt (used c + held c)) (JInt (held c)) (JInt required)
                 timestamp ''BUDGET_EXHAUSTED'' None False) (\<lambda>d. Inr (Some d))
          else Inr None)"

text \<open>The first decision of a sequence of checks.\<close>

fun first_block :: "(unit \<Rightarrow> exn + dict option) list \<Rightarrow> exn + dict option" where
  "first_block [] = Inr None"
| "first_block (c # cs) =
     bindR (c ()) (\<lambda>d. case d of Some x \<Rightarrow> Inr (Some x) | None \<Rightarrow> first_block cs)"

definition check_elapsed :: "string \<Rightarrow> limits \<Rightarrow> int \<Rightarrow> string \<Rightarrow> exn + dict option" where
  "check_elapsed scope_name ls elapsed timestamp =
     (case limit_of ls ''maxElapsedMs'' of
        None \<Rightarrow> Inr None
      | Some limit \<Rightarrow>
          if num_rat (bl_value limit) < of_int (elapsed + 1)
          then bindR (blocked_decision scope_name limit (JInt elapsed) (JInt 0) (JInt 1) timestamp
                 ''BUDGET_EXHAUSTED'' None False) (\<lambda>d. Inr (Some d))
          else Inr None)"

definition check_cost ::
  "string \<Rightarrow> limits \<Rightarrow> consumption \<Rightarrow> int \<Rightarrow> string \<Rightarrow> dict option \<Rightarrow> exn + dict option" where
  "check_cost scope_name ls c estimated timestamp pricing =
     (case limit_of ls ''maxCostUsd'' of
        None \<Rightarrow> Inr None
      | Some limit \<Rightarrow>
          (case pricing of
             None \<Rightarrow> bindR (blocked_decision scope_name limit (JFloat (fp_add (cn_cost c) (cn_held_cost c)))
                 (JFloat (cn_held_cost c)) (JInt 0) timestamp ''BUDGET_COST_UNAVAILABLE''
                 (Some ''monetary budget requires reliable Model pricing metadata'') False) (\<lambda>d. Inr (Some d))
           | Some p \<Rightarrow>
               bindR (estimate_cost p estimated 1) (\<lambda>minimum_cost.
               bindR (cost_total [JFloat (cn_cost c), JFloat (cn_held_cost c)]) (\<lambda>consumed_cost.
               bindR (cost_total [JFloat consumed_cost, JFloat minimum_cost]) (\<lambda>needed.
               bindR (cost_exceeds needed (bl_value limit)) (\<lambda>exceeds.
               if exceeds
               then bindR (blocked_decision scope_name limit (JFloat consumed_cost) (JFloat (cn_held_cost c))
                      (JFloat minimum_cost) timestamp ''BUDGET_EXHAUSTED'' None False) (\<lambda>d. Inr (Some d))
               else Inr None))))))"

definition check_scope ::
  "environment \<Rightarrow> string \<Rightarrow> limits \<Rightarrow> consumption \<Rightarrow> int \<Rightarrow> string \<Rightarrow> dict option \<Rightarrow> exn + dict option" where
  "check_scope env scope_name ls c estimated timestamp pricing =
     (let blocked = dget (cn_rest c) ''blockedDecision'' in
      if is_mapping blocked \<and> mget blocked ''sticky'' = JBool True then Inr (Some (as_dict blocked))
      else bindR (elapsed_ms env (dget (cn_rest c) ''startedAt'') timestamp) (\<lambda>now_elapsed.
        first_block (map (\<lambda>counter _. check_counter scope_name ls c estimated timestamp counter) counters
          @ [\<lambda>_. check_elapsed scope_name ls (max (cn_elapsed c) now_elapsed) timestamp,
             \<lambda>_. check_cost scope_name ls c estimated timestamp pricing])))"

text \<open>
  \<open>_evaluate\<close>: the first decision of the three scopes.  The remaining output it also returns is
  not used by its caller.
\<close>

definition evaluate_state :: "environment \<Rightarrow> resolved_budget \<Rightarrow> ledger_state \<Rightarrow> int \<Rightarrow> string \<Rightarrow> exn + dict option" where
  "evaluate_state env rb st estimated timestamp =
     first_block (map (\<lambda>(scope_name, ls, c) _. check_scope env scope_name ls c estimated timestamp (rb_pricing rb))
       (state_scopes rb st))"

definition update_scope :: "string \<Rightarrow> (consumption \<Rightarrow> consumption) \<Rightarrow> ledger_state \<Rightarrow> ledger_state" where
  "update_scope name f st =
     (if name = ''workflow'' then st\<lparr>ls_workflow := f (ls_workflow st)\<rparr>
      else if name = ''task'' then st\<lparr>ls_task := f (ls_task st)\<rparr>
      else if name = ''agent'' then st\<lparr>ls_agent := f (ls_agent st)\<rparr> else st)"

definition apply_block_decision :: "dict \<Rightarrow> ledger_state \<Rightarrow> exn + ledger_state" where
  "apply_block_decision decision st =
     (let scope = lower (py_str (py_or (dget decision ''internalScope'') (dget_or decision ''scope'' (JStr [])))) in
      if scope \<notin> {''workflow'', ''task'', ''agent''} then Inr st
      else bindR (getitem decision ''decidedAt'') (\<lambda>decided_at.
           bindR (if dget decision ''sticky'' = JBool True
                  then bindR (getitem decision ''reason'') (\<lambda>reason. Inr (\<lambda>c.
                    put_rest ''blockedDecision'' (JObj decision) (put_rest ''blockedReason'' reason c)))
                  else Inr (\<lambda>c. c)) (\<lambda>mark.
           Inr (update_scope scope (\<lambda>c. mark (put_rest ''updatedAt'' decided_at
                  (put_rest ''lastDecision'' (JObj decision) c))) st))))"

section \<open>The plan of a reservation\<close>

text \<open>The smallest of the values of the scopes that have one; the first of equal ones.\<close>

definition least_int :: "int option list \<Rightarrow> int option" where
  "least_int xs = (case List.map_filter id xs of [] \<Rightarrow> None | n # ns \<Rightarrow> Some (foldl min n ns))"

definition remaining_int ::
  "string \<times> (consumption \<Rightarrow> int) \<times> (consumption \<Rightarrow> int) \<Rightarrow> resolved_budget \<Rightarrow> ledger_state \<Rightarrow> int option" where
  "remaining_int counter rb st =
     (let (field, used, held) = counter in
      least_int (map (\<lambda>(_, ls, c). map_option (\<lambda>limit. as_int (bl_value limit) - (used c + held c)) (limit_of ls field))
        (state_scopes rb st)))"

definition remaining_invocations :: "resolved_budget \<Rightarrow> ledger_state \<Rightarrow> int option" where
  "remaining_invocations = remaining_int (''maxModelInvocations'', cn_invocations, cn_held_invocations)"

definition remaining_input :: "resolved_budget \<Rightarrow> ledger_state \<Rightarrow> int option" where
  "remaining_input = remaining_int (''maxInputTokens'', cn_input, cn_held_input)"

definition remaining_output :: "resolved_budget \<Rightarrow> ledger_state \<Rightarrow> int option" where
  "remaining_output = remaining_int (''maxOutputTokens'', cn_output, cn_held_output)"

definition scope_cost_left :: "limits \<Rightarrow> consumption \<Rightarrow> exn + pyfloat option" where
  "scope_cost_left ls c =
     (case limit_of ls ''maxCostUsd'' of
        None \<Rightarrow> Inr None
      | Some limit \<Rightarrow>
          bindR (num_float (bl_value limit)) (\<lambda>value.
          bindR (normalized_cost (fp_sub value (fp_add (cn_cost c) (cn_held_cost c)))) (\<lambda>left. Inr (Some left))))"

definition remaining_cost :: "resolved_budget \<Rightarrow> ledger_state \<Rightarrow> exn + pyfloat option" where
  "remaining_cost rb st =
     bindR (mapR (\<lambda>(_, ls, c). scope_cost_left ls c) (state_scopes rb st)) (\<lambda>lefts.
     Inr (case List.map_filter id lefts of [] \<Rightarrow> None
          | x # xs \<Rightarrow> Some (foldl (\<lambda>m y. if fp_lt y m then y else m) x xs)))"

definition attempt_limit :: "int option \<Rightarrow> int option \<Rightarrow> int" where
  "attempt_limit configured allowance =
     (let wanted = (case configured of Some n \<Rightarrow> max 1 n | None \<Rightarrow> (case allowance of Some n \<Rightarrow> n | None \<Rightarrow> 1)) in
      case allowance of Some n \<Rightarrow> min wanted n | None \<Rightarrow> wanted)"

definition capped_output :: "int option \<Rightarrow> int \<Rightarrow> int \<Rightarrow> int" where
  "capped_output configured left attempts =
     (let cap = max 1 (left div attempts);
          wanted = (case configured of None \<Rightarrow> cap | Some n \<Rightarrow> if n = 0 then cap else n)
      in max 1 (min wanted cap))"

text \<open>The output a remaining cost pays for, when nothing else bounds it.\<close>

definition affordable_output :: "dict \<Rightarrow> int \<Rightarrow> pyfloat \<Rightarrow> int \<Rightarrow> exn + int option" where
  "affordable_output pricing estimated left attempts =
     bindR (price pricing ''outputPerMillionTokens'') (\<lambda>p.
     let output_price = dec_round (p / 1000000) in
     if output_price \<le> 0 then Inr None
     else bindR (price pricing ''inputPerMillionTokens'') (\<lambda>q.
       bindR (py_decimal (JFloat left)) (\<lambda>d.
       let input_cost = dec_round (dec_round (of_int estimated * q) / 1000000);
           output_budget = dec_round (dec_round (d / of_int attempts) - input_cost) in
       Inr (if output_price \<le> output_budget then Some (max 1 \<lfloor>dec_round (output_budget / output_price)\<rfloor>) else None))))"

definition or_one :: "int option \<Rightarrow> int" where
  "or_one n = (case n of None \<Rightarrow> 1 | Some k \<Rightarrow> if k = 0 then 1 else k)"

text \<open>\<open>for _ in range(n)\<close>: fewer attempts while their cost does not fit; attempts and output of each.\<close>

fun fit_cost ::
  "nat \<Rightarrow> dict \<Rightarrow> int \<Rightarrow> int option \<Rightarrow> int option \<Rightarrow> pyfloat \<Rightarrow> int \<times> int option \<Rightarrow> exn + int \<times> int option" where
  "fit_cost 0 pricing estimated configured left_output left_cost plan = Inr plan"
| "fit_cost (Suc n) pricing estimated configured left_output left_cost (attempts, output) =
     bindR (estimate_cost pricing estimated (or_one output)) (\<lambda>minimum_cost.
     if \<not> fp_lt (Finite 0) minimum_cost then Inr (attempts, output)
     else bindR (cost_floor_div left_cost minimum_cost) (\<lambda>by_cost.
       if attempts \<le> by_cost then Inr (attempts, output)
       else let attempts' = max 1 by_cost;
                output' = (case left_output of None \<Rightarrow> output
                           | Some left \<Rightarrow> Some (capped_output configured left attempts'))
            in fit_cost n pricing estimated configured left_output left_cost (attempts', output')))"

record reservation_plan =
  rp_attempts :: int
  rp_output :: "int option"
  rp_input :: int
  rp_held_output :: int
  rp_cost :: pyfloat

text \<open>The attempts and the output of each before cost is looked at.\<close>

definition token_plan ::
  "resolved_budget \<Rightarrow> ledger_state \<Rightarrow> int \<Rightarrow> int option \<Rightarrow> int option \<Rightarrow> int \<times> int option" where
  "token_plan rb st estimated configured_output configured_attempts =
     (let attempts = attempt_limit configured_attempts (remaining_invocations rb st);
          attempts = (case remaining_input rb st of None \<Rightarrow> attempts
                      | Some left \<Rightarrow> min attempts (max 1 (left div estimated)));
          attempts = (case remaining_output rb st of None \<Rightarrow> attempts
                      | Some left \<Rightarrow> min attempts (max 1 left))
      in (attempts, case remaining_output rb st of None \<Rightarrow> configured_output
                    | Some left \<Rightarrow> Some (capped_output configured_output left attempts)))"

definition cost_plan ::
  "resolved_budget \<Rightarrow> ledger_state \<Rightarrow> int \<Rightarrow> int option \<Rightarrow> int \<times> int option \<Rightarrow> exn + int \<times> int option" where
  "cost_plan rb st estimated configured_output plan =
     bindR (remaining_cost rb st) (\<lambda>left_cost.
     case (left_cost, rb_pricing rb) of
       (Some left, Some pricing) \<Rightarrow>
         bindR (if remaining_output rb st = None \<and> snd plan = None
                then bindR (affordable_output pricing estimated left (fst plan)) (\<lambda>out.
                     Inr (fst plan, case out of None \<Rightarrow> snd plan | Some n \<Rightarrow> Some n))
                else Inr plan) (\<lambda>plan.
         fit_cost 3 pricing estimated configured_output (remaining_output rb st) left plan)
     | _ \<Rightarrow> Inr plan)"

definition make_plan ::
  "resolved_budget \<Rightarrow> ledger_state \<Rightarrow> int \<Rightarrow> int option \<Rightarrow> int option \<Rightarrow> exn + reservation_plan" where
  "make_plan rb st estimated configured_output configured_attempts =
     bindR (cost_plan rb st estimated configured_output
              (token_plan rb st estimated configured_output configured_attempts)) (\<lambda>(attempts, output).
     let bounded = remaining_output rb st \<noteq> None;
         held_output = (if bounded then (case output of None \<Rightarrow> 0 | Some n \<Rightarrow> n) * attempts else 0);
         priced = (if bounded then held_output else or_one output * attempts) in
     bindR (case rb_pricing rb of None \<Rightarrow> Inr (Finite 0)
            | Some pricing \<Rightarrow> estimate_cost pricing (estimated * attempts) priced) (\<lambda>cost.
     Inr \<lparr>rp_attempts = attempts, rp_output = output, rp_input = estimated * attempts,
          rp_held_output = held_output, rp_cost = cost\<rparr>))"

section \<open>Preflight\<close>

definition allowed_decision :: "int option \<Rightarrow> int \<Rightarrow> string \<Rightarrow> dict" where
  "allowed_decision output estimated timestamp =
     [(''allowed'', JBool True), (''reason'', JStr ''BUDGET_ALLOWED''),
      (''effectiveOutputTokenLimit'', case output of None \<Rightarrow> JNull | Some n \<Rightarrow> JInt n),
      (''estimatedInputTokens'', JInt estimated), (''decidedAt'', JStr timestamp)]"

definition hold :: "reservation_plan \<Rightarrow> int \<Rightarrow> string \<Rightarrow> consumption \<Rightarrow> consumption" where
  "hold plan estimated timestamp c =
     put_rest ''lastDecision'' (JObj (allowed_decision (rp_output plan) estimated timestamp))
       (put_rest ''updatedAt'' (JStr timestamp)
         (c\<lparr>cn_held_invocations := cn_held_invocations c + rp_attempts plan,
            cn_held_input := cn_held_input c + rp_input plan,
            cn_held_output := cn_held_output c + rp_held_output plan,
            cn_held_cost := fp_add (cn_held_cost c) (rp_cost plan)\<rparr>))"

text \<open>The first scope whose remaining cost the reservation does not fit.\<close>

definition cost_refusal :: "resolved_budget \<Rightarrow> ledger_state \<Rightarrow> pyfloat \<Rightarrow> string \<Rightarrow> exn + dict option" where
  "cost_refusal rb st cost timestamp =
     first_block (map (\<lambda>(scope_name, ls, c) _.
       case limit_of ls ''maxCostUsd'' of
         None \<Rightarrow> Inr None
       | Some limit \<Rightarrow>
           bindR (cost_total [JFloat (cn_cost c), JFloat (cn_held_cost c)]) (\<lambda>consumed_cost.
           bindR (num_float (bl_value limit)) (\<lambda>value.
           bindR (normalized_cost (fp_sub value consumed_cost)) (\<lambda>left.
           bindR (cost_exceeds cost (JFloat left)) (\<lambda>exceeds.
           if exceeds
           then bindR (blocked_decision scope_name limit (JFloat consumed_cost) (JFloat (cn_held_cost c))
                  (JFloat cost) timestamp ''BUDGET_EXHAUSTED''
                  (Some (''monetary budget exhausted: the granted provider output allowance does not fit ''
                         @ ''the remaining cost'')) False) (\<lambda>d. Inr (Some d))
           else Inr None))))) (state_scopes rb st))"

datatype preflight_outcome = Refused dict | Reserved reservation_plan

definition preflight_mutation ::
  "environment \<Rightarrow> task_budget \<Rightarrow> int \<Rightarrow> int option \<Rightarrow> int option \<Rightarrow> string \<Rightarrow> dict \<Rightarrow> dict
   \<Rightarrow> exn + (dict \<times> dict) \<times> preflight_outcome" where
  "preflight_mutation env tb estimated configured_output configured_attempts timestamp workflow task =
     (let rb = tb_resolved tb;
          refuse = (\<lambda>st decision. bindR (apply_block_decision decision st) (\<lambda>st'.
                      Inr (changes_for_state tb workflow st' (Some decision), Refused decision))) in
      bindR (load_state tb workflow task timestamp) (\<lambda>st.
      bindR (evaluate_state env rb st estimated timestamp) (\<lambda>decision.
      case decision of
        Some d \<Rightarrow> refuse st d
      | None \<Rightarrow>
          bindR (make_plan rb st estimated configured_output configured_attempts) (\<lambda>plan.
          bindR (remaining_cost rb st) (\<lambda>left_cost.
          bindR (case left_cost of None \<Rightarrow> Inr False | Some left \<Rightarrow> cost_exceeds (rp_cost plan) (JFloat left)) (\<lambda>over.
          if over
          then bindR (cost_refusal rb st (rp_cost plan) timestamp) (\<lambda>decision.
               case decision of Some d \<Rightarrow> refuse st d
               | None \<Rightarrow> Inl (Exn (OtherException ''AssertionError'') [] JNull))
          else Inr (changes_for_state tb workflow (map_state (hold plan estimated timestamp) st) None,
                    Reserved plan)))))))"

text \<open>The store's atomic mutation of a ledger pair, and the budget object's own reservation.\<close>

type_synonym ('s, 'o) budget_mutation =
  "string \<Rightarrow> string \<Rightarrow> (dict \<Rightarrow> dict \<Rightarrow> exn + (dict \<times> dict) \<times> 'o) \<Rightarrow> string \<Rightarrow> ('s, (dict \<times> dict) \<times> 'o) eff"

type_synonym 's ledger = "'s \<times> reservation_plan option"

definition on_store :: "('s, 'a) eff \<Rightarrow> ('s ledger, 'a) eff" where
  "on_store m = (\<lambda>(s, held). let (r, t) = m s in (r, (t, held)))"

definition set_held :: "reservation_plan option \<Rightarrow> ('s ledger, unit) eff" where
  "set_held held = modE (\<lambda>(s, _). (s, held))"

definition preflight ::
  "environment \<Rightarrow> ('s, preflight_outcome) budget_mutation \<Rightarrow> task_budget \<Rightarrow> int \<Rightarrow> int option \<Rightarrow> int option \<Rightarrow> string
   \<Rightarrow> ('s ledger, reservation_plan) eff" where
  "preflight env mutate_budget tb estimated_input_tokens configured_output configured_attempts timestamp =
     bindE (on_store (mutate_budget (tb_workflow_id tb) (tb_task_id tb)
              (preflight_mutation env tb (max 1 estimated_input_tokens) configured_output configured_attempts timestamp)
              timestamp)) (\<lambda>(_, outcome).
     case outcome of
       Refused d \<Rightarrow> throw (Exn ExecutionBudgetExceeded (py_str (dget_or d ''message'' (JStr ''BUDGET_EXHAUSTED''))) (JObj d))
     | Reserved plan \<Rightarrow> thenE (set_held (Some plan)) (ret plan))"

section \<open>Reconciliation and release\<close>

definition lower_held :: "reservation_plan \<Rightarrow> consumption \<Rightarrow> consumption" where
  "lower_held plan c =
     c\<lparr>cn_held_invocations := max 0 (cn_held_invocations c - rp_attempts plan),
       cn_held_input := max 0 (cn_held_input c - rp_input plan),
       cn_held_output := max 0 (cn_held_output c - rp_held_output plan),
       cn_held_cost := fp_max (Finite 0) [fp_sub (cn_held_cost c) (rp_cost plan)]\<rparr>"

record usage =
  us_input :: int
  us_output :: int
  us_latency :: int
  us_cost :: "pyfloat option"
  us_cost_status :: "string option"
  us_invocations :: int
  us_unreconciled :: int

definition no_reservation :: reservation_plan where
  "no_reservation = \<lparr>rp_attempts = 1, rp_output = None, rp_input = 0, rp_held_output = 0, rp_cost = Finite 0\<rparr>"

text \<open>What stays held for attempts that were dispatched and not reconciled.\<close>

definition retain_held :: "reservation_plan \<Rightarrow> int \<Rightarrow> pyfloat \<Rightarrow> consumption \<Rightarrow> consumption" where
  "retain_held plan retained cost c =
     (let granted = max 1 (rp_attempts plan) in
      if retained = 0 then c
      else c\<lparr>cn_held_input := cn_held_input c + (rp_input plan div granted) * retained,
             cn_held_output := cn_held_output c + (rp_held_output plan div granted) * retained,
             cn_held_cost := fp_add (cn_held_cost c) cost\<rparr>)"

definition count_status :: "string \<Rightarrow> dict \<Rightarrow> exn + dict" where
  "count_status status counts =
     (case dget_or counts status (JInt 0) of
        JInt n \<Rightarrow> Inr (dput status (JInt (n + 1)) counts)
      | _ \<Rightarrow> Inl (type_error ''unsupported operand type(s)''))"

definition add_cost :: "pyfloat option \<Rightarrow> consumption \<Rightarrow> exn + consumption" where
  "add_cost actual c =
     (case actual of None \<Rightarrow> Inr c
      | Some cost \<Rightarrow> bindR (cost_total [JFloat (cn_cost c), JFloat cost]) (\<lambda>sum. Inr (c\<lparr>cn_cost := sum\<rparr>)))"

definition sticky_block ::
  "string \<Rightarrow> limits \<Rightarrow> string \<Rightarrow> int \<Rightarrow> string \<Rightarrow> consumption \<Rightarrow> exn + consumption" where
  "sticky_block scope_name ls status unreconciled timestamp c =
     (case limit_of ls ''maxCostUsd'' of
        Some limit \<Rightarrow>
          if status = ''UNAVAILABLE'' \<or> 0 < unreconciled
          then bindR (cost_total [JFloat (cn_cost c), JFloat (cn_held_cost c)]) (\<lambda>consumed.
               bindR (blocked_decision scope_name limit (JFloat consumed) (JFloat (cn_held_cost c)) (JInt 0) timestamp
                        ''BUDGET_COST_UNAVAILABLE''
                        (Some (''monetary budget cannot be reconciled because a ''
                               @ ''dispatched provider attempt returned no reliable usage'')) True) (\<lambda>d.
               Inr (put_rest ''blockedDecision'' (JObj d)
                      (put_rest ''blockedReason'' (JStr ''BUDGET_COST_UNAVAILABLE'') c))))
          else Inr c
      | None \<Rightarrow> Inr c)"

definition charge_dispatch ::
  "string \<Rightarrow> limits \<Rightarrow> string \<Rightarrow> pyfloat option \<Rightarrow> int \<Rightarrow> string \<Rightarrow> consumption \<Rightarrow> exn + consumption" where
  "charge_dispatch scope_name ls status actual unreconciled timestamp c =
     bindR (add_cost actual c) (\<lambda>c.
     bindR (py_dict (dget_or (cn_rest c) ''costStatusCounts'' (JObj []))) (\<lambda>old.
     bindR (count_status status old) (\<lambda>counts.
     sticky_block scope_name ls status unreconciled timestamp
       (put_rest ''costStatus'' (JStr (if length counts = 1 then fst (hd counts) else ''MIXED''))
         (put_rest ''costStatusCounts'' (JObj counts) c)))))"

definition charge_scope ::
  "environment \<Rightarrow> task_budget \<Rightarrow> usage \<Rightarrow> reservation_plan \<Rightarrow> int \<Rightarrow> pyfloat \<Rightarrow> string \<Rightarrow> pyfloat option \<Rightarrow> string
   \<Rightarrow> string \<Rightarrow> limits \<Rightarrow> consumption \<Rightarrow> exn + consumption" where
  "charge_scope env tb u plan retained retained_cost status actual timestamp scope_name ls c0 =
     (let c = retain_held plan retained retained_cost (lower_held plan c0) in
      bindR (elapsed_ms env (dget (cn_rest c) ''startedAt'') timestamp) (\<lambda>elapsed.
      let c = put_rest ''lastModel'' (JStr (tb_model tb)) (put_rest ''lastProvider'' (JStr (tb_provider tb))
                (put_rest ''updatedAt'' (JStr timestamp)
                  (c\<lparr>cn_invocations := cn_invocations c + us_invocations u,
                     cn_input := cn_input c + us_input u, cn_output := cn_output c + us_output u,
                     cn_elapsed := max (cn_elapsed c) elapsed\<rparr>))) in
      bindR (if 0 < us_invocations u
             then charge_dispatch scope_name ls status actual (us_unreconciled u) timestamp c
             else Inr c) (\<lambda>c.
      Inr (put_rest ''lastDecision'' (JObj [(''allowed'', JBool True), (''reason'', JStr ''BUDGET_ALLOWED''),
             (''decidedAt'', JStr timestamp)]) c))))"

text \<open>A change of each entry that may raise, in the order of the scopes.\<close>

definition mapR_state ::
  "resolved_budget \<Rightarrow> (string \<Rightarrow> limits \<Rightarrow> consumption \<Rightarrow> exn + consumption) \<Rightarrow> ledger_state \<Rightarrow> exn + ledger_state" where
  "mapR_state rb f st =
     bindR (f ''workflow'' (rb_workflow rb) (ls_workflow st)) (\<lambda>w.
     bindR (f ''task'' (rb_task rb) (ls_task st)) (\<lambda>t.
     bindR (f ''agent'' (rb_agent rb) (ls_agent st)) (\<lambda>a.
     Inr \<lparr>ls_workflow = w, ls_task = t, ls_agent = a\<rparr>)))"

text \<open>The totals are compared as floats, the integer ones too.\<close>

definition scope_overrun :: "limits \<Rightarrow> consumption \<Rightarrow> exn + bool" where
  "scope_overrun ls c =
     (let over = (\<lambda>field used held. case limit_of ls field of None \<Rightarrow> Inr False
        | Some limit \<Rightarrow> bindR (cost_total [used, held]) (\<lambda>combined.
            if field = ''maxCostUsd'' then cost_exceeds combined (bl_value limit)
            else Inr (case combined of Finite r \<Rightarrow> num_rat (bl_value limit) < r | f \<Rightarrow> f = PosInf))) in
      bindR (mapR (\<lambda>(field, used, held). over field (JInt (used c)) (JInt (held c))) counters) (\<lambda>bs.
      bindR (over ''maxCostUsd'' (JFloat (cn_cost c)) (JFloat (cn_held_cost c))) (\<lambda>b.
      Inr (b \<or> True \<in> set bs))))"

definition apply_overruns :: "resolved_budget \<Rightarrow> ledger_state \<Rightarrow> exn + ledger_state" where
  "apply_overruns rb =
     mapR_state rb (\<lambda>_ ls c. bindR (scope_overrun ls c) (\<lambda>over.
       Inr (if over then put_rest ''overrun'' (JBool True) c else c)))"

definition effective_output_limit :: "json \<Rightarrow> int option \<Rightarrow> json" where
  "effective_output_limit configured left =
     (case left of None \<Rightarrow> configured
      | Some n \<Rightarrow> if n < 1 then JNull else if configured = JNull then JInt n else JInt (min (as_int configured) n))"

definition consumption_fields :: "string \<Rightarrow> string \<times> string" where
  "consumption_fields field = the (map_of
     [(''maxModelInvocations'', (''modelInvocations'', ''reservedModelInvocations'')),
      (''maxInputTokens'', (''inputTokens'', ''reservedInputTokens'')),
      (''maxOutputTokens'', (''outputTokens'', ''reservedOutputTokens'')),
      (''maxElapsedMs'', (''elapsedMs'', ''reservedElapsedMs'')), (''maxCostUsd'', (''costUsd'', ''reservedCostUsd''))] field)"

definition field_remaining :: "string \<Rightarrow> json \<Rightarrow> json \<Rightarrow> json \<Rightarrow> exn + json" where
  "field_remaining field value used held =
     (if field = ''maxCostUsd''
      then bindR (num_float value) (\<lambda>v. bindR (num_float used) (\<lambda>u. bindR (num_float held) (\<lambda>h.
           bindR (normalized_cost (fp_sub (fp_sub v u) h)) (\<lambda>r. Inr (JFloat r)))))
      else case (value, used, held) of
             (JInt v, JInt u, JInt h) \<Rightarrow> Inr (JInt (v - u - h))
           | _ \<Rightarrow> Inl (type_error ''unsupported operand type(s)''))"

definition summarize_limits :: "limits \<Rightarrow> dict \<Rightarrow> exn + dict" where
  "summarize_limits ls consumption =
     bindR (mapR (\<lambda>field. let limit = the (limit_of ls field); (used_key, held_key) = consumption_fields field;
                              used = dget_or consumption used_key (JInt 0); held = dget_or consumption held_key (JInt 0) in
              bindR (field_remaining field (bl_value limit) used held) (\<lambda>left.
              Inr (field, JObj (limit_record limit), used, held, left)))
            (filter (\<lambda>field. limit_of ls field \<noteq> None) budget_fields)) (\<lambda>rows.
     Inr [(''configured'', JObj (map (\<lambda>(f, l, u, h, r). (f, l)) rows)),
          (''consumed'', JObj (map (\<lambda>(f, l, u, h, r). (f, u)) rows)),
          (''reserved'', JObj (map (\<lambda>(f, l, u, h, r). (f, h)) rows)),
          (''remaining'', JObj (map (\<lambda>(f, l, u, h, r). (f, r)) rows))])"

definition remaining_by_scope :: "resolved_budget \<Rightarrow> ledger_state \<Rightarrow> exn + dict" where
  "remaining_by_scope rb st =
     mapR (\<lambda>(scope_name, ls, c). bindR (summarize_limits ls (consumption_dict c)) (\<lambda>d. Inr (scope_name, JObj d)))
       (state_scopes rb st)"

text \<open>The amounts fixed before the store is asked: status, cost, retained attempts and their cost.\<close>

definition usage_amounts ::
  "task_budget \<Rightarrow> usage \<Rightarrow> reservation_plan \<Rightarrow> exn + string \<times> pyfloat option \<times> int \<times> pyfloat" where
  "usage_amounts tb u plan =
     bindR (checkR (\<not> (us_input u < 0 \<or> us_output u < 0 \<or> us_latency u < 0))
              (budget_error ''model usage must not be negative'')) (\<lambda>_.
     bindR (checkR (0 \<le> us_invocations u) (budget_error ''invocation_count must not be negative'')) (\<lambda>_.
     bindR (checkR (0 \<le> us_unreconciled u)
              (budget_error ''unreconciled_dispatched_attempts must not be negative'')) (\<lambda>_.
     let granted = max 1 (rp_attempts plan); retained = min (max 0 (us_unreconciled u)) granted in
     bindR (fp_div_int (rp_cost plan) granted) (\<lambda>per_attempt_cost.
     bindR (if 0 < us_invocations u
            then cost_evidence (us_cost u) (us_cost_status u) (rb_pricing (tb_resolved tb)) (us_input u) (us_output u)
            else Inr (''UNAVAILABLE'', None)) (\<lambda>(status, actual).
     bindR (fp_mult_int per_attempt_cost retained) (\<lambda>held_cost.
     Inr (status, actual, retained, py_round12 held_cost)))))))"

definition usage_mutation ::
  "environment \<Rightarrow> task_budget \<Rightarrow> usage \<Rightarrow> reservation_plan \<Rightarrow> string \<times> pyfloat option \<times> int \<times> pyfloat \<Rightarrow> string
   \<Rightarrow> dict \<Rightarrow> dict \<Rightarrow> exn + (dict \<times> dict) \<times> json \<times> dict" where
  "usage_mutation env tb u plan amounts timestamp workflow task =
     (let (status, actual, retained, retained_cost) = amounts; rb = tb_resolved tb in
      bindR (load_state tb workflow task timestamp) (\<lambda>st.
      bindR (mapR_state rb (charge_scope env tb u plan retained retained_cost status actual timestamp) st) (\<lambda>st.
      bindR (apply_overruns rb st) (\<lambda>st.
      bindR (remaining_by_scope rb st) (\<lambda>left.
      Inr (changes_for_state tb workflow st None,
           effective_output_limit (rb_output_limit rb) (remaining_output rb st), left))))))"

definition record_usage ::
  "environment \<Rightarrow> ('s, json \<times> dict) budget_mutation \<Rightarrow> task_budget \<Rightarrow> usage \<Rightarrow> string \<Rightarrow> ('s ledger, dict) eff" where
  "record_usage env mutate_budget tb u timestamp =
     bindE getE (\<lambda>(_, held).
     let plan = (case held of None \<Rightarrow> no_reservation | Some plan \<Rightarrow> plan) in
     bindE (liftR (usage_amounts tb u plan)) (\<lambda>amounts.
     bindE (on_store (mutate_budget (tb_workflow_id tb) (tb_task_id tb)
              (usage_mutation env tb u plan amounts timestamp) timestamp)) (\<lambda>(_, limit, left).
     thenE (set_held None)
     (ret [(''invocationCount'', JInt (us_invocations u)),
           (''unreconciledDispatchedAttempts'', JInt (us_unreconciled u)),
           (''inputTokens'', JInt (us_input u)), (''outputTokens'', JInt (us_output u)),
           (''latencyMs'', JInt (us_latency u)),
           (''costUsd'', case fst (snd amounts) of None \<Rightarrow> JNull | Some c \<Rightarrow> JFloat c),
           (''costStatus'', JStr (fst amounts)), (''provider'', JStr (tb_provider tb)),
           (''model'', JStr (tb_model tb)), (''chargedAt'', JStr timestamp),
           (''effectiveOutputTokenLimit'', limit), (''remaining'', JObj left)]))))"

definition release_mutation ::
  "task_budget \<Rightarrow> reservation_plan \<Rightarrow> string \<Rightarrow> dict \<Rightarrow> dict \<Rightarrow> exn + (dict \<times> dict) \<times> unit" where
  "release_mutation tb plan timestamp workflow task =
     bindR (load_state tb workflow task timestamp) (\<lambda>st.
     Inr (changes_for_state tb workflow (map_state (lower_held plan) st) None, ()))"

text \<open>\<open>timestamp\<close> is the local time \<open>_now\<close> reads.\<close>

definition release :: "('s, unit) budget_mutation \<Rightarrow> task_budget \<Rightarrow> string \<Rightarrow> ('s ledger, unit) eff" where
  "release mutate_budget tb timestamp =
     bindE getE (\<lambda>(_, held).
     case held of
       None \<Rightarrow> ret ()
     | Some plan \<Rightarrow>
         bindE (on_store (mutate_budget (tb_workflow_id tb) (tb_task_id tb)
                  (release_mutation tb plan timestamp) timestamp)) (\<lambda>_.
         set_held None))"

section \<open>Binding a task to its budget\<close>

definition canonical_ref :: "resource_ref \<Rightarrow> string" where
  "canonical_ref r = ref_kind r @ ''|'' @ ref_name r @ ''|'' @ ref_version r"

definition without_resolution_time :: "json \<Rightarrow> exn + json" where
  "without_resolution_time value =
     (if is_mapping value then Inr (JObj (filter (\<lambda>(k, v). k \<noteq> ''resolvedAt'') (as_dict value)))
      else Inl (Exn (OtherException ''AttributeError'') ''object has no attribute items'' JNull))"

text \<open>The evidence of one object: written once, and afterwards only checked.\<close>

definition budget_evidence_change :: "string \<Rightarrow> dict \<Rightarrow> dict \<Rightarrow> exn + dict" where
  "budget_evidence_change kind_name object expected =
     (let existing = dget object ''executionBudget'' in
      if existing = JNull then Inr [(''executionBudget'', JObj expected)]
      else bindR (without_resolution_time existing) (\<lambda>e.
           bindR (without_resolution_time (JObj expected)) (\<lambda>x.
           if py_eq e x then Inr []
           else Inl (Exn ExecutionBudgetContractError
                  (kind_name @ ''.executionBudget does not match the resolved execution budget'') JNull))))"

definition evidence_mutation :: "resolved_budget \<Rightarrow> string \<Rightarrow> dict \<Rightarrow> dict \<Rightarrow> exn + (dict \<times> dict) \<times> unit" where
  "evidence_mutation rb timestamp workflow task =
     bindR (budget_evidence_change ''WorkflowExecution'' workflow (workflow_budget_record rb timestamp)) (\<lambda>w.
     bindR (budget_evidence_change ''TaskExecution'' task (task_budget_record rb timestamp)) (\<lambda>t.
     Inr ((w, t), ())))"

text \<open>\<open>_resource\<close>: no resource for a reference that is none.\<close>

definition referenced_resource :: "collection \<Rightarrow> json \<Rightarrow> resource option" where
  "referenced_resource resources ref =
     (if \<not> is_mapping ref then None
      else case ref_from_mapping (as_dict ref) of Inl e \<Rightarrow> None | Inr r \<Rightarrow> collection_get resources r)"

definition resource_spec :: "resource \<Rightarrow> dict" where
  "resource_spec r = as_dict (dget (res_data r) ''spec'')"

definition prepare_budget ::
  "('s, unit) budget_mutation \<Rightarrow> collection \<Rightarrow> string \<Rightarrow> dict \<Rightarrow> dict \<Rightarrow> resource \<Rightarrow> resource \<Rightarrow> resource
   \<Rightarrow> ('s, task_budget option) eff" where
  "prepare_budget mutate_budget resources timestamp workflow_execution task_execution task agent model =
     (let workflow_spec = (case referenced_resource resources (dget workflow_execution ''workflowRef'') of
            None \<Rightarrow> [] | Some r \<Rightarrow> resource_spec r);
          model_spec = resource_spec model in
      bindE (liftR (resolve_execution_budget (dget workflow_spec ''budget'') (dget (resource_spec task) ''budget'')
               (dget (resource_spec agent) ''budget'') (dget workflow_execution ''budgetOverrides'')
               (case reference_record (dget workflow_execution ''workflowRef'') of None \<Rightarrow> JNull | Some r \<Rightarrow> JObj r)
               (ref_record (res_ref task)) (ref_record (res_ref agent))
               (dget model_spec ''tokenLimit'') (dget model_spec ''pricing''))) (\<lambda>rb.
      if \<not> has_limits rb then ret None
      else bindE (liftR (getitem workflow_execution ''id'')) (\<lambda>workflow_id.
        bindE (liftR (getitem task_execution ''id'')) (\<lambda>task_id.
        thenE (mutate_budget (py_str workflow_id) (py_str task_id) (evidence_mutation rb timestamp) timestamp)
        (ret (Some \<lparr>tb_workflow_id = py_str workflow_id, tb_task_id = py_str task_id,
           tb_task_key = canonical_ref (res_ref task), tb_agent_key = canonical_ref (res_ref agent),
           tb_resolved = rb, tb_provider = py_str (dget_or model_spec ''provider'' (JStr [])),
           tb_model = py_str (dget_or model_spec ''model'' (JStr []))\<rparr>))))))"


section \<open>Evidence for inspection\<close>

definition evidence_remaining :: "string \<Rightarrow> dict \<Rightarrow> json \<Rightarrow> json \<Rightarrow> exn + json" where
  "evidence_remaining field rule used held =
     bindR (num_float (dget_or rule ''value'' (JInt 0))) (\<lambda>v.
     bindR (num_float used) (\<lambda>u.
     bindR (num_float held) (\<lambda>h.
     let left = fp_sub (fp_sub v u) h in
     bindR (if field = ''maxCostUsd'' then normalized_cost left else Inr (py_round12 left)) (\<lambda>r. Inr (JFloat r)))))"

definition budget_evidence :: "json \<Rightarrow> json \<Rightarrow> exn + dict" where
  "budget_evidence recorded_limits recorded_consumption =
     (let rules = (if is_mapping recorded_limits then as_dict recorded_limits else []);
          consumption = (if is_mapping recorded_consumption then as_dict recorded_consumption else []);
          blocked = dget consumption ''blockedDecision'' in
      bindR (mapR (\<lambda>field. let rule = as_dict (dget rules field); (used_key, held_key) = consumption_fields field;
                               used = dget_or consumption used_key (JInt 0); held = dget_or consumption held_key (JInt 0) in
               bindR (evidence_remaining field rule used held) (\<lambda>left. Inr (field, JObj rule, used, held, left)))
             (filter (\<lambda>field. is_mapping (dget rules field)) budget_fields)) (\<lambda>rows.
      Inr [(''configuredLimits'', JObj (map (\<lambda>(f, l, u, h, r). (f, l)) rows)),
           (''consumed'', JObj (map (\<lambda>(f, l, u, h, r). (f, u)) rows)),
           (''reserved'', JObj (map (\<lambda>(f, l, u, h, r). (f, h)) rows)),
           (''remaining'', JObj (map (\<lambda>(f, l, u, h, r). (f, r)) rows)),
           (''costStatus'', dget_or consumption ''costStatus'' (JStr ''UNAVAILABLE'')),
           (''overrun'', JBool (truthy (dget_or consumption ''overrun'' (JBool False)))),
           (''blockedReason'', dget consumption ''blockedReason''),
           (''blockedDecision'', if is_mapping blocked then blocked else JNull),
           (''lastProvider'', dget consumption ''lastProvider''), (''lastModel'', dget consumption ''lastModel''),
           (''startedAt'', dget consumption ''startedAt''), (''updatedAt'', dget consumption ''updatedAt'')]))"

end
