(* ===== verification/BudgetSafety.thy ===== *)
theory BudgetSafety
  imports BudgetLedger Samples
begin

text \<open>
  What the ledger of \<open>BudgetLedger\<close> guarantees: a reservation that preflight grants fits the integer limits
  of every scope it charges, a refused one charges none, and a release takes back what was held.
\<close>

section \<open>A reservation fits\<close>

text \<open>Within the integer limits of its scope.\<close>

definition fits :: "limits \<Rightarrow> consumption \<Rightarrow> bool" where
  "fits ls c \<longleftrightarrow> (\<forall>field used held limit. (field, used, held) \<in> set counters \<longrightarrow>
     limit_of ls field = Some limit \<longrightarrow> of_int (used c + held c) \<le> num_rat (bl_value limit))"

text \<open>Limits as resolution makes them: those of the counters are integers.\<close>

definition integer_limits :: "resolved_budget \<Rightarrow> bool" where
  "integer_limits rb \<longleftrightarrow> (\<forall>ls \<in> {rb_workflow rb, rb_task rb, rb_agent rb}. \<forall>field \<in> fst ` set counters.
     \<forall>limit. limit_of ls field = Some limit \<longrightarrow> is_int (bl_value limit))"

lemma first_block_None: "first_block cs = Inr None \<longleftrightarrow> (\<forall>c \<in> set cs. c () = Inr None)"
  by (induction cs) (auto simp: bindR_eq_Inr split: option.splits)

lemma check_counter_None:
  "check_counter name ls c estimated now (field, used, held) = Inr None \<Longrightarrow> limit_of ls field = Some limit
   \<Longrightarrow> of_int (used c + held c + (if field = ''maxInputTokens'' then estimated else 1)) \<le> num_rat (bl_value limit)"
  by (auto simp: check_counter_def Let_def bindR_eq_Inr split: if_splits)

lemma evaluate_None:
  assumes "evaluate_state env rb st estimated now = Inr None" "(name, ls, c) \<in> set (state_scopes rb st)"
    and "(field, used, held) \<in> set counters" "limit_of ls field = Some limit"
  shows "of_int (used c + held c + (if field = ''maxInputTokens'' then estimated else 1)) \<le> num_rat (bl_value limit)"
proof -
  have "check_scope env name ls c estimated now (rb_pricing rb) = Inr None"
    using assms(1,2) unfolding evaluate_state_def first_block_None by fastforce
  then have "check_counter name ls c estimated now (field, used, held) = Inr None"
    using assms(3) by (auto simp: check_scope_def Let_def bindR_eq_Inr first_block_None split: if_splits)
  from check_counter_None[OF this assms(4)] show ?thesis .
qed

lemma map_filter_id: "set (List.map_filter id xs) = {n. Some n \<in> set xs}"
  by (induction xs) (auto simp: List.map_filter_simps split: option.splits)

lemma foldl_min: "foldl min (n :: int) ns \<in> set (n # ns) \<and> (\<forall>k \<in> set (n # ns). foldl min n ns \<le> k)"
  by (induction ns arbitrary: n) (auto simp: min_def split: if_splits, (meson order_trans linear)+)

lemma least_int_cases:
  "case least_int xs of None \<Rightarrow> {n. Some n \<in> set xs} = {}
   | Some m \<Rightarrow> Some m \<in> set xs \<and> (\<forall>k. Some k \<in> set xs \<longrightarrow> m \<le> k)"
proof (cases "List.map_filter id xs")
  case Nil
  with map_filter_id[of xs] show ?thesis by (simp add: least_int_def)
next
  case (Cons n ns)
  have "{k. Some k \<in> set xs} = set (n # ns)" using map_filter_id[of xs] Cons by simp
  with foldl_min[of n ns] Cons show ?thesis by (auto simp: least_int_def)
qed

text \<open>What remains is at most what any scope leaves, and at least what the check required.\<close>

lemma remaining_int_le:
  assumes "remaining_int (field, used, held) rb st = Some m" "(name, ls, c) \<in> set (state_scopes rb st)"
    and "limit_of ls field = Some limit"
  shows "m \<le> as_int (bl_value limit) - (used c + held c)"
proof -
  let ?f = "\<lambda>(_, ls, c). map_option (\<lambda>limit. as_int (bl_value limit) - (used c + held c)) (limit_of ls field)"
  have "Some (as_int (bl_value limit) - (used c + held c)) \<in> set (map ?f (state_scopes rb st))"
    using assms(2,3) by (force simp: image_iff)
  with least_int_cases[of "map ?f (state_scopes rb st)"] assms(1) show ?thesis
    by (simp add: remaining_int_def)
qed

lemma remaining_int_None:
  assumes "remaining_int (field, used, held) rb st = None" "(name, ls, c) \<in> set (state_scopes rb st)"
  shows "limit_of ls field = None"
proof (rule ccontr)
  assume "limit_of ls field \<noteq> None"
  then obtain limit where l: "limit_of ls field = Some limit" by blast
  let ?f = "\<lambda>(_, ls, c). map_option (\<lambda>limit. as_int (bl_value limit) - (used c + held c)) (limit_of ls field)"
  have "Some (as_int (bl_value limit) - (used c + held c)) \<in> set (map ?f (state_scopes rb st))"
    using assms(2) l by (force simp: image_iff)
  with least_int_cases[of "map ?f (state_scopes rb st)"] assms(1) show False
    by (simp only: remaining_int_def Let_def prod.case option.case) blast
qed

lemma scope_limits: "(name, ls, c) \<in> set (state_scopes rb st) \<Longrightarrow> ls \<in> {rb_workflow rb, rb_task rb, rb_agent rb}"
  by (auto simp: state_scopes_def)

lemma integer_limit:
  assumes "integer_limits rb" "(name, ls, c) \<in> set (state_scopes rb st)" "limit_of ls field = Some limit"
    and "field \<in> fst ` set counters"
  shows "num_rat (bl_value limit) = of_int (as_int (bl_value limit))"
proof -
  have "is_int (bl_value limit)" using assms scope_limits unfolding integer_limits_def by blast
  then show ?thesis by (cases "bl_value limit") simp_all
qed

lemma remaining_int_ge:
  assumes e: "evaluate_state env rb st estimated now = Inr None" and i: "integer_limits rb"
    and f: "(field, used, held) \<in> set counters" and m: "remaining_int (field, used, held) rb st = Some m"
  shows "(if field = ''maxInputTokens'' then estimated else 1) \<le> m"
proof -
  let ?f = "\<lambda>(_, ls, c). map_option (\<lambda>limit. as_int (bl_value limit) - (used c + held c)) (limit_of ls field)"
  have "Some m \<in> set (map ?f (state_scopes rb st))"
    using least_int_cases[of "map ?f (state_scopes rb st)"] m by (simp add: remaining_int_def)
  then obtain name ls c limit where s: "(name, ls, c) \<in> set (state_scopes rb st)" "limit_of ls field = Some limit"
      "m = as_int (bl_value limit) - (used c + held c)" by (auto dest: sym)
  have "field \<in> fst ` set counters" using f by force
  from evaluate_None[OF e s(1) f s(2)] integer_limit[OF i s(1,2) this] s(3) show ?thesis
    by (simp flip: of_int_add split: if_splits)
qed

text \<open>A plan that fits what remains of the counters.\<close>

definition plan_fits :: "resolved_budget \<Rightarrow> ledger_state \<Rightarrow> int \<Rightarrow> int \<times> int option \<Rightarrow> bool" where
  "plan_fits rb st estimated plan \<longleftrightarrow> (let (attempts, out) = plan in
     1 \<le> attempts
     \<and> (\<forall>m. remaining_invocations rb st = Some m \<longrightarrow> attempts \<le> m)
     \<and> (\<forall>m. remaining_input rb st = Some m \<longrightarrow> estimated * attempts \<le> m)
     \<and> (\<forall>m. remaining_output rb st = Some m \<longrightarrow> attempts \<le> m \<and> (\<exists>n. out = Some n \<and> 1 \<le> n \<and> n * attempts \<le> m)))"

lemma capped_output_fits:
  assumes "1 \<le> attempts" "attempts \<le> left"
  shows "1 \<le> capped_output configured left attempts \<and> capped_output configured left attempts * attempts \<le> left"
proof -
  have q: "1 \<le> left div attempts" using assms zdiv_mono1[of attempts left attempts] by simp
  then have "capped_output configured left attempts \<le> left div attempts"
    by (auto simp: capped_output_def Let_def split: option.split)
  then have "capped_output configured left attempts * attempts \<le> left div attempts * attempts"
    using assms by (intro mult_right_mono) auto
  also have "\<dots> \<le> left" using div_mult_mod_eq[of left attempts] pos_mod_sign[of attempts left] assms by linarith
  finally show ?thesis by (simp add: capped_output_def Let_def)
qed

lemma token_plan_fits:
  assumes e: "1 \<le> estimated"
    and r: "\<And>m. remaining_invocations rb st = Some m \<Longrightarrow> 1 \<le> m" "\<And>m. remaining_input rb st = Some m \<Longrightarrow> estimated \<le> m"
      "\<And>m. remaining_output rb st = Some m \<Longrightarrow> 1 \<le> m"
  shows "plan_fits rb st estimated (token_plan rb st estimated configured_output configured_attempts)"
proof -
  define a1 where "a1 = attempt_limit configured_attempts (remaining_invocations rb st)"
  define a2 where "a2 = (case remaining_input rb st of None \<Rightarrow> a1 | Some left \<Rightarrow> min a1 (max 1 (left div estimated)))"
  define a3 where "a3 = (case remaining_output rb st of None \<Rightarrow> a2 | Some left \<Rightarrow> min a2 (max 1 left))"
  have a1: "1 \<le> a1 \<and> (\<forall>m. remaining_invocations rb st = Some m \<longrightarrow> a1 \<le> m)"
    using r(1) by (auto simp: a1_def attempt_limit_def Let_def split: option.split)
  have a2: "1 \<le> a2 \<and> a2 \<le> a1 \<and> (\<forall>m. remaining_input rb st = Some m \<longrightarrow> estimated * a2 \<le> m)"
  proof (cases "remaining_input rb st")
    case (Some m)
    have "1 \<le> m div estimated" using e r(2)[OF Some] zdiv_mono1[of estimated m estimated] by simp
    then have "a2 \<le> m div estimated" by (simp add: a2_def Some)
    then have "estimated * a2 \<le> estimated * (m div estimated)" using e by (intro mult_left_mono) auto
    also have "\<dots> \<le> m" using mult_div_mod_eq[of estimated m] pos_mod_sign[of estimated m] e by linarith
    finally show ?thesis using a1 Some by (simp add: a2_def)
  qed (use a1 in \<open>simp add: a2_def\<close>)
  have a3: "1 \<le> a3 \<and> a3 \<le> a2 \<and> (\<forall>m. remaining_output rb st = Some m \<longrightarrow> a3 \<le> m)"
    using a2 r(3) by (auto simp: a3_def split: option.split)
  have "estimated * a3 \<le> estimated * a2" using a3 e by (intro mult_left_mono) auto
  then have fit: "\<forall>m. remaining_input rb st = Some m \<longrightarrow> estimated * a3 \<le> m" using a2 by fastforce
  have "token_plan rb st estimated configured_output configured_attempts
      = (a3, case remaining_output rb st of None \<Rightarrow> configured_output
             | Some left \<Rightarrow> Some (capped_output configured_output left a3))"
    unfolding token_plan_def Let_def a1_def[symmetric] a2_def[symmetric] a3_def[symmetric] ..
  then show ?thesis
    using a1 a2 a3 fit capped_output_fits[of a3] by (auto simp: plan_fits_def split: option.split)
qed

lemma fit_cost_fits:
  assumes "fit_cost n pricing estimated configured (remaining_output rb st) left_cost plan = Inr plan'"
    and "plan_fits rb st estimated plan" "1 \<le> estimated"
  shows "plan_fits rb st estimated plan'"
  using assms(1,2)
proof (induction n arbitrary: plan)
  case (Suc n)
  obtain attempts out where p: "plan = (attempts, out)" by (cases plan)
  note step = Suc.prems(1)[unfolded p fit_cost.simps bindR_eq_Inr]
  then obtain cost where c: "estimate_cost pricing estimated (or_one out) = Inr cost"
    and rest: "(if \<not> fp_lt (Finite 0) cost then Inr (attempts, out)
      else bindR (cost_floor_div left_cost cost) (\<lambda>by_cost. if attempts \<le> by_cost then Inr (attempts, out)
        else let attempts' = max 1 by_cost; out' = (case remaining_output rb st of None \<Rightarrow> out
             | Some left \<Rightarrow> Some (capped_output configured left attempts'))
        in fit_cost n pricing estimated configured (remaining_output rb st) left_cost (attempts', out'))) = Inr plan'"
    by blast
  show ?case
  proof (cases "plan' = plan")
    case False
    then obtain by_cost where b: "\<not> attempts \<le> by_cost"
      and r: "fit_cost n pricing estimated configured (remaining_output rb st) left_cost (max 1 by_cost,
          case remaining_output rb st of None \<Rightarrow> out
          | Some left \<Rightarrow> Some (capped_output configured left (max 1 by_cost))) = Inr plan'"
      using rest p by (auto simp: bindR_eq_Inr Let_def split: if_splits)
    have le: "max 1 by_cost \<le> attempts" "1 \<le> max 1 by_cost"
      using b Suc.prems(2) by (auto simp: plan_fits_def p)
    have "estimated * max 1 by_cost \<le> estimated * attempts" using le assms(3) by (intro mult_left_mono) auto
    with le Suc.prems(2) have "plan_fits rb st estimated (max 1 by_cost,
          case remaining_output rb st of None \<Rightarrow> out
          | Some left \<Rightarrow> Some (capped_output configured left (max 1 by_cost)))"
      using capped_output_fits[of "max 1 by_cost"] unfolding plan_fits_def p
      by (fastforce split: option.split)
    from Suc.IH[OF r this] show ?thesis .
  qed (use Suc.prems(2) in simp)
qed simp


lemma cost_plan_fits:
  assumes c: "cost_plan rb st estimated configured plan = Inr plan'" and p: "plan_fits rb st estimated plan" "1 \<le> estimated"
  shows "plan_fits rb st estimated plan'"
proof -
  obtain left_cost where l: "remaining_cost rb st = Inr left_cost"
    using c by (auto simp: cost_plan_def bindR_eq_Inr)
  show ?thesis
  proof (cases "left_cost = None \<or> rb_pricing rb = None")
    case True
    then have "plan' = plan" using c by (auto simp: cost_plan_def l split: option.splits)
    with p show ?thesis by simp
  next
    case False
    then obtain left pricing where some: "left_cost = Some left" "rb_pricing rb = Some pricing" by auto
    with c l obtain plan'' where q: "fit_cost 3 pricing estimated configured (remaining_output rb st) left plan'' = Inr plan'"
        "plan'' = plan \<or> (remaining_output rb st = None \<and> fst plan'' = fst plan)"
      by (auto simp: cost_plan_def bindR_eq_Inr split: if_splits)
    from q(2) p(1) have "plan_fits rb st estimated plan''" by (auto simp: plan_fits_def)
    from fit_cost_fits[OF q(1) this p(2)] show ?thesis .
  qed
qed

text \<open>The reservation of a plan that was made after the check of all scopes.\<close>

lemma make_plan_fits:
  assumes e: "evaluate_state env rb st estimated now = Inr None" and i: "integer_limits rb" and pos: "1 \<le> estimated"
    and m: "make_plan rb st estimated configured_output configured_attempts = Inr plan"
    and s: "(name, ls, c) \<in> set (state_scopes rb st)"
  shows "1 \<le> rp_attempts plan \<and> fits ls (hold plan estimated now c)"
proof -
  have f: "plan_fits rb st estimated (token_plan rb st estimated configured_output configured_attempts)"
    using remaining_int_ge[OF e i, of "''maxModelInvocations''" cn_invocations cn_held_invocations]
      remaining_int_ge[OF e i, of "''maxInputTokens''" cn_input cn_held_input]
      remaining_int_ge[OF e i, of "''maxOutputTokens''" cn_output cn_held_output]
    by (intro token_plan_fits[OF pos])
      (auto simp: counters_def remaining_invocations_def remaining_input_def remaining_output_def)
  obtain attempts out cost where
    cp: "cost_plan rb st estimated configured_output
           (token_plan rb st estimated configured_output configured_attempts) = Inr (attempts, out)"
    and plan: "plan = \<lparr>rp_attempts = attempts, rp_output = out, rp_input = estimated * attempts,
      rp_held_output = (if remaining_output rb st \<noteq> None then (case out of None \<Rightarrow> 0 | Some n \<Rightarrow> n) * attempts else 0),
      rp_cost = cost\<rparr>"
    using m unfolding make_plan_def Let_def bindR_eq_Inr prod.case_distrib[of "\<lambda>r. r = Inr _"]
    by (auto simp: bindR_eq_Inr split: prod.splits)
  note p = cost_plan_fits[OF cp f pos]
  have rp: "rp_attempts plan = attempts" "rp_input plan = estimated * attempts"
      "rp_held_output plan = (if remaining_output rb st \<noteq> None then (case out of None \<Rightarrow> 0 | Some n \<Rightarrow> n) * attempts else 0)"
    by (simp_all add: plan)
  have "of_int (used (hold plan estimated now c) + held (hold plan estimated now c)) \<le> num_rat (bl_value limit)"
    if k: "(field, used, held) \<in> set counters" and l: "limit_of ls field = Some limit" for field used held limit
  proof -
    have "field \<in> fst ` set counters" using k by force
    note v = integer_limit[OF i s l this]
    obtain m where r: "remaining_int (field, used, held) rb st = Some m" "m \<le> as_int (bl_value limit) - (used c + held c)"
      using remaining_int_None[OF _ s] remaining_int_le[OF _ s l] l by (metis not_Some_eq option.distinct(1))
    consider "(field, used, held) = (''maxModelInvocations'', cn_invocations, cn_held_invocations)"
      | "(field, used, held) = (''maxInputTokens'', cn_input, cn_held_input)"
      | "(field, used, held) = (''maxOutputTokens'', cn_output, cn_held_output)"
      using k by (auto simp: counters_def)
    then have "used (hold plan estimated now c) + held (hold plan estimated now c) \<le> as_int (bl_value limit)"
      using p rp r by cases
        (auto simp: plan_fits_def hold_def remaining_invocations_def remaining_input_def remaining_output_def)
    then show ?thesis by (simp add: v flip: of_int_add)
  qed
  moreover have "1 \<le> rp_attempts plan" using p rp by (simp add: plan_fits_def)
  ultimately show ?thesis by (auto simp: fits_def)
qed

text \<open>Resolution gives integer limits.\<close>

lemma resolved_integer_limits:
  assumes "resolve_execution_budget w t a e wr tr ar tok pr = Inr rb"
  shows "integer_limits rb"
proof -
  have valid: "valid_budget w" "valid_budget t" "valid_budget a" "valid_budget e"
    using assms by (auto simp: resolve_execution_budget_def bindR_eq_Inr declared_limits_Inr)
  have int: "is_int v" if "tightest vs (Some l)" "bl_value l = v" "field \<in> fst ` set counters"
      "set vs \<subseteq> {mget w field, mget e field, mget t field, mget a field}" for v vs l field
  proof -
    have "v \<in> set vs" "v \<noteq> JNull" using that by (auto simp: tightest_def Let_def)
    moreover have "field \<in> set budget_fields" "field \<noteq> ''maxCostUsd''"
      using that(3) by (auto simp: counters_def budget_fields_def)
    moreover have null: "mget JNull field = JNull" by (simp add: mget_def dget_Nil)
    ultimately show ?thesis using valid that(4) unfolding valid_budget_def valid_limit_def by (smt (verit) empty_iff insertE subsetD)
  qed
  show ?thesis
    unfolding integer_limits_def
  proof (intro ballI allI impI)
    fix ls field limit
    assume a: "ls \<in> {rb_workflow rb, rb_task rb, rb_agent rb}" "field \<in> fst ` set counters" "limit_of ls field = Some limit"
    then have "field \<in> set budget_fields" by (auto simp: counters_def budget_fields_def)
    from resolve_execution_budget_Inr[OF assms this] a show "is_int (bl_value limit)"
      using int[of _ limit, OF _ refl a(2)] by fastforce
  qed
qed


section \<open>The ledger in the store\<close>

text \<open>What an entry counts, without the keys beside the counters and costs.\<close>

definition amounts :: "consumption \<Rightarrow> consumption" where
  "amounts c = c\<lparr>cn_rest := []\<rparr>"

lemma amounts_eq:
  "amounts c = amounts c' \<longleftrightarrow> cn_invocations c = cn_invocations c' \<and> cn_input c = cn_input c' \<and> cn_output c = cn_output c'
     \<and> cn_held_invocations c = cn_held_invocations c' \<and> cn_held_input c = cn_held_input c'
     \<and> cn_held_output c = cn_held_output c' \<and> cn_elapsed c = cn_elapsed c' \<and> cn_cost c = cn_cost c'
     \<and> cn_held_cost c = cn_held_cost c'"
  by (cases c, cases c') (auto simp: amounts_def)

lemma amounts_rest [simp]: "amounts (cn_rest_update f c) = amounts c"
  by (simp add: amounts_eq)

lemma amounts_idem [simp]: "amounts (amounts c) = amounts c"
  by (simp add: amounts_def)

lemma fits_amounts: "amounts c = amounts c' \<Longrightarrow> fits ls c \<longleftrightarrow> fits ls c'"
  by (auto simp: fits_def counters_def amounts_eq)

text \<open>A written entry reads back with the amounts it was written with.\<close>

lemma consumption_written:
  "\<exists>c'. consumption_record (JObj (consumption_dict c)) started provider model = Inr c' \<and> amounts c' = amounts c"
  by (simp add: consumption_record_def Let_def consumption_dict_def read_counter_def read_cost_def amounts_eq)

abbreviation same_amounts :: "ledger_state \<Rightarrow> ledger_state \<Rightarrow> bool" where
  "same_amounts st st' \<equiv> map_state amounts st = map_state amounts st'"

lemma changes_workflow:
  assumes "changes_for_state tb workflow st decision = (wc, tc)"
  shows "mget (dget wc ''budgetConsumption'') ''workflow'' = JObj (consumption_dict (ls_workflow st))"
    "mget (mget (dget wc ''budgetConsumption'') ''tasks'') (tb_task_key tb) = JObj (consumption_dict (ls_task st))"
    "mget (mget (dget wc ''budgetConsumption'') ''agents'') (tb_agent_key tb) = JObj (consumption_dict (ls_agent st))"
    "wc = [(''budgetConsumption'', dget wc ''budgetConsumption'')]" "fst ` set tc \<subseteq> {''budgetConsumption'', ''budgetDecision''}"
  using assms
  by (auto simp: changes_for_state_def Let_def mget_def dict_simps split: option.splits)

lemma load_written:
  assumes "changes_for_state tb before st decision = (wc, tc)"
    and "dget workflow ''budgetConsumption'' = dget wc ''budgetConsumption''"
  shows "\<exists>st'. load_state tb workflow task now = Inr st' \<and> same_amounts st' st"
proof -
  note read = consumption_written[of "ls_workflow st" "first_time workflow now" "tb_provider tb" "tb_model tb"]
    consumption_written[of "ls_task st" "first_time task now" "tb_provider tb" "tb_model tb"]
    consumption_written[of "ls_agent st" "first_time task now" "tb_provider tb" "tb_model tb"]
  then show ?thesis
    by (auto simp: load_state_def Let_def assms(2) changes_workflow(1-3)[OF assms(1)] map_state_def)
qed

text \<open>The two executions a budget mutation needs.\<close>

definition running_pair :: "store \<Rightarrow> string \<Rightarrow> string \<Rightarrow> dict \<Rightarrow> dict \<Rightarrow> bool" where
  "running_pair s w t workflow task \<longleftrightarrow> map_of (objects s) w = Some workflow \<and> map_of (objects s) t = Some task
     \<and> dget workflow ''kind'' = JStr ''WorkflowExecution'' \<and> dget workflow ''status'' = JStr ''RUNNING''
     \<and> dget task ''kind'' = JStr ''TaskExecution'' \<and> dget task ''status'' = JStr ''RUNNING''
     \<and> dget task ''workflowExecutionId'' = JStr w"

lemma mem_update_running:
  "mem_update_status wall oid ''RUNNING'' (Some ''RUNNING'') u ch s = (Inr v', t) \<longleftrightarrow>
     (\<exists>v. map_of (objects s) oid = Some v \<and> protected_changes v ch = [] \<and> dget v ''status'' = JStr ''RUNNING''
        \<and> v' = status_updated v ''RUNNING'' (case u of None \<Rightarrow> wall | Some t \<Rightarrow> if t = [] then wall else t) ch
        \<and> t = s\<lparr>objects := dput oid v' (objects s)\<rparr>)"
  by (auto simp: mem_update_status_def Let_def success_iffs require_def save_def terminal_statuses_def
      in_strs_def split: option.splits if_splits)


lemma budget_changes_unprotected:
  assumes "fst ` set ch \<subseteq> {''budgetConsumption'', ''budgetDecision''}"
  shows "protected_changes v ch = []"
proof -
  have "\<not> dhas ch f" if "f \<notin> {''budgetConsumption'', ''budgetDecision''}" for f
    using assms that unfolding dhas_def by auto
  then show ?thesis
    by (auto simp: protected_changes_def Let_def runtime_identity_fields_def status_managed_fields_def
        kind_identity_fields_def kind_write_once_fields_def filter_empty_conv)
qed

abbreviation written_at :: "string \<Rightarrow> string \<Rightarrow> string" where
  "written_at wall u \<equiv> if u = [] then wall else u"

text \<open>A budget mutation on the store: when it goes through, and what it leaves.\<close>

lemma mem_mutate_ledger:
  assumes ch: "fst ` set wc \<subseteq> {''budgetConsumption'', ''budgetDecision''}"
      "fst ` set tc \<subseteq> {''budgetConsumption'', ''budgetDecision''}"
    and pair: "running_pair s w t workflow task" and f: "change workflow task = Inr ((wc, tc), out)"
  shows "\<exists>uw ut. mem_mutate_execution_budget wall w t change u s
      = (Inr ((uw, ut), out), s\<lparr>objects := dput t ut (dput w uw (objects s))\<rparr>)
    \<and> uw = status_updated workflow ''RUNNING'' (written_at wall u) wc
    \<and> ut = status_updated task ''RUNNING'' (written_at wall u) tc"
proof -
  note free = budget_changes_unprotected[OF ch(1)] budget_changes_unprotected[OF ch(2)]
  have ne: "w \<noteq> t" using pair by (auto simp: running_pair_def)
  define uw ut where "uw = status_updated workflow ''RUNNING'' (written_at wall u) wc"
    and "ut = status_updated task ''RUNNING'' (written_at wall u) tc"
  have "mem_update_status wall w ''RUNNING'' (Some ''RUNNING'') (Some u) wc s
      = (Inr uw, s\<lparr>objects := dput w uw (objects s)\<rparr>)"
    using pair free unfolding mem_update_running by (simp add: running_pair_def uw_def)
  moreover have "mem_update_status wall t ''RUNNING'' (Some ''RUNNING'') (Some u) tc (s\<lparr>objects := dput w uw (objects s)\<rparr>)
      = (Inr ut, s\<lparr>objects := dput t ut (dput w uw (objects s))\<rparr>)"
    using pair free ne unfolding mem_update_running by (simp add: running_pair_def ut_def map_of_dput)
  ultimately show ?thesis
    using pair f
    by (simp add: mem_mutate_execution_budget_def running_pair_def eff_simps require_def uw_def ut_def)
qed

lemma mem_mutate_Inr:
  assumes "mem_mutate_execution_budget wall w t change u s = (Inr (updated, out), s')"
  shows "\<exists>workflow task changes. running_pair s w t workflow task \<and> change workflow task = Inr (changes, out)"
  using assms
  by (auto simp: mem_mutate_execution_budget_def running_pair_def eff_simps require_def split: option.splits if_splits
      sum.splits prod.splits)

lemma mem_mutate_Inl:
  "mem_mutate_execution_budget wall w t change u s = (Inl e, s') \<Longrightarrow> s' = s"
  by (simp add: mem_mutate_execution_budget_def eff_simps split: prod.splits sum.splits)

lemma dget_status_updated_other:
  "f \<notin> fst ` set ch \<Longrightarrow> f \<notin> set status_managed_fields \<Longrightarrow> dget (status_updated v st now ch) f = dget v f"
  by (simp add: dget_def map_of_status_updated_other dhas_def)

lemma dget_budget_updated:
  "fst ` set ch \<subseteq> {''budgetConsumption'', ''budgetDecision''}
   \<Longrightarrow> f \<notin> {''budgetConsumption'', ''budgetDecision''} \<union> set status_managed_fields
   \<Longrightarrow> dget (status_updated v st now ch) f = dget v f"
  by (rule dget_status_updated_other) blast+

lemma running_pair_kept:
  assumes "running_pair s w t workflow task"
    and "fst ` set wc \<subseteq> {''budgetConsumption'', ''budgetDecision''}" "fst ` set tc \<subseteq> {''budgetConsumption'', ''budgetDecision''}"
    and "uw = status_updated workflow ''RUNNING'' now wc" "ut = status_updated task ''RUNNING'' now tc"
  shows "running_pair (s\<lparr>objects := dput t ut (dput w uw (objects s))\<rparr>) w t uw ut"
proof -
  have "w \<noteq> t" using assms(1) by (auto simp: running_pair_def)
  then show ?thesis
    using assms(1) dget_budget_updated[OF assms(2)] dget_budget_updated[OF assms(3)] unfolding assms(4,5)
    by (simp add: running_pair_def map_of_dput status_managed_fields_def)
qed

lemma dget_status_updated_ledger:
  "dget (status_updated v ''RUNNING'' now [(''budgetConsumption'', l)]) ''budgetConsumption'' = l"
  by (simp add: status_updated_def terminal_statuses_def dget_dput)


text \<open>The amounts of the ledger entries an invocation of a task charges, as the store has them.\<close>

definition ledger_of :: "store \<Rightarrow> task_budget \<Rightarrow> ledger_state option" where
  "ledger_of s tb =
     (case (map_of (objects s) (tb_workflow_id tb), map_of (objects s) (tb_task_id tb)) of
        (Some workflow, Some task) \<Rightarrow>
          (case load_state tb workflow task [] of Inr st \<Rightarrow> Some (map_state amounts st) | Inl _ \<Rightarrow> None)
      | _ \<Rightarrow> None)"

lemma map_state_map_state: "map_state f (map_state g st) = map_state (f \<circ> g) st"
  by (simp add: map_state_def)

lemma consumption_record_any:
  assumes "consumption_record v a p m = Inr c"
  shows "\<exists>c'. consumption_record v a' p m = Inr c' \<and> amounts c' = amounts c"
  using assms by (auto simp: consumption_record_def Let_def bindR_eq_Inr amounts_eq)

lemma load_state_any:
  assumes "load_state tb workflow task now = Inr st"
  shows "\<exists>st'. load_state tb workflow task now' = Inr st' \<and> same_amounts st' st"
proof -
  from assms obtain w t a where
    "consumption_record (mget (dget workflow ''budgetConsumption'') ''workflow'') (first_time workflow now)
       (tb_provider tb) (tb_model tb) = Inr w"
    "consumption_record (mget (mget (dget workflow ''budgetConsumption'') ''tasks'') (tb_task_key tb)) (first_time task now)
       (tb_provider tb) (tb_model tb) = Inr t"
    "consumption_record (mget (mget (dget workflow ''budgetConsumption'') ''agents'') (tb_agent_key tb)) (first_time task now)
       (tb_provider tb) (tb_model tb) = Inr a" and st: "st = \<lparr>ls_workflow = w, ls_task = t, ls_agent = a\<rparr>"
    by (auto simp: load_state_def Let_def bindR_eq_Inr)
  then obtain w' t' a' where
    "consumption_record (mget (dget workflow ''budgetConsumption'') ''workflow'') (first_time workflow now')
       (tb_provider tb) (tb_model tb) = Inr w'" "amounts w' = amounts w"
    "consumption_record (mget (mget (dget workflow ''budgetConsumption'') ''tasks'') (tb_task_key tb)) (first_time task now')
       (tb_provider tb) (tb_model tb) = Inr t'" "amounts t' = amounts t"
    "consumption_record (mget (mget (dget workflow ''budgetConsumption'') ''agents'') (tb_agent_key tb)) (first_time task now')
       (tb_provider tb) (tb_model tb) = Inr a'" "amounts a' = amounts a"
    using consumption_record_any by metis
  then show ?thesis by (simp add: load_state_def Let_def st map_state_def)
qed

lemma ledger_of_load:
  assumes "running_pair s (tb_workflow_id tb) (tb_task_id tb) workflow task" "load_state tb workflow task now = Inr st"
  shows "ledger_of s tb = Some (map_state amounts st)"
  using assms load_state_any[OF assms(2), of "[]"] by (auto simp: ledger_of_def running_pair_def)

text \<open>A change of the ledger goes through on a running pair and leaves the amounts it computed.\<close>

lemma ledger_written:
  assumes pair: "running_pair s (tb_workflow_id tb) (tb_task_id tb) workflow task"
    and ch: "change workflow task = Inr (changes_for_state tb workflow st decision, out)"
  shows "\<exists>updated s'. mem_mutate_execution_budget wall (tb_workflow_id tb) (tb_task_id tb) change u s
      = (Inr (updated, out), s') \<and> ledger_of s' tb = Some (map_state amounts st)
    \<and> (\<exists>workflow' task'. running_pair s' (tb_workflow_id tb) (tb_task_id tb) workflow' task'
        \<and> (\<forall>now. \<exists>st'. load_state tb workflow' task' now = Inr st' \<and> same_amounts st' st))"
proof -
  obtain l tc where c: "changes_for_state tb workflow st decision = ([(''budgetConsumption'', l)], tc)"
    using changes_workflow(4)[of tb workflow st decision] by (metis surj_pair)
  define wc where "wc = [(''budgetConsumption'', l)]"
  note c = c[folded wc_def]
  note t = changes_workflow(5)[OF c]
  have wk: "fst ` set wc \<subseteq> {''budgetConsumption'', ''budgetDecision''}" by (simp add: wc_def)
  obtain uw ut where m: "mem_mutate_execution_budget wall (tb_workflow_id tb) (tb_task_id tb) change u s
      = (Inr ((uw, ut), out), s\<lparr>objects := dput (tb_task_id tb) ut (dput (tb_workflow_id tb) uw (objects s))\<rparr>)"
    and u: "uw = status_updated workflow ''RUNNING'' (written_at wall u) wc"
      "ut = status_updated task ''RUNNING'' (written_at wall u) tc"
    using mem_mutate_ledger[OF wk t pair, of change out wall u] ch[unfolded c] by blast
  define s' where "s' = s\<lparr>objects := dput (tb_task_id tb) ut (dput (tb_workflow_id tb) uw (objects s))\<rparr>"
  have p: "running_pair s' (tb_workflow_id tb) (tb_task_id tb) uw ut"
    unfolding s'_def by (rule running_pair_kept[OF pair wk t u])
  have "dget uw ''budgetConsumption'' = dget wc ''budgetConsumption''"
    by (simp add: u wc_def dget_status_updated_ledger dget_Cons)
  from load_written[OF c this] have l: "\<exists>st'. load_state tb uw ut now = Inr st' \<and> same_amounts st' st" for now .
  from l[of "[]"] ledger_of_load[OF p] have "ledger_of s' tb = Some (map_state amounts st)" by auto
  with m p l show ?thesis unfolding s'_def by blast
qed

lemma apply_block_decision_amounts: "apply_block_decision d st = Inr st' \<Longrightarrow> same_amounts st' st"
  by (auto simp: apply_block_decision_def Let_def bindR_eq_Inr update_scope_def map_state_def split: if_splits)

text \<open>What the mutation of a preflight computes.\<close>

lemma preflight_mutation_Inr:
  assumes "preflight_mutation env tb estimated output_limit attempts now workflow task = Inr (changes, outcome)"
  shows "\<exists>st. load_state tb workflow task now = Inr st \<and> (case outcome of
       Refused d \<Rightarrow> \<exists>st'. changes = changes_for_state tb workflow st' (Some d) \<and> same_amounts st' st
     | Reserved plan \<Rightarrow> changes = changes_for_state tb workflow (map_state (hold plan estimated now) st) None
         \<and> evaluate_state env (tb_resolved tb) st estimated now = Inr None
         \<and> make_plan (tb_resolved tb) st estimated output_limit attempts = Inr plan)"
  using assms
  by (auto simp: preflight_mutation_def Let_def bindR_eq_Inr split: option.splits if_splits
      dest!: apply_block_decision_amounts) blast+

definition refusal :: "dict \<Rightarrow> exn" where
  "refusal d = Exn ExecutionBudgetExceeded (py_str (dget_or d ''message'' (JStr ''BUDGET_EXHAUSTED''))) (JObj d)"

text \<open>A preflight: it raises with the store as it was, it is refused, or it reserves.\<close>

lemma preflight_outcomes:
  assumes "preflight env (mem_mutate_execution_budget wall) tb estimated output_limit attempts now (s, held) = (r, (s', held'))"
  obtains (raised) e where "r = Inl e" "s' = s" "held' = held"
  | (refused) d where "r = Inl (refusal d)" "held' = held" "ledger_of s' tb = ledger_of s tb"
  | (reserved) plan workflow task st workflow' task' where "r = Inr plan" "held' = Some plan"
    "running_pair s (tb_workflow_id tb) (tb_task_id tb) workflow task" "load_state tb workflow task now = Inr st"
    "evaluate_state env (tb_resolved tb) st (max 1 estimated) now = Inr None"
    "make_plan (tb_resolved tb) st (max 1 estimated) output_limit attempts = Inr plan"
    "ledger_of s tb = Some (map_state amounts st)"
    "ledger_of s' tb = Some (map_state amounts (map_state (hold plan (max 1 estimated) now) st))"
    "running_pair s' (tb_workflow_id tb) (tb_task_id tb) workflow' task'"
    "\<And>now'. \<exists>st'. load_state tb workflow' task' now' = Inr st' \<and> same_amounts st' (map_state (hold plan (max 1 estimated) now) st)"
proof -
  let ?change = "preflight_mutation env tb (max 1 estimated) output_limit attempts now"
  let ?m = "mem_mutate_execution_budget wall (tb_workflow_id tb) (tb_task_id tb) ?change now s"
  show ?thesis
  proof (cases "fst ?m")
    case (Inl e)
    then obtain u where u: "?m = (Inl e, u)" by (cases ?m) auto
    have "r = Inl e" "s' = u" "held' = held"
      using assms by (simp_all add: preflight_def on_store_def eff_simps u)
    with mem_mutate_Inl[OF u] show ?thesis by (intro raised) simp_all
  next
    case (Inr x)
    obtain updated outcome u where m: "?m = (Inr (updated, outcome), u)" using Inr by (cases ?m; cases x) auto
    then obtain workflow task changes where p: "running_pair s (tb_workflow_id tb) (tb_task_id tb) workflow task"
      and c: "?change workflow task = Inr (changes, outcome)"
      using mem_mutate_Inr[OF m] by blast
    from preflight_mutation_Inr[OF c] obtain st where l: "load_state tb workflow task now = Inr st"
      and o: "case outcome of
         Refused d \<Rightarrow> \<exists>st'. changes = changes_for_state tb workflow st' (Some d) \<and> same_amounts st' st
       | Reserved plan \<Rightarrow> changes = changes_for_state tb workflow (map_state (hold plan (max 1 estimated) now) st) None
           \<and> evaluate_state env (tb_resolved tb) st (max 1 estimated) now = Inr None
           \<and> make_plan (tb_resolved tb) st (max 1 estimated) output_limit attempts = Inr plan" by blast
    note before = ledger_of_load[OF p l]
    show ?thesis
    proof (cases outcome)
      case (Refused d)
      with o obtain st' where d: "changes = changes_for_state tb workflow st' (Some d)" "same_amounts st' st" by auto
      from ledger_written[where change = ?change, OF p c[unfolded d(1)], of wall now] m d(2) before
      have "ledger_of u tb = ledger_of s tb" by auto
      moreover have "r = Inl (refusal d)" "held' = held" "s' = u"
        using assms m Refused by (simp_all add: preflight_def on_store_def eff_simps refusal_def)
      ultimately show ?thesis by (intro refused) simp_all
    next
      case (Reserved plan)
      with o have d: "changes = changes_for_state tb workflow (map_state (hold plan (max 1 estimated) now) st) None"
        "evaluate_state env (tb_resolved tb) st (max 1 estimated) now = Inr None"
        "make_plan (tb_resolved tb) st (max 1 estimated) output_limit attempts = Inr plan" by auto
      have "r = Inr plan" "held' = Some plan" "u = s'"
        using assms m Reserved by (simp_all add: preflight_def on_store_def set_held_def eff_simps)
      moreover from ledger_written[where change = ?change, OF p c[unfolded d(1)], of wall now] m
      obtain workflow' task' where "ledger_of u tb = Some (map_state amounts (map_state (hold plan (max 1 estimated) now) st))"
        "running_pair u (tb_workflow_id tb) (tb_task_id tb) workflow' task'"
        "\<forall>now'. \<exists>st'. load_state tb workflow' task' now' = Inr st'
            \<and> same_amounts st' (map_state (hold plan (max 1 estimated) now) st)" by auto
      ultimately show ?thesis using reserved[OF _ _ p l d(2,3) before] by blast
    qed
  qed
qed


text \<open>A refused or failed preflight charges nothing.\<close>

lemma failed_preflight:
  assumes "preflight env (mem_mutate_execution_budget wall) tb estimated output_limit attempts now (s, held) = (Inl e, (s', held'))"
  shows "held' = held \<and> ledger_of s' tb = ledger_of s tb"
  using assms by (cases rule: preflight_outcomes) auto

lemma state_scopes_map_state:
  "state_scopes rb (map_state f st) = map (\<lambda>(name, ls, c). (name, ls, f c)) (state_scopes rb st)"
  by (simp add: state_scopes_def map_state_def)

lemma granted_preflight:
  assumes p: "preflight env (mem_mutate_execution_budget wall) tb estimated output_limit attempts now (s, held) = (Inr plan, (s', held'))"
    and i: "integer_limits (tb_resolved tb)"
  shows "held' = Some plan \<and> 1 \<le> rp_attempts plan
    \<and> (\<exists>st. ledger_of s' tb = Some st \<and> (\<forall>(name, ls, c) \<in> set (state_scopes (tb_resolved tb) st). fits ls c))"
  using p
proof (cases rule: preflight_outcomes)
  case (reserved plan' workflow task st workflow' task')
  then have plan: "plan' = plan" by simp
  note fit = make_plan_fits[OF reserved(5) i _ reserved(6)]
  have "fits ls c" if k: "(name, ls, c) \<in> set (state_scopes (tb_resolved tb)
      (map_state amounts (map_state (hold plan (max 1 estimated) now) st)))" for name ls c
  proof -
    obtain c' where "(name, ls, c') \<in> set (state_scopes (tb_resolved tb) st)"
      "c = amounts (hold plan (max 1 estimated) now c')"
      using k by (auto simp: state_scopes_map_state)
    with fit[of name ls c'] show ?thesis by (simp add: plan fits_amounts[OF amounts_idem])
  qed
  moreover have "1 \<le> rp_attempts plan" using fit[of "''workflow''"] by (simp add: plan state_scopes_def)
  ultimately show ?thesis using reserved(2,8) by (auto simp: plan)
qed (use assms in simp_all)

text \<open>A release right after the preflight gives back what was held; only the held cost goes through floats.\<close>

definition given_back :: "reservation_plan \<Rightarrow> consumption \<Rightarrow> consumption" where
  "given_back plan c =
     c\<lparr>cn_held_invocations := max 0 (cn_held_invocations c), cn_held_input := max 0 (cn_held_input c),
       cn_held_output := max 0 (cn_held_output c),
       cn_held_cost := fp_max (Finite 0) [fp_sub (fp_add (cn_held_cost c) (rp_cost plan)) (rp_cost plan)]\<rparr>"

lemma lower_held_hold: "amounts (lower_held plan c') = amounts (given_back plan c)"
  if "amounts c' = amounts (hold plan estimated now c)"
  using that by (simp add: amounts_eq lower_held_def given_back_def hold_def)

lemma preflight_release:
  assumes p: "preflight env (mem_mutate_execution_budget wall) tb estimated output_limit attempts now (s, held) = (Inr plan, (s', held'))"
  shows "\<exists>s''. release (mem_mutate_execution_budget wall) tb later (s', held') = (Inr (), (s'', None))
    \<and> ledger_of s'' tb = map_option (map_state (given_back plan)) (ledger_of s tb)"
  using p
proof (cases rule: preflight_outcomes)
  case (reserved plan' workflow task st workflow' task')
  then have plan: "plan' = plan" by simp
  from reserved(10) obtain st' where l: "load_state tb workflow' task' later = Inr st'"
    and a: "same_amounts st' (map_state (hold plan (max 1 estimated) now) st)" by (auto simp: plan)
  have c: "release_mutation tb plan later workflow' task'
      = Inr (changes_for_state tb workflow' (map_state (lower_held plan) st') None, ())"
    by (simp add: release_mutation_def l)
  obtain updated s'' where m: "mem_mutate_execution_budget wall (tb_workflow_id tb) (tb_task_id tb)
        (release_mutation tb plan later) later s' = (Inr (updated, ()), s'')"
    and g: "ledger_of s'' tb = Some (map_state amounts (map_state (lower_held plan) st'))"
    using ledger_written[where change = "release_mutation tb plan later", OF reserved(9) c, of wall later] by blast
  have "map_state amounts (map_state (lower_held plan) st') = map_state (given_back plan) (map_state amounts st)"
    using a lower_held_hold[of _ plan "max 1 estimated" now]
    by (auto simp: map_state_def) (auto simp: amounts_eq amounts_def given_back_def)
  with g reserved(2,7) m show ?thesis
    by (simp add: release_def on_store_def set_held_def eff_simps plan)
qed (use assms in simp_all)


section \<open>What a preflight promises\<close>

text \<open>C35. A preflight under a resolved budget either fails, with every amount of the ledger and the
  reservation held as they were, or it holds a reservation of at least one attempt under which
  what is consumed and held stays within every integer limit of the workflow, the task and the
  agent.\<close>

theorem preflight_within_limits:
  assumes "resolve_execution_budget w t a e wr tr ar tokens pricing = Inr (tb_resolved tb)"
    and "preflight env (mem_mutate_execution_budget wall) tb estimated output_limit attempts now (s, held) = (r, (s', held'))"
  shows "case r of
      Inl _ \<Rightarrow> held' = held \<and> ledger_of s' tb = ledger_of s tb
    | Inr plan \<Rightarrow> held' = Some plan \<and> 1 \<le> rp_attempts plan
        \<and> (\<exists>st. ledger_of s' tb = Some st \<and> (\<forall>(name, ls, c) \<in> set (state_scopes (tb_resolved tb) st). fits ls c))"
  using failed_preflight[of env wall tb estimated output_limit attempts now s held _ s' held']
    granted_preflight[of env wall tb estimated output_limit attempts now s held _ s' held']
    resolved_integer_limits[OF assms(1)] assms(2)
  by (auto split: sum.splits)

text \<open>C36. A release right after a granted preflight always goes through, leaves no reservation, and
  gives the ledger the amounts it had before: every counter exactly (a held one below zero becomes
  zero), the held cost up to the rounding of its sum and difference.\<close>

theorem preflight_then_release:
  assumes "preflight env (mem_mutate_execution_budget wall) tb estimated output_limit attempts now (s, held) = (Inr plan, (s', held'))"
  shows "\<exists>s''. release (mem_mutate_execution_budget wall) tb later (s', held') = (Inr (), (s'', None))
    \<and> ledger_of s'' tb = map_option (map_state (given_back plan)) (ledger_of s tb)"
  using assms by (rule preflight_release)

definition sample_budget :: json where
  "sample_budget = JObj [(''maxModelInvocations'', JInt 2), (''maxInputTokens'', JInt 9), (''maxOutputTokens'', JInt 8)]"

definition sample_limits :: limits where
  "sample_limits = map (\<lambda>(f, v). (f, map_option (\<lambda>n. \<lparr>bl_field = f, bl_value = JInt n, bl_scope = ''Workflow'', bl_ref = None\<rparr>) v))
     [(''maxModelInvocations'', Some 2), (''maxInputTokens'', Some 9), (''maxOutputTokens'', Some 8),
      (''maxElapsedMs'', None), (''maxCostUsd'', None)]"

definition sample_resolved :: resolved_budget where
  "sample_resolved = \<lparr>rb_workflow = sample_limits, rb_task = sample_limits, rb_agent = sample_limits,
     rb_output_limit = JNull, rb_pricing = None, rb_refs = []\<rparr>"

definition sample_task_budget :: task_budget where
  "sample_task_budget = \<lparr>tb_workflow_id = ''w1'', tb_task_id = ''d'', tb_task_key = ''t'', tb_agent_key = ''a'',
     tb_resolved = sample_resolved, tb_provider = ''p'', tb_model = ''m''\<rparr>"

text \<open>A store with the two executions running.\<close>

definition sample_ledger :: store where
  "sample_ledger = empty_store\<lparr>objects :=
     [(''w1'', [(''kind'', JStr ''WorkflowExecution''), (''status'', JStr ''RUNNING'')]),
      (''d'', [(''kind'', JStr ''TaskExecution''), (''status'', JStr ''RUNNING''), (''workflowExecutionId'', JStr ''w1'')])]\<rparr>"

definition sample_preflight :: "(exn + reservation_plan) \<times> store ledger" where
  "sample_preflight = preflight sample_env (mem_mutate_execution_budget []) sample_task_budget 4 (Some 5) (Some 3) ''now''
     (sample_ledger, None)"


definition sample_entry :: consumption where
  "sample_entry = \<lparr>cn_invocations = 0, cn_input = 0, cn_output = 0, cn_held_invocations = 0, cn_held_input = 0,
     cn_held_output = 0, cn_elapsed = 0, cn_cost = Finite 0, cn_held_cost = Finite 0,
     cn_rest = rest_defaults ''now'' ''p'' ''m''\<rparr>"

definition sample_state :: ledger_state where
  "sample_state = \<lparr>ls_workflow = sample_entry, ls_task = sample_entry, ls_agent = sample_entry\<rparr>"

definition sample_reservation :: reservation_plan where
  "sample_reservation = \<lparr>rp_attempts = 2, rp_output = Some 4, rp_input = 8, rp_held_output = 8, rp_cost = Finite 0\<rparr>"

lemma sample_budget_resolves:
  "resolve_execution_budget sample_budget JNull JNull JNull JNull JNull JNull JNull JNull = Inr sample_resolved"
  by code_simp

lemma sample_entry_read: "consumption_record JNull ''now'' ''p'' ''m'' = Inr sample_entry"
  by (simp add: consumption_record_def Let_def read_counter_def read_cost_def sample_entry_def rest_defaults_def
      dsetdefault_def dhas_def)

lemma sample_bound:
  "limit_of sample_limits ''maxModelInvocations''
     = Some \<lparr>bl_field = ''maxModelInvocations'', bl_value = JInt 2, bl_scope = ''Workflow'', bl_ref = None\<rparr>"
  "limit_of sample_limits ''maxInputTokens''
     = Some \<lparr>bl_field = ''maxInputTokens'', bl_value = JInt 9, bl_scope = ''Workflow'', bl_ref = None\<rparr>"
  "limit_of sample_limits ''maxOutputTokens''
     = Some \<lparr>bl_field = ''maxOutputTokens'', bl_value = JInt 8, bl_scope = ''Workflow'', bl_ref = None\<rparr>"
  "limit_of sample_limits ''maxElapsedMs'' = None" "limit_of sample_limits ''maxCostUsd'' = None"
  by (simp_all add: limit_of_def sample_limits_def)

lemmas sample_state_eval = state_scopes_def sample_state_def sample_resolved_def sample_bound sample_entry_def

lemma sample_evaluates: "evaluate_state sample_env sample_resolved sample_state 4 ''now'' = Inr None"
proof -
  have "parse_time (env_iso sample_env) ''now'' = None" by code_simp
  then have "elapsed_ms sample_env (JStr ''now'') ''now'' = Inr 0" by (simp add: elapsed_ms_def)
  then show ?thesis
    by (simp add: evaluate_state_def check_scope_def rest_defaults_def dget_Cons dget_Nil counters_def check_counter_def
        check_elapsed_def check_cost_def sample_state_eval)
qed

lemma sample_plan_made: "make_plan sample_resolved sample_state 4 (Some 5) (Some 3) = Inr sample_reservation"
  by (simp add: make_plan_def cost_plan_def token_plan_def remaining_cost_def scope_cost_left_def
      remaining_invocations_def remaining_input_def remaining_output_def remaining_int_def least_int_def
      List.map_filter_simps attempt_limit_def capped_output_def sample_reservation_def sample_state_eval)

lemma sample_load:
  "load_state sample_task_budget [(''kind'', JStr ''WorkflowExecution''), (''status'', JStr ''RUNNING'')]
     [(''kind'', JStr ''TaskExecution''), (''status'', JStr ''RUNNING''), (''workflowExecutionId'', JStr ''w1'')] ''now''
   = Inr sample_state"
  by (simp add: load_state_def sample_entry_read sample_task_budget_def mget_def dget_Nil dget_Cons first_time_def
      sample_state_def py_or_def)

lemma sample_preflight_grants: "\<exists>s'. sample_preflight = (Inr sample_reservation, (s', Some sample_reservation))"
proof -
  let ?w = "[(''kind'', JStr ''WorkflowExecution''), (''status'', JStr ''RUNNING'')]"
  let ?t = "[(''kind'', JStr ''TaskExecution''), (''status'', JStr ''RUNNING''), (''workflowExecutionId'', JStr ''w1'')]"
  let ?change = "preflight_mutation sample_env sample_task_budget 4 (Some 5) (Some 3) ''now''"
  have "running_pair sample_ledger (tb_workflow_id sample_task_budget) (tb_task_id sample_task_budget) ?w ?t"
    by (simp add: running_pair_def sample_ledger_def sample_task_budget_def dget_Cons)
  moreover have r: "remaining_cost sample_resolved sample_state = Inr None"
    by (simp add: remaining_cost_def scope_cost_left_def List.map_filter_simps sample_state_eval)
  then have "?change ?w ?t = Inr (changes_for_state sample_task_budget ?w
      (map_state (hold sample_reservation 4 ''now'') sample_state) None, Reserved sample_reservation)"
    using sample_load sample_evaluates sample_plan_made
    by (simp add: preflight_mutation_def Let_def) (simp add: sample_task_budget_def)
  ultimately obtain updated s' where "mem_mutate_execution_budget [] (tb_workflow_id sample_task_budget)
      (tb_task_id sample_task_budget) ?change ''now'' sample_ledger = (Inr (updated, Reserved sample_reservation), s')"
    using ledger_written[where change = ?change and tb = sample_task_budget] by blast
  then show ?thesis by (simp add: sample_preflight_def preflight_def on_store_def set_held_def eff_simps)
qed

theorem preflight_within_limits_witness:
  "\<exists>s' st. sample_preflight = (Inr sample_reservation, (s', Some sample_reservation))
     \<and> ledger_of s' sample_task_budget = Some st \<and> fits sample_limits (ls_task st)"
proof -
  obtain s' where p: "sample_preflight = (Inr sample_reservation, (s', Some sample_reservation))"
    using sample_preflight_grants by blast
  have "tb_resolved sample_task_budget = sample_resolved" by (simp add: sample_task_budget_def)
  with preflight_within_limits[of _ _ _ _ _ _ _ _ _ sample_task_budget, OF _ p[unfolded sample_preflight_def]]
    sample_budget_resolves p show ?thesis
    by (fastforce simp: state_scopes_def sample_resolved_def)
qed

theorem preflight_then_release_witness:
  "\<exists>s' s''. sample_preflight = (Inr sample_reservation, (s', Some sample_reservation))
     \<and> release (mem_mutate_execution_budget []) sample_task_budget ''later'' (s', Some sample_reservation)
       = (Inr (), (s'', None))"
proof -
  obtain s' where p: "sample_preflight = (Inr sample_reservation, (s', Some sample_reservation))"
    using sample_preflight_grants by blast
  from preflight_then_release[OF p[unfolded sample_preflight_def], of "''later''"] p show ?thesis by blast
qed

end
