(* ===== verification/PublicationPolicy.thy ===== *)
theory PublicationPolicy
  imports CapabilityPolicy Resources Samples
begin

text \<open>
  The last gate before publication (\<open>publication_policy.py\<close>): the evidence a publication claims is
  checked against what the store has, the publication policies are matched, and a decision is
  persisted under a key of all the inputs.  The schema validators are parameters.
\<close>

section \<open>Inputs\<close>

definition publication_error :: "string \<Rightarrow> exn" where
  "publication_error m = Exn PublicationPolicyContractError m JNull"

definition publication_text :: "string \<Rightarrow> json \<Rightarrow> exn + unit" where
  "publication_text field value =
     checkR (nonempty_str value) (publication_error (field @ '' must be a non-empty string''))"

definition validated_ids :: "string \<Rightarrow> json \<Rightarrow> exn + string list" where
  "validated_ids name values =
     bindR (checkR (\<not> is_str values) (publication_error (name @ '' must be a sequence of ids''))) (\<lambda>_.
     bindR (py_iter values) (\<lambda>items.
     bindR (checkR (list_all nonempty_str items)
       (publication_error (name @ '' must contain non-empty string ids''))) (\<lambda>_.
     bindR (checkR (distinct items) (publication_error (name @ '' must contain unique ids''))) (\<lambda>_.
     Inr (map as_str items)))))"

text \<open>The records by their id, in the order given.\<close>

type_synonym evidence_records = "(string \<times> dict) list"

fun collect_records :: "string \<Rightarrow> json list \<Rightarrow> evidence_records \<Rightarrow> exn + evidence_records" where
  "collect_records name [] result = Inr result"
| "collect_records name (r # rs) result =
     bindR (checkR (is_mapping r) (publication_error (name @ '' must contain mappings''))) (\<lambda>_.
     let record_id = mget r ''id'' in
     bindR (publication_text (name @ '' record id'') record_id) (\<lambda>_.
     bindR (checkR (\<not> dhas result (as_str record_id))
       (publication_error (name @ '' contains duplicate id '' @ py_repr record_id))) (\<lambda>_.
     collect_records name rs (dput (as_str record_id) (as_dict r) result))))"

definition records_by_id :: "string \<Rightarrow> json \<Rightarrow> exn + evidence_records" where
  "records_by_id name records =
     bindR (checkR (\<not> is_str records) (publication_error (name @ '' must be a sequence of mappings''))) (\<lambda>_.
     bindR (py_iter records) (\<lambda>items. collect_records name items []))"

definition validated_publication_rule :: "nat \<times> json \<Rightarrow> exn + unit" where
  "validated_publication_rule ir =
     (let (index, rule) = ir; d = as_dict rule; r = ''policy rule '' @ dec_nat index;
          unsupported = publication_error (r @ '' has an unsupported effect'') in
      bindR (checkR (is_mapping rule) unsupported) (\<lambda>_.
      bindR (checkR (hashable (dget d ''effect'')) unhashable_error) (\<lambda>_.
      bindR (checkR (effect_decision (dget d ''effect'') \<noteq> None) unsupported) (\<lambda>_.
      bindR (checkR (\<not> dhas d ''capabilities'')
        (publication_error (''publication '' @ r @ '' must not declare capabilities''))) (\<lambda>_.
      bindR (checkR (dget d ''reason'' = JNull \<or> nonempty_str (dget d ''reason''))
        (publication_error (r @ '' reason must be a non-empty string''))) (\<lambda>_.
      checkR (dget d ''conditions'' = JNull \<or> is_mapping (dget d ''conditions''))
        (publication_error (r @ '' conditions must be a JSON Schema mapping''))))))))"

definition validated_publication_policy :: "applicable_policy \<Rightarrow> exn + applicable_policy" where
  "validated_publication_policy binding =
     (let resource = ap_resource binding; metadata = dget resource ''metadata'';
          version = mget metadata ''version''; spec = dget resource ''spec''; rules = mget spec ''rules'' in
      bindR (checkR (dget resource ''apiVersion'' = JStr ''aep.dev/v1alpha1'' \<and> dget resource ''kind'' = JStr ''Policy'')
        (publication_error ''applicable policy must be an aep.dev/v1alpha1 Policy'')) (\<lambda>_.
      bindR (checkR (is_mapping metadata \<and> is_str (mget metadata ''name''))
        (publication_error ''policy metadata.name must be a non-empty string'')) (\<lambda>_.
      bindR (checkR (is_str version \<and> is_semver (as_str version))
        (publication_error ''policy metadata.version must be an immutable semantic version'')) (\<lambda>_.
      bindR (checkR (is_mapping spec \<and> mget spec ''type'' = JStr ''publication'')
        (publication_error ''applicable policy must have type publication'')) (\<lambda>_.
      bindR (checkR (is_list rules \<and> as_list rules \<noteq> [])
        (publication_error ''policy rules must be a non-empty list'')) (\<lambda>_.
      bindR (eachR validated_publication_rule (enumerate_list (as_list rules))) (\<lambda>_.
      Inr binding)))))))"

definition publication_conditions_match ::
  "schema_engine \<Rightarrow> json \<Rightarrow> json \<Rightarrow> applicable_policy \<Rightarrow> nat \<Rightarrow> exn + bool" where
  "publication_conditions_match se conditions value b rule_index =
     (case se_check se conditions of
        Some message \<Rightarrow> Inl (publication_error (''invalid conditions in '' @ policy_name b @ '' rule ''
          @ dec_nat rule_index @ '': '' @ message))
      | None \<Rightarrow> Inr (se_valid se conditions value))"

section \<open>Evidence\<close>

text \<open>\<open>[0]\<close> for a position, \<open>.name\<close> for a key.\<close>

definition indexed_path :: "path_part list \<Rightarrow> string" where
  "indexed_path ps = ''$'' @ concat (map (\<lambda>p. case p of PIndex i \<Rightarrow> ''['' @ dec_int i @ '']'' | PKey k \<Rightarrow> ''.'' @ k) ps)"

definition runtime_evidence_error :: "environment \<Rightarrow> string \<Rightarrow> dict \<Rightarrow> string option" where
  "runtime_evidence_error env kind_name entry =
     map_option (\<lambda>e. indexed_path (err_path e) @ '': '' @ err_message e)
       (first_error (env_schema env (lower kind_name) (JObj entry)))"

definition validate_decision :: "environment \<Rightarrow> dict \<Rightarrow> exn + unit" where
  "validate_decision env entry =
     (case first_error (env_schema env ''policydecision'' (JObj entry)) of
        None \<Rightarrow> Inr ()
      | Some e \<Rightarrow> Inl (publication_error (''invalid PolicyDecision at '' @ indexed_path (err_path e) @ '': '' @ err_message e)))"

definition same_execution :: "dict \<Rightarrow> string \<Rightarrow> string \<Rightarrow> json \<Rightarrow> bool" where
  "same_execution value trace_id workflow_id revision =
     (let provenance = dget value ''provenance'' in
      dget value ''traceId'' = JStr trace_id \<and> is_mapping provenance
      \<and> mget provenance ''workflowExecutionId'' = JStr workflow_id
      \<and> dget_or value ''repositoryRevision'' (mget provenance ''repositoryRevision'') = revision)"

text \<open>Why an evidence record cannot be trusted, if so: its schema, or what the store has under its id.\<close>

definition untrusted ::
  "environment \<Rightarrow> 's store_ops \<Rightarrow> string \<Rightarrow> string \<Rightarrow> string \<Rightarrow> dict \<Rightarrow> ('s, string option) eff" where
  "untrusted env ops kind_name label record_id entry =
     (case runtime_evidence_error env kind_name entry of
        Some m \<Rightarrow> ret (Some (label @ '' '' @ record_id @ '' is invalid: '' @ m @ ''.''))
      | None \<Rightarrow>
          bindE (op_get ops record_id) (\<lambda>persisted.
          ret (case persisted of
                 None \<Rightarrow> Some (label @ '' '' @ record_id @ '' is not persisted.'')
               | Some p \<Rightarrow> if py_eq (JObj p) (JObj entry) then None
                           else Some (label @ '' '' @ record_id @ '' does not match persisted evidence.''))))"

definition declared_failures ::
  "string list \<Rightarrow> evidence_records \<Rightarrow> string list \<Rightarrow> evidence_records \<Rightarrow> string list" where
  "declared_failures artifact_ids artifacts evaluation_ids evaluations =
     (let missing_artifacts = filter (\<lambda>i. \<not> dhas artifacts i) artifact_ids;
          missing_evaluations = filter (\<lambda>i. \<not> dhas evaluations i) evaluation_ids in
      (if missing_artifacts = [] then []
       else [''Required artifacts are missing: '' @ join_with '', '' missing_artifacts @ ''.''])
      @ (if artifact_ids = [] then [''At least one required artifact must be declared.''] else [])
      @ (if missing_evaluations = [] then []
         else [''Required EvaluationResults are missing: '' @ join_with '', '' missing_evaluations @ ''.''])
      @ (if evaluation_ids = []
         then [''Validation did not run: no required EvaluationResults were declared.''] else []))"

definition artifact_failures :: "(string \<times> dict) list \<Rightarrow> string \<Rightarrow> string \<Rightarrow> json \<Rightarrow> string list" where
  "artifact_failures trustworthy trace_id workflow_id revision =
     (if list_ex (\<lambda>(i, a). dget a ''artifactType'' = JStr ''PATCH'') trustworthy then []
      else [''Patch generation did not produce a required PATCH artifact.''])
     @ concat (map (\<lambda>(i, a).
         if dget a ''kind'' \<noteq> JStr ''GeneratedArtifact''
         then [''Artifact '' @ i @ '' is not a GeneratedArtifact.'']
         else if \<not> same_execution a trace_id workflow_id revision
         then [''GeneratedArtifact '' @ i @ '' has mismatched provenance.''] else []) trustworthy)"

definition evaluation_failures :: "string \<Rightarrow> dict \<Rightarrow> string \<Rightarrow> string \<Rightarrow> json \<Rightarrow> string list" where
  "evaluation_failures result_id result trace_id workflow_id revision =
     (if dget result ''kind'' \<noteq> JStr ''EvaluationResult''
      then [''Evidence '' @ result_id @ '' is not an EvaluationResult.'']
      else if \<not> same_execution result trace_id workflow_id revision
      then [''EvaluationResult '' @ result_id @ '' has mismatched provenance.'']
      else if dget result ''status'' \<noteq> JStr ''SUCCEEDED''
      then [''Required EvaluationResult '' @ result_id @ '' did not complete successfully.'']
      else if dget result ''outcome'' \<noteq> JStr ''PASS''
      then [''Required EvaluationResult '' @ result_id @ '' failed.''] else [])"

definition prior_failures :: "string \<Rightarrow> dict \<Rightarrow> string \<Rightarrow> string list" where
  "prior_failures decision_id value trace_id =
     (if dget value ''traceId'' \<noteq> JStr trace_id
      then [''Prior PolicyDecision '' @ decision_id @ '' has mismatched trace provenance.''] else [])
     @ (if dget value ''decision'' = JStr ''DENY''
        then [''Prior PolicyDecision '' @ decision_id @ '' denied publication prerequisites.''] else [])"

text \<open>The records given for the required ids, each with why it cannot be trusted.\<close>

definition trust_records ::
  "environment \<Rightarrow> 's store_ops \<Rightarrow> string \<Rightarrow> string \<Rightarrow> (string \<times> dict) list
   \<Rightarrow> ('s, ((string \<times> dict) \<times> string option) list) eff" where
  "trust_records env ops kind_name label entries =
     mapE (\<lambda>(i, r). bindE (untrusted env ops kind_name label i r) (\<lambda>f. ret ((i, r), f))) entries"

definition given_records :: "string list \<Rightarrow> evidence_records \<Rightarrow> (string \<times> dict) list" where
  "given_records ids entries = List.map_filter (\<lambda>i. map_option (\<lambda>r. (i, r)) (map_of entries i)) ids"

definition opt_list :: "'a option \<Rightarrow> 'a list" where
  "opt_list x = (case x of None \<Rightarrow> [] | Some a \<Rightarrow> [a])"

definition evidence_failures ::
  "environment \<Rightarrow> 's store_ops \<Rightarrow> string list \<Rightarrow> evidence_records \<Rightarrow> string list \<Rightarrow> evidence_records
   \<Rightarrow> evidence_records \<Rightarrow> string \<Rightarrow> string \<Rightarrow> json \<Rightarrow> ('s, string list) eff" where
  "evidence_failures env ops artifact_ids artifacts evaluation_ids evaluations prior trace_id workflow_id revision =
     bindE (trust_records env ops ''GeneratedArtifact'' ''GeneratedArtifact'' (given_records artifact_ids artifacts)) (\<lambda>as.
     bindE (trust_records env ops ''EvaluationResult'' ''EvaluationResult'' (given_records evaluation_ids evaluations)) (\<lambda>es.
     bindE (trust_records env ops ''PolicyDecision'' ''Prior PolicyDecision'' prior) (\<lambda>ps.
     ret (declared_failures artifact_ids artifacts evaluation_ids evaluations
       @ concat (map (\<lambda>(x, f). opt_list f) as)
       @ artifact_failures (map fst (filter (\<lambda>(x, f). f = None) as)) trace_id workflow_id revision
       @ concat (map (\<lambda>((i, r), f). case f of Some m \<Rightarrow> [m]
                      | None \<Rightarrow> evaluation_failures i r trace_id workflow_id revision) es)
       @ concat (map (\<lambda>((i, r), f). case f of Some m \<Rightarrow> [m] | None \<Rightarrow> prior_failures i r trace_id) ps)))))"

definition evidence_summary ::
  "string list \<Rightarrow> evidence_records \<Rightarrow> string list \<Rightarrow> evidence_records \<Rightarrow> evidence_records \<Rightarrow> string list \<Rightarrow> dict" where
  "evidence_summary artifact_ids artifacts evaluation_ids evaluations prior failures =
     [(''patchGenerated'', JBool (list_ex (\<lambda>(i, a). dget a ''artifactType'' = JStr ''PATCH'' \<and> i \<in> set artifact_ids) artifacts)),
      (''validationRan'', JBool (evaluation_ids \<noteq> [])),
      (''requiredArtifactsPresent'', JBool (list_all (dhas artifacts) artifact_ids)),
      (''requiredEvaluationsPresent'', JBool (list_all (dhas evaluations) evaluation_ids)),
      (''allRequiredEvaluationsPassed'', JBool (evaluation_ids \<noteq> []
         \<and> list_all (\<lambda>i. case map_of evaluations i of None \<Rightarrow> False
              | Some e \<Rightarrow> dget e ''status'' = JStr ''SUCCEEDED'' \<and> dget e ''outcome'' = JStr ''PASS'') evaluation_ids)),
      (''noPriorPolicyViolation'', JBool (\<not> list_ex (\<lambda>(i, p). dget p ''decision'' = JStr ''DENY'') prior)),
      (''failures'', JList (map JStr failures))]"


section \<open>The decision\<close>

definition match_publication_rule ::
  "schema_engine \<Rightarrow> json \<Rightarrow> applicable_policy \<times> nat \<times> json \<Rightarrow> exn + matched_rule list" where
  "match_publication_rule se policy_input bir =
     (let (b, i, rule) = bir; d = as_dict rule; conditions = dget d ''conditions'' in
      bindR (if conditions = JNull then Inr True
             else publication_conditions_match se conditions policy_input b i) (\<lambda>ok.
      Inr (if ok then [\<lparr>mr_policy = b, mr_index = i, mr_effect = the (effect_decision (dget d ''effect''))\<rparr>] else [])))"

definition matched_publication_rules ::
  "schema_engine \<Rightarrow> json \<Rightarrow> applicable_policy list \<Rightarrow> exn + matched_rule list" where
  "matched_publication_rules se policy_input policies =
     bindR (mapR (match_publication_rule se policy_input) (concat (map indexed_rules policies))) (\<lambda>ms.
     Inr (concat ms))"

definition publication_outcome ::
  "applicable_policy list \<Rightarrow> string \<Rightarrow> string list \<Rightarrow> evidence_records \<Rightarrow> matched_rule list
   \<Rightarrow> exn + matched_rule option \<times> policy_decision \<times> json" where
  "publication_outcome policies action failures prior matched =
     (if failures \<noteq> [] then Inr (None, DENY, JStr (join_with ''; '' failures))
      else if list_ex (\<lambda>(i, p). dget p ''decision'' = JStr ''REQUIRE_APPROVAL'') prior
      then Inr (None, REQUIRE_APPROVAL, JStr ''An earlier policy decision still requires approval.'')
      else case matched of
        [] \<Rightarrow> Inr (None, DENY, JStr (''No applicable publication rule authorizes action '' @ action @ ''.''))
      | m # ms \<Rightarrow>
          let winning = first_max mr_effect m ms in
          bindR (source_reason policies action winning) (\<lambda>reason. Inr (Some winning, mr_effect winning, reason)))"

text \<open>The arguments of \<open>evaluate\<close> that go into the record and into its key.\<close>

record publication_request =
  pq_decision_id :: string
  pq_task :: string
  pq_candidate :: dict
  pq_action :: string
  pq_revision :: json
  pq_artifact_ids :: "string list"
  pq_artifacts :: evidence_records
  pq_evaluation_ids :: "string list"
  pq_evaluations :: evidence_records
  pq_prior :: evidence_records
  pq_policies :: "applicable_policy list"
  pq_actor :: string
  pq_scope :: dict
  pq_context :: correlation
  pq_timestamp :: string

definition publication_input :: "publication_request \<Rightarrow> dict \<Rightarrow> json" where
  "publication_input q summary =
     JObj [(''candidateAction'', JObj (pq_candidate q)), (''evidence'', JObj summary),
       (''priorPolicyState'', JList (map (\<lambda>(i, p). JObj p) (pq_prior q))), (''resourceScope'', JObj (pq_scope q))]"

definition request_summary :: "publication_request \<Rightarrow> string list \<Rightarrow> dict" where
  "request_summary q failures =
     evidence_summary (pq_artifact_ids q) (pq_artifacts q) (pq_evaluation_ids q) (pq_evaluations q) (pq_prior q) failures"

definition publication_record ::
  "publication_request \<Rightarrow> dict \<Rightarrow> matched_rule list \<Rightarrow> matched_rule option \<times> policy_decision \<times> json \<Rightarrow> dict" where
  "publication_record q summary matched outcome =
     (let (winning, decision, reason) = outcome; refs = policy_refs (pq_policies q); context = pq_context q;
          now = JStr (pq_timestamp q); task = JStr (pq_task q); actor = JStr (pq_actor q) in
      [(''apiVersion'', JStr ''aep.dev/v1alpha1''), (''kind'', JStr ''PolicyDecision''), (''id'', JStr (pq_decision_id q)),
       (''traceId'', JStr (cor_trace context)), (''createdAt'', now), (''updatedAt'', now),
       (''provenance'', JObj [(''actor'', JStr ''policy-engine''), (''caller'', actor),
          (''workflowExecutionId'', JStr (cor_workflow context)), (''taskExecutionId'', task),
          (''repositoryRevision'', pq_revision q), (''resourceRefs'', JList refs)]),
       (''taskExecutionId'', task), (''gate'', JStr ''PUBLICATION''), (''policyRefs'', JList refs),
       (''action'', JStr (pq_action q)), (''decision'', JStr (decision_value decision)), (''reason'', reason),
       (''approvalRequired'', JBool (decision = REQUIRE_APPROVAL)), (''evaluatedAt'', now), (''subject'', actor),
       (''resourceScope'', JObj (pq_scope q)),
       (''evaluatedRule'', case winning of None \<Rightarrow> JNull | Some m \<Rightarrow> matched_record m),
       (''matchedRules'', JList (map matched_record matched)), (''repositoryRevision'', pq_revision q),
       (''publicationTarget'', JObj (as_dict (dget (pq_candidate q) ''target''))),
       (''generatedArtifactIds'', JList (map JStr (pq_artifact_ids q))),
       (''evaluationResultIds'', JList (map JStr (pq_evaluation_ids q))),
       (''priorPolicyDecisionIds'', JList (map (\<lambda>(i, p). JStr i) (pq_prior q))), (''evidence'', JObj summary)])"

definition records_json :: "evidence_records \<Rightarrow> json" where
  "records_json entries = JObj (map (\<lambda>(i, r). (i, JObj r)) entries)"

definition publication_key :: "environment \<Rightarrow> publication_request \<Rightarrow> string" where
  "publication_key env q =
     ''publication-policy:'' @ env_sha256 env (json_text True (JObj
       [(''decision_id'', JStr (pq_decision_id q)), (''task_execution_id'', JStr (pq_task q)),
        (''trace_id'', JStr (cor_trace (pq_context q))), (''candidate_action'', JObj (pq_candidate q)),
        (''artifact_ids'', JList (map JStr (pq_artifact_ids q))), (''artifact_records'', records_json (pq_artifacts q)),
        (''evaluation_ids'', JList (map JStr (pq_evaluation_ids q))),
        (''evaluation_records'', records_json (pq_evaluations q)), (''prior_records'', records_json (pq_prior q)),
        (''resource_scope'', JObj (pq_scope q)), (''policies'', policy_bindings (pq_policies q)),
        (''actor'', JStr (pq_actor q))]))"

text \<open>The checks of the arguments, in the order of the code.\<close>

definition publication_request ::
  "string \<Rightarrow> string \<Rightarrow> json \<Rightarrow> json \<Rightarrow> json \<Rightarrow> json \<Rightarrow> json \<Rightarrow> json \<Rightarrow> applicable_policy list \<Rightarrow> string \<Rightarrow> json
   \<Rightarrow> correlation_arg \<Rightarrow> string \<Rightarrow> exn + publication_request" where
  "publication_request decision_id task_id candidate_action required_artifact_ids artifacts
     required_evaluation_ids evaluation_results prior_policy_decisions applicable_policies actor resource_scope
     arg timestamp =
     (let target = mget candidate_action ''target''; action = mget candidate_action ''action'';
          revision = mget target ''repositoryRevision'' in
      bindR (publication_text ''decision_id'' (JStr decision_id)) (\<lambda>_.
      bindR (publication_text ''task_execution_id'' (JStr task_id)) (\<lambda>_.
      bindR (publication_text ''actor'' (JStr actor)) (\<lambda>_.
      bindR (publication_text ''timestamp'' (JStr timestamp)) (\<lambda>_.
      bindR (checkR (is_mapping candidate_action) (publication_error ''candidate_action must be a mapping'')) (\<lambda>_.
      bindR (checkR (is_mapping resource_scope) (publication_error ''resource_scope must be a mapping'')) (\<lambda>_.
      bindR (publication_text ''candidate_action.action'' action) (\<lambda>_.
      bindR (checkR (is_mapping target) (publication_error ''candidate_action.target must be a mapping'')) (\<lambda>_.
      bindR (publication_text ''candidate_action.target.repositoryRevision'' revision) (\<lambda>_.
      bindR (bind_correlation arg (Some task_id) None) (\<lambda>context.
      bindR (validated_ids ''required_artifact_ids'' required_artifact_ids) (\<lambda>artifact_ids.
      bindR (validated_ids ''required_evaluation_ids'' required_evaluation_ids) (\<lambda>evaluation_ids.
      bindR (records_by_id ''artifacts'' artifacts) (\<lambda>artifact_records.
      bindR (records_by_id ''evaluation_results'' evaluation_results) (\<lambda>evaluation_records.
      bindR (records_by_id ''prior_policy_decisions'' prior_policy_decisions) (\<lambda>prior_records.
      bindR (mapR validated_publication_policy applicable_policies) (\<lambda>bindings.
      Inr \<lparr>pq_decision_id = decision_id, pq_task = task_id, pq_candidate = as_dict candidate_action,
           pq_action = as_str action, pq_revision = revision, pq_artifact_ids = artifact_ids,
           pq_artifacts = artifact_records, pq_evaluation_ids = evaluation_ids, pq_evaluations = evaluation_records,
           pq_prior = prior_records, pq_policies = sort_key policy_sort_key bindings, pq_actor = actor,
           pq_scope = as_dict resource_scope, pq_context = context, pq_timestamp = timestamp\<rparr>)))))))))))))))))"

text \<open>The decision on a request whose evidence was looked at.\<close>

definition decided_record ::
  "environment \<Rightarrow> schema_engine \<Rightarrow> publication_request \<Rightarrow> string list \<Rightarrow> exn + dict" where
  "decided_record env se q failures =
     (let summary = request_summary q failures in
      bindR (matched_publication_rules se (publication_input q summary) (pq_policies q)) (\<lambda>matched.
      bindR (publication_outcome (pq_policies q) (pq_action q) failures (pq_prior q) matched) (\<lambda>outcome.
      let entry = publication_record q summary matched outcome in
      bindR (validate_decision env entry) (\<lambda>_. Inr entry))))"

definition request_failures :: "environment \<Rightarrow> 's store_ops \<Rightarrow> publication_request \<Rightarrow> ('s, string list) eff" where
  "request_failures env ops q =
     evidence_failures env ops (pq_artifact_ids q) (pq_artifacts q) (pq_evaluation_ids q) (pq_evaluations q)
       (pq_prior q) (cor_trace (pq_context q)) (cor_workflow (pq_context q)) (pq_revision q)"

definition decide_publication ::
  "environment \<Rightarrow> schema_engine \<Rightarrow> 's store_ops \<Rightarrow> publication_request \<Rightarrow> ('s, dict) eff" where
  "decide_publication env se ops q =
     bindE (request_failures env ops q) (\<lambda>failures.
     bindE (liftR (decided_record env se q failures)) (\<lambda>entry.
     catchE (op_create ops (JObj entry) (publication_key env q)) (\<lambda>e.
       if instance_of e RuntimeObjectAlreadyExistsError
       then throw (Exn PublicationPolicyIdentityConflictError (''decision id '' @ repr_str (pq_decision_id q)
              @ '' is already bound to different publication inputs'') JNull)
       else throw e)))"

definition publication_evaluate ::
  "environment \<Rightarrow> schema_engine \<Rightarrow> 's store_ops \<Rightarrow> string \<Rightarrow> string \<Rightarrow> json \<Rightarrow> json \<Rightarrow> json \<Rightarrow> json \<Rightarrow> json \<Rightarrow> json
   \<Rightarrow> applicable_policy list \<Rightarrow> string \<Rightarrow> json \<Rightarrow> correlation_arg \<Rightarrow> string \<Rightarrow> ('s, dict) eff" where
  "publication_evaluate env se ops decision_id task_id candidate_action required_artifact_ids artifacts
     required_evaluation_ids evaluation_results prior_policy_decisions applicable_policies actor resource_scope
     arg timestamp =
     bindE (liftR (publication_request decision_id task_id candidate_action required_artifact_ids artifacts
       required_evaluation_ids evaluation_results prior_policy_decisions applicable_policies actor resource_scope
       arg timestamp)) (decide_publication env se ops)"

section \<open>Publication needs its evidence\<close>

text \<open>A record that the store has as it was given.\<close>

definition persisted :: "store \<Rightarrow> string \<Rightarrow> dict \<Rightarrow> bool" where
  "persisted s i r \<longleftrightarrow> (\<exists>p. map_of (objects s) i = Some p \<and> py_eq (JObj p) (JObj r))"

text \<open>Everything a publication has to show.\<close>

definition evidence_complete :: "store \<Rightarrow> publication_request \<Rightarrow> bool" where
  "evidence_complete s q \<longleftrightarrow> (let trace = cor_trace (pq_context q); workflow = cor_workflow (pq_context q) in
     (\<forall>i \<in> set (pq_artifact_ids q). \<exists>a. map_of (pq_artifacts q) i = Some a \<and> persisted s i a
        \<and> dget a ''kind'' = JStr ''GeneratedArtifact'' \<and> same_execution a trace workflow (pq_revision q))
     \<and> (\<exists>i \<in> set (pq_artifact_ids q). \<exists>a. map_of (pq_artifacts q) i = Some a \<and> dget a ''artifactType'' = JStr ''PATCH'')
     \<and> pq_evaluation_ids q \<noteq> []
     \<and> (\<forall>i \<in> set (pq_evaluation_ids q). \<exists>e. map_of (pq_evaluations q) i = Some e \<and> persisted s i e
        \<and> dget e ''kind'' = JStr ''EvaluationResult'' \<and> same_execution e trace workflow (pq_revision q)
        \<and> dget e ''status'' = JStr ''SUCCEEDED'' \<and> dget e ''outcome'' = JStr ''PASS'')
     \<and> (\<forall>(i, p) \<in> set (pq_prior q). persisted s i p \<and> dget p ''traceId'' = JStr trace
        \<and> dget p ''decision'' \<notin> {JStr ''DENY'', JStr ''REQUIRE_APPROVAL''}))"


lemma mem_create_new:
  assumes "mem_create (JObj entry) key s = (Inr v, t)"
  shows "(\<exists>oid. map_of (objects s) oid = Some v)
    \<or> v = entry \<and> map_of (objects t) (as_str (dget entry ''id'')) = Some entry"
  using assms
  by (auto simp: mem_create_def eff_simps Let_def map_of_dput dhas_iff objects_index_value copy_and_validate_def
      split: option.splits if_splits sum.splits)

lemma untrusted_Inr:
  assumes "untrusted env (in_memory_store wall) kind_name label i r s = (Inr f, t)"
  shows "t = s \<and> (f = None \<longrightarrow> persisted s i r)"
  using assms
  by (auto simp: untrusted_def in_memory_store_def mem_get_def eff_simps persisted_def split: option.splits if_splits)

lemma trust_records_Inr:
  assumes "trust_records env (in_memory_store wall) kind_name label entries s = (Inr xs, t)"
  shows "t = s \<and> map fst xs = entries \<and> (\<forall>((i, r), f) \<in> set xs. f = None \<longrightarrow> persisted s i r)"
  using assms
proof (induction entries arbitrary: xs)
  case (Cons e entries)
  obtain i r where e: "e = (i, r)" by (cases e)
  obtain f u ys where "untrusted env (in_memory_store wall) kind_name label i r s = (Inr f, u)"
      "trust_records env (in_memory_store wall) kind_name label entries u = (Inr ys, t)" "xs = ((i, r), f) # ys"
    using Cons.prems by (auto simp: trust_records_def e success_iffs)
  with untrusted_Inr[of env wall kind_name label i r s f u] Cons.IH[of ys] show ?case by (auto simp: e)
qed (simp add: trust_records_def success_iffs)

text \<open>All of the evidence is trustworthy when no failure was found.\<close>

lemma trusted_all:
  assumes "trust_records env (in_memory_store wall) kind_name label entries s = (Inr xs, t)"
    and "\<forall>(x, f) \<in> set xs. f = None"
  shows "\<forall>(i, r) \<in> set entries. persisted s i r"
proof -
  have "entries = map fst xs" "\<forall>((i, r), f) \<in> set xs. f = None \<longrightarrow> persisted s i r"
    using trust_records_Inr[OF assms(1)] by auto
  with assms(2) show ?thesis by fastforce
qed

lemma given_records_iff: "(i, r) \<in> set (given_records ids entries) \<longleftrightarrow> i \<in> set ids \<and> map_of entries i = Some r"
  by (induction ids) (auto simp: given_records_def List.map_filter_simps split: option.splits)

lemma evaluation_failures_Nil:
  "evaluation_failures i r trace workflow revision = [] \<longleftrightarrow> dget r ''kind'' = JStr ''EvaluationResult''
     \<and> same_execution r trace workflow revision \<and> dget r ''status'' = JStr ''SUCCEEDED'' \<and> dget r ''outcome'' = JStr ''PASS''"
  by (simp add: evaluation_failures_def)

lemma prior_failures_Nil:
  "prior_failures i r trace = [] \<longleftrightarrow> dget r ''traceId'' = JStr trace \<and> dget r ''decision'' \<noteq> JStr ''DENY''"
  by (simp add: prior_failures_def)

lemma evidence_failures_none:
  assumes "evidence_failures env (in_memory_store wall) aids as eids es prior trace workflow revision s = (Inr [], t)"
  shows "t = s
    \<and> (\<forall>i \<in> set aids. \<exists>a. map_of as i = Some a \<and> persisted s i a \<and> dget a ''kind'' = JStr ''GeneratedArtifact''
         \<and> same_execution a trace workflow revision)
    \<and> (\<exists>i \<in> set aids. \<exists>a. map_of as i = Some a \<and> dget a ''artifactType'' = JStr ''PATCH'')
    \<and> eids \<noteq> []
    \<and> (\<forall>i \<in> set eids. \<exists>e. map_of es i = Some e \<and> persisted s i e \<and> dget e ''kind'' = JStr ''EvaluationResult''
         \<and> same_execution e trace workflow revision \<and> dget e ''status'' = JStr ''SUCCEEDED'' \<and> dget e ''outcome'' = JStr ''PASS'')
    \<and> (\<forall>(i, p) \<in> set prior. persisted s i p \<and> dget p ''traceId'' = JStr trace \<and> dget p ''decision'' \<noteq> JStr ''DENY'')"
proof -
  obtain ta sa te se tp where
    a: "trust_records env (in_memory_store wall) ''GeneratedArtifact'' ''GeneratedArtifact'' (given_records aids as) s = (Inr ta, sa)" and
    e: "trust_records env (in_memory_store wall) ''EvaluationResult'' ''EvaluationResult'' (given_records eids es) sa = (Inr te, se)" and
    p: "trust_records env (in_memory_store wall) ''PolicyDecision'' ''Prior PolicyDecision'' prior se = (Inr tp, t)" and
    none': "[] = declared_failures aids as eids es @ concat (map (\<lambda>(x, f). opt_list f) ta)
      @ artifact_failures (map fst (filter (\<lambda>(x, f). f = None) ta)) trace workflow revision
      @ concat (map (\<lambda>((i, r), f). case f of Some m \<Rightarrow> [m] | None \<Rightarrow> evaluation_failures i r trace workflow revision) te)
      @ concat (map (\<lambda>((i, r), f). case f of Some m \<Rightarrow> [m] | None \<Rightarrow> prior_failures i r trace) tp)"
    using assms unfolding evidence_failures_def bindE_Inr_iff ret_Inr_iff by auto
  have t: "sa = s" "se = s" "t = s"
    using trust_records_Inr[OF a] trust_records_Inr[OF e] trust_records_Inr[OF p] by auto
  note a = a[unfolded t] and e = e[unfolded t] and p = p[unfolded t]
  note none = none'[symmetric, unfolded append_is_Nil_conv]
  have fa: "\<forall>(x, f) \<in> set ta. f = None" using none by (auto simp: opt_list_def split: option.splits)
  have fe: "\<forall>((i, r), f) \<in> set te. f = None \<and> evaluation_failures i r trace workflow revision = []"
    using none by (fastforce split: option.splits)
  have fp: "\<forall>((i, r), f) \<in> set tp. f = None \<and> prior_failures i r trace = []"
    using none by (fastforce split: option.splits)
  have given: "map fst ta = given_records aids as" "map fst te = given_records eids es" "map fst tp = prior"
    using trust_records_Inr[OF a] trust_records_Inr[OF e] trust_records_Inr[OF p] by auto
  have "filter (\<lambda>(x, f). f = None) ta = ta" using fa by (auto simp: filter_id_conv)
  with none given(1) have art: "artifact_failures (given_records aids as) trace workflow revision = []" by simp
  have ids: "\<forall>i \<in> set aids. dhas as i" "\<forall>i \<in> set eids. dhas es i" "eids \<noteq> []"
    using none by (auto simp: declared_failures_def Let_def filter_empty_conv split: if_splits)
  have "persisted s i x" "dget x ''kind'' = JStr ''GeneratedArtifact''" "same_execution x trace workflow revision"
    if "i \<in> set aids" "map_of as i = Some x" for i x
  proof -
    have g: "(i, x) \<in> set (given_records aids as)" using that by (simp add: given_records_iff)
    then show "persisted s i x" using trusted_all[OF a fa] by blast
    show "dget x ''kind'' = JStr ''GeneratedArtifact''" "same_execution x trace workflow revision"
      using art g by (fastforce simp: artifact_failures_def split: if_splits)+
  qed
  moreover have "\<exists>i \<in> set aids. \<exists>a. map_of as i = Some a \<and> dget a ''artifactType'' = JStr ''PATCH''"
  proof -
    have "\<exists>(i, x) \<in> set (given_records aids as). dget x ''artifactType'' = JStr ''PATCH''"
      using art by (auto simp: artifact_failures_def list_ex_iff split: if_splits)
    then show ?thesis using given_records_iff[of _ _ aids as] by blast
  qed
  moreover have "persisted s i x \<and> evaluation_failures i x trace workflow revision = []"
    if "i \<in> set eids" "map_of es i = Some x" for i x
  proof -
    have g: "(i, x) \<in> set (given_records eids es)" using that by (simp add: given_records_iff)
    have "\<forall>(x, f) \<in> set te. f = None" using fe by auto
    from trusted_all[OF e this] g have "persisted s i x" by blast
    moreover obtain f where "((i, x), f) \<in> set te"
      using g unfolding given(2)[symmetric] by (auto simp: image_iff)
    ultimately show ?thesis using fe by blast
  qed
  moreover have "persisted s i x \<and> prior_failures i x trace = []" if k: "(i, x) \<in> set prior" for i x
  proof -
    have "\<forall>(x, f) \<in> set tp. f = None" using fp by auto
    from trusted_all[OF p this] k have "persisted s i x" by blast
    moreover obtain f where "((i, x), f) \<in> set tp"
      using k unfolding given(3)[symmetric] by (auto simp: image_iff)
    ultimately show ?thesis using fp by blast
  qed
  ultimately show ?thesis
    using t(3) ids unfolding evaluation_failures_Nil prior_failures_Nil
    by (intro conjI) (auto simp: given_records_iff dhas_iff)
qed


text \<open>The effects of the publication rules whose conditions hold.\<close>

definition publication_effects :: "schema_engine \<Rightarrow> json \<Rightarrow> applicable_policy list \<Rightarrow> policy_decision set" where
  "publication_effects se policy_input policies =
     {e. \<exists>b \<in> set policies. \<exists>rule \<in> set (policy_rules b).
        (mget rule ''conditions'' = JNull \<or> se_valid se (mget rule ''conditions'') policy_input)
        \<and> effect_decision (mget rule ''effect'') = Some e}"

lemma validated_publication_policy_Inr:
  assumes "validated_publication_policy b = Inr b'"
  shows "b' = b \<and> (\<forall>rule \<in> set (policy_rules b). effect_decision (mget rule ''effect'') \<noteq> None)"
proof -
  have v: "b' = b" "eachR validated_publication_rule (enumerate_list (policy_rules b)) = Inr ()"
    using assms by (auto simp: validated_publication_policy_def Let_def bindR_eq_Inr policy_rules_def)
  have "effect_decision (mget rule ''effect'') \<noteq> None" if "rule \<in> set (policy_rules b)" for rule
  proof -
    obtain i where "(i, rule) \<in> set (enumerate_list (policy_rules b))"
      using \<open>rule \<in> set (policy_rules b)\<close> by (metis set_enumerate imageE prod.collapse)
    with v(2) show ?thesis
      by (fastforce simp: eachR_Inr validated_publication_rule_def Let_def bindR_eq_Inr mget_def)
  qed
  with v(1) show ?thesis by blast
qed

lemma matched_publication_effects:
  assumes m: "matched_publication_rules se inp policies = Inr ms"
    and valid: "\<forall>b \<in> set policies. \<forall>rule \<in> set (policy_rules b). effect_decision (mget rule ''effect'') \<noteq> None"
  shows "mr_effect ` set ms = publication_effects se inp policies"
proof -
  let ?gives = "\<lambda>rule e. (mget rule ''conditions'' = JNull \<or> se_valid se (mget rule ''conditions'') inp)
    \<and> e = the (effect_decision (mget rule ''effect''))"
  have one: "mr_effect ` set ys = {e. ?gives (snd (snd x)) e}" if "match_publication_rule se inp x = Inr ys" for x ys
    using that
    by (cases x) (auto simp: match_publication_rule_def mget_def Let_def bindR_eq_Inr publication_conditions_match_def
        split: if_splits option.splits)
  obtain mss where mss: "list_all2 (\<lambda>x y. match_publication_rule se inp x = Inr y) (concat (map indexed_rules policies)) mss"
      "ms = concat mss"
    using m by (auto simp: matched_publication_rules_def bindR_eq_Inr mapR_Inr)
  have "mr_effect ` set (concat ys) = {e. \<exists>x \<in> set xs. ?gives (snd (snd x)) e}"
    if "list_all2 (\<lambda>x y. match_publication_rule se inp x = Inr y) xs ys" for xs ys
    using that
  proof (induction rule: list_all2_induct)
    case (Cons x xs y ys)
    show ?case using one[OF Cons(1)] Cons.IH by (auto simp: image_Un)
  qed simp
  moreover have "(\<exists>x \<in> set (indexed_rules b). ?gives (snd (snd x)) e) \<longleftrightarrow> (\<exists>rule \<in> set (policy_rules b). ?gives rule e)"
    for b e by (rule indexed_rules_ex)
  ultimately have "mr_effect ` set ms = {e. \<exists>b \<in> set policies. \<exists>rule \<in> set (policy_rules b). ?gives rule e}"
    using mss by simp
  then show ?thesis using valid unfolding publication_effects_def by fastforce
qed

text \<open>An allowed publication: nothing failed, nothing waits for an approval, every matching rule allows.\<close>

lemma publication_outcome_ALLOW:
  assumes "publication_outcome policies action failures prior ms = Inr (w, ALLOW, reason)"
  shows "failures = [] \<and> (\<forall>(i, p) \<in> set prior. dget p ''decision'' \<noteq> JStr ''REQUIRE_APPROVAL'')
    \<and> mr_effect ` set ms = {ALLOW}"
proof -
  have f: "failures = []" "\<forall>(i, p) \<in> set prior. dget p ''decision'' \<noteq> JStr ''REQUIRE_APPROVAL''"
    using assms by (auto simp: publication_outcome_def list_ex_iff split: if_splits)
  with assms obtain m rest where ms: "ms = m # rest" "mr_effect (first_max mr_effect m rest) = ALLOW"
    by (auto simp: publication_outcome_def Let_def bindR_eq_Inr split: if_splits list.splits)
  have "\<forall>x \<in> set ms. mr_effect x \<le> ALLOW" using first_max_greatest[of mr_effect m rest] ms by auto
  then have "\<forall>x \<in> set ms. mr_effect x = ALLOW"
    by (metis decision_priority.simps(1) le_zero_eq less_eq_policy_decision_def order_antisym zero_le)
  with f ms(1) show ?thesis by auto
qed

lemma decided_ALLOW:
  assumes d: "decided_record env se q failures = Inr entry" and allow: "dget entry ''decision'' = JStr ''ALLOW''"
    and valid: "\<forall>b \<in> set (pq_policies q). \<forall>rule \<in> set (policy_rules b). effect_decision (mget rule ''effect'') \<noteq> None"
  shows "failures = [] \<and> (\<forall>(i, p) \<in> set (pq_prior q). dget p ''decision'' \<noteq> JStr ''REQUIRE_APPROVAL'')
    \<and> publication_effects se (publication_input q (request_summary q [])) (pq_policies q) = {ALLOW}
    \<and> dget entry ''id'' = JStr (pq_decision_id q)"
proof -
  obtain ms w decision reason where o:
    "matched_publication_rules se (publication_input q (request_summary q failures)) (pq_policies q) = Inr ms"
    "publication_outcome (pq_policies q) (pq_action q) failures (pq_prior q) ms = Inr (w, decision, reason)"
    "entry = publication_record q (request_summary q failures) ms (w, decision, reason)"
    using d by (auto simp: decided_record_def Let_def bindR_eq_Inr)
  have "decision_value decision = ''ALLOW''"
    using allow by (simp add: o(3) publication_record_def Let_def dget_Cons)
  then have a: "decision = ALLOW" by (cases decision) simp_all
  from publication_outcome_ALLOW[OF o(2)[unfolded a]] matched_publication_effects[OF o(1) valid] show ?thesis
    by (auto simp: o(3) publication_record_def Let_def dget_Cons)
qed

lemma publication_allowed:
  assumes run: "publication_evaluate env se (in_memory_store wall) did te ca aids as eids es prior policies actor scope arg now s
      = (Inr v, t)" and allow: "dget v ''decision'' = JStr ''ALLOW''"
  shows "(\<exists>oid. map_of (objects s) oid = Some v)
    \<or> (\<exists>q. publication_request did te ca aids as eids es prior policies actor scope arg now = Inr q
        \<and> evidence_complete s q
        \<and> publication_effects se (publication_input q (request_summary q [])) (pq_policies q) = {ALLOW}
        \<and> map_of (objects t) did = Some v)"
proof (cases "\<exists>oid. map_of (objects s) oid = Some v")
  case False
  obtain q failures u entry where
    q: "publication_request did te ca aids as eids es prior policies actor scope arg now = Inr q"
    and f: "request_failures env (in_memory_store wall) q s = (Inr failures, u)"
    and d: "decided_record env se q failures = Inr entry"
    and c: "mem_create (JObj entry) (publication_key env q) u = (Inr v, t)"
    using run
    by (auto simp: publication_evaluate_def decide_publication_def eff_simps in_memory_store_def
        split: sum.splits prod.splits if_splits)
  have qs: "pq_decision_id q = did" "\<exists>bs. mapR validated_publication_policy policies = Inr bs \<and> pq_policies q = sort_key policy_sort_key bs"
    using q by (auto simp: publication_request_def Let_def bindR_eq_Inr)
  have valid: "\<forall>b \<in> set (pq_policies q). \<forall>rule \<in> set (policy_rules b). effect_decision (mget rule ''effect'') \<noteq> None"
    using qs(2) validated_publication_policy_Inr by (fastforce simp: mapR_Inr list_all2_conv_all_nth in_set_conv_nth)
  have "u = s" using f by (auto simp: request_failures_def evidence_failures_def success_iffs dest!: trust_records_Inr)
  with mem_create_new[OF c] False have v: "v = entry" "map_of (objects t) (as_str (dget entry ''id'')) = Some entry" by auto
  note a = decided_ALLOW[OF d allow[unfolded v(1)] valid]
  have "evidence_complete s q"
    using evidence_failures_none[OF f[unfolded request_failures_def conjunct1[OF a]]] a
    unfolding evidence_complete_def Let_def by fastforce
  with q a qs v show ?thesis by auto
qed blast


text \<open>C37. A publication is allowed only on complete evidence: unless the decision is one already on
  record, every required artifact and evaluation is in the store as given, of this execution and
  revision, one of them is a patch, every evaluation succeeded and passed, no earlier decision
  denies or waits for approval, and every publication rule whose conditions hold allows it, at
  least one.\<close>

theorem publication_needs_evidence:
  assumes "publication_evaluate env se (in_memory_store wall) did te ca aids as eids es prior policies actor scope arg now s
      = (Inr v, t)" and "dget v ''decision'' = JStr ''ALLOW''"
  shows "(\<exists>oid. map_of (objects s) oid = Some v)
    \<or> (\<exists>q. publication_request did te ca aids as eids es prior policies actor scope arg now = Inr q
        \<and> evidence_complete s q
        \<and> publication_effects se (publication_input q (request_summary q [])) (pq_policies q) = {ALLOW}
        \<and> map_of (objects t) did = Some v)"
  using assms by (rule publication_allowed)

definition sample_evidence :: "string \<Rightarrow> string \<Rightarrow> dict \<Rightarrow> dict" where
  "sample_evidence kind_name i extra = [(''kind'', JStr kind_name), (''id'', JStr i), (''traceId'', JStr ''tr''),
     (''repositoryRevision'', JStr ''r''), (''provenance'', JObj [(''workflowExecutionId'', JStr ''w1'')])] @ extra"

definition sample_patch :: dict where
  "sample_patch = sample_evidence ''GeneratedArtifact'' ''p'' [(''artifactType'', JStr ''PATCH'')]"

definition sample_pass :: dict where
  "sample_pass = sample_evidence ''EvaluationResult'' ''e'' [(''status'', JStr ''SUCCEEDED''), (''outcome'', JStr ''PASS'')]"

definition published_store :: store where
  "published_store = empty_store\<lparr>objects := [(''p'', sample_patch), (''e'', sample_pass)]\<rparr>"

definition publication_policy :: "string \<Rightarrow> applicable_policy" where
  "publication_policy effect = \<lparr>ap_scope = WORKFLOW, ap_resource = [(''apiVersion'', JStr ''aep.dev/v1alpha1''),
     (''kind'', JStr ''Policy''), (''metadata'', JObj [(''name'', JStr ''p''), (''version'', JStr ''1.0.0'')]),
     (''spec'', JObj [(''type'', JStr ''publication''), (''rules'', JList [JObj [(''effect'', JStr effect)]])])]\<rparr>"

definition sample_publication :: "string \<Rightarrow> (exn + dict) \<times> store" where
  "sample_publication effect = publication_evaluate sample_env \<lparr>se_check = (\<lambda>s. None), se_valid = (\<lambda>s v. True)\<rparr>
     (in_memory_store []) ''d'' ''t'' (JObj [(''action'', JStr ''push''), (''target'', JObj [(''repositoryRevision'', JStr ''r'')])])
     (JList [JStr ''p'']) (JList [JObj sample_patch]) (JList [JStr ''e'']) (JList [JObj sample_pass]) (JList [])
     [publication_policy effect] ''actor'' (JObj [])
     (Context \<lparr>cor_trace = ''tr'', cor_workflow = ''w1'', cor_task = Some ''t''\<rparr>) ''now'' published_store"


theorem publication_needs_evidence_witness:
  "\<exists>v t q. sample_publication ''allow'' = (Inr v, t) \<and> dget v ''decision'' = JStr ''ALLOW''
     \<and> evidence_complete published_store q \<and> map_of (objects t) ''d'' = Some v"
proof -
  let ?run = "sample_publication ''allow''"
  have "(case ?run of (Inr v, t) \<Rightarrow> dget v ''decision'' = JStr ''ALLOW'' | _ \<Rightarrow> False)" by code_simp
  then obtain v t where v: "?run = (Inr v, t)" "dget v ''decision'' = JStr ''ALLOW''"
    by (auto split: prod.splits sum.splits)
  have "map_of (objects published_store) oid = Some w \<Longrightarrow> dget w ''decision'' = JNull" for oid w
    by (auto simp: published_store_def sample_patch_def sample_pass_def sample_evidence_def dget_Cons dget_Nil split: if_splits)
  with publication_needs_evidence[OF v(1)[unfolded sample_publication_def] v(2)] v show ?thesis by force
qed

end
