(* ===== verification/PyText.thy ===== *)
theory PyText
  imports Resources
begin

text \<open>
  Text as the source handles it: stripping, splitting and the regular expressions of the \<open>re\<close>
  module, as expressions matched by derivatives.  \<open>rx_full\<close> is a match of the whole text and
  \<open>rx_at\<close> a match at its start; which characters a group takes is written out where a group is used.
\<close>

section \<open>Strings\<close>

definition rstrip_of :: "(char \<Rightarrow> bool) \<Rightarrow> string \<Rightarrow> string" where
  "rstrip_of p s = rev (dropWhile p (rev s))"

definition strip_of :: "(char \<Rightarrow> bool) \<Rightarrow> string \<Rightarrow> string" where
  "strip_of p s = rstrip_of p (dropWhile p s)"

definition tab :: char where "tab = CHR 0x09"
definition newline :: char where "newline = CHR 0x0A"
definition carriage :: char where "carriage = CHR 0x0D"

definition blank_char :: "char \<Rightarrow> bool" where
  "blank_char c \<longleftrightarrow> c = CHR '' '' \<or> c = tab"

definition line_char :: "char \<Rightarrow> bool" where
  "line_char c \<longleftrightarrow> c = newline \<or> c = carriage"

definition starts_with :: "string \<Rightarrow> string \<Rightarrow> bool" where
  "starts_with p s \<longleftrightarrow> take (length p) s = p"

definition ends_with :: "string \<Rightarrow> string \<Rightarrow> bool" where
  "ends_with p s \<longleftrightarrow> starts_with (rev p) (rev s)"

text \<open>\<open>p in s\<close>, and \<open>s.index(p)\<close> where it is.\<close>

fun find_text :: "string \<Rightarrow> string \<Rightarrow> nat option" where
  "find_text p [] = (if p = [] then Some 0 else None)"
| "find_text p (c # s) = (if starts_with p (c # s) then Some 0 else map_option Suc (find_text p s))"

definition contains :: "string \<Rightarrow> string \<Rightarrow> bool" where
  "contains p s \<longleftrightarrow> find_text p s \<noteq> None"

text \<open>\<open>s.split(c)\<close> and \<open>s.split()\<close>.\<close>

fun split_at_char :: "char \<Rightarrow> string \<Rightarrow> string list" where
  "split_at_char c [] = [[]]"
| "split_at_char c (x # s) =
     (if x = c then [] # split_at_char c s
      else case split_at_char c s of [] \<Rightarrow> [[x]] | w # ws \<Rightarrow> (x # w) # ws)"

definition split_words :: "string \<Rightarrow> string list" where
  "split_words s = filter (\<lambda>w. w \<noteq> []) (split_at_char CHR '' '' (map (\<lambda>c. if py_space c then CHR '' '' else c) s))"

text \<open>\<open>s.replace(p, q)\<close> for a pattern that is not empty; the counter skips the pattern just replaced.\<close>

fun replace_text_from :: "nat \<Rightarrow> string \<Rightarrow> string \<Rightarrow> string \<Rightarrow> string" where
  "replace_text_from k p q [] = []"
| "replace_text_from (Suc k) p q (c # s) = replace_text_from k p q s"
| "replace_text_from 0 p q (c # s) =
     (if starts_with p (c # s) then q @ replace_text_from (length p - 1) p q s
      else c # replace_text_from 0 p q s)"

definition replace_text :: "string \<Rightarrow> string \<Rightarrow> string \<Rightarrow> string" where
  "replace_text p q s = replace_text_from 0 p q s"

text \<open>\<open>s[a:b]\<close> for \<open>0 \<le> a\<close>.\<close>

definition slice :: "string \<Rightarrow> nat \<Rightarrow> nat \<Rightarrow> string" where
  "slice s a b = take (b - a) (drop a s)"

text \<open>
  \<open>str.casefold\<close> on one-byte code points.  The micro sign folds to a code point above 255 that no
  other one-byte character folds to, so it stays as it is.
\<close>

definition casefold :: "string \<Rightarrow> string" where
  "casefold s = concat (map (\<lambda>c. let n = of_char c :: nat in
     if (65 \<le> n \<and> n \<le> 90) \<or> (192 \<le> n \<and> n \<le> 222 \<and> n \<noteq> 215) then [char_of (n + 32)]
     else if n = 223 then ''ss'' else [c]) s)"

section \<open>Regular expressions\<close>

datatype rx = Nul | Eps | Cls "char \<Rightarrow> bool" | Alt rx rx | Cat rx rx | Star rx

fun nullable :: "rx \<Rightarrow> bool" where
  "nullable Nul = False"
| "nullable Eps = True"
| "nullable (Cls p) = False"
| "nullable (Alt r q) = (nullable r \<or> nullable q)"
| "nullable (Cat r q) = (nullable r \<and> nullable q)"
| "nullable (Star r) = True"

fun alt :: "rx \<Rightarrow> rx \<Rightarrow> rx" where
  "alt Nul q = q"
| "alt r Nul = r"
| "alt r q = Alt r q"

fun cat :: "rx \<Rightarrow> rx \<Rightarrow> rx" where
  "cat Nul q = Nul"
| "cat Eps q = q"
| "cat r q = Cat r q"

fun deriv :: "char \<Rightarrow> rx \<Rightarrow> rx" where
  "deriv c Nul = Nul"
| "deriv c Eps = Nul"
| "deriv c (Cls p) = (if p c then Eps else Nul)"
| "deriv c (Alt r q) = alt (deriv c r) (deriv c q)"
| "deriv c (Cat r q) = (if nullable r then alt (cat (deriv c r) q) (deriv c q) else cat (deriv c r) q)"
| "deriv c (Star r) = cat (deriv c r) (Star r)"

text \<open>\<open>re.fullmatch\<close>, \<open>re.match\<close> and \<open>re.search\<close> as tests.\<close>

fun rx_full :: "rx \<Rightarrow> string \<Rightarrow> bool" where
  "rx_full r [] = nullable r"
| "rx_full r (c # s) = rx_full (deriv c r) s"

fun rx_at :: "rx \<Rightarrow> string \<Rightarrow> bool" where
  "rx_at r [] = nullable r"
| "rx_at r (c # s) = (nullable r \<or> rx_at (deriv c r) s)"

fun rx_search :: "rx \<Rightarrow> string \<Rightarrow> bool" where
  "rx_search r [] = nullable r"
| "rx_search r (c # s) = (rx_at r (c # s) \<or> rx_search r s)"

definition chr :: "char \<Rightarrow> rx" where
  "chr c = Cls (\<lambda>x. x = c)"

definition lit :: "string \<Rightarrow> rx" where
  "lit s = foldr (\<lambda>c r. Cat (chr c) r) s Eps"

text \<open>The same under \<open>re.IGNORECASE\<close>.\<close>

definition lit_any_case :: "string \<Rightarrow> rx" where
  "lit_any_case s = foldr (\<lambda>c r. Cat (Cls (\<lambda>x. lower [x] = lower [c])) r) s Eps"

definition opt :: "rx \<Rightarrow> rx" where
  "opt r = Alt r Eps"

definition plus_of :: "rx \<Rightarrow> rx" where
  "plus_of r = Cat r (Star r)"

definition one_of :: "rx list \<Rightarrow> rx" where
  "one_of rs = foldr Alt rs Nul"

definition seq_of :: "rx list \<Rightarrow> rx" where
  "seq_of rs = foldr Cat rs Eps"

section \<open>What matching means\<close>

inductive_set star_lang :: "string set \<Rightarrow> string set" for A where
  star_Nil: "[] \<in> star_lang A"
| star_step: "u \<in> A \<Longrightarrow> v \<in> star_lang A \<Longrightarrow> u @ v \<in> star_lang A"

fun lang :: "rx \<Rightarrow> string set" where
  "lang Nul = {}"
| "lang Eps = {[]}"
| "lang (Cls p) = {[c] |c. p c}"
| "lang (Alt r q) = lang r \<union> lang q"
| "lang (Cat r q) = {u @ v |u v. u \<in> lang r \<and> v \<in> lang q}"
| "lang (Star r) = star_lang (lang r)"

lemma nullable_lang: "nullable r \<longleftrightarrow> [] \<in> lang r"
  by (induction r) (auto intro: star_lang.intros)

lemma lang_alt [simp]: "lang (alt r q) = lang r \<union> lang q"
  by (induction r q rule: alt.induct) auto

lemma lang_cat [simp]: "lang (cat r q) = lang (Cat r q)"
  by (induction r q rule: cat.induct) auto

lemma star_Cons: "c # s \<in> star_lang A \<longleftrightarrow> (\<exists>u v. s = u @ v \<and> c # u \<in> A \<and> v \<in> star_lang A)"
proof
  show "c # s \<in> star_lang A \<Longrightarrow> \<exists>u v. s = u @ v \<and> c # u \<in> A \<and> v \<in> star_lang A"
    by (induction "c # s" arbitrary: s rule: star_lang.induct) (auto simp: append_eq_Cons_conv)
next
  assume "\<exists>u v. s = u @ v \<and> c # u \<in> A \<and> v \<in> star_lang A"
  then obtain u v where "s = u @ v" "c # u \<in> A" "v \<in> star_lang A" by blast
  with star_step[of "c # u" A v] show "c # s \<in> star_lang A" by simp
qed

lemma lang_deriv: "s \<in> lang (deriv c r) \<longleftrightarrow> c # s \<in> lang r"
proof (induction r arbitrary: s)
  case (Cat r q)
  have "c # s \<in> lang (Cat r q) \<longleftrightarrow>
      (\<exists>u v. s = u @ v \<and> c # u \<in> lang r \<and> v \<in> lang q) \<or> ([] \<in> lang r \<and> c # s \<in> lang q)"
    by (auto simp: Cons_eq_append_conv)
  then show ?case using Cat.IH by (auto simp: nullable_lang)
next
  case (Star r)
  then show ?case by (auto simp: star_Cons)
qed auto

theorem rx_full_lang: "rx_full r s \<longleftrightarrow> s \<in> lang r"
  by (induction s arbitrary: r) (auto simp: nullable_lang lang_deriv)

theorem rx_at_lang: "rx_at r s \<longleftrightarrow> (\<exists>u v. s = u @ v \<and> u \<in> lang r)"
  by (induction s arbitrary: r) (auto simp: nullable_lang lang_deriv Cons_eq_append_conv)

lemma rx_Nul [simp]: "rx_at Nul s = False" "rx_full Nul s = False"
  by (induction s) simp_all

end
