(* ===== verification/MarkdownRegions.thy ===== *)
theory MarkdownRegions
  imports PyText
begin

text \<open>
  The regions of a Markdown text (\<open>planning_evidence.py\<close>): headings outside fences and the fenced
  blocks, and the span a region selector names.  A position is an offset into the text.
\<close>

section \<open>Lines\<close>

text \<open>The pieces between matches of \<open>\r\n|[\r\n]\<close>, each with its ending.\<close>

fun markdown_lines :: "string \<Rightarrow> string list" where
  "markdown_lines [] = []"
| "markdown_lines (c # s) =
     (if c = carriage then
        (case s of [] \<Rightarrow> [[c]]
         | d # t \<Rightarrow> if d = newline then [c, d] # markdown_lines t else [c] # markdown_lines s)
      else if c = newline then [c] # markdown_lines s
      else case markdown_lines s of [] \<Rightarrow> [[c]] | l # ls \<Rightarrow> (c # l) # ls)"

section \<open>HTML blocks\<close>

definition spaces_to_3 :: rx where
  "spaces_to_3 = seq_of [opt (chr CHR '' ''), opt (chr CHR '' ''), opt (chr CHR '' '')]"

definition upper_char :: "char \<Rightarrow> bool" where
  "upper_char c \<longleftrightarrow> CHR ''A'' \<le> c \<and> c \<le> CHR ''Z''"

definition letter_char :: "char \<Rightarrow> bool" where
  "letter_char c \<longleftrightarrow> upper_char c \<or> (CHR ''a'' \<le> c \<and> c \<le> CHR ''z'')"

definition word_digit :: "char \<Rightarrow> bool" where
  "word_digit c \<longleftrightarrow> CHR ''0'' \<le> c \<and> c \<le> CHR ''9''"

definition single_quote :: char where "single_quote = CHR 0x27"
definition double_quote :: char where "double_quote = CHR 0x22"
definition backtick :: char where "backtick = CHR 0x60"

text \<open>What ends an open HTML block.\<close>

datatype html_terminator = EndTag string | EndText string | BlankLine

definition space_class :: rx where
  "space_class = Cls py_space"

fun terminated :: "html_terminator \<Rightarrow> string \<Rightarrow> bool" where
  "terminated (EndTag tag) text = rx_search (seq_of [lit ''</'', lit_any_case tag, Star space_class, lit ''>'']) text"
| "terminated (EndText t) text = contains t text"
| "terminated BlankLine text = list_all blank_char text"

definition raw_tags :: "string list" where
  "raw_tags = [''script'', ''pre'', ''style'', ''textarea'']"

definition block_tags :: "string list" where
  "block_tags = [''address'', ''article'', ''aside'', ''base'', ''basefont'', ''blockquote'', ''body'', ''caption'',
     ''center'', ''col'', ''colgroup'', ''dd'', ''details'', ''dialog'', ''dir'', ''div'', ''dl'', ''dt'', ''fieldset'',
     ''figcaption'', ''figure'', ''footer'', ''form'', ''frame'', ''frameset'', ''h1'', ''h2'', ''h3'', ''h4'', ''h5'',
     ''h6'', ''head'', ''header'', ''hgroup'', ''hr'', ''html'', ''iframe'', ''legend'', ''li'', ''link'', ''main'',
     ''menu'', ''menuitem'', ''nav'', ''noframes'', ''ol'', ''optgroup'', ''option'', ''p'', ''param'', ''search'',
     ''section'', ''summary'', ''table'', ''tbody'', ''td'', ''tfoot'', ''th'', ''thead'', ''title'', ''tr'', ''track'', ''ul'']"

text \<open>After at most three spaces.\<close>

definition unindented :: "string \<Rightarrow> string" where
  "unindented text = (let s = dropWhile (\<lambda>c. c = CHR '' '') text
     in if length text - length s \<le> 3 then s else drop 3 text)"

text \<open>The raw tag a line opens, and what follows its match: a space, \<open>>\<close> or the end.\<close>

definition raw_tag :: "string \<Rightarrow> (string \<times> string) option" where
  "raw_tag text =
     (case unindented text of [] \<Rightarrow> None
      | c # s \<Rightarrow>
          if c \<noteq> CHR ''<'' then None
          else case find (\<lambda>tag. starts_with tag (lower s)
                   \<and> (case drop (length tag) s of [] \<Rightarrow> True | d # t \<Rightarrow> py_space d \<or> d = CHR ''>'')) raw_tags of
            None \<Rightarrow> None | Some tag \<Rightarrow> Some (take (length tag) s, drop (length tag + 1) s))"

definition opens_block :: "string \<Rightarrow> bool" where
  "opens_block text \<longleftrightarrow>
     rx_at (seq_of [spaces_to_3, lit ''<'', opt (lit ''/''), one_of (map lit_any_case block_tags),
       one_of [space_class, lit ''>'', lit ''/>'']]) text
     \<or> rx_full (seq_of [spaces_to_3, lit ''<'', opt (lit ''/''), one_of (map lit_any_case block_tags)]) text"

definition whole_tag :: "string \<Rightarrow> bool" where
  "whole_tag text \<longleftrightarrow>
     (let name_start = Cls (\<lambda>c. letter_char c \<or> c = CHR ''_'' \<or> c = CHR '':'');
          name_rest = Cls (\<lambda>c. letter_char c \<or> word_digit c \<or> c \<in> set ''_.:-'');
          bare = Cls (\<lambda>c. c \<notin> {CHR '' '', tab, carriage, newline, double_quote, single_quote, CHR ''='', CHR ''<'',
                   CHR ''>'', backtick});
          quoted = (\<lambda>q. seq_of [chr q, Star (Cls (\<lambda>c. c \<noteq> q)), chr q]);
          value = seq_of [Star space_class, lit ''='', Star space_class,
                    one_of [plus_of bare, quoted single_quote, quoted double_quote]];
          attribute = seq_of [plus_of space_class, name_start, Star name_rest, opt value]
      in rx_full (seq_of [spaces_to_3, lit ''<'', opt (lit ''/''), Cls letter_char,
           Star (Cls (\<lambda>c. letter_char c \<or> word_digit c \<or> c = CHR ''-'')), Star attribute, Star space_class,
           opt (lit ''/''), lit ''>'', Star (Cls blank_char)]) text)"

text \<open>The HTML block a line opens: nothing, or what ends it, unless the line does so itself.\<close>

definition opened_html :: "string \<Rightarrow> bool \<Rightarrow> html_terminator option option" where
  "opened_html text paragraph =
     (let s = unindented text;
          ends = (\<lambda>t there. Some (if contains t there then None else Some (EndText t))) in
      case raw_tag text of
        Some (tag, rest) \<Rightarrow> Some (if terminated (EndTag tag) rest then None else Some (EndTag tag))
      | None \<Rightarrow>
          if starts_with ''<!--'' s then ends ''-->'' (drop 4 s)
          else if starts_with ''<?'' s then ends ''?>'' text
          else if starts_with ''<!'' s \<and> (case drop 2 s of [] \<Rightarrow> False | c # t \<Rightarrow> upper_char c) then ends ''>'' text
          else if starts_with ''<![cdata['' (lower s) then ends '']]>'' text
          else if opens_block text \<or> (\<not> paragraph \<and> whole_tag text) then Some (Some BlankLine)
          else None)"

section \<open>Fences and headings\<close>

text \<open>The marker, its length and the info string of a fence that opens.\<close>

definition opened_fence :: "string \<Rightarrow> (char \<times> nat \<times> string) option" where
  "opened_fence text =
     (case unindented text of [] \<Rightarrow> None
      | c # s \<Rightarrow>
          let n = length (takeWhile (\<lambda>d. d = c) (c # s)); info = drop n (c # s) in
          if c = backtick \<and> 3 \<le> n \<and> backtick \<notin> set info then Some (c, n, info)
          else if c = CHR ''~'' \<and> 3 \<le> n then Some (c, n, info) else None)"

definition closes_fence :: "char \<Rightarrow> nat \<Rightarrow> string \<Rightarrow> bool" where
  "closes_fence c n text \<longleftrightarrow>
     (let s = unindented text; k = length (takeWhile (\<lambda>d. d = c) s)
      in n \<le> k \<and> list_all blank_char (drop k s))"

text \<open>A title without its closing marks.\<close>

definition without_closing :: "string \<Rightarrow> string" where
  "without_closing title =
     (let r = rev title; unmarked = dropWhile (\<lambda>c. c = CHR ''#'') r; bare = dropWhile blank_char unmarked
      in if title \<noteq> [] \<and> unmarked = [] then []
         else if unmarked \<noteq> r \<and> bare \<noteq> unmarked then rev bare
         else title)"

definition heading_of :: "string \<Rightarrow> (nat \<times> string) option" where
  "heading_of text =
     (let s = unindented text; n = length (takeWhile (\<lambda>c. c = CHR ''#'') s); rest = drop n s in
      if 1 \<le> n \<and> n \<le> 6 \<and> (case rest of [] \<Rightarrow> True | c # t \<Rightarrow> blank_char c)
      then Some (n, without_closing (rstrip_of blank_char (dropWhile blank_char rest))) else None)"

section \<open>Structure\<close>

type_synonym heading = "nat \<times> string \<times> nat \<times> nat"
type_synonym fence_block = "nat \<times> nat \<times> string \<times> nat"

record markdown_scan =
  ms_headings :: "heading list"
  ms_fences :: "fence_block list"
  ms_active :: "(char \<times> nat \<times> nat \<times> string \<times> nat) option"
  ms_html :: "html_terminator option"
  ms_paragraph :: bool

definition scan_line :: "nat \<Rightarrow> nat \<Rightarrow> string \<Rightarrow> markdown_scan \<Rightarrow> markdown_scan" where
  "scan_line offset line_number line m =
     (let text = rstrip_of line_char line in
      case ms_active m of
        Some (c, n, start, info, start_line) \<Rightarrow>
          if closes_fence c n text
          then m\<lparr>ms_paragraph := False, ms_fences := ms_fences m @ [(start, offset, info, start_line)], ms_active := None\<rparr>
          else m\<lparr>ms_paragraph := False\<rparr>
      | None \<Rightarrow>
          (case ms_html m of
             Some t \<Rightarrow> m\<lparr>ms_paragraph := False, ms_html := (if terminated t text then None else Some t)\<rparr>
           | None \<Rightarrow>
               (case opened_html text (ms_paragraph m) of
                  Some t \<Rightarrow> m\<lparr>ms_paragraph := False, ms_html := t\<rparr>
                | None \<Rightarrow>
                    (case opened_fence text of
                       Some (c, n, info) \<Rightarrow>
                         m\<lparr>ms_paragraph := False,
                           ms_active := Some (c, n, offset + length line, py_strip info, line_number)\<rparr>
                     | None \<Rightarrow>
                         (case heading_of text of
                            Some (level, title) \<Rightarrow>
                              m\<lparr>ms_paragraph := False,
                                ms_headings := ms_headings m @ [(offset, title, level, line_number)]\<rparr>
                          | None \<Rightarrow> m\<lparr>ms_paragraph := py_strip text \<noteq> []\<rparr>)))))"

fun scan_lines :: "nat \<Rightarrow> nat \<Rightarrow> string list \<Rightarrow> markdown_scan \<Rightarrow> markdown_scan" where
  "scan_lines offset line_number [] m = m"
| "scan_lines offset line_number (l # ls) m =
     scan_lines (offset + length l) (line_number + 1) ls (scan_line offset line_number l m)"

definition PlanningEvidenceError :: exn_class where
  "PlanningEvidenceError = OtherException ''PlanningEvidenceError''"

definition inspection_error :: "string \<Rightarrow> string \<Rightarrow> exn" where
  "inspection_error reason path =
     Exn (OtherException ''PlanningEvidenceInspectionError'') reason (JObj [(''reason'', JStr reason), (''path'', JStr path)])"

definition markdown_structure :: "string \<Rightarrow> exn + heading list \<times> fence_block list" where
  "markdown_structure content =
     (let m = scan_lines 0 1 (markdown_lines content)
        \<lparr>ms_headings = [], ms_fences = [], ms_active = None, ms_html = None, ms_paragraph = False\<rparr> in
      if ms_active m \<noteq> None then Inl (inspection_error ''REGION_MALFORMED'' [])
      else Inr (ms_headings m, ms_fences m))"

section \<open>Regions\<close>

text \<open>The only one of some matches.\<close>

definition only_match :: "'a list \<Rightarrow> exn + 'a" where
  "only_match xs = (case xs of [] \<Rightarrow> Inl (inspection_error ''REGION_MISSING'' [])
     | [x] \<Rightarrow> Inr x | _ \<Rightarrow> Inl (inspection_error ''REGION_AMBIGUOUS'' []))"

definition region_span :: "string \<Rightarrow> dict \<Rightarrow> exn + nat \<times> nat \<times> string \<times> nat" where
  "region_span content region =
     (let kind_value = dget region ''kind''; name_value = dget region ''name''; name = as_str name_value;
          malformed = inspection_error ''REGION_SELECTOR_MALFORMED'' [] in
      if \<not> is_str kind_value \<or> \<not> is_str name_value \<or> py_strip name = [] then Inl malformed
      else if as_str kind_value = ''WHOLE_FILE''
      then (if name \<noteq> ''WHOLE_FILE'' then Inl malformed else Inr (0, length content, ''whole-file'', 1))
      else bindR (markdown_structure content) (\<lambda>(headings, fences).
        if as_str kind_value = ''MARKDOWN_SECTION''
        then bindR (only_match (filter (\<lambda>(pos, title, l, n). title = name) headings)) (\<lambda>(start, _, level, line).
             Inr (start,
               case find (\<lambda>(pos, title, l, n). start < pos \<and> l \<le> level) headings of
                 None \<Rightarrow> length content | Some (pos, _) \<Rightarrow> pos,
               ''markdown-section:'' @ name @ '':line-'' @ dec_nat line, 1))
        else if as_str kind_value = ''MARKDOWN_FENCE''
        then bindR (only_match (filter (\<lambda>(s, e, info, n). name \<in> set (split_words info)) fences)) (\<lambda>(start, stop, _, line).
             Inr (start, stop, ''markdown-fence:'' @ name @ '':line-'' @ dec_nat line, 1))
        else Inl (inspection_error ''REGION_UNSUPPORTED'' [])))"


section \<open>A region is inside its text\<close>

definition scan_within :: "nat \<Rightarrow> markdown_scan \<Rightarrow> bool" where
  "scan_within n m \<longleftrightarrow> (\<forall>h \<in> set (ms_headings m). fst h \<le> n)
     \<and> (\<forall>(s, e, i, l) \<in> set (ms_fences m). s \<le> e \<and> e \<le> n)
     \<and> (case ms_active m of None \<Rightarrow> True | Some (c, k, start, i, l) \<Rightarrow> start \<le> n)"

lemma scan_line_within:
  assumes "scan_within offset m" shows "scan_within (offset + length line) (scan_line offset k line m)"
proof (cases "ms_active m")
  case None
  with assms show ?thesis
    by (auto simp: scan_within_def scan_line_def Let_def split: option.splits)
next
  case (Some x)
  with assms show ?thesis
    by (auto simp: scan_within_def scan_line_def Let_def split: option.splits prod.splits)
qed

lemma scan_lines_within:
  "scan_within offset m \<Longrightarrow> scan_within (offset + length (concat ls)) (scan_lines offset k ls m)"
proof (induction ls arbitrary: offset k m)
  case (Cons l ls)
  from Cons.IH[OF scan_line_within[OF Cons.prems, of l k], of "k + 1"] show ?case by (simp add: ac_simps)
qed simp

lemma concat_markdown_lines: "concat (markdown_lines s) = s"
proof (induction s rule: markdown_lines.induct)
  case (2 c s)
  note eq = markdown_lines.simps(2)[of c s]
  consider (last) "c = carriage" "s = []" | (pair) d t where "c = carriage" "s = d # t" "d = newline"
    | (one) d t where "c = carriage" "s = d # t" "d \<noteq> newline" | (nl) "c \<noteq> carriage" "c = newline"
    | (other) "c \<noteq> carriage" "c \<noteq> newline"
    by (cases s) auto
  then show ?case
  proof cases
    case last then show ?thesis by simp
  next
    case pair
    have "concat (markdown_lines t) = t" using 2(1) pair by blast
    with pair(1,3) show ?thesis unfolding eq by (simp add: pair(2) del: markdown_lines.simps)
  next
    case one
    have "concat (markdown_lines s) = s" using 2(2) one by blast
    with one(1,3) show ?thesis unfolding eq by (simp add: one(2) del: markdown_lines.simps)
  next
    case nl
    have "concat (markdown_lines s) = s" using 2(3) nl by blast
    with nl show ?thesis unfolding eq by (simp del: markdown_lines.simps)
  next
    case other
    have "concat (markdown_lines s) = s" using 2(4) other by blast
    with other show ?thesis unfolding eq by (cases "markdown_lines s") (simp_all del: markdown_lines.simps)
  qed
qed simp

lemma markdown_structure_within:
  assumes "markdown_structure content = Inr (headings, fences)"
  shows "\<forall>h \<in> set headings. fst h \<le> length content"
    "\<forall>(s, e, i, l) \<in> set fences. s \<le> e \<and> e \<le> length content"
proof -
  let ?m = "\<lparr>ms_headings = [], ms_fences = [], ms_active = None, ms_html = None, ms_paragraph = False\<rparr>"
  have "scan_within 0 ?m" by (simp add: scan_within_def)
  from scan_lines_within[OF this, of "markdown_lines content" 1]
  have "scan_within (length content) (scan_lines 0 1 (markdown_lines content) ?m)"
    by (simp add: concat_markdown_lines)
  then show "\<forall>h \<in> set headings. fst h \<le> length content"
    "\<forall>(s, e, i, l) \<in> set fences. s \<le> e \<and> e \<le> length content"
    using assms by (auto simp: markdown_structure_def Let_def scan_within_def split: if_splits)
qed

lemma only_match_Inr: "only_match xs = Inr x \<Longrightarrow> x \<in> set xs"
  by (auto simp: only_match_def split: list.splits)

lemma region_span_within:
  assumes "region_span content region = Inr (start, stop, identity, count)"
  shows "start \<le> stop \<and> stop \<le> length content"
proof (cases "as_str (dget region ''kind'') = ''WHOLE_FILE''")
  case True
  with assms show ?thesis by (auto simp: region_span_def Let_def split: if_splits)
next
  case False
  obtain headings fences where m: "markdown_structure content = Inr (headings, fences)"
    using assms False by (auto simp: region_span_def Let_def bindR_eq_Inr split: if_splits)
  note w = markdown_structure_within[OF m]
  let ?name = "as_str (dget region ''name'')"
  consider (titled) title level line where
      "only_match (filter (\<lambda>(pos, title, l, n). title = ?name) headings) = Inr (start, title, level, line)"
      "stop = (case find (\<lambda>(pos, title, l, n). start < pos \<and> l \<le> level) headings of
         None \<Rightarrow> length content | Some (pos, _) \<Rightarrow> pos)"
    | (fence) info line where
      "only_match (filter (\<lambda>(s, e, info, n). ?name \<in> set (split_words info)) fences) = Inr (start, stop, info, line)"
    using assms False m by (auto simp: region_span_def Let_def bindR_eq_Inr split: if_splits)
  then show ?thesis
  proof cases
    case titled
    from only_match_Inr[OF titled(1)] w(1) have "start \<le> length content" by auto
    with titled(2) w(1) show ?thesis
      by (auto simp: find_Some_iff split: option.splits) (metis fst_conv less_imp_le nth_mem)+
  next
    case fence
    from only_match_Inr[OF fence] w(2) show ?thesis by auto
  qed
qed

text \<open>A line that starts with neither a space nor \<open><\<close> opens no HTML block.\<close>

lemma deriv_tag: "c \<noteq> CHR '' '' \<Longrightarrow> c \<noteq> CHR ''<'' \<Longrightarrow> deriv c (seq_of (spaces_to_3 # lit ''<'' # rs)) = Nul"
  by (simp add: seq_of_def spaces_to_3_def opt_def chr_def lit_def)

lemma nullable_tag: "\<not> nullable (seq_of (spaces_to_3 # lit ''<'' # rs))"
  by (simp add: seq_of_def lit_def chr_def)

lemma plain_line:
  assumes "c \<noteq> CHR '' ''" "c \<noteq> CHR ''<''" "lower [c] = [c]"
  shows "opened_html (c # s) p = None"
proof -
  have l: "lower (c # s) = c # lower s" using assms(3) by (simp add: lower_def)
  show ?thesis
    using assms(1,2) l
    by (simp add: opened_html_def Let_def raw_tag_def unindented_def opens_block_def whole_tag_def deriv_tag nullable_tag
        rx_Nul starts_with_def)
qed

end
