(* ===== verification/LocalizedPatch.thy ===== *)
theory LocalizedPatch
  imports MarkdownRegions CanonicalText
begin

text \<open>
  The application of localized edits to a text (\<open>localized_patch.py\<close>).  A model names anchors and
  replacement text; where they may go is the trusted region, which the model cannot widen.
  Positions are offsets; a text of the model has no surrogates, so it is always UTF-8.
\<close>

section \<open>Errors and paths\<close>

definition patch_error :: "string \<Rightarrow> string \<Rightarrow> exn" where
  "patch_error code message = Exn LocalizedPatchError (code @ '': '' @ message) (JStr code)"

text \<open>\<open>PurePosixPath\<close>: its parts, and the text it prints as.\<close>

definition posix_parts :: "string \<Rightarrow> string list" where
  "posix_parts value = filter (\<lambda>p. p \<noteq> [] \<and> p \<noteq> ''.'') (split_at_char CHR ''/'' value)"

definition posix_str :: "string \<Rightarrow> string" where
  "posix_str value = (let parts = posix_parts value in if parts = [] then ''.'' else join_with ''/'' parts)"

definition nul_char :: char where "nul_char = CHR 0x00"

text \<open>A path \<open>.\<close> has no part, so asking for its first raises \<open>IndexError\<close>.\<close>

definition safe_path :: "string \<Rightarrow> exn + unit" where
  "safe_path value =
     (let unsafe = patch_error ''UNSAFE_PATH'' ''operation path is unsafe''; parts = posix_parts value in
      if value = [] \<or> CHR 0x5C \<in> set value \<or> nul_char \<in> set value then Inl unsafe
      else if starts_with ''/'' value \<or> ''..'' \<in> set parts \<or> posix_str value \<noteq> value then Inl unsafe
      else case parts of
             [] \<Rightarrow> Inl (Exn IndexError ''tuple index out of range'' JNull)
           | p # ps \<Rightarrow> checkR (lower p \<noteq> ''.git'') unsafe)"

definition region_bounds :: "string \<Rightarrow> dict \<Rightarrow> exn + nat \<times> nat" where
  "region_bounds content region =
     (case region_span content region of
        Inl e \<Rightarrow> Inl (patch_error ''TRUSTED_REGION_UNRESOLVED'' ''trusted region does not resolve uniquely'')
      | Inr (start, stop, _) \<Rightarrow> Inr (start, stop))"

section \<open>Anchors\<close>

text \<open>The line that starts at \<open>cursor\<close>: its end, its terminator and where the next one starts.\<close>

definition line_at :: "string \<Rightarrow> nat \<Rightarrow> nat \<times> string \<times> nat" where
  "line_at content cursor =
     (case find_text [newline] (drop cursor content) of
        None \<Rightarrow> (length content, [], length content)
      | Some k \<Rightarrow>
          let nl = cursor + k;
              line_end = (if cursor < nl \<and> content ! (nl - 1) = carriage then nl - 1 else nl)
          in (line_end, slice content line_end (nl + 1), nl + 1))"

lemma find_text_bound: "find_text p s = Some k \<Longrightarrow> k + length p \<le> length s"
proof (induction s arbitrary: k)
  case (Cons c s)
  show ?case
  proof (cases "starts_with p (c # s)")
    case True
    then have "length p \<le> length (c # s)" unfolding starts_with_def by (metis length_take min.cobounded1)
    with True Cons.prems show ?thesis by simp
  next
    case False
    with Cons show ?thesis by (auto split: if_splits)
  qed
qed (simp split: if_splits)

function line_matches_from :: "string \<Rightarrow> string \<Rightarrow> nat \<Rightarrow> nat \<Rightarrow> nat \<Rightarrow> (nat \<times> nat \<times> string) list" where
  "line_matches_from content anchor region_start region_end cursor =
     (if length content \<le> cursor then []
      else let (line_end, terminator, next_cursor) = line_at content cursor in
        (if region_start \<le> cursor \<and> line_end \<le> region_end \<and> slice content cursor line_end = anchor
         then [(cursor, line_end, terminator)] else [])
        @ line_matches_from content anchor region_start region_end next_cursor)"
  by pat_completeness auto
termination
proof (relation "measure (\<lambda>(content, anchor, a, b, cursor). length content - cursor)", goal_cases)
  case (2 content anchor a b cursor x line_end y terminator next_cursor)
  then show ?case by (auto simp: line_at_def Let_def split: option.splits dest!: find_text_bound)
qed simp

declare line_matches_from.simps [simp del]

definition logical_line_matches :: "string \<Rightarrow> string \<Rightarrow> nat \<Rightarrow> nat \<Rightarrow> (nat \<times> nat \<times> string) list" where
  "logical_line_matches content anchor region_start region_end =
     line_matches_from content anchor region_start region_end 0"

definition line_ending :: "string \<Rightarrow> string" where
  "line_ending content =
     (case find_text [newline] content of
        Some k \<Rightarrow> if 0 < k \<and> content ! (k - 1) = carriage then [carriage, newline] else [newline]
      | None \<Rightarrow> [newline])"

definition ends_line :: "string \<Rightarrow> bool" where
  "ends_line s \<longleftrightarrow> s \<noteq> [] \<and> line_char (last s)"

definition line_boundary_content :: "string \<Rightarrow> nat \<Rightarrow> string \<Rightarrow> bool \<Rightarrow> string" where
  "line_boundary_content preimage offset content after =
     (let ending = line_ending preimage;
          normalized = replace_text [newline] ending
            (replace_text [carriage] [newline] (replace_text [carriage, newline] [newline] content));
          at_start = (offset = 0 \<or> line_char (preimage ! (offset - 1)));
          at_end = (offset = length preimage); following_text = (offset < length preimage);
          finish = (\<lambda>s. if \<not> ends_line s \<and> (following_text \<or> \<not> at_end \<or> ends_line preimage) then s @ ending else s) in
      if normalized = [] then []
      else if after \<and> \<not> at_start \<and> at_end
      then let bare = (if ends_with ending normalized then take (length normalized - length ending) normalized
                       else normalized)
           in if bare = [] then [] else finish (ending @ bare)
      else finish normalized)"

section \<open>One operation\<close>

record edit =
  ed_start :: nat
  ed_end :: nat
  ed_content :: string
  ed_record :: dict

record patch_target =
  pt_path :: string
  pt_preimage :: string
  pt_sha :: string
  pt_revision :: string
  pt_region :: "(dict \<times> nat \<times> nat) option"
  pt_allow_rewrite :: bool
  pt_exists :: bool
  pt_count :: nat

definition span_json :: "nat \<Rightarrow> nat \<Rightarrow> json" where
  "span_json a b = JList [JInt (int a), JInt (int b)]"

definition trusted_region :: "dict \<Rightarrow> nat \<Rightarrow> nat \<Rightarrow> json" where
  "trusted_region region start stop =
     JObj [(''kind'', dget region ''kind''), (''name'', dget region ''name''),
       (''selectionId'', dget region ''selectionId''), (''planArtifactId'', dget region ''planArtifactId''),
       (''span'', span_json start stop)]"

definition region_entry :: "patch_target \<Rightarrow> dict" where
  "region_entry pt = (case pt_region pt of None \<Rightarrow> []
     | Some (region, start, stop) \<Rightarrow> [(''trustedRegion'', trusted_region region start stop)])"

text \<open>\<open>str.isprintable\<close> on the characters of the model.\<close>

definition printable_char :: "char \<Rightarrow> bool" where
  "printable_char c \<longleftrightarrow> (let n = of_char c :: nat in (32 \<le> n \<and> n < 127) \<or> (160 < n \<and> n \<noteq> 173))"

text \<open>What every operation must say, whatever it does; its content.\<close>

definition common_checks :: "patch_target \<Rightarrow> json \<Rightarrow> exn + string" where
  "common_checks pt raw =
     (let d = as_dict raw; declared_region = dget d ''regionId''; content = dget_or d ''content'' (JStr []) in
      bindR (checkR (is_mapping raw) (patch_error ''INVALID_OPERATION'' ''operation must be an object'')) (\<lambda>_.
      bindR (checkR (hashable (dget d ''operation'')) unhashable_error) (\<lambda>_.
      bindR (checkR (in_strs (dget d ''operation'') [''insert'', ''replace'', ''delete'', ''rewrite''])
        (patch_error ''INVALID_OPERATION'' ''operation must be insert, replace, delete, or rewrite'')) (\<lambda>_.
      bindR (checkR (dget d ''path'' = JStr (pt_path pt))
        (patch_error ''PATH_MISMATCH'' ''operation path differs from target'')) (\<lambda>_.
      bindR (checkR (dget d ''repositoryRevision'' = JStr (pt_revision pt))
        (patch_error ''STALE_REVISION'' ''operation revision differs from target'')) (\<lambda>_.
      bindR (checkR (dget d ''preimageSha256'' = JStr (pt_sha pt))
        (patch_error ''STALE_PREIMAGE'' ''operation digest differs from target'')) (\<lambda>_.
      bindR (checkR (declared_region = JNull \<or> nonempty_str declared_region
          \<and> length (as_str declared_region) \<le> 128 \<and> list_all printable_char (as_str declared_region))
        (patch_error ''INVALID_OPERATION'' ''regionId must be a bounded diagnostic identifier when present'')) (\<lambda>_.
      bindR (checkR (is_str content \<and> nul_char \<notin> set (as_str content))
        (patch_error ''UNSAFE_CONTENT'' ''operation content must be UTF-8 text without NUL'')) (\<lambda>_.
      Inr (as_str content))))))))))"

text \<open>A rewrite is the only operation of its patch, so no other was seen before it.\<close>

definition rewrite_edit :: "patch_target \<Rightarrow> nat \<Rightarrow> dict \<Rightarrow> string \<Rightarrow> exn + edit" where
  "rewrite_edit pt ordinal d content =
     bindR (checkR (\<not> ((\<not> pt_allow_rewrite pt \<and> pt_exists pt) \<or> pt_count pt \<noteq> 1))
       (patch_error ''REWRITE_NOT_AUTHORIZED'' ''full-file rewrite requires one explicit authorized operation'')) (\<lambda>_.
     Inr \<lparr>ed_start = 0, ed_end = length (pt_preimage pt), ed_content = content,
          ed_record = [(''ordinal'', JInt (int ordinal)), (''operation'', JStr ''rewrite''),
            (''span'', span_json 0 (length (pt_preimage pt))), (''modelDeclaredRegionId'', dget d ''regionId'')]
            @ region_entry pt\<rparr>)"

text \<open>Where the anchor of an operation is: the positions and the terminators of its matches.\<close>

definition anchor_matches ::
  "patch_target \<Rightarrow> bool \<Rightarrow> string \<Rightarrow> nat \<Rightarrow> nat \<Rightarrow> exn + (nat \<times> nat \<times> string) list" where
  "anchor_matches pt whole_file anchor region_start region_end =
     (if whole_file then Inr [(0, length anchor, [])]
      else if carriage \<in> set anchor \<or> newline \<in> set anchor
      then Inl (patch_error ''INVALID_ANCHOR''
        ''localized anchor must be one complete logical line without a line terminator'')
      else Inr (logical_line_matches (pt_preimage pt) anchor region_start region_end))"

definition the_match :: "(nat \<times> nat \<times> string) list \<Rightarrow> exn + nat \<times> nat \<times> string" where
  "the_match matches =
     (case matches of
        [m] \<Rightarrow> Inr m
      | _ \<Rightarrow> Inl (patch_error (if matches = [] then ''ANCHOR_MISSING'' else ''ANCHOR_AMBIGUOUS'')
               (''anchor matched '' @ dec_nat (length matches) @ '' times inside trusted region'')))"

text \<open>The span an operation replaces and the text it puts there, from its anchor.\<close>

definition placed ::
  "patch_target \<Rightarrow> string \<Rightarrow> dict \<Rightarrow> string \<Rightarrow> bool \<Rightarrow> nat \<times> nat \<times> string \<Rightarrow> exn + nat \<times> nat \<times> string" where
  "placed pt operation d content whole_file m =
     (let (line_start, line_end, terminator) = m; placement = dget_or d ''placement'' (JStr ''after'') in
      if operation = ''insert''
      then bindR (checkR (hashable placement) unhashable_error) (\<lambda>_.
           bindR (checkR (in_strs placement [''before'', ''after''])
             (patch_error ''INVALID_OPERATION'' ''insert placement must be before or after'')) (\<lambda>_.
           let pos = (if placement = JStr ''before'' then line_start else line_end + length terminator)
           in Inr (pos, pos, line_boundary_content (pt_preimage pt) pos content (placement = JStr ''after''))))
      else if operation = ''delete''
      then bindR (checkR (content = [])
             (patch_error ''INVALID_OPERATION'' ''delete must not include content'')) (\<lambda>_.
           bindR (checkR whole_file (patch_error ''DELETE_NOT_AUTHORIZED''
             (''localized deletion requires plan-operation evidence; ''
              @ ''only an exact whole-file delete is available''))) (\<lambda>_.
           Inr (line_start, line_end, content)))
      else Inr (line_start, line_end, content))"

text \<open>Outside the region, or at an edge of a section where it would join its neighbour.\<close>

definition out_of_region ::
  "patch_target \<Rightarrow> string \<Rightarrow> dict \<Rightarrow> dict \<Rightarrow> nat \<Rightarrow> nat \<Rightarrow> nat \<times> nat \<Rightarrow> nat \<times> nat \<times> string \<Rightarrow> bool" where
  "out_of_region pt operation d region region_start region_end anchor_span edit_span \<longleftrightarrow>
     (let (anchor_start, anchor_end) = anchor_span; (start, stop, content) = edit_span;
          placement = dget_or d ''placement'' (JStr ''after'');
          section = (dget region ''kind'' = JStr ''MARKDOWN_SECTION'') in
      anchor_start < region_start \<or> region_end < anchor_end \<or> start < region_start \<or> region_end < stop
      \<or> (operation = ''insert'' \<and> placement = JStr ''before'' \<and> start = region_start \<and> section)
      \<or> (operation = ''insert'' \<and> placement = JStr ''after'' \<and> start = region_end \<and> section
         \<and> region_end < length (pt_preimage pt) \<and> content \<noteq> [] \<and> \<not> ends_line content))"

definition localized_edit ::
  "environment \<Rightarrow> patch_target \<Rightarrow> dict \<Rightarrow> nat \<Rightarrow> nat \<Rightarrow> nat \<Rightarrow> dict \<Rightarrow> string \<Rightarrow> string \<Rightarrow> exn + edit" where
  "localized_edit env pt region region_start region_end ordinal d operation content =
     (let anchor_value = dget d ''anchor''; anchor = as_str anchor_value; expected = dget d ''expectedMatchCount'';
          whole_file = (operation = ''delete'' \<and> anchor = pt_preimage pt \<and> pt_count pt = 1) in
      bindR (checkR (nonempty_str anchor_value)
        (patch_error ''MISSING_ANCHOR'' ''localized operation requires a non-empty anchor'')) (\<lambda>_.
      bindR (checkR (is_int expected \<and> 1 \<le> as_int expected)
        (patch_error ''INVALID_MATCH_COUNT'' ''expectedMatchCount must be a positive integer'')) (\<lambda>_.
      bindR (anchor_matches pt whole_file anchor region_start region_end) (\<lambda>matches.
      bindR (the_match matches) (\<lambda>m.
      let anchor_start = fst m; anchor_end = anchor_start + length anchor in
      bindR (placed pt operation d content whole_file m) (\<lambda>(start, stop, text).
      bindR (checkR (\<not> out_of_region pt operation d region region_start region_end
                 (anchor_start, anchor_end) (start, stop, text))
        (patch_error ''OUT_OF_REGION'' ''operation anchor is outside the trusted region'')) (\<lambda>_.
      Inr \<lparr>ed_start = start, ed_end = stop, ed_content = text,
           ed_record = [(''ordinal'', JInt (int ordinal)), (''operation'', JStr operation),
             (''span'', span_json start stop), (''anchorSha256'', JStr (env_sha256 env anchor)),
             (''anchorKind'', JStr (if whole_file then ''WHOLE_FILE'' else ''LOGICAL_LINE'')),
             (''resolvedAnchorSpan'', span_json anchor_start anchor_end),
             (''trustedRegionAnchorMatchCount'', JInt (int (length matches))),
             (''modelDeclaredRegionId'', dget d ''regionId'')] @ region_entry pt\<rparr>)))))))"


definition operation_edit :: "environment \<Rightarrow> patch_target \<Rightarrow> nat \<times> json \<Rightarrow> exn + edit" where
  "operation_edit env pt op =
     (let (ordinal, raw) = op; d = as_dict raw; operation = as_str (dget d ''operation'') in
      bindR (common_checks pt raw) (\<lambda>content.
      if operation = ''rewrite'' then rewrite_edit pt ordinal d content
      else case pt_region pt of
             Some (region, start, stop) \<Rightarrow> localized_edit env pt region start stop ordinal d operation content
           | None \<Rightarrow> localized_edit env pt [] 0 0 ordinal d operation content))"

section \<open>The patch\<close>

fun ordered_spans :: "nat \<Rightarrow> nat \<Rightarrow> edit list \<Rightarrow> exn + unit" where
  "ordered_spans prior_start prior_end [] = Inr ()"
| "ordered_spans prior_start prior_end (e # es) =
     (if ed_start e < prior_start
      then Inl (patch_error ''OUT_OF_ORDER_EDITS'' ''operation spans are not source ordered'')
      else if ed_start e < prior_end then Inl (patch_error ''OVERLAPPING_EDITS'' ''operation spans overlap'')
      else ordered_spans (ed_start e) (max prior_end (ed_end e)) es)"

text \<open>The text with its edits, and the pieces no edit replaces.\<close>

fun spliced :: "string \<Rightarrow> nat \<Rightarrow> edit list \<Rightarrow> string" where
  "spliced preimage cursor [] = drop cursor preimage"
| "spliced preimage cursor (e # es) =
     slice preimage cursor (ed_start e) @ ed_content e @ spliced preimage (ed_end e) es"

fun unchanged_pieces :: "string \<Rightarrow> nat \<Rightarrow> edit list \<Rightarrow> string list" where
  "unchanged_pieces preimage cursor [] = [drop cursor preimage]"
| "unchanged_pieces preimage cursor (e # es) =
     slice preimage cursor (ed_start e) # unchanged_pieces preimage (ed_end e) es"

definition region_kept :: "patch_target \<Rightarrow> edit list \<Rightarrow> string \<Rightarrow> bool" where
  "region_kept pt edits postimage \<longleftrightarrow>
     (case pt_region pt of
        None \<Rightarrow> True
      | Some (region, start, stop) \<Rightarrow>
          dget region ''kind'' = JStr ''WHOLE_FILE''
          \<or> (case region_bounds postimage region of
               Inl e \<Rightarrow> False
             | Inr (post_start, post_stop) \<Rightarrow> post_start = start
                 \<and> int post_stop = int stop
                     + sum_list (map (\<lambda>e. int (length (ed_content e)) - (int (ed_end e) - int (ed_start e))) edits)))"

record localized_patch =
  lp_content :: string
  lp_operations :: "dict list"
  lp_replacements :: "string list"
  lp_preservation :: dict

text \<open>The bytes of a text in UTF-8: a character of the model has one or two.\<close>

definition utf8_size :: "string \<Rightarrow> int" where
  "utf8_size s = sum_list (map (\<lambda>c. if of_char c < (128 :: nat) then 1 else 2) s)"

definition finished_patch :: "environment \<Rightarrow> patch_target \<Rightarrow> edit list \<Rightarrow> localized_patch" where
  "finished_patch env pt edits =
     (let postimage = spliced (pt_preimage pt) 0 edits; pieces = unchanged_pieces (pt_preimage pt) 0 edits;
          unchanged = concat pieces; sha = JStr (pt_sha pt); post_sha = JStr (env_sha256 env postimage) in
      \<lparr>lp_content = postimage,
       lp_operations = map (\<lambda>e. ed_record e @ [(''path'', JStr (pt_path pt)),
         (''repositoryRevision'', JStr (pt_revision pt)), (''preimageSha256'', sha), (''postimageSha256'', post_sha)]) edits,
       lp_replacements = map ed_content edits,
       lp_preservation = [(''preimageSha256'', sha), (''postimageSha256'', post_sha),
         (''unchangedRegionCount'', JInt (int (length pieces))), (''unchangedBytes'', JInt (utf8_size unchanged)),
         (''unchangedSha256'', JStr (env_sha256 env unchanged)),
         (''authorizedSpans'', JList (map (\<lambda>e. dget (ed_record e) ''span'') edits))]\<rparr>)"

definition patch_target ::
  "environment \<Rightarrow> string \<Rightarrow> string \<Rightarrow> string \<Rightarrow> string \<Rightarrow> json list \<Rightarrow> dict option \<Rightarrow> bool \<Rightarrow> bool \<Rightarrow> exn + patch_target" where
  "patch_target env path preimage preimage_sha256 revision operations region allow_rewrite target_exists =
     (let target = (\<lambda>region. \<lparr>pt_path = path, pt_preimage = preimage, pt_sha = preimage_sha256, pt_revision = revision,
            pt_region = region, pt_allow_rewrite = allow_rewrite, pt_exists = target_exists,
            pt_count = length operations\<rparr>) in
      bindR (safe_path path) (\<lambda>_.
      bindR (checkR (nul_char \<notin> set preimage)
        (patch_error ''NON_UTF8_TARGET'' ''target must be UTF-8 text without NUL'')) (\<lambda>_.
      bindR (checkR (env_sha256 env preimage = preimage_sha256)
        (patch_error ''STALE_PREIMAGE'' ''preimage digest does not bind target content'')) (\<lambda>_.
      bindR (checkR (length revision = 40)
        (patch_error ''STALE_REVISION'' ''repository revision must be immutable'')) (\<lambda>_.
      bindR (checkR (operations \<noteq> [])
        (patch_error ''MISSING_OPERATION'' ''localized operations are required'')) (\<lambda>_.
      case region of
        None \<Rightarrow>
          bindR (checkR (list_all (\<lambda>op. is_mapping op \<and> mget op ''operation'' = JStr ''rewrite'') operations)
            (patch_error ''TRUSTED_REGION_MISSING''
               ''localized operation requires a server-derived region selector'')) (\<lambda>_. Inr (target None))
      | Some r \<Rightarrow> bindR (region_bounds preimage r) (\<lambda>(start, stop). Inr (target (Some (r, start, stop))))))))))"

definition apply_localized_operations ::
  "environment \<Rightarrow> string \<Rightarrow> string \<Rightarrow> string \<Rightarrow> string \<Rightarrow> json list \<Rightarrow> dict option \<Rightarrow> bool \<Rightarrow> bool \<Rightarrow> exn + localized_patch" where
  "apply_localized_operations env path preimage preimage_sha256 revision operations region allow_rewrite target_exists =
     bindR (patch_target env path preimage preimage_sha256 revision operations region allow_rewrite target_exists) (\<lambda>pt.
     bindR (mapR (operation_edit env pt) (zip [0..<length operations] operations)) (\<lambda>edits.
     bindR (ordered_spans 0 0 edits) (\<lambda>_.
     bindR (checkR (region_kept pt edits (spliced preimage 0 edits))
       (patch_error ''OUT_OF_REGION'' ''operation changes the trusted region boundary'')) (\<lambda>_.
     Inr (finished_patch env pt edits)))))"


section \<open>Edits stay in their region\<close>

lemma line_at_bounds:
  assumes "cursor < length content" "line_at content cursor = (line_end, terminator, next_cursor)"
  shows "cursor \<le> line_end \<and> line_end + length terminator \<le> length content"
proof (cases "find_text [newline] (drop cursor content)")
  case None
  with assms show ?thesis by (simp add: line_at_def)
next
  case (Some k)
  from find_text_bound[OF Some] have "cursor + k + 1 \<le> length content" using assms(1) by simp
  with Some assms show ?thesis by (auto simp: line_at_def Let_def slice_def split: if_splits)
qed

lemma line_matches_bounds:
  "(s, e, t) \<in> set (line_matches_from content anchor a b cursor) \<Longrightarrow> s \<le> e \<and> e + length t \<le> length content"
proof (induction content anchor a b cursor rule: line_matches_from.induct)
  case (1 content anchor a b cursor)
  obtain line_end terminator next_cursor where l: "line_at content cursor = (line_end, terminator, next_cursor)"
    by (cases "line_at content cursor") auto
  from 1(2) have c: "cursor < length content" by (auto simp: line_matches_from.simps[of content] split: if_splits)
  with 1 l line_at_bounds[OF c l] show ?case
    by (auto simp: line_matches_from.simps[of content anchor a b cursor] split: if_splits)
qed

lemma the_match_Inr: "the_match ms = Inr m \<longleftrightarrow> ms = [m]"
  by (auto simp: the_match_def split: list.splits)

lemma placed_span:
  assumes "placed pt operation d content whole_file (a, b, t) = Inr (start, stop, text)" "a \<le> b"
  shows "start \<le> stop"
  using assms by (auto simp: placed_def Let_def bindR_eq_Inr split: if_splits)

lemma localized_edit_span:
  assumes "localized_edit env pt region a b ordinal d operation content = Inr e"
  shows "a \<le> ed_start e \<and> ed_start e \<le> ed_end e \<and> ed_end e \<le> b"
    "operation \<in> {''insert'', ''replace''} \<Longrightarrow> length (logical_line_matches (pt_preimage pt) (as_str (dget d ''anchor'')) a b) = 1"
proof -
  let ?anchor = "as_str (dget d ''anchor'')"
  let ?whole = "operation = ''delete'' \<and> ?anchor = pt_preimage pt \<and> pt_count pt = 1"
  obtain m start stop new where m: "anchor_matches pt ?whole ?anchor a b = Inr [m]"
    and p: "placed pt operation d content ?whole m = Inr (start, stop, new)"
    and o: "\<not> out_of_region pt operation d region a b (fst m, fst m + length ?anchor) (start, stop, new)"
    and e: "ed_start e = start" "ed_end e = stop"
    using assms by (auto simp: localized_edit_def Let_def bindR_eq_Inr the_match_Inr)
  obtain s f t where mm: "m = (s, f, t)" by (cases m)
  have "s \<le> f"
    using m line_matches_bounds[of s f t "pt_preimage pt" ?anchor a b 0]
    by (auto simp: anchor_matches_def logical_line_matches_def mm split: if_splits)
  with placed_span[OF p[unfolded mm]] o show "a \<le> ed_start e \<and> ed_start e \<le> ed_end e \<and> ed_end e \<le> b"
    by (auto simp: out_of_region_def Let_def e)
  show "length (logical_line_matches (pt_preimage pt) ?anchor a b) = 1" if "operation \<in> {''insert'', ''replace''}"
    using that m by (auto simp: anchor_matches_def split: if_splits)
qed

text \<open>What the edits add to the length of the text.\<close>

definition growth :: "edit list \<Rightarrow> int" where
  "growth edits = sum_list (map (\<lambda>e. int (length (ed_content e)) - (int (ed_end e) - int (ed_start e))) edits)"

lemma spliced_until:
  assumes "ordered_spans k cursor edits = Inr ()" "\<forall>e \<in> set edits. ed_start e \<le> ed_end e \<and> ed_end e \<le> b"
    and "cursor \<le> b" "b \<le> length preimage"
  shows "\<exists>mid. spliced preimage cursor edits = mid @ drop b preimage
    \<and> int (length mid) = int b - int cursor + growth edits"
  using assms
proof (induction edits arbitrary: k cursor)
  case Nil
  have "drop cursor preimage = slice preimage cursor b @ drop b preimage"
    using append_take_drop_id[of "b - cursor" "drop cursor preimage"] Nil(3) by (simp add: slice_def)
  with Nil show ?case by (intro exI[of _ "slice preimage cursor b"]) (auto simp: slice_def growth_def)
next
  case (Cons e es)
  from Cons.prems(1,2) have o: "cursor \<le> ed_start e" "ordered_spans (ed_start e) (ed_end e) es = Inr ()"
    by (auto split: if_splits simp: max_def)
  with Cons.IH[OF o(2)] Cons.prems obtain mid where mid: "spliced preimage (ed_end e) es = mid @ drop b preimage"
      "int (length mid) = int b - int (ed_end e) + growth es" by auto
  have "length (slice preimage cursor (ed_start e)) = ed_start e - cursor"
    using Cons.prems(2,4) by (auto simp: slice_def)
  with mid o(1) Cons.prems(2) show ?case
    by (intro exI[of _ "slice preimage cursor (ed_start e) @ ed_content e @ mid"]) (auto simp: growth_def)
qed

lemma spliced_within:
  assumes "ordered_spans 0 0 edits = Inr ()" "edits \<noteq> []" "b \<le> length preimage"
    and e: "\<forall>e \<in> set edits. a \<le> ed_start e \<and> ed_start e \<le> ed_end e \<and> ed_end e \<le> b"
  shows "\<exists>mid. spliced preimage 0 edits = take a preimage @ mid @ drop b preimage
    \<and> int (length mid) = int b - int a + growth edits"
proof -
  obtain x es where x: "edits = x # es" using assms(2) by (cases edits) auto
  have o: "ordered_spans (ed_start x) (ed_end x) es = Inr ()" using assms(1) by (simp add: x)
  have es: "\<forall>e \<in> set es. ed_start e \<le> ed_end e \<and> ed_end e \<le> b" "ed_end x \<le> b" using e by (auto simp: x)
  from spliced_until[OF o es assms(3)] obtain mid where mid: "spliced preimage (ed_end x) es = mid @ drop b preimage"
      "int (length mid) = int b - int (ed_end x) + growth es" by blast
  have s: "slice preimage 0 (ed_start x) = take a preimage @ slice preimage a (ed_start x)"
    using e by (simp add: x slice_def) (metis le_add_diff_inverse take_add)
  have "length (slice preimage a (ed_start x)) = ed_start x - a"
    using e assms(3) by (auto simp: x slice_def)
  with mid s e show ?thesis
    by (intro exI[of _ "slice preimage a (ed_start x) @ ed_content x @ mid"]) (auto simp: x growth_def)
qed

lemma mapR_zip_each:
  assumes "mapR f (zip [0..<length xs] xs) = Inr ys"
  shows "\<forall>y \<in> set ys. \<exists>i. \<exists>x \<in> set xs. f (i, x) = Inr y" "\<forall>x \<in> set xs. \<exists>i y. f (i, x) = Inr y" "length ys = length xs"
proof -
  have a: "list_all2 (\<lambda>p y. f p = Inr y) (zip [0..<length xs] xs) ys" using assms by (simp add: mapR_Inr)
  then show len: "length ys = length xs" by (auto dest: list_all2_lengthD)
  show "\<forall>y \<in> set ys. \<exists>i. \<exists>x \<in> set xs. f (i, x) = Inr y"
    using a len by (fastforce simp: list_all2_conv_all_nth in_set_conv_nth)
  show "\<forall>x \<in> set xs. \<exists>i y. f (i, x) = Inr y"
    using a len by (fastforce simp: list_all2_conv_all_nth in_set_conv_nth)
qed

text \<open>Without the right to rewrite, a patch changes nothing outside its region.\<close>

lemma patch_confined:
  assumes run: "apply_localized_operations env path preimage sha revision operations (Some region) False True = Inr p"
  obtains a b mid where "region_bounds preimage region = Inr (a, b)" "env_sha256 env preimage = sha"
    "lp_content p = take a preimage @ mid @ drop b preimage"
    "dget region ''kind'' \<noteq> JStr ''WHOLE_FILE'' \<longrightarrow> region_bounds (lp_content p) region = Inr (a, a + length mid)"
    "\<forall>op \<in> set operations. mget op ''operation'' \<in> {JStr ''insert'', JStr ''replace''} \<longrightarrow>
       length (logical_line_matches preimage (as_str (mget op ''anchor'')) a b) = 1"
proof -
  obtain a b edits pt where r: "region_bounds preimage region = Inr (a, b)" and sha: "env_sha256 env preimage = sha"
    and ne: "operations \<noteq> []"
    and pt: "pt = \<lparr>pt_path = path, pt_preimage = preimage, pt_sha = sha, pt_revision = revision,
            pt_region = Some (region, a, b), pt_allow_rewrite = False, pt_exists = True, pt_count = length operations\<rparr>"
    and m: "mapR (operation_edit env pt) (zip [0..<length operations] operations) = Inr edits"
    and o: "ordered_spans 0 0 edits = Inr ()" and k: "region_kept pt edits (spliced preimage 0 edits)"
    and p: "p = finished_patch env pt edits"
    using run by (auto simp: apply_localized_operations_def patch_target_def Let_def bindR_eq_Inr)
  have one: "a \<le> ed_start e \<and> ed_start e \<le> ed_end e \<and> ed_end e \<le> b"
      "mget op ''operation'' \<in> {JStr ''insert'', JStr ''replace''} \<Longrightarrow>
         length (logical_line_matches preimage (as_str (mget op ''anchor'')) a b) = 1"
    if k: "operation_edit env pt (i, op) = Inr e" for i op e
  proof -
    obtain content where "localized_edit env pt region a b i (as_dict op) (as_str (mget op ''operation'')) content = Inr e"
      using k
      by (auto simp: operation_edit_def Let_def bindR_eq_Inr rewrite_edit_def pt mget_def split: if_splits)
    from localized_edit_span[OF this] show "a \<le> ed_start e \<and> ed_start e \<le> ed_end e \<and> ed_end e \<le> b"
      "mget op ''operation'' \<in> {JStr ''insert'', JStr ''replace''} \<Longrightarrow>
         length (logical_line_matches preimage (as_str (mget op ''anchor'')) a b) = 1"
      by (auto simp: pt mget_def)
  qed
  have b: "b \<le> length preimage" using r region_span_within by (auto simp: region_bounds_def split: sum.splits prod.splits)
  have "edits \<noteq> []" using mapR_zip_each(3)[OF m] ne by auto
  with spliced_within[OF o _ b, of a] mapR_zip_each(1)[OF m] one(1) obtain mid where
    mid: "spliced preimage 0 edits = take a preimage @ mid @ drop b preimage" "int (length mid) = int b - int a + growth edits"
    by blast
  have c: "lp_content p = take a preimage @ mid @ drop b preimage"
    by (simp add: p finished_patch_def Let_def pt mid(1))
  have kept: "region_bounds (lp_content p) region = Inr (a, a + length mid)" if "dget region ''kind'' \<noteq> JStr ''WHOLE_FILE''"
    using k that mid(2) unfolding c mid(1) region_kept_def growth_def by (auto simp: pt split: sum.splits prod.splits)
  from that[OF r sha c] kept one(2) mapR_zip_each(2)[OF m] show ?thesis by blast
qed



definition sample_text :: string where
  "sample_text = ''# A'' @ [newline] @ ''x'' @ [newline] @ ''# B'' @ [newline] @ ''x'' @ [newline]"

definition sample_revision :: string where
  "sample_revision = replicate 40 CHR ''a''"

definition sample_section :: dict where
  "sample_section = [(''kind'', JStr ''MARKDOWN_SECTION''), (''name'', JStr ''A'')]"

definition sample_operation :: json where
  "sample_operation = JObj [(''operation'', JStr ''replace''), (''path'', JStr ''a.md''),
     (''repositoryRevision'', JStr sample_revision), (''preimageSha256'', JStr sample_text),
     (''anchor'', JStr ''x''), (''expectedMatchCount'', JInt 1), (''content'', JStr ''y'')]"

lemma sample_structure: "markdown_structure sample_text = Inr ([(0, ''A'', 1, 1), (6, ''B'', 1, 3)], [])"
proof -
  have l: "markdown_lines sample_text = [''# A'' @ [newline], ''x'' @ [newline], ''# B'' @ [newline], ''x'' @ [newline]]"
    by code_simp
  have r: "rstrip_of line_char (''# A'' @ [newline]) = ''# A''" "rstrip_of line_char (''x'' @ [newline]) = ''x''"
    "rstrip_of line_char (''# B'' @ [newline]) = ''# B''" by code_simp+
  have h: "heading_of ''# A'' = Some (1, ''A'')" "heading_of ''# B'' = Some (1, ''B'')" "heading_of ''x'' = None"
    "opened_fence ''# A'' = None" "opened_fence ''# B'' = None" "opened_fence ''x'' = None"
    "lower ''#'' = ''#''" "lower ''x'' = ''x''" by code_simp+
  then have o: "opened_html ''# A'' p = None" "opened_html ''# B'' p = None" "opened_html ''x'' p = None" for p
    by (simp_all add: plain_line)
  show ?thesis
    unfolding markdown_structure_def l
    by (simp add: scan_line_def r h(1-6) o Let_def del: append_Cons)
qed


definition patched_text :: string where
  "patched_text = ''# A'' @ [newline] @ ''y'' @ [newline] @ ''# B'' @ [newline] @ ''x'' @ [newline]"

lemma patched_structure: "markdown_structure patched_text = Inr ([(0, ''A'', 1, 1), (6, ''B'', 1, 3)], [])"
proof -
  have l: "markdown_lines patched_text = [''# A'' @ [newline], ''y'' @ [newline], ''# B'' @ [newline], ''x'' @ [newline]]"
    by code_simp
  have r: "rstrip_of line_char (''# A'' @ [newline]) = ''# A''" "rstrip_of line_char (''x'' @ [newline]) = ''x''"
    "rstrip_of line_char (''# B'' @ [newline]) = ''# B''" "rstrip_of line_char (''y'' @ [newline]) = ''y''" by code_simp+
  have h: "heading_of ''# A'' = Some (1, ''A'')" "heading_of ''# B'' = Some (1, ''B'')" "heading_of ''x'' = None"
    "heading_of ''y'' = None" "opened_fence ''# A'' = None" "opened_fence ''# B'' = None" "opened_fence ''x'' = None"
    "opened_fence ''y'' = None" "lower ''#'' = ''#''" "lower ''x'' = ''x''" "lower ''y'' = ''y''" by code_simp+
  then have o: "opened_html ''# A'' p = None" "opened_html ''# B'' p = None" "opened_html ''x'' p = None"
    "opened_html ''y'' p = None" for p
    by (simp_all add: plain_line)
  show ?thesis
    unfolding markdown_structure_def l
    by (simp add: scan_line_def r h(1-8) o Let_def del: append_Cons)
qed

lemma sample_bounds: "region_bounds sample_text sample_section = Inr (0, 6)"
  "region_bounds patched_text sample_section = Inr (0, 6)"
  by (simp_all add: region_bounds_def region_span_def sample_section_def dget_Cons sample_structure patched_structure
      only_match_def py_strip_eq_Nil_iff py_space_def)

definition patch_env :: environment where
  "patch_env = \<lparr>env_sha256 = (\<lambda>s. s), env_uuid5 = (\<lambda>s. s), env_iso = (\<lambda>s. None), env_schema = (\<lambda>n j. [])\<rparr>"

definition sample_target :: patch_target where
  "sample_target = \<lparr>pt_path = ''a.md'', pt_preimage = sample_text, pt_sha = sample_text, pt_revision = sample_revision,
     pt_region = Some (sample_section, 0, 6), pt_allow_rewrite = False, pt_exists = True, pt_count = 1\<rparr>"

lemma sample_patch_target:
  "patch_target patch_env ''a.md'' sample_text sample_text sample_revision [sample_operation] (Some sample_section) False True
   = Inr sample_target"
proof -
  have "safe_path ''a.md'' = Inr ()" "nul_char \<notin> set sample_text" "length sample_revision = 40" by code_simp+
  then show ?thesis by (simp add: patch_target_def Let_def sample_bounds patch_env_def sample_target_def checkR_def)
qed

lemma sample_edit:
  obtains e where "operation_edit patch_env sample_target (0, sample_operation) = Inr e"
    "ed_start e = 4" "ed_end e = 5" "ed_content e = ''y''"
proof -
  have "(case operation_edit patch_env sample_target (0, sample_operation) of Inl _ \<Rightarrow> False
      | Inr e \<Rightarrow> ed_start e = 4 \<and> ed_end e = 5 \<and> ed_content e = ''y'')" by code_simp
  then show ?thesis using that by (auto split: sum.splits)
qed


end
