(* ===== verification/GeneratedArtifacts.thy ===== *)
theory GeneratedArtifacts
  imports StoreInterface CanonicalText Observability PublicationPolicy
begin

text \<open>
  Generated artifacts (\<open>generated_artifact_store.py\<close>): content stored once under the address of its
  digest, in memory or in files, and the metadata that names it in the runtime store.  Bytes are
  characters below 256; SHA-256 over bytes is the parameter \<open>digest\<close>.
\<close>

section \<open>Content\<close>

datatype artifact_content = BytesContent string | TextContent string | JsonContent json | OtherContent

definition utf8_char :: "char \<Rightarrow> string" where
  "utf8_char c = (let n = of_char c :: nat in
     if n < 128 then [c] else [char_of (192 + n div 64), char_of (128 + n mod 64)])"

definition utf8_encode :: "string \<Rightarrow> string" where
  "utf8_encode s = concat (map utf8_char s)"

text \<open>\<open>allow_nan=False\<close>.\<close>

fun finite_json :: "json \<Rightarrow> bool" where
  "finite_json (JFloat f) = (case f of Finite r \<Rightarrow> True | _ \<Rightarrow> False)"
| "finite_json (JList xs) = list_all finite_json xs"
| "finite_json (JObj d) = list_all (\<lambda>(k, v). finite_json v) d"
| "finite_json v = True"

definition encode_content :: "artifact_content \<Rightarrow> exn + string" where
  "encode_content content =
     (case content of
        BytesContent b \<Rightarrow> Inr b
      | TextContent s \<Rightarrow> Inr (utf8_encode s)
      | JsonContent j \<Rightarrow>
          if \<not> is_mapping j \<and> \<not> is_list j then Inl (type_error ''content must be bytes, text, or structured JSON'')
          else if \<not> finite_json j then Inl (value_error ''structured artifact content must be valid JSON'')
          else Inr (utf8_encode (json_text False j))
      | OtherContent \<Rightarrow> Inl (type_error ''content must be bytes, text, or structured JSON''))"

definition content_address :: "(string \<Rightarrow> string) \<Rightarrow> string \<Rightarrow> string" where
  "content_address digest content = ''sha256:'' @ digest content"

definition integrity_error :: "string \<Rightarrow> exn" where
  "integrity_error m = Exn ContentIntegrityError m JNull"

definition expected_check :: "string \<Rightarrow> string option \<Rightarrow> exn + unit" where
  "expected_check address expected =
     checkR (case expected of None \<Rightarrow> True | Some e \<Rightarrow> e = address)
       (integrity_error (''content digest '' @ repr_str address @ '' does not match expected address ''
         @ repr_str (the expected)))"

section \<open>Content in memory\<close>

type_synonym memory_content = "(string \<times> string) list"

definition memory_put :: "(string \<Rightarrow> string) \<Rightarrow> string \<Rightarrow> string option \<Rightarrow> (memory_content, string) eff" where
  "memory_put digest content expected =
     (let address = content_address digest content in
      bindE (liftR (expected_check address expected)) (\<lambda>_.
      thenE (modE (dsetdefault address content)) (ret address)))"

definition memory_get :: "(string \<Rightarrow> string) \<Rightarrow> string \<Rightarrow> (memory_content, string option) eff" where
  "memory_get digest address c =
     (case map_of c address of
        None \<Rightarrow> (Inr None, c)
      | Some content \<Rightarrow>
          if content_address digest content \<noteq> address
          then (Inl (integrity_error (''stored content digest '' @ repr_str (content_address digest content)
                  @ '' does not match address '' @ repr_str address)), c)
          else (Inr (Some content), c))"

section \<open>Content in files\<close>

text \<open>What may go wrong when a file is written: it is cut, or it cannot be renamed.\<close>

datatype write_fault = NoWriteFault | CutWrite nat | FailedRename

record content_files =
  cf_files :: "(string \<times> string) list"
  cf_faults :: "write_fault list"

definition content_path :: "string \<Rightarrow> string" where
  "content_path digest_text = take 2 digest_text @ ''/'' @ drop 2 digest_text"

text \<open>A digest has no dot, so the suffix of its path is added.\<close>

definition temporary_path :: "string \<Rightarrow> string" where
  "temporary_path path = path @ ''.tmp''"

definition os_error :: exn where
  "os_error = Exn OSError [] JNull"

definition write_content :: "string \<Rightarrow> string \<Rightarrow> (content_files, unit) eff" where
  "write_content path content =
     bindE getE (\<lambda>c.
     let fault = (case cf_faults c of [] \<Rightarrow> NoWriteFault | f # fs \<Rightarrow> f); left = tl (cf_faults c);
         temporary = temporary_path path; files = cf_files c in
     case fault of
       NoWriteFault \<Rightarrow> putE (c\<lparr>cf_files := dput path content (dpop temporary files), cf_faults := left\<rparr>)
     | CutWrite n \<Rightarrow> thenE (putE (c\<lparr>cf_files := dput temporary (take n content) files, cf_faults := left\<rparr>)) (throw os_error)
     | FailedRename \<Rightarrow> thenE (putE (c\<lparr>cf_files := dput temporary content files, cf_faults := left\<rparr>)) (throw os_error))"

definition file_put :: "(string \<Rightarrow> string) \<Rightarrow> string \<Rightarrow> string option \<Rightarrow> (content_files, string) eff" where
  "file_put digest content expected =
     (let address = content_address digest content; path = content_path (digest content) in
      bindE (liftR (expected_check address expected)) (\<lambda>_.
      bindE getE (\<lambda>c.
      case map_of (cf_files c) path of
        Some existing \<Rightarrow>
          if existing \<noteq> content
          then throw (integrity_error (''stored content at '' @ repr_str address @ '' does not match its digest''))
          else ret address
      | None \<Rightarrow> thenE (write_content path content) (ret address))))"

definition hex_char :: "char \<Rightarrow> bool" where
  "hex_char c \<longleftrightarrow> (CHR ''0'' \<le> c \<and> c \<le> CHR ''9'') \<or> (CHR ''a'' \<le> c \<and> c \<le> CHR ''f'')"

definition valid_address :: "string \<Rightarrow> bool" where
  "valid_address a \<longleftrightarrow> take 7 a = ''sha256:'' \<and> length (drop 7 a) = 64 \<and> list_all hex_char (drop 7 a)"

definition file_get :: "(string \<Rightarrow> string) \<Rightarrow> string \<Rightarrow> (content_files, string option) eff" where
  "file_get digest address c =
     (if \<not> valid_address address
      then (Inl (integrity_error ''content address must be a lowercase SHA-256 address''), c)
      else case map_of (cf_files c) (content_path (drop 7 address)) of
             None \<Rightarrow> (Inr None, c)
           | Some content \<Rightarrow>
               if content_address digest content \<noteq> address
               then (Inl (integrity_error (''stored content does not match address '' @ repr_str address)), c)
               else (Inr (Some content), c))"

section \<open>The artifact store\<close>

text \<open>The operations of a content store; the runtime store is the one in memory.\<close>

record 'c content_ops =
  co_put :: "string \<Rightarrow> string option \<Rightarrow> ('c, string) eff"
  co_get :: "string \<Rightarrow> ('c, string option) eff"

definition memory_content_ops :: "(string \<Rightarrow> string) \<Rightarrow> memory_content content_ops" where
  "memory_content_ops digest = \<lparr>co_put = memory_put digest, co_get = memory_get digest\<rparr>"

definition file_content_ops :: "(string \<Rightarrow> string) \<Rightarrow> content_files content_ops" where
  "file_content_ops digest = \<lparr>co_put = file_put digest, co_get = file_get digest\<rparr>"

definition on_runtime :: "('s, 'a) eff \<Rightarrow> ('s \<times> 'c, 'a) eff" where
  "on_runtime m = (\<lambda>(s, c). let (r, t) = m s in (r, (t, c)))"

definition on_content :: "('c, 'a) eff \<Rightarrow> ('s \<times> 'c, 'a) eff" where
  "on_content m = (\<lambda>(s, c). let (r, d) = m c in (r, (s, d)))"

definition artifact_error :: "string \<Rightarrow> exn" where
  "artifact_error m = Exn GeneratedArtifactValidationError m JNull"

definition immutable_artifact :: "string \<Rightarrow> exn" where
  "immutable_artifact artifact_id =
     Exn ImmutableGeneratedArtifactError (''published GeneratedArtifact '' @ repr_str artifact_id @ '' is immutable'') JNull"

definition validate_metadata :: "environment \<Rightarrow> dict \<Rightarrow> exn + unit" where
  "validate_metadata env metadata =
     (case first_error (env_schema env ''generatedartifact'' (JObj metadata)) of
        None \<Rightarrow> Inr ()
      | Some e \<Rightarrow> Inl (artifact_error (''invalid GeneratedArtifact at '' @ indexed_path (err_path e) @ '': ''
                        @ err_message e)))"

text \<open>The metadata to publish, for content that has its bytes.\<close>

definition artifact_value :: "environment \<Rightarrow> (string \<Rightarrow> string) \<Rightarrow> json \<Rightarrow> string \<Rightarrow> exn + dict" where
  "artifact_value env digest metadata encoded =
     (let value = as_dict metadata; expected = dget value ''contentAddress'';
          address = content_address digest encoded; value1 = dput ''contentAddress'' (JStr address) value;
          value2 = (if \<not> dhas value1 ''publishedAt'' \<and> is_str (dget value1 ''createdAt'')
                    then dput ''publishedAt'' (dget value1 ''createdAt'') value1 else value1) in
      bindR (checkR (expected = JNull \<or> is_str expected)
        (artifact_error ''invalid GeneratedArtifact at $.contentAddress: must be a string'')) (\<lambda>_.
      bindR (expected_check address (if expected = JNull then None else Some (as_str expected))) (\<lambda>_.
      bindR (case from_runtime_object value2 of
               Inl e \<Rightarrow> Inl (if instance_of e ObservabilityContractError
                             then artifact_error (''invalid GeneratedArtifact correlation: '' @ exn_msg e) else e)
             | Inr context \<Rightarrow> Inr ()) (\<lambda>_.
      bindR (validate_metadata env value2) (\<lambda>_.
      bindR (getitem value2 ''id'') (\<lambda>_. Inr value2))))))"

text \<open>An artifact that is there already is the answer, if it is the same.\<close>

definition same_artifact :: "string \<Rightarrow> dict \<Rightarrow> dict \<Rightarrow> exn + dict" where
  "same_artifact artifact_id value existing =
     (if py_eq (JObj existing) (JObj value) then Inr existing else Inl (immutable_artifact artifact_id))"

definition publish ::
  "environment \<Rightarrow> (string \<Rightarrow> string) \<Rightarrow> 'c content_ops \<Rightarrow> json \<Rightarrow> artifact_content \<Rightarrow> (store \<times> 'c, dict) eff" where
  "publish env digest ops metadata content =
     thenE (checkE (is_mapping metadata) (type_error ''metadata must be a mapping''))
     (bindE (liftR (encode_content content)) (\<lambda>encoded.
      bindE (liftR (artifact_value env digest metadata encoded)) (\<lambda>value.
      let artifact_id = as_str (dget value ''id''); address = content_address digest encoded in
      bindE (on_runtime (mem_get artifact_id)) (\<lambda>existing.
      case existing of
        Some e \<Rightarrow> liftR (same_artifact artifact_id value e)
      | None \<Rightarrow>
          bindE (on_runtime (mem_claim (''generated-artifact-publication:'' @ artifact_id) (JObj value))) (\<lambda>(_, claimed).
          thenE (checkE (py_eq claimed (JObj value)) (immutable_artifact artifact_id))
          (bindE (on_runtime (mem_get artifact_id)) (\<lambda>existing.
           case existing of
             Some e \<Rightarrow> liftR (same_artifact artifact_id value e)
           | None \<Rightarrow>
               bindE (on_content (co_put ops encoded (Some address))) (\<lambda>_.
               bindE (on_runtime (mem_create (JObj value) (''generated-artifact:'' @ artifact_id))) (\<lambda>created.
               liftR (same_artifact artifact_id value created))))))))))"

definition get_artifact :: "string \<Rightarrow> (store \<times> 'c, dict option) eff" where
  "get_artifact artifact_id =
     bindE (on_runtime (mem_get artifact_id)) (\<lambda>value.
     ret (case value of None \<Rightarrow> None
          | Some v \<Rightarrow> if dget v ''kind'' = JStr ''GeneratedArtifact'' then Some v else None))"

definition artifact_missing :: "string \<Rightarrow> exn" where
  "artifact_missing m = Exn GeneratedArtifactNotFoundError m JNull"

definition get_content :: "'c content_ops \<Rightarrow> string \<Rightarrow> (store \<times> 'c, string) eff" where
  "get_content ops artifact_id =
     bindE (get_artifact artifact_id) (\<lambda>metadata.
     case metadata of
       None \<Rightarrow> throw (artifact_missing (''GeneratedArtifact '' @ repr_str artifact_id @ '' was not found''))
     | Some m \<Rightarrow>
         bindE (liftR (getitem m ''contentAddress'')) (\<lambda>address.
         bindE (on_content (co_get ops (as_str address))) (\<lambda>content.
         case content of
           None \<Rightarrow> throw (artifact_missing (''content '' @ repr_str (as_str address) @ '' for GeneratedArtifact ''
                     @ repr_str artifact_id @ '' was not found''))
         | Some b \<Rightarrow> ret b)))"

definition list_artifacts_by_task :: "string \<Rightarrow> (store \<times> 'c, dict list) eff" where
  "list_artifacts_by_task task_id =
     bindE (on_runtime (mem_list_by_task_execution task_id)) (\<lambda>values.
     ret (filter (\<lambda>v. dget v ''kind'' = JStr ''GeneratedArtifact'') values))"


section \<open>What a content store promises\<close>

text \<open>
  \<open>held c a\<close> is the content kept under an address.  A client of a content store relies on this: what is
  held has its address, whatever happens no held content changes, content that was put is
  held, and a read shows what is held.
\<close>

locale content_store =
  fixes digest :: "string \<Rightarrow> string" and ops :: "'c content_ops" and held :: "'c \<Rightarrow> string \<Rightarrow> string option"
    and intact :: "'c \<Rightarrow> bool"
  assumes held_address: "intact c \<Longrightarrow> held c a = Some b \<Longrightarrow> content_address digest b = a"
    and put_keeps: "intact c \<Longrightarrow> co_put ops b e c = (r, d)
      \<Longrightarrow> intact d \<and> (\<forall>a x. held c a = Some x \<longrightarrow> held d a = Some x)"
    and put_holds: "intact c \<Longrightarrow> co_put ops b e c = (Inr a, d)
      \<Longrightarrow> a = content_address digest b \<and> held d a \<noteq> None"
    and get_held: "intact c \<Longrightarrow> held c a = Some b \<Longrightarrow> co_get ops a c = (Inr (Some b), c)"
    and get_shows: "intact c \<Longrightarrow> co_get ops a c = (Inr (Some b), d) \<Longrightarrow> held c a = Some b"

section \<open>The two stores provide it\<close>

lemma expected_check_Inr [simp]:
  "expected_check a e = Inr u \<longleftrightarrow> (case e of None \<Rightarrow> True | Some x \<Rightarrow> x = a)"
  by (simp add: expected_check_def checkR_def)

definition memory_intact :: "(string \<Rightarrow> string) \<Rightarrow> memory_content \<Rightarrow> bool" where
  "memory_intact digest c \<longleftrightarrow> (\<forall>a b. map_of c a = Some b \<longrightarrow> content_address digest b = a)"

lemma memory_put_cases:
  "memory_put digest b e c = (r, d) \<Longrightarrow>
     (d = c \<and> (\<exists>x. r = Inl x)) \<or> (d = dsetdefault (content_address digest b) b c \<and> r = Inr (content_address digest b))"
  by (auto simp: memory_put_def Let_def eff_simps split: sum.splits)

interpretation memory_content: content_store digest "memory_content_ops digest" map_of "memory_intact digest"
  for digest
proof (unfold_locales, goal_cases)
  case (2 c b e r d)
  then show ?case
    using memory_put_cases[of digest b e c r d]
    by (auto simp: memory_content_ops_def memory_intact_def dsetdefault_def dhas_iff map_of_dput split: if_splits)
next
  case (3 c b e a d)
  then show ?case
    using memory_put_cases[of digest b e c "Inr a" d]
    by (auto simp: memory_content_ops_def dsetdefault_def dhas_iff map_of_dput split: if_splits)
qed (auto simp: memory_intact_def memory_content_ops_def memory_get_def split: option.splits if_splits)

text \<open>The paths of two addresses differ, and no path is a temporary file.\<close>

lemma content_path_eq:
  "length d = 64 \<Longrightarrow> length e = 64 \<Longrightarrow> content_path d = content_path e \<longleftrightarrow> d = e"
proof
  assume "length d = 64" "length e = 64" "content_path d = content_path e"
  then have "take 2 d = take 2 e \<and> drop 2 d = drop 2 e" by (simp add: content_path_def)
  then show "d = e" by (metis append_take_drop_id)
qed simp

lemma temporary_path_fresh:
  "length d = 64 \<Longrightarrow> length e = 64 \<Longrightarrow> temporary_path (content_path d) \<noteq> content_path e"
  by (auto simp: temporary_path_def content_path_def dest!: arg_cong[of _ _ length])

definition file_held :: "content_files \<Rightarrow> string \<Rightarrow> string option" where
  "file_held c a = (if valid_address a then map_of (cf_files c) (content_path (drop 7 a)) else None)"

definition file_intact :: "(string \<Rightarrow> string) \<Rightarrow> content_files \<Rightarrow> bool" where
  "file_intact digest c \<longleftrightarrow> (\<forall>b. valid_address (content_address digest b))
     \<and> (\<forall>a b. file_held c a = Some b \<longrightarrow> content_address digest b = a)"

lemma valid_address_length: "valid_address a \<Longrightarrow> length (drop 7 a) = 64"
  by (simp add: valid_address_def)

lemma drop_content_address [simp]: "drop 7 (content_address digest b) = digest b"
  by (simp add: content_address_def)

lemma valid_address_eq: "valid_address a \<Longrightarrow> valid_address b \<Longrightarrow> drop 7 a = drop 7 b \<longleftrightarrow> a = b"
  unfolding valid_address_def by (metis append_take_drop_id)

lemma file_held_dput:
  assumes v: "valid_address (content_address digest b)"
  shows "file_held (c\<lparr>cf_files := dput (content_path (digest b)) b (dpop (temporary_path (content_path (digest b))) (cf_files c)),
           cf_faults := fs\<rparr>) a = (if a = content_address digest b then Some b else file_held c a)"
    and "file_held (c\<lparr>cf_files := dput (temporary_path (content_path (digest b))) x (cf_files c), cf_faults := fs\<rparr>) a
         = file_held c a"
proof -
  have l: "length (digest b) = 64" using valid_address_length[OF v] by simp
  have n: "temporary_path (content_path (digest b)) \<noteq> content_path (drop 7 a)" if "valid_address a"
    using temporary_path_fresh[OF l valid_address_length[OF that]] .
  have p: "content_path (drop 7 a) = content_path (digest b) \<longleftrightarrow> a = content_address digest b" if "valid_address a"
    using content_path_eq[OF valid_address_length[OF that] l] valid_address_eq[OF that v] by simp
  show "file_held (c\<lparr>cf_files := dput (content_path (digest b)) b (dpop (temporary_path (content_path (digest b))) (cf_files c)),
           cf_faults := fs\<rparr>) a = (if a = content_address digest b then Some b else file_held c a)"
    using p n v by (auto simp: file_held_def map_of_dput map_of_dpop)
  show "file_held (c\<lparr>cf_files := dput (temporary_path (content_path (digest b))) x (cf_files c), cf_faults := fs\<rparr>) a
         = file_held c a"
    using n by (auto simp: file_held_def map_of_dput)
qed

lemma file_put_cases:
  "file_put digest b e c = (r, d) \<Longrightarrow>
     (d = c \<and> (\<exists>x. r = Inl x))
     \<or> (d = c \<and> r = Inr (content_address digest b) \<and> map_of (cf_files c) (content_path (digest b)) = Some b)
     \<or> (\<exists>x fs. d = c\<lparr>cf_files := dput (temporary_path (content_path (digest b))) x (cf_files c), cf_faults := fs\<rparr>
          \<and> (\<exists>x. r = Inl x))
     \<or> (\<exists>fs. d = c\<lparr>cf_files := dput (content_path (digest b)) b (dpop (temporary_path (content_path (digest b))) (cf_files c)),
          cf_faults := fs\<rparr> \<and> r = Inr (content_address digest b)
          \<and> map_of (cf_files c) (content_path (digest b)) = None)"
  by (auto simp: file_put_def write_content_def Let_def eff_simps split: sum.splits option.splits if_splits write_fault.splits)

interpretation file_content: content_store digest "file_content_ops digest" file_held "file_intact digest"
  for digest
proof (unfold_locales, goal_cases)
  case (2 c b e r d)
  then show ?case
    using file_put_cases[of digest b e c r d]
    by (auto simp: file_content_ops_def file_intact_def file_held_dput split: if_splits) (simp add: file_held_def)
next
  case (3 c b e a d)
  then show ?case
    using file_put_cases[of digest b e c "Inr a" d]
    by (auto simp: file_content_ops_def file_intact_def file_held_dput) (auto simp: file_held_def)
qed (auto simp: file_intact_def file_content_ops_def file_get_def file_held_def split: option.splits if_splits)


section \<open>What publishing does\<close>

lemma on_runtime_apply [eff_simps]: "on_runtime m (s, c) = (case m s of (r, t) \<Rightarrow> (r, (t, c)))"
  by (simp add: on_runtime_def Let_def case_prod_beta)

lemma on_content_apply [eff_simps]: "on_content m (s, c) = (case m c of (r, d) \<Rightarrow> (r, (s, d)))"
  by (simp add: on_content_def Let_def case_prod_beta)

lemma mem_claim_objects: "mem_claim k v s = (r, t) \<Longrightarrow> objects t = objects s \<and> deterministic_keys t = deterministic_keys s"
  by (auto simp: mem_claim_def eff_simps split: option.splits if_splits)

lemma same_artifact_Inr [simp]:
  "same_artifact i value e = Inr v \<longleftrightarrow> v = e \<and> py_eq (JObj e) (JObj value)"
  by (auto simp: same_artifact_def)

text \<open>Publishing finds the artifact, stops before it stores anything, or puts the content and creates the object.\<close>

definition creates_artifact ::
  "environment \<Rightarrow> (string \<Rightarrow> string) \<Rightarrow> 'c content_ops \<Rightarrow> json \<Rightarrow> artifact_content \<Rightarrow> store \<Rightarrow> 'c
   \<Rightarrow> exn + dict \<Rightarrow> store \<Rightarrow> 'c \<Rightarrow> bool" where
  "creates_artifact env digest ops metadata content s c r s' c' \<longleftrightarrow>
     (\<exists>b value t p k. encode_content content = Inr b \<and> artifact_value env digest metadata b = Inr value
        \<and> (\<exists>x y. mem_claim x (JObj value) s = (y, t)) \<and> map_of (objects s) (as_str (dget value ''id'')) = None
        \<and> co_put ops b (Some (content_address digest b)) c = (p, c')
        \<and> (case p of Inl e \<Rightarrow> r = Inl e \<and> s' = t
           | Inr a \<Rightarrow> \<exists>q. mem_create (JObj value) k t = (q, s')
               \<and> (\<forall>v. r = Inr v \<longrightarrow> q = Inr v \<and> py_eq (JObj v) (JObj value))))"

definition finds_artifact ::
  "environment \<Rightarrow> (string \<Rightarrow> string) \<Rightarrow> json \<Rightarrow> artifact_content \<Rightarrow> store \<Rightarrow> exn + dict \<Rightarrow> bool" where
  "finds_artifact env digest metadata content s r \<longleftrightarrow>
     (\<forall>v. r = Inr v \<longrightarrow> (\<exists>b value. encode_content content = Inr b \<and> artifact_value env digest metadata b = Inr value
        \<and> map_of (objects s) (as_str (dget value ''id'')) = Some v \<and> py_eq (JObj v) (JObj value)))"

lemma publish_cases:
  assumes p: "publish env digest ops metadata content (s, c) = (r, (s', c'))"
  shows "(objects s' = objects s \<and> c' = c \<and> finds_artifact env digest metadata content s r)
    \<or> creates_artifact env digest ops metadata content s c r s' c'"
proof (cases "encode_content content")
  case (Inl e)
  then show ?thesis
    using p by (auto simp: publish_def eff_simps finds_artifact_def split: if_splits)
next
  case b: (Inr b)
  show ?thesis
  proof (cases "is_mapping metadata \<and> (\<exists>value. artifact_value env digest metadata b = Inr value)")
    case False
    then show ?thesis
      using p b by (cases "artifact_value env digest metadata b")
        (auto simp: publish_def eff_simps finds_artifact_def split: if_splits)
  next
    case True
    then obtain w where m: "is_mapping metadata" and val: "artifact_value env digest metadata b = Inr w"
      by blast
    let ?i = "as_str (dget w ''id'')"
    obtain q t where claim: "mem_claim (''generated-artifact-publication:'' @ ?i) (JObj w) s = (q, t)"
      by fastforce
    note same = mem_claim_objects[OF claim]
    show ?thesis
    proof (cases "map_of (objects s) ?i")
      case (Some e)
      then show ?thesis
        using p b val m by (auto simp: publish_def eff_simps Let_def mem_get_def finds_artifact_def)
    next
      case None
      show ?thesis
      proof (cases "\<exists>n x. q = Inr (n, x) \<and> py_eq x (JObj w)")
        case False
        then show ?thesis
          using p b val m None claim same
          by (cases q) (auto simp: publish_def eff_simps Let_def mem_get_def finds_artifact_def)
      next
        case True
        then have "creates_artifact env digest ops metadata content s c r s' c'"
          using p b val m None claim same
          unfolding creates_artifact_def
          by (intro exI[of _ b] exI[of _ w] exI[of _ t] exI[of _ "''generated-artifact:'' @ ?i"]
                exI[of _ "fst (co_put ops b (Some (content_address digest b)) c)"])
            (auto simp: publish_def eff_simps Let_def mem_get_def simp del: py_eq.simps split: prod.splits sum.splits)
        then show ?thesis ..
      qed
    qed
  qed
qed


section \<open>Artifacts and their content\<close>

text \<open>Every artifact on record has its content.\<close>

definition artifacts_held :: "('c \<Rightarrow> string \<Rightarrow> string option) \<Rightarrow> store \<Rightarrow> 'c \<Rightarrow> bool" where
  "artifacts_held held s c \<longleftrightarrow>
     (\<forall>i v. map_of (objects s) i = Some v \<longrightarrow> dget v ''kind'' = JStr ''GeneratedArtifact''
        \<longrightarrow> (\<exists>a. dget v ''contentAddress'' = JStr a \<and> held c a \<noteq> None))"

lemma mem_create_same_id:
  assumes ok: "store_ok s" and c: "mem_create (JObj w) k s = (Inr v, t)" and e: "py_eq (JObj v) (JObj w)"
    and none: "map_of (objects s) (as_str (dget w ''id'')) = None"
  shows "objects t = dput (as_str (dget w ''id'')) w (objects s) \<and> v = w"
proof (rule ccontr)
  assume n: "\<not> ?thesis"
  then have same: "objects t = objects s" using mem_create_objects[OF c] by auto
  with mem_create_Inr[OF ok c] have v: "map_of (objects s) (as_str (dget v ''id'')) = Some v" by simp
  with store_okD(2)[OF ok v] have "dget v ''id'' = JStr (as_str (dget v ''id''))"
    by (cases "dget v ''id''") auto
  from py_eq_field[OF e this] v none show False by auto
qed

lemma artifact_value_fields:
  assumes "artifact_value env digest metadata b = Inr w"
  shows "dget w ''contentAddress'' = JStr (content_address digest b) \<and> dget w ''id'' = dget (as_dict metadata) ''id''"
  using assms by (auto simp: artifact_value_def Let_def bindR_eq_Inr dget_dput)

lemma get_content_Inr:
  "get_content ops i (s, c) = (Inr b, (s', c')) \<longleftrightarrow>
     (\<exists>v a. map_of (objects s) i = Some v \<and> dget v ''kind'' = JStr ''GeneratedArtifact''
        \<and> getitem v ''contentAddress'' = Inr a \<and> co_get ops (as_str a) c = (Inr (Some b), c') \<and> s' = s)"
  by (auto simp: get_content_def get_artifact_def eff_simps mem_get_def split: option.splits sum.splits if_splits prod.splits)


definition artifact_outcome ::
  "(string \<Rightarrow> string) \<Rightarrow> 'c content_ops \<Rightarrow> json \<Rightarrow> artifact_content \<Rightarrow> exn + dict \<Rightarrow> store \<Rightarrow> 'c \<Rightarrow> bool" where
  "artifact_outcome digest ops metadata content r s c \<longleftrightarrow>
     (\<forall>v. r = Inr v \<longrightarrow> dget v ''kind'' = JStr ''GeneratedArtifact'' \<longrightarrow>
        (\<exists>b b'. encode_content content = Inr b
           \<and> get_content ops (as_str (dget (as_dict metadata) ''id'')) (s, c) = (Inr b', (s, c))
           \<and> digest b' = digest b))"

lemma content_address_eq [simp]: "content_address digest b = content_address digest b' \<longleftrightarrow> digest b = digest b'"
  by (simp add: content_address_def)

lemma getitem_dget: "dget v k = JStr a \<Longrightarrow> getitem v k = Inr (JStr a)"
  by (auto simp: getitem_def dget_def split: option.splits)

lemma mem_claim_ok: "store_ok s \<Longrightarrow> mem_claim k v s = (r, t) \<Longrightarrow> store_ok t"
  using store_wf.claim_step[of s] by (auto simp: mem_claim_def eff_simps split: option.splits if_splits)

context content_store
begin

lemma get_content_held:
  assumes "intact c" "map_of (objects s) i = Some v" "dget v ''kind'' = JStr ''GeneratedArtifact''"
    "dget v ''contentAddress'' = JStr (content_address digest b)" "held c (content_address digest b) \<noteq> None"
  shows "\<exists>b'. get_content ops i (s, c) = (Inr b', (s, c)) \<and> digest b' = digest b"
proof -
  obtain b' where h: "held c (content_address digest b) = Some b'" using assms(5) by blast
  from held_address[OF assms(1) h] have "digest b' = digest b" by simp
  moreover have "get_content ops i (s, c) = (Inr b', (s, c))"
    using assms getitem_dget[OF assms(4)] get_held[OF assms(1) h] by (auto simp: get_content_Inr)
  ultimately show ?thesis by blast
qed

lemma content_stays:
  assumes "intact c" "intact d" and h: "\<And>a b. held c a = Some b \<Longrightarrow> held d a = Some b"
    and o: "\<And>i v. map_of (objects s) i = Some v \<Longrightarrow> map_of (objects t) i = Some v"
    and g: "get_content ops i (s, c) = (Inr b, (s, c))"
  shows "get_content ops i (t, d) = (Inr b, (t, d))"
  using g get_shows[OF assms(1)] get_held[OF assms(2) h] o unfolding get_content_Inr by blast

lemma found_outcome:
  assumes "finds_artifact env digest metadata content s r" "intact c" "artifacts_held held s c" "objects t = objects s"
  shows "artifact_outcome digest ops metadata content r t c"
  unfolding artifact_outcome_def
proof (intro allI impI)
  fix v assume r: "r = Inr v" and k: "dget v ''kind'' = JStr ''GeneratedArtifact''"
  obtain b w where b: "encode_content content = Inr b" and w: "artifact_value env digest metadata b = Inr w"
    and v: "map_of (objects s) (as_str (dget w ''id'')) = Some v" and e: "py_eq (JObj v) (JObj w)"
    using assms(1) r unfolding finds_artifact_def by blast
  obtain a where a: "dget v ''contentAddress'' = JStr a" "held c a \<noteq> None"
    using assms(3) v k unfolding artifacts_held_def by blast
  have "a = content_address digest b" using py_eq_field[OF e a(1)] artifact_value_fields[OF w] by simp
  with get_content_held[of c t _ v b] assms(2,4) v k a artifact_value_fields[OF w] b
  show "\<exists>b b'. encode_content content = Inr b
           \<and> get_content ops (as_str (dget (as_dict metadata) ''id'')) (t, c) = (Inr b', (t, c)) \<and> digest b' = digest b"
    by fastforce
qed


lemma held_stays:
  assumes h: "artifacts_held held s c" and d: "\<And>a b. held c a = Some b \<Longrightarrow> held d a = Some b"
    and t: "objects t = objects s
      \<or> (objects t = dput i w (objects s) \<and> dget w ''contentAddress'' = JStr a \<and> held d a \<noteq> None)"
  shows "artifacts_held held t d"
  unfolding artifacts_held_def
proof (intro allI impI)
  fix j v assume v: "map_of (objects t) j = Some v" and k: "dget v ''kind'' = JStr ''GeneratedArtifact''"
  show "\<exists>a. dget v ''contentAddress'' = JStr a \<and> held d a \<noteq> None"
  proof (cases "map_of (objects s) j = Some v")
    case True
    then show ?thesis using h k d unfolding artifacts_held_def by blast
  next
    case False
    with t v show ?thesis by (auto simp: map_of_dput split: if_splits)
  qed
qed

lemma publish_keeps:
  assumes p: "publish env digest ops metadata content (s, c) = (r, (s', c'))"
    and ok: "store_ok s" and int: "intact c" and held: "artifacts_held held s c"
  shows "intact c' \<and> artifacts_held held s' c'
    \<and> (\<forall>i v. map_of (objects s) i = Some v \<longrightarrow> map_of (objects s') i = Some v)
    \<and> (\<forall>i b. get_content ops i (s, c) = (Inr b, (s, c)) \<longrightarrow> get_content ops i (s', c') = (Inr b, (s', c')))
    \<and> artifact_outcome digest ops metadata content r s' c'"
  using publish_cases[OF p]
proof (elim disjE conjE)
  assume o: "objects s' = objects s" and c: "c' = c" and f: "finds_artifact env digest metadata content s r"
  have "get_content ops i (s', c') = (Inr b, (s', c'))" if "get_content ops i (s, c) = (Inr b, (s, c))" for i b
    by (rule content_stays[OF int _ _ _ that]) (use o c int in auto)
  then show ?thesis using found_outcome[OF f int held o] o c int held by (auto simp: artifacts_held_def)
next
  assume "creates_artifact env digest ops metadata content s c r s' c'"
  then obtain b w t q k x y where b: "encode_content content = Inr b" and w: "artifact_value env digest metadata b = Inr w"
    and claim: "mem_claim x (JObj w) s = (y, t)" and none: "map_of (objects s) (as_str (dget w ''id'')) = None"
    and put: "co_put ops b (Some (content_address digest b)) c = (q, c')"
    and r: "case q of Inl e \<Rightarrow> r = Inl e \<and> s' = t
           | Inr a \<Rightarrow> \<exists>z. mem_create (JObj w) k t = (z, s') \<and> (\<forall>v. r = Inr v \<longrightarrow> z = Inr v \<and> py_eq (JObj v) (JObj w))"
    unfolding creates_artifact_def by blast
  note t = mem_claim_objects[OF claim]
  have okt: "store_ok t" using mem_claim_ok[OF ok claim] .
  have keeps: "intact c'" "\<And>a x. held c a = Some x \<Longrightarrow> held c' a = Some x" using put_keeps[OF int put] by blast+
  note wf = artifact_value_fields[OF w]
  have s': "objects s' = objects s \<or> (objects s' = dput (as_str (dget w ''id'')) w (objects s)
      \<and> dget w ''contentAddress'' = JStr (content_address digest b) \<and> held c' (content_address digest b) \<noteq> None)"
    using r t wf put_holds[OF int] put mem_create_objects[of w k t] by (auto split: sum.splits)
  have o: "map_of (objects s) i = Some v \<Longrightarrow> map_of (objects s') i = Some v" for i v
    using s' none by (auto simp: map_of_dput)
  have "get_content ops i (s', c') = (Inr b, (s', c'))" if "get_content ops i (s, c) = (Inr b, (s, c))" for i b
    by (rule content_stays[OF int keeps(1) keeps(2) o that])
  moreover have "artifact_outcome digest ops metadata content r s' c'"
    unfolding artifact_outcome_def
  proof (intro allI impI)
    fix v assume v: "r = Inr v" "dget v ''kind'' = JStr ''GeneratedArtifact''"
    then obtain a where a: "q = Inr a" "mem_create (JObj w) k t = (Inr v, s')" "py_eq (JObj v) (JObj w)"
      using r by (auto split: sum.splits)
    with mem_create_same_id[OF okt a(2,3)] none t have n: "objects s' = dput (as_str (dget w ''id'')) w (objects s)" "v = w"
      by auto
    with get_content_held[OF keeps(1), of s' "as_str (dget w ''id'')" w b] wf v put_holds[OF int] put a b
    show "\<exists>b b'. encode_content content = Inr b
           \<and> get_content ops (as_str (dget (as_dict metadata) ''id'')) (s', c') = (Inr b', (s', c')) \<and> digest b' = digest b"
      by (auto simp: map_of_dput)
  qed
  ultimately show ?thesis using keeps(1) o held_stays[OF held keeps(2) s'] by blast
qed

end


text \<open>
  C39.  With content in files: whatever fails while content is written, publishing keeps the
  content store intact (every held content has the digest of its address), every artifact
  on record has its content, no object on record changes, content that could be read is
  read unchanged, and an artifact that was published can be read: the bytes have the digest
  of what was published.
\<close>

theorem artifact_content_kept:
  assumes "publish env digest (file_content_ops digest) metadata content (s, c) = (r, (s', c'))"
    and "store_ok s" and "file_intact digest c" and "artifacts_held file_held s c"
  shows "file_intact digest c' \<and> artifacts_held file_held s' c'
    \<and> (\<forall>i v. map_of (objects s) i = Some v \<longrightarrow> map_of (objects s') i = Some v)
    \<and> (\<forall>i b. get_content (file_content_ops digest) i (s, c) = (Inr b, (s, c))
         \<longrightarrow> get_content (file_content_ops digest) i (s', c') = (Inr b, (s', c')))
    \<and> artifact_outcome digest (file_content_ops digest) metadata content r s' c'"
  using assms by (rule file_content.publish_keeps)

definition sample_digest :: "string \<Rightarrow> string" where
  "sample_digest b = replicate 64 (if b = [] then CHR ''0'' else CHR ''a'')"

definition sample_metadata :: json where
  "sample_metadata = JObj [(''kind'', JStr ''GeneratedArtifact''), (''id'', JStr ''g''), (''traceId'', JStr ''tr''),
     (''createdAt'', JStr ''now''), (''provenance'', JObj [(''workflowExecutionId'', JStr ''w1'')])]"

definition sample_publish :: "write_fault list \<Rightarrow> (exn + dict) \<times> store \<times> content_files" where
  "sample_publish fs = publish sample_env sample_digest (file_content_ops sample_digest) sample_metadata
     (TextContent ''patch'') (empty_store, \<lparr>cf_files = [], cf_faults = fs\<rparr>)"

lemma file_intact_empty: "file_intact sample_digest \<lparr>cf_files = [], cf_faults = fs\<rparr>"
  by (auto simp: file_intact_def file_held_def content_address_def valid_address_def sample_digest_def hex_char_def
      list_all_iff)

theorem artifact_content_kept_witness:
  "\<exists>v s c b. sample_publish [] = (Inr v, (s, c))
     \<and> get_content (file_content_ops sample_digest) ''g'' (s, c) = (Inr b, (s, c)) \<and> sample_digest b = sample_digest ''patch''"
proof -
  have "(case sample_publish [] of (Inr v, t) \<Rightarrow> dget v ''kind'' = JStr ''GeneratedArtifact'' | _ \<Rightarrow> False)" by code_simp
  then obtain v s c where v: "sample_publish [] = (Inr v, (s, c))" "dget v ''kind'' = JStr ''GeneratedArtifact''"
    by (auto split: prod.splits sum.splits)
  have "artifact_outcome sample_digest (file_content_ops sample_digest) sample_metadata (TextContent ''patch'') (Inr v) s c"
    using artifact_content_kept[OF v(1)[unfolded sample_publish_def] store_ok_empty file_intact_empty]
    by (simp add: artifacts_held_def empty_store_def)
  moreover have "encode_content (TextContent ''patch'') = Inr ''patch''" by code_simp
  ultimately show ?thesis using v by (auto simp: artifact_outcome_def sample_metadata_def dget_Cons)
qed

end
