(* ===== verification/WebhookDelivery.thy ===== *)
theory WebhookDelivery
  imports RuntimeStore CanonicalText Observability PyText
begin

text \<open>
  Deliveries: \<open>github_events.py\<close> normalizes a payload, \<open>github_webhook.py\<close> authenticates and answers a
  delivery, \<open>webhook_dispatch.py\<close> keeps events and their requests in one database, and the consumer of
  \<open>dogfood_runtime.py\<close> retires requests.  The database is SQLite: a transaction commits or fails
  and leaves everything as it was; \<open>db_faults\<close> says which transactions fail.  A column with sorted
  JSON text is the value \<open>json.loads\<close> gives back for it.  HMAC, \<open>json.loads\<close> and the runner of a
  workflow are parameters.
\<close>

section \<open>Events\<close>

text \<open>A \<open>datetime\<close>: its text in UTC, and whether it has a time zone.\<close>

record instant =
  at_text :: string
  at_aware :: bool

record validation_issue =
  vi_field :: string
  vi_code :: string
  vi_message :: string

definition issue :: "string \<Rightarrow> string \<Rightarrow> string \<Rightarrow> validation_issue" where
  "issue field code message = \<lparr>vi_field = field, vi_code = code, vi_message = message\<rparr>"

definition issues_dict :: "validation_issue list \<Rightarrow> dict" where
  "issues_dict issues =
     [(''code'', JStr ''invalid_github_event''), (''message'', JStr ''GitHub event payload is invalid''),
      (''errors'', JList (map (\<lambda>i. JObj [(''field'', JStr (vi_field i)), (''code'', JStr (vi_code i)),
         (''message'', JStr (vi_message i))]) issues))]"

fun semicolons :: "string list \<Rightarrow> string" where
  "semicolons [] = []"
| "semicolons [x] = x"
| "semicolons (x # y # zs) = x @ ''; '' @ semicolons (y # zs)"

definition github_event_error :: "validation_issue list \<Rightarrow> exn" where
  "github_event_error issues = Exn GitHubEventValidationError
     (semicolons (map (\<lambda>i. vi_field i @ '': '' @ vi_message i) issues)) (JObj (issues_dict issues))"

definition require_object :: "dict \<Rightarrow> string \<Rightarrow> dict \<times> validation_issue list" where
  "require_object payload field =
     (let value = dget payload field in
      if is_mapping value then (as_dict value, [])
      else ([], [issue field ''invalid_type'' ''must be an object'']))"

datatype expected_type = IntField | StrField

fun has_type :: "expected_type \<Rightarrow> json \<Rightarrow> bool" where
  "has_type IntField v = is_int v"
| "has_type StrField v = nonempty_str v"

definition type_name :: "expected_type \<Rightarrow> string" where
  "type_name t = (case t of IntField \<Rightarrow> ''int'' | StrField \<Rightarrow> ''str'')"

definition require_fields :: "dict \<Rightarrow> string \<Rightarrow> (string \<times> expected_type) list \<Rightarrow> validation_issue list" where
  "require_fields value pre required =
     concat (map (\<lambda>(field, t). if has_type t (dget value field) then []
       else [issue (pre @ ''.'' @ field) ''required'' (''must be a non-empty '' @ type_name t)]) required)"

definition event_issues :: "dict \<Rightarrow> string \<Rightarrow> instant \<Rightarrow> validation_issue list" where
  "event_issues payload delivery_id received =
     (let (repository, r) = require_object payload ''repository''; (iss, i) = require_object payload ''issue'';
          (sender, s) = require_object payload ''sender'' in
      (if py_strip delivery_id = [] then [issue ''delivery_id'' ''required'' ''must be a non-empty string''] else [])
      @ (if dget payload ''action'' \<noteq> JStr ''opened'' then [issue ''action'' ''unsupported'' (''must be '' @ repr_str ''opened'')] else [])
      @ r @ i @ s
      @ require_fields repository ''repository'' [(''id'', IntField), (''full_name'', StrField)]
      @ require_fields iss ''issue'' [(''id'', IntField), (''number'', IntField), (''title'', StrField)]
      @ require_fields sender ''sender'' [(''id'', IntField), (''login'', StrField)]
      @ (if at_aware received then [] else [issue ''received_at'' ''invalid'' ''must include a timezone'']))"

definition deduplication_key :: "string \<Rightarrow> string" where
  "deduplication_key delivery_id = ''github:delivery:'' @ py_strip delivery_id"

definition normalize_github_issue_created ::
  "(string \<Rightarrow> string) \<Rightarrow> dict \<Rightarrow> string \<Rightarrow> instant \<Rightarrow> exn + dict" where
  "normalize_github_issue_created uuid5 payload delivery_id received =
     (let issues = event_issues payload delivery_id received; key = deduplication_key delivery_id in
      if issues \<noteq> [] then Inl (github_event_error issues)
      else Inr
        [(''id'', JStr (''event-'' @ uuid5 key)), (''source'', JStr ''github''), (''type'', JStr ''github.issue.created''),
         (''repository'', dget payload ''repository''), (''issue'', dget payload ''issue''),
         (''sender'', dget payload ''sender''), (''receivedAt'', JStr (at_text received)),
         (''deduplicationKey'', JStr key)])"

text \<open>\<open>EventDeduplicator\<close>, over the \<open>claim\<close> method of a store.\<close>

definition accept_event :: "(string \<Rightarrow> json \<Rightarrow> ('s, bool \<times> json) eff) \<Rightarrow> json \<Rightarrow> ('s, bool \<times> json) eff" where
  "accept_event claim event =
     thenE (checkE (is_mapping event) (type_error ''event must be a mapping''))
     (let key = mget event ''deduplicationKey'' in
      thenE (checkE (is_str key \<and> py_strip (as_str key) \<noteq> [])
        (value_error ''event.deduplicationKey must be a non-empty string''))
      (claim (''event:'' @ as_str key) event))"

section \<open>The database\<close>

datatype request_status = Pending | Completed

record outbox_row =
  ob_trace :: string
  ob_request :: dict
  ob_status :: request_status

record failure_row =
  fa_class :: string
  fa_message :: string
  fa_at :: string

text \<open>The tables by primary key: events by deduplication key, the other two by event id.\<close>

record outbox_db =
  db_events :: "(string \<times> string \<times> dict) list"
  db_outbox :: "(string \<times> outbox_row) list"
  db_failures :: "(string \<times> failure_row) list"
  db_faults :: "bool list"

definition empty_db :: "bool list \<Rightarrow> outbox_db" where
  "empty_db fs = \<lparr>db_events = [], db_outbox = [], db_failures = [], db_faults = fs\<rparr>"

abbreviation SqliteError :: exn_class where "SqliteError \<equiv> OtherException ''sqlite3.Error''"

definition transaction :: "(outbox_db, 'a) eff \<Rightarrow> (outbox_db, 'a) eff" where
  "transaction body = (\<lambda>d.
     let fails = (case db_faults d of [] \<Rightarrow> False | f # fs \<Rightarrow> f); d1 = d\<lparr>db_faults := tl (db_faults d)\<rparr> in
     if fails then (Inl (Exn SqliteError [] JNull), d1)
     else atomicE body d1)"

definition dispatch_text :: "dict \<Rightarrow> string \<Rightarrow> exn + string" where
  "dispatch_text value field =
     (let candidate = dget value field in
      if is_str candidate \<and> py_strip (as_str candidate) \<noteq> [] then Inr (py_strip (as_str candidate))
      else Inl (value_error (''event.'' @ field @ '' must be a non-empty string'')))"

definition request_of :: "dict \<Rightarrow> string \<Rightarrow> string \<Rightarrow> dict" where
  "request_of event event_id trace_id =
     canon_dict [(''event'', JObj event), (''eventId'', JStr event_id), (''traceId'', JStr trace_id)]"

text \<open>\<open>INSERT\<close> with a key that is taken, or an event id that is.\<close>

definition integrity_failure :: exn where
  "integrity_failure = Exn SqliteError ''UNIQUE constraint failed'' JNull"

definition insert_event :: "string \<Rightarrow> string \<Rightarrow> dict \<Rightarrow> (outbox_db, unit) eff" where
  "insert_event key event_id event =
     bindE getE (\<lambda>d.
     thenE (checkE (\<not> dhas (db_events d) key \<and> (\<forall>(k, i, e) \<in> set (db_events d). i \<noteq> event_id)) integrity_failure)
     (putE (d\<lparr>db_events := db_events d @ [(key, event_id, event)]\<rparr>)))"

definition insert_request :: "string \<Rightarrow> outbox_row \<Rightarrow> (outbox_db, unit) eff" where
  "insert_request event_id row =
     bindE getE (\<lambda>d.
     thenE (checkE (\<not> dhas (db_outbox d) event_id) integrity_failure)
     (putE (d\<lparr>db_outbox := db_outbox d @ [(event_id, row)]\<rparr>)))"

text \<open>The body of the transaction: the prior event of the key, or a new one with its request.\<close>

definition submit_body :: "string \<Rightarrow> string \<Rightarrow> dict \<Rightarrow> string \<Rightarrow> (outbox_db, bool \<times> dict) eff" where
  "submit_body key event_id event trace_id =
     bindE getE (\<lambda>d.
        case map_of (db_events d) key of
          Some (i, prior) \<Rightarrow> ret (False, prior)
        | None \<Rightarrow>
            thenE (insert_event key event_id (canon_dict event))
            (thenE (insert_request event_id
               \<lparr>ob_trace = trace_id, ob_request = request_of event event_id trace_id, ob_status = Pending\<rparr>)
             (ret (True, canon_dict event))))"

definition submit :: "dict \<Rightarrow> string \<Rightarrow> (outbox_db, bool \<times> dict) eff" where
  "submit event trace_id =
     bindE (liftR (dispatch_text event ''id'')) (\<lambda>event_id.
     bindE (liftR (dispatch_text event ''deduplicationKey'')) (\<lambda>key.
     thenE (checkE (py_strip trace_id \<noteq> []) (value_error ''trace_id must not be empty''))
     (transaction (submit_body key event_id event trace_id))))"

definition pending_requests :: "(outbox_db, dict list) eff" where
  "pending_requests =
     transaction (bindE getE (\<lambda>d.
       ret (map (\<lambda>(i, row). ob_request row)
         (sort_key fst (filter (\<lambda>(i, row). ob_status row = Pending) (db_outbox d))))))"

text \<open>\<open>UPDATE reconciliation_outbox SET status = 'COMPLETED' WHERE event_id = ?\<close>\<close>

definition complete_row :: "string \<Rightarrow> outbox_db \<Rightarrow> outbox_db" where
  "complete_row event_id d =
     (case map_of (db_outbox d) event_id of None \<Rightarrow> d
      | Some row \<Rightarrow> d\<lparr>db_outbox := dput event_id (row\<lparr>ob_status := Completed\<rparr>) (db_outbox d)\<rparr>)"

definition request_missing :: "string \<Rightarrow> exn" where
  "request_missing event_id = Exn KeyError (''reconciliation request '' @ repr_str event_id @ '' was not found'') JNull"

definition mark_completed :: "string \<Rightarrow> (outbox_db, unit) eff" where
  "mark_completed event_id =
     thenE (checkE (py_strip event_id \<noteq> []) (value_error ''event_id must not be empty''))
     (transaction (bindE getE (\<lambda>d.
        thenE (modE (complete_row event_id))
        (checkE (dhas (db_outbox d) event_id) (request_missing event_id)))))"

definition mark_failed :: "string \<Rightarrow> string \<Rightarrow> string \<Rightarrow> string \<Rightarrow> (outbox_db, unit) eff" where
  "mark_failed now event_id failure_class message =
     thenE (checkE (py_strip event_id \<noteq> [] \<and> py_strip failure_class \<noteq> [] \<and> py_strip message \<noteq> [])
       (value_error ''failure identity, class, and message are required''))
     (transaction (bindE getE (\<lambda>d.
        thenE (checkE (dhas (db_outbox d) event_id) (request_missing event_id))
        (thenE (modE (\<lambda>d. d\<lparr>db_failures := dsetdefault event_id
            \<lparr>fa_class = failure_class, fa_message = message, fa_at = now\<rparr> (db_failures d)\<rparr>))
         (modE (complete_row event_id))))))"

definition failure :: "string \<Rightarrow> (outbox_db, dict option) eff" where
  "failure event_id =
     transaction (bindE getE (\<lambda>d.
       ret (case map_of (db_failures d) event_id of None \<Rightarrow> None
            | Some f \<Rightarrow> Some [(''failureClass'', JStr (fa_class f)), (''message'', JStr (fa_message f)),
                (''failedAt'', JStr (fa_at f))])))"

definition outbox_count :: "(outbox_db, int) eff" where
  "outbox_count = transaction (bindE getE (\<lambda>d. ret (int (length (db_outbox d)))))"


section \<open>The ingress\<close>

record ingress =
  in_secret :: string
  in_repository :: string
  in_max_body :: int
  in_sink :: bool
  in_hmac :: "string \<Rightarrow> string \<Rightarrow> string"
  in_loads :: "string \<Rightarrow> json option"
  in_uuid5 :: "string \<Rightarrow> string"

definition make_ingress ::
  "string \<Rightarrow> string \<Rightarrow> string \<Rightarrow> int \<Rightarrow> bool \<Rightarrow> (string \<Rightarrow> string \<Rightarrow> string) \<Rightarrow> (string \<Rightarrow> json option)
   \<Rightarrow> (string \<Rightarrow> string) \<Rightarrow> exn + ingress" where
  "make_ingress secret owner name max_body sink hmac loads uuid5 =
     bindR (checkR (secret \<noteq> []) (value_error ''secret must be non-empty bytes'')) (\<lambda>_.
     bindR (checkR (py_strip owner \<noteq> [] \<and> py_strip name \<noteq> []) (value_error ''repository identity must not be empty'')) (\<lambda>_.
     bindR (checkR (0 < max_body) (value_error ''max_body_bytes must be a positive integer'')) (\<lambda>_.
     Inr \<lparr>in_secret = secret, in_repository = py_strip owner @ ''/'' @ py_strip name, in_max_body = max_body,
       in_sink = sink, in_hmac = hmac, in_loads = loads, in_uuid5 = uuid5\<rparr>)))"

record ingress_state =
  is_db :: outbox_db
  is_evidence :: "json list"

record response =
  status_code :: int
  response_body :: dict

definition valid_signature :: "ingress \<Rightarrow> string \<Rightarrow> string \<Rightarrow> bool" where
  "valid_signature ing raw_body supplied \<longleftrightarrow> ''sha256='' @ in_hmac ing (in_secret ing) raw_body = supplied"

definition delivery_trace_id :: "ingress \<Rightarrow> string \<Rightarrow> string" where
  "delivery_trace_id ing delivery_id =
     in_uuid5 ing (''aep:github-webhook:'' @ (if delivery_id = [] then ''missing-delivery'' else delivery_id))"

definition emit_delivery ::
  "ingress \<Rightarrow> instant \<Rightarrow> string \<Rightarrow> string \<Rightarrow> string \<Rightarrow> json \<Rightarrow> json \<Rightarrow> (ingress_state, unit) eff" where
  "emit_delivery ing emitted outcome trace_id delivery_id event_id code =
     (if \<not> in_sink ing then ret ()
      else modE (\<lambda>s. s\<lparr>is_evidence := is_evidence s @ [redact (JObj
        [(''schemaVersion'', JStr ''aep.dev/ingress/v1alpha1''), (''eventName'', JStr ''GitHubWebhookDelivery''),
         (''emittedAt'', JStr (at_text emitted)), (''service'', JStr ''event-controller''), (''traceId'', JStr trace_id),
         (''outcome'', JStr outcome), (''deliveryId'', if delivery_id = [] then JNull else JStr delivery_id),
         (''eventId'', event_id), (''code'', code)])]\<rparr>))"

definition reject_delivery :: "ingress \<Rightarrow> instant \<Rightarrow> int \<Rightarrow> string \<Rightarrow> string \<Rightarrow> string \<Rightarrow> (ingress_state, response) eff" where
  "reject_delivery ing emitted status code trace_id delivery_id =
     thenE (emit_delivery ing emitted ''rejected'' trace_id delivery_id JNull (JStr code))
     (ret \<lparr>status_code = status,
        response_body = [(''status'', JStr ''rejected''), (''code'', JStr code), (''traceId'', JStr trace_id)]\<rparr>)"

definition on_db :: "(outbox_db, 'a) eff \<Rightarrow> (ingress_state, 'a) eff" where
  "on_db m = (\<lambda>s. let (r, d) = m (is_db s) in (r, s\<lparr>is_db := d\<rparr>))"

definition normalized_headers :: "(string \<times> string) list \<Rightarrow> (string \<times> string) list" where
  "normalized_headers headers = fold (\<lambda>(k, v). dput (casefold k) v) headers []"

definition header_or_empty :: "(string \<times> string) list \<Rightarrow> string \<Rightarrow> string" where
  "header_or_empty hs k = (case map_of hs k of None \<Rightarrow> [] | Some v \<Rightarrow> v)"

text \<open>What a delivery is rejected for, in the order of the checks; otherwise its payload.\<close>

definition check_delivery ::
  "ingress \<Rightarrow> (string \<times> string) list \<Rightarrow> string \<Rightarrow> string \<Rightarrow> (int \<times> string) + dict" where
  "check_delivery ing hs delivery_id raw_body =
     (if int (length raw_body) > in_max_body ing then Inl (413, ''body_too_large'')
      else if \<not> valid_signature ing raw_body (header_or_empty hs ''x-hub-signature-256'') then Inl (401, ''invalid_signature'')
      else if delivery_id = [] then Inl (400, ''missing_delivery_id'')
      else if py_strip (header_or_empty hs ''x-github-event'') \<noteq> ''issues'' then Inl (422, ''unsupported_event'')
      else case in_loads ing raw_body of
        None \<Rightarrow> Inl (400, ''malformed_json'')
      | Some payload \<Rightarrow>
          if \<not> is_mapping payload then Inl (400, ''malformed_json'')
          else if mget payload ''action'' \<noteq> JStr ''opened'' then Inl (422, ''unsupported_action'')
          else let actual = (if is_mapping (mget payload ''repository'') then mget (mget payload ''repository'') ''full_name''
                             else JNull) in
            if \<not> is_str actual \<or> casefold (as_str actual) \<noteq> casefold (in_repository ing)
            then Inl (422, ''repository_mismatch'') else Inr (as_dict payload))"

definition handle_delivery ::
  "ingress \<Rightarrow> instant \<Rightarrow> instant \<Rightarrow> (string \<times> string) list \<Rightarrow> string \<Rightarrow> (ingress_state, response) eff" where
  "handle_delivery ing received emitted headers raw_body =
     (let hs = normalized_headers headers; delivery_id = py_strip (header_or_empty hs ''x-github-delivery'');
          trace_id = delivery_trace_id ing delivery_id in
      case check_delivery ing hs delivery_id raw_body of
        Inl (status, code) \<Rightarrow> reject_delivery ing emitted status code trace_id delivery_id
      | Inr payload \<Rightarrow>
          case normalize_github_issue_created (in_uuid5 ing) payload delivery_id received of
            Inl e \<Rightarrow> if instance_of e GitHubEventValidationError
                     then reject_delivery ing emitted 422 ''invalid_payload'' trace_id delivery_id else throw e
          | Inr event \<Rightarrow>
              bindE (catchE (bindE (on_db (submit event trace_id)) (\<lambda>a. ret (Some a))) (\<lambda>_. ret None)) (\<lambda>acceptance.
              case acceptance of
                None \<Rightarrow>
                  thenE (emit_delivery ing emitted ''failed'' trace_id delivery_id (dget event ''id'') JNull)
                  (ret \<lparr>status_code = 503, response_body = [(''status'', JStr ''failed''),
                     (''code'', JStr ''delivery_unavailable''), (''traceId'', JStr trace_id)]\<rparr>)
              | Some (accepted, stored) \<Rightarrow>
                  let status = (if accepted then ''accepted'' else ''duplicate'') in
                  bindE (liftR (getitem stored ''id'')) (\<lambda>event_id.
                  thenE (emit_delivery ing emitted status trace_id delivery_id event_id JNull)
                  (ret \<lparr>status_code = if accepted then 202 else 200, response_body = [(''status'', JStr status),
                     (''eventId'', event_id), (''traceId'', JStr trace_id)]\<rparr>))))"

section \<open>The consumer\<close>

text \<open>
  A runner runs the workflow of a request in its world; where it has a completion check, the
  request is retired only when the check says so.
\<close>

record 'w runner =
  ru_run :: "dict \<Rightarrow> ('w, unit) eff"
  ru_complete :: "(dict \<Rightarrow> 'w \<Rightarrow> bool) option"

type_synonym failure_signature = "string \<times> string \<times> exn_class"

record 'w consumer =
  cs_db :: outbox_db
  cs_world :: 'w
  cs_reported :: "(string \<times> failure_signature) list"
  cs_warnings :: "(string \<times> failure_signature) list"
  cs_last_error :: "exn option"
  cs_last_poll :: "string option"

abbreviation CheckoutProvisionError :: exn_class where
  "CheckoutProvisionError \<equiv> OtherException ''CheckoutProvisionError''"

abbreviation DogfoodReconciliationError :: exn_class where
  "DogfoodReconciliationError \<equiv> OtherException ''DogfoodReconciliationError''"

definition cs_on_db :: "(outbox_db, 'a) eff \<Rightarrow> ('w consumer, 'a) eff" where
  "cs_on_db m = (\<lambda>s. let (r, d) = m (cs_db s) in (r, s\<lparr>cs_db := d\<rparr>))"

text \<open>The runner's outcome as a value: the exception it raised, if any.\<close>

definition run_request :: "'w runner \<Rightarrow> dict \<Rightarrow> ('w consumer, exn option) eff" where
  "run_request ru request = (\<lambda>s. let (r, w) = ru_run ru request (cs_world s) in
     (Inr (case r of Inl e \<Rightarrow> Some e | Inr u \<Rightarrow> None), s\<lparr>cs_world := w\<rparr>))"

definition log_safe_failure :: "string \<Rightarrow> string \<Rightarrow> string \<Rightarrow> exn \<Rightarrow> ('w consumer, unit) eff" where
  "log_safe_failure event_id classification code e =
     (let signature = (classification, code, exn_cls e) in
      modE (\<lambda>s. if map_of (cs_reported s) event_id = Some signature then s
        else s\<lparr>cs_reported := dput event_id signature (cs_reported s),
               cs_warnings := cs_warnings s @ [(event_id, signature)]\<rparr>))"

text \<open>A checkout error carries its classification and code.\<close>

definition failure_handling :: "exn \<Rightarrow> string \<times> string \<times> string" where
  "failure_handling e =
     (if instance_of e CheckoutProvisionError
      then (py_str (mget (exn_info e) ''classification''), as_str (mget (exn_info e) ''code''),
            ''dogfood checkout provisioning failed configuration checks'')
      else (if instance_of e DogfoodReconciliationError \<or> instance_of e ValueError then ''CONFIGURATION''
            else ''RECOVERABLE'', ''reconciliation_failed'', ''dogfood reconciliation failed configuration checks''))"

definition request_event_id :: "dict \<Rightarrow> string" where
  "request_event_id request = py_str (dget_or request ''eventId'' (JStr []))"

definition forget_reported :: "string \<Rightarrow> ('w consumer, unit) eff" where
  "forget_reported event_id = modE (\<lambda>s. s\<lparr>cs_reported := dpop event_id (cs_reported s)\<rparr>)"

definition consume :: "'w runner \<Rightarrow> string \<Rightarrow> dict \<Rightarrow> ('w consumer, bool) eff" where
  "consume ru now request =
     (let event_id = request_event_id request in
      bindE (run_request ru request) (\<lambda>failed.
      case failed of
        Some e \<Rightarrow>
          let (classification, code, message) = failure_handling e in
          thenE (log_safe_failure event_id classification code e)
          (thenE (if classification = ''CONFIGURATION''
                  then cs_on_db (mark_failed now event_id classification message) else ret ())
          (ret False))
      | None \<Rightarrow>
          bindE getE (\<lambda>s.
          if (case ru_complete ru of None \<Rightarrow> False | Some check \<Rightarrow> \<not> check request (cs_world s))
          then thenE (forget_reported event_id) (ret False)
          else thenE (cs_on_db (mark_completed event_id)) (thenE (forget_reported event_id) (ret True)))))"

definition run_once :: "'w runner \<Rightarrow> string \<Rightarrow> ('w consumer, nat) eff" where
  "run_once ru now =
     bindE (cs_on_db pending_requests) (\<lambda>requests.
     thenE (modE (\<lambda>s. s\<lparr>cs_reported := filter (\<lambda>(i, x). i \<in> set (map request_event_id requests)) (cs_reported s)\<rparr>))
     (bindE (mapE (consume ru now) requests) (\<lambda>processed.
     ret (length (filter id processed)))))"

text \<open>One turn of the polling loop: an exception is recorded and the loop goes on.\<close>

definition poll :: "'w runner \<Rightarrow> string \<Rightarrow> 'w consumer \<Rightarrow> 'w consumer" where
  "poll ru now s =
     (case run_once ru now s of
        (Inl e, t) \<Rightarrow> t\<lparr>cs_last_error := Some e, cs_last_poll := Some now\<rparr>
      | (Inr n, t) \<Rightarrow> t\<lparr>cs_last_error := None, cs_last_poll := Some now\<rparr>)"

definition consumer_liveness :: "'w consumer \<Rightarrow> dict" where
  "consumer_liveness s =
     [(''status'', JStr (case cs_last_error s of Some e \<Rightarrow> ''degraded'' | None \<Rightarrow> ''healthy'')),
      (''lastPollAt'', opt_str (cs_last_poll s)),
      (''lastPollError'', case cs_last_error s of None \<Rightarrow> JNull
         | Some e \<Rightarrow> JStr (class_name (exn_cls e) @ '': '' @ exn_msg e))]"


section \<open>What every operation keeps\<close>

text \<open>Every event has its one request, under its id, and the request carries the id.\<close>

definition db_ok :: "outbox_db \<Rightarrow> bool" where
  "db_ok d \<longleftrightarrow> distinct (map fst (db_events d)) \<and> distinct (map fst (db_outbox d))
     \<and> map fst (db_outbox d) = map (fst \<circ> snd) (db_events d)
     \<and> (\<forall>i row. map_of (db_outbox d) i = Some row \<longrightarrow> request_event_id (ob_request row) = i \<and> py_strip i \<noteq> [])"

text \<open>A request, once there, stays with its content; it goes from pending to completed only.\<close>

definition row_moves :: "outbox_row \<Rightarrow> outbox_row \<Rightarrow> bool" where
  "row_moves x y \<longleftrightarrow> ob_request y = ob_request x \<and> ob_trace y = ob_trace x
     \<and> (ob_status x = Completed \<longrightarrow> ob_status y = Completed)"

definition db_step :: "outbox_db \<Rightarrow> outbox_db \<Rightarrow> bool" where
  "db_step d e \<longleftrightarrow> length (db_faults e) \<le> length (db_faults d)
     \<and> (db_ok d \<longrightarrow> db_ok e
        \<and> (\<forall>i x. map_of (db_outbox d) i = Some x \<longrightarrow> (\<exists>y. map_of (db_outbox e) i = Some y \<and> row_moves x y))
        \<and> (\<forall>k v. map_of (db_events d) k = Some v \<longrightarrow> map_of (db_events e) k = Some v))"

lemma row_moves_refl [simp]: "row_moves x x"
  by (simp add: row_moves_def)

lemma row_moves_trans: "row_moves x y \<Longrightarrow> row_moves y z \<Longrightarrow> row_moves x z"
  by (simp add: row_moves_def)

interpretation db: step_rel db_step
proof
  show "db_step s s" for s by (auto simp: db_step_def)
  show "db_step s u" if "db_step s t" "db_step t u" for s t u
    using that unfolding db_step_def by (meson order_trans row_moves_trans)
qed

lemma transaction_step:
  assumes "\<And>d. db_step d (snd (atomicE body d))"
  shows "keeps db_step (transaction body)"
proof (rule keepsI)
  fix d
  have f: "db_step d (d\<lparr>db_faults := tl (db_faults d)\<rparr>)" by (auto simp: db_step_def db_ok_def)
  show "db_step d (snd (transaction body d))"
    using f db.trans[OF f assms] by (auto simp: transaction_def Let_def)
qed

lemma transaction_cases:
  assumes "transaction body d = (r, e)"
  shows "(\<exists>x. r = Inl x \<and> e = d\<lparr>db_faults := tl (db_faults d)\<rparr> \<and> db_faults d \<noteq> [])
    \<or> atomicE body (d\<lparr>db_faults := tl (db_faults d)\<rparr>) = (r, e)"
  using assms by (auto simp: transaction_def Let_def split: if_splits list.splits)

lemma keys_dput_member: "(k, v) \<in> set d \<Longrightarrow> map fst (dput k x d) = map fst d"
  by (rule map_dput_present) (rule rev_image_eqI, assumption, simp)

lemma complete_row_ok: "db_ok d \<Longrightarrow> db_ok (complete_row i d)"
  by (auto simp: complete_row_def db_ok_def map_of_dput keys_dput_member dest: map_of_SomeD split: option.splits if_splits)

lemma complete_row_step: "db_step d (complete_row i d)"
  using complete_row_ok
  by (auto simp: db_step_def complete_row_def map_of_dput row_moves_def split: option.splits)


lemma atomicE_ret_state: "(\<And>r e. body d = (r, e) \<Longrightarrow> e = d) \<Longrightarrow> db_step d (snd (atomicE body d))"
  using db.refl by (auto simp: atomicE_def split: prod.splits sum.splits)

lemma request_of_id: "request_event_id (request_of event i trace) = i"
  by (simp add: request_event_id_def request_of_def dget_or_def map_of_canon_dict)

lemma dispatch_text_Inr: "dispatch_text v f = Inr t \<Longrightarrow> py_strip t \<noteq> []"
  by (auto simp: dispatch_text_def Let_def py_strip_idem split: if_splits)

text \<open>A new event and its request, added together.\<close>

definition with_request :: "outbox_db \<Rightarrow> string \<Rightarrow> string \<Rightarrow> dict \<Rightarrow> string \<Rightarrow> outbox_db" where
  "with_request d key i event trace =
     d\<lparr>db_events := db_events d @ [(key, i, canon_dict event)],
       db_outbox := db_outbox d @ [(i, \<lparr>ob_trace = trace, ob_request = request_of event i trace, ob_status = Pending\<rparr>)]\<rparr>"

lemma db_ok_event_ids: "db_ok d \<Longrightarrow> (k, i, v) \<in> set (db_events d) \<Longrightarrow> dhas (db_outbox d) i"
  unfolding db_ok_def by (metis comp_apply dhas_iff fst_conv image_eqI list.set_map map_of_eq_None_iff snd_conv)

lemma with_request_step:
  assumes s: "py_strip i \<noteq> []" and e: "\<not> dhas (db_events d) key" and o': "\<not> dhas (db_outbox d) i"
  shows "db_step d (with_request d key i event trace)"
proof -
  have n: "(k, i, v) \<notin> set (db_events d)" if "db_ok d" for k v using db_ok_event_ids[OF that] o' by blast
  have "db_ok (with_request d key i event trace)" if ok: "db_ok d"
    using s e o' ok n[OF ok]
    by (auto simp: db_ok_def with_request_def dhas_iff map_add_def request_of_id map_of_eq_None_iff split: option.splits)
  then show ?thesis
    using e o' by (auto simp: db_step_def with_request_def dhas_iff map_add_def split: option.splits)
qed

lemma submit_body_cases:
  assumes "atomicE (submit_body key i event trace) d = (r, e)"
  shows "(e = d \<and> (\<forall>v. r = Inr v \<longrightarrow> (\<exists>j. map_of (db_events d) key = Some (j, snd v) \<and> \<not> fst v)))
    \<or> (e = with_request d key i event trace \<and> r = Inr (True, canon_dict event)
       \<and> \<not> dhas (db_events d) key \<and> \<not> dhas (db_outbox d) i)"
  using assms
  by (auto simp: submit_body_def insert_event_def insert_request_def eff_simps with_request_def
      split: option.splits if_splits)

lemma submit_cases:
  assumes "submit event trace d = (r, e)"
  shows "(e = d \<or> e = d\<lparr>db_faults := tl (db_faults d)\<rparr>) \<and> (\<exists>x. r = Inl x)
    \<or> (\<exists>key i. dispatch_text event ''id'' = Inr i \<and> dispatch_text event ''deduplicationKey'' = Inr key
        \<and> (let d1 = d\<lparr>db_faults := tl (db_faults d)\<rparr> in
           (e = d1 \<and> (\<exists>j w. r = Inr (False, w) \<and> map_of (db_events d) key = Some (j, w)))
           \<or> (e = with_request d1 key i event trace \<and> r = Inr (True, canon_dict event)
              \<and> \<not> dhas (db_events d) key \<and> \<not> dhas (db_outbox d) i)))"
proof (cases "dispatch_text event ''id''")
  case (Inl x)
  then show ?thesis using assms by (auto simp: submit_def eff_simps)
next
  case i: (Inr i)
  show ?thesis
  proof (cases "dispatch_text event ''deduplicationKey''")
    case (Inl x)
    then show ?thesis using assms i by (auto simp: submit_def eff_simps)
  next
    case key: (Inr key)
    show ?thesis
    proof (cases "py_strip trace = []")
      case True
      then show ?thesis using assms i key by (auto simp: submit_def eff_simps)
    next
      case False
      then have t: "transaction (submit_body key i event trace) d = (r, e)"
        using assms i key by (simp add: submit_def eff_simps)
      from transaction_cases[OF t] show ?thesis
        using i key submit_body_cases[of key i event trace "d\<lparr>db_faults := tl (db_faults d)\<rparr>" r e]
        by (cases r) (auto simp: Let_def)
    qed
  qed
qed

lemma faults_step: "db_step d (d\<lparr>db_faults := tl (db_faults d)\<rparr>)"
  by (auto simp: db_step_def db_ok_def)

lemma submit_step: "keeps db_step (submit event trace)"
proof (rule keepsI)
  fix d
  obtain r e where s: "submit event trace d = (r, e)" by fastforce
  from submit_cases[OF s] have "db_step d e"
    using db.refl faults_step db.trans[OF faults_step with_request_step] dispatch_text_Inr
    by (auto simp: Let_def)
  with s show "db_step d (snd (submit event trace d))" by simp
qed


lemma mark_completed_runs:
  assumes d: "db_ok d" "dhas (db_outbox d) i" and m: "mark_completed i d = (r, e)"
  shows "db_step d e \<and> ((\<exists>x. r = Inl x) \<and> length (db_faults e) < length (db_faults d)
    \<or> r = Inr () \<and> (\<exists>row. map_of (db_outbox e) i = Some row \<and> ob_status row = Completed))"
proof -
  have b: "py_strip i \<noteq> []" using d by (auto simp: db_ok_def dhas_iff)
  let ?d = "d\<lparr>db_faults := tl (db_faults d)\<rparr>"
  have t: "transaction (bindE getE (\<lambda>d. thenE (modE (complete_row i)) (checkE (dhas (db_outbox d) i) (request_missing i)))) d = (r, e)"
    using m b by (simp add: mark_completed_def eff_simps)
  from transaction_cases[OF t] show ?thesis
  proof
    assume "\<exists>x. r = Inl x \<and> e = ?d \<and> db_faults d \<noteq> []"
    then show ?thesis using faults_step[of d] by auto
  next
    assume "atomicE (bindE getE (\<lambda>d. thenE (modE (complete_row i)) (checkE (dhas (db_outbox d) i) (request_missing i)))) ?d = (r, e)"
    then have r: "r = Inr ()" "e = complete_row i ?d" using d(2) by (auto simp: eff_simps)
    moreover have "db_step d (complete_row i ?d)" by (rule db.trans[OF faults_step complete_row_step])
    ultimately show ?thesis using d(2)
      by (auto simp: complete_row_def dhas_iff map_of_dput)
  qed
qed

lemma failures_step: "db_step d (d\<lparr>db_failures := fs\<rparr>)"
  by (auto simp: db_step_def db_ok_def)

lemma mark_failed_runs:
  assumes d: "db_ok d" "dhas (db_outbox d) i" and c: "py_strip c \<noteq> []" "py_strip msg \<noteq> []"
    and m: "mark_failed now i c msg d = (r, e)"
  shows "db_step d e \<and> ((\<exists>x. r = Inl x) \<and> length (db_faults e) < length (db_faults d)
    \<or> r = Inr () \<and> (\<exists>row. map_of (db_outbox e) i = Some row \<and> ob_status row = Completed))"
proof -
  have b: "py_strip i \<noteq> []" using d by (auto simp: db_ok_def dhas_iff)
  let ?d = "d\<lparr>db_faults := tl (db_faults d)\<rparr>"
  let ?fs = "dsetdefault i \<lparr>fa_class = c, fa_message = msg, fa_at = now\<rparr> (db_failures d)"
  have "(\<exists>x. r = Inl x \<and> e = ?d \<and> db_faults d \<noteq> []) \<or> r = Inr () \<and> e = complete_row i (?d\<lparr>db_failures := ?fs\<rparr>)"
    using m b c d(2) by (auto simp: mark_failed_def transaction_def eff_simps Let_def split: if_splits list.splits)
  then show ?thesis
  proof (elim disjE conjE exE)
    fix x assume "r = Inl x" "e = ?d" "db_faults d \<noteq> []"
    then show ?thesis using faults_step[of d] by auto
  next
    assume "r = Inr ()" "e = complete_row i (?d\<lparr>db_failures := ?fs\<rparr>)"
    moreover have "db_step d (complete_row i (?d\<lparr>db_failures := ?fs\<rparr>))"
      by (rule db.trans[OF db.trans[OF faults_step failures_step] complete_row_step])
    ultimately show ?thesis using d(2)
      by (auto simp: complete_row_def dhas_iff map_of_dput)
  qed
qed

section \<open>Every accepted request is retired\<close>

text \<open>A run that settles a request: a configuration failure, or a run that is complete.\<close>

definition settles :: "'w runner \<Rightarrow> dict \<Rightarrow> exn + unit \<Rightarrow> 'w \<Rightarrow> bool" where
  "settles ru request r w \<longleftrightarrow>
     (case r of Inl e \<Rightarrow> fst (failure_handling e) = ''CONFIGURATION''
      | Inr u \<Rightarrow> (case ru_complete ru of None \<Rightarrow> True | Some check \<Rightarrow> check request w))"

definition retired :: "string \<Rightarrow> outbox_db \<Rightarrow> bool" where
  "retired i d \<longleftrightarrow> (\<exists>row. map_of (db_outbox d) i = Some row \<and> ob_status row = Completed)"

text \<open>
  \<open>effort\<close> bounds what a runner still has to do for one request; a failing transaction uses up
  a fault.
\<close>

definition left_to_do :: "('w \<Rightarrow> nat) \<Rightarrow> 'w consumer \<Rightarrow> nat" where
  "left_to_do effort s = effort (cs_world s) + length (db_faults (cs_db s))"

lemma failure_message_ok: "failure_handling e = (c, code, msg) \<Longrightarrow> py_strip msg \<noteq> []"
  by (auto simp: failure_handling_def py_strip_def py_lstrip_def py_space_def split: if_splits)

lemma retired_step: "retired i d \<Longrightarrow> db_ok d \<Longrightarrow> db_step d e \<Longrightarrow> retired i e"
  unfolding retired_def db_step_def row_moves_def by blast

lemma dhas_step: "dhas (db_outbox d) i \<Longrightarrow> db_ok d \<Longrightarrow> db_step d e \<Longrightarrow> dhas (db_outbox e) i"
  unfolding db_step_def dhas_iff by (metis not_None_eq)


lemma cs_on_db_apply [eff_simps]: "cs_on_db m s = (case m (cs_db s) of (r, d) \<Rightarrow> (r, s\<lparr>cs_db := d\<rparr>))"
  by (simp add: cs_on_db_def Let_def case_prod_beta)

text \<open>What a step of the consumer leaves: \<open>done\<close> for one that has to retire a request.\<close>

definition consumed :: "('w \<Rightarrow> nat) \<Rightarrow> bool \<Rightarrow> string \<Rightarrow> 'w consumer \<Rightarrow> exn + 'a \<Rightarrow> 'w consumer \<Rightarrow> bool" where
  "consumed effort finish i s r t \<longleftrightarrow> db_step (cs_db s) (cs_db t) \<and> left_to_do effort t \<le> left_to_do effort s
     \<and> ((\<exists>e. r = Inl e) \<longrightarrow> left_to_do effort t < left_to_do effort s)
     \<and> (finish \<longrightarrow> retired i (cs_db t) \<or> left_to_do effort t < left_to_do effort s)"

lemma consume_runs:
  assumes effort: "\<And>w r w'. ru_run ru q w = (r, w') \<Longrightarrow> effort w' \<le> effort w"
    and finish: "finish \<Longrightarrow> \<forall>w r w'. ru_run ru q w = (r, w') \<longrightarrow> settles ru q r w' \<or> effort w' < effort w"
    and ok: "db_ok (cs_db s)" "dhas (db_outbox (cs_db s)) (request_event_id q)"
    and c: "consume ru now q s = (r, t)"
  shows "consumed effort finish (request_event_id q) s r t"
proof -
  obtain x w where run: "ru_run ru q (cs_world s) = (x, w)" by fastforce
  note le = effort[OF run]
  have fin: "finish \<Longrightarrow> settles ru q x w \<or> effort w < effort (cs_world s)" using finish run by blast
  let ?i = "request_event_id q"
  show ?thesis
  proof (cases x)
    case (Inl e)
    obtain c code m where h: "failure_handling e = (c, code, m)" by (cases "failure_handling e") auto
    have db: "if c = ''CONFIGURATION'' then (\<exists>y. mark_failed now ?i c m (cs_db s) = (y, cs_db t) \<and> (\<forall>z. y = Inl z \<longleftrightarrow> r = Inl z))
        else cs_db t = cs_db s \<and> r = Inr False" and w: "cs_world t = w"
      using c Inl run h
      by (auto simp: consume_def run_request_def eff_simps Let_def log_safe_failure_def split: if_splits prod.splits sum.splits)
    show ?thesis
    proof (cases "c = ''CONFIGURATION''")
      case True
      then obtain y where m: "mark_failed now ?i c m (cs_db s) = (y, cs_db t)" "\<forall>z. y = Inl z \<longleftrightarrow> r = Inl z" using db by auto
      have cc: "py_strip c \<noteq> []" using True by (simp add: py_strip_def py_lstrip_def py_space_def)
      from mark_failed_runs[OF ok cc failure_message_ok[OF h] m(1)] m(2) w le show ?thesis
        unfolding consumed_def left_to_do_def retired_def by (cases y) (auto simp: db_step_def)
    next
      case False
      then show ?thesis
        using db w le fin h Inl db.refl unfolding consumed_def left_to_do_def by (auto simp: settles_def)
    qed
  next
    case (Inr u)
    show ?thesis
    proof (cases "case ru_complete ru of None \<Rightarrow> False | Some check \<Rightarrow> \<not> check q w")
      case True
      then have "cs_db t = cs_db s" "cs_world t = w" "r = Inr False"
        using c Inr run by (auto simp: consume_def run_request_def eff_simps Let_def forget_reported_def split: option.splits)
      then show ?thesis
        using True le fin Inr db.refl unfolding consumed_def left_to_do_def by (auto simp: settles_def split: option.splits)
    next
      case False
      then have "(\<exists>y. mark_completed ?i (cs_db s) = (y, cs_db t) \<and> (\<forall>z. y = Inl z \<longleftrightarrow> r = Inl z)) \<and> cs_world t = w"
        using c Inr run
        by (auto simp: consume_def run_request_def eff_simps Let_def forget_reported_def split: option.splits prod.splits sum.splits)
      then obtain y where m: "mark_completed ?i (cs_db s) = (y, cs_db t)" "\<forall>z. y = Inl z \<longleftrightarrow> r = Inl z" "cs_world t = w" by blast
      from mark_completed_runs[OF ok m(1)] m(2,3) le show ?thesis
        unfolding consumed_def left_to_do_def retired_def by (cases y) (auto simp: db_step_def)
    qed
  qed
qed


lemma consumed_trans:
  assumes a: "consumed effort f i s x s1" and b: "consumed effort g i s1 r t" and ok: "db_ok (cs_db s)"
  shows "consumed effort (f \<or> g) i s r t"
proof -
  have s1: "db_ok (cs_db s1)" using a ok by (simp add: consumed_def db_step_def)
  show ?thesis
    using a b db.trans[of "cs_db s" "cs_db s1" "cs_db t"] retired_step[OF _ s1, of i "cs_db t"]
    unfolding consumed_def by (auto intro: le_less_trans less_le_trans)
qed

lemma consume_all:
  assumes effort: "\<And>q w r w'. ru_run ru q w = (r, w') \<Longrightarrow> effort w' \<le> effort w"
    and finish: "\<And>w r w'. ru_run ru q0 w = (r, w') \<Longrightarrow> settles ru q0 r w' \<or> effort w' < effort w"
  shows "mapE (consume ru now) qs s = (r, t) \<Longrightarrow> db_ok (cs_db s)
    \<Longrightarrow> \<forall>q \<in> set qs. dhas (db_outbox (cs_db s)) (request_event_id q)
    \<Longrightarrow> consumed effort (q0 \<in> set qs) (request_event_id q0) s r t"
proof (induction qs arbitrary: s r t)
  case Nil
  then show ?case using db.refl by (auto simp: consumed_def ret_apply)
next
  case (Cons q qs)
  obtain x s1 where q: "consume ru now q s = (x, s1)" by fastforce
  have a: "consumed effort (q = q0) (request_event_id q) s x s1"
    by (rule consume_runs[OF effort _ Cons.prems(2) _ q]) (use finish Cons.prems(3) in auto)
  then have a: "consumed effort (q = q0) (request_event_id q0) s x s1" by (cases "q = q0") (auto simp: consumed_def)
  have st: "db_step (cs_db s) (cs_db s1)" using a by (simp add: consumed_def)
  show ?case
  proof (cases x)
    case (Inl e)
    then have "t = s1" "r = Inl e" using Cons.prems(1) q by (auto simp: eff_simps)
    with a Inl show ?thesis by (auto simp: consumed_def)
  next
    case (Inr y)
    obtain z u where m: "mapE (consume ru now) qs s1 = (z, u)" by fastforce
    have "consumed effort (q0 \<in> set qs) (request_event_id q0) s1 z u"
      by (rule Cons.IH[OF m]) (use st Cons.prems(2,3) dhas_step[OF _ Cons.prems(2) st] in \<open>auto simp: db_step_def\<close>)
    from consumed_trans[OF a this Cons.prems(2)] have c: "consumed effort (q = q0 \<or> q0 \<in> set qs) (request_event_id q0) s z u" .
    have "u = t \<and> ((\<exists>e. z = Inl e) \<longleftrightarrow> (\<exists>e. r = Inl e))"
      using Cons.prems(1) q Inr m by (auto simp: eff_simps split: sum.splits)
    with c show ?thesis by (auto simp: consumed_def)
  qed
qed

lemma run_once_runs:
  assumes effort: "\<And>q w r w'. ru_run ru q w = (r, w') \<Longrightarrow> effort w' \<le> effort w"
    and finish: "\<And>w r w'. ru_run ru q0 w = (r, w') \<Longrightarrow> settles ru q0 r w' \<or> effort w' < effort w"
    and ok: "db_ok (cs_db s)" and row: "map_of (db_outbox (cs_db s)) (request_event_id q0) = Some row" "ob_request row = q0"
    and run: "run_once ru now s = (r, t)"
  shows "consumed effort True (request_event_id q0) s r t"
proof -
  let ?i = "request_event_id q0"
  obtain x d where p: "pending_requests (cs_db s) = (x, d)" by fastforce
  have d: "d = (cs_db s)\<lparr>db_faults := tl (db_faults (cs_db s))\<rparr>" and "(\<exists>e. x = Inl e) \<Longrightarrow> db_faults (cs_db s) \<noteq> []"
    using p by (auto simp: pending_requests_def transaction_def eff_simps Let_def split: if_splits list.splits)
  show ?thesis
  proof (cases x)
    case (Inl e)
    then have "r = Inl e" "t = s\<lparr>cs_db := d\<rparr>" "db_faults (cs_db s) \<noteq> []"
      using run p \<open>_ \<Longrightarrow> db_faults (cs_db s) \<noteq> []\<close> by (auto simp: run_once_def eff_simps)
    then show ?thesis using d faults_step by (auto simp: consumed_def left_to_do_def)
  next
    case (Inr qs)
    let ?pending = "filter (\<lambda>(i, row). ob_status row = Pending) (db_outbox (cs_db s))"
    have qs: "qs = map (\<lambda>(i, row). ob_request row) (sort_key fst ?pending)"
      using p Inr by (auto simp: pending_requests_def transaction_def eff_simps Let_def split: if_splits list.splits)
    define s1 where "s1 = s\<lparr>cs_db := d, cs_reported := filter (\<lambda>(i, x). i \<in> set (map request_event_id qs)) (cs_reported s)\<rparr>"
    obtain z u where m: "mapE (consume ru now) qs s1 = (z, u)" by fastforce
    have s1: "cs_db s1 = d" "cs_world s1 = cs_world s" by (simp_all add: s1_def)
    have rt: "u = t \<and> ((\<exists>e. z = Inl e) \<longleftrightarrow> (\<exists>e. r = Inl e))"
      using run p Inr m by (auto simp: run_once_def eff_simps s1_def split: sum.splits)
    have ids: "\<forall>q \<in> set qs. dhas (db_outbox d) (request_event_id q)"
    proof
      fix q assume "q \<in> set qs"
      then obtain i rw where "(i, rw) \<in> set (db_outbox (cs_db s))" "ob_request rw = q" by (auto simp: qs)
      with ok have "map_of (db_outbox (cs_db s)) i = Some rw" "request_event_id q = i" by (auto simp: db_ok_def)
      then show "dhas (db_outbox d) (request_event_id q)" by (simp add: d dhas_iff)
    qed
    have "consumed effort (q0 \<in> set qs) ?i s1 z u"
      by (rule consume_all[OF effort finish m]) (use ids s1 ok faults_step[of "cs_db s"] d in \<open>auto simp: db_step_def\<close>)
    moreover have "consumed effort False ?i s (Inr ()) s1"
      using faults_step[of "cs_db s"] by (simp add: consumed_def s1 d left_to_do_def)
    ultimately have c: "consumed effort (q0 \<in> set qs) ?i s z u" using consumed_trans ok by fastforce
    show ?thesis
    proof (cases "ob_status row")
      case Pending
      have "(?i, row) \<in> set ?pending" using row Pending by (auto dest: map_of_SomeD)
      then have "q0 \<in> set qs" using row(2) unfolding qs by force
      with c rt show ?thesis by (auto simp: consumed_def)
    next
      case Completed
      then have "retired ?i (cs_db s)" using row by (auto simp: retired_def)
      with c rt retired_step ok show ?thesis by (auto simp: consumed_def)
    qed
  qed
qed


text \<open>Deliveries arrive between the polls.\<close>

definition deliver_all :: "(dict \<times> string) list \<Rightarrow> 'w consumer \<Rightarrow> 'w consumer" where
  "deliver_all ds s = s\<lparr>cs_db := fold (\<lambda>(event, trace) d. snd (submit event trace d)) ds (cs_db s)\<rparr>"

primrec consumer_rounds ::
  "'w runner \<Rightarrow> (nat \<Rightarrow> string) \<Rightarrow> (nat \<Rightarrow> (dict \<times> string) list) \<Rightarrow> nat \<Rightarrow> 'w consumer \<Rightarrow> 'w consumer" where
  "consumer_rounds ru now deliveries 0 s = s"
| "consumer_rounds ru now deliveries (Suc n) s =
     poll ru (now n) (deliver_all (deliveries n) (consumer_rounds ru now deliveries n s))"

lemma deliver_all_step: "db_step (cs_db s) (cs_db (deliver_all ds s)) \<and> cs_world (deliver_all ds s) = cs_world s"
proof -
  have "db_step d (fold (\<lambda>(event, trace) d. snd (submit event trace d)) ds d)" for d
  proof (induction ds arbitrary: d)
    case Nil
    then show ?case using db.refl by simp
  next
    case (Cons a ds)
    obtain event trace where a: "a = (event, trace)" by fastforce
    have "db_step d (snd (submit event trace d))" using submit_step by (simp add: keeps_def)
    from db.trans[OF this Cons.IH] show ?case by (simp add: a)
  qed
  then show ?thesis by (simp add: deliver_all_def)
qed

lemma left_to_do_step:
  "db_step (cs_db s) (cs_db t) \<Longrightarrow> cs_world t = cs_world s \<Longrightarrow> left_to_do effort t \<le> left_to_do effort s"
  by (simp add: left_to_do_def db_step_def)

text \<open>The request of a row, as long as it is there.\<close>

definition has_request :: "dict \<Rightarrow> outbox_db \<Rightarrow> bool" where
  "has_request q d \<longleftrightarrow> (\<exists>row. map_of (db_outbox d) (request_event_id q) = Some row \<and> ob_request row = q)"

lemma has_request_step: "has_request q d \<Longrightarrow> db_ok d \<Longrightarrow> db_step d e \<Longrightarrow> has_request q e"
  unfolding has_request_def db_step_def row_moves_def by metis

lemma poll_db: "run_once ru now s = (r, t) \<Longrightarrow> cs_db (poll ru now s) = cs_db t \<and> cs_world (poll ru now s) = cs_world t"
  by (auto simp: poll_def split: sum.splits)

lemma round_runs:
  assumes effort: "\<And>q w r w'. ru_run ru q w = (r, w') \<Longrightarrow> effort w' \<le> effort w"
    and finish: "\<And>w r w'. ru_run ru q w = (r, w') \<Longrightarrow> settles ru q r w' \<or> effort w' < effort w"
    and ok: "db_ok (cs_db s)" and q: "has_request q (cs_db s)"
  shows "db_step (cs_db s) (cs_db (poll ru now (deliver_all ds s)))
    \<and> (retired (request_event_id q) (cs_db (poll ru now (deliver_all ds s)))
       \<or> left_to_do effort (poll ru now (deliver_all ds s)) < left_to_do effort s)"
proof -
  define s1 where "s1 = deliver_all ds s"
  obtain r t where r: "run_once ru now s1 = (r, t)" by fastforce
  have st: "db_step (cs_db s) (cs_db s1)" "cs_world s1 = cs_world s" using deliver_all_step[of s ds] by (auto simp: s1_def)
  then have ok1: "db_ok (cs_db s1)" using ok by (simp add: db_step_def)
  from has_request_step[OF q ok st(1)] obtain row where
    row: "map_of (db_outbox (cs_db s1)) (request_event_id q) = Some row" "ob_request row = q"
    by (auto simp: has_request_def)
  have "consumed effort True (request_event_id q) s1 r t" by (rule run_once_runs[OF effort finish ok1 row r])
  then show ?thesis
    using poll_db[OF r] db.trans[OF st(1), of "cs_db t"] left_to_do_step[OF st, of effort]
    unfolding s1_def[symmetric] consumed_def left_to_do_def by auto
qed

lemma rounds_retire:
  assumes effort: "\<And>q w r w'. ru_run ru q w = (r, w') \<Longrightarrow> effort w' \<le> effort w"
    and finish: "\<And>w r w'. ru_run ru q w = (r, w') \<Longrightarrow> settles ru q r w' \<or> effort w' < effort w"
    and ok: "db_ok (cs_db s)" and q: "has_request q (cs_db s)"
  shows "db_step (cs_db s) (cs_db (consumer_rounds ru now ds n s))
    \<and> (retired (request_event_id q) (cs_db (consumer_rounds ru now ds n s))
       \<or> left_to_do effort (consumer_rounds ru now ds n s) + n \<le> left_to_do effort s)"
proof (induction n)
  case 0
  then show ?case using db.refl by simp
next
  case (Suc n)
  let ?s = "consumer_rounds ru now ds n s"
  have ok': "db_ok (cs_db ?s)" using Suc ok by (simp add: db_step_def)
  have q': "has_request q (cs_db ?s)" using has_request_step[OF q ok] Suc by blast
  note r = round_runs[OF effort finish ok' q', where now = "now n" and ds = "ds n"]
  then show ?case
    using Suc db.trans retired_step[OF _ ok'] by fastforce
qed



definition sample_delivery :: dict where
  "sample_delivery = [(''id'', JStr ''e''), (''deduplicationKey'', JStr ''k'')]"

definition sample_runner :: "nat runner" where
  "sample_runner = \<lparr>ru_run = (\<lambda>q w. (Inr (), w - 1)), ru_complete = Some (\<lambda>q w. w = 0)\<rparr>"

definition sample_consumer :: "nat consumer" where
  "sample_consumer = \<lparr>cs_db = snd (submit sample_delivery ''t'' (empty_db [False, True, False])), cs_world = 2,
     cs_reported = [], cs_warnings = [], cs_last_error = None, cs_last_poll = None\<rparr>"

lemma db_ok_empty: "db_ok (empty_db fs)"
  by (simp add: db_ok_def empty_db_def)


end
