(* ===== verification/Replay.thy ===== *)
theory Replay
  imports StoreInterface RuntimeValidation CanonicalText PyText Samples
begin

text \<open>
  \<open>execution_replay.py\<close>: a replay is a new, queued WorkflowExecution made from the complete evidence of
  a terminal one.  The store, the rebuilder of contexts, the two \<open>uuid4\<close> values and the clock are
  arguments.
\<close>

abbreviation ReplayError :: exn_class where "ReplayError \<equiv> OtherException ''ReplayError''"

definition replay_error :: "string \<Rightarrow> exn" where
  "replay_error m = Exn ReplayError m JNull"

section \<open>References\<close>

definition replay_resource_kinds :: "string list" where
  "replay_resource_kinds = [''Workspace'', ''Workflow'', ''Task'', ''Agent'', ''Prompt'', ''Model'', ''Tool'',
     ''KnowledgeBase'', ''Policy'', ''Evaluation'', ''Event'']"

definition override_kinds :: "string list" where
  "override_kinds = [''Agent'', ''Prompt'', ''Model'', ''KnowledgeBase'', ''Evaluation'', ''Policy'']"

definition digit :: "char \<Rightarrow> bool" where
  "digit c \<longleftrightarrow> CHR ''0'' \<le> c \<and> c \<le> CHR ''9''"

definition lower_letter :: "char \<Rightarrow> bool" where
  "lower_letter c \<longleftrightarrow> CHR ''a'' \<le> c \<and> c \<le> CHR ''z''"

definition upper_letter :: "char \<Rightarrow> bool" where
  "upper_letter c \<longleftrightarrow> CHR ''A'' \<le> c \<and> c \<le> CHR ''Z''"

definition version_number_rx :: rx where
  "version_number_rx = Alt (chr CHR ''0'') (Cat (Cls (\<lambda>c. digit c \<and> c \<noteq> CHR ''0'')) (Star (Cls digit)))"

definition version_tail_rx :: "char \<Rightarrow> rx" where
  "version_tail_rx c = opt (Cat (chr c) (plus_of (Cls (\<lambda>c. digit c \<or> upper_letter c \<or> lower_letter c
     \<or> c = CHR ''.'' \<or> c = CHR ''-''))))"

definition semver_rx :: rx where
  "semver_rx = seq_of [opt (chr CHR ''v''), version_number_rx, chr CHR ''.'', version_number_rx, chr CHR ''.'',
     version_number_rx, version_tail_rx CHR ''-'', version_tail_rx CHR ''+'']"

definition resource_name_rx :: rx where
  "resource_name_rx = (let word = Cls (\<lambda>c. lower_letter c \<or> digit c) in
     Cat word (opt (Cat (Star (Cls (\<lambda>c. lower_letter c \<or> digit c \<or> c = CHR ''-''))) word)))"

definition versioned_ref :: "json \<Rightarrow> exn + bool" where
  "versioned_ref value =
     (if \<not> is_mapping value then Inr False
      else if \<not> hashable (mget value ''kind'') then Inl unhashable_error
      else Inr (in_strs (mget value ''kind'') replay_resource_kinds
        \<and> is_str (mget value ''name'') \<and> rx_full resource_name_rx (as_str (mget value ''name''))
        \<and> is_str (mget value ''version'') \<and> rx_full semver_rx (as_str (mget value ''version''))))"

text \<open>A reference by its kind, name and version.\<close>

type_synonym ref_key = "string \<times> string \<times> string"

definition key_ref :: "ref_key \<Rightarrow> json" where
  "key_ref k = JObj [(''kind'', JStr (fst k)), (''name'', JStr (fst (snd k))), (''version'', JStr (snd (snd k)))]"

definition parse_override :: "string \<Rightarrow> exn + ref_key" where
  "parse_override value =
     (case split_at_char CHR '':'' value of
        [kind, name, version] \<Rightarrow>
          if kind \<in> set override_kinds \<and> rx_full resource_name_rx name \<and> rx_full semver_rx version
          then Inr (kind, name, version)
          else Inl (replay_error ''override must use a supported Resource kind, valid name, and semantic version'')
      | _ \<Rightarrow> Inl (replay_error ''override must use Kind:name:version with an explicit immutable version''))"

definition list_or :: "dict \<Rightarrow> string \<Rightarrow> string \<Rightarrow> exn + json list" where
  "list_or d field message =
     (let value = dget_or d field (JList []) in
      if is_list value then Inr (as_list value) else Inl (replay_error message))"

definition plan_node_refs :: "json \<Rightarrow> exn + json list" where
  "plan_node_refs node =
     bindR (checkR (is_mapping node) (replay_error ''historical resolved Task plan node is malformed'')) (\<lambda>_.
     bindR (list_or (as_dict node) ''dependencies'' ''historical Task dependencies are malformed'') (\<lambda>dependencies.
     Inr ((if mget node ''taskRef'' \<noteq> JNull then [mget node ''taskRef''] else []) @ dependencies)))"

definition element_refs :: "json \<Rightarrow> exn + json list" where
  "element_refs element =
     bindR (checkR (is_mapping element) (replay_error ''historical ContextPackage element is malformed'')) (\<lambda>_.
     if \<not> is_mapping (mget element ''provenance'') then Inr []
     else list_or (as_dict (mget element ''provenance'')) ''resourceRefs''
            ''historical ContextPackage Resource references are malformed'')"

definition provenance_refs :: "dict \<Rightarrow> string \<Rightarrow> exn + json list" where
  "provenance_refs d message =
     (if is_mapping (dget d ''provenance'') then list_or (as_dict (dget d ''provenance'')) ''resourceRefs'' message
      else Inr [])"

definition item_refs :: "dict \<Rightarrow> exn + json list" where
  "item_refs item =
     bindR (provenance_refs item ''historical runtime Resource references are malformed'') (\<lambda>own.
     bindR (if dget item ''kind'' = JStr ''ContextPackage''
            then bindR (list_or item ''elements'' ''historical ContextPackage elements are malformed'')
                   (\<lambda>elements. mapR element_refs elements)
            else Inr []) (\<lambda>inner.
     Inr (own
       @ concat (map (\<lambda>f. if dget item f \<noteq> JNull then [dget item f] else [])
           [''taskRef'', ''agentRef'', ''promptRef'', ''modelRef'', ''toolRef'', ''evaluationRef'', ''policyRef''])
       @ concat (map (\<lambda>f. if is_list (dget item f) then as_list (dget item f) else [])
           [''toolRefs'', ''policyRefs'', ''evaluationRefs''])
       @ concat inner)))"

definition replay_candidates :: "dict \<Rightarrow> dict list \<Rightarrow> exn + json list" where
  "replay_candidates source related =
     (let plan = dget source ''resolvedTaskPlan'' in
      bindR (checkR (plan = JNull \<or> is_list plan) (replay_error ''historical resolved Task plan is malformed'')) (\<lambda>_.
      bindR (mapR plan_node_refs (as_list plan)) (\<lambda>nodes.
      bindR (provenance_refs source ''historical root Resource references are malformed'') (\<lambda>root.
      bindR (mapR item_refs related) (\<lambda>items.
      Inr ([dget source ''workflowRef'', dget source ''eventRef''] @ concat nodes @ root @ concat items))))))"

definition candidate_key :: "json \<Rightarrow> exn + ref_key" where
  "candidate_key candidate =
     bindR (versioned_ref candidate) (\<lambda>ok.
     if ok then Inr (as_str (mget candidate ''kind''), as_str (mget candidate ''name''), as_str (mget candidate ''version''))
     else Inl (replay_error ''historical execution contains a malformed or floating Resource reference''))"

definition collect_resource_refs :: "dict \<Rightarrow> dict list \<Rightarrow> exn + ref_key list" where
  "collect_resource_refs source related =
     bindR (replay_candidates source related) (\<lambda>candidates.
     bindR (mapR candidate_key (filter (\<lambda>c. c \<noteq> JNull) candidates)) (\<lambda>keys.
     Inr (sort (remdups keys))))"

section \<open>Overrides\<close>

definition ref_identity :: "ref_key \<Rightarrow> string \<times> string" where
  "ref_identity k = (fst k, fst (snd k))"

fun override_all :: "ref_key list \<Rightarrow> (string \<times> string) list \<Rightarrow> ref_key list \<Rightarrow> exn + ref_key list" where
  "override_all result seen [] = Inr result"
| "override_all result seen (ov # overrides) =
     (if ref_identity ov \<in> set seen
      then Inl (replay_error ''only one override per Resource kind and name is allowed'')
      else if \<forall>r \<in> set result. ref_identity r \<noteq> ref_identity ov
      then Inl (replay_error (''override does not match a historical '' @ fst ov @ '' resource''))
      else override_all (filter (\<lambda>r. ref_identity r \<noteq> ref_identity ov) result @ [ov])
             (ref_identity ov # seen) overrides)"

definition apply_overrides :: "ref_key list \<Rightarrow> ref_key list \<Rightarrow> exn + ref_key list" where
  "apply_overrides refs overrides = bindR (override_all refs [] overrides) (\<lambda>result. Inr (sort result))"

section \<open>Contexts\<close>

definition by_id :: "dict list \<Rightarrow> (string \<times> dict) list" where
  "by_id related = fold (\<lambda>item m. if is_str (dget item ''id'') then dput (as_str (dget item ''id'')) item m else m) related []"

text \<open>\<open>value.get(f)\<close>, else the same field of its provenance.\<close>

definition owner_id :: "dict \<Rightarrow> string \<Rightarrow> json" where
  "owner_id context field =
     py_or (dget context field)
       (if is_mapping (dget context ''provenance'') then mget (dget context ''provenance'') field else JNull)"

definition context_belongs :: "dict \<Rightarrow> dict \<Rightarrow> string \<Rightarrow> dict \<Rightarrow> bool" where
  "context_belongs source task task_id context \<longleftrightarrow>
     dget context ''kind'' = JStr ''ContextPackage''
     \<and> py_eq (owner_id context ''workflowExecutionId'') (dget source ''id'')
     \<and> owner_id context ''taskExecutionId'' = JStr task_id
     \<and> py_eq (dget context ''taskRef'') (dget task ''taskRef'')
     \<and> py_eq (dget context ''repositoryRevision'') (dget source ''repositoryRevision'')"

definition task_context :: "dict \<Rightarrow> (string \<times> dict) list \<Rightarrow> string \<Rightarrow> exn + (dict \<times> dict) option" where
  "task_context source objs task_id =
     (case map_of objs task_id of
        Some task \<Rightarrow>
          if dget task ''kind'' \<noteq> JStr ''TaskExecution''
             \<or> \<not> py_eq (dget task ''workflowExecutionId'') (dget source ''id'')
          then Inl (replay_error ''source WorkflowExecution references a missing or foreign TaskExecution'')
          else if \<not> (truthy (dget task ''contextPackageId'') \<or> truthy (dget task ''resolvedAgentId'')
                     \<or> truthy (dget task ''agentInvocationIds''))
          then Inr None
          else if \<not> nonempty_str (dget task ''contextPackageId'')
          then Inl (replay_error ''historical ContextPackage is required but not recorded on a TaskExecution'')
          else (case map_of objs (as_str (dget task ''contextPackageId'')) of
                  Some context \<Rightarrow>
                    if context_belongs source task task_id context then Inr (Some (task, context))
                    else Inl (replay_error ''historical ContextPackage is missing or has mismatched ownership'')
                | None \<Rightarrow> Inl (replay_error ''historical ContextPackage is missing or has mismatched ownership''))
      | None \<Rightarrow> Inl (replay_error ''source WorkflowExecution references a missing or foreign TaskExecution''))"

definition validate_context_evidence :: "dict \<Rightarrow> dict list \<Rightarrow> exn + (dict \<times> dict) list" where
  "validate_context_evidence source related =
     (let task_ids = dget source ''taskExecutionIds''; ids = map as_str (as_list task_ids) in
      bindR (checkR (is_list task_ids \<and> list_all nonempty_str (as_list task_ids))
        (replay_error ''source WorkflowExecution task references are malformed'')) (\<lambda>_.
      bindR (checkR (distinct ids)
        (replay_error ''source WorkflowExecution contains duplicate TaskExecution references'')) (\<lambda>_.
      bindR (mapR (task_context source (by_id related)) ids) (\<lambda>found.
      Inr (List.map_filter id found)))))"

datatype context_mode = Reuse | Rebuild

definition mode_text :: "context_mode \<Rightarrow> string" where
  "mode_text m = (case m of Reuse \<Rightarrow> ''reuse'' | Rebuild \<Rightarrow> ''rebuild'')"

definition context_mode_of :: "string \<Rightarrow> context_mode option" where
  "context_mode_of s = (if s = ''reuse'' then Some Reuse else if s = ''rebuild'' then Some Rebuild else None)"

definition identity_record ::
  "environment \<Rightarrow> (dict \<Rightarrow> dict \<Rightarrow> exn + dict) option \<Rightarrow> context_mode \<Rightarrow> dict \<times> dict \<Rightarrow> exn + json" where
  "identity_record env rebuilder mode tc =
     (case tc of (task, context) \<Rightarrow>
      bindR (case rebuilder of Some rebuild \<Rightarrow> if mode = Rebuild then rebuild task context else Inr context
             | None \<Rightarrow> Inr context) (\<lambda>rebuilt.
      bindR (context_identity env context) (\<lambda>expected.
      bindR (context_identity env rebuilt) (\<lambda>actual.
      bindR (getitem task ''id'') (\<lambda>task_id.
      bindR (checkR (actual = expected)
        (replay_error (''rebuilt ContextPackage identity mismatch for TaskExecution '' @ py_str task_id))) (\<lambda>_.
      bindR (getitem context ''id'') (\<lambda>context_id.
      Inr (JObj [(''sourceContextPackageId'', context_id), (''identity'', JStr expected),
        (''mode'', JStr (mode_text mode))]))))))))"

section \<open>The replay\<close>

definition replaced_fields :: "string list" where
  "replaced_fields = [''id'', ''traceId'', ''createdAt'', ''updatedAt'', ''startedAt'', ''completedAt'', ''status'',
     ''taskExecutionIds'', ''failure'', ''resolvedTaskPlan'', ''sourceExecutionId'', ''replayProvenance'',
     ''executionBudget'', ''budgetConsumption'']"

record replay_request =
  rr_source :: string
  rr_overrides :: "string list"
  rr_mode :: string
  rr_publication :: bool
  rr_timestamp :: "string option"
  rr_wall :: string
  rr_uuid :: string
  rr_trace_uuid :: string

definition replay_id :: "replay_request \<Rightarrow> string" where
  "replay_id rq = ''workflowexecution-replay-'' @ rr_uuid rq"

definition replay_now :: "replay_request \<Rightarrow> string" where
  "replay_now rq = (case rr_timestamp rq of None \<Rightarrow> rr_wall rq | Some t \<Rightarrow> if t = [] then rr_wall rq else t)"

definition replay_provenance ::
  "replay_request \<Rightarrow> json \<Rightarrow> ref_key list \<Rightarrow> ref_key list \<Rightarrow> ref_key list \<Rightarrow> json list \<Rightarrow> json" where
  "replay_provenance rq revision inherited refs overrides identities = JObj
     [(''mode'', JStr ''exact''), (''sourceExecutionId'', JStr (rr_source rq)), (''repositoryRevision'', revision),
      (''contextPackages'', JStr (rr_mode rq)), (''inheritedResourceRefs'', JList (map key_ref inherited)),
      (''resourceRefs'', JList (map key_ref refs)), (''overrides'', JList (map key_ref overrides)),
      (''publicationMode'', JStr (if rr_publication rq then ''enabled'' else ''disabled'')),
      (''newRuntimeEvidence'', JList []), (''contextIdentities'', JList identities)]"

definition replay_record ::
  "replay_request \<Rightarrow> dict \<Rightarrow> ref_key list \<Rightarrow> ref_key list \<Rightarrow> ref_key list \<Rightarrow> json list \<Rightarrow> dict" where
  "replay_record rq source inherited refs overrides identities =
     (let now = replay_now rq; revision = dget source ''repositoryRevision'';
          provenance = dupdate (as_dict (dget source ''provenance''))
            [(''actor'', JStr ''execution-replay''), (''repositoryRevision'', revision),
             (''resourceRefs'', JList (map key_ref refs))];
          kept = filter (\<lambda>(k, v). k \<notin> set replaced_fields) source;
          value = dupdate kept
            [(''id'', JStr (replay_id rq)), (''traceId'', JStr (''trace-replay-'' @ rr_trace_uuid rq)),
             (''createdAt'', JStr now), (''updatedAt'', JStr now), (''status'', JStr ''PENDING''),
             (''taskExecutionIds'', JList []), (''provenance'', JObj provenance),
             (''sourceExecutionId'', JStr (rr_source rq)),
             (''replayProvenance'', replay_provenance rq revision inherited refs overrides identities)]
      in if dhas source ''resolvedTaskPlan'' then dput ''resolvedTaskPlan'' (dget source ''resolvedTaskPlan'') value
         else value)"

definition replay_created_event :: "environment \<Rightarrow> dict \<Rightarrow> string \<Rightarrow> exn + dict" where
  "replay_created_event env execution source_id =
     bindR (getitem execution ''id'') (\<lambda>eid.
     bindR (getitem execution ''traceId'') (\<lambda>trace.
     bindR (getitem execution ''createdAt'') (\<lambda>created.
     bindR (getitem execution ''repositoryRevision'') (\<lambda>revision.
     bindR (getitem execution ''provenance'') (\<lambda>provenance.
     bindR (getitem (as_dict provenance) ''resourceRefs'') (\<lambda>refs.
     bindR (getitem execution ''status'') (\<lambda>status.
     let execution_id = py_str eid;
         event_id = env_uuid5 env (''execution-event:'' @ execution_id @ '':WorkflowExecutionReplayCreated'') in
     Inr [(''apiVersion'', JStr ''aep.dev/v1alpha1''), (''kind'', JStr ''ExecutionEvent''),
       (''id'', JStr (''executionevent-'' @ event_id)), (''traceId'', trace), (''createdAt'', created),
       (''updatedAt'', created),
       (''provenance'', JObj [(''actor'', JStr ''execution-replay''), (''workflowExecutionId'', JStr execution_id),
          (''repositoryRevision'', revision),
          (''knowledgeGraphVersion'', dget_or execution ''knowledgeGraphVersion'' (JStr ''unknown'')),
          (''resourceRefs'', refs)]),
       (''eventType'', JStr ''WorkflowExecutionReplayCreated''),
       (''subject'', JObj [(''kind'', JStr ''WorkflowExecution''), (''id'', JStr execution_id)]),
       (''sequence'', JInt 1), (''emittedAt'', created),
       (''payload'', JObj [(''status'', status), (''sourceExecutionId'', JStr source_id), (''replayMode'', JStr ''exact'')])])))))))"

text \<open>What is made of the evidence before anything is written: the record and its event.\<close>

definition replay_plan ::
  "environment \<Rightarrow> (dict \<Rightarrow> dict \<Rightarrow> exn + dict) option \<Rightarrow> replay_request \<Rightarrow> context_mode \<Rightarrow> dict \<Rightarrow> dict list
   \<Rightarrow> exn + dict \<times> dict" where
  "replay_plan env rebuilder rq mode source related =
     bindR (validate_context_evidence source related) (\<lambda>contexts.
     bindR (mapR (identity_record env rebuilder mode) contexts) (\<lambda>identities.
     bindR (collect_resource_refs source related) (\<lambda>inherited.
     bindR (checkR (inherited \<noteq> []) (replay_error ''exact replay is missing historical Resource provenance'')) (\<lambda>_.
     bindR (mapR parse_override (rr_overrides rq)) (\<lambda>overrides.
     bindR (apply_overrides inherited overrides) (\<lambda>refs.
     bindR (checkR (is_rfc3339_timestamp (JStr (replay_now rq))) (replay_error ''replay timestamp must be RFC3339'')) (\<lambda>_.
     let value = replay_record rq source inherited refs overrides identities in
     bindR (replay_created_event env value (rr_source rq)) (\<lambda>event. Inr (value, event)))))))))"

definition terminal_workflow :: "json \<Rightarrow> bool" where
  "terminal_workflow status = in_strs status [''SUCCEEDED'', ''FAILED'', ''CANCELLED'']"

definition check_source :: "replay_request \<Rightarrow> dict option \<Rightarrow> exn + dict \<times> context_mode" where
  "check_source rq found =
     (case found of
        None \<Rightarrow> Inl (replay_error ''source WorkflowExecution was not found'')
      | Some source \<Rightarrow>
          bindR (checkR (dget source ''kind'' = JStr ''WorkflowExecution'')
            (replay_error ''source WorkflowExecution was not found'')) (\<lambda>_.
          bindR (checkR (hashable (dget source ''status'')) unhashable_error) (\<lambda>_.
          bindR (checkR (terminal_workflow (dget source ''status''))
            (replay_error ''only terminal WorkflowExecutions can be replayed'')) (\<lambda>_.
          case context_mode_of (rr_mode rq) of
            None \<Rightarrow> Inl (replay_error ''context mode must be reuse or rebuild'')
          | Some mode \<Rightarrow>
              bindR (checkR (nonempty_str (dget source ''repositoryRevision''))
                (replay_error ''exact replay is missing its historical repository revision'')) (\<lambda>_.
              bindR (checkR (is_mapping (dget source ''provenance''))
                (replay_error ''source WorkflowExecution provenance is malformed'')) (\<lambda>_.
              Inr (source, mode)))))))"

definition replay ::
  "environment \<Rightarrow> (dict \<Rightarrow> dict \<Rightarrow> exn + dict) option \<Rightarrow> 's store_ops
   \<Rightarrow> (json \<Rightarrow> json \<Rightarrow> string \<Rightarrow> ('s, dict) eff) \<Rightarrow> replay_request \<Rightarrow> ('s, dict) eff" where
  "replay env rebuilder ops create_with_event rq =
     bindE (op_get ops (rr_source rq)) (\<lambda>found.
     bindE (liftR (check_source rq found)) (\<lambda>(source, mode).
     bindE (op_list_by_workflow_execution ops (rr_source rq)) (\<lambda>related.
     bindE (liftR (replay_plan env rebuilder rq mode source related)) (\<lambda>(value, event).
     bindE (create_with_event (JObj value) (JObj event) (''execution-replay:'' @ replay_id rq)) (\<lambda>created.
     bindE (op_get ops (replay_id rq)) (\<lambda>stored.
     ret (case stored of None \<Rightarrow> created | Some v \<Rightarrow> v)))))))"


section \<open>What a replay refers to\<close>

text \<open>
  The references of a replay: those of the evidence whose kind and name no override has, and the
  overrides.  Each override replaces references of the evidence.
\<close>

lemma override_all_Inr:
  assumes "override_all refs seen overrides = Inr result"
  shows "set result = {r \<in> set refs. ref_identity r \<notin> ref_identity ` set overrides} \<union> set overrides
    \<and> distinct (map ref_identity overrides) \<and> set seen \<inter> ref_identity ` set overrides = {}
    \<and> ref_identity ` set overrides \<subseteq> ref_identity ` set refs
    \<and> (distinct refs \<longrightarrow> distinct result)"
  using assms
proof (induction refs seen overrides rule: override_all.induct)
  case (1 refs seen)
  then show ?case by auto
next
  case (2 refs seen ov overrides)
  let ?next = "filter (\<lambda>r. ref_identity r \<noteq> ref_identity ov) refs @ [ov]"
  have h: "ref_identity ov \<notin> set seen" "\<exists>r \<in> set refs. ref_identity r = ref_identity ov"
      "override_all ?next (ref_identity ov # seen) overrides = Inr result"
    using 2(2) by (auto split: if_splits)
  then have "\<not> (\<forall>r \<in> set refs. ref_identity r \<noteq> ref_identity ov)" by blast
  note IH = 2(1)[OF h(1) this h(3)]
  have r: "set result = {r \<in> set ?next. ref_identity r \<notin> ref_identity ` set overrides} \<union> set overrides"
    using IH by blast
  have n: "ref_identity ov \<notin> ref_identity ` set overrides" using IH by auto
  have "{r \<in> set ?next. ref_identity r \<notin> ref_identity ` set overrides}
      = {r \<in> set refs. ref_identity r \<notin> ref_identity ` set (ov # overrides)} \<union> {ov}"
    using n by auto
  then have a: "set result = {r \<in> set refs. ref_identity r \<notin> ref_identity ` set (ov # overrides)} \<union> set (ov # overrides)"
    unfolding r by auto
  have i: "ref_identity ` set overrides \<subseteq> ref_identity ` set ?next" using IH by blast
  have v: "ref_identity ov \<in> ref_identity ` set refs" using h(2) by (metis image_eqI)
  have "ref_identity ` set ?next \<subseteq> ref_identity ` set refs" using v by auto
  then have e: "ref_identity ` set (ov # overrides) \<subseteq> ref_identity ` set refs" using i v by auto
  have "distinct (map ref_identity overrides)" using IH by blast
  then have c: "distinct (map ref_identity (ov # overrides))" using n by simp
  have "set (ref_identity ov # seen) \<inter> ref_identity ` set overrides = {}" using IH by blast
  then have d: "set seen \<inter> ref_identity ` set (ov # overrides) = {}" using h(1) by auto
  have "distinct ?next \<longrightarrow> distinct result" using IH by blast
  then have f: "distinct refs \<longrightarrow> distinct result" by auto
  show ?case using a c d e f by blast
qed

definition overridden :: "ref_key list \<Rightarrow> ref_key list \<Rightarrow> ref_key list \<Rightarrow> bool" where
  "overridden inherited overrides refs \<longleftrightarrow>
     set refs = {r \<in> set inherited. ref_identity r \<notin> ref_identity ` set overrides} \<union> set overrides
     \<and> distinct refs \<and> sorted refs \<and> distinct (map ref_identity overrides)
     \<and> ref_identity ` set overrides \<subseteq> ref_identity ` set inherited"

lemma collect_resource_refs_Inr:
  "collect_resource_refs source related = Inr refs \<Longrightarrow> distinct refs \<and> sorted refs"
  by (auto simp: collect_resource_refs_def bindR_eq_Inr)

lemma apply_overrides_Inr:
  "apply_overrides refs overrides = Inr result \<Longrightarrow> distinct refs \<Longrightarrow> overridden refs overrides result"
  using override_all_Inr[of refs "[]" overrides] by (auto simp: apply_overrides_def bindR_eq_Inr overridden_def)

lemma mem_create_with_event_Inr:
  assumes "mem_create_with_event j e key s = (Inr v, t)"
  shows "\<exists>u w. mem_create j key s = (Inr v, u) \<and> mem_append_event e u = (Inr w, t)"
  using assms
  by (auto simp: mem_create_with_event_def eff_simps split: prod.splits sum.splits)

lemma mem_create_fresh:
  assumes "mem_create (JObj v) key s = (Inr w, t)" "map_of (deterministic_keys s) key = None"
  shows "w = v \<and> map_of (objects t) (as_str (dget v ''id'')) = Some v
    \<and> (\<forall>i. i \<noteq> as_str (dget v ''id'') \<longrightarrow> map_of (objects t) i = map_of (objects s) i)
    \<and> map_of (objects s) (as_str (dget v ''id'')) = None"
  using assms
  by (auto simp: mem_create_def eff_simps Let_def dhas_iff map_of_dput objects_index_value copy_and_validate_def
      split: option.splits if_splits sum.splits)

lemma mem_append_event_adds:
  assumes "mem_append_event (JObj e) s = (r, t)"
  shows "(\<forall>i v. map_of (objects s) i = Some v \<longrightarrow> map_of (objects t) i = Some v)
    \<and> (\<forall>i v. map_of (objects s) i = None \<longrightarrow> map_of (objects t) i = Some v \<longrightarrow> v = e)"
proof -
  have "t = s \<or> (\<exists>q k. mem_create (JObj e) k s = (q, t))"
    using assms by (auto simp: mem_append_event_def eff_simps copy_and_validate_def split: sum.splits if_splits)
  then show ?thesis
    using mem_create_objects by (fastforce simp: map_of_dput split: if_splits)
qed


lemma replay_record_fields:
  "dget (replay_record rq source inherited refs overrides identities) ''id'' = JStr (replay_id rq)
   \<and> dget (replay_record rq source inherited refs overrides identities) ''status'' = JStr ''PENDING''
   \<and> dget (replay_record rq source inherited refs overrides identities) ''replayProvenance''
       = replay_provenance rq (dget source ''repositoryRevision'') inherited refs overrides identities"
  by (simp add: replay_record_def Let_def dget_dput)

lemma check_source_Inr:
  "check_source rq found = Inr (source, mode) \<Longrightarrow>
     found = Some source \<and> terminal_workflow (dget source ''status'') \<and> context_mode_of (rr_mode rq) = Some mode
     \<and> dget source ''kind'' = JStr ''WorkflowExecution''"
  by (auto simp: check_source_def bindR_eq_Inr split: option.splits)

text \<open>What a record of a replay says, and where it comes from.\<close>

definition replay_of :: "environment \<Rightarrow> replay_request \<Rightarrow> dict \<Rightarrow> dict list \<Rightarrow> dict \<Rightarrow> bool" where
  "replay_of env rq source related v \<longleftrightarrow>
     (\<exists>contexts inherited overrides refs identities.
        validate_context_evidence source related = Inr contexts
        \<and> length identities = length contexts
        \<and> collect_resource_refs source related = Inr inherited \<and> inherited \<noteq> []
        \<and> mapR parse_override (rr_overrides rq) = Inr overrides \<and> overridden inherited overrides refs
        \<and> v = replay_record rq source inherited refs overrides identities)"

lemma replay_plan_Inr:
  assumes "replay_plan env rebuilder rq mode source related = Inr (v, event)"
  shows "replay_of env rq source related v"
  using assms apply_overrides_Inr collect_resource_refs_Inr mapR_length
  unfolding replay_plan_def replay_of_def
  by (fastforce simp: bindR_eq_Inr Let_def)

lemma replay_adds:
  assumes r: "replay env rebuilder (in_memory_store wall) mem_create_with_event rq s = (Inr v, t)"
    and new: "map_of (deterministic_keys s) (''execution-replay:'' @ replay_id rq) = None"
  shows "(\<exists>source related. map_of (objects s) (rr_source rq) = Some source \<and> terminal_workflow (dget source ''status'')
      \<and> mem_list_by_workflow_execution (rr_source rq) s = (Inr related, s) \<and> replay_of env rq source related v)
    \<and> map_of (objects s) (replay_id rq) = None \<and> map_of (objects t) (replay_id rq) = Some v
    \<and> (\<forall>i w. map_of (objects s) i = Some w \<longrightarrow> map_of (objects t) i = Some w)
    \<and> (\<forall>i w. map_of (objects s) i = None \<longrightarrow> map_of (objects t) i = Some w \<longrightarrow>
         w = v \<or> dget w ''kind'' = JStr ''ExecutionEvent'')"
proof -
  obtain source mode related val event u where c: "check_source rq (map_of (objects s) (rr_source rq)) = Inr (source, mode)"
    and l: "mem_list_by_workflow_execution (rr_source rq) s = (Inr related, s)"
    and plan: "replay_plan env rebuilder rq mode source related = Inr (val, event)"
    and cr: "mem_create_with_event (JObj val) (JObj event) (''execution-replay:'' @ replay_id rq) s = (Inr u, t)"
    and v: "v = (case map_of (objects t) (replay_id rq) of None \<Rightarrow> u | Some w \<Rightarrow> w)"
    using r mem_reads_same(2)[of "rr_source rq" s]
    by (auto simp: replay_def success_iffs in_memory_store_def mem_get_def split: prod.splits)
  note rof = replay_plan_Inr[OF plan]
  then have id: "dget val ''id'' = JStr (replay_id rq)" using replay_record_fields by (auto simp: replay_of_def)
  obtain s1 w where m: "mem_create (JObj val) (''execution-replay:'' @ replay_id rq) s = (Inr u, s1)"
    and e: "mem_append_event (JObj event) s1 = (Inr w, t)"
    using mem_create_with_event_Inr[OF cr] by blast
  note n = mem_create_fresh[OF m new] and a = mem_append_event_adds[OF e]
  have ev: "dget event ''kind'' = JStr ''ExecutionEvent''"
    using e by (auto simp: mem_append_event_def success_iffs copy_and_validate_def split: if_splits)
  have t: "map_of (objects t) (replay_id rq) = Some val" using n a id by auto
  have vv: "v = val" using v t by simp
  have others: "map_of (objects s1) i = map_of (objects s) i" if "i \<noteq> replay_id rq" for i using n id that by simp
  have s1: "map_of (objects s1) (replay_id rq) = Some val" "map_of (objects s) (replay_id rq) = None" using n id by auto
  show ?thesis
  proof (intro conjI allI impI exI)
    show "map_of (objects s) (rr_source rq) = Some source" "terminal_workflow (dget source ''status'')"
      using check_source_Inr[OF c] by auto
    show "replay_of env rq source related v" using rof vv by simp
    show "map_of (objects t) (replay_id rq) = Some v" using t vv by simp
    show "map_of (objects t) i = Some w" if "map_of (objects s) i = Some w" for i w
      using a others[of i] s1 that by (cases "i = replay_id rq") auto
    show "w = v \<or> dget w ''kind'' = JStr ''ExecutionEvent''"
      if "map_of (objects s) i = None" "map_of (objects t) i = Some w" for i w
      using a others[of i] s1 t that vv ev by (cases "i = replay_id rq") auto
  qed (use l s1 in auto)
qed



definition replayed_source :: dict where
  "replayed_source = [(''kind'', JStr ''WorkflowExecution''), (''id'', JStr ''w1''), (''status'', JStr ''FAILED''),
     (''repositoryRevision'', JStr ''r''), (''taskExecutionIds'', JList []),
     (''provenance'', JObj [(''resourceRefs'', JList [key_ref (''Agent'', ''a'', ''1.0.0'')])])]"

definition replayed_store :: store where
  "replayed_store = empty_store\<lparr>objects := [(''w1'', replayed_source)]\<rparr>"

definition sample_replay :: "string \<Rightarrow> (exn + dict) \<times> store" where
  "sample_replay ov = replay sample_env None (in_memory_store []) mem_create_with_event
     \<lparr>rr_source = ''w1'', rr_overrides = [ov], rr_mode = ''reuse'', rr_publication = False,
      rr_timestamp = Some ''2024-01-01T00:00:00Z'', rr_wall = [], rr_uuid = ''u'', rr_trace_uuid = ''t''\<rparr> replayed_store"


end
