(* ===== verification/PlanningEvidence.thy ===== *)
theory PlanningEvidence
  imports LocalizedPatch Approval
begin

text \<open>
  Planning evidence (\<open>planning_evidence.py\<close>): what a text must satisfy, where it is looked for, the
  disposition of a path, the contract of a plan and the reconciliation of a generated change
  with it.  The Markdown part is in \<open>MarkdownRegions\<close>.
\<close>

section \<open>Errors and paths\<close>

definition planning_error :: "string \<Rightarrow> exn" where
  "planning_error m = Exn PlanningEvidenceError m JNull"

definition candidate_error :: "string \<Rightarrow> exn" where
  "candidate_error m = Exn (OtherException ''CandidateReconciliationError'') m JNull"

definition attribute_error :: exn where
  "attribute_error = Exn (OtherException ''AttributeError'') ''object has no attribute get'' JNull"

text \<open>\<open>value.get(...)\<close> on what may not be a mapping.\<close>

definition mapping_of :: "json \<Rightarrow> exn + dict" where
  "mapping_of v = (if is_mapping v then Inr (as_dict v) else Inl attribute_error)"

definition opt_int :: "int option \<Rightarrow> json" where
  "opt_int n = (case n of None \<Rightarrow> JNull | Some i \<Rightarrow> JInt i)"

definition inspection_failure ::
  "string \<Rightarrow> string \<Rightarrow> int \<Rightarrow> int \<Rightarrow> json \<Rightarrow> string \<Rightarrow> bool \<Rightarrow> exn" where
  "inspection_failure reason path blob_size trusted predicate_type strategy finished =
     Exn (OtherException ''PlanningEvidenceInspectionError'') reason
       (JObj [(''reason'', JStr reason), (''path'', JStr path), (''blobSize'', JInt blob_size),
         (''appliedTrustedCeiling'', JInt trusted), (''predicateType'', predicate_type),
         (''inspectionStrategy'', JStr strategy), (''evaluationComplete'', JBool finished)])"

definition is_inspection_error :: "exn \<Rightarrow> bool" where
  "is_inspection_error e \<longleftrightarrow> instance_of e (OtherException ''PlanningEvidenceInspectionError'')"

text \<open>\<open>error.metadata.update(...)\<close>, and the error again.\<close>

definition with_metadata :: "dict \<Rightarrow> exn + 'a \<Rightarrow> exn + 'a" where
  "with_metadata changes r =
     (case r of Inr a \<Rightarrow> Inr a
      | Inl e \<Rightarrow> Inl (if is_inspection_error e
                     then Exn (exn_cls e) (exn_msg e) (JObj (dupdate (as_dict (exn_info e)) changes)) else e))"

definition planning_path :: "json \<Rightarrow> exn + unit" where
  "planning_path value =
     (if \<not> nonempty_str value \<or> CHR 0x5C \<in> set (as_str value) \<or> nul_char \<in> set (as_str value)
      then Inl (planning_error ''planning evidence path is unsafe'')
      else let p = as_str value; parts = posix_parts p in
        checkR (\<not> (starts_with ''/'' p \<or> ''..'' \<in> set parts \<or> posix_str p \<noteq> p \<or> p = ''.''
            \<or> lower (hd parts) = ''.git''))
          (planning_error (''planning evidence path '' @ repr_str p @ '' is unsafe'')))"

section \<open>Status found\<close>

definition status_prefix :: string where
  "status_prefix = ''**Status:**''"

definition nonempty_title :: "string \<Rightarrow> bool" where
  "nonempty_title line \<longleftrightarrow>
     (case unindented line of [] \<Rightarrow> False
      | c # rest \<Rightarrow> c = CHR ''#'' \<and> (rest = [] \<or> blank_char (hd rest))
          \<and> without_closing (strip_of blank_char rest) \<noteq> [])"

text \<open>
  The leading Status fields of a document, each with its line: blank lines are skipped, one title may
  come first, and the first other line ends them.
\<close>

fun status_scan :: "nat \<Rightarrow> bool \<Rightarrow> bool \<Rightarrow> string list \<Rightarrow> exn + (string \<times> int) list" where
  "status_scan n title_seen status_seen [] = Inr []"
| "status_scan n title_seen status_seen (line # lines) =
     (if list_all blank_char line then status_scan (n + 1) title_seen status_seen lines
      else if starts_with status_prefix line
      then let v = py_strip (drop (length status_prefix) line) in
           if v = [] then Inl (inspection_error ''STATUS_FIELD_MALFORMED'' [])
           else bindR (status_scan (n + 1) title_seen True lines) (\<lambda>found. Inr ((v, int n) # found))
      else if \<not> title_seen \<and> \<not> status_seen \<and> nonempty_title line
      then status_scan (n + 1) True status_seen lines
      else Inr [])"

definition structured_status_fields :: "string \<Rightarrow> exn + (string \<times> int) list" where
  "structured_status_fields content =
     status_scan 1 False False (map (rstrip_of line_char) (markdown_lines content))"

section \<open>Where a text occurs\<close>

definition canonical_insertion :: "string \<Rightarrow> string" where
  "canonical_insertion v = replace_text [carriage] [newline] (replace_text [carriage, newline] [newline] v)"

text \<open>\<open>re.finditer\<close> of a literal: occurrences that do not overlap, from the left.\<close>

fun occurrences_from :: "nat \<Rightarrow> nat \<Rightarrow> string \<Rightarrow> string \<Rightarrow> nat list" where
  "occurrences_from k i p [] = []"
| "occurrences_from (Suc k) i p (c # s) = occurrences_from k (i + 1) p s"
| "occurrences_from 0 i p (c # s) =
     (if starts_with p (c # s) then i # occurrences_from (length p - 1) (i + 1) p s
      else occurrences_from 0 (i + 1) p s)"

text \<open>A candidate that starts and ends at a line boundary; successive \<open>content.find\<close>.\<close>

definition at_lines :: "string \<Rightarrow> string \<Rightarrow> nat \<Rightarrow> bool" where
  "at_lines content candidate start \<longleftrightarrow>
     (let stop = start + length candidate in
      (start = 0 \<or> content ! (start - 1) = newline)
      \<and> (ends_with [newline] candidate \<or> stop = length content \<or> content ! stop = newline))"

definition line_occurrences :: "string \<Rightarrow> string \<Rightarrow> nat list" where
  "line_occurrences content candidate =
     filter (\<lambda>i. starts_with candidate (drop i content) \<and> at_lines content candidate i) [0..<length content + 1]"

definition logical_line_positions :: "string \<Rightarrow> string \<Rightarrow> nat list" where
  "logical_line_positions content expected =
     (let whole = line_occurrences content expected in
      if whole \<noteq> [] \<or> \<not> ends_with [newline] expected then whole else line_occurrences content (butlast expected))"

definition logical_text_positions :: "string \<Rightarrow> string \<Rightarrow> nat list" where
  "logical_text_positions content expected =
     (if \<not> ends_with [newline] expected then occurrences_from 0 0 expected content
      else logical_line_positions content expected)"

definition canonical_line_match :: "string \<Rightarrow> string \<Rightarrow> bool" where
  "canonical_line_match required content \<longleftrightarrow>
     logical_line_positions (canonical_insertion content) (canonical_insertion required) \<noteq> []"

section \<open>Independent occurrences\<close>

text \<open>
  The search for one occurrence of each text such that no two overlap: the choices so far are the
  intervals, \<open>attempts\<close> is shared by the whole search, and after 256 of them it gives up.  A loop
  over the positions of one text is given the search for the texts after it.
\<close>

type_synonym text_candidate = "nat \<times> string \<times> nat list"
type_synonym interval_search = "(nat \<times> nat) list \<Rightarrow> nat list \<Rightarrow> nat \<Rightarrow> nat list option \<times> nat"

definition overlaps :: "nat \<times> nat \<Rightarrow> nat \<times> nat \<Rightarrow> bool" where
  "overlaps i j \<longleftrightarrow> fst i < snd j \<and> fst j < snd i"

fun try_positions ::
  "interval_search \<Rightarrow> nat \<Rightarrow> nat \<Rightarrow> nat list \<Rightarrow> (nat \<times> nat) list \<Rightarrow> nat list \<Rightarrow> nat \<Rightarrow> nat list option \<times> nat" where
  "try_positions later index len [] intervals chosen attempts = (None, attempts)"
| "try_positions later index len (p # ps) intervals chosen attempts =
     (if attempts + 1 > 256 then (None, attempts + 1)
      else if list_ex (overlaps (p, p + len)) intervals
      then try_positions later index len ps intervals chosen (attempts + 1)
      else case later (intervals @ [(p, p + len)]) (index # chosen) (attempts + 1) of
             (Some r, n) \<Rightarrow> (Some r, n)
           | (None, n) \<Rightarrow> try_positions later index len ps intervals chosen n)"

primrec select_from :: "text_candidate list \<Rightarrow> interval_search" where
  "select_from [] = (\<lambda>intervals chosen attempts. (Some chosen, attempts))"
| "select_from (c # cs) = (\<lambda>intervals chosen attempts.
     try_positions (select_from cs) (fst c) (length (fst (snd c))) (snd (snd c)) intervals chosen attempts)"

definition independent_text_positions :: "text_candidate list \<Rightarrow> nat list" where
  "independent_text_positions wanted =
     (let ordered = sort_key (\<lambda>c. (length (snd (snd c)), fst c)) wanted in
      case fst (select_from ordered [] [] 0) of None \<Rightarrow> [] | Some chosen \<Rightarrow> chosen)"

section \<open>Evaluating predicates\<close>

record inspection =
  pi_path :: json
  pi_content :: json
  pi_revision :: string
  pi_predicates :: "json list"
  pi_source :: string
  pi_max :: int
  pi_blob_size :: "int option"
  pi_blob_sha :: "string option"
  pi_declared :: "int option"
  pi_strategy :: string
  pi_status_fields :: "(string \<times> int) list option"
  pi_inspected :: "int option"
  pi_status_scan :: "int option"
  pi_region :: json
  pi_distinct :: bool

text \<open>The region a text is looked for in: its start, its text, its identity and its matches.\<close>

record scoped_text =
  sc_start :: nat
  sc_text :: string
  sc_identity :: json
  sc_matches :: int
  sc_region :: "dict option"

definition scope_of :: "inspection \<Rightarrow> string \<Rightarrow> exn + scoped_text" where
  "scope_of ip content =
     (if pi_region ip = JNull
      then Inr \<lparr>sc_start = 0, sc_text = content, sc_identity = JNull, sc_matches = 0, sc_region = None\<rparr>
      else bindR (mapping_of (pi_region ip)) (\<lambda>region.
        bindR (with_metadata [(''path'', pi_path ip)] (region_span content region)) (\<lambda>(start, stop, identity, n).
        Inr \<lparr>sc_start = start, sc_text = slice content start stop, sc_identity = JStr identity,
          sc_matches = int n, sc_region = Some region\<rparr>)))"

definition line_breaks :: "string \<Rightarrow> int" where
  "line_breaks s = int (length (filter (\<lambda>l. line_char (last l)) (markdown_lines s)))"

definition status_fields_of :: "inspection \<Rightarrow> string \<Rightarrow> scoped_text \<Rightarrow> exn + (string \<times> int) list" where
  "status_fields_of ip content sc =
     (case sc_region sc of
        None \<Rightarrow> (case pi_status_fields ip of Some found \<Rightarrow> Inr found | None \<Rightarrow> structured_status_fields content)
      | Some region \<Rightarrow>
          let base = line_breaks (take (sc_start sc) content);
              (body, line) = (case markdown_lines (sc_text sc) of
                  l # ls \<Rightarrow> if dget region ''kind'' = JStr ''MARKDOWN_SECTION'' \<and> line_char (last l)
                            then (concat ls, base + 1) else (sc_text sc, base)
                | [] \<Rightarrow> (sc_text sc, base))
          in bindR (structured_status_fields body) (\<lambda>found. Inr (map (\<lambda>(v, n). (v, n + line)) found)))"

datatype predicate_outcome =
    UnsupportedPredicate
  | ScoredPredicate bool json "(string \<times> nat list) option"

definition evaluate_status ::
  "inspection \<Rightarrow> string \<Rightarrow> int \<Rightarrow> scoped_text \<Rightarrow> json \<Rightarrow> json \<Rightarrow> exn + predicate_outcome" where
  "evaluate_status ip content complete_size sc kind expected =
     (let fail = (\<lambda>reason. Inl (inspection_failure reason (as_str (pi_path ip)) complete_size (pi_max ip) kind
                   (pi_strategy ip) True)) in
      bindR (with_metadata [(''path'', pi_path ip), (''blobSize'', JInt complete_size),
          (''appliedTrustedCeiling'', JInt (pi_max ip)), (''predicateType'', kind),
          (''inspectionStrategy'', JStr (pi_strategy ip))] (status_fields_of ip content sc)) (\<lambda>found.
      case found of
        [] \<Rightarrow> fail ''STATUS_FIELD_MISSING''
      | [(actual, line)] \<Rightarrow>
          Inr (ScoredPredicate (expected = JStr actual)
            (JObj [(''kind'', JStr ''STRUCTURED_FIELD''), (''field'', JStr ''Status''), (''line'', JInt line)]) None)
      | _ \<Rightarrow> fail ''STATUS_FIELD_AMBIGUOUS''))"

definition text_kinds :: "string list" where
  "text_kinds = [''TEXT_PRESENT'', ''TEXT_ABSENT'', ''LINE_PRESENT'', ''LINE_ABSENT'']"

definition evaluate_text :: "bool \<Rightarrow> scoped_text \<Rightarrow> string \<Rightarrow> json \<Rightarrow> exn + predicate_outcome" where
  "evaluate_text distinct_matches sc kind expected =
     bindR (checkR (nonempty_str expected) (planning_error ''text predicates require a non-empty value'')) (\<lambda>_.
     let text = canonical_insertion (as_str expected); inside = canonical_insertion (sc_text sc);
         positions = (if kind \<in> {''LINE_PRESENT'', ''LINE_ABSENT''} then logical_line_positions inside text
                      else logical_text_positions inside text);
         present = kind \<in> {''TEXT_PRESENT'', ''LINE_PRESENT''} in
     Inr (ScoredPredicate (if present then positions \<noteq> [] else positions = [])
       (JObj [(''kind'', JStr ''TEXT_MATCH''), (''occurrences'', JInt (int (length positions)))])
       (if distinct_matches \<and> present then Some (text, positions) else None)))"

definition evaluate_predicate ::
  "inspection \<Rightarrow> string \<Rightarrow> int \<Rightarrow> scoped_text \<Rightarrow> json \<Rightarrow> exn + dict \<times> predicate_outcome" where
  "evaluate_predicate ip content complete_size sc predicate =
     bindR (mapping_of predicate) (\<lambda>p.
     let kind = dget p ''kind''; expected = dget p ''value'' in
     bindR (if kind = JStr ''STATUS_EQUALS'' then evaluate_status ip content complete_size sc kind expected
            else if \<not> hashable kind then Inl unhashable_error
            else if in_strs kind text_kinds then evaluate_text (pi_distinct ip) sc (as_str kind) expected
            else Inr UnsupportedPredicate) (\<lambda>outcome. Inr (p, outcome)))"

definition result_entry :: "dict \<Rightarrow> string \<Rightarrow> json \<Rightarrow> json" where
  "result_entry p result selected =
     JObj [(''predicate'', JObj p), (''result'', JStr result), (''selectedEvidence'', selected)]"

definition outcome_entry :: "nat list \<Rightarrow> nat \<Rightarrow> dict \<times> predicate_outcome \<Rightarrow> json" where
  "outcome_entry chosen index po =
     (case po of
        (p, UnsupportedPredicate) \<Rightarrow> result_entry p ''UNSUPPORTED'' JNull
      | (p, ScoredPredicate ok selected None) \<Rightarrow> result_entry p (if ok then ''MATCH'' else ''NO_MATCH'') selected
      | (p, ScoredPredicate ok selected (Some (text, positions))) \<Rightarrow>
          result_entry p (if index \<in> set chosen then ''MATCH'' else ''NO_MATCH'')
            (JObj [(''kind'', JStr ''TEXT_MATCH''), (''occurrences'', JInt (int (length positions))),
              (''independentOccurrence'', JBool (index \<in> set chosen))]))"

definition distinct_candidates :: "(dict \<times> predicate_outcome) list \<Rightarrow> text_candidate list" where
  "distinct_candidates outcomes =
     concat (map (\<lambda>(i, p, outcome). case outcome of ScoredPredicate ok selected (Some (text, positions)) \<Rightarrow> [(i, text, positions)]
       | _ \<Rightarrow> []) (enumerate 0 outcomes))"

definition predicate_results :: "(dict \<times> predicate_outcome) list \<Rightarrow> json list" where
  "predicate_results outcomes =
     (let chosen = independent_text_positions (distinct_candidates outcomes) in
      map (\<lambda>(i, po). outcome_entry chosen i po) (enumerate 0 outcomes))"

definition selection_id :: "environment \<Rightarrow> dict \<Rightarrow> json" where
  "selection_id env record_value =
     JStr (''planselection-'' @ take 20 (env_sha256 env (json_text True (JObj record_value))))"

definition inspection_record ::
  "environment \<Rightarrow> inspection \<Rightarrow> scoped_text \<Rightarrow> string \<Rightarrow> string \<Rightarrow> int \<Rightarrow> json list \<Rightarrow> dict" where
  "inspection_record env ip sc content digest complete_size results =
     (let size = utf8_size content in
      [(''path'', pi_path ip), (''repositoryRevision'', JStr (pi_revision ip)), (''preimageSha256'', JStr digest),
       (''sourceProvenance'', JObj [(''sourceId'', JStr (pi_source ip))]), (''predicateResults'', JList results),
       (''inspection'', JObj
         [(''blobSize'', JInt complete_size),
          (''inspectedBytes'', JInt (case pi_inspected ip of None \<Rightarrow> size | Some n \<Rightarrow> n)),
          (''appliedTrustedCeiling'', JInt (pi_max ip)), (''declaredMaxBytesHint'', opt_int (pi_declared ip)),
          (''strategy'', JStr (pi_strategy ip)), (''evaluationComplete'', JBool True),
          (''statusFieldScanBytes'', opt_int (pi_status_scan ip)),
          (''region'', case sc_region sc of None \<Rightarrow> JNull
             | Some region \<Rightarrow> JObj [(''kind'', dget region ''kind''), (''name'', dget region ''name''),
                 (''identity'', sc_identity sc), (''matchCount'', JInt (sc_matches sc)),
                 (''evaluationComplete'', JBool True)])])])"

definition evaluate_path_predicates :: "environment \<Rightarrow> inspection \<Rightarrow> exn + dict" where
  "evaluate_path_predicates env ip =
     bindR (planning_path (pi_path ip)) (\<lambda>_.
     bindR (checkR (pi_revision ip \<noteq> [] \<and> pi_source ip \<noteq> [])
       (planning_error ''planning evidence requires revision and source provenance'')) (\<lambda>_.
     let named = ''planning-evidence target '' @ py_repr (pi_path ip); content = as_str (pi_content ip);
         size = utf8_size content; digest = env_sha256 env content;
         complete_size = (case pi_blob_size ip of None \<Rightarrow> size | Some n \<Rightarrow> n);
         complete_digest = (case pi_blob_sha ip of None \<Rightarrow> digest | Some h \<Rightarrow> h);
         partial_scan = (pi_strategy ip = ''STRUCTURED_STATUS_FIELD_SCAN'' \<and> pi_status_fields ip \<noteq> None) in
     bindR (checkR (is_str (pi_content ip) \<and> nul_char \<notin> set content) (planning_error (named @ '' is not UTF-8 text''))) (\<lambda>_.
     bindR (checkR (size \<le> pi_max ip) (planning_error (named @ '' exceeds its byte limit''))) (\<lambda>_.
     bindR (checkR (pi_predicates ip \<noteq> []) (planning_error (named @ '' has no predicates''))) (\<lambda>_.
     bindR (scope_of ip content) (\<lambda>sc.
     bindR (mapR (evaluate_predicate ip content complete_size sc) (pi_predicates ip)) (\<lambda>outcomes.
     bindR (checkR (partial_scan \<or> (complete_size = size \<and> complete_digest = digest))
       (inspection_failure ''BLOB_IDENTITY_MISMATCH'' (as_str (pi_path ip)) complete_size (pi_max ip) JNull
          (pi_strategy ip) False)) (\<lambda>_.
     let value = inspection_record env ip sc content complete_digest complete_size (predicate_results outcomes) in
     Inr (value @ [(''selectionId'', selection_id env value)])))))))))"

definition finalize_planning_evidence ::
  "environment \<Rightarrow> dict \<Rightarrow> json list \<Rightarrow> json list \<Rightarrow> json list option \<Rightarrow> exn + dict" where
  "finalize_planning_evidence env value postconditions reasons results =
     bindR (checkR (postconditions \<noteq> [] \<and> reasons \<noteq> [])
       (planning_error ''planning evidence requires postconditions and selection reasons'')) (\<lambda>_.
     let bound = dput ''postconditions'' (JList postconditions) (dpop ''selectionId'' value);
         bound1 = (case results of None \<Rightarrow> bound | Some rs \<Rightarrow> dput ''postconditionResults'' (JList rs) bound);
         final = dput ''selectionReasons'' (JList reasons) bound1 in
     Inr (dput ''selectionId'' (selection_id env final) final))"


section \<open>Dispositions\<close>

definition binding_disposition :: "json \<Rightarrow> exn + string" where
  "binding_disposition binding =
     bindR (checkR (is_mapping binding) (planning_error ''planning evidence has malformed criterion bindings'')) (\<lambda>_.
     Inr (if mget binding ''predicateResult'' = JStr ''MATCH'' then ''CHANGE''
          else if mget binding ''postconditionResult'' = JStr ''MATCH'' then ''NO_CHANGE'' else ''UNSUPPORTED''))"

definition result_states :: "json list \<Rightarrow> json list" where
  "result_states results = map (\<lambda>r. mget r ''result'') (filter is_mapping results)"

definition scope_disposition :: "dict \<Rightarrow> exn + string" where
  "scope_disposition scope =
     (let bindings = dget scope ''criterionBindings''; results = dget_or scope ''predicateResults'' (JList []);
          postconditions = dget_or scope ''postconditionResults'' (JList []);
          states = result_states (as_list results); post_states = result_states (as_list postconditions) in
      if is_list bindings then
        bindR (checkR (as_list bindings \<noteq> []) (planning_error ''planning evidence has malformed criterion bindings'')) (\<lambda>_.
        bindR (mapR binding_disposition (as_list bindings)) (\<lambda>dispositions.
        Inr (if ''CHANGE'' \<in> set dispositions then ''CHANGE''
             else if list_all (\<lambda>d. d = ''NO_CHANGE'') dispositions then ''NO_CHANGE'' else ''UNSUPPORTED'')))
      else
        bindR (checkR (is_list results \<and> as_list results \<noteq> [] \<and> length states = length (as_list results))
          (planning_error ''planning evidence has malformed predicate results'')) (\<lambda>_.
        Inr (if JStr ''UNSUPPORTED'' \<in> set states then ''UNSUPPORTED''
             else if list_all (\<lambda>s. s = JStr ''MATCH'') states then ''CHANGE''
             else if is_list postconditions \<and> as_list postconditions \<noteq> []
                     \<and> length post_states = length (as_list postconditions)
                     \<and> list_all (\<lambda>s. s = JStr ''MATCH'') post_states then ''NO_CHANGE''
             else ''UNSUPPORTED'')))"

section \<open>The contract of a plan\<close>

text \<open>\<open>len(set(values)) == len(values)\<close> for hashable values.\<close>

fun py_distinct :: "json list \<Rightarrow> bool" where
  "py_distinct [] = True"
| "py_distinct (x # xs) = (list_all (\<lambda>y. \<not> py_eq y x) xs \<and> py_distinct xs)"

definition plan_paths :: "dict \<Rightarrow> string \<Rightarrow> bool \<Rightarrow> exn + string list" where
  "plan_paths plan field required =
     (let value = dget plan field; paths = as_list value in
      bindR (checkR (is_list value \<and> (required \<longrightarrow> paths \<noteq> []))
        (planning_error (field @ '' must be an array'' @ (if required then '' with paths'' else [])))) (\<lambda>_.
      bindR (checkR (list_all hashable paths) unhashable_error) (\<lambda>_.
      bindR (checkR (py_distinct paths) (planning_error (field @ '' contains duplicates''))) (\<lambda>_.
      bindR (eachR planning_path paths) (\<lambda>_. Inr (map as_str paths))))))"

definition evidence_item :: "json \<Rightarrow> exn + string \<times> dict" where
  "evidence_item item =
     bindR (checkR (is_mapping item) (planning_error ''pathEvidence must contain planning evidence records'')) (\<lambda>_.
     bindR (planning_path (mget item ''path'')) (\<lambda>_. Inr (as_str (mget item ''path''), as_dict item)))"

text \<open>The records of each path, in the order the paths appear.\<close>

definition grouped :: "(string \<times> dict) list \<Rightarrow> (string \<times> dict list) list" where
  "grouped items = map (\<lambda>p. (p, map snd (filter (\<lambda>i. fst i = p) items))) (rev (remdups (rev (map fst items))))"

fun trusted_by_id :: "json list \<Rightarrow> (string \<times> dict) list \<Rightarrow> exn + (string \<times> dict) list" where
  "trusted_by_id [] known = Inr known"
| "trusted_by_id (item # items) known =
     (let sid = (if is_mapping item then mget item ''selectionId'' else JNull) in
      if \<not> nonempty_str sid \<or> dhas known (as_str sid)
      then Inl (planning_error ''trusted planning evidence has invalid or duplicate identities'')
      else trusted_by_id items (known @ [(as_str sid, as_dict item)]))"

definition hex_digest :: "string \<Rightarrow> bool" where
  "hex_digest s \<longleftrightarrow> length s = 64
     \<and> list_all (\<lambda>c. (CHR ''0'' \<le> c \<and> c \<le> CHR ''9'') \<or> (CHR ''a'' \<le> c \<and> c \<le> CHR ''f'')) s"

definition check_evidence :: "string \<Rightarrow> string \<Rightarrow> (string \<times> dict) list \<Rightarrow> dict \<Rightarrow> exn + unit" where
  "check_evidence revision path trusted item =
     (let named = ''planning evidence for '' @ repr_str path in
      bindR (checkR (dget item ''repositoryRevision'' = JStr revision)
        (planning_error (named @ '' is revision-mismatched''))) (\<lambda>_.
      bindR (checkR (hex_digest (py_str (dget_or item ''preimageSha256'' (JStr []))))
        (planning_error (named @ '' lacks a content digest''))) (\<lambda>_.
      checkR (case map_of trusted (py_str (dget_or item ''selectionId'' (JStr []))) of
                None \<Rightarrow> False | Some t \<Rightarrow> json_text True (JObj item) = json_text True (JObj t))
        (planning_error (named @ '' does not match trusted Context Builder evidence'')))))"

definition deciding_records :: "dict list \<Rightarrow> dict list" where
  "deciding_records records_of =
     (let editable = filter (\<lambda>r. dget r ''authorizationRole'' \<noteq> JStr ''EVALUATOR_ONLY'') records_of in
      if editable = [] then records_of else editable)"

definition check_path ::
  "string \<Rightarrow> (string \<times> dict) list \<Rightarrow> string list \<Rightarrow> string list \<Rightarrow> string list \<Rightarrow> string \<times> dict list \<Rightarrow> exn + unit" where
  "check_path revision trusted required no_change unsupported pr =
     (let path = fst pr; records_of = snd pr in
      bindR (checkR (distinct (map (\<lambda>r. py_str (dget r ''selectionId'')) records_of))
        (planning_error ''pathEvidence has duplicate scope identities'')) (\<lambda>_.
      bindR (eachR (check_evidence revision path trusted) records_of) (\<lambda>_.
      bindR (mapR scope_disposition (deciding_records records_of)) (\<lambda>dispositions.
      bindR (checkR (path \<in> set required \<longrightarrow> ''CHANGE'' \<in> set dispositions)
        (planning_error (''required-change path '' @ repr_str path @ '' does not satisfy its planning predicates''))) (\<lambda>_.
      bindR (checkR (path \<in> set no_change \<longrightarrow> dispositions \<noteq> [] \<and> list_all (\<lambda>d. d = ''NO_CHANGE'') dispositions)
        (planning_error (''no-change path '' @ repr_str path @ '' lacks satisfied planning-time postconditions''))) (\<lambda>_.
      checkR (path \<in> set unsupported \<longrightarrow> ''UNSUPPORTED'' \<in> set dispositions)
        (planning_error (''unsupported path '' @ repr_str path @ '' lacks unsupported evidence''))))))))"

definition validate_plan_path_contract :: "dict \<Rightarrow> string \<Rightarrow> json list \<Rightarrow> exn + unit" where
  "validate_plan_path_contract plan revision trusted_evidence =
     bindR (plan_paths plan ''authorizedPaths'' True) (\<lambda>authorized.
     bindR (plan_paths plan ''requiredChangePaths'' False) (\<lambda>required.
     bindR (plan_paths plan ''verifiedNoChangePaths'' False) (\<lambda>no_change.
     bindR (plan_paths plan ''unsupportedPaths'' False) (\<lambda>unsupported.
     bindR (checkR (set required \<inter> set no_change = {} \<and> set required \<inter> set unsupported = {}
         \<and> set no_change \<inter> set unsupported = {})
       (planning_error ''implementation-plan path dispositions conflict'')) (\<lambda>_.
     bindR (checkR (set required \<union> set no_change \<union> set unsupported = set authorized)
       (planning_error ''every authorized path requires exactly one disposition'')) (\<lambda>_.
     bindR (checkR (is_list (dget plan ''pathEvidence'')) (planning_error ''implementation plan requires pathEvidence'')) (\<lambda>_.
     bindR (mapR evidence_item (as_list (dget plan ''pathEvidence''))) (\<lambda>items.
     bindR (checkR (set (map fst items) = set authorized) (planning_error ''pathEvidence must cover every authorized path'')) (\<lambda>_.
     bindR (trusted_by_id trusted_evidence []) (\<lambda>trusted.
     eachR (check_path revision trusted required no_change unsupported) (grouped items)))))))))))"

section \<open>Reconciliation\<close>

record reconciliation =
  ri_plan_id :: string
  ri_revision :: string
  ri_original :: "string list"
  ri_targets :: "dict list"
  ri_dispositions :: "dict list"
  ri_postconditions :: "(string \<times> json list) list"
  ri_evaluator :: dict
  ri_proposed :: "(string \<times> json) list"
  ri_deleted :: "string list"
  ri_insertions :: "(string \<times> string list) list"
  ri_regions :: "(string \<times> dict) list"
  ri_max :: int

definition or_empty :: "(string \<times> 'a list) list \<Rightarrow> string \<Rightarrow> 'a list" where
  "or_empty m k = (case map_of m k of None \<Rightarrow> [] | Some v \<Rightarrow> v)"

text \<open>The items by their paths, which must be unique and cover exactly the given ones.\<close>

definition by_path :: "dict list \<Rightarrow> string list \<Rightarrow> string \<Rightarrow> string \<Rightarrow> exn + (string \<times> dict) list" where
  "by_path items paths duplicate uncovered =
     (let keys = map (\<lambda>i. dget i ''path'') items in
      bindR (checkR (list_all hashable keys) unhashable_error) (\<lambda>_.
      bindR (checkR (py_distinct keys) (planning_error duplicate)) (\<lambda>_.
      bindR (checkR (set keys = JStr ` set paths) (planning_error uncovered)) (\<lambda>_.
      Inr (zip (map as_str keys) items)))))"

definition region_json :: "reconciliation \<Rightarrow> string \<Rightarrow> json" where
  "region_json ri path = (case map_of (ri_regions ri) path of None \<Rightarrow> JNull | Some r \<Rightarrow> JObj r)"

text \<open>Postconditions come as scopes, or flat as one sequence of predicates.\<close>

definition scoped :: "json list \<Rightarrow> bool" where
  "scoped raw \<longleftrightarrow> raw \<noteq> [] \<and> is_mapping (hd raw) \<and> dhas (as_dict (hd raw)) ''predicates''"

definition inspection_of :: "reconciliation \<Rightarrow> string \<Rightarrow> json \<Rightarrow> string \<Rightarrow> json list \<Rightarrow> json \<Rightarrow> bool \<Rightarrow> inspection" where
  "inspection_of ri path content source predicates region distinct_matches =
     \<lparr>pi_path = JStr path, pi_content = content, pi_revision = ri_revision ri, pi_predicates = predicates,
      pi_source = source, pi_max = ri_max ri, pi_blob_size = None, pi_blob_sha = None, pi_declared = None,
      pi_strategy = ''COMPLETE_BLOB_SCAN'', pi_status_fields = None, pi_inspected = None, pi_status_scan = None,
      pi_region = region, pi_distinct = distinct_matches\<rparr>"

text \<open>A string is a sequence of its characters.\<close>

definition sequence_of :: "json \<Rightarrow> json list option" where
  "sequence_of v = (if is_list v then Some (as_list v)
     else if is_str v then Some (map (\<lambda>c. JStr [c]) (as_str v)) else None)"

definition scope_proof :: "environment \<Rightarrow> reconciliation \<Rightarrow> string \<Rightarrow> json \<Rightarrow> string \<Rightarrow> json \<Rightarrow> exn + dict" where
  "scope_proof env ri path content source scope =
     bindR (mapping_of scope) (\<lambda>sc.
     case sequence_of (dget_or sc ''predicates'' (JList [])) of
       None \<Rightarrow> Inl (planning_error (''planning evidence for '' @ repr_str path @ '' has malformed scope predicates''))
     | Some predicates \<Rightarrow>
         bindR (evaluate_path_predicates env (inspection_of ri path content source predicates (dget sc ''region'') False)) (\<lambda>proof_record.
         Inr [(''selectionId'', dget sc ''selectionId''), (''region'', dget sc ''region''),
           (''predicateResults'', dget proof_record ''predicateResults'')]))"

definition scoped_proof :: "environment \<Rightarrow> reconciliation \<Rightarrow> string \<Rightarrow> json \<Rightarrow> string \<Rightarrow> exn + dict" where
  "scoped_proof env ri path content source =
     (let raw = or_empty (ri_postconditions ri) path;
          scopes = (if scoped raw then raw
                    else [JObj [(''predicates'', JList raw), (''region'', region_json ri path)]]) in
      bindR (mapR (scope_proof env ri path content source) scopes) (\<lambda>proofs.
      Inr [(''path'', JStr path), (''repositoryRevision'', JStr (ri_revision ri)),
        (''sourceProvenance'', JObj [(''sourceId'', JStr source)]), (''scopeProofs'', JList (map JObj proofs)),
        (''predicateResults'', JList (concat (map (\<lambda>p. as_list (dget p ''predicateResults'')) proofs)))]))"

definition scope_predicates :: "json \<Rightarrow> exn + json list" where
  "scope_predicates scope =
     (if \<not> is_mapping scope then Inr []
      else bindR (py_iter (dget_or (as_dict scope) ''predicates'' (JList []))) (\<lambda>ps. Inr (filter is_mapping ps)))"

definition deletion_proof :: "reconciliation \<Rightarrow> string \<Rightarrow> exn + dict" where
  "deletion_proof ri path =
     (let raw = or_empty (ri_postconditions ri) path; region = region_json ri path in
      bindR (checkR (region = JNull \<or> mget region ''kind'' = JStr ''WHOLE_FILE'')
        (planning_error (''DELETE for '' @ repr_str path @ '' cannot rely on region-scoped evidence''))) (\<lambda>_.
      bindR (if scoped raw then bindR (mapR scope_predicates raw) (\<lambda>ps. Inr (concat ps)) else Inr raw) (\<lambda>postconditions.
      let failed = planning_error (''DELETE for '' @ repr_str path @ '' requires TEXT_ABSENT postconditions'') in
      bindR (checkR (postconditions \<noteq> []) failed) (\<lambda>_.
      bindR (eachR (\<lambda>item. bindR (mapping_of item) (\<lambda>p. checkR (dget p ''kind'' = JStr ''TEXT_ABSENT'') failed)) postconditions) (\<lambda>_.
      Inr [(''path'', JStr path), (''repositoryRevision'', JStr (ri_revision ri)),
        (''sourceProvenance'', JObj [(''sourceId'', JStr ''generated-delete'')]), (''postState'', JStr ''ABSENT''),
        (''predicateResults'', JList (map (\<lambda>p. result_entry (as_dict p) ''MATCH'' (JObj [(''kind'', JStr ''PATH_ABSENCE'')])) postconditions))])))))"

definition all_match :: "json list \<Rightarrow> bool" where
  "all_match results \<longleftrightarrow> list_all (\<lambda>r. mget r ''result'' = JStr ''MATCH'') results"

definition change_proof :: "environment \<Rightarrow> reconciliation \<Rightarrow> string \<Rightarrow> exn + dict" where
  "change_proof env ri path =
     bindR (if path \<in> set (ri_deleted ri) then deletion_proof ri path
            else case map_of (ri_proposed ri) path of
              Some (JStr proposed) \<Rightarrow> scoped_proof env ri path (JStr proposed) ''generated-change''
            | _ \<Rightarrow> Inl (planning_error (''CHANGE for '' @ repr_str path @ '' lacks proposed content evidence''))) (\<lambda>p.
     bindR (checkR (all_match (as_list (dget p ''predicateResults'')))
       (candidate_error (''CHANGE for '' @ repr_str path @ '' has an unsatisfied or unsupported postcondition''))) (\<lambda>_.
     Inr p))"

definition no_change_proof :: "environment \<Rightarrow> reconciliation \<Rightarrow> string \<Rightarrow> dict \<Rightarrow> exn + dict" where
  "no_change_proof env ri path target =
     bindR (mapping_of (dget_or target ''provenance'' (JObj []))) (\<lambda>provenance.
     bindR (scoped_proof env ri path (dget target ''content'')
        (py_str (dget_or provenance ''taskExecutionId'' (JStr ''editable-target'')))) (\<lambda>p.
     bindR (checkR (all_match (as_list (dget p ''predicateResults'')))
       (candidate_error (''NO_CHANGE for '' @ repr_str path @ '' has an unsatisfied or unsupported criterion''))) (\<lambda>_.
     Inr p)))"

definition insertion_predicate :: "string \<Rightarrow> json" where
  "insertion_predicate v =
     JObj [(''kind'', JStr (if newline \<in> set v \<or> carriage \<in> set v then ''LINE_PRESENT'' else ''TEXT_PRESENT'')),
           (''value'', JStr v)]"

definition insertion_inspection :: "reconciliation \<Rightarrow> string \<Rightarrow> json \<Rightarrow> string list \<Rightarrow> json \<Rightarrow> bool \<Rightarrow> inspection" where
  "insertion_inspection ri path content vs region distinct_matches =
     inspection_of ri path content ''generated-insertion-reconciliation'' (map insertion_predicate vs) region distinct_matches"

text \<open>The scopes an insertion is found in, among those that own it or own none.\<close>

definition scope_holds :: "environment \<Rightarrow> reconciliation \<Rightarrow> string \<Rightarrow> json \<Rightarrow> string \<Rightarrow> json \<Rightarrow> exn + json list" where
  "scope_holds env ri path content v scope =
     bindR (mapping_of scope) (\<lambda>sc.
     let owned = dget_or sc ''requiredInsertionValues'' (JList []) in
     bindR (if truthy owned then py_in v owned else Inr True) (\<lambda>mine.
     if \<not> mine then Inr []
     else bindR (evaluate_path_predicates env (insertion_inspection ri path content [v] (dget sc ''region'') False)) (\<lambda>p.
          Inr (if mget (hd (as_list (dget p ''predicateResults''))) ''result'' = JStr ''MATCH''
               then [dget sc ''selectionId''] else []))))"

definition scoped_insertion ::
  "environment \<Rightarrow> reconciliation \<Rightarrow> string \<Rightarrow> json \<Rightarrow> json list \<Rightarrow> string \<Rightarrow> exn + json" where
  "scoped_insertion env ri path content scopes v =
     bindR (mapR (scope_holds env ri path content v) scopes) (\<lambda>found.
     let matches = concat found; once = (length matches = 1) in
     Inr (JObj [(''value'', JStr v), (''result'', JStr (if once then ''MATCH'' else ''NO_MATCH'')),
       (''selectionId'', if once then hd matches else JNull)]))"

definition insertion_proofs :: "environment \<Rightarrow> reconciliation \<Rightarrow> string \<Rightarrow> string \<Rightarrow> json \<Rightarrow> exn + json list" where
  "insertion_proofs env ri state path content =
     (let vs = or_empty (ri_insertions ri) path; raw = or_empty (ri_postconditions ri) path;
          scopes = (if scoped raw then raw else [JObj [(''region'', region_json ri path)]]);
          missing = candidate_error (state @ '' for '' @ repr_str path @ '' lacks a required insertion'') in
      if vs = [] then Inr []
      else bindR (checkR (content \<noteq> JNull) missing) (\<lambda>_.
        bindR (if length scopes = 1 \<and> mget (hd scopes) ''selectionId'' = JNull
               then bindR (evaluate_path_predicates env
                        (insertion_inspection ri path content vs (mget (hd scopes) ''region'') True)) (\<lambda>p.
                    Inr (map2 (\<lambda>v r. JObj [(''value'', JStr v), (''result'', mget r ''result'')]) vs
                      (as_list (dget p ''predicateResults''))))
               else mapR (scoped_insertion env ri path content scopes) vs) (\<lambda>entries.
        bindR (checkR (all_match entries) missing) (\<lambda>_. Inr entries))))"

definition postimage :: "reconciliation \<Rightarrow> string \<Rightarrow> json \<Rightarrow> json" where
  "postimage ri path content =
     (if path \<in> set (ri_deleted ri) then JNull
      else case map_of (ri_proposed ri) path of None \<Rightarrow> content | Some p \<Rightarrow> p)"

definition digest_of_output :: "environment \<Rightarrow> json \<Rightarrow> exn + json" where
  "digest_of_output env v =
     (case v of JNull \<Rightarrow> Inr JNull | JStr s \<Rightarrow> Inr (JStr (env_sha256 env s)) | _ \<Rightarrow> Inl attribute_error)"

text \<open>The record of one path: its state and what proves it.\<close>

definition reconcile_path ::
  "environment \<Rightarrow> reconciliation \<Rightarrow> (string \<times> dict) list \<Rightarrow> (string \<times> dict) list \<Rightarrow> string \<Rightarrow> exn + string \<times> dict" where
  "reconcile_path env ri targets dispositions path =
     (let target = the (map_of targets path); content = dget target ''content'';
          digest = (if is_str content then env_sha256 env (as_str content) else []);
          state = dget (the (map_of dispositions path)) ''disposition'' in
      bindR (checkR (dget target ''repositoryRevision'' = JStr (ri_revision ri))
        (planning_error (''editable target '' @ repr_str path @ '' is revision-mismatched''))) (\<lambda>_.
      bindR (checkR (dget target ''preimageSha256'' = JStr digest)
        (planning_error (''editable target '' @ repr_str path @ '' has stale content evidence''))) (\<lambda>_.
      bindR (if state = JStr ''CHANGE'' then change_proof env ri path
             else if state = JStr ''NO_CHANGE'' then no_change_proof env ri path target
             else Inl (planning_error (''disposition for '' @ repr_str path @ '' must be CHANGE or NO_CHANGE''))) (\<lambda>p.
      let after = postimage ri path content in
      bindR (insertion_proofs env ri (as_str state) path after) (\<lambda>insertions.
      bindR (digest_of_output env after) (\<lambda>digest_after.
      Inr (as_str state, [(''path'', JStr path), (''disposition'', state), (''targetSha256'', JStr digest),
        (''outputSha256'', digest_after),
        (''postState'', JStr (if path \<in> set (ri_deleted ri) then ''ABSENT'' else ''PRESENT'')),
        (''postconditionProof'', JObj p), (''requiredInsertionProof'', JList insertions)])))))))"

definition path_order :: "string list \<Rightarrow> string list" where
  "path_order = sort_key (\<lambda>p. (casefold p, p))"

definition paths_in_state :: "string \<Rightarrow> (string \<times> dict) list \<Rightarrow> json list" where
  "paths_in_state state rs = map (\<lambda>r. dget (snd r) ''path'') (filter (\<lambda>r. fst r = state) rs)"

definition reconcile_dispositions :: "environment \<Rightarrow> reconciliation \<Rightarrow> exn + dict" where
  "reconcile_dispositions env ri =
     (let uncovered = ''reconciliation targets must exactly cover the original required paths'';
          undisposed = ''every editable target requires one terminal disposition'' in
      bindR (by_path (ri_targets ri) (ri_original ri) ''editable targets contain duplicate paths'' uncovered) (\<lambda>targets.
      bindR (checkR (distinct (ri_original ri)) (planning_error uncovered)) (\<lambda>_.
      bindR (by_path (ri_dispositions ri) (ri_original ri) undisposed undisposed) (\<lambda>dispositions.
      bindR (checkR (distinct (ri_deleted ri) \<and> set (ri_deleted ri) \<subseteq> set (ri_original ri))
        (planning_error ''deleted paths must be unique original required paths'')) (\<lambda>_.
      bindR (mapR (reconcile_path env ri targets dispositions) (path_order (map fst targets))) (\<lambda>rs.
      let value = [(''planArtifactId'', JStr (ri_plan_id ri)), (''repositoryRevision'', JStr (ri_revision ri)),
            (''originalRequiredPaths'', JList (map JStr (sort (ri_original ri)))),
            (''effectiveRequiredPaths'', JList (paths_in_state ''CHANGE'' rs)),
            (''verifiedNoChangePaths'', JList (paths_in_state ''NO_CHANGE'' rs)),
            (''pathDispositions'', JList (map (\<lambda>r. JObj (snd r)) rs)),
            (''reason'', JStr ''EXACT_EDITABLE_TARGET_RECONCILIATION''), (''evaluatorRef'', JObj (ri_evaluator ri))] in
      Inr (value @ [(''id'', JStr (''planreconciliation-''
         @ take 20 (env_sha256 env (json_text True (JObj value)))))])))))))"

end
