(* ===== verification/ReconciliationSafety.thy ===== *)
theory ReconciliationSafety
  imports PlanningEvidence
begin

text \<open>
  What planning evidence and its reconciliation guarantee: the search for places of their own is
  exact within its bound, a reconciliation record is well typed, and the insertions that are
  required of a path are in the text that is left there.
\<close>

section \<open>Occurrences are where they are said to be\<close>

text \<open>A text that ends its line may lack the last newline where it occurs.\<close>

definition found_at :: "string \<Rightarrow> string \<Rightarrow> nat \<Rightarrow> bool" where
  "found_at content expected i \<longleftrightarrow> starts_with expected (drop i content)
     \<or> (ends_with [newline] expected \<and> starts_with (butlast expected) (drop i content))"

lemma occurrences_from_at:
  "i \<in> set (occurrences_from k j p s) \<Longrightarrow> j \<le> i \<and> starts_with p (drop (i - j) s)"
proof (induction k j p s rule: occurrences_from.induct)
  case (2 k j p c s)
  then show ?case by (auto simp: Suc_diff_le dest: Suc_leD) (simp add: drop_Cons')
next
  case (3 j p c s)
  have step: "j \<le> i \<and> starts_with p (drop (i - j) (c # s))" if "Suc j \<le> i \<and> starts_with p (drop (i - Suc j) s)"
    using that by (simp add: drop_Cons' Suc_leD)
  show ?case
  proof (cases "starts_with p (c # s)")
    case True
    then show ?thesis using 3(1)[OF True] 3(3) step by auto
  next
    case False
    then show ?thesis using 3(2)[OF False] 3(3) step by auto
  qed
qed simp

lemma line_occurrences_at: "i \<in> set (line_occurrences content e) \<Longrightarrow> starts_with e (drop i content)"
  by (simp only: line_occurrences_def set_filter mem_Collect_eq)

lemma line_positions_at: "i \<in> set (logical_line_positions content e) \<Longrightarrow> found_at content e i"
  using line_occurrences_at by (auto simp: logical_line_positions_def found_at_def Let_def split: if_splits)

lemma text_positions_at: "i \<in> set (logical_text_positions content e) \<Longrightarrow> found_at content e i"
  using line_positions_at occurrences_from_at[of i 0 0 e content]
  by (auto simp: logical_text_positions_def found_at_def split: if_splits)

section \<open>The search for independent occurrences is exact\<close>

text \<open>A place for each text, none overlapping another.\<close>

definition interval_of :: "(nat \<Rightarrow> nat) \<Rightarrow> text_candidate \<Rightarrow> nat \<times> nat" where
  "interval_of f c = (f (fst c), f (fst c) + length (fst (snd c)))"

definition apart :: "(nat \<Rightarrow> nat) \<Rightarrow> text_candidate set \<Rightarrow> bool" where
  "apart f cs \<longleftrightarrow> (\<forall>c \<in> cs. f (fst c) \<in> set (snd (snd c)))
     \<and> (\<forall>c \<in> cs. \<forall>d \<in> cs. fst c \<noteq> fst d \<longrightarrow> \<not> overlaps (interval_of f c) (interval_of f d))"

text \<open>The same for texts in order, clear of the intervals taken before.\<close>

definition clear :: "(nat \<Rightarrow> nat) \<Rightarrow> text_candidate set \<Rightarrow> (nat \<times> nat) set \<Rightarrow> bool" where
  "clear f cs taken \<longleftrightarrow> apart f cs \<and> (\<forall>c \<in> cs. \<forall>i \<in> taken. \<not> overlaps (interval_of f c) i)"

lemma overlaps_sym: "overlaps i j = overlaps j i"
  by (auto simp: overlaps_def)

lemma clear_cong:
  assumes "\<And>c. c \<in> cs \<Longrightarrow> f (fst c) = g (fst c)"
  shows "clear f cs taken \<longleftrightarrow> clear g cs taken"
  using assms by (simp add: clear_def apart_def interval_of_def)

lemma clear_insert:
  assumes "\<And>d. d \<in> cs \<Longrightarrow> fst d \<noteq> fst c"
  shows "clear f (insert c cs) taken \<longleftrightarrow> f (fst c) \<in> set (snd (snd c))
     \<and> (\<forall>i \<in> taken. \<not> overlaps (interval_of f c) i) \<and> clear f cs (insert (interval_of f c) taken)"
  using assms overlaps_sym unfolding clear_def apart_def by auto

text \<open>What the loop over the positions of one text finds, given the search after it.\<close>

lemma try_positions_runs:
  assumes later: "\<And>iv ch n r m. later iv ch n = (r, m) \<Longrightarrow> n \<le> m
      \<and> (\<forall>s. r = Some s \<longrightarrow> P (set iv) \<and> set s = K \<union> set ch) \<and> (r = None \<longrightarrow> m \<le> 256 \<longrightarrow> \<not> P (set iv))"
  shows "try_positions later index len ps iv ch n = (r, m) \<Longrightarrow> n \<le> m
    \<and> (\<forall>s. r = Some s \<longrightarrow> (\<exists>p \<in> set ps. \<not> list_ex (overlaps (p, p + len)) iv \<and> P (insert (p, p + len) (set iv)))
         \<and> set s = insert index (K \<union> set ch))
    \<and> (r = None \<longrightarrow> m \<le> 256 \<longrightarrow>
         (\<forall>p \<in> set ps. \<not> list_ex (overlaps (p, p + len)) iv \<longrightarrow> \<not> P (insert (p, p + len) (set iv))))"
proof (induction ps arbitrary: n r m)
  case (Cons p ps)
  show ?case
  proof (cases "n + 1 > 256")
    case True
    with Cons.prems show ?thesis by auto
  next
    case small: False
    show ?thesis
    proof (cases "list_ex (overlaps (p, p + len)) iv")
      case True
      with Cons.prems small have "try_positions later index len ps iv ch (n + 1) = (r, m)" by simp
      note ih = Cons.IH[OF this]
      have "n \<le> m" using ih by simp
      moreover have "\<not> \<not> list_ex (overlaps (p, p + len)) iv" using True by simp
      ultimately show ?thesis using ih unfolding list.set by blast
    next
      case False
      obtain r1 m1 where l: "later (iv @ [(p, p + len)]) (index # ch) (n + 1) = (r1, m1)" by fastforce
      note k = later[OF l]
      show ?thesis
      proof (cases r1)
        case None
        with Cons.prems small False l have t: "try_positions later index len ps iv ch m1 = (r, m)" by simp
        note ih = Cons.IH[OF t]
        have "n \<le> m" "m \<le> 256 \<longrightarrow> m1 \<le> 256" using ih k by auto
        moreover have "m1 \<le> 256 \<longrightarrow> \<not> P (insert (p, p + len) (set iv))" using k None by simp
        ultimately show ?thesis using ih unfolding list.set by blast
      next
        case (Some s)
        with Cons.prems small False l have "r = Some s" "m = m1" by auto
        moreover have "n \<le> m1" "P (insert (p, p + len) (set iv))" "set s = insert index (K \<union> set ch)"
          using k Some by auto
        ultimately show ?thesis using False unfolding list.set by blast
      qed
    qed
  qed
qed auto

lemma select_from_runs:
  "select_from cs iv ch n = (r, m) \<Longrightarrow> distinct (map fst cs) \<Longrightarrow> n \<le> m
    \<and> (\<forall>s. r = Some s \<longrightarrow> (\<exists>f. clear f (set cs) (set iv)) \<and> set s = fst ` set cs \<union> set ch)
    \<and> (r = None \<longrightarrow> m \<le> 256 \<longrightarrow> \<not> (\<exists>f. clear f (set cs) (set iv)))"
proof (induction cs arbitrary: iv ch n r m)
  case Nil
  then show ?case by (auto simp: clear_def apart_def)
next
  case (Cons c cs)
  obtain index tx ps where c: "c = (index, tx, ps)" by (cases c) auto
  let ?len = "length tx"
  have fresh: "fst d \<noteq> fst c" if "d \<in> set cs" for d using Cons.prems(2) that by (metis distinct.simps(2) image_eqI list.set_map list.simps(9))
  have ins: "clear f (insert c (set cs)) taken \<longleftrightarrow> f (fst c) \<in> set (snd (snd c))
     \<and> (\<forall>i \<in> taken. \<not> overlaps (interval_of f c) i) \<and> clear f (set cs) (insert (interval_of f c) taken)" for f taken
    by (rule clear_insert) (rule fresh)
  have later: "n \<le> m \<and> (\<forall>s. r = Some s \<longrightarrow> (\<exists>f. clear f (set cs) (set iv)) \<and> set s = fst ` set cs \<union> set ch)
      \<and> (r = None \<longrightarrow> m \<le> 256 \<longrightarrow> \<not> (\<exists>f. clear f (set cs) (set iv)))"
    if "select_from cs iv ch n = (r, m)" for iv ch n r m
    using Cons.IH[OF that] Cons.prems(2) by simp
  have t: "try_positions (select_from cs) index ?len ps iv ch n = (r, m)" using Cons.prems(1) by (simp add: c)
  note runs = try_positions_runs[where P = "\<lambda>taken. \<exists>f. clear f (set cs) taken" and K = "fst ` set cs", OF later t]
  have iff: "(\<exists>f. clear f (set (c # cs)) taken) \<longleftrightarrow>
      (\<exists>p \<in> set ps. (\<forall>i \<in> taken. \<not> overlaps (p, p + ?len) i) \<and> (\<exists>f. clear f (set cs) (insert (p, p + ?len) taken)))"
    (is "?l = ?r") for taken
  proof
    assume ?l
    then obtain f where "clear f (insert c (set cs)) taken" by auto
    then show ?r unfolding ins by (auto simp: c interval_of_def)
  next
    assume ?r
    then obtain p f where p: "p \<in> set ps" "\<forall>i \<in> taken. \<not> overlaps (p, p + ?len) i"
      and f: "clear f (set cs) (insert (p, p + ?len) taken)" by blast
    let ?f = "f(index := p)"
    have "clear ?f (set cs) (insert (p, p + ?len) taken)"
      by (subst clear_cong[where g = f]) (use fresh c f in auto)
    then have "clear ?f (insert c (set cs)) taken"
      unfolding ins using p by (auto simp: c interval_of_def)
    then show ?l by auto
  qed
  show ?case using runs unfolding iff by (auto simp: c list_ex_iff)
qed

definition search_attempts :: "text_candidate list \<Rightarrow> nat" where
  "search_attempts wanted = snd (select_from (sort_key (\<lambda>c. (length (snd (snd c)), fst c)) wanted) [] [] 0)"

lemma independent_search:
  assumes d: "distinct (map fst wanted)" and w: "wanted \<noteq> []"
  shows "(independent_text_positions wanted \<noteq> [] \<longrightarrow>
      set (independent_text_positions wanted) = fst ` set wanted \<and> (\<exists>f. apart f (set wanted)))
    \<and> (independent_text_positions wanted = [] \<longrightarrow> 256 < search_attempts wanted \<or> \<not> (\<exists>f. apart f (set wanted)))"
proof -
  let ?o = "sort_key (\<lambda>c. (length (snd (snd c)), fst c)) wanted"
  obtain r m where s: "select_from ?o [] [] 0 = (r, m)" by fastforce
  have "distinct (map fst ?o)" using d by (simp add: distinct_map)
  from select_from_runs[OF s this] have k: "\<forall>s. r = Some s \<longrightarrow> (\<exists>f. apart f (set wanted)) \<and> set s = fst ` set wanted"
      "r = None \<longrightarrow> m \<le> 256 \<longrightarrow> \<not> (\<exists>f. apart f (set wanted))"
    by (simp_all add: clear_def)
  have i: "independent_text_positions wanted = (case r of None \<Rightarrow> [] | Some c \<Rightarrow> c)"
    by (simp add: independent_text_positions_def s)
  show ?thesis
  proof (cases r)
    case None
    then show ?thesis using k i s by (auto simp: search_attempts_def)
  next
    case (Some c)
    then have "c \<noteq> []" using k(1) w by auto
    then show ?thesis using k i Some by auto
  qed
qed


section \<open>What a reconciliation guarantees\<close>

definition own_places :: "string \<Rightarrow> string list \<Rightarrow> (nat \<Rightarrow> nat) \<Rightarrow> bool" where
  "own_places content vs f \<longleftrightarrow> (\<forall>i < length vs. found_at content (vs ! i) (f i))
     \<and> (\<forall>i < length vs. \<forall>j < length vs. i \<noteq> j \<longrightarrow>
          \<not> overlaps (f i, f i + length (vs ! i)) (f j, f j + length (vs ! j)))"

definition insertion_text :: "scoped_text \<Rightarrow> string" where
  "insertion_text sc = canonical_insertion (sc_text sc)"

lemma evaluate_insertion:
  assumes "evaluate_predicate ip content bytes sc (insertion_predicate v) = Inr r" "pi_distinct ip"
  shows "\<exists>p b s positions. r = (p, ScoredPredicate b s (Some (canonical_insertion v, positions)))
    \<and> (\<forall>i \<in> set positions. found_at (insertion_text sc) (canonical_insertion v) i)"
  using assms line_positions_at text_positions_at
  by (auto simp: evaluate_predicate_def insertion_predicate_def mapping_of_def dget_Cons text_kinds_def bindR_eq_Inr
      evaluate_text_def Let_def insertion_text_def split: if_splits)

lemma candidates_of_texts:
  assumes "list_all2 (\<lambda>v r. \<exists>p b s positions. r = (p, ScoredPredicate b s (Some (v, positions)))
    \<and> (\<forall>i \<in> set positions. G v i)) vs outcomes"
  shows "\<exists>ps. length ps = length vs \<and> distinct_candidates outcomes = map (\<lambda>i. (i, vs ! i, ps ! i)) [0..<length vs]
    \<and> (\<forall>i < length vs. \<forall>x \<in> set (ps ! i). G (vs ! i) x)"
proof -
  have len: "length outcomes = length vs" using assms by (simp add: list_all2_lengthD)
  have "\<forall>i. \<exists>positions. i < length vs \<longrightarrow> (\<exists>p b s. outcomes ! i = (p, ScoredPredicate b s (Some (vs ! i, positions))))
      \<and> (\<forall>x \<in> set positions. G (vs ! i) x)"
    using list_all2_nthD[OF assms] by blast
  then obtain g where g: "i < length vs \<Longrightarrow> (\<exists>p b s. outcomes ! i = (p, ScoredPredicate b s (Some (vs ! i, g i))))
      \<and> (\<forall>x \<in> set (g i). G (vs ! i) x)" for i
    by metis
  have e: "enumerate 0 outcomes = map (\<lambda>i. (i, outcomes ! i)) [0..<length vs]"
    by (rule nth_equalityI) (simp_all add: len nth_enumerate_eq)
  have "distinct_candidates outcomes = concat (map (\<lambda>i. [(i, vs ! i, g i)]) [0..<length vs])"
    unfolding distinct_candidates_def e map_map
    by (rule arg_cong[of _ _ concat], rule map_cong) (use g in fastforce)+
  also have "\<dots> = map (\<lambda>i. (i, vs ! i, map g [0..<length vs] ! i)) [0..<length vs]"
    by (simp add: concat_map_singleton)
  finally show ?thesis using g by (intro exI[of _ "map g [0..<length vs]"]) auto
qed

lemma inspection_record_results:
  "dget (inspection_record env ip sc content digest n results @ rest) ''predicateResults'' = JList results"
  by (simp add: inspection_record_def Let_def dget_Cons)

lemma evaluate_path_predicates_Inr:
  assumes "evaluate_path_predicates env ip = Inr v"
  shows "\<exists>t sc outcomes bytes. pi_content ip = JStr t \<and> scope_of ip t = Inr sc
    \<and> mapR (evaluate_predicate ip t bytes sc) (pi_predicates ip) = Inr outcomes
    \<and> dget v ''predicateResults'' = JList (predicate_results outcomes)"
proof -
  obtain sc outcomes bytes digest rest where c: "is_str (pi_content ip)" "scope_of ip (as_str (pi_content ip)) = Inr sc"
    "mapR (evaluate_predicate ip (as_str (pi_content ip)) bytes sc) (pi_predicates ip) = Inr outcomes"
    "v = inspection_record env ip sc (as_str (pi_content ip)) digest bytes (predicate_results outcomes) @ rest"
    using assms unfolding evaluate_path_predicates_def Let_def bindR_eq_Inr checkR_eq_Inr
    apply -
    apply (elim exE conjE)
    apply (drule sum.inject(2)[THEN iffD1, THEN sym])
    apply blast
    done
  obtain t where "pi_content ip = JStr t" using c(1) by (cases "pi_content ip") simp_all
  with c show ?thesis by (intro exI conjI) (assumption | simp add: inspection_record_results)+
qed

lemma insertion_evidence:
  assumes ev: "evaluate_path_predicates env (insertion_inspection ri path content vs region True) = Inr v"
    and all: "all_match (as_list (dget v ''predicateResults''))" and vs: "vs \<noteq> []"
  shows "\<exists>t sc f. content = JStr t \<and> scope_of (insertion_inspection ri path content vs region True) t = Inr sc
    \<and> own_places (insertion_text sc) (map canonical_insertion vs) f"
proof -
  let ?ip = "insertion_inspection ri path content vs region True"
  have p: "pi_content ?ip = content" "pi_predicates ?ip = map insertion_predicate vs" "pi_distinct ?ip"
    by (simp_all add: insertion_inspection_def inspection_of_def)
  obtain t sc outcomes bytes where t: "content = JStr t" and sc: "scope_of ?ip t = Inr sc"
    and o: "mapR (evaluate_predicate ?ip t bytes sc) (map insertion_predicate vs) = Inr outcomes"
    and v: "dget v ''predicateResults'' = JList (predicate_results outcomes)"
    using evaluate_path_predicates_Inr[OF ev] unfolding p by blast
  let ?cs = "map canonical_insertion vs"
  have "list_all2 (\<lambda>x r. \<exists>p b s positions. r = (p, ScoredPredicate b s (Some (x, positions)))
      \<and> (\<forall>i \<in> set positions. found_at (insertion_text sc) x i)) ?cs outcomes"
    using o unfolding mapR_Inr list.rel_map by (rule list_all2_mono) (rule evaluate_insertion[OF _ p(3)])
  note texts = this
  from candidates_of_texts[OF this] obtain ps where ps: "length ps = length ?cs"
    "distinct_candidates outcomes = map (\<lambda>i. (i, ?cs ! i, ps ! i)) [0..<length ?cs]"
    "\<forall>i < length ?cs. \<forall>x \<in> set (ps ! i). found_at (insertion_text sc) (?cs ! i) x"
    by blast
  let ?w = "distinct_candidates outcomes"
  have len: "length outcomes = length vs" using mapR_length[OF o] by simp
  have w: "distinct (map fst ?w)" "?w \<noteq> []" using vs by (simp_all add: ps comp_def)
  have "0 \<in> set (independent_text_positions ?w)"
  proof -
    have "(0, outcomes ! 0) \<in> set (enumerate 0 outcomes)" using vs len by (force simp: in_set_enumerate_eq)
    then have "outcome_entry (independent_text_positions ?w) 0 (outcomes ! 0) \<in> set (predicate_results outcomes)"
      by (force simp: predicate_results_def)
    with all v have "mget (outcome_entry (independent_text_positions ?w) 0 (outcomes ! 0)) ''result'' = JStr ''MATCH''"
      by (auto simp: all_match_def list_all_iff)
    moreover have "\<exists>p b s x positions. outcomes ! 0 = (p, ScoredPredicate b s (Some (x, positions)))"
      using list_all2_nthD[OF texts, of 0] vs by auto
    ultimately show ?thesis
      by (auto simp: outcome_entry_def result_entry_def mget_def dget_Cons split: if_splits)
  qed
  then have "independent_text_positions ?w \<noteq> []" by auto
  with independent_search[OF w] obtain f where f: "apart f (set ?w)" by blast
  have "own_places (insertion_text sc) ?cs f"
    unfolding own_places_def
  proof (intro conjI allI impI)
    fix i assume i: "i < length ?cs"
    then have ci: "(i, ?cs ! i, ps ! i) \<in> set ?w" unfolding ps(2) by force
    with f have "f i \<in> set (ps ! i)" unfolding apart_def by fastforce
    with ps(3) i show "found_at (insertion_text sc) (?cs ! i) (f i)" by blast
    fix j assume "j < length ?cs" "i \<noteq> j"
    moreover then have "(j, ?cs ! j, ps ! j) \<in> set ?w" unfolding ps(2) by force
    ultimately show "\<not> overlaps (f i, f i + length (?cs ! i)) (f j, f j + length (?cs ! j))"
      using f ci unfolding apart_def interval_of_def by fastforce
  qed
  with t sc show ?thesis by blast
qed

lemma unscoped_insertions:
  assumes "insertion_proofs env ri state path content = Inr es" "or_empty (ri_insertions ri) path \<noteq> []"
    "\<not> scoped (or_empty (ri_postconditions ri) path)"
  shows "\<exists>v. evaluate_path_predicates env (insertion_inspection ri path content
        (or_empty (ri_insertions ri) path) (region_json ri path) True) = Inr v
    \<and> all_match (as_list (dget v ''predicateResults'')) \<and> content \<noteq> JNull"
proof -
  let ?vs = "or_empty (ri_insertions ri) path"
  let ?ip = "insertion_inspection ri path content ?vs (region_json ri path) True"
  have scope: "mget (JObj [(''region'', r)]) ''selectionId'' = JNull" "mget (JObj [(''region'', r)]) ''region'' = r" for r
    by (simp_all add: mget_def dget_Cons) (simp add: dget_def)
  obtain v where v: "evaluate_path_predicates env ?ip = Inr v" "content \<noteq> JNull"
    and m: "all_match (map2 (\<lambda>v r. JObj [(''value'', JStr v), (''result'', mget r ''result'')]) ?vs
      (as_list (dget v ''predicateResults'')))"
    using assms(2,3,1) by (auto simp: insertion_proofs_def Let_def scope bindR_eq_Inr)
  obtain t sc outcomes bytes where o: "mapR (evaluate_predicate ?ip t bytes sc) (pi_predicates ?ip) = Inr outcomes"
    and d: "dget v ''predicateResults'' = JList (predicate_results outcomes)"
    using evaluate_path_predicates_Inr[OF v(1)] by blast
  have "length (predicate_results outcomes) = length ?vs"
    using mapR_length[OF o] by (simp add: predicate_results_def Let_def insertion_inspection_def inspection_of_def)
  with m d have "all_match (as_list (dget v ''predicateResults''))"
    by (auto simp: all_match_def list_all_length mget_def dget_Cons)
  with v show ?thesis by blast
qed

lemma by_path_Inr:
  assumes "by_path items paths d u = Inr m"
  shows "set (map fst m) = set paths \<and> distinct (map fst m)"
proof -
  let ?keys = "map (\<lambda>i. dget i ''path'') items"
  have k: "py_distinct ?keys" "set ?keys = JStr ` set paths" and m: "m = zip (map as_str ?keys) items"
    using assms by (auto simp: by_path_def Let_def bindR_eq_Inr)
  have d: "distinct (map as_str ks)" if "py_distinct ks" "\<forall>x \<in> set ks. is_str x" for ks
    using that
  proof (induction ks rule: py_distinct.induct)
    case (2 x xs)
    obtain s where s: "x = JStr s" using 2(3) by (cases x) auto
    have "JStr s \<notin> set xs" using 2(2) by (auto simp: list_all_iff s)
    moreover have "as_str y = s \<longrightarrow> y = JStr s" if "y \<in> set xs" for y using 2(3) that by (cases y) auto
    ultimately show ?case using 2 by (auto simp: s)
  qed simp
  have "\<forall>x \<in> set ?keys. is_str x" using k(2) by auto
  with d k(1) have "distinct (map as_str ?keys)" by blast
  moreover have "as_str ` set ?keys = set paths" using k(2) by (simp add: image_image)
  ultimately show ?thesis by (simp add: m map_fst_zip image_image)
qed

lemma reconcile_path_Inr:
  assumes "reconcile_path env ri targets dispositions path = Inr r"
  shows "\<exists>p es digest. (fst r = ''CHANGE'' \<and> change_proof env ri path = Inr p
      \<or> fst r = ''NO_CHANGE'' \<and> no_change_proof env ri path (the (map_of targets path)) = Inr p)
    \<and> insertion_proofs env ri (fst r) path (postimage ri path (dget (the (map_of targets path)) ''content'')) = Inr es
    \<and> digest_of_output env (postimage ri path (dget (the (map_of targets path)) ''content'')) = Inr digest
    \<and> dget (snd r) ''path'' = JStr path \<and> dget (snd r) ''outputSha256'' = digest
    \<and> dget (snd r) ''postconditionProof'' = JObj p"
  using assms
  by (auto simp: reconcile_path_def Let_def bindR_eq_Inr dget_Cons split: if_splits)

text \<open>What is read of a reconciliation: one state for each path, and the record of each.\<close>

definition strings_of :: "json \<Rightarrow> string list" where
  "strings_of v = map as_str (as_list v)"

definition path_record_typed :: "reconciliation \<Rightarrow> json \<Rightarrow> bool" where
  "path_record_typed ri r \<longleftrightarrow>
     (let d = as_dict r; gone = as_str (dget d ''path'') \<in> set (ri_deleted ri) in
      is_mapping r \<and> is_str (dget d ''path'') \<and> is_str (dget d ''targetSha256'')
      \<and> (dget d ''disposition'' = JStr ''CHANGE'' \<or> dget d ''disposition'' = JStr ''NO_CHANGE'')
      \<and> (dget d ''outputSha256'' = JNull \<or> is_str (dget d ''outputSha256'') \<and> \<not> gone)
      \<and> dget d ''postState'' = JStr (if gone then ''ABSENT'' else ''PRESENT'')
      \<and> is_mapping (dget d ''postconditionProof'')
      \<and> all_match (as_list (mget (dget d ''postconditionProof'') ''predicateResults''))
      \<and> is_list (dget d ''requiredInsertionProof'') \<and> all_match (as_list (dget d ''requiredInsertionProof'')))"

definition reconciliation_typed :: "reconciliation \<Rightarrow> dict \<Rightarrow> bool" where
  "reconciliation_typed ri v \<longleftrightarrow>
     (let effective = strings_of (dget v ''effectiveRequiredPaths''); kept = strings_of (dget v ''verifiedNoChangePaths'');
          records = as_list (dget v ''pathDispositions'') in
      list_all is_str (as_list (dget v ''effectiveRequiredPaths'')) \<and> list_all is_str (as_list (dget v ''verifiedNoChangePaths''))
      \<and> distinct effective \<and> distinct kept \<and> set effective \<inter> set kept = {}
      \<and> set effective \<union> set kept = set (ri_original ri)
      \<and> map (\<lambda>r. mget r ''path'') records = map JStr (path_order (ri_original ri))
      \<and> list_all (path_record_typed ri) records
      \<and> (\<forall>r \<in> set records. mget r ''disposition'' = JStr ''CHANGE'' \<longleftrightarrow> as_str (mget r ''path'') \<in> set effective))"

lemma change_proof_matches: "change_proof env ri path = Inr p \<Longrightarrow> all_match (as_list (dget p ''predicateResults''))"
  by (auto simp: change_proof_def bindR_eq_Inr)

lemma no_change_proof_matches: "no_change_proof env ri path t = Inr p \<Longrightarrow> all_match (as_list (dget p ''predicateResults''))"
  by (auto simp: no_change_proof_def bindR_eq_Inr)

lemma insertion_proofs_match: "insertion_proofs env ri state path content = Inr es \<Longrightarrow> all_match es"
  by (auto simp: insertion_proofs_def Let_def bindR_eq_Inr all_match_def split: if_splits)

lemma reconcile_path_typed:
  assumes "reconcile_path env ri targets dispositions path = Inr r"
  shows "path_record_typed ri (JObj (snd r)) \<and> dget (snd r) ''path'' = JStr path
    \<and> dget (snd r) ''disposition'' = JStr (fst r) \<and> fst r \<in> {''CHANGE'', ''NO_CHANGE''}"
proof -
  let ?c = "dget (the (map_of targets path)) ''content''"
  obtain state digest p es d where q: "r = (state, [(''path'', JStr path), (''disposition'', JStr state), (''targetSha256'', JStr digest),
        (''outputSha256'', d), (''postState'', JStr (if path \<in> set (ri_deleted ri) then ''ABSENT'' else ''PRESENT'')),
        (''postconditionProof'', JObj p), (''requiredInsertionProof'', JList es)])"
    and state: "state = ''CHANGE'' \<or> state = ''NO_CHANGE''"
    and m: "all_match (as_list (dget p ''predicateResults''))" "all_match es"
    and d: "digest_of_output env (postimage ri path ?c) = Inr d"
    using assms unfolding reconcile_path_def Let_def bindR_eq_Inr
    by (fastforce dest: change_proof_matches no_change_proof_matches insertion_proofs_match split: if_splits)
  have "d = JNull \<or> is_str d \<and> path \<notin> set (ri_deleted ri)"
    using d by (auto simp: digest_of_output_def postimage_def split: json.splits if_splits)
  moreover have "path_record_typed ri (JObj (snd r)) \<longleftrightarrow> d = JNull \<or> is_str d \<and> path \<notin> set (ri_deleted ri)"
    using state m by (simp add: q path_record_typed_def mget_def Let_def dget_Cons)
  ultimately show ?thesis using state by (simp add: q dget_Cons)
qed

lemma path_order_set: "set (path_order ps) = set ps" "distinct (path_order ps) = distinct ps"
  by (simp_all add: path_order_def)

lemma path_order_unique:
  assumes "set ps = set qs" "distinct ps" "distinct qs"
  shows "path_order ps = path_order qs"
proof -
  let ?k = "\<lambda>p :: string. (casefold p, p)"
  have k: "inj ?k" by (simp add: inj_on_def)
  have "map ?k (path_order ps) = map ?k (path_order qs)"
    using assms by (intro sorted_distinct_set_unique)
      (simp_all add: path_order_def distinct_map inj_on_def)
  then show ?thesis using k by (simp add: inj_map_eq_map)
qed

text \<open>The reconciliation of a run is that of each of its paths, in order.\<close>

lemma reconcile_dispositions_Inr:
  assumes "reconcile_dispositions env ri = Inr v"
  shows "\<exists>targets dispositions rs. mapR (reconcile_path env ri targets dispositions) (path_order (ri_original ri)) = Inr rs
    \<and> distinct (ri_original ri)
    \<and> dget v ''effectiveRequiredPaths'' = JList (paths_in_state ''CHANGE'' rs)
    \<and> dget v ''verifiedNoChangePaths'' = JList (paths_in_state ''NO_CHANGE'' rs)
    \<and> dget v ''pathDispositions'' = JList (map (\<lambda>r. JObj (snd r)) rs)
    \<and> by_path (ri_targets ri) (ri_original ri) ''editable targets contain duplicate paths''
        ''reconciliation targets must exactly cover the original required paths'' = Inr targets"
proof -
  obtain targets dispositions rs where t: "by_path (ri_targets ri) (ri_original ri) ''editable targets contain duplicate paths''
        ''reconciliation targets must exactly cover the original required paths'' = Inr targets"
    and d: "distinct (ri_original ri)"
    and rs: "mapR (reconcile_path env ri targets dispositions) (path_order (map fst targets)) = Inr rs"
    and v: "dget v ''effectiveRequiredPaths'' = JList (paths_in_state ''CHANGE'' rs)"
      "dget v ''verifiedNoChangePaths'' = JList (paths_in_state ''NO_CHANGE'' rs)"
      "dget v ''pathDispositions'' = JList (map (\<lambda>r. JObj (snd r)) rs)"
    using assms by (fastforce simp: reconcile_dispositions_def Let_def bindR_eq_Inr dget_Cons)
  have "path_order (map fst targets) = path_order (ri_original ri)"
    using by_path_Inr[OF t] d by (intro path_order_unique) auto
  with t d rs v show ?thesis by auto
qed

lemma reconciliation_well_typed:
  assumes "reconcile_dispositions env ri = Inr v"
  shows "reconciliation_typed ri v"
proof -
  obtain targets dispositions rs where
      m: "mapR (reconcile_path env ri targets dispositions) (path_order (ri_original ri)) = Inr rs"
    and d: "distinct (ri_original ri)"
    and v: "dget v ''effectiveRequiredPaths'' = JList (paths_in_state ''CHANGE'' rs)"
      "dget v ''verifiedNoChangePaths'' = JList (paths_in_state ''NO_CHANGE'' rs)"
      "dget v ''pathDispositions'' = JList (map (\<lambda>r. JObj (snd r)) rs)"
    using reconcile_dispositions_Inr[OF assms] by blast
  let ?ps = "path_order (ri_original ri)"
  define key where "key r = as_str (dget (snd r) ''path'')" for r :: "string \<times> dict"
  have each: "list_all2 (\<lambda>p r. path_record_typed ri (JObj (snd r)) \<and> dget (snd r) ''path'' = JStr p
      \<and> dget (snd r) ''disposition'' = JStr (fst r) \<and> fst r \<in> {''CHANGE'', ''NO_CHANGE''}) ?ps rs"
    using m unfolding mapR_Inr by (rule list_all2_mono) (rule reconcile_path_typed)
  then have r: "path_record_typed ri (JObj (snd r)) \<and> dget (snd r) ''path'' = JStr (key r)
      \<and> dget (snd r) ''disposition'' = JStr (fst r) \<and> fst r \<in> {''CHANGE'', ''NO_CHANGE''}" if "r \<in> set rs" for r
    using that by (auto simp: key_def list_all2_conv_all_nth in_set_conv_nth)
  have keys: "map key rs = ?ps"
    using each by (auto simp: key_def list_all2_conv_all_nth intro!: nth_equalityI)
  then have dk: "distinct (map key rs)" "key ` set rs = set (ri_original ri)"
    using d path_order_set by (simp, metis list.set_map path_order_set(1))
  have state: "strings_of (JList (paths_in_state s rs)) = map key (filter (\<lambda>r. fst r = s) rs)"
      "list_all is_str (paths_in_state s rs)" for s
  proof -
    have "is_str (dget (snd r) ''path'')" if "r \<in> set rs" for r using r[OF that] by auto
    then show "list_all is_str (paths_in_state s rs)" by (auto simp: paths_in_state_def list_all_iff)
  qed (simp add: strings_of_def paths_in_state_def key_def comp_def)
  have inj: "inj_on key (set rs)" using dk(1) by (simp add: distinct_map)
  have sub: "distinct (map key (filter P rs))" for P
    using dk(1) by (simp add: distinct_map inj_on_def)
  show ?thesis
    unfolding reconciliation_typed_def Let_def v state
  proof (intro conjI)
    show "set (map key (filter (\<lambda>r. fst r = ''CHANGE'') rs)) \<inter> set (map key (filter (\<lambda>r. fst r = ''NO_CHANGE'') rs)) = {}"
      using inj_onD[OF inj] by (fastforce simp only: set_map set_filter)
    show "set (map key (filter (\<lambda>r. fst r = ''CHANGE'') rs)) \<union> set (map key (filter (\<lambda>r. fst r = ''NO_CHANGE'') rs)) = set (ri_original ri)"
    proof -
      have "\<forall>r \<in> set rs. fst r = ''CHANGE'' \<or> fst r = ''NO_CHANGE''" using r by blast
      then show ?thesis using dk(2) by (simp only: set_map set_filter) blast
    qed
    show "map (\<lambda>r. mget r ''path'') (as_list (JList (map (\<lambda>r. JObj (snd r)) rs))) = map JStr ?ps"
      using keys[symmetric] r by (auto simp: mget_def)
    show "list_all (path_record_typed ri) (as_list (JList (map (\<lambda>r. JObj (snd r)) rs)))"
      using r by (simp add: list_all_iff)
    show "\<forall>r \<in> set (as_list (JList (map (\<lambda>r. JObj (snd r)) rs))). mget r ''disposition'' = JStr ''CHANGE''
        \<longleftrightarrow> as_str (mget r ''path'') \<in> set (map key (filter (\<lambda>r. fst r = ''CHANGE'') rs))"
      proof -
      have "dget (snd q) ''disposition'' = JStr ''CHANGE''
          \<longleftrightarrow> as_str (dget (snd q) ''path'') \<in> set (map key (filter (\<lambda>r. fst r = ''CHANGE'') rs))" if q: "q \<in> set rs" for q
      proof -
        have "key q \<in> key ` {r \<in> set rs. fst r = ''CHANGE''} \<longleftrightarrow> fst q = ''CHANGE''"
          using inj_on_image_mem_iff[OF inj q, of "{r \<in> set rs. fst r = ''CHANGE''}"] q by simp
        moreover have "as_str (dget (snd q) ''path'') = key q" by (simp only: key_def)
        ultimately show ?thesis using r[OF q] by simp
      qed
      then show ?thesis by (simp add: mget_def)
    qed
  qed (use state sub in simp_all)
qed

text \<open>The text a run leaves at a path: what was proposed, or else what the target holds.\<close>

definition target_content :: "reconciliation \<Rightarrow> string \<Rightarrow> json" where
  "target_content ri path = (case find (\<lambda>t. dget t ''path'' = JStr path) (ri_targets ri) of
     None \<Rightarrow> JNull | Some t \<Rightarrow> dget t ''content'')"

lemma by_path_target:
  assumes "by_path (ri_targets ri) paths d u = Inr m" "path \<in> set paths"
  shows "dget (the (map_of m path)) ''content'' = target_content ri path"
proof -
  let ?keys = "map (\<lambda>i. dget i ''path'') (ri_targets ri)"
  have s: "set ?keys = JStr ` set paths" and m: "m = zip (map as_str ?keys) (ri_targets ri)"
    using assms by (auto simp: by_path_def Let_def bindR_eq_Inr)
  have "map_of (zip (map (\<lambda>i. as_str (dget i ''path'')) ts) ts) path = find (\<lambda>t. dget t ''path'' = JStr path) ts"
    if "\<forall>t \<in> set ts. \<exists>p. dget t ''path'' = JStr p" for ts
    using that by (induction ts) auto
  moreover have strs: "\<forall>t \<in> set (ri_targets ri). \<exists>p. dget t ''path'' = JStr p" using s by auto
  ultimately have "map_of m path = find (\<lambda>t. dget t ''path'' = JStr path) (ri_targets ri)"
    by (simp add: m comp_def)
  moreover have "find (\<lambda>t. dget t ''path'' = JStr path) (ri_targets ri) \<noteq> None"
  proof -
    have "JStr path \<in> set ?keys" using s assms(2) by simp
    then show ?thesis by (auto simp: find_None_iff image_iff)
  qed
  ultimately show ?thesis by (auto simp: target_content_def)
qed

lemma reconciled_places:
  assumes "reconcile_dispositions env ri = Inr v" "path \<in> set (ri_original ri)"
    "or_empty (ri_insertions ri) path \<noteq> []" "\<not> scoped (or_empty (ri_postconditions ri) path)"
  shows "\<exists>t sc f. postimage ri path (target_content ri path) = JStr t
    \<and> scope_of (insertion_inspection ri path (JStr t) (or_empty (ri_insertions ri) path) (region_json ri path) True) t = Inr sc
    \<and> own_places (insertion_text sc) (map canonical_insertion (or_empty (ri_insertions ri) path)) f"
proof -
  obtain targets dispositions rs where
      m: "mapR (reconcile_path env ri targets dispositions) (path_order (ri_original ri)) = Inr rs"
    and t: "by_path (ri_targets ri) (ri_original ri) ''editable targets contain duplicate paths''
        ''reconciliation targets must exactly cover the original required paths'' = Inr targets"
    using reconcile_dispositions_Inr[OF assms(1)] by blast
  from m assms(2) obtain r where "reconcile_path env ri targets dispositions path = Inr r"
    by (fastforce simp: mapR_Inr list_all2_conv_all_nth in_set_conv_nth path_order_set(1)[symmetric, of "ri_original ri"])
  from reconcile_path_Inr[OF this] obtain es state where
    "insertion_proofs env ri state path (postimage ri path (target_content ri path)) = Inr es"
    unfolding by_path_target[OF t assms(2)] by blast
  from unscoped_insertions[OF this assms(3,4)] insertion_evidence[OF _ _ assms(3)] show ?thesis
    by (metis)
qed

definition sample_digests :: environment where
  "sample_digests = \<lparr>env_sha256 = (\<lambda>s. s), env_uuid5 = (\<lambda>s. s), env_iso = (\<lambda>s. None), env_schema = (\<lambda>n j. [])\<rparr>"

definition sample_reconciliation :: reconciliation where
  "sample_reconciliation =
     \<lparr>ri_plan_id = ''plan'', ri_revision = ''r1'', ri_original = [''b.py'', ''a.py''],
      ri_targets = [[(''path'', JStr ''a.py''), (''repositoryRevision'', JStr ''r1''), (''preimageSha256'', JStr ''x''),
          (''content'', JStr ''x'')],
        [(''path'', JStr ''b.py''), (''repositoryRevision'', JStr ''r1''), (''preimageSha256'', JStr ''y''),
          (''content'', JStr ''y'')]],
      ri_dispositions = [[(''path'', JStr ''a.py''), (''disposition'', JStr ''CHANGE'')],
        [(''path'', JStr ''b.py''), (''disposition'', JStr ''NO_CHANGE'')]],
      ri_postconditions = [(''a.py'', [JObj [(''kind'', JStr ''TEXT_PRESENT''), (''value'', JStr ''one'')]]),
        (''b.py'', [JObj [(''kind'', JStr ''TEXT_ABSENT''), (''value'', JStr ''x'')]])],
      ri_evaluator = [], ri_proposed = [(''a.py'', JStr ''one; one'')], ri_deleted = [],
      ri_insertions = [(''a.py'', [''one'', ''one''])], ri_regions = [], ri_max = 100\<rparr>"

definition sample_reconciled :: dict where
  "sample_reconciled = (case reconcile_dispositions sample_digests sample_reconciliation of Inr v \<Rightarrow> v | Inl _ \<Rightarrow> [])"

lemma sample_reconciles: "reconcile_dispositions sample_digests sample_reconciliation = Inr sample_reconciled"
proof -
  have "case reconcile_dispositions sample_digests sample_reconciliation of Inr _ \<Rightarrow> True | Inl _ \<Rightarrow> False" by code_simp
  then show ?thesis by (simp add: sample_reconciled_def split: sum.splits)
qed

text \<open>
  C23. When the dispositions of a plan are reconciled, the insertions that are required of a path
  whose postconditions are flat are in the text the run leaves there, inside the region they
  are confined to, each where it is said to be and none over another; the text is not deleted.
\<close>

theorem reconciled_insertions:
  assumes "reconcile_dispositions env ri = Inr v" "path \<in> set (ri_original ri)"
    "or_empty (ri_insertions ri) path \<noteq> []" "\<not> scoped (or_empty (ri_postconditions ri) path)"
  shows "\<exists>t sc f. postimage ri path (target_content ri path) = JStr t
    \<and> scope_of (insertion_inspection ri path (JStr t) (or_empty (ri_insertions ri) path) (region_json ri path) True) t = Inr sc
    \<and> own_places (insertion_text sc) (map canonical_insertion (or_empty (ri_insertions ri) path)) f"
  using reconciled_places[OF assms] .

theorem reconciled_insertions_witness:
  "\<exists>t sc f. postimage sample_reconciliation ''a.py'' (target_content sample_reconciliation ''a.py'') = JStr t
    \<and> scope_of (insertion_inspection sample_reconciliation ''a.py'' (JStr t) [''one'', ''one''] JNull True) t = Inr sc
    \<and> own_places (insertion_text sc) (map canonical_insertion [''one'', ''one'']) f"
proof -
  have "or_empty (ri_insertions sample_reconciliation) ''a.py'' = [''one'', ''one'']"
      "region_json sample_reconciliation ''a.py'' = JNull" "''a.py'' \<in> set (ri_original sample_reconciliation)"
      "\<not> scoped (or_empty (ri_postconditions sample_reconciliation) ''a.py'')"
    by code_simp+
  then show ?thesis
    using reconciled_insertions[OF sample_reconciles, of "''a.py''"] by simp
qed

text \<open>
  C16. A reconciliation record is well typed: each required path is either effective or unchanged,
  never both, it has one record in the canonical order of the paths, whose disposition says
  the same, whose digest is missing when the path is deleted, and all of whose proofs match.
\<close>

theorem reconciliation_is_typed:
  assumes "reconcile_dispositions env ri = Inr v"
  shows "reconciliation_typed ri v"
  using reconciliation_well_typed[OF assms] .

theorem reconciliation_is_typed_witness: "reconciliation_typed sample_reconciliation sample_reconciled"
  by (rule reconciliation_is_typed[OF sample_reconciles])

end
