(* ===== verification/GitInvocations.thy ===== *)
theory GitInvocations
  imports StoreInterface CanonicalText ToolRuntime
begin

text \<open>
  Persisted Git invocations (\<open>GitTool\<close> of \<open>git_tool.py\<close>): an invocation is recorded as pending under a
  deterministic key, run by whoever recorded it, and completed with its result; any other caller
  is given what is on record.  The adapter that drives Git is the \<open>tool_runtime\<close>; the store,
  \<open>uuid4\<close>, the clock and what happens while a caller sleeps are parameters.
\<close>

section \<open>Records\<close>

fun tool_status_value :: "tool_status \<Rightarrow> string" where
  "tool_status_value TOOL_SUCCEEDED = ''SUCCEEDED''"
| "tool_status_value TOOL_FAILED = ''FAILED''"
| "tool_status_value TOOL_DENIED = ''DENIED''"
| "tool_status_value TOOL_TIMED_OUT = ''TIMED_OUT''"

fun failure_class_value :: "tool_failure_class \<Rightarrow> string" where
  "failure_class_value VALIDATION = ''VALIDATION''"
| "failure_class_value POLICY_DENIED = ''POLICY''"
| "failure_class_value TIMEOUT = ''TIMEOUT''"
| "failure_class_value ADAPTER = ''ADAPTER''"
| "failure_class_value STARTUP = ''STARTUP''"
| "failure_class_value NONZERO_EXIT = ''NONZERO_EXIT''"
| "failure_class_value BOUNDARY = ''BOUNDARY''"
| "failure_class_value NOT_FOUND = ''NOT_FOUND''"
| "failure_class_value IO_FAILURE = ''IO''"
| "failure_class_value CONFIGURATION_FAILURE = ''CONFIGURATION''"

text \<open>\<open>ToolResultStatus(value)\<close> and \<open>ToolFailureClass(value)\<close>.\<close>

definition tool_status_of :: "string \<Rightarrow> exn + tool_status" where
  "tool_status_of v =
     (case find (\<lambda>s. tool_status_value s = v) [TOOL_SUCCEEDED, TOOL_FAILED, TOOL_DENIED, TOOL_TIMED_OUT] of
        None \<Rightarrow> Inl (value_error (repr_str v @ '' is not a valid ToolResultStatus'')) | Some s \<Rightarrow> Inr s)"

definition failure_class_of :: "string \<Rightarrow> exn + tool_failure_class" where
  "failure_class_of v =
     (case find (\<lambda>c. failure_class_value c = v)
        [VALIDATION, POLICY_DENIED, TIMEOUT, ADAPTER, STARTUP, NONZERO_EXIT, BOUNDARY, NOT_FOUND, IO_FAILURE,
         CONFIGURATION_FAILURE] of
        None \<Rightarrow> Inl (value_error (repr_str v @ '' is not a valid ToolFailureClass'')) | Some c \<Rightarrow> Inr c)"

definition caller_record :: "tool_caller \<Rightarrow> json" where
  "caller_record c = JObj [(''kind'', JStr (caller_kind c)), (''id'', JStr (caller_id c))]"

definition git_request_fingerprint :: "environment \<Rightarrow> string \<Rightarrow> tool_request \<Rightarrow> string option \<Rightarrow> string" where
  "git_request_fingerprint env task request decision =
     ''sha256:'' @ env_sha256 env (json_text True (JObj
       [(''taskExecutionId'', JStr task), (''toolRef'', JObj (tq_ref request)), (''input'', JObj (tq_input request)),
        (''caller'', caller_record (tq_caller request)), (''capabilities'', JList (map JStr (tq_capabilities request))),
        (''timeoutMs'', JInt (tq_timeout request)),
        (''correlation'', JObj [(''traceId'', JStr (cor_trace (tq_correlation request))),
           (''workflowExecutionId'', JStr (cor_workflow (tq_correlation request))),
           (''taskExecutionId'', opt_str (cor_task (tq_correlation request)))]),
        (''policyDecisionId'', opt_str decision)]))"

definition git_pending_record ::
  "string \<Rightarrow> string \<Rightarrow> tool_request \<Rightarrow> string \<Rightarrow> string option \<Rightarrow> string \<Rightarrow> string \<Rightarrow> exn + dict" where
  "git_pending_record invocation_id task request fingerprint decision timestamp owner =
     bindR (getitem (tq_input request) ''expectedRevision'') (\<lambda>revision.
     Inr ([(''apiVersion'', JStr ''aep.dev/v1alpha1''), (''kind'', JStr ''ToolInvocation''), (''id'', JStr invocation_id),
        (''traceId'', JStr (cor_trace (tq_correlation request))), (''createdAt'', JStr timestamp),
        (''updatedAt'', JStr timestamp),
        (''provenance'', JObj [(''actor'', JStr ''tool-runtime''),
           (''caller'', JStr (caller_kind (tq_caller request) @ '':'' @ caller_id (tq_caller request))),
           (''workflowExecutionId'', JStr (cor_workflow (tq_correlation request))),
           (''taskExecutionId'', JStr task), (''resourceRefs'', JList [JObj (tq_ref request)]),
           (''repositoryRevision'', revision)]),
        (''taskExecutionId'', JStr task), (''toolRef'', JObj (tq_ref request)), (''status'', JStr ''PENDING''),
        (''input'', JObj (tq_input request)), (''capabilities'', JList (map JStr (tq_capabilities request))),
        (''requestFingerprint'', JStr fingerprint), (''ownerToken'', JStr owner)]
       @ (if caller_kind (tq_caller request) = ''AgentInvocation''
          then [(''agentInvocationId'', JStr (caller_id (tq_caller request)))] else [])
       @ (case decision of None \<Rightarrow> [] | Some d \<Rightarrow> [(''policyDecisionId'', JStr d)])))"

definition content_address_ref :: "string option \<Rightarrow> bool" where
  "content_address_ref v =
     (case v of None \<Rightarrow> False
      | Some s \<Rightarrow>
          let algorithm = takeWhile (\<lambda>c. c \<noteq> CHR '':'') s; rest = dropWhile (\<lambda>c. c \<noteq> CHR '':'') s; digest = tl rest in
          rest \<noteq> [] \<and> (case map_of [(''sha256'', 64), (''sha512'', 128)] algorithm of
             None \<Rightarrow> False | Some n \<Rightarrow> length digest = (n :: nat))
          \<and> list_all (\<lambda>c. c \<in> set ''0123456789abcdef'') digest)"

text \<open>A result of the class \<open>CONFIGURATION\<close> has no entry: \<open>KeyError\<close>.\<close>

definition git_runtime_failure_class :: "tool_failure_class \<Rightarrow> exn + string" where
  "git_runtime_failure_class c =
     (case c of
        VALIDATION \<Rightarrow> Inr ''CONFIGURATION'' | POLICY_DENIED \<Rightarrow> Inr ''POLICY'' | TIMEOUT \<Rightarrow> Inr ''RECOVERABLE''
      | IO_FAILURE \<Rightarrow> Inr ''RECOVERABLE'' | BOUNDARY \<Rightarrow> Inr ''POLICY'' | NOT_FOUND \<Rightarrow> Inr ''PERMANENT''
      | STARTUP \<Rightarrow> Inr ''RECOVERABLE'' | NONZERO_EXIT \<Rightarrow> Inr ''PERMANENT'' | ADAPTER \<Rightarrow> Inr ''PERMANENT''
      | CONFIGURATION_FAILURE \<Rightarrow> Inl (Exn KeyError ''ToolFailureClass.CONFIGURATION'' JNull))"

definition result_message :: "tool_result \<Rightarrow> tool_failure_class \<Rightarrow> string" where
  "result_message r c = (case tr_message r of None \<Rightarrow> failure_class_value c
     | Some m \<Rightarrow> if m = [] then failure_class_value c else m)"

definition git_terminal_changes :: "tool_result \<Rightarrow> exn + dict" where
  "git_terminal_changes r =
     bindR (case tr_class r of None \<Rightarrow> Inr []
            | Some c \<Rightarrow> bindR (git_runtime_failure_class c) (\<lambda>cls.
                Inr [(''failureClass'', JStr (failure_class_value c)),
                  (''failure'', JObj [(''class'', JStr cls), (''message'', JStr (result_message r c)),
                     (''retryable'', JBool (c = IO_FAILURE \<or> c = TIMEOUT))])])) (\<lambda>failure.
     Inr ([(''resultStatus'', JStr (tool_status_value (tr_status r))), (''output'', tr_output r),
        (''metrics'', JObj (metrics_record (tr_metrics r))), (''startedAt'', JStr (tr_started r))]
       @ (if content_address_ref (tr_logs r) then [(''logsAddress'', opt_str (tr_logs r))]
          else case tr_logs r of None \<Rightarrow> [] | Some l \<Rightarrow> [(''adapterLogsRef'', JStr l)])
       @ failure))"

definition int_value :: "json \<Rightarrow> int option" where
  "int_value v = (if is_int v then Some (as_int v) else None)"

text \<open>What a completed record says of its result; the fields are those \<open>git_terminal_changes\<close> writes.\<close>

definition git_result_from_invocation :: "dict \<Rightarrow> exn + tool_result" where
  "git_result_from_invocation record_of =
     (let metrics = dget_or record_of ''metrics'' (JObj []); cls = dget record_of ''failureClass''; failure = dget record_of ''failure'';
          logs = py_or (dget record_of ''logsAddress'') (dget record_of ''adapterLogsRef'') in
      bindR (getitem record_of ''resultStatus'') (\<lambda>status_value.
      bindR (tool_status_of (py_str status_value)) (\<lambda>status.
      bindR (new_metrics (case int_value (mget metrics ''durationMs'') of None \<Rightarrow> 0 | Some n \<Rightarrow> n)
        (int_value (mget metrics ''cpuMs'')) (int_value (mget metrics ''memoryBytes''))) (\<lambda>ms.
      bindR (getitem record_of ''startedAt'') (\<lambda>started.
      bindR (getitem record_of ''completedAt'') (\<lambda>completed.
      bindR (if truthy cls then bindR (failure_class_of (py_str cls)) (\<lambda>c. Inr (Some c)) else Inr None) (\<lambda>failure_class.
      new_tool_result status (dget record_of ''output'') (if is_str logs then Some (as_str logs) else None) ms
        (py_str started) (py_str completed) failure_class
        (if is_mapping failure \<and> is_str (mget failure ''message'') then Some (as_str (mget failure ''message'')) else None))))))))"

section \<open>Invocation\<close>

record 's git_tool =
  gt_store :: "'s store_ops"
  gt_runtime :: "'s tool_runtime"
  gt_validator :: tool_validator
  gt_uuid :: "('s, string) eff"
  gt_now :: "('s, string) eff"
  gt_polls :: nat
  gt_sleep :: "('s, unit) eff"
  gt_env :: environment

definition settled_invocation :: "dict \<Rightarrow> bool" where
  "settled_invocation v \<longleftrightarrow> in_strs (dget v ''status'') [''SUCCEEDED'', ''FAILED'']"

definition recorded_result :: "dict \<Rightarrow> ('s, tool_result \<times> dict) eff" where
  "recorded_result v = bindE (liftR (git_result_from_invocation v)) (\<lambda>r. ret (r, v))"

text \<open>The deadline is reached after \<open>n\<close> polls.\<close>

fun await_terminal :: "'s git_tool \<Rightarrow> string \<Rightarrow> nat \<Rightarrow> ('s, tool_result \<times> dict) eff" where
  "await_terminal gt invocation_id 0 =
     throw (Exn (OtherException ''GitInvocationInProgressError'')
       (''identical invocation '' @ repr_str invocation_id @ '' is still in progress'') JNull)"
| "await_terminal gt invocation_id (Suc n) =
     bindE (op_get (gt_store gt) invocation_id) (\<lambda>prior.
     case prior of
       Some v \<Rightarrow> if settled_invocation v then recorded_result v
                 else thenE (gt_sleep gt) (await_terminal gt invocation_id n)
     | None \<Rightarrow> thenE (gt_sleep gt) (await_terminal gt invocation_id n))"

definition git_run :: "'s git_tool \<Rightarrow> string \<Rightarrow> tool_request \<Rightarrow> ('s, tool_result) eff" where
  "git_run gt started_at request =
     catchE (invoke_tool (gt_runtime gt) (gt_validator gt) request) (\<lambda>e.
       bindE (gt_now gt) (\<lambda>completed_at.
       bindE (liftR (new_metrics 0 None None)) (\<lambda>metrics.
       liftR (new_tool_result TOOL_FAILED JNull None metrics started_at completed_at (Some ADAPTER)
         (Some (error_text e))))))"

definition git_complete :: "'s git_tool \<Rightarrow> string \<Rightarrow> tool_result \<Rightarrow> ('s, tool_result \<times> dict) eff" where
  "git_complete gt invocation_id result =
     bindE (liftR (git_terminal_changes result)) (\<lambda>changes.
     bindE (op_update_status (gt_store gt) invocation_id
       (if tr_status result = TOOL_SUCCEEDED then ''SUCCEEDED'' else ''FAILED'') (Some ''PENDING'')
       (Some (tr_completed result)) changes) (\<lambda>persisted.
     ret (result, persisted)))"

definition git_invoke ::
  "'s git_tool \<Rightarrow> string \<Rightarrow> string \<Rightarrow> tool_request \<Rightarrow> string option \<Rightarrow> ('s, tool_result \<times> dict) eff" where
  "git_invoke gt invocation_id task request decision =
     bindE (liftR (bind_correlation (Context (tq_correlation request)) (Some task) None)) (\<lambda>_.
     let fingerprint = git_request_fingerprint (gt_env gt) task request decision in
     bindE (gt_uuid gt) (\<lambda>owner.
     bindE (gt_now gt) (\<lambda>started_at.
     bindE (liftR (git_pending_record invocation_id task request fingerprint decision started_at owner)) (\<lambda>pending.
     bindE (op_create (gt_store gt) (JObj pending) (''git-tool-invocation:'' @ invocation_id)) (\<lambda>created.
     if dget created ''requestFingerprint'' \<noteq> JStr fingerprint
     then throw (Exn (OtherException ''GitInvocationIdentityConflictError'')
            (''invocation id '' @ repr_str invocation_id @ '' is already bound to different immutable request inputs'') JNull)
     else if dget created ''ownerToken'' \<noteq> JStr owner
     then if settled_invocation created then recorded_result created
          else await_terminal gt invocation_id (gt_polls gt)
     else bindE (git_run gt started_at request) (git_complete gt invocation_id))))))"

section \<open>On the in-memory store\<close>

text \<open>The store is one half of the state, the world the adapter works on the other.\<close>

definition on_store :: "(store, 'a) eff \<Rightarrow> (store \<times> 'w, 'a) eff" where
  "on_store m = (\<lambda>(s, w). let (r, s') = m s in (r, (s', w)))"

definition world_store :: "string \<Rightarrow> (store \<times> 'w) store_ops" where
  "world_store wall =
     (let ops = in_memory_store wall in
      \<lparr>op_create = (\<lambda>j k. on_store (op_create ops j k)), op_append_event = (\<lambda>j. on_store (op_append_event ops j)),
       op_update_status = (\<lambda>i st e u c. on_store (op_update_status ops i st e u c)),
       op_append_task_execution_id = (\<lambda>w t u. on_store (op_append_task_execution_id ops w t u)),
       op_get = (\<lambda>i. on_store (op_get ops i)),
       op_list_by_workflow_execution = (\<lambda>w. on_store (op_list_by_workflow_execution ops w)),
       op_list_by_task_execution = (\<lambda>t. on_store (op_list_by_task_execution ops t)),
       op_atomic_task_transitions = op_atomic_task_transitions ops,
       op_commit_task_execution_transition = (\<lambda>a b c j d e f. on_store (op_commit_task_execution_transition ops a b c j d e f)),
       op_claim_task_dispatch = (\<lambda>a b c. on_store (op_claim_task_dispatch ops a b c)),
       op_wake_approved_task = (\<lambda>a b c. on_store (op_wake_approved_task ops a b c)),
       op_create_approval_request = (\<lambda>a b c d. on_store (op_create_approval_request ops a b c d))\<rparr>)"

definition same_store :: "store \<times> 'w \<Rightarrow> store \<times> 'w \<Rightarrow> bool" where
  "same_store x y \<longleftrightarrow> fst x = fst y"

interpretation same_store: step_rel same_store
  by unfold_locales (auto simp: same_store_def)

definition execution_apart :: "(store \<times> 'w) tool_execution \<Rightarrow> bool" where
  "execution_apart ex \<longleftrightarrow> (\<forall>t. keeps same_store (ex_wait ex t)) \<and> keeps same_store (ex_terminate ex)
     \<and> keeps same_store (ex_kill ex) \<and> keeps same_store (ex_cleanup ex)"

definition runtime_apart :: "(store \<times> 'w) tool_runtime \<Rightarrow> bool" where
  "runtime_apart rt \<longleftrightarrow> keeps same_store (rt_now rt) \<and> keeps same_store (rt_elapsed_ms rt)
     \<and> (\<forall>q. keeps same_store (rt_authorize rt q)) \<and> (\<forall>q. keeps same_store (rt_start rt q))
     \<and> (\<forall>q x ex y. rt_start rt q x = (Inr ex, y) \<longrightarrow> execution_apart ex)"

context step_rel
begin

lemma bindE_via:
  assumes "keeps R m" "\<And>x a y. m x = (Inr a, y) \<Longrightarrow> keeps R (f a)"
  shows "keeps R (bindE m f)"
proof (rule keepsI)
  fix s
  obtain r t where m: "m s = (r, t)" by (cases "m s")
  with assms(1) have "R s t" by (rule keepsD)
  show "R s (snd (bindE m f s))"
  proof (cases r)
    case (Inl e)
    with m \<open>R s t\<close> show ?thesis by (simp add: bindE_apply)
  next
    case (Inr a)
    with m assms(2) have "R t (snd (f a t))" by (simp add: keeps_def)
    with m Inr \<open>R s t\<close> show ?thesis by (simp add: bindE_apply trans [of s t])
  qed
qed

end

lemma tool_failure_apart: "runtime_apart rt \<Longrightarrow> keeps same_store (tool_failure rt t st cls msg)"
  unfolding tool_failure_def runtime_apart_def
  by (intro same_store.bindE same_store.liftR) simp_all

lemma stop_execution_apart: "execution_apart ex \<Longrightarrow> keeps same_store (stop_execution ex)"
  unfolding stop_execution_def execution_apart_def
  by (intro same_store.bindE same_store.thenE) (simp_all add: same_store.ret split: wait_outcome.split)

lemma run_started_apart:
  assumes rt: "runtime_apart rt" and ex: "execution_apart ex"
  shows "keeps same_store (run_started rt v t q ex)"
proof -
  have e: "keeps same_store (ex_wait ex n)" "keeps same_store (ex_cleanup ex)" for n
    using ex by (simp_all add: execution_apart_def)
  have "keeps same_store (await_result rt v t q ex)"
    unfolding await_result_def
    by (intro same_store.bindE e) (auto split: wait_outcome.split tool_status.split intro: same_store.rules stop_execution_apart[OF ex] tool_failure_apart[OF rt])
  then have n: "keeps same_store (normalized_result rt v t q ex)"
    unfolding normalized_result_def by (intro same_store.catchE) (simp_all add: tool_failure_apart[OF rt])
  have "keeps same_store (cleaned_result ex r)" for r
    unfolding cleaned_result_def
    by (intro same_store.bindE same_store.catchE same_store.thenE e same_store.rules) (auto simp: Let_def intro: same_store.rules split: option.split)
  then show ?thesis
    unfolding run_started_def
    by (intro same_store.bindE same_store.catchE same_store.thenE n e same_store.rules)
qed

lemma invoke_tool_apart:
  assumes rt: "runtime_apart rt"
  shows "keeps same_store (invoke_tool rt v q)"
proof -
  have r: "keeps same_store (rt_now rt)" "keeps same_store (rt_authorize rt q)" "keeps same_store (rt_start rt q)"
    using rt by (simp_all add: runtime_apart_def)
  have "keeps same_store (case w of Inl (cls, msg) \<Rightarrow> tool_failure rt t TOOL_FAILED cls msg | Inr ex \<Rightarrow> run_started rt v t q ex)"
    if "catchE (bindE (rt_start rt q) (\<lambda>ex. ret (Inr ex)))
                (\<lambda>e. if instance_of e ToolAdapterError
                     then ret (Inl (adapter_failure_class e, error_text e))
                     else ret (Inl (ADAPTER, error_text e))) x = (Inr w, y)" for t w x y
  proof (cases w)
    case (Inl c)
    then show ?thesis by (cases c) (simp add: tool_failure_apart[OF rt])
  next
    case (Inr ex)
    then have "rt_start rt q x = (Inr ex, y)"
      using that by (auto simp: eff_simps split: prod.splits sum.splits if_splits)
    then have "execution_apart ex" using rt unfolding runtime_apart_def by blast
    then show ?thesis using run_started_apart[OF rt] Inr by simp
  qed
  note start = this
  have c: "keeps same_store (catchE (bindE (rt_start rt q) (\<lambda>ex. ret (Inr ex)))
      (\<lambda>e. if instance_of e ToolAdapterError then ret (Inl (adapter_failure_class e, error_text e))
           else ret (Inl (ADAPTER, error_text e))))"
    by (intro same_store.catchE same_store.bindE r same_store.ret same_store.ite)
  show ?thesis
    unfolding invoke_tool_def
  proof (intro same_store.bindE r)
    fix t
    show "keeps same_store (case tv_input v (JObj (tq_input q)) of
       Inl e \<Rightarrow> if instance_of e ToolSchemaValidationError
         then tool_failure rt t TOOL_FAILED VALIDATION (exn_msg e) else throw e
     | Inr _ \<Rightarrow> bindE (rt_authorize rt q) (\<lambda>authorized.
         if \<not> authorized then tool_failure rt t TOOL_DENIED POLICY_DENIED ''requested capabilities were denied''
         else bindE (catchE (bindE (rt_start rt q) (\<lambda>ex. ret (Inr ex)))
                (\<lambda>e. if instance_of e ToolAdapterError then ret (Inl (adapter_failure_class e, error_text e))
                     else ret (Inl (ADAPTER, error_text e)))) (\<lambda>started.
              case started of Inl (cls, msg) \<Rightarrow> tool_failure rt t TOOL_FAILED cls msg
              | Inr ex \<Rightarrow> run_started rt v t q ex)))"
      by (cases "tv_input v (JObj (tq_input q))")
        (simp_all add: same_store.throw tool_failure_apart[OF rt] same_store.bindE r same_store.ite
          same_store.bindE_via[OF c start])
  qed
qed

section \<open>What a completed record gives back\<close>

definition valid_result :: "tool_result \<Rightarrow> bool" where
  "valid_result r \<longleftrightarrow>
     new_metrics (tm_duration (tr_metrics r)) (tm_cpu (tr_metrics r)) (tm_memory (tr_metrics r)) = Inr (tr_metrics r)
     \<and> new_tool_result (tr_status r) (tr_output r) (tr_logs r) (tr_metrics r) (tr_started r) (tr_completed r)
         (tr_class r) (tr_message r) = Inr r"

definition recorded_form :: "tool_result \<Rightarrow> tool_result" where
  "recorded_form r = r\<lparr>tr_message := case tr_class r of None \<Rightarrow> None | Some c \<Rightarrow> Some (result_message r c)\<rparr>"

lemma tool_status_of_value [simp]: "tool_status_of (tool_status_value s) = Inr s"
  by (cases s) (simp_all add: tool_status_of_def)

lemma failure_class_of_value [simp]: "failure_class_of (failure_class_value c) = Inr c"
  by (cases c) (simp_all add: failure_class_of_def)

lemma failure_class_value_nonempty [simp]: "failure_class_value c \<noteq> []"
  by (cases c) simp_all

lemma map_of_completed:
  "k \<noteq> ''status'' \<Longrightarrow> k \<noteq> ''updatedAt'' \<Longrightarrow> k \<noteq> ''completedAt'' \<Longrightarrow>
     map_of (status_updated p st now ch) k = (if k \<in> fst ` set ch then map_of (rev ch) k else map_of p k)"
  by (simp add: status_updated_def Let_def map_of_dput map_of_dsetdefault map_of_dupdate)

lemma map_of_completedAt:
  assumes "st \<in> set terminal_statuses" "map_of p ''completedAt'' = None" "''completedAt'' \<notin> fst ` set ch"
  shows "map_of (status_updated p st now ch) ''completedAt'' = Some (JStr now)"
  using assms by (simp add: status_updated_def Let_def map_of_dput map_of_dsetdefault map_of_dupdate)

lemma metrics_read:
  "int_value (dget (metrics_record m) ''durationMs'') = Some (tm_duration m)"
  "int_value (dget (metrics_record m) ''cpuMs'') = tm_cpu m"
  "int_value (dget (metrics_record m) ''memoryBytes'') = tm_memory m"
  by (auto simp: metrics_record_def int_value_def dget_def split: option.splits)

definition result_fields :: "string list" where
  "result_fields = [''resultStatus'', ''output'', ''metrics'', ''startedAt'', ''completedAt'', ''logsAddress'', ''adapterLogsRef'',
     ''failureClass'', ''failure'']"

lemma terminal_changes_read:
  assumes "git_terminal_changes r = Inr ch"
  shows "fst ` set ch \<subseteq> set result_fields - {''completedAt''}"
    "map_of (rev ch) ''resultStatus'' = Some (JStr (tool_status_value (tr_status r)))"
    "map_of (rev ch) ''output'' = Some (tr_output r)"
    "map_of (rev ch) ''metrics'' = Some (JObj (metrics_record (tr_metrics r)))"
    "map_of (rev ch) ''startedAt'' = Some (JStr (tr_started r))"
    "map_of (rev ch) ''logsAddress'' = (if content_address_ref (tr_logs r) then Some (opt_str (tr_logs r)) else None)"
    "map_of (rev ch) ''adapterLogsRef'' = (if content_address_ref (tr_logs r) then None else map_option JStr (tr_logs r))"
    "map_of (rev ch) ''failureClass'' = map_option (\<lambda>c. JStr (failure_class_value c)) (tr_class r)"
    "case tr_class r of None \<Rightarrow> map_of (rev ch) ''failure'' = None
       | Some c \<Rightarrow> \<exists>cls. map_of (rev ch) ''failure'' = Some (JObj [(''class'', cls), (''message'', JStr (result_message r c)),
           (''retryable'', JBool (c = IO_FAILURE \<or> c = TIMEOUT))])"
  using assms
  by (auto simp: git_terminal_changes_def result_fields_def bindR_eq_Inr split: option.splits if_splits)

lemma completed_result:
  assumes ch: "git_terminal_changes r = Inr ch" and st: "st \<in> set terminal_statuses"
    and p: "\<And>k. k \<in> set result_fields \<Longrightarrow> map_of p k = None" and r: "valid_result r"
  shows "git_result_from_invocation (status_updated p st (tr_completed r) ch) = Inr (recorded_form r)"
proof -
  let ?v = "status_updated p st (tr_completed r) ch"
  note c = terminal_changes_read[OF ch]
  have absent: "map_of (rev ch) k = None" if "k \<notin> fst ` set ch" for k
    using that by (simp add: map_of_eq_None_iff)
  have read: "map_of ?v k = map_of (rev ch) k" if "k \<in> set result_fields - {''completedAt''}" for k
  proof -
    have ne: "k \<noteq> ''status''" "k \<noteq> ''updatedAt''" "k \<noteq> ''completedAt''" using that by (auto simp: result_fields_def)
    have "map_of p k = None" using that by (intro p) blast
    then show ?thesis using absent[of k] by (simp add: map_of_completed[OF ne])
  qed
  have "''completedAt'' \<notin> fst ` set ch" using c(1) by blast
  then have fin: "map_of ?v ''completedAt'' = Some (JStr (tr_completed r))"
    using p[of "''completedAt''"] by (intro map_of_completedAt[OF st]) (simp_all add: result_fields_def)
  have f: "map_of ?v ''resultStatus'' = Some (JStr (tool_status_value (tr_status r)))"
    "map_of ?v ''output'' = Some (tr_output r)" "map_of ?v ''metrics'' = Some (JObj (metrics_record (tr_metrics r)))"
    "map_of ?v ''startedAt'' = Some (JStr (tr_started r))"
    "map_of ?v ''logsAddress'' = (if content_address_ref (tr_logs r) then Some (opt_str (tr_logs r)) else None)"
    "map_of ?v ''adapterLogsRef'' = (if content_address_ref (tr_logs r) then None else map_option JStr (tr_logs r))"
    "map_of ?v ''failureClass'' = map_option (\<lambda>c. JStr (failure_class_value c)) (tr_class r)"
    "map_of ?v ''failure'' = map_of (rev ch) ''failure''"
    by (simp_all add: read c(2-8) result_fields_def)
  define l where "l = py_or (dget ?v ''logsAddress'') (dget ?v ''adapterLogsRef'')"
  have logs: "(if is_str l then Some (as_str l) else None) = tr_logs r"
    unfolding l_def dget_def f(5,6)
    by (cases "tr_logs r") (auto simp: py_or_def content_address_ref_def opt_str_def)
  have ms: "new_metrics (case int_value (dget (metrics_record (tr_metrics r)) ''durationMs'') of None \<Rightarrow> 0 | Some n \<Rightarrow> n)
      (int_value (dget (metrics_record (tr_metrics r)) ''cpuMs'')) (int_value (dget (metrics_record (tr_metrics r)) ''memoryBytes''))
      = Inr (tr_metrics r)"
    using r by (simp add: metrics_read valid_result_def)
  have new: "new_tool_result (tr_status r) (tr_output r) (tr_logs r) (tr_metrics r) (tr_started r) (tr_completed r) (tr_class r) m
      = Inr (r\<lparr>tr_message := m\<rparr>)" for m
    using r by (auto simp: valid_result_def new_tool_result_def bindR_eq_Inr)
  define m where "m = (if is_mapping (dget ?v ''failure'') \<and> is_str (mget (dget ?v ''failure'') ''message'')
      then Some (as_str (mget (dget ?v ''failure'') ''message'')) else None)"
  have m: "m = (case tr_class r of None \<Rightarrow> None | Some cl \<Rightarrow> Some (result_message r cl))"
    using c(9) unfolding m_def dget_def f(8) by (auto simp: mget_def dget_def split: option.splits)
  have cls: "(if truthy (dget ?v ''failureClass'') then bindR (failure_class_of (py_str (dget ?v ''failureClass''))) (\<lambda>c. Inr (Some c))
      else Inr None) = (Inr (tr_class r) :: exn + tool_failure_class option)"
    unfolding dget_def f(7) by (cases "tr_class r") simp_all
  have items: "getitem ?v ''resultStatus'' = Inr (JStr (tool_status_value (tr_status r)))"
    "getitem ?v ''startedAt'' = Inr (JStr (tr_started r))" "getitem ?v ''completedAt'' = Inr (JStr (tr_completed r))"
    "dget ?v ''output'' = tr_output r" "dget_or ?v ''metrics'' (JObj []) = JObj (metrics_record (tr_metrics r))"
    by (simp_all add: getitem_def dget_def dget_or_def f fin)
  have "git_result_from_invocation ?v = new_tool_result (tr_status r) (tr_output r)
      (if is_str l then Some (as_str l) else None) (tr_metrics r) (tr_started r) (tr_completed r) (tr_class r) m"
    unfolding git_result_from_invocation_def Let_def items cls l_def[symmetric] m_def[symmetric]
    by (simp add: mget_def ms)
  then show ?thesis by (simp add: logs new recorded_form_def m)
qed

section \<open>An invocation runs once\<close>

lemma on_store_apply: "on_store m (s, w) = (fst (m s), (snd (m s), w))"
  by (simp add: on_store_def split: prod.split)

lemma world_store_ops:
  "op_create (world_store wall) j k (s, w) = (fst (mem_create j k s), (snd (mem_create j k s), w))"
  "op_update_status (world_store wall) i st e u c (s, w)
     = (fst (mem_update_status wall i st e u c s), (snd (mem_update_status wall i st e u c s), w))"
  by (simp_all add: world_store_def Let_def on_store_apply in_memory_store_def)

lemma mem_create_unbound:
  assumes "map_of (deterministic_keys s) key = None" "mem_create j key s = (Inr v, t)"
  shows "j = JObj v \<and> copy_and_validate j = Inr v \<and> map_of (deterministic_keys t) key = Some (as_str (dget v ''id''))
    \<and> map_of (objects t) (as_str (dget v ''id'')) = Some v"
proof -
  obtain d where "copy_and_validate j = Inr d" using assms by (auto simp: mem_create_def success_iffs)
  moreover then have "j = JObj d" by (cases j) (auto simp: copy_and_validate_def split: if_splits)
  ultimately show ?thesis
    using assms by (auto simp: mem_create_def eff_simps Let_def map_of_dput objects_index_value deterministic_keys_index_value
        split: if_splits)
qed

lemma mem_update_pending:
  assumes "mem_update_status wall i st (Some ''PENDING'') (Some now) ch s = (Inr v', t)" "now \<noteq> []"
    "map_of (objects s) i = Some v"
  shows "v' = status_updated v st now ch \<and> map_of (objects t) i = Some v' \<and> deterministic_keys t = deterministic_keys s"
  using assms
  by (auto simp: mem_update_status_def Let_def success_iffs require_def save_def map_of_dput terminal_statuses_def in_strs_def
      split: option.splits if_splits)

lemma git_pending_fields:
  assumes "git_pending_record i task q fp decision t owner = Inr p"
  shows "dget p ''id'' = JStr i" "dget p ''requestFingerprint'' = JStr fp" "dget p ''ownerToken'' = JStr owner"
    "\<And>k. k \<in> set result_fields \<Longrightarrow> map_of p k = None" "dget p ''kind'' = JStr ''ToolInvocation''"
  using assms
  by (auto simp: git_pending_record_def bindR_eq_Inr dget_Cons result_fields_def split: option.splits if_splits)

lemma git_pending_other:
  assumes "git_pending_record i task q fp decision t owner = Inr p" "copy_and_validate (JObj p) = Inr p"
  shows "\<exists>p'. git_pending_record i task q fp' decision t' owner' = Inr p' \<and> copy_and_validate (JObj p') = Inr p'"
proof -
  obtain p' where p': "git_pending_record i task q fp' decision t' owner' = Inr p'"
    using assms(1) by (auto simp: git_pending_record_def bindR_eq_Inr)
  have "copy_and_validate (JObj p') = Inr p'"
    using assms(2) git_pending_fields[OF assms(1)] git_pending_fields[OF p']
    by (auto simp: copy_and_validate_def Let_def split: if_splits)
  with p' show ?thesis by blast
qed

definition git_key :: "string \<Rightarrow> string" where
  "git_key i = ''git-tool-invocation:'' @ i"

text \<open>A result on record is given to whoever asks for the same invocation, and nothing is run.\<close>

lemma git_invoke_settled:
  assumes "gt_store gt = world_store wall" "gt_uuid gt = ret owner" "gt_now gt = ret now"
    and bound: "bind_correlation (Context (tq_correlation q)) (Some task) None = Inr c"
    and pending: "git_pending_record i task q (git_request_fingerprint (gt_env gt) task q decision) decision now owner = Inr p"
      "copy_and_validate (JObj p) = Inr p"
    and key: "map_of (deterministic_keys s) (git_key i) = Some oid" "map_of (objects s) oid = Some v"
    and v: "dget v ''requestFingerprint'' = JStr (git_request_fingerprint (gt_env gt) task q decision)"
      "dget v ''ownerToken'' \<noteq> JStr owner" "settled_invocation v" "git_result_from_invocation v = Inr r"
  shows "git_invoke gt i task q decision (s, w) = (Inr (r, v), (s, w))"
proof -
  have "mem_create (JObj p) (git_key i) s = (Inr v, s)"
    by (rule mem_create_found[OF key pending(2)]) (simp add: git_key_def)
  then show ?thesis
    using assms
    by (simp add: git_invoke_def Let_def eff_simps world_store_ops git_key_def recorded_result_def)
qed

lemma git_invocation_replayed:
  assumes gt: "gt_store gt = world_store wall" "gt_uuid gt = ret owner" "keeps same_store (gt_now gt)"
      "runtime_apart (gt_runtime gt)"
    and gt': "gt_store gt' = world_store wall'" "gt_uuid gt' = ret owner'" "gt_now gt' = ret now'" "gt_env gt' = gt_env gt"
    and new: "map_of (deterministic_keys (fst x)) (git_key i) = None" and other: "owner' \<noteq> owner"
    and first: "git_invoke gt i task q decision x = (Inr (r, v), y)" and r: "valid_result r"
  shows "git_invoke gt' i task q decision y = (Inr (recorded_form r, v), y)"
proof -
  obtain s w where x: "x = (s, w)" by (cases x)
  let ?fp = "git_request_fingerprint (gt_env gt) task q decision"
  obtain c x1 now p created x2 where bound: "bind_correlation (Context (tq_correlation q)) (Some task) None = Inr c"
    and now: "gt_now gt x = (Inr now, x1)"
    and p: "git_pending_record i task q ?fp decision now owner = Inr p"
    and create: "op_create (gt_store gt) (JObj p) (git_key i) x1 = (Inr created, x2)"
    and rest: "(if dget created ''requestFingerprint'' \<noteq> JStr ?fp
     then throw (Exn (OtherException ''GitInvocationIdentityConflictError'')
            (''invocation id '' @ repr_str i @ '' is already bound to different immutable request inputs'') JNull)
     else if dget created ''ownerToken'' \<noteq> JStr owner
     then if settled_invocation created then recorded_result created else await_terminal gt i (gt_polls gt)
     else bindE (git_run gt now q) (git_complete gt i)) x2 = (Inr (r, v), y)"
    using first gt(2) unfolding git_invoke_def Let_def bindE_Inr_iff liftR_Inr_iff git_key_def
    by (auto simp: ret_apply)
  obtain w1 where x1: "x1 = (s, w1)" using keepsD[OF gt(3) now] x by (cases x1) (simp add: same_store_def)
  obtain t where c1: "mem_create (JObj p) (git_key i) s = (Inr created, t)" and x2: "x2 = (t, w1)"
    using create by (cases "mem_create (JObj p) (git_key i) s") (auto simp: gt(1) x1 world_store_ops)
  from mem_create_unbound[OF _ c1] new x have cp: "created = p" "copy_and_validate (JObj p) = Inr p"
    and key: "map_of (deterministic_keys t) (git_key i) = Some i" "map_of (objects t) i = Some p"
    using git_pending_fields(1)[OF p] by auto
  note pf = git_pending_fields[OF p]
  have "bindE (git_run gt now q) (git_complete gt i) x2 = (Inr (r, v), y)"
    using rest by (simp add: cp pf)
  then obtain res x3 where run: "git_run gt now q x2 = (Inr res, x3)" and fin: "git_complete gt i res x3 = (Inr (r, v), y)"
    by (auto simp: bindE_Inr_iff)
  have "keeps same_store (git_run gt now q)"
    unfolding git_run_def by (intro same_store.catchE same_store.bindE same_store.liftR gt(3) invoke_tool_apart[OF gt(4)])
  from keepsD[OF this run] x2 obtain w3 where x3: "x3 = (t, w3)" by (cases x3) (simp add: same_store_def)
  let ?st = "if tr_status r = TOOL_SUCCEEDED then ''SUCCEEDED'' else ''FAILED''"
  obtain ch where ch: "git_terminal_changes r = Inr ch" and res: "res = r"
    and fin': "fst (mem_update_status wall i ?st (Some ''PENDING'') (Some (tr_completed r)) ch t) = Inr v"
      "y = (snd (mem_update_status wall i ?st (Some ''PENDING'') (Some (tr_completed r)) ch t), w3)"
    using fin unfolding git_complete_def x3 gt(1)
    by (auto simp: bindE_Inr_iff liftR_Inr_iff world_store_ops ret_apply)
  then obtain u where upd: "mem_update_status wall i ?st (Some ''PENDING'') (Some (tr_completed r)) ch t = (Inr v, u)"
    and y: "y = (u, w3)"
    by (metis prod.collapse)
  have finished: "tr_completed r \<noteq> []" using r by (auto simp: valid_result_def new_tool_result_def bindR_eq_Inr)
  from mem_update_pending[OF upd finished key(2)] have v: "v = status_updated p ?st (tr_completed r) ch"
    and u: "map_of (objects u) i = Some v" "deterministic_keys u = deterministic_keys t" by auto
  have st: "?st \<in> set terminal_statuses" by (simp add: terminal_statuses_def)
  have out: "k \<notin> fst ` set ch" if "k \<in> {''requestFingerprint'', ''ownerToken''}" for k
    using terminal_changes_read(1)[OF ch] that by (auto simp: result_fields_def)
  have vf: "dget v ''requestFingerprint'' = JStr ?fp" "dget v ''ownerToken'' = JStr owner"
    using pf out unfolding v dget_def by (simp_all add: map_of_completed)
  have "dget v ''status'' = JStr ?st"
    by (simp add: v status_updated_def Let_def dget_def map_of_dput map_of_dsetdefault)
  then have settled: "settled_invocation v" by (simp add: settled_invocation_def in_strs_def)
  have result: "git_result_from_invocation v = Inr (recorded_form r)"
    unfolding v by (rule completed_result[OF ch st pf(4) r])
  obtain p' where "git_pending_record i task q ?fp decision now' owner' = Inr p'" "copy_and_validate (JObj p') = Inr p'"
    using git_pending_other[OF p cp(2)] by blast
  with git_invoke_settled[OF gt'(1-3) bound, of i decision p' u i v "recorded_form r" w3] key u vf settled result other
  show ?thesis by (simp add: y gt'(4))
qed

lemma fake_runtime_apart:
  assumes "\<And>q s. snd (authorize q s) = s"
  shows "runtime_apart (fake_runtime now elapsed authorize)"
proof -
  have "keeps same_store (on_world (authorize q))" for q
    using assms[of q] by (auto simp: keeps_def same_store_def on_world_def split: prod.splits) (metis snd_conv)
  then show ?thesis
    by (auto simp: runtime_apart_def execution_apart_def fake_runtime_def fake_start_def fake_execution_handle_def keeps_def
        same_store_def ret_apply on_execution_def fake_wait_def Let_def split: prod.splits fake_outcome.splits)
qed

definition sample_git :: "string \<Rightarrow> (store \<times> fake_adapter) git_tool" where
  "sample_git owner = \<lparr>gt_store = world_store ''now'', gt_runtime = fake_runtime ''t1'' 5 (\<lambda>q. ret True),
     gt_validator = json_schema_tool_validator (\<lambda>v. []) (\<lambda>v. []), gt_uuid = ret owner, gt_now = ret ''t0'', gt_polls = 2,
     gt_sleep = ret (), gt_env = \<lparr>env_sha256 = (\<lambda>s. s), env_uuid5 = (\<lambda>s. s), env_iso = (\<lambda>s. None), env_schema = (\<lambda>n j. [])\<rparr>\<rparr>"

definition sample_git_request :: tool_request where
  "sample_git_request = \<lparr>tq_ref = [(''kind'', JStr ''Tool''), (''name'', JStr ''git''), (''version'', JStr ''1.0.0'')],
     tq_input = [(''operation'', JStr ''status''), (''expectedRevision'', JStr ''r1'')],
     tq_caller = \<lparr>caller_kind = ''TaskExecution'', caller_id = ''t''\<rparr>, tq_capabilities = [''git.read''], tq_timeout = 10,
     tq_correlation = \<lparr>cor_trace = ''trace'', cor_workflow = ''w'', cor_task = Some ''t''\<rparr>\<rparr>"

definition sample_git_world :: "fake_outcome list \<Rightarrow> store \<times> fake_adapter" where
  "sample_git_world outcomes = (empty_store, \<lparr>fa_outcomes = outcomes, fa_requests = [], fa_executions = []\<rparr>)"

definition sample_invocation :: "(exn + tool_result \<times> dict) \<times> store \<times> fake_adapter" where
  "sample_invocation = git_invoke (sample_git ''a'') ''inv'' ''t'' sample_git_request None
     (sample_git_world [Gives (Finished \<lparr>tr_status = TOOL_FAILED, tr_output = JObj [], tr_logs = Some ''log'',
        tr_metrics = \<lparr>tm_duration = 3, tm_cpu = None, tm_memory = Some 1\<rparr>, tr_started = ''t0'', tr_completed = ''t1'',
        tr_class = Some NONZERO_EXIT, tr_message = None\<rparr>)])"

text \<open>
  C21. A Git invocation that returned a result is on record with it: asking for the same invocation
  again, whoever asks and whatever the adapter would do now, gives the recorded result, and
  neither the store nor the world changes.
\<close>

theorem git_invocation_once:
  assumes "gt_store gt = world_store wall" "gt_uuid gt = ret owner" "keeps same_store (gt_now gt)" "runtime_apart (gt_runtime gt)"
    and "gt_store gt' = world_store wall'" "gt_uuid gt' = ret owner'" "gt_now gt' = ret now'" "gt_env gt' = gt_env gt"
    and "map_of (deterministic_keys (fst x)) (git_key i) = None" "owner' \<noteq> owner"
    and "git_invoke gt i task q decision x = (Inr (r, v), y)" "valid_result r"
  shows "git_invoke gt' i task q decision y = (Inr (recorded_form r, v), y)"
  using git_invocation_replayed[OF assms] .

theorem git_invocation_once_witness:
  "\<exists>r v y. sample_invocation = (Inr (r, v), y) \<and> fa_requests (snd y) = [sample_git_request]
     \<and> git_invoke (sample_git ''b'') ''inv'' ''t'' sample_git_request None y = (Inr (recorded_form r, v), y)"
proof -
  have ok: "case sample_invocation of (Inr (r, v), y) \<Rightarrow> valid_result r \<and> fa_requests (snd y) = [sample_git_request] | _ \<Rightarrow> False"
    by code_simp
  then obtain r v y where i: "sample_invocation = (Inr (r, v), y)" and r: "valid_result r" "fa_requests (snd y) = [sample_git_request]"
    by (auto split: prod.splits sum.splits)
  have "git_invoke (sample_git ''b'') ''inv'' ''t'' sample_git_request None y = (Inr (recorded_form r, v), y)"
    by (rule git_invocation_once[OF _ _ _ _ _ _ _ _ _ _ i[unfolded sample_invocation_def] r(1)])
      (auto simp: sample_git_def same_store.ret ret_apply sample_git_world_def empty_store_def intro!: fake_runtime_apart)
  with i r show ?thesis by blast
qed

end
