(* ===== verification/PatchText.thy ===== *)
theory PatchText
  imports PlanningEvidence GeneratedArtifacts
begin

text \<open>
  A unified diff as \<open>patch_evaluation.py\<close> reads it, line by line: the path of a file marker
  (\<open>_decode_patch_path\<close> of \<open>git_tool.py\<close>), the counts of changed lines, the hunks that keep nothing of
  what they replace, the files that lose lines, the text after each hunk.  The loops are folds
  over the lines, and a marker that cannot be read raises.  Texts have code points below 256.
\<close>

section \<open>Lines\<close>

definition line_break :: "char \<Rightarrow> bool" where
  "line_break c \<longleftrightarrow> of_char c \<in> {10, 11, 12, 13, 28, 29, 30, 133 :: nat}"

text \<open>\<open>str.splitlines\<close>, with the line read so far.\<close>

fun splitlines_from :: "string \<Rightarrow> string \<Rightarrow> string list" where
  "splitlines_from line [] = (if line = [] then [] else [line])"
| "splitlines_from line (c # s) =
     (if \<not> line_break c then splitlines_from (line @ [c]) s
      else line # splitlines_from [] (if c = carriage \<and> s \<noteq> [] \<and> hd s = newline then tl s else s))"

definition splitlines :: "string \<Rightarrow> string list" where
  "splitlines s = splitlines_from [] s"

fun foldR :: "('st \<Rightarrow> 'a \<Rightarrow> exn + 'st) \<Rightarrow> 'st \<Rightarrow> 'a list \<Rightarrow> exn + 'st" where
  "foldR f st [] = Inr st"
| "foldR f st (x # xs) = bindR (f st x) (\<lambda>st'. foldR f st' xs)"

section \<open>Paths of file markers\<close>

definition git_contract_error :: "string \<Rightarrow> exn" where
  "git_contract_error m = Exn (OtherException ''GitToolContractError'') m JNull"

text \<open>Strict decoding of UTF-8, of code points below 256.\<close>

fun utf8_decode :: "string \<Rightarrow> string option" where
  "utf8_decode [] = Some []"
| "utf8_decode (c # s) =
     (let n = of_char c :: nat in
      if n < 128 then map_option ((#) c) (utf8_decode s)
      else case s of
        d # t \<Rightarrow> (let m = of_char d :: nat in
           if (n = 194 \<or> n = 195) \<and> 128 \<le> m \<and> m < 192
           then map_option ((#) (char_of ((n - 192) * 64 + (m - 128)))) (utf8_decode t) else None)
      | [] \<Rightarrow> None)"

definition escape_bytes :: "(char \<times> nat) list" where
  "escape_bytes = [(CHR ''a'', 7), (CHR ''b'', 8), (CHR ''t'', 9), (CHR ''n'', 10), (CHR ''v'', 11), (CHR ''f'', 12),
     (CHR ''r'', 13), (CHR 0x5C, 92), (CHR 0x22, 34)]"

definition octal_digit :: "char \<Rightarrow> bool" where
  "octal_digit c \<longleftrightarrow> CHR ''0'' \<le> c \<and> c \<le> CHR ''7''"

definition octal_value :: "string \<Rightarrow> nat" where
  "octal_value ds = foldl (\<lambda>n c. n * 8 + (of_char c - 48)) 0 ds"

fun unquote_bytes :: "string \<Rightarrow> exn + string" where
  "unquote_bytes [] = Inr []"
| "unquote_bytes (c # s) =
     (if c \<noteq> CHR 0x5C then bindR (unquote_bytes s) (\<lambda>r. Inr (c # r))
      else if s = [] then Inl (git_contract_error ''patch contains malformed quoted path'')
      else case map_of escape_bytes (hd s) of
        Some b \<Rightarrow> bindR (unquote_bytes (tl s)) (\<lambda>r. Inr (char_of b # r))
      | None \<Rightarrow>
          if octal_digit (hd s) then
            (let ds = takeWhile octal_digit (take 3 s) in
             if 255 < octal_value ds then Inl (git_contract_error ''patch contains invalid octal path escape'')
             else bindR (unquote_bytes (drop (length ds) s)) (\<lambda>r. Inr (char_of (octal_value ds) # r)))
          else Inl (git_contract_error ''patch contains unsupported quoted path escape''))"

definition decode_patch_path :: "string \<Rightarrow> exn + string" where
  "decode_patch_path value =
     (if \<not> starts_with [CHR 0x22] value then Inr value
      else if length value < 2 \<or> \<not> ends_with [CHR 0x22] value
      then Inl (git_contract_error ''patch contains malformed quoted path'')
      else bindR (unquote_bytes (utf8_encode (butlast (tl value)))) (\<lambda>encoded.
        if nul_char \<in> set encoded then Inl (git_contract_error ''patch path must not contain NUL'')
        else case utf8_decode encoded of
          None \<Rightarrow> Inl (git_contract_error ''patch path is not valid UTF-8'') | Some p \<Rightarrow> Inr p))"

definition dev_null :: string where "dev_null = ''/dev/null''"

definition patch_marker_path :: "string \<Rightarrow> string \<Rightarrow> exn + string option" where
  "patch_marker_path marker line =
     (if \<not> starts_with marker line then Inr None
      else bindR (decode_patch_path (drop (length marker) line)) (\<lambda>path.
        Inr (if path = dev_null then Some path
             else if starts_with ''a/'' path \<or> starts_with ''b/'' path then Some (drop 2 path) else None)))"

text \<open>A marker as the current file: the null device is no file.\<close>

definition marked_file :: "string \<Rightarrow> string option" where
  "marked_file path = (if path = dev_null then None else Some path)"

section \<open>Counting lines\<close>

definition removes :: "string \<Rightarrow> bool" where
  "removes line \<longleftrightarrow> starts_with ''-'' line \<and> \<not> starts_with ''---'' line"

definition adds :: "string \<Rightarrow> bool" where
  "adds line \<longleftrightarrow> starts_with ''+'' line \<and> \<not> starts_with ''+++'' line"

definition line_change_counts :: "string option \<Rightarrow> nat \<times> nat" where
  "line_change_counts text =
     (case text of None \<Rightarrow> (0, 0)
      | Some t \<Rightarrow> (length (filter adds (splitlines t)), length (filter removes (splitlines t))))"

section \<open>Hunks that keep nothing\<close>

record hunk =
  hk_path :: string
  hk_deleted :: nat
  hk_added :: nat
  hk_context :: nat
  hk_source :: nat

text \<open>\<open>^@@ -\d+(?:,(\d+))? \<close>: the lines of the source, one when they are not given, none without a match.\<close>

definition source_lines :: "string \<Rightarrow> nat" where
  "source_lines line =
     (let s = drop 4 line; start = takeWhile is_digit s; rest = dropWhile is_digit s in
      if \<not> starts_with ''@@ -'' line \<or> start = [] \<or> rest = [] then 0
      else if hd rest = CHR '' '' then 1
      else if hd rest = CHR '','' \<and> takeWhile is_digit (tl rest) \<noteq> [] \<and> starts_with '' '' (dropWhile is_digit (tl rest))
      then nat (digits_value (takeWhile is_digit (tl rest))) else 0)"

definition hunk_is_unpreserved :: "hunk \<Rightarrow> bool" where
  "hunk_is_unpreserved h \<longleftrightarrow> 2 \<le> hk_deleted h
     \<and> (hk_context h = 0 \<or> (5 \<le> hk_deleted h \<and> 0 < hk_source h
          \<and> round_double (4 / 5) \<le> round_double (of_nat (hk_deleted h) / of_nat (hk_source h))))"

type_synonym hunk_scan = "hunk list \<times> hunk option \<times> string option"

definition finish_hunk :: "hunk option \<Rightarrow> hunk list \<Rightarrow> hunk list" where
  "finish_hunk current hunks =
     (case current of None \<Rightarrow> hunks | Some h \<Rightarrow> if hunk_is_unpreserved h then hunks @ [h] else hunks)"

definition hunk_line :: "hunk_scan \<Rightarrow> string \<Rightarrow> exn + hunk_scan" where
  "hunk_line st line =
     (case st of (hunks, current, path) \<Rightarrow>
      bindR (patch_marker_path ''--- '' line) (\<lambda>marker.
      Inr (if marker \<noteq> None \<and> marker \<noteq> Some dev_null then (hunks, current, marker)
           else if starts_with ''@@ '' line
           then (finish_hunk current hunks,
                 Some \<lparr>hk_path = (case path of None \<Rightarrow> [] | Some p \<Rightarrow> p), hk_deleted = 0, hk_added = 0, hk_context = 0,
                   hk_source = source_lines line\<rparr>, path)
           else case current of None \<Rightarrow> (hunks, None, path)
             | Some h \<Rightarrow>
                 (hunks, Some (if removes line then h\<lparr>hk_deleted := hk_deleted h + 1\<rparr>
                    else if adds line then h\<lparr>hk_added := hk_added h + 1\<rparr>
                    else if starts_with '' '' line then h\<lparr>hk_context := hk_context h + 1\<rparr> else h), path))))"

definition unpreserved_hunks :: "string \<Rightarrow> exn + hunk list" where
  "unpreserved_hunks text =
     bindR (foldR hunk_line ([], None, None) (splitlines text)) (\<lambda>(hunks, current, path). Inr (finish_hunk current hunks))"

section \<open>Files that lose lines\<close>

definition path_order_of :: "string list \<Rightarrow> string list" where
  "path_order_of ps = sort_key (\<lambda>p. (casefold p, p)) (remdups ps)"

type_synonym loss_scan = "string option \<times> nat \<times> nat \<times> string list"

definition complete_hunk :: "loss_scan \<Rightarrow> string list" where
  "complete_hunk st =
     (case st of (current, deleted, added, paths) \<Rightarrow>
      case current of Some p \<Rightarrow> if added < deleted then p # paths else paths | None \<Rightarrow> paths)"

definition loss_line :: "loss_scan \<Rightarrow> string \<Rightarrow> exn + loss_scan" where
  "loss_line st line =
     (case st of (current, deleted, added, paths) \<Rightarrow>
      bindR (patch_marker_path ''--- '' line) (\<lambda>marker.
      Inr (case marker of
             Some path \<Rightarrow> (marked_file path, 0, 0, complete_hunk st)
           | None \<Rightarrow>
               if starts_with ''@@ '' line then (current, 0, 0, complete_hunk st)
               else if current \<noteq> None \<and> removes line then (current, deleted + 1, added, paths)
               else if current \<noteq> None \<and> adds line then (current, deleted, added + 1, paths)
               else st)))"

definition deleted_paths :: "string \<Rightarrow> exn + string list" where
  "deleted_paths text =
     bindR (foldR loss_line (None, 0, 0, []) (splitlines text)) (\<lambda>st. Inr (path_order_of (complete_hunk st)))"

section \<open>The text after each hunk\<close>

type_synonym block_scan = "string option \<times> string list \<times> bool \<times> (string \<times> string) list"

text \<open>The blocks of all files, in the order they end.\<close>

definition finish_block :: "block_scan \<Rightarrow> (string \<times> string) list" where
  "finish_block st =
     (case st of (current, active, has_addition, blocks) \<Rightarrow>
      case current of Some p \<Rightarrow> if active \<noteq> [] \<and> has_addition then blocks @ [(p, join_with [newline] active)] else blocks
      | None \<Rightarrow> blocks)"

definition block_line :: "block_scan \<Rightarrow> string \<Rightarrow> exn + block_scan" where
  "block_line st line =
     (case st of (current, active, has_addition, blocks) \<Rightarrow>
      bindR (patch_marker_path ''+++ '' line) (\<lambda>marker.
      Inr (case marker of
             Some path \<Rightarrow> (marked_file path, [], False, finish_block st)
           | None \<Rightarrow>
               if starts_with ''@@ '' line then (current, [], False, finish_block st)
               else if current \<noteq> None \<and> adds line then (current, active @ [drop 1 line], True, blocks)
               else if current \<noteq> None \<and> starts_with '' '' line then (current, active @ [drop 1 line], has_addition, blocks)
               else if current \<noteq> None \<and> removes line then st
               else if starts_with (CHR 0x5C # '' No newline at end of file'') line then st
               else (current, [], False, finish_block st))))"

definition postimage_blocks :: "string \<Rightarrow> exn + (string \<times> string) list" where
  "postimage_blocks text =
     bindR (foldR block_line (None, [], False, []) (splitlines text)) (\<lambda>st. Inr (finish_block st))"

definition blocks_of :: "string \<Rightarrow> (string \<times> string) list \<Rightarrow> string list" where
  "blocks_of path blocks = map snd (filter (\<lambda>b. fst b = path) blocks)"

end
