(* ===== verification/PatchEvaluation.thy ===== *)
theory PatchEvaluation
  imports PatchText GitInvocations
begin

text \<open>
  Patch evaluation (\<open>patch_evaluation.py\<close>): the deterministic gate between a generated patch and its
  publication.  The patch is checked against its artifact, its revision, the paths it may and
  must change, the insertions it must hold, what it deletes and what it keeps, and Git is asked
  whether it applies; the record of all this is stored.  Git is reached through a tool runtime
  or a persisted invocation (\<open>GitInvocations\<close>); SHA-256 over bytes is the parameter \<open>digest\<close>.
\<close>

section \<open>Path rules\<close>

definition patch_evaluation_error :: "string \<Rightarrow> exn" where
  "patch_evaluation_error m = Exn PatchEvaluationContractError m JNull"

definition safe_relative_path :: "string \<Rightarrow> bool" where
  "safe_relative_path value \<longleftrightarrow> value \<noteq> [] \<and> CHR 0x5C \<notin> set value \<and> \<not> starts_with ''/'' value
     \<and> ''..'' \<notin> set (posix_parts value)"

definition path_rule :: "json \<Rightarrow> exn + string" where
  "path_rule rule =
     (let candidate = (if is_str rule then rstrip_of (\<lambda>c. c = CHR ''/'') (as_str rule) else []) in
      bindR (checkR (safe_relative_path candidate)
        (patch_evaluation_error ''allowed path rules must be normalized repository-relative paths'')) (\<lambda>_. Inr candidate))"

definition normalize_rules :: "json \<Rightarrow> exn + string list" where
  "normalize_rules rules =
     bindR (checkR (\<not> is_str rules \<and> truthy rules) (patch_evaluation_error ''allowed_paths must contain path rules'')) (\<lambda>_.
     bindR (py_iter rules) (\<lambda>items.
     bindR (mapR path_rule items) (\<lambda>normalized. Inr (path_order_of normalized))))"

definition optional_rules :: "json \<Rightarrow> exn + string list" where
  "optional_rules rules = (if truthy rules then normalize_rules rules else Inr [])"

definition matching_rule :: "string \<Rightarrow> string list \<Rightarrow> string option" where
  "matching_rule path rules =
     (if \<not> safe_relative_path path then None
      else find (\<lambda>rule. path = rule \<or> starts_with (rule @ ''/'') path) rules)"

section \<open>The patch\<close>

text \<open>Content as text, as bytes with what strict and lossy decoding give, or neither.\<close>

datatype patch_content = PatchText string | PatchBytes string "string option" string | PatchOther

record patch_bytes =
  pb_bytes :: string
  pb_strict :: "string option"
  pb_lossy :: string

fun content_bytes :: "patch_content \<Rightarrow> patch_bytes" where
  "content_bytes (PatchText s) = \<lparr>pb_bytes = utf8_encode s, pb_strict = Some s, pb_lossy = s\<rparr>"
| "content_bytes (PatchBytes b strict lossy) = \<lparr>pb_bytes = b, pb_strict = strict, pb_lossy = lossy\<rparr>"
| "content_bytes PatchOther = \<lparr>pb_bytes = [], pb_strict = Some [], pb_lossy = []\<rparr>"

record patch_evaluation =
  pe_result_id :: string
  pe_task :: string
  pe_evaluation_ref :: dict
  pe_artifact :: dict
  pe_content :: patch_content
  pe_expected :: string
  pe_allowed :: json
  pe_required :: json
  pe_no_change :: json
  pe_deletable :: json
  pe_insertions :: "dict list"
  pe_postimages :: "(string \<times> json) list"
  pe_unsupported :: "json list"
  pe_requirements :: "json list"
  pe_branch :: string
  pe_correlation :: correlation_arg
  pe_timestamp :: string
  pe_provenance :: dict
  pe_tool_ref :: "dict option"
  pe_invocation :: "string option"
  pe_timeout :: int

type_synonym error_entry = "string \<times> string"

definition revision_id :: "string \<Rightarrow> bool" where
  "revision_id s \<longleftrightarrow> length s = 40 \<and> list_all (\<lambda>c. c \<in> set ''0123456789abcdefABCDEF'') s"

definition requirement_binding :: "json \<Rightarrow> exn + dict" where
  "requirement_binding requirement =
     (let d = as_dict requirement in
      bindR (checkR (is_mapping requirement \<and> dget d ''owner'' = JStr ''PATCH_EVALUATION''
          \<and> dget d ''requirementId'' = JStr ''DIFF_CHECK_PASSES''
          \<and> nonempty_str (dget d ''selectionId'') \<and> nonempty_str (dget d ''criterion''))
        (patch_evaluation_error ''evaluator requirements must be trusted DIFF_CHECK_PASSES bindings'')) (\<lambda>_.
      Inr (map (\<lambda>k. (k, dget d k)) [''selectionId'', ''criterion'', ''owner'', ''requirementId''])))"

text \<open>The rules of an evaluation, and the patch with what is wrong with it before Git is asked.\<close>

record patch_rules =
  pr_allowed :: "string list"
  pr_required :: "string list"
  pr_no_change :: "string list"
  pr_deletable :: "string list"

definition patch_rules_of :: "patch_evaluation \<Rightarrow> exn + patch_rules" where
  "patch_rules_of pe =
     bindR (normalize_rules (pe_allowed pe)) (\<lambda>allowed. bindR (optional_rules (pe_required pe)) (\<lambda>required.
     bindR (optional_rules (pe_no_change pe)) (\<lambda>no_change. bindR (optional_rules (pe_deletable pe)) (\<lambda>deletable.
     Inr \<lparr>pr_allowed = allowed, pr_required = required, pr_no_change = no_change, pr_deletable = deletable\<rparr>))))"

definition all_no_change :: "patch_rules \<Rightarrow> patch_bytes \<Rightarrow> bool" where
  "all_no_change rules content \<longleftrightarrow> pb_bytes content = [] \<and> pr_required rules = [] \<and> pr_no_change rules \<noteq> []
     \<and> set (pr_no_change rules) = set (pr_allowed rules)"

definition artifact_errors :: "(string \<Rightarrow> string) \<Rightarrow> patch_evaluation \<Rightarrow> patch_rules \<Rightarrow> patch_bytes \<Rightarrow> error_entry list" where
  "artifact_errors digest pe rules content =
     (let artifact = pe_artifact pe; revision = dget artifact ''repositoryRevision'' in
      (if pe_content pe = PatchOther then [(''INVALID_CONTENT'', ''patch content must be text or bytes'')] else [])
      @ (if dget artifact ''kind'' \<noteq> JStr ''GeneratedArtifact'' \<or> dget artifact ''artifactType'' \<noteq> JStr ''PATCH''
         then [(''INVALID_ARTIFACT'', ''target must be a PATCH GeneratedArtifact'')] else [])
      @ (if dget artifact ''contentAddress'' \<noteq> JStr (content_address digest (pb_bytes content))
         then [(''CONTENT_MISMATCH'', ''patch content does not match the artifact content address'')] else [])
      @ (if \<not> is_str revision \<or> lower (as_str revision) \<noteq> lower (pe_expected pe)
         then [(''REVISION_MISMATCH'', ''patch artifact revision does not match the expected repository revision'')] else [])
      @ (if pb_bytes content = [] \<and> \<not> all_no_change rules content then [(''EMPTY_PATCH'', ''patch content is empty'')] else []))"

section \<open>Asking Git\<close>

record git_evidence =
  ge_status :: string
  ge_logs :: "string option"
  ge_applicable :: bool
  ge_diagnostics :: "json list"
  ge_changed :: "string list"
  ge_errors :: "error_entry list"

definition git_not_run :: "bool \<Rightarrow> error_entry list \<Rightarrow> git_evidence" where
  "git_not_run applicable errors = \<lparr>ge_status = ''NOT_RUN'', ge_logs = None, ge_applicable = applicable, ge_diagnostics = [],
     ge_changed = [], ge_errors = errors\<rparr>"

definition record_paths :: "json \<Rightarrow> exn + string list" where
  "record_paths r = bindR (mapping_of r) (\<lambda>d.
     Inr (map as_str (filter is_str [dget d ''previousPath'', dget d ''path''])))"

text \<open>What a tool result says of the patch.\<close>

definition git_evidence_of :: "tool_result \<Rightarrow> exn + git_evidence" where
  "git_evidence_of r =
     (let base = git_not_run False [] \<lparr>ge_status := tool_status_value (tr_status r), ge_logs := tr_logs r\<rparr> in
      if tr_status r = TOOL_SUCCEEDED then
        bindR (if tr_output r = JNull then Inr [] else mapping_of (tr_output r)) (\<lambda>output_record.
        bindR (py_iter (dget_or output_record ''diagnostics'' (JList []))) (\<lambda>diagnostics.
        bindR (py_iter (dget_or output_record ''changedFiles'' (JList []))) (\<lambda>changed_records.
        bindR (mapR record_paths changed_records) (\<lambda>paths.
        let applicable = (dget output_record ''applicable'' = JBool True); changed = path_order_of (concat paths) in
        Inr (base\<lparr>ge_applicable := applicable, ge_diagnostics := diagnostics, ge_changed := changed,
          ge_errors := (if applicable then [] else
              [(''PATCH_NOT_APPLICABLE'', ''patch does not apply cleanly to the expected revision'')])
            @ (if changed = [] then [(''MALFORMED_OR_EMPTY_PATCH'', ''patch contains no changed-file evidence'')] else [])\<rparr>)))))
      else
        let message = (case tool_result.tr_message r of None \<Rightarrow> ''Git applicability check failed''
              | Some m \<Rightarrow> if m = [] then ''Git applicability check failed'' else m) in
        Inr (base\<lparr>ge_diagnostics := [JStr message], ge_errors := [(''GIT_CHECK_FAILED'', message)]\<rparr>))"

record 's patch_evaluator =
  pv_store :: "'s store_ops"
  pv_runtime :: "'s tool_runtime"
  pv_validator :: tool_validator
  pv_git_tool :: "'s git_tool option"
  pv_digest :: "string \<Rightarrow> string"
  pv_env :: environment

definition check_request :: "patch_evaluation \<Rightarrow> correlation \<Rightarrow> string \<Rightarrow> exn + tool_request" where
  "check_request pe c patch_text =
     bindR (new_caller ''TaskExecution'' (pe_task pe)) (\<lambda>caller.
     new_tool_request
       (case pe_tool_ref pe of Some (k # r) \<Rightarrow> k # r
        | _ \<Rightarrow> [(''kind'', JStr ''Tool''), (''name'', JStr ''git''), (''version'', JStr ''1.0.0'')])
       [(''operation'', JStr ''check_patch''), (''expectedRevision'', JStr (lower (pe_expected pe))),
        (''branch'', JStr (pe_branch pe)), (''patch'', JStr patch_text)]
       caller [''git.read''] (pe_timeout pe) (Context c))"

definition run_git_check ::
  "'s patch_evaluator \<Rightarrow> patch_evaluation \<Rightarrow> correlation \<Rightarrow> string \<Rightarrow> ('s, git_evidence) eff" where
  "run_git_check pv pe c patch_text =
     bindE (liftR (check_request pe c patch_text)) (\<lambda>request.
     bindE (case pe_invocation pe of
              None \<Rightarrow> invoke_tool (pv_runtime pv) (pv_validator pv) request
            | Some i \<Rightarrow>
                (case pv_git_tool pv of
                   None \<Rightarrow> throw (patch_evaluation_error ''git_tool is required when tool_invocation_id is supplied'')
                 | Some gt \<Rightarrow> bindE (git_invoke gt i (pe_task pe) request None) (\<lambda>(r, v). ret r))) (\<lambda>result.
     liftR (git_evidence_of result)))"

definition check_with_git ::
  "'s patch_evaluator \<Rightarrow> patch_evaluation \<Rightarrow> correlation \<Rightarrow> patch_rules \<Rightarrow> patch_bytes \<Rightarrow> error_entry list
   \<Rightarrow> ('s, git_evidence) eff" where
  "check_with_git pv pe c rules content errors =
     (if all_no_change rules content then ret (git_not_run True [])
      else if errors \<noteq> [] then ret (git_not_run False [])
      else case pb_strict content of
        None \<Rightarrow> ret (git_not_run False [(''MALFORMED_PATCH'', ''patch content must be valid UTF-8'')])
      | Some patch_text \<Rightarrow> run_git_check pv pe c patch_text)"

section \<open>What the patch does\<close>

record patch_facts =
  pf_missing :: "(string \<times> string) list"
  pf_added :: nat
  pf_removed :: nat
  pf_deleted :: "string list"
  pf_hunks :: "hunk list"

definition insertion_missing :: "patch_evaluation \<Rightarrow> (string \<times> string) list \<Rightarrow> dict \<Rightarrow> exn + (string \<times> string) list" where
  "insertion_missing pe blocks item =
     bindR (getitem item ''path'') (\<lambda>p. bindR (getitem item ''value'') (\<lambda>v.
     let path = as_str p; value = as_str v;
         postimage = (case map_of (pe_postimages pe) path of Some (JStr t) \<Rightarrow> [t] | _ \<Rightarrow> []) in
     Inr (if list_ex (canonical_line_match value) (postimage @ blocks_of path blocks) then [] else [(path, value)])))"

definition missing_insertions :: "patch_evaluation \<Rightarrow> (string \<times> string) list \<Rightarrow> exn + (string \<times> string) list" where
  "missing_insertions pe blocks =
     bindR (mapR (insertion_missing pe blocks) (pe_insertions pe)) (\<lambda>missing.
     Inr (sort_key (\<lambda>(path, value). (casefold path, path, value)) (concat missing)))"

definition patch_facts_of :: "patch_evaluation \<Rightarrow> patch_bytes \<Rightarrow> exn + patch_facts" where
  "patch_facts_of pe content =
     bindR (postimage_blocks (pb_lossy content)) (\<lambda>blocks.
     bindR (missing_insertions pe blocks) (\<lambda>missing.
     bindR (deleted_paths (pb_lossy content)) (\<lambda>deleted.
     bindR (unpreserved_hunks (pb_lossy content)) (\<lambda>hunks.
     let (added, removed) = line_change_counts (pb_strict content) in
     Inr \<lparr>pf_missing = missing, pf_added = added, pf_removed = removed, pf_deleted = deleted, pf_hunks = hunks\<rparr>))))"

definition replacement_ratio :: "patch_facts \<Rightarrow> rat" where
  "replacement_ratio pf =
     (let total = pf_added pf + pf_removed pf in
      if total = 0 then 0 else round_double (of_nat (pf_removed pf) / of_nat total))"

definition unauthorized :: "patch_rules \<Rightarrow> string \<Rightarrow> bool" where
  "unauthorized rules path \<longleftrightarrow> matching_rule path (pr_deletable rules) = None"

definition unauthorized_deletions :: "patch_rules \<Rightarrow> patch_facts \<Rightarrow> string list" where
  "unauthorized_deletions rules pf = sort (filter (unauthorized rules) (pf_deleted pf))"

definition deletion_authorized :: "patch_rules \<Rightarrow> patch_facts \<Rightarrow> bool" where
  "deletion_authorized rules pf \<longleftrightarrow> pf_deleted pf \<noteq> [] \<and> unauthorized_deletions rules pf = []"

definition destructive :: "patch_rules \<Rightarrow> patch_facts \<Rightarrow> bool" where
  "destructive rules pf \<longleftrightarrow> 20 \<le> pf_removed pf \<and> round_double (4 / 5) < replacement_ratio pf \<and> \<not> deletion_authorized rules pf"

definition unauthorized_hunks :: "patch_rules \<Rightarrow> patch_facts \<Rightarrow> hunk list" where
  "unauthorized_hunks rules pf = filter (\<lambda>h. unauthorized rules (hk_path h)) (pf_hunks pf)"

definition unsupported_criteria :: "patch_evaluation \<Rightarrow> string list" where
  "unsupported_criteria pe = sort (remdups (map as_str (filter nonempty_str (pe_unsupported pe))))"

text \<open>All that is wrong with the change.\<close>

definition change_errors :: "patch_evaluation \<Rightarrow> patch_rules \<Rightarrow> patch_facts \<Rightarrow> string list \<Rightarrow> error_entry list" where
  "change_errors pe rules pf changed =
     map (\<lambda>path. (''DISALLOWED_PATH'', ''changed path '' @ repr_str path @ '' is outside the allowed path rules''))
       (filter (\<lambda>path. matching_rule path (pr_allowed rules) = None) changed)
     @ map (\<lambda>(path, value). (''REQUIRED_INSERTION_MISSING'', ''required insertion '' @ repr_str value @ '' is absent from '' @ repr_str path))
         (pf_missing pf)
     @ map (\<lambda>c. (''UNSUPPORTED_ACCEPTANCE_CRITERION'', ''unsupported acceptance criterion: '' @ c)) (unsupported_criteria pe)
     @ map (\<lambda>path. (''REQUIRED_CHANGE_MISSING'', ''planned target '' @ repr_str path @ '' is absent from the final diff''))
         (filter (\<lambda>path. path \<notin> set changed) (pr_required rules))
     @ map (\<lambda>path. (''NO_CHANGE_TARGET_MODIFIED'', ''no-change target '' @ repr_str path @ '' appears in the final diff''))
         (filter (\<lambda>path. path \<in> set changed) (pr_no_change rules))
     @ map (\<lambda>path. (''UNAUTHORIZED_DELETION'', ''deleted content in '' @ repr_str path @ '' is not deletion-authorized''))
         (unauthorized_deletions rules pf)
     @ (if destructive rules pf
        then [(''DESTRUCTIVE_REWRITE'', ''patch deletes at least 20 lines and more than 80% of changed lines'')] else [])
     @ (if unauthorized_hunks rules pf \<noteq> []
        then [(''SURROUNDING_CONTENT_NOT_PRESERVED'',
               ''patch replaces or removes a multi-line hunk without preserved surrounding context'')] else [])"

section \<open>The record\<close>

definition error_json :: "error_entry \<Rightarrow> json" where
  "error_json e = JObj [(''code'', JStr (fst e)), (''message'', JStr (snd e))]"

definition strs :: "string list \<Rightarrow> json" where
  "strs xs = JList (map JStr xs)"

definition boundary_check :: "patch_rules \<Rightarrow> string \<Rightarrow> json" where
  "boundary_check rules path =
     (let rule = matching_rule path (pr_allowed rules) in
      JObj ([(''path'', JStr path), (''allowed'', JBool (rule \<noteq> None))]
        @ (case rule of None \<Rightarrow> [] | Some r \<Rightarrow> [(''rule'', JStr r)])))"

definition disposition :: "string \<Rightarrow> string \<Rightarrow> string list \<Rightarrow> string \<Rightarrow> json" where
  "disposition present absent changed path =
     JObj [(''path'', JStr path), (''disposition'', JStr (if path \<in> set changed then present else absent))]"

definition hunk_json :: "hunk \<Rightarrow> json" where
  "hunk_json h = JObj [(''path'', JStr (hk_path h)), (''deletedLines'', JInt (int (hk_deleted h))),
     (''addedLines'', JInt (int (hk_added h))), (''contextLines'', JInt (int (hk_context h))),
     (''sourceLines'', JInt (int (hk_source h)))]"

definition patch_checks ::
  "patch_evaluation \<Rightarrow> patch_rules \<Rightarrow> patch_bytes \<Rightarrow> patch_facts \<Rightarrow> git_evidence \<Rightarrow> error_entry list \<Rightarrow> (string \<times> bool) list" where
  "patch_checks pe rules content pf ge errors =
     (let codes = map fst errors; changed = ge_changed ge in
      [(''artifactIntegrity'', ''INVALID_ARTIFACT'' \<notin> set codes \<and> ''CONTENT_MISMATCH'' \<notin> set codes),
       (''revision'', ''REVISION_MISMATCH'' \<notin> set codes), (''applicability'', ge_applicable ge),
       (''pathBoundary'', all_no_change rules content
          \<or> changed \<noteq> [] \<and> list_all (\<lambda>p. matching_rule p (pr_allowed rules) \<noteq> None) changed),
       (''requiredFileDisposition'', list_all (\<lambda>p. p \<in> set changed) (pr_required rules)),
       (''noChangeDisposition'', list_all (\<lambda>p. p \<notin> set changed) (pr_no_change rules)),
       (''acceptanceCriteria'', pe_unsupported pe = []), (''destructiveChange'', \<not> destructive rules pf),
       (''surroundingContentPreservation'', unauthorized_hunks rules pf = [])])"

definition change_statistics :: "patch_evaluation \<Rightarrow> patch_rules \<Rightarrow> patch_facts \<Rightarrow> json" where
  "change_statistics pe rules pf = JObj
     [(''addedLines'', JInt (int (pf_added pf))), (''deletedLines'', JInt (int (pf_removed pf))),
      (''replacementRatio'', JFloat (Finite (replacement_ratio pf))), (''destructiveRewrite'', JBool (destructive rules pf)),
      (''deletionAuthorized'', JBool (deletion_authorized rules pf)), (''deletionAuthorizedPaths'', strs (pr_deletable rules)),
      (''deletedPaths'', strs (pf_deleted pf)), (''unauthorizedDeletedPaths'', strs (unauthorized_deletions rules pf)),
      (''requiredInsertions'', JList (map JObj (pe_insertions pe))),
      (''missingInsertions'', JList (map (\<lambda>(path, value). JObj [(''path'', JStr path), (''value'', JStr value)]) (pf_missing pf))),
      (''replacementViolations'', JList []), (''unsupportedAcceptanceCriteria'', JList (pe_unsupported pe)),
      (''unpreservedHunks'', JList (map hunk_json (pf_hunks pf))),
      (''unauthorizedUnpreservedHunks'', JList (map hunk_json (unauthorized_hunks rules pf)))]"

definition patch_evidence ::
  "(string \<Rightarrow> string) \<Rightarrow> patch_evaluation \<Rightarrow> patch_rules \<Rightarrow> patch_bytes \<Rightarrow> patch_facts \<Rightarrow> git_evidence \<Rightarrow> dict list
   \<Rightarrow> error_entry list \<Rightarrow> dict" where
  "patch_evidence digest pe rules content pf ge bindings errors =
     [(''type'', JStr ''patch-evaluation''), (''artifactId'', dget (pe_artifact pe) ''id''),
      (''contentAddress'', JStr (content_address digest (pb_bytes content))),
      (''expectedRevision'', JStr (lower (pe_expected pe))),
      (''artifactRevision'', dget (pe_artifact pe) ''repositoryRevision''), (''allowedPaths'', strs (pr_allowed rules)),
      (''changedFiles'', strs (ge_changed ge)), (''applicable'', JBool (ge_applicable ge)),
      (''diagnostics'', JList (ge_diagnostics ge)), (''boundaryChecks'', JList (map (boundary_check rules) (ge_changed ge))),
      (''requiredFileDispositions'', JList (map (disposition ''CHANGED'' ''MISSING'' (ge_changed ge)) (pr_required rules))),
      (''noChangeFileDispositions'', JList (map (disposition ''CHANGED'' ''NO_CHANGE'' (ge_changed ge)) (pr_no_change rules))),
      (''changeStatistics'', change_statistics pe rules pf),
      (''git'', JObj [(''status'', JStr (ge_status ge)), (''logsRef'', opt_str (ge_logs ge)),
         (''toolInvocationId'', if ge_status ge = ''NOT_RUN'' then JNull else opt_str (pe_invocation pe))]),
      (''checks'', JObj (map (\<lambda>(k, b). (k, JBool b)) (patch_checks pe rules content pf ge errors))),
      (''evaluatorRequirements'', JList (map (\<lambda>b. JObj (b @ [(''result'',
         JStr (if ge_applicable ge \<and> ge_status ge \<in> {''SUCCEEDED'', ''NOT_RUN''} then ''PASS'' else ''FAIL''))])) bindings)),
      (''errors'', JList (map error_json errors))]"

definition evaluation_record ::
  "(string \<Rightarrow> string) \<Rightarrow> patch_evaluation \<Rightarrow> correlation \<Rightarrow> patch_rules \<Rightarrow> patch_bytes \<Rightarrow> patch_facts \<Rightarrow> git_evidence
   \<Rightarrow> dict list \<Rightarrow> error_entry list \<Rightarrow> dict" where
  "evaluation_record digest pe c rules content pf ge bindings errors =
     (let evidence = patch_evidence digest pe rules content pf ge bindings errors;
          checks = patch_checks pe rules content pf ge errors in
      [(''apiVersion'', JStr ''aep.dev/v1alpha1''), (''kind'', JStr ''EvaluationResult''), (''id'', JStr (pe_result_id pe)),
       (''traceId'', JStr (cor_trace c)), (''createdAt'', JStr (pe_timestamp pe)), (''updatedAt'', JStr (pe_timestamp pe)),
       (''provenance'', JObj (pe_provenance pe)), (''taskExecutionId'', JStr (pe_task pe)),
       (''evaluationRef'', JObj (pe_evaluation_ref pe)),
       (''target'', JObj [(''type'', JStr ''GeneratedArtifact''), (''id'', dget (pe_artifact pe) ''id'')]),
       (''status'', JStr ''SUCCEEDED''), (''outcome'', JStr (if errors = [] then ''PASS'' else ''FAIL'')),
       (''metrics'', JObj [(''checks'', JInt (int (length checks))), (''passed'', JInt (int (length (filter snd checks)))),
          (''errors'', JInt (int (length errors))), (''changedFiles'', JInt (int (length (ge_changed ge))))]),
       (''logs'', JList ((if all_no_change rules content
            then [JStr ''No patch applicability check required for grounded no-change plan''] else [])
          @ ge_diagnostics ge @ [JStr (if errors = [] then ''Patch evaluation passed'' else ''Patch evaluation failed'')])),
       (''evidence'', JObj evidence),
       (''evidenceAddress'', JStr (content_address digest (utf8_encode (json_text True (JObj evidence))))),
       (''startedAt'', JStr (pe_timestamp pe)), (''completedAt'', JStr (pe_timestamp pe))])"

definition validate_result :: "environment \<Rightarrow> dict \<Rightarrow> exn + unit" where
  "validate_result env result =
     (case first_error (env_schema env ''EvaluationResult'' (JObj result)) of
        None \<Rightarrow> Inr ()
      | Some e \<Rightarrow> Inl (patch_evaluation_error (''invalid EvaluationResult at '' @ indexed_path (err_path e) @ '': '' @ err_message e)))"

section \<open>The evaluation\<close>

definition evaluation_inputs :: "patch_evaluation \<Rightarrow> exn + correlation \<times> patch_rules \<times> dict list" where
  "evaluation_inputs pe =
     bindR (checkR (pe_invocation pe \<noteq> Some []) (patch_evaluation_error ''tool_invocation_id must be a non-empty string'')) (\<lambda>_.
     bindR (bind_correlation (pe_correlation pe) (Some (pe_task pe)) (Some (pe_provenance pe))) (\<lambda>c.
     bindR (patch_rules_of pe) (\<lambda>rules.
     bindR (mapR requirement_binding (pe_requirements pe)) (\<lambda>bindings.
     bindR (checkR (nonempty_str (dget (pe_artifact pe) ''id''))
       (patch_evaluation_error ''patch artifact id must be a non-empty string'')) (\<lambda>_.
     bindR (checkR (revision_id (pe_expected pe))
       (patch_evaluation_error ''expected_revision must be an immutable 40-character commit id'')) (\<lambda>_.
     Inr (c, rules, bindings)))))))"

definition evaluate_patch :: "'s patch_evaluator \<Rightarrow> patch_evaluation \<Rightarrow> ('s, dict) eff" where
  "evaluate_patch pv pe =
     bindE (liftR (evaluation_inputs pe)) (\<lambda>(c, rules, bindings).
     let content = content_bytes (pe_content pe); digest = pv_digest pv;
         found = artifact_errors digest pe rules content in
     bindE (check_with_git pv pe c rules content found) (\<lambda>ge.
     bindE (liftR (patch_facts_of pe content)) (\<lambda>pf.
     let errors = sort (found @ ge_errors ge @ change_errors pe rules pf (ge_changed ge));
         result = evaluation_record digest pe c rules content pf ge bindings errors in
     bindE (liftR (validate_result (pv_env pv) result)) (\<lambda>_.
     op_create (pv_store pv) (JObj result)
       (''patch-evaluation:'' @ pe_result_id pe @ '':'' @ as_str (dget result ''evidenceAddress''))))))"

end
