(* ===== verification/PatchSafety.thy ===== *)
theory PatchSafety
  imports PatchEvaluation
begin

text \<open>
  What patch evaluation guarantees.  A diff is given as data (files, hunks, kept, removed and added
  lines) and printed; the scans of \<open>PatchText\<close> read back exactly what it does, as long as no
  removed line begins with two dashes and no added one with two pluses, which the scans take
  for file markers.  An evaluation passes exactly when the patch, its artifact and what Git
  says of it satisfy the declared conditions.
\<close>

section \<open>Diffs as data\<close>

datatype diff_line = Keep string | Remove string | Add string

record diff_hunk =
  dh_header :: string
  dh_lines :: "diff_line list"

record file_diff =
  fd_intro :: "string list"
  fd_old :: "string option"
  fd_new :: "string option"
  fd_hunks :: "diff_hunk list"

fun line_text :: "diff_line \<Rightarrow> string" where
  "line_text (Keep s) = CHR '' '' # s"
| "line_text (Remove s) = CHR ''-'' # s"
| "line_text (Add s) = CHR ''+'' # s"

definition hunk_lines :: "diff_hunk \<Rightarrow> string list" where
  "hunk_lines h = (''@@ '' @ dh_header h) # map line_text (dh_lines h)"

definition file_name_text :: "string \<Rightarrow> string option \<Rightarrow> string" where
  "file_name_text prefix_text p = (case p of None \<Rightarrow> dev_null | Some n \<Rightarrow> prefix_text @ n)"

definition file_lines :: "file_diff \<Rightarrow> string list" where
  "file_lines fd = fd_intro fd @ [''--- '' @ file_name_text ''a/'' (fd_old fd), ''+++ '' @ file_name_text ''b/'' (fd_new fd)]
     @ concat (map hunk_lines (fd_hunks fd))"

definition diff_text :: "file_diff list \<Rightarrow> string" where
  "diff_text fds = concat (map (\<lambda>l. l @ [newline]) (concat (map file_lines fds)))"

definition one_line :: "string \<Rightarrow> bool" where
  "one_line s \<longleftrightarrow> list_all (\<lambda>c. \<not> line_break c) s"

fun readable_line :: "diff_line \<Rightarrow> bool" where
  "readable_line (Keep s) = one_line s"
| "readable_line (Remove s) = (one_line s \<and> \<not> starts_with ''--'' s)"
| "readable_line (Add s) = (one_line s \<and> \<not> starts_with ''++'' s)"

fun is_remove :: "diff_line \<Rightarrow> bool" where
  "is_remove (Remove s) = True" | "is_remove _ = False"

definition inert_line :: "string \<Rightarrow> bool" where
  "inert_line s \<longleftrightarrow> one_line s \<and> s \<noteq> [] \<and> hd s \<notin> {CHR ''-'', CHR ''+'', CHR '' '', CHR 0x5C} \<and> \<not> starts_with ''@@ '' s"

definition readable_name :: "string option \<Rightarrow> bool" where
  "readable_name p \<longleftrightarrow> (case p of None \<Rightarrow> True | Some n \<Rightarrow> one_line n \<and> n \<noteq> dev_null)"

definition readable_file :: "file_diff \<Rightarrow> bool" where
  "readable_file fd \<longleftrightarrow> list_all inert_line (fd_intro fd) \<and> readable_name (fd_old fd) \<and> readable_name (fd_new fd)
     \<and> list_all (\<lambda>h. one_line (dh_header h) \<and> list_all readable_line (dh_lines h)
          \<and> (fd_old fd = None \<longrightarrow> list_all (\<lambda>l. \<not> is_remove l) (dh_lines h))) (fd_hunks fd)"

section \<open>What a diff does\<close>

fun is_add :: "diff_line \<Rightarrow> bool" where
  "is_add (Add s) = True" | "is_add _ = False"

fun is_keep :: "diff_line \<Rightarrow> bool" where
  "is_keep (Keep s) = True" | "is_keep _ = False"

definition removed_in :: "diff_hunk \<Rightarrow> nat" where
  "removed_in h = length (filter is_remove (dh_lines h))"

definition added_in :: "diff_hunk \<Rightarrow> nat" where
  "added_in h = length (filter is_add (dh_lines h))"

definition kept_in :: "diff_hunk \<Rightarrow> nat" where
  "kept_in h = length (filter is_keep (dh_lines h))"

text \<open>The lines after a hunk, and the blocks a file gets.\<close>

definition after_lines :: "diff_line list \<Rightarrow> string list" where
  "after_lines ls = map (\<lambda>l. tl (line_text l)) (filter (\<lambda>l. \<not> is_remove l) ls)"

definition file_blocks :: "file_diff \<Rightarrow> (string \<times> string) list" where
  "file_blocks fd = (case fd_new fd of None \<Rightarrow> []
     | Some p \<Rightarrow> map (\<lambda>h. (p, join_with [newline] (after_lines (dh_lines h)))) (filter (\<lambda>h. 0 < added_in h) (fd_hunks fd)))"

definition loses_lines :: "file_diff \<Rightarrow> string \<Rightarrow> bool" where
  "loses_lines fd p \<longleftrightarrow> fd_old fd = Some p \<and> (\<exists>h \<in> set (fd_hunks fd). added_in h < removed_in h)"

definition hunk_of :: "string \<Rightarrow> diff_hunk \<Rightarrow> hunk" where
  "hunk_of p h = \<lparr>hk_path = p, hk_deleted = removed_in h, hk_added = added_in h, hk_context = kept_in h,
     hk_source = source_lines (''@@ '' @ dh_header h)\<rparr>"

definition file_hunks :: "file_diff \<Rightarrow> hunk list" where
  "file_hunks fd = (case fd_old fd of None \<Rightarrow> [] | Some p \<Rightarrow> filter hunk_is_unpreserved (map (hunk_of p) (fd_hunks fd)))"

section \<open>Reading it back\<close>

lemma splitlines_line: "one_line l \<Longrightarrow> splitlines_from acc (l @ newline # s) = (acc @ l) # splitlines_from [] s"
  by (induction l arbitrary: acc) (simp_all add: one_line_def line_break_def newline_def carriage_def)

lemma splitlines_lines: "list_all one_line ls \<Longrightarrow> splitlines_from [] (concat (map (\<lambda>l. l @ [newline]) ls)) = ls"
  by (induction ls) (simp_all add: splitlines_line)

lemma one_line_append [simp]: "one_line (a @ b) \<longleftrightarrow> one_line a \<and> one_line b"
  by (simp add: one_line_def)

lemma one_line_lits: "one_line ''@@ ''" "one_line ''--- ''" "one_line ''+++ ''" "one_line dev_null" "one_line ''a/''" "one_line ''b/''"
  by code_simp+

lemma line_text_one_line: "readable_line l \<Longrightarrow> one_line (line_text l)"
  by (cases l) (auto simp: one_line_def line_break_def)

lemma file_lines_one_line:
  assumes "readable_file fd"
  shows "list_all one_line (file_lines fd)"
proof -
  have name: "one_line (file_name_text x p)" if "one_line x" "readable_name p" for x p
    using that by (simp add: file_name_text_def readable_name_def one_line_lits split: option.splits)
  have hunk: "list_all one_line (hunk_lines h)" if "one_line (dh_header h)" "list_all readable_line (dh_lines h)" for h
    using that line_text_one_line by (auto simp: hunk_lines_def list_all_iff one_line_lits simp del: append.simps)
  have "list_all one_line (concat (map hunk_lines (fd_hunks fd)))"
    using assms hunk by (fastforce simp: readable_file_def list_all_iff)
  moreover have "list_all one_line (fd_intro fd)"
    using assms by (auto simp: readable_file_def inert_line_def list_all_iff)
  ultimately show ?thesis
    using assms name by (simp add: file_lines_def one_line_lits readable_file_def del: append.simps)
qed

lemma splitlines_diff: "list_all readable_file fds \<Longrightarrow> splitlines (diff_text fds) = concat (map file_lines fds)"
  unfolding splitlines_def diff_text_def
  by (rule splitlines_lines) (use file_lines_one_line in \<open>fastforce simp: list_all_iff\<close>)

lemma foldR_append: "foldR f st (xs @ ys) = bindR (foldR f st xs) (\<lambda>st'. foldR f st' ys)"
proof (induction xs arbitrary: st)
  case (Cons x xs)
  then show ?case by (cases "f st x") simp_all
qed simp


lemma starts_with_simps: "starts_with [] s = True" "starts_with (p # ps) [] = False"
  "starts_with (p # ps) (c # s) \<longleftrightarrow> p = c \<and> starts_with ps s"
  by (auto simp: starts_with_def)

lemma starts_with_append [simp]: "starts_with m (m @ s)"
  by (simp add: starts_with_def)

lemma marker_name:
  assumes "readable_name p" "pre = ''a/'' \<or> pre = ''b/''"
  shows "patch_marker_path m (m @ file_name_text pre p) = Inr (Some (case p of None \<Rightarrow> dev_null | Some n \<Rightarrow> n))"
proof (cases p)
  case None
  then show ?thesis by (simp add: patch_marker_path_def file_name_text_def decode_patch_path_def dev_null_def starts_with_simps)
next
  case (Some n)
  then show ?thesis
    using assms(2) by (auto simp: patch_marker_path_def file_name_text_def decode_patch_path_def dev_null_def starts_with_simps)
qed

lemma no_marker: "\<not> starts_with m l \<Longrightarrow> patch_marker_path m l = Inr None"
  by (simp add: patch_marker_path_def)

lemma line_facts:
  assumes "readable_line l"
  shows "patch_marker_path ''--- '' (line_text l) = Inr None" "patch_marker_path ''+++ '' (line_text l) = Inr None"
    "\<not> starts_with ''@@ '' (line_text l)" "removes (line_text l) = is_remove l" "adds (line_text l) = is_add l"
    "starts_with '' '' (line_text l) = is_keep l" "drop 1 (line_text l) = tl (line_text l)"
proof -
  have more: "starts_with ''-- '' s \<Longrightarrow> starts_with ''--'' s" "starts_with ''++ '' s \<Longrightarrow> starts_with ''++'' s" for s
    by (cases s; cases "tl s"; simp add: starts_with_simps)+
  show "patch_marker_path ''--- '' (line_text l) = Inr None" "patch_marker_path ''+++ '' (line_text l) = Inr None"
    using assms more by (cases l; intro no_marker; auto simp: starts_with_simps)+
  show "\<not> starts_with ''@@ '' (line_text l)" "starts_with '' '' (line_text l) = is_keep l"
    by (cases l; simp add: starts_with_simps)+
  show "removes (line_text l) = is_remove l" "adds (line_text l) = is_add l"
    using assms by (cases l; simp add: starts_with_simps removes_def adds_def)+
  show "drop 1 (line_text l) = tl (line_text l)" by (simp add: drop_Suc)
qed

lemma inert_facts:
  assumes "inert_line l"
  shows "patch_marker_path ''--- '' l = Inr None" "patch_marker_path ''+++ '' l = Inr None" "\<not> starts_with ''@@ '' l"
    "\<not> removes l" "\<not> adds l" "\<not> starts_with '' '' l" "\<not> starts_with (CHR 0x5C # '' No newline at end of file'') l"
proof -
  from assms obtain c s where l: "l = c # s" and c: "c \<noteq> CHR ''-''" "c \<noteq> CHR ''+''" "c \<noteq> CHR '' ''" "c \<noteq> CHR 0x5C"
    by (cases l) (auto simp: inert_line_def)
  show "patch_marker_path ''--- '' l = Inr None" "patch_marker_path ''+++ '' l = Inr None"
    by (rule no_marker, use c in \<open>auto simp: l starts_with_simps\<close>)+
  show "\<not> removes l" "\<not> adds l" "\<not> starts_with '' '' l" "\<not> starts_with (CHR 0x5C # '' No newline at end of file'') l"
    using c by (auto simp: l starts_with_simps removes_def adds_def)
  show "\<not> starts_with ''@@ '' l" using assms by (simp add: inert_line_def)
qed

lemma head_facts:
  "patch_marker_path ''--- '' (''@@ '' @ h) = Inr None" "patch_marker_path ''+++ '' (''@@ '' @ h) = Inr None"
  "starts_with ''@@ '' (''@@ '' @ h)" "\<not> removes (''@@ '' @ h)" "\<not> adds (''@@ '' @ h)"
  by (simp_all add: no_marker starts_with_simps removes_def adds_def)

lemma name_facts:
  "patch_marker_path ''+++ '' (''--- '' @ n) = Inr None" "patch_marker_path ''--- '' (''+++ '' @ n) = Inr None"
  "\<not> starts_with ''@@ '' (''--- '' @ n)" "\<not> starts_with ''@@ '' (''+++ '' @ n)" "\<not> removes (''--- '' @ n)" "\<not> adds (''--- '' @ n)"
  "\<not> removes (''+++ '' @ n)" "\<not> adds (''+++ '' @ n)" "\<not> starts_with '' '' (''--- '' @ n)" "\<not> starts_with '' '' (''+++ '' @ n)"
  "\<not> starts_with (CHR 0x5C # '' No newline at end of file'') (''--- '' @ n)"
  by (simp_all add: no_marker starts_with_simps removes_def adds_def)

section \<open>Files that lose lines\<close>

lemma loss_line_text:
  "readable_line l \<Longrightarrow> loss_line (cur, d, a, ps) (line_text l)
     = Inr (cur, if cur = None \<or> \<not> is_remove l then d else d + 1, if cur = None \<or> \<not> is_add l then a else a + 1, ps)"
  by (cases l) (auto simp: loss_line_def line_facts simp del: line_text.simps)

lemma loss_lines:
  assumes "list_all readable_line ls"
  shows "foldR loss_line (cur, d, a, ps) (map line_text ls)
    = Inr (cur, if cur = None then d else d + length (filter is_remove ls), if cur = None then a else a + length (filter is_add ls), ps)"
  using assms
proof (induction ls arbitrary: d a)
  case (Cons l ls)
  then show ?case by (cases l) (simp_all add: loss_line_text del: line_text.simps)
qed simp

lemma loss_hunk:
  assumes "one_line (dh_header h)" "list_all readable_line (dh_lines h)"
  shows "foldR loss_line st (hunk_lines h) = Inr (fst st, if fst st = None then 0 else removed_in h,
      if fst st = None then 0 else added_in h, complete_hunk st)"
  using assms loss_lines[of "dh_lines h" "fst st" 0 0 "complete_hunk st"]
  by (cases st) (simp add: hunk_lines_def loss_line_def head_facts removed_in_def added_in_def del: append.simps)

lemma loss_hunks:
  assumes "list_all (\<lambda>h. one_line (dh_header h) \<and> list_all readable_line (dh_lines h)) hs"
  shows "\<exists>st'. foldR loss_line st (concat (map hunk_lines hs)) = Inr st' \<and> fst st' = fst st
    \<and> set (complete_hunk st') = set (complete_hunk st) \<union> {p. fst st = Some p \<and> (\<exists>h \<in> set hs. added_in h < removed_in h)}"
  using assms
proof (induction hs arbitrary: st)
  case (Cons h hs)
  let ?st = "(fst st, if fst st = None then 0 else removed_in h, if fst st = None then 0 else added_in h, complete_hunk st)"
  have "list_all (\<lambda>h. one_line (dh_header h) \<and> list_all readable_line (dh_lines h)) hs" using Cons.prems by simp
  from Cons.IH[OF this, of ?st] obtain st' where st': "foldR loss_line ?st (concat (map hunk_lines hs)) = Inr st'" "fst st' = fst ?st"
    "set (complete_hunk st') = set (complete_hunk ?st) \<union> {p. fst ?st = Some p \<and> (\<exists>h \<in> set hs. added_in h < removed_in h)}"
    by blast
  moreover have "set (complete_hunk ?st) = set (complete_hunk st) \<union> {p. fst st = Some p \<and> added_in h < removed_in h}"
    by (auto simp: complete_hunk_def split: option.splits)
  moreover have "foldR loss_line st (hunk_lines h) = Inr ?st" using Cons by (intro loss_hunk) simp_all
  ultimately show ?case by (auto simp: foldR_append)
qed (simp add: complete_hunk_def split: option.splits)

lemma loss_intro: "list_all inert_line ls \<Longrightarrow> foldR loss_line st ls = Inr st"
  by (induction ls arbitrary: st) (auto simp: loss_line_def inert_facts split: prod.splits)

lemma loss_file:
  assumes "readable_file fd"
  shows "\<exists>st'. foldR loss_line st (file_lines fd) = Inr st'
    \<and> set (complete_hunk st') = set (complete_hunk st) \<union> {p. loses_lines fd p}"
proof -
  let ?st = "(fd_old fd, 0 :: nat, 0 :: nat, complete_hunk st)"
  have old: "loss_line st (''--- '' @ file_name_text ''a/'' (fd_old fd)) = Inr ?st"
    using marker_name[of "fd_old fd" "''a/''" "''--- ''"] assms
    by (cases st) (auto simp: loss_line_def readable_file_def readable_name_def marked_file_def simp del: append.simps split: option.splits)
  have new: "loss_line ?st (''+++ '' @ file_name_text ''b/'' (fd_new fd)) = Inr ?st"
    by (simp add: loss_line_def name_facts del: append.simps)
  have "list_all (\<lambda>h. one_line (dh_header h) \<and> list_all readable_line (dh_lines h)) (fd_hunks fd)"
    "list_all inert_line (fd_intro fd)"
    using assms by (auto simp: readable_file_def list_all_iff)
  note parts = this
  obtain st' where st': "foldR loss_line ?st (concat (map hunk_lines (fd_hunks fd))) = Inr st'"
    "set (complete_hunk st') = set (complete_hunk ?st) \<union> {p. fst ?st = Some p \<and> (\<exists>h \<in> set (fd_hunks fd). added_in h < removed_in h)}"
    using loss_hunks[OF parts(1), of ?st] by blast
  have "foldR loss_line st (file_lines fd) = Inr st'"
    unfolding file_lines_def foldR_append loss_intro[OF parts(2)] bindR_Inr foldR.simps old new using st'(1) .
  moreover have "complete_hunk ?st = complete_hunk st" by (cases "fd_old fd") (simp_all add: complete_hunk_def)
  ultimately show ?thesis using st'(2) by (simp add: loses_lines_def)
qed

lemma loss_files:
  assumes "list_all readable_file fds"
  shows "\<exists>st'. foldR loss_line st (concat (map file_lines fds)) = Inr st'
    \<and> set (complete_hunk st') = set (complete_hunk st) \<union> {p. \<exists>fd \<in> set fds. loses_lines fd p}"
  using assms
proof (induction fds arbitrary: st)
  case (Cons fd fds)
  have "readable_file fd" using Cons.prems by simp
  from loss_file[OF this, of st] obtain st1 where st1: "foldR loss_line st (file_lines fd) = Inr st1"
    "set (complete_hunk st1) = set (complete_hunk st) \<union> {p. loses_lines fd p}"
    by blast
  have "list_all readable_file fds" using Cons.prems by simp
  from Cons.IH[OF this, of st1] obtain st2 where st2: "foldR loss_line st1 (concat (map file_lines fds)) = Inr st2"
    "set (complete_hunk st2) = set (complete_hunk st1) \<union> {p. \<exists>fd \<in> set fds. loses_lines fd p}"
    by blast
  have "foldR loss_line st (concat (map file_lines (fd # fds))) = Inr st2" by (simp add: foldR_append st1 st2)
  moreover have "set (complete_hunk st2) = set (complete_hunk st) \<union> {p. \<exists>fd' \<in> set (fd # fds). loses_lines fd' p}"
    unfolding st2 st1 by auto
  ultimately show ?case by blast
qed simp

lemma path_order_of_cong:
  assumes "set ps = set qs"
  shows "path_order_of ps = path_order_of qs"
proof -
  let ?k = "\<lambda>p :: string. (casefold p, p)"
  have "map ?k (path_order_of ps) = map ?k (path_order_of qs)"
    using assms by (intro sorted_distinct_set_unique) (simp_all add: path_order_of_def distinct_map inj_on_def)
  moreover have "inj ?k" by (simp add: inj_on_def)
  ultimately show ?thesis by (simp add: inj_map_eq_map)
qed

text \<open>The files a diff takes lines from.\<close>

definition losing_files :: "file_diff list \<Rightarrow> string list" where
  "losing_files fds = concat (map (\<lambda>fd. case fd_old fd of None \<Rightarrow> []
     | Some p \<Rightarrow> if list_ex (\<lambda>h. added_in h < removed_in h) (fd_hunks fd) then [p] else []) fds)"

lemma deleted_paths_diff:
  assumes "list_all readable_file fds"
  shows "deleted_paths (diff_text fds) = Inr (path_order_of (losing_files fds))"
proof -
  obtain st where "foldR loss_line (None, 0, 0, []) (concat (map file_lines fds)) = Inr st"
    "set (complete_hunk st) = {p. \<exists>fd \<in> set fds. loses_lines fd p}"
    using loss_files[OF assms, of "(None, 0, 0, [])"] by (auto simp: complete_hunk_def)
  moreover have "set (losing_files fds) = {p. \<exists>fd \<in> set fds. loses_lines fd p}"
    by (auto simp: losing_files_def loses_lines_def list_ex_iff split: option.splits if_splits)
  ultimately show ?thesis
    using path_order_of_cong[of "complete_hunk st" "losing_files fds"] by (simp add: deleted_paths_def splitlines_diff[OF assms])
qed

section \<open>Counts\<close>

definition count_lines :: "(diff_hunk \<Rightarrow> nat) \<Rightarrow> file_diff list \<Rightarrow> nat" where
  "count_lines f fds = sum_list (map (\<lambda>fd. sum_list (map f (fd_hunks fd))) fds)"

lemma counts_hunk:
  assumes "list_all readable_line (dh_lines h)"
  shows "length (filter adds (hunk_lines h)) = added_in h" "length (filter removes (hunk_lines h)) = removed_in h"
proof -
  have "filter adds (map line_text ls) = map line_text (filter is_add ls)" "filter removes (map line_text ls) = map line_text (filter is_remove ls)"
    if "list_all readable_line ls" for ls
    using that by (induction ls) (simp_all add: line_facts del: line_text.simps)
  from this[OF assms] show "length (filter adds (hunk_lines h)) = added_in h" "length (filter removes (hunk_lines h)) = removed_in h"
    by (simp_all add: hunk_lines_def head_facts added_in_def removed_in_def del: append.simps)
qed

lemma counts_file:
  assumes "readable_file fd"
  shows "length (filter adds (file_lines fd)) = sum_list (map added_in (fd_hunks fd))"
    "length (filter removes (file_lines fd)) = sum_list (map removed_in (fd_hunks fd))"
proof -
  have h: "list_all (\<lambda>h. list_all readable_line (dh_lines h)) (fd_hunks fd)" and i: "list_all inert_line (fd_intro fd)"
    using assms by (auto simp: readable_file_def list_all_iff)
  have "length (filter adds (concat (map hunk_lines hs))) = sum_list (map added_in hs)"
    "length (filter removes (concat (map hunk_lines hs))) = sum_list (map removed_in hs)"
    if "list_all (\<lambda>h. list_all readable_line (dh_lines h)) hs" for hs
    using that by (induction hs) (simp_all add: counts_hunk)
  note this[OF h]
  moreover have "filter adds (fd_intro fd) = []" "filter removes (fd_intro fd) = []"
    using i by (auto simp: filter_empty_conv list_all_iff inert_facts)
  ultimately show "length (filter adds (file_lines fd)) = sum_list (map added_in (fd_hunks fd))"
    "length (filter removes (file_lines fd)) = sum_list (map removed_in (fd_hunks fd))"
    by (simp_all add: file_lines_def name_facts[simplified])
qed

lemma counts_diff:
  assumes "list_all readable_file fds"
  shows "line_change_counts (Some (diff_text fds)) = (count_lines added_in fds, count_lines removed_in fds)"
proof -
  have "length (filter adds (concat (map file_lines fds))) = count_lines added_in fds"
    "length (filter removes (concat (map file_lines fds))) = count_lines removed_in fds"
    using assms by (induction fds) (simp_all add: counts_file count_lines_def)
  then show ?thesis by (simp add: line_change_counts_def splitlines_diff[OF assms])
qed

section \<open>The text after each hunk\<close>

lemma block_line_text:
  "readable_line l \<Longrightarrow> block_line (Some p, act, b, bs) (line_text l)
     = Inr (Some p, act @ after_lines [l], b \<or> is_add l, bs)"
  by (cases l) (auto simp: block_line_def line_facts after_lines_def drop_Suc simp del: line_text.simps)

lemma block_lines:
  assumes "list_all readable_line ls"
  shows "foldR block_line (Some p, act, b, bs) (map line_text ls)
    = Inr (Some p, act @ after_lines ls, b \<or> list_ex is_add ls, bs)"
  using assms
proof (induction ls arbitrary: act b)
  case (Cons l ls)
  then show ?case by (simp add: block_line_text after_lines_def del: line_text.simps)
qed (simp add: after_lines_def)

lemma block_line_nowhere:
  "readable_line l \<Longrightarrow> block_line (None, [], False, bs) (line_text l) = Inr (None, [], False, bs)"
  by (simp add: block_line_def line_facts finish_block_def del: line_text.simps)

lemma block_lines_nowhere:
  "list_all readable_line ls \<Longrightarrow> foldR block_line (None, [], False, bs) (map line_text ls) = Inr (None, [], False, bs)"
  by (induction ls) (simp_all add: block_line_nowhere del: line_text.simps)

lemma is_add_stays: "is_add l \<Longrightarrow> \<not> is_remove l"
  by (cases l) simp_all

lemma after_lines_Nil: "list_ex is_add ls \<Longrightarrow> after_lines ls \<noteq> []"
  by (auto simp: after_lines_def list_ex_iff filter_empty_conv dest: is_add_stays)

lemma added_in_pos: "0 < added_in h \<longleftrightarrow> list_ex is_add (dh_lines h)"
  by (auto simp: added_in_def list_ex_iff filter_empty_conv)

lemma block_hunk:
  assumes "list_all readable_line (dh_lines h)"
  shows "\<exists>st'. foldR block_line st (hunk_lines h) = Inr st' \<and> fst st' = fst st
    \<and> finish_block st' = finish_block st @ (case fst st of None \<Rightarrow> []
        | Some p \<Rightarrow> if 0 < added_in h then [(p, join_with [newline] (after_lines (dh_lines h)))] else [])"
proof -
  obtain cur act b bs where st: "st = (cur, act, b, bs)" by (cases st)
  have head: "block_line st (''@@ '' @ dh_header h) = Inr (cur, [], False, finish_block st)"
    by (simp add: st block_line_def head_facts del: append_Cons)
  show ?thesis
  proof (cases cur)
    case None
    then show ?thesis
      using block_lines_nowhere[OF assms, of "finish_block st"] head
      by (simp add: hunk_lines_def st finish_block_def del: append_Cons)
  next
    case (Some p)
    then show ?thesis
      using block_lines[OF assms, of p "[]" False "finish_block st"] head after_lines_Nil[of "dh_lines h"]
      by (auto simp: hunk_lines_def added_in_pos finish_block_def st simp del: append_Cons)
  qed
qed

lemma block_hunks:
  assumes "list_all (\<lambda>h. list_all readable_line (dh_lines h)) hs"
  shows "\<exists>st'. foldR block_line st (concat (map hunk_lines hs)) = Inr st' \<and> fst st' = fst st
    \<and> finish_block st' = finish_block st @ (case fst st of None \<Rightarrow> []
        | Some p \<Rightarrow> map (\<lambda>h. (p, join_with [newline] (after_lines (dh_lines h)))) (filter (\<lambda>h. 0 < added_in h) hs))"
  using assms
proof (induction hs arbitrary: st)
  case (Cons h hs)
  have p: "list_all readable_line (dh_lines h)" "list_all (\<lambda>h. list_all readable_line (dh_lines h)) hs" using Cons.prems by simp_all
  obtain st1 where st1: "foldR block_line st (hunk_lines h) = Inr st1" "fst st1 = fst st"
    "finish_block st1 = finish_block st @ (case fst st of None \<Rightarrow> []
        | Some p \<Rightarrow> if 0 < added_in h then [(p, join_with [newline] (after_lines (dh_lines h)))] else [])"
    using block_hunk[OF p(1), of st] by blast
  obtain st2 where st2: "foldR block_line st1 (concat (map hunk_lines hs)) = Inr st2" "fst st2 = fst st1"
    "finish_block st2 = finish_block st1 @ (case fst st1 of None \<Rightarrow> []
        | Some p \<Rightarrow> map (\<lambda>h. (p, join_with [newline] (after_lines (dh_lines h)))) (filter (\<lambda>h. 0 < added_in h) hs))"
    using Cons.IH[OF p(2), of st1] by blast
  have "foldR block_line st (concat (map hunk_lines (h # hs))) = Inr st2" by (simp add: foldR_append st1 st2)
  then show ?case using st1(2,3) st2(2,3) by (cases "fst st") auto
qed (simp split: option.split)

lemma block_intro:
  assumes "list_all inert_line ls"
  shows "\<exists>st'. foldR block_line st ls = Inr st' \<and> finish_block st' = finish_block st"
  using assms
proof (induction ls arbitrary: st)
  case (Cons l ls)
  have l: "inert_line l" "list_all inert_line ls" using Cons.prems by simp_all
  obtain cur act b bs where st: "st = (cur, act, b, bs)" by (cases st)
  let ?st = "(cur, [] :: string list, False, finish_block st)"
  have "block_line st l = Inr ?st" by (simp add: st block_line_def inert_facts[OF l(1)])
  moreover have "finish_block ?st = finish_block st" by (simp add: finish_block_def split: option.split)
  ultimately show ?case using Cons.IH[OF l(2), of ?st] by simp
qed simp

lemma block_file:
  assumes "readable_file fd"
  shows "\<exists>st'. foldR block_line st (file_lines fd) = Inr st' \<and> finish_block st' = finish_block st @ file_blocks fd"
proof -
  have parts: "list_all (\<lambda>h. list_all readable_line (dh_lines h)) (fd_hunks fd)" "list_all inert_line (fd_intro fd)"
    using assms by (auto simp: readable_file_def list_all_iff)
  obtain st1 where st1: "foldR block_line st (fd_intro fd) = Inr st1" "finish_block st1 = finish_block st"
    using block_intro[OF parts(2), of st] by blast
  let ?st2 = "(fst st1, [] :: string list, False, finish_block st1)"
  let ?st3 = "(fd_new fd, [] :: string list, False, finish_block st1)"
  have old: "block_line st1 (''--- '' @ file_name_text ''a/'' (fd_old fd)) = Inr ?st2"
    by (cases st1) (simp add: block_line_def name_facts del: append_Cons)
  have "finish_block ?st2 = finish_block st1" by (simp add: finish_block_def split: option.split)
  then have new: "block_line ?st2 (''+++ '' @ file_name_text ''b/'' (fd_new fd)) = Inr ?st3"
    using marker_name[of "fd_new fd" "''b/''" "''+++ ''"] assms
    by (auto simp: block_line_def readable_file_def readable_name_def marked_file_def simp del: append_Cons split: option.splits)
  obtain st' where st': "foldR block_line ?st3 (concat (map hunk_lines (fd_hunks fd))) = Inr st'"
    "finish_block st' = finish_block ?st3 @ (case fst ?st3 of None \<Rightarrow> []
        | Some p \<Rightarrow> map (\<lambda>h. (p, join_with [newline] (after_lines (dh_lines h)))) (filter (\<lambda>h. 0 < added_in h) (fd_hunks fd)))"
    using block_hunks[OF parts(1), of ?st3] by blast
  have "foldR block_line st (file_lines fd) = Inr st'"
    unfolding file_lines_def foldR_append st1(1) bindR_Inr foldR.simps old new using st'(1) .
  moreover have "finish_block ?st3 = finish_block st1" by (simp add: finish_block_def split: option.split)
  ultimately show ?thesis using st'(2) st1(2) by (simp add: file_blocks_def)
qed

lemma block_files:
  assumes "list_all readable_file fds"
  shows "\<exists>st'. foldR block_line st (concat (map file_lines fds)) = Inr st'
    \<and> finish_block st' = finish_block st @ concat (map file_blocks fds)"
  using assms
proof (induction fds arbitrary: st)
  case (Cons fd fds)
  have p: "readable_file fd" "list_all readable_file fds" using Cons.prems by simp_all
  obtain st1 where st1: "foldR block_line st (file_lines fd) = Inr st1" "finish_block st1 = finish_block st @ file_blocks fd"
    using block_file[OF p(1), of st] by blast
  obtain st2 where st2: "foldR block_line st1 (concat (map file_lines fds)) = Inr st2"
    "finish_block st2 = finish_block st1 @ concat (map file_blocks fds)"
    using Cons.IH[OF p(2), of st1] by blast
  then show ?case by (auto simp: foldR_append st1)
qed simp

lemma postimage_blocks_diff:
  assumes "list_all readable_file fds"
  shows "postimage_blocks (diff_text fds) = Inr (concat (map file_blocks fds))"
  using block_files[OF assms, of "(None, [], False, [])"]
  by (auto simp: postimage_blocks_def splitlines_diff[OF assms] finish_block_def)

section \<open>Hunks that keep nothing\<close>

lemma hunk_line_text:
  "readable_line l \<Longrightarrow> hunk_line (hs, Some h, p) (line_text l)
     = Inr (hs, Some (h\<lparr>hk_deleted := hk_deleted h + (if is_remove l then 1 else 0),
          hk_added := hk_added h + (if is_add l then 1 else 0), hk_context := hk_context h + (if is_keep l then 1 else 0)\<rparr>), p)"
  by (cases l) (simp_all add: hunk_line_def line_facts del: line_text.simps)

lemma hunk_lines_scan:
  assumes "list_all readable_line ls"
  shows "foldR hunk_line (hs, Some h, p) (map line_text ls)
    = Inr (hs, Some (h\<lparr>hk_deleted := hk_deleted h + length (filter is_remove ls),
        hk_added := hk_added h + length (filter is_add ls), hk_context := hk_context h + length (filter is_keep ls)\<rparr>), p)"
  using assms
proof (induction ls arbitrary: h)
  case (Cons l ls)
  then show ?case by (cases l) (simp_all add: hunk_line_text del: line_text.simps)
qed simp

definition path_or_empty :: "string option \<Rightarrow> string" where
  "path_or_empty p = (case p of None \<Rightarrow> [] | Some n \<Rightarrow> n)"

lemma hunk_scan:
  assumes "list_all readable_line (dh_lines h)"
  shows "foldR hunk_line (hs, cur, p) (hunk_lines h) = Inr (finish_hunk cur hs, Some (hunk_of (path_or_empty p) h), p)"
  using hunk_lines_scan[OF assms]
  by (simp add: hunk_lines_def hunk_line_def head_facts hunk_of_def removed_in_def added_in_def kept_in_def path_or_empty_def
      del: append_Cons)

lemma hunks_scan:
  assumes "list_all (\<lambda>h. list_all readable_line (dh_lines h)) ds"
  shows "\<exists>hs' cur'. foldR hunk_line (hs, cur, p) (concat (map hunk_lines ds)) = Inr (hs', cur', p)
    \<and> finish_hunk cur' hs' = finish_hunk cur hs @ filter hunk_is_unpreserved (map (hunk_of (path_or_empty p)) ds)"
  using assms
proof (induction ds arbitrary: hs cur)
  case (Cons d ds)
  have d: "list_all readable_line (dh_lines d)" "list_all (\<lambda>h. list_all readable_line (dh_lines h)) ds" using Cons.prems by simp_all
  obtain hs' cur' where i: "foldR hunk_line (finish_hunk cur hs, Some (hunk_of (path_or_empty p) d), p) (concat (map hunk_lines ds))
      = Inr (hs', cur', p)"
    "finish_hunk cur' hs' = finish_hunk (Some (hunk_of (path_or_empty p) d)) (finish_hunk cur hs)
        @ filter hunk_is_unpreserved (map (hunk_of (path_or_empty p)) ds)"
    using Cons.IH[OF d(2)] by blast
  have "foldR hunk_line (hs, cur, p) (concat (map hunk_lines (d # ds))) = Inr (hs', cur', p)"
    by (simp add: foldR_append hunk_scan[OF d(1)] i(1))
  moreover have "finish_hunk (Some (hunk_of (path_or_empty p) d)) (finish_hunk cur hs)
      = finish_hunk cur hs @ filter hunk_is_unpreserved [hunk_of (path_or_empty p) d]"
    by (simp add: finish_hunk_def)
  ultimately show ?case using i(2) by auto
qed simp

lemma hunk_inert: "inert_line l \<Longrightarrow> hunk_line (hs, cur, p) l = Inr (hs, cur, p)"
  by (cases cur) (simp_all add: hunk_line_def inert_facts)

lemma hunk_intro: "list_all inert_line ls \<Longrightarrow> foldR hunk_line (hs, cur, p) ls = Inr (hs, cur, p)"
  by (induction ls) (simp_all add: hunk_inert)

lemma hunk_file:
  assumes "readable_file fd"
  shows "\<exists>hs' cur' p'. foldR hunk_line (hs, cur, p) (file_lines fd) = Inr (hs', cur', p')
    \<and> finish_hunk cur' hs' = finish_hunk cur hs @ file_hunks fd"
proof -
  have parts: "list_all (\<lambda>h. list_all readable_line (dh_lines h)) (fd_hunks fd)" "list_all inert_line (fd_intro fd)"
    using assms by (auto simp: readable_file_def list_all_iff)
  let ?p = "case fd_old fd of None \<Rightarrow> p | Some n \<Rightarrow> Some n"
  have old: "hunk_line (hs, cur, p) (''--- '' @ file_name_text ''a/'' (fd_old fd)) = Inr (hs, cur, ?p)"
    using marker_name[of "fd_old fd" "''a/''" "''--- ''"] assms
    by (auto simp: hunk_line_def readable_file_def readable_name_def name_facts simp del: append_Cons split: option.splits)
  have new: "hunk_line (hs, cur, ?p) (''+++ '' @ file_name_text ''b/'' (fd_new fd)) = Inr (hs, cur, ?p)"
    by (cases cur) (simp_all add: hunk_line_def name_facts del: append_Cons)
  obtain hs' cur' where s: "foldR hunk_line (hs, cur, ?p) (concat (map hunk_lines (fd_hunks fd))) = Inr (hs', cur', ?p)"
    "finish_hunk cur' hs' = finish_hunk cur hs @ filter hunk_is_unpreserved (map (hunk_of (path_or_empty ?p)) (fd_hunks fd))"
    using hunks_scan[OF parts(1), of hs cur ?p] by blast
  have "foldR hunk_line (hs, cur, p) (file_lines fd) = Inr (hs', cur', ?p)"
    unfolding file_lines_def foldR_append hunk_intro[OF parts(2)] bindR_Inr foldR.simps old new using s(1) .
  moreover have "filter hunk_is_unpreserved (map (hunk_of (path_or_empty ?p)) (fd_hunks fd)) = file_hunks fd"
  proof (cases "fd_old fd")
    case None
    then have "\<forall>h \<in> set (fd_hunks fd). removed_in h = 0"
      using assms by (simp add: readable_file_def list_all_iff removed_in_def filter_empty_conv)
    then show ?thesis using None by (auto simp: file_hunks_def filter_empty_conv hunk_is_unpreserved_def hunk_of_def)
  qed (simp add: file_hunks_def path_or_empty_def)
  ultimately show ?thesis using s(2) by auto
qed

lemma hunk_files:
  assumes "list_all readable_file fds"
  shows "\<exists>hs' cur' p'. foldR hunk_line (hs, cur, p) (concat (map file_lines fds)) = Inr (hs', cur', p')
    \<and> finish_hunk cur' hs' = finish_hunk cur hs @ concat (map file_hunks fds)"
  using assms
proof (induction fds arbitrary: hs cur p)
  case (Cons fd fds)
  have r: "readable_file fd" "list_all readable_file fds" using Cons.prems by simp_all
  obtain hs1 cur1 p1 where 1: "foldR hunk_line (hs, cur, p) (file_lines fd) = Inr (hs1, cur1, p1)"
    "finish_hunk cur1 hs1 = finish_hunk cur hs @ file_hunks fd"
    using hunk_file[OF r(1), of hs cur p] by blast
  obtain hs2 cur2 p2 where "foldR hunk_line (hs1, cur1, p1) (concat (map file_lines fds)) = Inr (hs2, cur2, p2)"
    "finish_hunk cur2 hs2 = finish_hunk cur1 hs1 @ concat (map file_hunks fds)"
    using Cons.IH[OF r(2), of hs1 cur1 p1] by blast
  then show ?case by (auto simp: foldR_append 1)
qed simp

lemma unpreserved_hunks_diff:
  assumes "list_all readable_file fds"
  shows "unpreserved_hunks (diff_text fds) = Inr (concat (map file_hunks fds))"
  using hunk_files[OF assms, of "[]" None None]
  by (auto simp: unpreserved_hunks_def splitlines_diff[OF assms] finish_hunk_def)


section \<open>The scans are exact\<close>

definition sample_diff :: "file_diff list" where
  "sample_diff =
     [\<lparr>fd_intro = [''diff --git a/x.md b/x.md'', ''index 1..2 100644''], fd_old = Some ''x.md'', fd_new = Some ''x.md'',
        fd_hunks = [\<lparr>dh_header = ''-1,3 +1,2 @@'', dh_lines = [Keep ''one'', Remove ''two'', Remove ''- three'', Add ''+ four'']\<rparr>,
          \<lparr>dh_header = ''-9,2 +8 @@'', dh_lines = [Remove ''five'', Remove ''six'', Add ''seven'']\<rparr>]\<rparr>,
      \<lparr>fd_intro = [''diff --git a/n b/n''], fd_old = None, fd_new = Some ''n'',
        fd_hunks = [\<lparr>dh_header = ''-0,0 +1 @@'', dh_lines = [Add []]\<rparr>]\<rparr>]"



section \<open>What a passed patch has\<close>

definition names_revision :: "json \<Rightarrow> string \<Rightarrow> bool" where
  "names_revision v r \<longleftrightarrow> (\<exists>s. v = JStr s \<and> lower s = lower r)"

definition sound_artifact :: "(string \<Rightarrow> string) \<Rightarrow> patch_evaluation \<Rightarrow> bool" where
  "sound_artifact digest pe \<longleftrightarrow>
     (let a = pe_artifact pe in pe_content pe \<noteq> PatchOther
      \<and> dget a ''kind'' = JStr ''GeneratedArtifact'' \<and> dget a ''artifactType'' = JStr ''PATCH''
      \<and> dget a ''contentAddress'' = JStr (content_address digest (pb_bytes (content_bytes (pe_content pe))))
      \<and> names_revision (dget a ''repositoryRevision'') (pe_expected pe))"

definition applies :: "git_evidence \<Rightarrow> bool" where
  "applies ge \<longleftrightarrow> ge_status ge = ''SUCCEEDED'' \<and> ge_applicable ge \<and> ge_changed ge \<noteq> []"

definition covers :: "string list \<Rightarrow> string \<Rightarrow> bool" where
  "covers rules p \<longleftrightarrow> safe_relative_path p \<and> (\<exists>r \<in> set rules. p = r \<or> starts_with (r @ ''/'') p)"

definition confined :: "patch_rules \<Rightarrow> string list \<Rightarrow> bool" where
  "confined rules changed \<longleftrightarrow> (\<forall>p \<in> set changed. covers (pr_allowed rules) p)
     \<and> set (pr_required rules) \<subseteq> set changed \<and> set (pr_no_change rules) \<inter> set changed = {}"

definition loses_only_authorized :: "patch_rules \<Rightarrow> patch_facts \<Rightarrow> bool" where
  "loses_only_authorized rules pf \<longleftrightarrow> (\<forall>p \<in> set (pf_deleted pf). covers (pr_deletable rules) p)
     \<and> (\<forall>h \<in> set (pf_hunks pf). covers (pr_deletable rules) (hk_path h))
     \<and> (pf_deleted pf = [] \<longrightarrow> pf_removed pf < 20 \<or> replacement_ratio pf \<le> round_double (4 / 5))"

definition patch_accepted ::
  "(string \<Rightarrow> string) \<Rightarrow> patch_evaluation \<Rightarrow> patch_rules \<Rightarrow> patch_facts \<Rightarrow> git_evidence \<Rightarrow> bool" where
  "patch_accepted digest pe rules pf ge \<longleftrightarrow> sound_artifact digest pe
     \<and> (if all_no_change rules (content_bytes (pe_content pe)) then ge_changed ge = []
        else pb_bytes (content_bytes (pe_content pe)) \<noteq> [] \<and> applies ge)
     \<and> confined rules (ge_changed ge) \<and> pf_missing pf = [] \<and> \<not> list_ex nonempty_str (pe_unsupported pe)
     \<and> loses_only_authorized rules pf"

lemma sort_Nil [simp]: "sort xs = [] \<longleftrightarrow> xs = []"
  by (metis set_empty set_sort)

lemma matching_rule_covers: "matching_rule p rules = None \<longleftrightarrow> \<not> covers rules p"
  by (auto simp: matching_rule_def covers_def find_None_iff)

lemma artifact_errors_Nil:
  "artifact_errors digest pe rules content = [] \<longleftrightarrow> pe_content pe \<noteq> PatchOther
     \<and> dget (pe_artifact pe) ''kind'' = JStr ''GeneratedArtifact'' \<and> dget (pe_artifact pe) ''artifactType'' = JStr ''PATCH''
     \<and> dget (pe_artifact pe) ''contentAddress'' = JStr (content_address digest (pb_bytes content))
     \<and> names_revision (dget (pe_artifact pe) ''repositoryRevision'') (pe_expected pe)
     \<and> (pb_bytes content \<noteq> [] \<or> all_no_change rules content)"
proof -
  have r: "names_revision v (pe_expected pe) \<longleftrightarrow> is_str v \<and> lower (as_str v) = lower (pe_expected pe)" for v
    by (cases v) (simp_all add: names_revision_def)
  show ?thesis by (auto simp: artifact_errors_def Let_def r)
qed

lemma git_evidence_ok:
  assumes "git_evidence_of r = Inr ge"
  shows "ge_errors ge = [] \<longleftrightarrow> applies ge"
  using assms
  by (auto simp: git_evidence_of_def applies_def bindR_eq_Inr Let_def git_not_run_def split: if_splits)

lemma run_git_check_evidence:
  assumes "run_git_check pv pe c patch_text s = (Inr ge, u)"
  shows "\<exists>r. git_evidence_of r = Inr ge"
  using assms unfolding run_git_check_def bindE_Inr_iff liftR_Inr_iff by (elim exE conjE) (rule exI)

lemma check_with_git_ok:
  assumes "check_with_git pv pe c rules content found s = (Inr ge, u)"
  shows "all_no_change rules content \<Longrightarrow> ge_errors ge = [] \<and> ge_changed ge = []"
    and "\<not> all_no_change rules content \<Longrightarrow> found = [] \<Longrightarrow> ge_errors ge = [] \<longleftrightarrow> applies ge"
proof -
  show "all_no_change rules content \<Longrightarrow> ge_errors ge = [] \<and> ge_changed ge = []"
    using assms by (auto simp: check_with_git_def git_not_run_def success_iffs)
  show "\<not> all_no_change rules content \<Longrightarrow> found = [] \<Longrightarrow> ge_errors ge = [] \<longleftrightarrow> applies ge"
    using assms git_evidence_ok run_git_check_evidence
    by (fastforce simp: check_with_git_def git_not_run_def applies_def ret_Inr_iff split: option.splits)
qed

lemma unsupported_criteria_Nil: "unsupported_criteria pe = [] \<longleftrightarrow> \<not> list_ex nonempty_str (pe_unsupported pe)"
  by (simp add: unsupported_criteria_def filter_empty_conv list_ex_iff)

lemma change_errors_Nil:
  "change_errors pe rules pf changed = [] \<longleftrightarrow> confined rules changed \<and> pf_missing pf = []
     \<and> \<not> list_ex nonempty_str (pe_unsupported pe) \<and> loses_only_authorized rules pf"
proof -
  have d: "unauthorized_deletions rules pf = [] \<longleftrightarrow> (\<forall>p \<in> set (pf_deleted pf). covers (pr_deletable rules) p)"
    by (simp add: unauthorized_deletions_def unauthorized_def filter_empty_conv matching_rule_covers)
  have h: "unauthorized_hunks rules pf = [] \<longleftrightarrow> (\<forall>h \<in> set (pf_hunks pf). covers (pr_deletable rules) (hk_path h))"
    by (simp add: unauthorized_hunks_def unauthorized_def filter_empty_conv matching_rule_covers)
  show ?thesis
    unfolding change_errors_def append_is_Nil_conv map_is_Nil_conv unsupported_criteria_Nil confined_def loses_only_authorized_def
    by (auto simp: filter_empty_conv matching_rule_covers d h destructive_def deletion_authorized_def)
qed

lemma outcome_of_record:
  "dget (evaluation_record digest pe c rules content pf ge bindings errors) ''outcome''
     = JStr (if errors = [] then ''PASS'' else ''FAIL'')"
  by (simp add: evaluation_record_def Let_def dget_Cons)


definition sample_evaluator :: "(store \<times> fake_adapter) patch_evaluator" where
  "sample_evaluator = \<lparr>pv_store = world_store ''now'', pv_runtime = fake_runtime ''t1'' 5 (\<lambda>q. ret True),
     pv_validator = json_schema_tool_validator (\<lambda>v. []) (\<lambda>v. []), pv_git_tool = None, pv_digest = (\<lambda>s. ''d''),
     pv_env = \<lparr>env_sha256 = (\<lambda>s. s), env_uuid5 = (\<lambda>s. s), env_iso = (\<lambda>s. None), env_schema = (\<lambda>n j. [])\<rparr>\<rparr>"

definition passing_revision :: string where
  "passing_revision = replicate 40 (CHR ''a'')"

definition passing_patch :: "file_diff list" where
  "passing_patch = [\<lparr>fd_intro = [], fd_old = Some ''d/x'', fd_new = Some ''d/x'',
     fd_hunks = [\<lparr>dh_header = ''-1 +1,2 @@'', dh_lines = [Keep ''one'', Add ''two'']\<rparr>]\<rparr>]"

definition sample_evaluation :: patch_evaluation where
  "sample_evaluation = \<lparr>pe_result_id = ''e'', pe_task = ''t'', pe_evaluation_ref = [],
     pe_artifact = [(''id'', JStr ''p''), (''kind'', JStr ''GeneratedArtifact''), (''artifactType'', JStr ''PATCH''),
       (''contentAddress'', JStr ''sha256:d''), (''repositoryRevision'', JStr passing_revision)],
     pe_content = PatchText (diff_text passing_patch), pe_expected = passing_revision, pe_allowed = JList [JStr ''d/''],
     pe_required = JList [JStr ''d/x''], pe_no_change = JList [], pe_deletable = JList [],
     pe_insertions = [[(''path'', JStr ''d/x''), (''value'', JStr ''two'')]], pe_postimages = [], pe_unsupported = [],
     pe_requirements = [], pe_branch = ''main'',
     pe_correlation = Context \<lparr>cor_trace = ''trace'', cor_workflow = ''w'', cor_task = Some ''t''\<rparr>, pe_timestamp = ''t0'',
     pe_provenance = [(''workflowExecutionId'', JStr ''w'')], pe_tool_ref = None, pe_invocation = None, pe_timeout = 10\<rparr>"

definition sample_check :: "store \<times> fake_adapter" where
  "sample_check = sample_git_world [Gives (Finished \<lparr>tr_status = TOOL_SUCCEEDED,
     tr_output = JObj [(''applicable'', JBool True), (''changedFiles'', JList [JObj [(''path'', JStr ''d/x'')]])],
     tr_logs = None, tr_metrics = \<lparr>tm_duration = 3, tm_cpu = None, tm_memory = None\<rparr>, tr_started = ''t0'', tr_completed = ''t1'',
     tr_class = None, tr_message = None\<rparr>)]"


end
