(* ===== verification/AgentResolver.thy ===== *)
theory AgentResolver
  imports Resources Observability ToolRuntime CanonicalText
begin

text \<open>
  Agent resolution (\<open>agent_resolver.py\<close>): a task's agent bound to explicit versions of its prompt,
  model, tools and policies, refused when a policy denies a capability of a tool without
  condition.  The record is deeply immutable, which values are here, so \<open>_freeze\<close> and \<open>_thaw\<close> are the
  identity.  SHA-256 and the schema validator are fields of \<open>environment\<close>.
\<close>

section \<open>References\<close>

definition invalid_agent_ref :: "string \<Rightarrow> dict \<Rightarrow> exn" where
  "invalid_agent_ref m details = Exn InvalidAgentReferenceError m (JObj details)"

definition agent_validate_ref :: "string \<Rightarrow> string \<Rightarrow> resource_ref \<Rightarrow> exn + resource_ref" where
  "agent_validate_ref expected field ref =
     bindR (checkR (ref_kind ref = expected)
       (invalid_agent_ref (field @ '' must reference kind '' @ expected @ '', got '' @ ref_kind ref)
          [(''field'', JStr field), (''expectedKind'', JStr expected), (''actualKind'', JStr (ref_kind ref))])) (\<lambda>_.
     bindR (checkR (ref_name ref \<noteq> [] \<and> is_semver (ref_version ref))
       (invalid_agent_ref (field @ '' must reference an explicit immutable '' @ expected @ '' version'')
          [(''field'', JStr field),
           (''reason'', JStr (if ref_version ref = ''latest'' then ''floating_version'' else ''invalid_reference'')),
           (''resourceRef'', ref_record ref)])) (\<lambda>_. Inr ref))"

definition declared_ref :: "string \<Rightarrow> string \<Rightarrow> json \<Rightarrow> exn + resource_ref" where
  "declared_ref expected field value =
     (let unreadable = (\<lambda>reason. invalid_agent_ref (field @ '' must be an explicit Resource reference'')
            [(''field'', JStr field), (''reason'', JStr reason)]) in
      if \<not> is_mapping value then Inl (unreadable ''required'')
      else case ref_from_mapping (as_dict value) of
        Inr ref \<Rightarrow> agent_validate_ref expected field ref
      | Inl e \<Rightarrow> Inl (if instance_of e KeyError \<or> instance_of e TypeError \<or> instance_of e ValueError
          then unreadable ''invalid_reference'' else e))"

fun mapR_from :: "nat \<Rightarrow> (nat \<Rightarrow> 'a \<Rightarrow> exn + 'b) \<Rightarrow> 'a list \<Rightarrow> exn + 'b list" where
  "mapR_from n f [] = Inr []"
| "mapR_from n f (x # xs) = bindR (f n x) (\<lambda>y. bindR (mapR_from (Suc n) f xs) (\<lambda>ys. Inr (y # ys)))"

definition at_index :: "string \<Rightarrow> nat \<Rightarrow> string" where
  "at_index field i = field @ ''['' @ dec_nat i @ '']''"

definition declared_refs :: "string \<Rightarrow> string \<Rightarrow> json \<Rightarrow> exn + resource_ref list" where
  "declared_refs expected field value =
     bindR (checkR (is_list value)
       (invalid_agent_ref (field @ '' must be an array of Resource references'')
          [(''field'', JStr field), (''reason'', JStr ''invalid_type'')])) (\<lambda>_.
     bindR (mapR_from 0 (\<lambda>i. declared_ref expected (at_index field i)) (as_list value)) (\<lambda>refs.
     bindR (checkR (distinct refs)
       (invalid_agent_ref (field @ '' must not contain duplicate references'')
          [(''field'', JStr field), (''reason'', JStr ''duplicate_reference'')])) (\<lambda>_.
     Inr refs)))"

section \<open>Resources\<close>

definition agent_resource :: "collection \<Rightarrow> string \<Rightarrow> resource_ref \<Rightarrow> exn + resource" where
  "agent_resource resources field ref =
     (case collection_get resources ref of
        None \<Rightarrow> Inl (Exn MissingAgentResourceError (field @ '' cannot resolve '' @ format_ref ref)
          (JObj [(''field'', JStr field), (''resourceRef'', ref_record ref)]))
      | Some r \<Rightarrow>
          bindR (checkR (res_kind r = ref_kind ref \<and> dget (res_data r) ''kind'' = JStr (ref_kind ref))
            (invalid_agent_ref (field @ '' resolved '' @ format_ref ref @ '' with the wrong Resource kind'')
               [(''field'', JStr field), (''expectedKind'', JStr (ref_kind ref))])) (\<lambda>_. Inr r))"

definition agent_resources :: "collection \<Rightarrow> string \<Rightarrow> resource_ref list \<Rightarrow> exn + resource list" where
  "agent_resources resources field refs = mapR_from 0 (\<lambda>i. agent_resource resources (at_index field i)) refs"

definition agent_spec :: "resource \<Rightarrow> exn + dict" where
  "agent_spec r =
     (let spec = dget (res_data r) ''spec'' in
      if is_mapping spec then Inr (as_dict spec)
      else Inl (invalid_agent_ref (format_ref (res_ref r) @ '' must declare a spec object'')
             [(''resourceRef'', ref_record (res_ref r)), (''field'', JStr ''spec'')]))"

definition reject_provider_tool :: "resource \<Rightarrow> exn + unit" where
  "reject_provider_tool tool =
     bindR (agent_spec tool) (\<lambda>spec.
     checkR (\<not> dhas spec ''provider'')
       (invalid_agent_ref (format_ref (res_ref tool) @ '' configures a model provider and cannot be listed as a Tool'')
          [(''toolRef'', ref_record (res_ref tool)), (''reason'', JStr ''model_provider'')]))"

section \<open>Denied tools\<close>

text \<open>What an unconditional rule denies of the capabilities of a tool.\<close>

definition denied_capabilities :: "json list \<Rightarrow> json \<Rightarrow> json list" where
  "denied_capabilities capabilities rule =
     (let denied = mget rule ''capabilities'' in
      if is_mapping rule \<and> mget rule ''effect'' = JStr ''deny'' \<and> \<not> dhas (as_dict rule) ''conditions'' \<and> is_list denied
      then filter (\<lambda>c. list_ex (\<lambda>d. py_eq c d) (as_list denied)) capabilities else [])"

definition tool_denied :: "resource \<Rightarrow> resource \<Rightarrow> nat \<Rightarrow> json list \<Rightarrow> exn" where
  "tool_denied policy tool index overlap =
     (if list_all is_str overlap then
        Exn AgentToolDeniedError
          (format_ref (res_ref policy) @ '' denies '' @ format_ref (res_ref tool) @ '' capabilities: ''
           @ join_with '', '' (map as_str overlap))
          (JObj [(''toolRef'', ref_record (res_ref tool)), (''policyRef'', ref_record (res_ref policy)),
             (''ruleIndex'', JInt (int index)), (''capabilities'', JList overlap)])
      else type_error ''sequence item: expected str instance'')"

definition check_rule :: "resource \<Rightarrow> resource \<Rightarrow> json list \<Rightarrow> nat \<Rightarrow> json \<Rightarrow> exn + unit" where
  "check_rule policy tool capabilities index rule =
     (let overlap = denied_capabilities capabilities rule in
      checkR (overlap = []) (tool_denied policy tool index overlap))"

definition check_policy :: "resource \<Rightarrow> json list \<Rightarrow> resource \<Rightarrow> exn + unit" where
  "check_policy tool capabilities policy =
     bindR (agent_spec policy) (\<lambda>spec.
     if dget spec ''type'' \<noteq> JStr ''pre-execution-capability'' then Inr ()
     else bindR (mapR_from 0 (check_rule policy tool capabilities) (as_list (dget spec ''rules''))) (\<lambda>_. Inr ()))"

definition reject_denied_tool :: "resource list \<Rightarrow> resource \<Rightarrow> exn + unit" where
  "reject_denied_tool policies tool =
     bindR (agent_spec tool) (\<lambda>spec.
     let capabilities = dget spec ''capabilities'' in
     bindR (checkR (is_list capabilities)
       (invalid_agent_ref (format_ref (res_ref tool) @ '' must declare a capability allowlist'')
          [(''toolRef'', ref_record (res_ref tool)), (''field'', JStr ''spec.capabilities'')])) (\<lambda>_.
     eachR (check_policy tool (as_list capabilities)) policies))"

definition reject_denied_tools :: "resource list \<Rightarrow> resource list \<Rightarrow> exn + unit" where
  "reject_denied_tools tools policies = eachR (reject_denied_tool policies) tools"

section \<open>The record\<close>

definition agent_parameters :: "json \<Rightarrow> exn + dict" where
  "agent_parameters v =
     (if v = JNull then Inr []
      else if is_mapping v then Inr (as_dict v)
      else Inl (invalid_agent_ref ''Model.spec.parameters must be an object''
             [(''field'', JStr ''Model.spec.parameters''), (''reason'', JStr ''invalid_type'')]))"

text \<open>\<open>dict.fromkeys\<close>: the first of equal references stays.\<close>

fun first_of_each :: "'a list \<Rightarrow> 'a list" where
  "first_of_each [] = []"
| "first_of_each (x # xs) = x # filter (\<lambda>y. y \<noteq> x) (first_of_each xs)"

definition resolved_agent_id :: "environment \<Rightarrow> string \<Rightarrow> resource_ref list \<Rightarrow> string" where
  "resolved_agent_id env task refs = ''resolvedagent-'' @ take 20 (env_sha256 env (json_text True
     (JObj [(''taskExecutionId'', JStr task), (''resourceRefs'', JList (map ref_record refs))])))"

record agent_binding =
  ab_task :: resource_ref
  ab_agent :: resource_ref
  ab_prompt :: resource_ref
  ab_model :: resource_ref
  ab_tools :: "resource_ref list"
  ab_policies :: "resource_ref list"

definition binding_refs :: "agent_binding \<Rightarrow> resource_ref list" where
  "binding_refs b = [ab_task b, ab_agent b, ab_prompt b, ab_model b] @ ab_tools b @ ab_policies b"

definition model_configuration :: "dict \<Rightarrow> dict \<Rightarrow> exn + dict" where
  "model_configuration spec parameters =
     bindR (getitem spec ''provider'') (\<lambda>provider.
     bindR (getitem spec ''model'') (\<lambda>model.
     bindR (py_dict (dget_or spec ''retryPolicy'' (JObj []))) (\<lambda>retry.
     bindR (py_dict (dget_or spec ''rateLimitPolicy''
         (JObj [(''requestsPerMinute'', JInt 60000), (''tokensPerMinute'', JInt 1000000000)]))) (\<lambda>rate.
     Inr [(''provider'', provider), (''model'', model), (''parameters'', JObj parameters),
       (''tokenLimit'', dget spec ''tokenLimit''), (''timeoutMs'', dget spec ''timeoutMs''),
       (''retryPolicy'', JObj retry), (''rateLimitPolicy'', JObj rate)]))))"

definition resolved_agent_record ::
  "environment \<Rightarrow> correlation \<Rightarrow> string \<Rightarrow> string \<Rightarrow> agent_binding \<Rightarrow> dict \<Rightarrow> dict \<Rightarrow> dict \<Rightarrow> dict" where
  "resolved_agent_record env c task resolved_at b parameters configuration schema =
     [(''apiVersion'', JStr ''aep.dev/v1alpha1''), (''kind'', JStr ''ResolvedAgent''),
      (''id'', JStr (resolved_agent_id env task (binding_refs b))), (''traceId'', JStr (cor_trace c)),
      (''createdAt'', JStr resolved_at), (''updatedAt'', JStr resolved_at),
      (''provenance'', JObj [(''actor'', JStr ''agent-resolver''), (''workflowExecutionId'', JStr (cor_workflow c)),
         (''taskExecutionId'', JStr task), (''resourceRefs'', JList (map ref_record (binding_refs b)))]),
      (''taskExecutionId'', JStr task), (''agentRef'', ref_record (ab_agent b)), (''promptRef'', ref_record (ab_prompt b)),
      (''modelRef'', ref_record (ab_model b)), (''toolRefs'', JList (map ref_record (ab_tools b))),
      (''policyRefs'', JList (map ref_record (ab_policies b))), (''modelParameters'', JObj parameters),
      (''modelConfiguration'', JObj configuration), (''outputSchema'', JObj schema), (''resolvedAt'', JStr resolved_at)]"

definition validate_resolved_agent :: "environment \<Rightarrow> dict \<Rightarrow> exn + unit" where
  "validate_resolved_agent env record_of =
     (case first_error (env_schema env ''ResolvedAgent'' (JObj record_of)) of
        None \<Rightarrow> Inr ()
      | Some e \<Rightarrow> Inl (invalid_agent_ref (''invalid ResolvedAgent at '' @ path_text (err_path e) @ '': '' @ err_message e)
          [(''field'', JStr (path_text (err_path e))), (''reason'', JStr ''runtime_contract''),
           (''validationMessage'', JStr (err_message e))]))"

section \<open>Resolution\<close>

text \<open>The agent that the task assigns, with the specs of both.\<close>

definition assigned_agent :: "collection \<Rightarrow> resource_ref \<Rightarrow> resource_ref \<Rightarrow> exn + dict \<times> dict" where
  "assigned_agent resources task_ref agent_ref =
     bindR (agent_validate_ref ''Task'' ''task_ref'' task_ref) (\<lambda>_.
     bindR (agent_validate_ref ''Agent'' ''agent_ref'' agent_ref) (\<lambda>_.
     bindR (agent_resource resources ''task_ref'' task_ref) (\<lambda>task.
     bindR (agent_resource resources ''agent_ref'' agent_ref) (\<lambda>agent.
     bindR (agent_spec task) (\<lambda>task_spec.
     bindR (declared_ref ''Agent'' ''Task.spec.agentRef'' (dget task_spec ''agentRef'')) (\<lambda>assigned.
     bindR (checkR (assigned = agent_ref)
       (invalid_agent_ref (format_ref task_ref @ '' assigns '' @ format_ref assigned @ '', not '' @ format_ref agent_ref)
          [(''taskRef'', ref_record task_ref), (''assignedAgentRef'', ref_record assigned),
           (''agentRef'', ref_record agent_ref)])) (\<lambda>_.
     bindR (agent_spec agent) (\<lambda>spec. Inr (task_spec, spec)))))))))"

text \<open>All that the agent is bound to, and the spec of its model.\<close>

definition bind_agent :: "collection \<Rightarrow> resource_ref \<Rightarrow> resource_ref \<Rightarrow> dict \<Rightarrow> dict \<Rightarrow> exn + agent_binding \<times> dict" where
  "bind_agent resources task_ref agent_ref task_spec spec =
     bindR (declared_ref ''Prompt'' ''Agent.spec.promptRef'' (dget spec ''promptRef'')) (\<lambda>prompt_ref.
     bindR (declared_ref ''Model'' ''Agent.spec.modelRef'' (dget spec ''modelRef'')) (\<lambda>model_ref.
     bindR (agent_resource resources ''Agent.spec.promptRef'' prompt_ref) (\<lambda>_.
     bindR (agent_resource resources ''Agent.spec.modelRef'' model_ref) (\<lambda>model.
     bindR (declared_refs ''Tool'' ''Agent.spec.toolRefs'' (dget_or spec ''toolRefs'' (JList []))) (\<lambda>tool_refs.
     bindR (agent_resources resources ''Agent.spec.toolRefs'' tool_refs) (\<lambda>tools.
     bindR (eachR reject_provider_tool tools) (\<lambda>_.
     bindR (declared_refs ''Policy'' ''Task.spec.policies'' (dget_or task_spec ''policies'' (JList []))) (\<lambda>task_policies.
     bindR (declared_refs ''Policy'' ''Agent.spec.policyRefs'' (dget_or spec ''policyRefs'' (JList []))) (\<lambda>agent_policies.
     let policy_refs = first_of_each (task_policies @ agent_policies) in
     bindR (agent_resources resources ''policyRefs'' policy_refs) (\<lambda>policies.
     bindR (reject_denied_tools tools policies) (\<lambda>_.
     bindR (agent_spec model) (\<lambda>model_spec.
     Inr (\<lparr>ab_task = task_ref, ab_agent = agent_ref, ab_prompt = prompt_ref, ab_model = model_ref, ab_tools = tool_refs,
            ab_policies = policy_refs\<rparr>, model_spec)))))))))))))"

definition resolve_agent ::
  "environment \<Rightarrow> resource_ref \<Rightarrow> resource_ref \<Rightarrow> collection \<Rightarrow> correlation_arg \<Rightarrow> string \<Rightarrow> exn + dict" where
  "resolve_agent env task_ref agent_ref resources correlation resolved_at =
     bindR (bind_correlation correlation None None) (\<lambda>c.
     case cor_task c of
       None \<Rightarrow> Inl (invalid_agent_ref ''correlation requires taskExecutionId'' [])
     | Some task \<Rightarrow>
         bindR (checkR (resolved_at \<noteq> [])
           (invalid_agent_ref ''resolved_at must be a non-empty string''
              [(''field'', JStr ''resolved_at''), (''reason'', JStr ''required'')])) (\<lambda>_.
         bindR (assigned_agent resources task_ref agent_ref) (\<lambda>(task_spec, spec).
         bindR (bind_agent resources task_ref agent_ref task_spec spec) (\<lambda>(b, model_spec).
         bindR (agent_parameters (dget model_spec ''parameters'')) (\<lambda>parameters.
         let schema = dget_or spec ''outputSchema'' (dget task_spec ''outputs'') in
         bindR (checkR (is_mapping schema \<and> truthy schema)
           (invalid_agent_ref ''Agent or Task must declare a non-empty output schema''
              [(''field'', JStr ''outputSchema''), (''reason'', JStr ''required'')])) (\<lambda>_.
         bindR (model_configuration model_spec parameters) (\<lambda>configuration.
         let record_of = resolved_agent_record env c task resolved_at b parameters configuration (as_dict schema) in
         bindR (validate_resolved_agent env record_of) (\<lambda>_. Inr record_of))))))))"

section \<open>What a resolved agent is bound to\<close>

definition held :: "collection \<Rightarrow> string \<Rightarrow> resource_ref \<Rightarrow> bool" where
  "held resources k r \<longleftrightarrow> ref_kind r = k \<and> ref_name r \<noteq> [] \<and> is_semver (ref_version r)
     \<and> (\<exists>x. collection_get resources r = Some x \<and> res_kind x = k \<and> dget (res_data x) ''kind'' = JStr k)"

definition spec_at :: "collection \<Rightarrow> resource_ref \<Rightarrow> dict" where
  "spec_at resources r = (case collection_get resources r of None \<Rightarrow> [] | Some x \<Rightarrow> as_dict (dget (res_data x) ''spec''))"

definition refers_to :: "json \<Rightarrow> resource_ref \<Rightarrow> bool" where
  "refers_to v r \<longleftrightarrow> is_mapping v \<and> ref_from_mapping (as_dict v) = Inr r"

text \<open>A policy denies a tool: an unconditional rule of it names one of its capabilities.\<close>

definition denies :: "collection \<Rightarrow> resource_ref \<Rightarrow> resource_ref \<Rightarrow> bool" where
  "denies resources p t \<longleftrightarrow> dget (spec_at resources p) ''type'' = JStr ''pre-execution-capability''
     \<and> (\<exists>rule \<in> set (as_list (dget (spec_at resources p) ''rules'')).
          mget rule ''effect'' = JStr ''deny'' \<and> \<not> dhas (as_dict rule) ''conditions''
          \<and> (\<exists>c \<in> set (as_list (dget (spec_at resources t) ''capabilities'')).
               \<exists>d \<in> set (as_list (mget rule ''capabilities'')). py_eq c d))"

definition well_bound :: "collection \<Rightarrow> agent_binding \<Rightarrow> bool" where
  "well_bound resources b \<longleftrightarrow> held resources ''Task'' (ab_task b) \<and> held resources ''Agent'' (ab_agent b)
     \<and> held resources ''Prompt'' (ab_prompt b) \<and> held resources ''Model'' (ab_model b)
     \<and> list_all (held resources ''Tool'') (ab_tools b) \<and> list_all (held resources ''Policy'') (ab_policies b)
     \<and> distinct (ab_tools b) \<and> distinct (ab_policies b)"

definition bound_as_declared :: "collection \<Rightarrow> agent_binding \<Rightarrow> bool" where
  "bound_as_declared resources b \<longleftrightarrow>
     (let task_spec = spec_at resources (ab_task b); spec = spec_at resources (ab_agent b) in
      refers_to (dget task_spec ''agentRef'') (ab_agent b) \<and> refers_to (dget spec ''promptRef'') (ab_prompt b)
      \<and> refers_to (dget spec ''modelRef'') (ab_model b) \<and> list_all2 refers_to (as_list (dget spec ''toolRefs'')) (ab_tools b)
      \<and> set (ab_policies b) = {p. \<exists>v \<in> set (as_list (dget task_spec ''policies'')) \<union> set (as_list (dget spec ''policyRefs'')).
           refers_to v p})"

definition tools_permitted :: "collection \<Rightarrow> agent_binding \<Rightarrow> bool" where
  "tools_permitted resources b \<longleftrightarrow> (\<forall>t \<in> set (ab_tools b). \<not> dhas (spec_at resources t) ''provider''
     \<and> (\<forall>p \<in> set (ab_policies b). \<not> denies resources p t))"

definition records_binding :: "dict \<Rightarrow> agent_binding \<Rightarrow> bool" where
  "records_binding r b \<longleftrightarrow> dget r ''agentRef'' = ref_record (ab_agent b) \<and> dget r ''promptRef'' = ref_record (ab_prompt b)
     \<and> dget r ''modelRef'' = ref_record (ab_model b) \<and> dget r ''toolRefs'' = JList (map ref_record (ab_tools b))
     \<and> dget r ''policyRefs'' = JList (map ref_record (ab_policies b))
     \<and> mget (dget r ''provenance'') ''resourceRefs'' = JList (map ref_record (binding_refs b))"

lemma mapR_from_Inr:
  "mapR_from n f xs = Inr ys \<Longrightarrow> (\<And>i x y. x \<in> set xs \<Longrightarrow> f i x = Inr y \<Longrightarrow> P x y) \<Longrightarrow> list_all2 P xs ys"
proof (induction xs arbitrary: n ys)
  case (Cons x xs)
  then show ?case by (auto simp: bindR_eq_Inr)
qed simp

lemma set_first_of_each [simp]: "set (first_of_each xs) = set xs"
  by (induction xs) auto

lemma distinct_first_of_each [simp]: "distinct (first_of_each xs)"
  by (induction xs) simp_all

lemma declared_ref_Inr:
  assumes "declared_ref k field v = Inr r"
  shows "refers_to v r \<and> ref_kind r = k \<and> ref_name r \<noteq> [] \<and> is_semver (ref_version r)"
  using assms
  by (auto simp: declared_ref_def agent_validate_ref_def refers_to_def Let_def bindR_eq_Inr checkR_def split: if_splits sum.splits)

lemma declared_refs_Inr:
  assumes "declared_refs k field v = Inr rs"
  shows "list_all2 (\<lambda>v r. refers_to v r \<and> ref_kind r = k \<and> ref_name r \<noteq> [] \<and> is_semver (ref_version r)) (as_list v) rs \<and> distinct rs"
  using assms by (auto simp: declared_refs_def bindR_eq_Inr checkR_def split: if_splits elim!: mapR_from_Inr dest: declared_ref_Inr)

lemma agent_resource_Inr:
  assumes "agent_resource resources field r = Inr x"
  shows "collection_get resources r = Some x \<and> res_kind x = ref_kind r \<and> dget (res_data x) ''kind'' = JStr (ref_kind r)"
  using assms by (auto simp: agent_resource_def bindR_eq_Inr checkR_def split: option.splits if_splits)

lemma agent_resources_Inr:
  assumes "agent_resources resources field rs = Inr xs"
  shows "list_all2 (\<lambda>r x. collection_get resources r = Some x \<and> res_kind x = ref_kind r
     \<and> dget (res_data x) ''kind'' = JStr (ref_kind r)) rs xs"
  using assms unfolding agent_resources_def by (rule mapR_from_Inr) (rule agent_resource_Inr)

lemma agent_spec_Inr: "agent_spec x = Inr d \<Longrightarrow> d = as_dict (dget (res_data x) ''spec'')"
  by (simp add: agent_spec_def Let_def split: if_splits)

lemma mapR_from_unit: "mapR_from n f xs = Inr ys \<Longrightarrow> x \<in> set xs \<Longrightarrow> \<exists>i y. f i x = Inr y"
  by (induction xs arbitrary: n ys) (auto simp: bindR_eq_Inr)

lemma denied_capabilities_Nil:
  assumes "denied_capabilities cs rule = []" "mget rule ''effect'' = JStr ''deny''" "\<not> dhas (as_dict rule) ''conditions''" "c \<in> set cs"
  shows "\<forall>d \<in> set (as_list (mget rule ''capabilities'')). \<not> py_eq c d"
proof (cases "is_list (mget rule ''capabilities'')")
  case True
  have "is_mapping rule" using assms(2) by (cases rule) (simp_all add: mget_def dget_def)
  then show ?thesis
    using assms True by (auto simp: denied_capabilities_def Let_def filter_empty_conv list_ex_iff)
next
  case False
  then have "as_list (mget rule ''capabilities'') = []" by (cases "mget rule ''capabilities''") simp_all
  then show ?thesis by simp
qed

lemma check_policy_Inr:
  assumes "check_policy tool cs policy = Inr ()" "dget spec ''type'' = JStr ''pre-execution-capability''"
    and "spec = as_dict (dget (res_data policy) ''spec'')" "rule \<in> set (as_list (dget spec ''rules''))"
  shows "denied_capabilities cs rule = []"
proof -
  obtain ys where "mapR_from 0 (check_rule policy tool cs) (as_list (dget spec ''rules'')) = Inr ys"
    using assms(1-3) by (auto simp: check_policy_def bindR_eq_Inr dest!: agent_spec_Inr split: if_splits)
  from mapR_from_unit[OF this assms(4)] show ?thesis by (auto simp: check_rule_def Let_def)
qed

lemma reject_denied_tools_Inr:
  assumes "reject_denied_tools tools policies = Inr ()" "tool \<in> set tools" "policy \<in> set policies"
    and "collection_get resources t = Some tool" "collection_get resources p = Some policy"
  shows "\<not> denies resources p t"
proof -
  have "eachR (check_policy tool (as_list (dget (spec_at resources t) ''capabilities''))) policies = Inr ()"
    using assms(1,2,4)
    by (auto simp: reject_denied_tools_def eachR_Inr reject_denied_tool_def bindR_eq_Inr Let_def spec_at_def dest!: agent_spec_Inr)
  then have c: "check_policy tool (as_list (dget (spec_at resources t) ''capabilities'')) policy = Inr ()"
    using assms(3) by (simp add: eachR_Inr)
  show ?thesis
    using check_policy_Inr[OF c _ refl] denied_capabilities_Nil assms(5) by (fastforce simp: denies_def spec_at_def)
qed

lemma assigned_agent_Inr:
  assumes "assigned_agent resources t a = Inr (task_spec, spec)"
  shows "held resources ''Task'' t \<and> held resources ''Agent'' a \<and> task_spec = spec_at resources t \<and> spec = spec_at resources a
    \<and> refers_to (dget task_spec ''agentRef'') a"
  using assms
  by (auto simp: assigned_agent_def bindR_eq_Inr agent_validate_ref_def held_def spec_at_def
      dest!: agent_resource_Inr agent_spec_Inr declared_ref_Inr)

lemma declared_refs_all:
  assumes "declared_refs k f v = Inr rs"
  shows "distinct rs" "list_all2 refers_to (as_list v) rs"
    "r \<in> set rs \<Longrightarrow> ref_kind r = k \<and> ref_name r \<noteq> [] \<and> is_semver (ref_version r)"
  using declared_refs_Inr[OF assms] by (auto elim: list_all2_mono simp: list_all2_conv_all_nth in_set_conv_nth)

lemma agent_resources_found:
  assumes "agent_resources resources g rs = Inr xs" "r \<in> set rs"
  shows "\<exists>x \<in> set xs. collection_get resources r = Some x \<and> res_kind x = ref_kind r \<and> dget (res_data x) ''kind'' = JStr (ref_kind r)"
  using agent_resources_Inr[OF assms(1)] assms(2) by (fastforce simp: list_all2_conv_all_nth in_set_conv_nth)

lemma all_held:
  assumes "agent_resources resources g rs = Inr xs"
    and "\<And>r. r \<in> set rs \<Longrightarrow> ref_kind r = k \<and> ref_name r \<noteq> [] \<and> is_semver (ref_version r)"
  shows "list_all (held resources k) rs"
  using agent_resources_found[OF assms(1)] assms(2) by (fastforce simp: list_all_iff held_def)

lemma list_all2_set: "list_all2 P xs ys \<Longrightarrow> (\<And>x y z. P x y \<Longrightarrow> P x z \<Longrightarrow> y = z) \<Longrightarrow> set ys = {y. \<exists>x \<in> set xs. P x y}"
  by (induction rule: list_all2_induct) auto

lemma refers_to_unique: "refers_to v r \<Longrightarrow> refers_to v q \<Longrightarrow> r = q"
  by (simp add: refers_to_def)

lemma list_of_missing: "as_list (dget_or d k (JList [])) = as_list (dget d k)"
  by (simp add: dget_or_def dget_def split: option.split)

lemma bind_agent_Inr:
  assumes "bind_agent resources t a task_spec spec = Inr (b, model_spec)"
    and "held resources ''Task'' t" "held resources ''Agent'' a" "task_spec = spec_at resources t" "spec = spec_at resources a"
    and "refers_to (dget task_spec ''agentRef'') a"
  shows "well_bound resources b" "bound_as_declared resources b" "tools_permitted resources b" "ab_task b = t" "ab_agent b = a"
proof -
  obtain prompt model tool_refs tools tp ap policies x y where
    p: "declared_ref ''Prompt'' ''Agent.spec.promptRef'' (dget spec ''promptRef'') = Inr prompt"
       "agent_resource resources ''Agent.spec.promptRef'' prompt = Inr x"
    and m: "declared_ref ''Model'' ''Agent.spec.modelRef'' (dget spec ''modelRef'') = Inr model"
       "agent_resource resources ''Agent.spec.modelRef'' model = Inr y"
    and tr: "declared_refs ''Tool'' ''Agent.spec.toolRefs'' (dget_or spec ''toolRefs'' (JList [])) = Inr tool_refs"
       "agent_resources resources ''Agent.spec.toolRefs'' tool_refs = Inr tools"
    and prov: "eachR reject_provider_tool tools = Inr ()"
    and tp: "declared_refs ''Policy'' ''Task.spec.policies'' (dget_or task_spec ''policies'' (JList [])) = Inr tp"
    and ap: "declared_refs ''Policy'' ''Agent.spec.policyRefs'' (dget_or spec ''policyRefs'' (JList [])) = Inr ap"
    and pol: "agent_resources resources ''policyRefs'' (first_of_each (tp @ ap)) = Inr policies"
    and ok: "reject_denied_tools tools policies = Inr ()"
    and b: "b = \<lparr>ab_task = t, ab_agent = a, ab_prompt = prompt, ab_model = model, ab_tools = tool_refs,
         ab_policies = first_of_each (tp @ ap)\<rparr>"
    using assms(1) by (auto simp: bind_agent_def bindR_eq_Inr Let_def)
  have "held resources ''Prompt'' prompt" "held resources ''Model'' model"
    using declared_ref_Inr[OF p(1)] agent_resource_Inr[OF p(2)] declared_ref_Inr[OF m(1)] agent_resource_Inr[OF m(2)]
    by (auto simp: held_def)
  moreover have "list_all (held resources ''Tool'') tool_refs" by (rule all_held[OF tr(2)]) (rule declared_refs_all(3)[OF tr(1)])
  moreover have "list_all (held resources ''Policy'') (first_of_each (tp @ ap))"
    by (rule all_held[OF pol]) (use declared_refs_all(3)[OF tp] declared_refs_all(3)[OF ap] in auto)
  ultimately show "well_bound resources b"
    using assms(2,3) declared_refs_all(1)[OF tr(1)] by (simp add: well_bound_def b)
  have "set tp = {p. \<exists>v \<in> set (as_list (dget task_spec ''policies'')). refers_to v p}"
    "set ap = {p. \<exists>v \<in> set (as_list (dget spec ''policyRefs'')). refers_to v p}"
    using declared_refs_all(2)[OF tp] declared_refs_all(2)[OF ap] list_all2_set[OF _ refers_to_unique]
    by (simp_all add: list_of_missing)
  then show "bound_as_declared resources b"
    using assms(4-6) declared_ref_Inr[OF p(1)] declared_ref_Inr[OF m(1)] declared_refs_all(2)[OF tr(1)]
    by (auto simp: bound_as_declared_def Let_def b list_of_missing)
  show "tools_permitted resources b"
  proof -
    have "\<not> dhas (spec_at resources r) ''provider'' \<and> (\<forall>p \<in> set (first_of_each (tp @ ap)). \<not> denies resources p r)"
      if r: "r \<in> set tool_refs" for r
    proof -
      obtain tool where tool: "tool \<in> set tools" "collection_get resources r = Some tool"
        using agent_resources_found[OF tr(2) r] by blast
      then have "\<not> dhas (spec_at resources r) ''provider''"
        using prov by (auto simp: eachR_Inr reject_provider_tool_def bindR_eq_Inr spec_at_def dest!: agent_spec_Inr)
      then show ?thesis using agent_resources_found[OF pol] reject_denied_tools_Inr[OF ok tool(1) _ tool(2)] by blast
    qed
    then show ?thesis by (simp add: tools_permitted_def b)
  qed
  show "ab_task b = t" "ab_agent b = a" by (simp_all add: b)
qed

lemma resolved_record_binds: "records_binding (resolved_agent_record env c task stamp b parameters configuration schema) b"
  by (simp add: records_binding_def resolved_agent_record_def dget_Cons mget_def)

text \<open>
  C30. A resolved agent is bound to what its task and itself declare, each an explicit version of the
  right kind that the collection holds: the agent is the one the task assigns, its prompt and its model,
  its tools in order, and the policies of both, none twice; no tool is a model provider, and
  no policy of either denies a capability of a tool without condition.
\<close>

theorem resolved_agent_sound:
  assumes "resolve_agent env t a resources correlation stamp = Inr r"
  shows "\<exists>b. ab_task b = t \<and> ab_agent b = a \<and> records_binding r b \<and> well_bound resources b \<and> bound_as_declared resources b
    \<and> tools_permitted resources b"
proof -
  obtain task_spec spec b model_spec where "assigned_agent resources t a = Inr (task_spec, spec)"
    and b: "bind_agent resources t a task_spec spec = Inr (b, model_spec)" and r: "records_binding r b"
    using assms
    by (auto simp: resolve_agent_def bindR_eq_Inr Let_def resolved_record_binds split: option.splits)
  from assigned_agent_Inr[OF this(1)] bind_agent_Inr[OF b] r show ?thesis by blast
qed

definition sample_agent_ref :: "string \<Rightarrow> string \<Rightarrow> resource_ref" where
  "sample_agent_ref k n = ResourceRef k n ''1.0.0''"

definition sample_agent_resource :: "string \<Rightarrow> string \<Rightarrow> dict \<Rightarrow> resource" where
  "sample_agent_resource k n spec = \<lparr>res_ref = sample_agent_ref k n, res_path = n,
     res_data = [(''kind'', JStr k), (''spec'', JObj spec)], res_references = []\<rparr>"

definition sample_agent_collection :: collection where
  "sample_agent_collection = \<lparr>col_workspace = sample_agent_resource ''Workspace'' ''w'' [], col_resources =
     [sample_agent_resource ''Task'' ''t'' [(''agentRef'', ref_record (sample_agent_ref ''Agent'' ''a'')),
        (''policies'', JList [ref_record (sample_agent_ref ''Policy'' ''p'')]), (''outputs'', JObj [(''type'', JStr ''object'')])],
      sample_agent_resource ''Agent'' ''a'' [(''promptRef'', ref_record (sample_agent_ref ''Prompt'' ''r'')),
        (''modelRef'', ref_record (sample_agent_ref ''Model'' ''m'')),
        (''toolRefs'', JList [ref_record (sample_agent_ref ''Tool'' ''g'')]),
        (''policyRefs'', JList [ref_record (sample_agent_ref ''Policy'' ''p'')])],
      sample_agent_resource ''Prompt'' ''r'' [],
      sample_agent_resource ''Model'' ''m'' [(''provider'', JStr ''x''), (''model'', JStr ''y'')],
      sample_agent_resource ''Tool'' ''g'' [(''capabilities'', JList [JStr ''git.read''])],
      sample_agent_resource ''Policy'' ''p'' [(''type'', JStr ''pre-execution-capability''),
        (''rules'', JList [JObj [(''effect'', JStr ''deny''), (''capabilities'', JList [JStr ''git.write''])],
           JObj [(''effect'', JStr ''deny''), (''conditions'', JObj []), (''capabilities'', JList [JStr ''git.read''])]])]]\<rparr>"

definition sample_resolved_agent :: "exn + dict" where
  "sample_resolved_agent = resolve_agent \<lparr>env_sha256 = (\<lambda>s. s), env_uuid5 = (\<lambda>s. s), env_iso = (\<lambda>s. None), env_schema = (\<lambda>n j. [])\<rparr>
     (sample_agent_ref ''Task'' ''t'') (sample_agent_ref ''Agent'' ''a'') sample_agent_collection
     (Context \<lparr>cor_trace = ''trace'', cor_workflow = ''w'', cor_task = Some ''x''\<rparr>) ''t0''"

theorem resolved_agent_sound_witness:
  "\<exists>r. sample_resolved_agent = Inr r \<and> dget r ''toolRefs'' = JList [ref_record (sample_agent_ref ''Tool'' ''g'')]
    \<and> (\<exists>b. records_binding r b \<and> well_bound sample_agent_collection b \<and> bound_as_declared sample_agent_collection b
      \<and> tools_permitted sample_agent_collection b)"
proof -
  have "case sample_resolved_agent of Inr r \<Rightarrow> dget r ''toolRefs'' = JList [ref_record (sample_agent_ref ''Tool'' ''g'')] | _ \<Rightarrow> False"
    by code_simp
  then obtain r where r: "sample_resolved_agent = Inr r" "dget r ''toolRefs'' = JList [ref_record (sample_agent_ref ''Tool'' ''g'')]"
    by (auto split: sum.splits)
  then show ?thesis using resolved_agent_sound[OF r(1)[unfolded sample_resolved_agent_def]] by blast
qed

end
