(* ===== verification/CommandEvaluation.thy ===== *)
theory CommandEvaluation
  imports StoreInterface Observability ToolRuntime PublicationPolicy
begin

text \<open>
  Build and test evaluation (\<open>build_test_evaluation.py\<close>): what a recorded Docker validation says
  of the build command and of the test command, as two stored results.  SHA-256 and the schema
  validator are fields of \<open>environment\<close>.
\<close>

section \<open>Inputs\<close>

definition build_test_error :: "string \<Rightarrow> exn" where
  "build_test_error m = Exn (OtherException ''BuildTestEvaluationContractError'') m JNull"

record expectation =
  ex_ref :: dict
  ex_index :: nat

definition new_expectation :: "json \<Rightarrow> json \<Rightarrow> exn + expectation" where
  "new_expectation evaluation_ref command_index =
     bindR (checkR (is_mapping evaluation_ref) (build_test_error ''evaluation_ref must be a resource reference'')) (\<lambda>_.
     bindR (checkR (is_int command_index \<and> 0 \<le> as_int command_index)
       (build_test_error ''command_index must be a non-negative integer'')) (\<lambda>_.
     Inr \<lparr>ex_ref = as_dict evaluation_ref, ex_index = nat (as_int command_index)\<rparr>))"

definition tool_reference :: "json \<Rightarrow> exn + dict" where
  "tool_reference docker_tool_ref =
     (let unversioned = build_test_error ''docker_tool_ref must be a versioned Tool reference''; ref = as_dict docker_tool_ref in
      bindR (checkR (is_mapping docker_tool_ref \<and> dget ref ''kind'' = JStr ''Tool'' \<and> nonempty_str (dget ref ''name'')
          \<and> nonempty_str (dget ref ''version'') \<and> is_semver (as_str (dget ref ''version''))) unversioned) (\<lambda>_.
      bindR (checkR (set (dkeys ref) = {''kind'', ''name'', ''version''})
        (build_test_error ''docker_tool_ref must be a canonical Tool reference'')) (\<lambda>_. Inr ref)))"

definition validate_invocation_identity :: "dict \<Rightarrow> json \<Rightarrow> string \<Rightarrow> string \<Rightarrow> exn + unit" where
  "validate_invocation_identity iv docker_tool_ref task trace =
     (let status = dget iv ''status''; result = dget iv ''resultStatus'' in
      bindR (checkR (dget iv ''kind'' = JStr ''ToolInvocation'') (build_test_error ''tool_invocation must be a ToolInvocation'')) (\<lambda>_.
      bindR (checkR (hashable status) unhashable_error) (\<lambda>_.
      bindR (checkR (in_strs status [''SUCCEEDED'', ''FAILED''])
        (build_test_error ''tool_invocation must have a terminal status'')) (\<lambda>_.
      bindR (checkR (hashable result) unhashable_error) (\<lambda>_.
      bindR (checkR (in_strs result [''SUCCEEDED'', ''FAILED'', ''TIMED_OUT'', ''DENIED''])
        (build_test_error ''tool_invocation must record a terminal resultStatus'')) (\<lambda>_.
      bindR (checkR (status = JStr (if result = JStr ''SUCCEEDED'' then ''SUCCEEDED'' else ''FAILED''))
        (build_test_error ''tool_invocation status is inconsistent with resultStatus'')) (\<lambda>_.
      bindR (checkR (dget iv ''taskExecutionId'' = JStr task)
        (build_test_error ''tool_invocation must belong to task_execution_id'')) (\<lambda>_.
      bindR (checkR (dget iv ''traceId'' = JStr trace)
        (build_test_error ''tool_invocation traceId must match trace_id'')) (\<lambda>_.
      bindR (tool_reference docker_tool_ref) (\<lambda>ref.
      bindR (checkR (is_mapping (dget iv ''toolRef'') \<and> py_eq (dget iv ''toolRef'') (JObj ref))
        (build_test_error ''tool_invocation does not reference the configured Docker Tool'')) (\<lambda>_.
      checkR (nonempty_str (dget iv ''id'')) (build_test_error ''tool_invocation id must be a non-empty string''))))))))))))"

section \<open>Command evidence\<close>

definition valid_argv :: "json \<Rightarrow> bool" where
  "valid_argv v \<longleftrightarrow> is_list v \<and> as_list v \<noteq> [] \<and> list_all nonempty_str (as_list v)"

text \<open>The first element that a test refuses, with its index.\<close>

fun first_refused :: "nat \<Rightarrow> (nat \<Rightarrow> json \<Rightarrow> string option) \<Rightarrow> json list \<Rightarrow> (nat \<times> string) option" where
  "first_refused n test [] = None"
| "first_refused n test (x # xs) = (case test n x of Some m \<Rightarrow> Some (n, m) | None \<Rightarrow> first_refused (Suc n) test xs)"

definition request_refused :: "nat \<Rightarrow> json \<Rightarrow> string option" where
  "request_refused index command =
     (if \<not> is_mapping command then Some (''Docker command '' @ dec_nat index @ '' is not an object'')
      else if \<not> valid_argv (mget command ''argv'') then Some (''Docker command '' @ dec_nat index @ ''.argv is incomplete'')
      else None)"

definition requested_commands :: "dict \<Rightarrow> json list \<times> string option" where
  "requested_commands iv =
     (let request = dget iv ''input''; commands = mget request ''commands'' in
      if \<not> is_mapping request then ([], Some ''Docker ToolInvocation input is missing'')
      else if \<not> is_list commands then ([], Some ''Docker ToolInvocation input.commands is missing'')
      else case first_refused 0 request_refused (as_list commands) of
        Some (n, m) \<Rightarrow> ([], Some m)
      | None \<Rightarrow> if as_list commands = [] then ([], Some ''Docker ToolInvocation contains no configured commands'')
                else (map (\<lambda>c. mget c ''argv'') (as_list commands), None))"

definition order_refused :: "json list \<Rightarrow> nat \<Rightarrow> json \<Rightarrow> string option" where
  "order_refused requested index command =
     (if \<not> is_mapping command then Some (''Docker output command '' @ dec_nat index @ '' is not an object'')
      else if \<not> valid_argv (mget command ''argv'') then Some (''Docker output command '' @ dec_nat index @ ''.argv is incomplete'')
      else if mget command ''argv'' \<noteq> requested ! index then Some ''Docker output commands do not match the configured order''
      else None)"

definition complete_command :: "json \<Rightarrow> bool" where
  "complete_command c \<longleftrightarrow> valid_argv (mget c ''argv'') \<and> is_str (mget c ''stdout'') \<and> is_str (mget c ''stderr'')
     \<and> is_int (mget c ''exitCode'') \<and> is_int (mget c ''durationMs'') \<and> 0 \<le> as_int (mget c ''durationMs'')
     \<and> nonempty_str (mget c ''logsRef'')"

definition record_refused :: "nat \<Rightarrow> json \<Rightarrow> string option" where
  "record_refused index command =
     (if complete_command command then None else Some (''Docker output command '' @ dec_nat index @ '' is incomplete''))"

type_synonym command_evidence = "json list \<times> (nat \<times> string) option \<times> string option"

definition command_records :: "dict \<Rightarrow> json list \<Rightarrow> command_evidence" where
  "command_records iv requested =
     (let produced = dget iv ''output''; commands = mget produced ''commands'' in
      if \<not> is_mapping produced then ([], None, Some ''Docker validation output is missing'')
      else if \<not> is_list commands then ([], None, Some ''Docker validation output.commands is missing'')
      else if length requested < length (as_list commands)
      then ([], None, Some ''Docker validation output contains extra command evidence'')
      else case first_refused 0 (order_refused requested) (as_list commands) of
        Some (n, m) \<Rightarrow> ([], None, Some m)
      | None \<Rightarrow> (takeWhile complete_command (as_list commands), first_refused 0 record_refused (as_list commands), None))"

definition exited_zero :: "json \<Rightarrow> bool" where
  "exited_zero c \<longleftrightarrow> as_int (mget c ''exitCode'') = 0"

definition result_sequence_error :: "dict \<Rightarrow> json list \<Rightarrow> json list \<Rightarrow> string option" where
  "result_sequence_error iv requested records =
     (let result = dget iv ''resultStatus'' in
      if result = JStr ''SUCCEEDED'' \<and> length records \<noteq> length requested
      then Some ''successful Docker validation output is incomplete''
      else if result = JStr ''TIMED_OUT'' \<and> length requested \<le> length records
      then Some ''timed-out Docker validation contains a complete command sequence''
      else if result = JStr ''TIMED_OUT'' \<and> \<not> list_all exited_zero records
      then Some ''timed-out Docker validation contains nonzero command evidence''
      else if result = JStr ''FAILED'' \<and> \<not> list_all exited_zero (butlast records)
      then Some ''Docker validation contains command evidence after a nonzero exit''
      else if result = JStr ''DENIED'' \<and> records \<noteq> []
      then Some ''denied Docker validation contains command execution evidence''
      else None)"

text \<open>What both results are made from.\<close>

record validation_evidence =
  ve_requested :: "json list"
  ve_records :: "json list"
  ve_shared :: "string option"
  ve_output :: "(nat \<times> string) option"

definition validation_evidence_of :: "dict \<Rightarrow> validation_evidence" where
  "validation_evidence_of iv =
     (let (requested, request_error) = requested_commands iv; (records, output_error, sequence) = command_records iv requested;
          sequence_error = (if sequence = None \<and> output_error = None then result_sequence_error iv requested records else sequence)
      in \<lparr>ve_requested = requested, ve_records = records,
           ve_shared = (case request_error of Some m \<Rightarrow> Some m | None \<Rightarrow> sequence_error), ve_output = output_error\<rparr>)"

section \<open>One result\<close>

text \<open>The configuration error of a command, the error on record, its status and the evidence of its run.\<close>

record command_verdict =
  cv_configuration :: "string option"
  cv_error :: "(string \<times> string) option"
  cv_status :: string
  cv_exit :: json
  cv_duration :: int
  cv_logs :: json

definition configuration_error :: "validation_evidence \<Rightarrow> string \<Rightarrow> nat \<Rightarrow> string option" where
  "configuration_error ve evaluation_type index =
     (let refused = (case ve_output ve of None \<Rightarrow> None | Some (n, m) \<Rightarrow> if n \<le> index then Some m else None) in
      if ve_shared ve \<noteq> None then ve_shared ve
      else if refused \<noteq> None then refused
      else if length (ve_requested ve) \<le> index
      then Some (evaluation_type @ '' command index '' @ dec_nat index @ '' is not configured in the Docker ToolInvocation'')
      else None)"

definition unsettled :: "dict \<Rightarrow> string \<Rightarrow> command_verdict" where
  "unsettled iv m = \<lparr>cv_configuration = Some m, cv_error = Some (''CONFIGURATION'', m), cv_status = ''INVALID_OUTPUT'',
     cv_exit = JNull, cv_duration = 0, cv_logs = dget iv ''logsAddress''\<rparr>"

definition not_completed :: "dict \<Rightarrow> string \<Rightarrow> string \<Rightarrow> string \<Rightarrow> command_verdict" where
  "not_completed iv status code m = \<lparr>cv_configuration = None, cv_error = Some (code, m), cv_status = status,
     cv_exit = JNull, cv_duration = 0, cv_logs = dget iv ''logsAddress''\<rparr>"

definition completed_verdict :: "string \<Rightarrow> json \<Rightarrow> command_verdict" where
  "completed_verdict evaluation_type command =
     (let code = as_int (mget command ''exitCode'') in
      \<lparr>cv_configuration = None,
       cv_error = (if code = 0 then None
         else Some (''NONZERO_EXIT'', evaluation_type @ '' command exited with code '' @ dec_int code)),
       cv_status = (if code = 0 then ''PASSED'' else ''FAILED''), cv_exit = mget command ''exitCode'',
       cv_duration = as_int (mget command ''durationMs''), cv_logs = mget command ''logsRef''\<rparr>)"

definition command_verdict_of :: "dict \<Rightarrow> validation_evidence \<Rightarrow> string \<Rightarrow> nat \<Rightarrow> command_verdict" where
  "command_verdict_of iv ve evaluation_type index =
     (let missing = length (ve_records ve); result = dget iv ''resultStatus'' in
      case configuration_error ve evaluation_type index of
        Some m \<Rightarrow> unsettled iv m
      | None \<Rightarrow>
          if index < missing then completed_verdict evaluation_type (ve_records ve ! index)
          else if result = JStr ''TIMED_OUT'' \<and> index = missing
          then not_completed iv ''TIMED_OUT'' ''TIMEOUT'' (evaluation_type @ '' command timed out before completion'')
          else if result = JStr ''FAILED'' \<and> missing \<le> index \<or> result = JStr ''TIMED_OUT'' \<and> missing < index
          then not_completed iv ''NOT_RUN'' ''NOT_RUN''
            (evaluation_type @ '' command was not run after an earlier validation failure'')
          else unsettled iv (''Docker validation output is missing '' @ evaluation_type @ '' command evidence at index '' @ dec_nat index))"

definition command_passed :: "command_verdict \<Rightarrow> bool" where
  "command_passed cv \<longleftrightarrow> cv_status cv = ''PASSED''"

definition command_record ::
  "dict \<Rightarrow> validation_evidence \<Rightarrow> string \<Rightarrow> nat \<Rightarrow> command_verdict \<Rightarrow> dict" where
  "command_record iv ve evaluation_type index cv =
     [(''type'', JStr ''docker-command-evaluation''), (''evaluationType'', JStr evaluation_type),
      (''toolInvocationId'', dget iv ''id''), (''toolResultStatus'', dget iv ''resultStatus''),
      (''commandIndex'', JInt (int index)),
      (''expectedArgv'', if index < length (ve_requested ve) then ve_requested ve ! index else JList []),
      (''commandStatus'', JStr (cv_status cv)), (''exitCode'', cv_exit cv), (''durationMs'', JInt (cv_duration cv)),
      (''logsRef'', cv_logs cv),
      (''errors'', JList (case cv_error cv of None \<Rightarrow> []
         | Some (code, m) \<Rightarrow> [JObj [(''code'', JStr code), (''message'', JStr m)]]))]"

definition capitalized :: "string \<Rightarrow> string" where
  "capitalized s = (case s of [] \<Rightarrow> []
     | c # r \<Rightarrow> (if CHR ''a'' \<le> c \<and> c \<le> CHR ''z'' then char_of (of_char c - 32 :: nat) else c) # lower r)"

definition command_result ::
  "environment \<Rightarrow> string \<Rightarrow> string \<Rightarrow> string \<Rightarrow> expectation \<Rightarrow> dict \<Rightarrow> validation_evidence \<Rightarrow> string \<Rightarrow> string \<Rightarrow> dict \<Rightarrow> dict" where
  "command_result env result_id task evaluation_type ex iv ve trace timestamp provenance =
     (let cv = command_verdict_of iv ve evaluation_type (ex_index ex); passed = command_passed cv;
          evidence = command_record iv ve evaluation_type (ex_index ex) cv in
      [(''apiVersion'', JStr ''aep.dev/v1alpha1''), (''kind'', JStr ''EvaluationResult''), (''id'', JStr result_id),
       (''traceId'', JStr trace), (''createdAt'', JStr timestamp), (''updatedAt'', JStr timestamp),
       (''provenance'', JObj provenance), (''taskExecutionId'', JStr task), (''evaluationRef'', JObj (ex_ref ex)),
       (''target'', JObj [(''type'', JStr ''ToolInvocation''), (''id'', dget iv ''id'')]),
       (''status'', JStr (if cv_configuration cv = None then ''SUCCEEDED'' else ''FAILED'')),
       (''outcome'', JStr (if passed then ''PASS'' else ''FAIL'')),
       (''metrics'', JObj [(''checks'', JInt 1), (''passed'', JInt (if passed then 1 else 0)), (''durationMs'', JInt (cv_duration cv))]),
       (''logs'', JList [JStr (capitalized evaluation_type
          @ (if passed then '' validation passed'' else '' validation '' @ lower (cv_status cv)))]),
       (''evidence'', JObj evidence),
       (''evidenceAddress'', JStr (''sha256:'' @ env_sha256 env (json_text True (JObj evidence)))),
       (''startedAt'', JStr timestamp), (''completedAt'', JStr timestamp)]
      @ (if nonempty_str (cv_logs cv) then [(''logsAddress'', cv_logs cv)] else [])
      @ (case cv_configuration cv of None \<Rightarrow> []
         | Some m \<Rightarrow> [(''failure'', JObj [(''class'', JStr ''CONFIGURATION''), (''message'', JStr m), (''retryable'', JBool False)])]))"

definition validate_command_result :: "environment \<Rightarrow> dict \<Rightarrow> exn + unit" where
  "validate_command_result env result =
     (case first_error (env_schema env ''EvaluationResult'' (JObj result)) of
        None \<Rightarrow> Inr ()
      | Some e \<Rightarrow> Inl (build_test_error (''invalid EvaluationResult at '' @ indexed_path (err_path e) @ '': '' @ err_message e)))"

section \<open>Both results\<close>

record build_test_request =
  bt_build_id :: string
  bt_test_id :: string
  bt_task :: string
  bt_invocation :: json
  bt_tool_ref :: json
  bt_build :: expectation
  bt_test :: expectation
  bt_correlation :: correlation_arg
  bt_timestamp :: string
  bt_provenance :: json

definition build_test_key :: "dict \<Rightarrow> string \<Rightarrow> string \<Rightarrow> dict \<Rightarrow> string" where
  "build_test_key iv evaluation_type result_id result = ''build-test-evaluation:'' @ as_str (dget iv ''id'') @ '':'' @ evaluation_type
     @ '':'' @ result_id @ '':'' @ as_str (dget result ''evidenceAddress'')"

definition build_test_results :: "environment \<Rightarrow> build_test_request \<Rightarrow> exn + dict \<times> dict" where
  "build_test_results env q =
     bindR (checkR (is_mapping (bt_invocation q)) (build_test_error ''tool_invocation must be a mapping'')) (\<lambda>_.
     bindR (checkR (is_mapping (bt_provenance q)) (build_test_error ''provenance must be a mapping'')) (\<lambda>_.
     bindR (checkR (bt_build_id q \<noteq> bt_test_id q)
       (build_test_error ''build_result_id and test_result_id must be different'')) (\<lambda>_.
     bindR (checkR (ex_index (bt_build q) \<noteq> ex_index (bt_test q))
       (build_test_error ''build and test expectations must select different commands'')) (\<lambda>_.
     bindR (bind_correlation (bt_correlation q) (Some (bt_task q)) (Some (as_dict (bt_provenance q)))) (\<lambda>c.
     let iv = as_dict (bt_invocation q); ve = validation_evidence_of iv in
     bindR (validate_invocation_identity iv (bt_tool_ref q) (bt_task q) (cor_trace c)) (\<lambda>_.
     let result = (\<lambda>result_id evaluation_type ex. command_result env result_id (bt_task q) evaluation_type ex iv ve
            (cor_trace c) (bt_timestamp q) (as_dict (bt_provenance q)));
         built = result (bt_build_id q) ''build'' (bt_build q); tested = result (bt_test_id q) ''test'' (bt_test q) in
     bindR (validate_command_result env built) (\<lambda>_.
     bindR (validate_command_result env tested) (\<lambda>_. Inr (built, tested)))))))))"

definition evaluate_build_and_test :: "'s store_ops \<Rightarrow> environment \<Rightarrow> build_test_request \<Rightarrow> ('s, dict \<times> dict) eff" where
  "evaluate_build_and_test st env q =
     bindE (liftR (build_test_results env q)) (\<lambda>(built, tested).
     let iv = as_dict (bt_invocation q) in
     bindE (op_create st (JObj built) (build_test_key iv ''build'' (bt_build_id q) built)) (\<lambda>build_saved.
     bindE (op_create st (JObj tested) (build_test_key iv ''test'' (bt_test_id q) tested)) (\<lambda>test_saved.
     ret (build_saved, test_saved))))"

section \<open>When a command passes\<close>

definition input_commands :: "dict \<Rightarrow> json list" where
  "input_commands iv = as_list (mget (dget iv ''input'') ''commands'')"

definition output_commands :: "dict \<Rightarrow> json list" where
  "output_commands iv = as_list (mget (dget iv ''output'') ''commands'')"

definition configured :: "dict \<Rightarrow> bool" where
  "configured iv \<longleftrightarrow> is_mapping (dget iv ''input'') \<and> is_list (mget (dget iv ''input'') ''commands'') \<and> input_commands iv \<noteq> []
     \<and> list_all (\<lambda>c. is_mapping c \<and> valid_argv (mget c ''argv'')) (input_commands iv)"

text \<open>What was run is a beginning of what was asked for.\<close>

definition evidenced :: "dict \<Rightarrow> bool" where
  "evidenced iv \<longleftrightarrow> is_mapping (dget iv ''output'') \<and> is_list (mget (dget iv ''output'') ''commands'')
     \<and> length (output_commands iv) \<le> length (input_commands iv)
     \<and> (\<forall>i < length (output_commands iv). is_mapping (output_commands iv ! i)
          \<and> mget (output_commands iv ! i) ''argv'' = mget (input_commands iv ! i) ''argv'')"

text \<open>The result status and the commands, compared only when the evidence of all is complete.\<close>

definition consistent :: "dict \<Rightarrow> bool" where
  "consistent iv \<longleftrightarrow>
     (let ins = input_commands iv; outs = output_commands iv; result = dget iv ''resultStatus'' in
      list_all complete_command outs \<longrightarrow>
        (result = JStr ''SUCCEEDED'' \<longrightarrow> length outs = length ins)
        \<and> (result = JStr ''TIMED_OUT'' \<longrightarrow> length outs < length ins \<and> list_all exited_zero outs)
        \<and> (result = JStr ''FAILED'' \<longrightarrow> list_all exited_zero (butlast outs))
        \<and> (result = JStr ''DENIED'' \<longrightarrow> outs = []))"

definition ran_to_success :: "dict \<Rightarrow> nat \<Rightarrow> bool" where
  "ran_to_success iv i \<longleftrightarrow> i < length (output_commands iv) \<and> list_all complete_command (take (Suc i) (output_commands iv))
     \<and> exited_zero (output_commands iv ! i)"

lemma first_refused_None: "first_refused n test xs = None \<longleftrightarrow> (\<forall>i < length xs. test (n + i) (xs ! i) = None)"
proof (induction xs arbitrary: n)
  case (Cons x xs)
  have "(\<forall>i < length (x # xs). test (n + i) ((x # xs) ! i) = None)
      \<longleftrightarrow> test n x = None \<and> (\<forall>i < length xs. test (Suc n + i) (xs ! i) = None)"
    by (auto simp: less_Suc_eq_0_disj)
  then show ?case using Cons.IH[of "Suc n"] by (auto split: option.splits)
qed simp

lemma requested_commands_configured:
  "configured iv \<Longrightarrow> requested_commands iv = (map (\<lambda>c. mget c ''argv'') (input_commands iv), None)"
  "\<not> configured iv \<Longrightarrow> snd (requested_commands iv) \<noteq> None"
proof -
  have r: "first_refused 0 request_refused cs = None \<longleftrightarrow> list_all (\<lambda>c. is_mapping c \<and> valid_argv (mget c ''argv'')) cs" for cs
    by (auto simp: first_refused_None request_refused_def list_all_length split: if_splits)
  show "requested_commands iv = (map (\<lambda>c. mget c ''argv'') (input_commands iv), None)" if c: "configured iv"
  proof -
    have "first_refused 0 request_refused (input_commands iv) = None" using c by (simp only: r configured_def)
    then show ?thesis using c by (simp add: configured_def requested_commands_def input_commands_def Let_def)
  qed
  show "\<not> configured iv \<Longrightarrow> snd (requested_commands iv) \<noteq> None"
    using r[of "input_commands iv"] by (auto simp: configured_def requested_commands_def input_commands_def Let_def split: option.splits)
qed

lemma command_records_evidenced:
  assumes "configured iv"
  shows "evidenced iv \<Longrightarrow> command_records iv (map (\<lambda>c. mget c ''argv'') (input_commands iv))
      = (takeWhile complete_command (output_commands iv), first_refused 0 record_refused (output_commands iv), None)"
    and "\<not> evidenced iv \<Longrightarrow> snd (snd (command_records iv (map (\<lambda>c. mget c ''argv'') (input_commands iv)))) \<noteq> None"
proof -
  let ?req = "map (\<lambda>c. mget c ''argv'') (input_commands iv)"
  have r: "first_refused 0 (order_refused ?req) (output_commands iv) = None
      \<longleftrightarrow> (\<forall>i < length (output_commands iv). is_mapping (output_commands iv ! i)
          \<and> mget (output_commands iv ! i) ''argv'' = mget (input_commands iv ! i) ''argv'')"
    if "length (output_commands iv) \<le> length (input_commands iv)"
    using assms that by (auto simp: first_refused_None order_refused_def configured_def list_all_length split: if_splits)
  show "evidenced iv \<Longrightarrow> command_records iv ?req
      = (takeWhile complete_command (output_commands iv), first_refused 0 record_refused (output_commands iv), None)"
    using r by (simp add: evidenced_def command_records_def output_commands_def Let_def)
  show "\<not> evidenced iv \<Longrightarrow> snd (snd (command_records iv ?req)) \<noteq> None"
    using r by (auto simp: evidenced_def command_records_def output_commands_def Let_def split: option.splits)
qed

lemma first_incomplete:
  "first_refused n record_refused cs = (if list_all complete_command cs then None
     else Some (n + length (takeWhile complete_command cs),
       ''Docker output command '' @ dec_nat (n + length (takeWhile complete_command cs)) @ '' is incomplete''))"
  by (induction cs arbitrary: n) (simp_all add: record_refused_def)

lemma result_sequence_consistent:
  assumes "list_all complete_command (output_commands iv)" "evidenced iv"
  shows "result_sequence_error iv (map f (input_commands iv)) (output_commands iv) = None \<longleftrightarrow> consistent iv"
  using assms by (auto simp: result_sequence_error_def consistent_def Let_def evidenced_def)

lemma evidence_shared:
  "ve_shared (validation_evidence_of iv) = None \<longleftrightarrow> configured iv \<and> evidenced iv \<and> consistent iv"
proof (cases "configured iv \<and> evidenced iv")
  case True
  then have c: "configured iv" and e: "evidenced iv" by simp_all
  have v: "ve_shared (validation_evidence_of iv) = (if first_refused 0 record_refused (output_commands iv) = None
      then result_sequence_error iv (map (\<lambda>c. mget c ''argv'') (input_commands iv)) (takeWhile complete_command (output_commands iv)) else None)"
    by (simp add: validation_evidence_of_def requested_commands_configured(1)[OF c] command_records_evidenced(1)[OF c e])
  show ?thesis
  proof (cases "list_all complete_command (output_commands iv)")
    case True
    then have t: "takeWhile complete_command (output_commands iv) = output_commands iv" by (simp add: list_all_iff)
    show ?thesis unfolding v t using True c e result_sequence_consistent[OF True e] by (simp add: first_incomplete)
  next
    case False
    then show ?thesis using v c e by (simp add: first_incomplete consistent_def)
  qed
next
  case False
  have "ve_shared (validation_evidence_of iv) \<noteq> None"
  proof (cases "configured iv")
    case True
    with False command_records_evidenced(2)[OF True] show ?thesis
      by (auto simp: validation_evidence_of_def requested_commands_configured(1)[OF True] split: prod.splits)
  next
    case False
    from requested_commands_configured(2)[OF this] show ?thesis
      by (auto simp: validation_evidence_of_def split: prod.splits)
  qed
  with False show ?thesis by blast
qed

lemma takeWhile_reaches: "i < length (takeWhile P xs) \<longleftrightarrow> i < length xs \<and> list_all P (take (Suc i) xs)"
proof (induction xs arbitrary: i)
  case (Cons x xs)
  then show ?case by (cases i) auto
qed simp

lemma verdict_passed:
  "command_passed (command_verdict_of iv (validation_evidence_of iv) evaluation_type i)
     \<longleftrightarrow> configured iv \<and> evidenced iv \<and> consistent iv \<and> ran_to_success iv i"
proof (cases "configured iv \<and> evidenced iv \<and> consistent iv")
  case False
  then have "ve_shared (validation_evidence_of iv) \<noteq> None" using evidence_shared by blast
  then have "\<not> command_passed (command_verdict_of iv (validation_evidence_of iv) evaluation_type i)"
    by (auto simp: command_verdict_of_def configuration_error_def unsettled_def command_passed_def Let_def)
  with False show ?thesis by blast
next
  case True
  then have c: "configured iv" and e: "evidenced iv" by simp_all
  let ?ve = "validation_evidence_of iv"
  have shared: "ve_shared ?ve = None" using True by (simp only: evidence_shared)
  have req: "ve_requested ?ve = map (\<lambda>c. mget c ''argv'') (input_commands iv)"
    and recs: "ve_records ?ve = takeWhile complete_command (output_commands iv)"
    and outs: "ve_output ?ve = first_refused 0 record_refused (output_commands iv)"
    by (simp_all add: validation_evidence_of_def requested_commands_configured(1)[OF c] command_records_evidenced(1)[OF c e])
  have len: "length (ve_records ?ve) \<le> length (ve_requested ?ve)"
    using e length_takeWhile_le[of complete_command "output_commands iv"] unfolding evidenced_def req recs length_map by linarith
  have "command_passed (command_verdict_of iv ?ve evaluation_type i)
      \<longleftrightarrow> i < length (ve_records ?ve) \<and> exited_zero (ve_records ?ve ! i)"
    using len shared
    by (auto simp: command_verdict_of_def configuration_error_def outs first_incomplete recs[symmetric] Let_def command_passed_def
        unsettled_def not_completed_def completed_verdict_def exited_zero_def split: if_splits)
  also have "\<dots> \<longleftrightarrow> ran_to_success iv i"
    unfolding recs takeWhile_reaches ran_to_success_def using takeWhile_nth[of i complete_command "output_commands iv"]
    by (auto simp: takeWhile_reaches)
  finally show ?thesis using True by blast
qed

definition command_passes :: "dict \<Rightarrow> nat \<Rightarrow> bool" where
  "command_passes iv i \<longleftrightarrow> configured iv \<and> evidenced iv \<and> consistent iv \<and> ran_to_success iv i"

lemma command_result_outcome:
  "dget (command_result env rid task ty ex iv (validation_evidence_of iv) trace stamp provenance) ''outcome''
     = JStr (if command_passes iv (ex_index ex) then ''PASS'' else ''FAIL'')"
  by (simp add: command_result_def Let_def dget_Cons verdict_passed command_passes_def)

lemma invocation_identity:
  assumes "validate_invocation_identity iv ref task trace = Inr ()"
  shows "dget iv ''kind'' = JStr ''ToolInvocation'' \<and> dget iv ''taskExecutionId'' = JStr task \<and> py_eq (dget iv ''toolRef'') ref"
proof -
  obtain d where "tool_reference ref = Inr d" "py_eq (dget iv ''toolRef'') (JObj d)"
    and r: "dget iv ''kind'' = JStr ''ToolInvocation''" "dget iv ''taskExecutionId'' = JStr task"
    using assms by (auto simp: validate_invocation_identity_def Let_def bindR_eq_Inr)
  moreover from this(1) have "ref = JObj d" by (cases ref) (auto simp: tool_reference_def Let_def bindR_eq_Inr)
  ultimately show ?thesis by simp
qed


definition sample_command :: "string \<Rightarrow> int \<Rightarrow> json" where
  "sample_command name code = JObj [(''argv'', JList [JStr ''make'', JStr name]), (''stdout'', JStr []), (''stderr'', JStr []),
     (''exitCode'', JInt code), (''durationMs'', JInt 5), (''logsRef'', JStr ''log'')]"

definition sample_build_test :: build_test_request where
  "sample_build_test = (let ref = JObj [(''kind'', JStr ''Tool''), (''name'', JStr ''docker''), (''version'', JStr ''1.0.0'')] in
     \<lparr>bt_build_id = ''b'', bt_test_id = ''c'', bt_task = ''t'',
      bt_invocation = JObj [(''kind'', JStr ''ToolInvocation''), (''id'', JStr ''i''), (''status'', JStr ''FAILED''),
        (''resultStatus'', JStr ''FAILED''), (''taskExecutionId'', JStr ''t''), (''traceId'', JStr ''trace''), (''toolRef'', ref),
        (''input'', JObj [(''commands'', JList [sample_command ''all'' 0, sample_command ''check'' 0])]),
        (''output'', JObj [(''commands'', JList [sample_command ''all'' 0, sample_command ''check'' 2])])],
      bt_tool_ref = ref, bt_build = \<lparr>ex_ref = [], ex_index = 0\<rparr>, bt_test = \<lparr>ex_ref = [], ex_index = 1\<rparr>,
      bt_correlation = Context \<lparr>cor_trace = ''trace'', cor_workflow = ''w'', cor_task = Some ''t''\<rparr>, bt_timestamp = ''t0'',
      bt_provenance = JObj [(''workflowExecutionId'', JStr ''w'')]\<rparr>)"

definition sample_verdicts :: "(exn + dict \<times> dict) \<times> store" where
  "sample_verdicts = evaluate_build_and_test (in_memory_store ''now'')
     \<lparr>env_sha256 = (\<lambda>s. s), env_uuid5 = (\<lambda>s. s), env_iso = (\<lambda>s. None), env_schema = (\<lambda>n j. [])\<rparr> sample_build_test empty_store"


text \<open>
  Evidence that is incomplete further on switches the comparison with the result status off: a denied
  validation that records its first command and half of the second passes for the first.
\<close>

lemma denied_validation_passes:
  "command_passes [(''resultStatus'', JStr ''DENIED''), (''input'', JObj [(''commands'', JList [sample_command ''all'' 0, sample_command ''check'' 0])]),
     (''output'', JObj [(''commands'', JList [sample_command ''all'' 0, JObj [(''argv'', JList [JStr ''make'', JStr ''check''])]])])] 0
   \<and> \<not> command_passes [(''resultStatus'', JStr ''DENIED''), (''input'', JObj [(''commands'', JList [sample_command ''all'' 0, sample_command ''check'' 0])]),
     (''output'', JObj [(''commands'', JList [sample_command ''all'' 0])])] 0"
  by code_simp

end
