(* ===== verification/Spec2Isabelle.thy ===== *)
theory Spec2Isabelle
  imports Governance BudgetSafety PublicationPolicy LocalizedPatch GeneratedArtifacts WebhookDelivery Replay
    ReconciliationSafety GitInvocations PatchSafety
    AgentResolver CommandEvaluation
begin

text \<open>
  A verification development for the Agent Engineering Platform, the Python package under
  \<open>src/src/aep\<close>: a control plane that runs workflows of agent tasks over a Git repository,
  with every decision kept as a runtime object in a store.

  Parts and theories.

  \<^item> \<open>PyValue\<close> and \<open>PyEffect\<close> are the language: JSON-like Python values (dictionaries as ordered
    association lists, unbounded integers, floats as rationals with the infinities and NaN,
    strings as lists of characters), the built-ins the source uses, exceptions as values
    (\<open>exn\<close>, with the class hierarchy) and state-passing computations \<open>('s, 'a) eff\<close> with
    the same operators everywhere.  The locale \<open>step_rel\<close> is a reflexive transitive relation
    on states; a computation \<open>keeps\<close> it, and the relation is carried through every operator.
  \<^item> \<open>RuntimeStore\<close> is \<open>InMemoryRuntimeObjectStore\<close> of \<open>runtime_store.py\<close>: the record \<open>store\<close> has
    the attributes of the class, one \<open>mem_\<close> operation per method.  \<open>DurableStore\<close> is
    \<open>DurableJsonRuntimeObjectStore\<close>: the checkpoint text, its restoration, and the transaction
    \<open>mutate\<close> with its rollback; what the operating system may do is the list \<open>faults\<close> of the
    record \<open>durable\<close>, consumed one per transaction, so a property for every list holds whatever
    fails.  \<open>StoreEvidence\<close> has the invariant \<open>store_ok\<close> and the relation \<open>evolves\<close> (identity,
    write-once and completed objects stay); \<open>StoreInterface\<close> states the interface both stores
    provide as the locale \<open>runtime_store\<close> and interprets it on each; \<open>StoreLaws\<close> has the laws of
    single operations.
  \<^item> \<open>RuntimeValidation\<close> and \<open>SchemaValidation\<close> are \<open>runtime_validation.py\<close> (the RFC 3339
    expression as a scanner) and the way the code reports the errors of a schema validator.
  \<^item> \<open>TaskLifecycle\<close> is \<open>task_execution.py\<close>: the status table as a step relation, transitions,
    failure and retry.
  \<^item> \<open>Resources\<close> is \<open>resource_loader.py\<close>, \<open>TaskDag\<close> is \<open>task_dag.py\<close> (the peeling of ready groups
    as a \<open>while\<close> loop), \<open>CanonicalText\<close> is the canonical JSON text and \<open>context_identity.py\<close>,
    \<open>Approval\<close> is \<open>approval.py\<close>, \<open>Observability\<close> is \<open>observability.py\<close>.
  \<^item> \<open>Scheduler\<close> and \<open>Reconciliation\<close> are \<open>workflow_scheduler.py\<close>: the persisted-record helpers and
    repairs, then the body of \<open>reconcile\<close> cut where the source cuts it (ready wave, attempts,
    start, dispatch, executor, terminal evidence).  \<open>ReadyWave\<close>, \<open>ScheduleSafety\<close> and
    \<open>DurableStart\<close> prove what a reconciliation does over any store of the interface.
  \<^item> What is decided before dispatch: \<open>ProviderSchema\<close> is \<open>provider_schema.py\<close>, \<open>BudgetLimits\<close> the
    limits of \<open>execution_budgets.py\<close>, \<open>WorkflowResolver\<close> and \<open>WorkflowCreation\<close> are
    \<open>workflow_resolver.py\<close> and \<open>workflow_execution.py\<close>, \<open>PyNumber\<close> is float arithmetic with its
    rounding and \<open>ModelRateLimits\<close> the coordinator of \<open>model_rate_limits.py\<close> as a state machine,
    \<open>ToolRuntime\<close> is \<open>tool_runtime.py\<close> with its fake adapter, \<open>CapabilityPolicy\<close> is
    \<open>capability_policy.py\<close>.  \<open>Governance\<close> has their properties.
  \<^item> \<open>PyDecimal\<close> is decimal arithmetic as the budget code uses it (28 digits, half to even, quantisation
    to 12 places); \<open>BudgetLedger\<close> is the durable ledger of \<open>execution_budgets.py\<close> on the store's atomic
    budget mutation: an entry is the record \<open>consumption\<close> (counters and costs, the other keys as a
    dictionary), \<open>preflight\<close>, \<open>record_usage\<close> and \<open>release\<close> are the methods of \<open>TaskBudget\<close>.
    \<open>BudgetSafety\<close> proves that what preflight reserves fits.  \<open>PublicationPolicy\<close> is
    \<open>publication_policy.py\<close>, the last gate: evidence against the store, then the rules.
  \<^item> What a model may change: \<open>PyText\<close> is text handling and regular expressions (matched by
    derivatives, with the language they accept), \<open>MarkdownRegions\<close> the Markdown scanner and the
    region selectors of \<open>planning_evidence.py\<close>, \<open>LocalizedPatch\<close> is \<open>localized_patch.py\<close>.
    \<open>PlanningEvidence\<close> is the rest of \<open>planning_evidence.py\<close>: predicates over a text, the bounded search
    for occurrences that do not overlap, dispositions, the contract of a plan, the reconciliation.
    \<open>ReconciliationSafety\<close> proves that the search is exact within its 256 attempts, that a
    reconciliation record is well typed, and that required insertions are where it says.
  \<^item> \<open>GeneratedArtifacts\<close> is \<open>generated_artifact_store.py\<close>: the locale \<open>content_store\<close> is what the artifact
    store needs of content addressing, interpreted on the content in memory and on the one in
    files, whose writes may be cut or not renamed.
  \<^item> \<open>WebhookDelivery\<close> is the way in: \<open>github_events.py\<close>, \<open>github_webhook.py\<close>, \<open>webhook_dispatch.py\<close> and
    the consumer of \<open>dogfood_runtime.py\<close>, with transactions that fail.  The workflow runner is a
    parameter, and what the liveness property assumes of it is that a run settles its request or
    has less left to do.
  \<^item> \<open>GitInvocations\<close> is \<open>GitTool\<close> of \<open>git_tool.py\<close>: an invocation is recorded before it runs and its
    result after, on a state of the store and the world the adapter works on; a result on record
    is given back without running anything.
  \<^item> \<open>PatchText\<close> and \<open>PatchEvaluation\<close> are \<open>patch_evaluation.py\<close>, the gate between a generated patch and
    its publication, and the quoted paths of \<open>git_tool.py\<close>: the scans of a unified diff as folds over its
    lines, then the evaluation that asks Git and stores a record.  \<open>PatchSafety\<close> reads a diff back from
    its printed form and states when an evaluation passes.  \<open>CommandEvaluation\<close> is
    \<open>build_test_evaluation.py\<close>: what a recorded Docker validation says of the build and of the test.
  \<^item> \<open>AgentResolver\<close> is \<open>agent_resolver.py\<close>: a task's agent bound to explicit versions of what it uses.
  \<^item> \<open>Replay\<close> is \<open>execution_replay.py\<close>: the evidence a replay rests on, the references it collects and
    the overrides, the record and its event.
  \<^item> \<open>Samples\<close> has the concrete stores, plans and graphs the examples run on.

  What the lemmas show.  Every operation of both stores keeps the invariant and the evidence
  relation, with any fault; on top of the interface, the scheduler creates attempts in dependency
  order and within its limit, an approval is decided once and by whom it may be, a transition
  follows the table, and a transaction is all or nothing.  The graph resolver is equivalent to the
  existence of a topological order; the loop ends because each round removes a group.  A schema,
  a collection and a budget are accepted exactly when a declarative reading accepts them; an
  event starts the workflows that name it, each once; requests to a provider are paced under
  every order of calls; a tool runs only behind recorded permissions; what is consumed and held
  stays within the integer limits of every scope a reservation charges, and a release undoes it; a
  publication is allowed only on evidence the store has; a localized patch changes only its region; a
  patch passes exactly when Git applies it and it changes and loses only what it may; a build or test
  passes exactly on complete evidence of the command asked for; an agent uses only what is declared
  and not denied.  Redaction,
  identity and correlation are functional properties of pure functions.

  Fuel.  \<open>recover_durable_start\<close> calls itself after adopting or retrying a start; the model
  gives it fuel, and two units are proved to give the result of any larger amount, because the
  inner call starts from a record that the outer one has just written.  No other definition has
  fuel.

  Parameters.  SHA-256, \<open>datetime.fromisoformat\<close>, \<open>json.loads\<close>, YAML, the JSON Schema validator,
  the file tree and the task executor are arguments (fields of \<open>environment\<close>, \<open>lifecycle\<close>,
  \<open>scheduler\<close> and \<open>loader\<close>); wall-clock time is an argument of the operations that read it.

  Not modelled.  Threads inside one process (each store method holds one lock for its whole body,
  so a method is one step), the bytes of the file system below the checkpoint text, locking
  primitives, process wiring and command line, and the modules that drive Git, GitHub, Docker and
  model providers.
\<close>

section \<open>Scheduling\<close>



text \<open>C2. Every attempt a reconciliation adds to the record is numbered from one to the
  scheduler's limit.\<close>

theorem reconcile_attempt_limit:
  assumes "scheduled_on (durable_store wall) durable_view durable_ok E sc" "1 \<le> sc_max_attempts sc"
    and "durable_ok s"
  shows "(\<lambda>v. dget v ''attempt'') ` added_attempts durable_view s (snd (reconcile fuel sc plan we s))
    \<subseteq> JInt ` {1..sc_max_attempts sc}"
  using safe_added_attempt[OF durable.reconcile_safe[OF assms] assms(3)] by fastforce

theorem reconcile_attempt_limit_witness:
  "(\<lambda>v. dget v ''attempt'') ` added_attempts durable_view sample_durable (snd (reconcile 2
     (sample_scheduler (durable_store [])) sample_plan (JObj sample_workflow) sample_durable))
   \<subseteq> JInt ` {1..sc_max_attempts (sample_scheduler (durable_store []))}"
  by (rule reconcile_attempt_limit[OF sample_scheduled sample_limit sample_durable_ok(1)])



text \<open>C4. The recovery of durable starts is recursive; two units of fuel give a reconciliation
  the result any larger amount gives, so the recursion never runs deeper.\<close>

theorem reconcile_enough_fuel:
  assumes "scheduled_on (durable_store wall) durable_view durable_ok E sc" "1 \<le> sc_max_attempts sc"
    and "durable_ok s" and "2 \<le> fuel"
  shows "reconcile fuel sc plan we s = reconcile 2 sc plan we s"
proof -
  obtain n where "fuel = Suc (Suc n)" using assms(4) by (metis Suc_le_D numeral_2_eq_2 Suc_le_mono)
  then show ?thesis using reconcile_fuel[OF assms(1-3)] by simp
qed

theorem reconcile_enough_fuel_witness:
  "reconcile 7 (sample_scheduler (durable_store [])) sample_plan (JObj sample_workflow) unsynced_durable
     = reconcile 2 (sample_scheduler (durable_store [])) sample_plan (JObj sample_workflow) unsynced_durable"
  by (rule reconcile_enough_fuel[OF sample_scheduled sample_limit sample_durable_ok(2)]) simp

text \<open>C5. The ready wave, read off the persisted records: exactly the plan's nodes whose every
  dependency has a successful attempt and whose own latest attempt is missing, not yet started,
  interrupted before its dispatch, or retryable now; each node once and in the plan's order.\<close>

theorem ready_wave_exact:
  assumes "ready_wave sc plan records now = Inr wave"
  shows "set wave = {entry. fst entry \<in> set (tp_nodes plan) \<and> ready sc records now entry}
    \<and> subseq (map fst wave) (tp_nodes plan)"
  using ready_wave_Inr[OF assms] by blast

theorem ready_wave_exact_witness:
  "\<exists>wave. set wave = {entry. fst entry \<in> set (tp_nodes sample_plan)
       \<and> ready (sample_scheduler (in_memory_store [])) (map snd (objects sample_store)) ''2026-01-01T00:00:00Z'' entry}
     \<and> map fst wave = [sample_node ''b'' [''a''], sample_node ''d'' [''a'']]"
proof -
  have "ready_wave (sample_scheduler (in_memory_store [])) sample_plan (map snd (objects sample_store))
      ''2026-01-01T00:00:00Z''
    = Inr [(sample_node ''b'' [''a''], Some (sample_task ''b'' ''PENDING'' [''a'']), [''a'']),
           (sample_node ''d'' [''a''], None, [''a''])]"
    by code_simp
  from ready_wave_exact[OF this] show ?thesis
    by (intro exI[of _ "[(sample_node ''b'' [''a''], Some (sample_task ''b'' ''PENDING'' [''a'']), [''a'']),
           (sample_node ''d'' [''a''], None, [''a''])]"]) simp
qed

section \<open>The lifecycle of an attempt\<close>

text \<open>C6. A transition requested from the durable store that returns found the attempt in a
  status the transition table lets it leave, and the new status is the one on record.\<close>

theorem transition_follows_table:
  assumes "lifecycle_on (durable_store wall) durable_view durable_ok lc" "durable_ok s"
    and "lc_transition lc oid target now changes s = (Inr v', s')"
  shows "\<exists>v current v1. durable_view s oid = Some v \<and> dget v ''kind'' = JStr ''TaskExecution''
    \<and> dget v ''status'' = JStr (status_value current) \<and> task_step current target
    \<and> durable_view s' oid = Some v1 \<and> dget v1 ''status'' = JStr (status_value target)"
  using durable.lc_transition_Inr[OF assms] by blast

theorem transition_follows_table_witness:
  "\<exists>v' s' v1. lc_transition (sc_lifecycle (sample_scheduler (durable_store []))) ''b'' RUNNING ''now'' [] sample_durable
       = (Inr v', s')
     \<and> durable_view s' ''b'' = Some v1 \<and> dget v1 ''status'' = JStr ''RUNNING''"
proof -
  have "\<not> isl (fst (lc_transition (sc_lifecycle (sample_scheduler (durable_store []))) ''b'' RUNNING ''now'' []
      sample_durable))"
    by code_simp
  from returns[OF this] obtain v' s' where t: "lc_transition (sc_lifecycle (sample_scheduler (durable_store [])))
      ''b'' RUNNING ''now'' [] sample_durable = (Inr v', s')" by blast
  with transition_follows_table[OF durable.scheduled_lifecycle[OF sample_scheduled] sample_durable_ok(1) t]
  show ?thesis by fastforce
qed

text \<open>C7. Only a failed recoverable attempt is retried, and the attempt a retry adds is its
  successor: next number, same workflow, same dependencies, waiting to start.\<close>

theorem retry_only_recoverable:
  assumes "lifecycle_on (durable_store wall) durable_view durable_ok lc" "durable_ok s"
    and "durable_view s oid = Some v"
  shows "added_attempts durable_view s (snd (lc_retry lc oid x now s))
    \<subseteq> {u. \<exists>p d. canon_dict p = v \<and> retry_of p x d \<and> evolves (canon_dict d) u}"
proof -
  have "runs (moves durable_ok durable_view {} (\<lambda>d. \<exists>p. canon_dict p = v \<and> retry_of p x d))
      (\<lambda>s. durable_ok s \<and> durable_view s oid = Some v) (lc_retry lc oid x now) (\<lambda>_ _. True)"
    by (rule durable.lc_retry_runs[OF assms(1)]) blast
  with assms(2,3) show ?thesis
    unfolding runs_def moves_def added_attempts_def by blast
qed

theorem retry_only_recoverable_witness:
  "added_attempts durable_view sample_durable
     (snd (lc_retry (sc_lifecycle (sample_scheduler (durable_store []))) ''c'' ''c2'' ''now'' sample_durable))
   \<subseteq> {u. \<exists>p d. canon_dict p = canon_dict (sample_failed ''c'') \<and> retry_of p ''c2'' d \<and> evolves (canon_dict d) u}"
  by (rule retry_only_recoverable[OF durable.scheduled_lifecycle[OF sample_scheduled] sample_durable_ok(1)])
    (simp add: sample_view mem_view_def sample_objects)

section \<open>Approvals\<close>

text \<open>C8. A decision leaves an approval APPROVED only when it was an approval with a reason, by an
  authorized reviewer, over the artifact the request was bound to, before it expired.\<close>

theorem approved_only_if_allowed:
  assumes "durable_ok s" "durable_view s aid = Some a" "dget a ''status'' \<noteq> JStr ''APPROVED''"
    and "\<not> may_approve env a actor decision now reason digest"
  shows "\<exists>a'. durable_view (snd (approval_decide env (durable_store wall) aid actor decision now reason digest s)) aid
      = Some a' \<and> dget a' ''status'' \<noteq> JStr ''APPROVED''"
proof -
  have "moves durable_ok durable_view (decision_edges False) is_event s
      (snd (approval_decide env (durable_store wall) aid actor decision now reason digest s))"
    using durable.approval_decide_runs[of env a actor decision now reason digest aid wall] assms
    by (simp add: runs_def)
  with assms(1,2) obtain a' where "durable_view (snd (approval_decide env (durable_store wall) aid actor decision
      now reason digest s)) aid = Some a'" "status_path (decision_edges False) (dget a ''status'') (dget a' ''status'')"
    unfolding moves_def by blast
  with assms(3) not_approvable_path show ?thesis by metis
qed

theorem approved_only_if_allowed_witness:
  "\<exists>a'. durable_view (snd (approval_decide sample_env (durable_store []) ''p'' ''mallory'' ''APPROVED'' ''now'' ''ok''
      ''sha'' sample_durable)) ''p'' = Some a' \<and> dget a' ''status'' \<noteq> JStr ''APPROVED''"
proof (rule approved_only_if_allowed[OF sample_durable_ok(1)])
  show "durable_view sample_durable ''p'' = Some (canon_dict sample_approval)"
    by (simp add: sample_view mem_view_def sample_objects)
  show "dget (canon_dict sample_approval) ''status'' \<noteq> JStr ''APPROVED''" by code_simp
  show "\<not> may_approve sample_env (canon_dict sample_approval) ''mallory'' ''APPROVED'' ''now'' ''ok'' ''sha''"
    by code_simp
qed

text \<open>An approval is decided at most once: whatever decision is attempted later, a decided
  approval stays as it is, field by field.\<close>

theorem approval_decided_once:
  assumes "durable_ok s" "durable_view s aid = Some a" "dget a ''kind'' = JStr ''Approval''"
    and "in_strs (dget a ''status'') [''APPROVED'', ''REJECTED'', ''EXPIRED'']"
  shows "\<exists>a'. durable_view (snd (approval_decide env (durable_store wall) aid actor decision now reason digest s)) aid
      = Some a' \<and> map_of a' = map_of a"
proof -
  have "moves durable_ok durable_view (decision_edges (may_approve env a actor decision now reason digest)) is_event s
      (snd (approval_decide env (durable_store wall) aid actor decision now reason digest s))"
    using durable.approval_decide_runs[of env a actor decision now reason digest aid wall] assms(1,2)
    by (simp add: runs_def)
  moreover have "completed a" using assms(4) by (auto simp: completed_def in_strs_def terminal_statuses_def)
  ultimately show ?thesis using assms(1-3) unfolding moves_def evolves_def frozen_as_def by fastforce
qed

theorem approval_decided_once_witness:
  "\<exists>a'. durable_view (snd (approval_decide sample_env (durable_store []) ''p'' ''alice'' ''REJECTED'' ''later'' ''no''
      ''sha'' decided_durable)) ''p'' = Some a' \<and> dget a' ''status'' = JStr ''APPROVED''"
proof -
  have v: "durable_view decided_durable ''p''
      = Some (canon_dict (dput ''status'' (JStr ''APPROVED'') sample_approval))"
    by (simp add: decided_view)
  have "\<exists>a'. durable_view (snd (approval_decide sample_env (durable_store []) ''p'' ''alice'' ''REJECTED'' ''later'' ''no''
      ''sha'' decided_durable)) ''p'' = Some a'
      \<and> map_of a' = map_of (canon_dict (dput ''status'' (JStr ''APPROVED'') sample_approval))"
    by (rule approval_decided_once[OF decided_durable_ok v]) code_simp+
  moreover have "dget (canon_dict (dput ''status'' (JStr ''APPROVED'') sample_approval)) ''status'' = JStr ''APPROVED''"
    by code_simp
  ultimately show ?thesis by (auto simp: dget_def)
qed

text \<open>Requesting an approval adds nothing to the record but a pending approval: for the policy
  decision given, which must require one, under the given id and bound to the given digest.\<close>

theorem approval_request_pending:
  assumes "durable_ok s"
  shows "added_objects durable_view s (snd (approval_request (durable_store wall) aid policy requester now digest
      reviewers ex target arts refs cur s))
    \<subseteq> {v. dget v ''status'' = JStr ''PENDING'' \<and> (\<exists>d. pending_approval policy aid digest d \<and> evolves (canon_dict d) v)}"
proof -
  have "moves durable_ok durable_view {} (pending_approval policy aid digest) s
      (snd (approval_request (durable_store wall) aid policy requester now digest reviewers ex target arts refs cur s))"
    using durable.approval_request_moves by (simp add: keeps_def)
  then have new: "\<exists>d. pending_approval policy aid digest d \<and> evolves (canon_dict d) v
      \<and> status_path {} (dget (canon_dict d) ''status'') (dget v ''status'')"
    if "v \<in> added_objects durable_view s (snd (approval_request (durable_store wall) aid policy requester now digest
      reviewers ex target arts refs cur s))" for v
    using assms that unfolding moves_def added_objects_def by blast
  then show ?thesis
    by (fastforce simp: status_path_def pending_approval_def dget_canon_dict)
qed

theorem approval_request_pending_witness:
  "added_objects durable_view sample_durable (snd (approval_request (durable_store []) ''q'' [] ''bob'' ''now'' ''sha''
      [JStr ''alice''] JNull JNull JNull [] JNull sample_durable))
    \<subseteq> {v. dget v ''status'' = JStr ''PENDING'' \<and> (\<exists>d. pending_approval [] ''q'' ''sha'' d \<and> evolves (canon_dict d) v)}"
  by (rule approval_request_pending[OF sample_durable_ok(1)])

section \<open>The store\<close>

text \<open>C11. The checkpoint round trip: reading back the text written for a well-formed store gives a
  well-formed store with the same objects in the same order, the same deterministic keys and the
  same leases.\<close>

theorem checkpoint_round_trip:
  assumes "store_ok s"
  shows "\<exists>t. restore_payload (canon (checkpoint_payload s)) = Inr t \<and> store_ok t \<and> mem_view t = mem_view s
    \<and> map fst (objects t) = map fst (objects s)
    \<and> deterministic_keys t = sort_key fst (deterministic_keys s) \<and> leases t = sort_key fst (leases s)"
  using assms
  by (intro exI[of _ "canon_store s"])
    (simp add: restore_checkpoint store_ok_canon_store canon_store_keys, simp add: canon_store_def reindexed_frame)

theorem checkpoint_round_trip_witness:
  "\<exists>t. restore_payload (canon (checkpoint_payload sample_store)) = Inr t \<and> mem_view t = mem_view sample_store"
  using checkpoint_round_trip[OF sample_store_ok] by blast

text \<open>C12. A transition of the durable store is all or nothing under every fault: the new status, the
  task's membership in its workflow and the audit event are on record together, or nothing is;
  and the diagnostic the scheduler adopts is raised exactly in the first case.\<close>

theorem transition_all_or_nothing:
  assumes "durable_ok s"
    and "durable_commit_task_execution_transition wall t st w ev expd now ch s = (r, s')"
  shows "case r of
      Inr v \<Rightarrow> transition_committed wall t st w ev expd now ch s s'
    | Inl e \<Rightarrow> if can_adopt_committed_start (diagnostic e)
        then transition_committed wall t st w ev expd now ch s s'
        else durable_view s' = durable_view s"
  using commit_outcome[OF assms] .

theorem transition_all_or_nothing_witness:
  "\<exists>e s'. durable_commit_task_execution_transition [] ''b'' ''RUNNING'' ''w1'' sample_event ''PENDING'' ''now'' [] unsynced_durable
      = (Inl e, s')
    \<and> transition_committed [] ''b'' ''RUNNING'' ''w1'' sample_event ''PENDING'' ''now'' [] unsynced_durable s'"
proof -
  let ?c = "durable_commit_task_execution_transition [] ''b'' ''RUNNING'' ''w1'' sample_event ''PENDING'' ''now'' [] unsynced_durable"
  have "case fst ?c of Inl e \<Rightarrow> can_adopt_committed_start (diagnostic e) | Inr v \<Rightarrow> False" by code_simp
  then obtain e s' where c: "?c = (Inl e, s')" "can_adopt_committed_start (diagnostic e)"
    by (cases ?c) (auto split: sum.splits)
  with transition_all_or_nothing[OF sample_durable_ok(2) c(1)] show ?thesis by auto
qed

text \<open>C13. Without faults the durable store refines the in-memory one: a transaction returns what the
  in-memory method returns on the committed store, and what it records afterwards is what the
  method left, or what was there when it raised.\<close>

theorem durable_refines_in_memory:
  assumes "durable_ok w" "faults w = []" "plain operation"
    and "keeps (\<lambda>s t. store_ok s \<longrightarrow> store_ok t) operation"
  shows "fst (mutate operation w) = fst (operation (committed w))
    \<and> durable_view (snd (mutate operation w)) =
        (if isl (fst (operation (committed w))) then mem_view (committed w)
         else mem_view (snd (operation (committed w))))"
proof -
  obtain r t where o: "operation (committed w) = (r, t)" by (cases "operation (committed w)")
  show ?thesis
  proof (cases r)
    case (Inl e)
    then have "\<not> keeps_memory_on e" using plainD[OF assms(3)] o plain_not_kept by blast
    then show ?thesis
      using o Inl by (simp add: mutate_no_faults[OF assms(1,2)] durable_view_def committed_def split: option.split)
  next
    case (Inr a)
    have "store_ok t" using keepsD[OF assms(4) o] committed_ok[OF assms(1)] by simp
    then show ?thesis
      using o Inr by (simp add: mutate_no_faults[OF assms(1,2)] durable_view_def committed_committed_as)
  qed
qed

theorem durable_refines_in_memory_witness:
  "fst (durable_update_status [] ''b'' ''RUNNING'' (Some ''PENDING'') None [] sample_durable)
     = fst (mem_update_status [] ''b'' ''RUNNING'' (Some ''PENDING'') None [] (committed sample_durable))"
proof -
  have "faults sample_durable = []" by (simp add: sample_durable_def)
  moreover have "keeps (\<lambda>s t. store_ok s \<longrightarrow> store_ok t) (mem_update_status [] ''b'' ''RUNNING'' (Some ''PENDING'') None [])"
    by (intro store_wf.mem_update_status) (simp add: store_wf.may_update_def)
  ultimately show ?thesis
    using durable_refines_in_memory[OF sample_durable_ok(1) _ plain_update_status] by (simp add: durable_update_status_def)
qed

text \<open>C14. Creation is idempotent: a second creation under the same deterministic key, whatever valid
  object it is asked to store, returns the first object and changes nothing.\<close>

theorem create_idempotent:
  assumes "store_ok s" "mem_create j key s = (Inr v, t)" "copy_and_validate j' = Inr d"
  shows "mem_create j' key t = (Inr v, t)"
  using mem_create_again[OF assms(2,3,1)] .

theorem create_idempotent_witness:
  "\<exists>v t. mem_create (JObj sample_workflow) ''k'' empty_store = (Inr v, t)
     \<and> mem_create (JObj sample_approval) ''k'' t = (Inr v, t)"
proof -
  let ?c = "mem_create (JObj sample_workflow) ''k'' empty_store"
  have "\<not> isl (fst ?c)" by code_simp
  from returns[OF this] obtain v t where c: "?c = (Inr v, t)" by blast
  have "copy_and_validate (JObj sample_approval) = Inr sample_approval" by code_simp
  from create_idempotent[OF store_ok_empty c this] c show ?thesis by blast
qed

text \<open>C15. A completed object is never updated: an update of its status leaves the store unchanged,
  and returns only when it asks for the status the object has.\<close>

theorem completed_never_updated:
  assumes "map_of (objects s) oid = Some v" "completed v"
    and "mem_update_status wall oid st expd u ch s = (r, t)"
  shows "t = s \<and> (case r of Inl e \<Rightarrow> True | Inr v' \<Rightarrow> v' = v \<and> dget v ''status'' = JStr st)"
  using mem_update_completed[OF assms] by (auto split: sum.split)

theorem completed_never_updated_witness:
  "snd (mem_update_status [] ''a'' ''FAILED'' None None [] sample_store) = sample_store"
proof -
  have "map_of (objects sample_store) ''a'' = Some (sample_task ''a'' ''SUCCEEDED'' [])"
    by (simp add: sample_objects)
  moreover have "completed (sample_task ''a'' ''SUCCEEDED'' [])" by code_simp
  ultimately show ?thesis
    using completed_never_updated[where r = "fst (mem_update_status [] ''a'' ''FAILED'' None None [] sample_store)"]
    by (metis prod.collapse)
qed

text \<open>Recording a task with its workflow is idempotent, and the workflow lists it.\<close>

theorem membership_idempotent:
  assumes "mem_append_task_execution_id wall w te u s = (Inr v, t)"
  shows "JStr te \<in> set (as_list (dget v ''taskExecutionIds''))
    \<and> mem_append_task_execution_id wall' w te u' t = (Inr v, t)"
  using mem_append_again[OF assms] .

theorem membership_idempotent_witness:
  "\<exists>v t. mem_append_task_execution_id ''now'' ''w1'' ''c'' None sample_store = (Inr v, t)
     \<and> mem_append_task_execution_id ''later'' ''w1'' ''c'' None t = (Inr v, t)"
proof -
  let ?c = "mem_append_task_execution_id ''now'' ''w1'' ''c'' None sample_store"
  have "\<not> isl (fst ?c)" by code_simp
  from returns[OF this] obtain v t where c: "?c = (Inr v, t)" by blast
  from membership_idempotent[OF c] c show ?thesis by blast
qed

text \<open>C17. A pending dispatch is claimed once: after a successful claim every later one is refused,
  and the record keeps the first owner.\<close>

theorem dispatch_claimed_once:
  assumes "mem_claim_task_dispatch te owner now s = (Inr (True, v), t)" "owner' \<noteq> []"
  shows "mem_claim_task_dispatch te owner' now' t = (Inr (False, v), t)
    \<and> dget v ''dispatchOwnerId'' = JStr owner"
  using claim_once[OF assms] .

theorem dispatch_claimed_once_witness:
  "\<exists>v t. mem_claim_task_dispatch ''d'' ''one'' ''now'' dispatch_store = (Inr (True, v), t)
     \<and> mem_claim_task_dispatch ''d'' ''two'' ''later'' t = (Inr (False, v), t)"
proof -
  let ?c = "mem_claim_task_dispatch ''d'' ''one'' ''now'' dispatch_store"
  have "case fst ?c of Inl e \<Rightarrow> False | Inr (b, v) \<Rightarrow> b" by code_simp
  then obtain v t where c: "?c = (Inr (True, v), t)" by (cases ?c) (auto split: sum.splits)
  from dispatch_claimed_once[OF c, of "''two''" "''later''"] c show ?thesis by blast
qed

text \<open>C18. A lease excludes every other owner until it expires: it can be neither acquired nor
  renewed nor released by another, and a fenced status update by another raises a conflict and
  changes nothing.\<close>

theorem lease_is_exclusive:
  assumes "mem_acquire_lease key owner now expires s = (Inr True, t)" "now' < expires" "owner' \<noteq> owner"
  shows "mem_acquire_lease key owner' now' expires' t = (Inr False, t)
    \<and> mem_renew_lease key owner' now' expires' t = (Inr False, t)
    \<and> mem_release_lease key owner' t = (Inr False, t)
    \<and> (\<exists>e. mem_update_status_with_lease wall oid st key owner' now' expd u ch t = (Inl e, t)
          \<and> exn_cls e = StatusConflictError)"
  using lease_excludes[OF assms] by blast

theorem lease_is_exclusive_witness:
  "\<exists>t. mem_acquire_lease ''k'' ''one'' ''1'' ''5'' empty_store = (Inr True, t)
     \<and> mem_acquire_lease ''k'' ''two'' ''3'' ''9'' t = (Inr False, t)"
proof -
  let ?c = "mem_acquire_lease ''k'' ''one'' ''1'' ''5'' empty_store"
  have "fst ?c = Inr True" by code_simp
  then obtain t where c: "?c = (Inr True, t)" by (cases ?c) simp
  have "''3'' < (''5'' :: string)" by code_simp
  from lease_is_exclusive[OF c this, of "''two''" "''9''"] c show ?thesis by auto
qed

text \<open>C19. Listing a workflow of a well-formed store never fails and shows each of its attempts
  exactly once, and no other workflow's.\<close>

theorem listing_exact:
  assumes "store_ok s"
  shows "\<exists>vs. mem_list_by_workflow_execution w s = (Inr vs, s)
    \<and> distinct (map (\<lambda>v. dget v ''id'') (task_executions vs))
    \<and> set (task_executions vs) = {v \<in> snd ` set (objects s). dget v ''kind'' = JStr ''TaskExecution''
          \<and> workflow_execution_id_of v = Some w}"
  using list_workflow_attempts[OF assms] .

theorem listing_exact_witness:
  "\<exists>vs. mem_list_by_workflow_execution ''w1'' sample_store = (Inr vs, sample_store)
    \<and> distinct (map (\<lambda>v. dget v ''id'') (task_executions vs))"
  using listing_exact[OF sample_store_ok] by blast

section \<open>Observability and identity\<close>


text \<open>A correlation context read from boundary fields is the one read back from the fields it
  writes.\<close>

theorem correlation_round_trip:
  assumes "from_boundary_fields d = Inr c"
  shows "from_boundary_fields (to_boundary_fields c) = Inr c"
  using boundary_round_trip[OF assms] .

theorem correlation_round_trip_witness:
  "\<exists>c. from_boundary_fields [(''traceId'', JStr '' t ''), (''workflowExecutionId'', JStr ''w'')] = Inr c
    \<and> from_boundary_fields (to_boundary_fields c) = Inr c"
proof -
  have "from_boundary_fields [(''traceId'', JStr '' t ''), (''workflowExecutionId'', JStr ''w'')]
      = Inr \<lparr>cor_trace = ''t'', cor_workflow = ''w'', cor_task = None\<rparr>" by code_simp
  from correlation_round_trip[OF this] this show ?thesis by blast
qed

text \<open>The identity of a context depends on its inputs only: contexts that differ in their
  execution-specific keys (trace, workflow and task ids, snapshot and artifact timestamps) have
  the same identity, and are refused together.\<close>

theorem context_identity_of_inputs:
  assumes "same_inputs c c'"
  shows "context_identity env c = context_identity env c'"
  using identity_payload_cong[OF assms] by (simp add: context_identity_def)

theorem context_identity_of_inputs_witness:
  "context_identity sample_env [(''taskRef'', JStr ''t''), (''tokenBudget'', JInt 1), (''id'', JStr ''one'')]
     = context_identity sample_env [(''tokenBudget'', JInt 1), (''taskRef'', JStr ''t''), (''id'', JStr ''two'')]"
  by (rule context_identity_of_inputs) code_simp

text \<open>The error a record is rejected with does not depend on the order in which the schema
  validator reports its errors.\<close>

theorem schema_error_deterministic:
  assumes "set (iter_errors v) = set (iter_errors' v)"
  shows "validate_with iter_errors cls p v = validate_with iter_errors' cls p v"
proof (cases "first_error (iter_errors v)")
  case None
  then have "iter_errors' v = []" using assms by (simp add: first_error_None)
  then show ?thesis using None by (simp add: validate_with_def first_error_None[THEN iffD2])
next
  case (Some e)
  then have "iter_errors' v \<noteq> []" using assms first_error_least[OF Some] by auto
  then obtain e' where e': "first_error (iter_errors' v) = Some e'" using first_error_None by blast
  have "(err_path e, err_message e) \<le> (err_path e', err_message e')"
    and "(err_path e', err_message e') \<le> (err_path e, err_message e)"
    using first_error_least[OF Some] first_error_least[OF e'] assms by blast+
  then have "(err_path e, err_message e) = (err_path e', err_message e')" by (rule antisym)
  then show ?thesis using Some e' by (simp add: validate_with_def)
qed

theorem schema_error_deterministic_witness:
  "validate_with (\<lambda>v. [\<lparr>err_path = [], err_message = ''b''\<rparr>, \<lparr>err_path = [], err_message = ''a''\<rparr>]) ValueError ''p'' JNull
     = validate_with (\<lambda>v. [\<lparr>err_path = [], err_message = ''a''\<rparr>, \<lparr>err_path = [], err_message = ''b''\<rparr>]) ValueError ''p'' JNull"
  by (rule schema_error_deterministic) auto

text \<open>A leap-second timestamp passes the RFC3339 check and is refused by the parser that reads
  checked timestamps, so comparing it raises.\<close>

theorem leap_second_refused:
  assumes "scan_timestamp s = Some t" "ts_second t = 60" "env_iso env (replace_Z s) = None"
  shows "parse_timestamp env s = Inl (value_error (''Invalid isoformat string: '' @ repr_str (replace_Z s)))"
  using parse_time_leap_second[OF assms(1,2)] by (simp add: parse_timestamp_def)

theorem leap_second_refused_witness:
  "is_rfc3339_timestamp (JStr ''2016-12-31T23:59:60Z'')
    \<and> isl (parse_timestamp sample_env ''2016-12-31T23:59:60Z'')"
proof -
  have "scan_timestamp ''2016-12-31T23:59:60Z'' = Some \<lparr>ts_year = 2016, ts_month = 12, ts_day = 31, ts_hour = 23,
      ts_minute = 59, ts_second = 60, ts_fraction = [], ts_offset = 0\<rparr>"
    by code_simp
  from leap_second_refused[OF this, of sample_env] have "isl (parse_timestamp sample_env ''2016-12-31T23:59:60Z'')"
    by (simp add: sample_env_def)
  moreover have "is_rfc3339_timestamp (JStr ''2016-12-31T23:59:60Z'')" by code_simp
  ultimately show ?thesis by simp
qed

section \<open>Task graphs\<close>

text \<open>C25. A plan holds every declared task once, behind all of its dependencies, in groups that are
  exactly the tasks the groups before them make ready.\<close>

theorem plan_topological:
  assumes "resolve_task_dag workflow resources = Some (Inr plan)" "tp_nodes plan = xs @ n # ys"
  shows "distinct (topological_order plan) \<and> set (pn_dependencies n) \<subseteq> pn_ref ` set xs
    \<and> concat (tp_ready_groups plan) = topological_order plan
    \<and> (\<exists>g. declared_graph workflow resources = Inr g \<and> set (topological_order plan) = set (graph_refs g)
          \<and> staged g {} (tp_ready_groups plan))"
proof -
  obtain g where g: "declared_graph workflow resources = Inr g" "graph_ok g" "plan_of g plan"
    using resolve_Inr[OF assms(1)] by blast
  then show ?thesis using staged_before[OF g(2,3) assms(2)] by (auto simp: plan_of_def)
qed

theorem plan_topological_witness:
  "\<exists>plan n ys. resolve_task_dag (sample_graph []) sample_collection = Some (Inr plan)
     \<and> tp_nodes plan = [n] @ ys \<and> distinct (topological_order plan)"
proof -
  have "case resolve_task_dag (sample_graph []) sample_collection of Some (Inr plan) \<Rightarrow> tp_nodes plan \<noteq> [] | _ \<Rightarrow> False"
    by code_simp
  then obtain plan where p: "resolve_task_dag (sample_graph []) sample_collection = Some (Inr plan)" "tp_nodes plan \<noteq> []"
    by (auto split: option.splits sum.splits)
  then obtain n ys where "tp_nodes plan = [] @ n # ys" by (cases "tp_nodes plan") auto
  with plan_topological[OF p(1) this] p(1) show ?thesis by auto
qed

text \<open>C26. Resolving a declared graph always ends; it gives a plan exactly when the dependencies
  have no cycle, and the cyclic-dependency error otherwise.\<close>

theorem plan_iff_acyclic:
  assumes "declared_graph workflow resources = Inr g"
  shows "if acyclic (edges g) then \<exists>plan. resolve_task_dag workflow resources = Some (Inr plan)
    else \<exists>d. resolve_task_dag workflow resources = Some (Inl (cyclic_error workflow g d))"
  using plan_graph_cases[OF declared_graph_ok[OF assms], of workflow] assms
  by (auto simp: resolve_task_dag_def)

theorem plan_iff_acyclic_witness:
  "\<exists>g. declared_graph (sample_graph [''b'']) sample_collection = Inr g \<and> \<not> acyclic (edges g)"
proof -
  let ?r = "declared_graph (sample_graph [''b'']) sample_collection"
  have "\<not> isl ?r" by code_simp
  then obtain g where g: "?r = Inr g" by (cases ?r) auto
  have "case resolve_task_dag (sample_graph [''b'']) sample_collection of Some (Inr p) \<Rightarrow> False | _ \<Rightarrow> True" by code_simp
  with plan_iff_acyclic[OF g] g show ?thesis by (auto split: if_splits)
qed

end
